(* ===== verification/Prelude.thy ===== *)
theory Prelude
  imports Complex_Main
begin

text \<open>
  Shared vocabulary of the development: results of fallible operations, rows of a
  relational table and the two table operations that the Prisma client offers for
  existing rows (\<open>update\<close>/\<open>updateMany\<close> and \<open>findFirst\<close>/\<open>findUnique\<close>), with the generic
  lemmas that the component theories use. A table is a list of rows in insertion order.
\<close>

named_theorems row_simps \<open>effect of the table operations on keys and contents\<close>
named_theorems fl_intros \<open>facts that bound the rounding of double arithmetic\<close>

section \<open>Results and errors\<close>

text \<open>
  An exception of the server is a value of \<open>http_error\<close>: the Nest exception class, and its
  \<open>code\<close> field where the source sets one, otherwise a short ASCII gloss of its message.
  \<open>Unique_violation\<close> is Prisma's error P2002, \<open>Check_violation\<close> a failed CHECK
  constraint, \<open>Range_error\<close> and \<open>Plain_error\<close> JavaScript's \<open>RangeError\<close> and \<open>Error\<close>.
\<close>

datatype http_error =
    Bad_request string
  | Unauthorized string
  | Forbidden string
  | Not_found string
  | Conflict string
  | Too_many_requests string
  | Service_unavailable string
  | Internal_error string
  | Range_error string
  | Plain_error string
  | Unique_violation string
  | Check_violation string

type_synonym 'a result = "http_error + 'a"

definition is_ok :: "'a result \<Rightarrow> bool" where
  "is_ok r = (case r of Inl _ \<Rightarrow> False | Inr _ \<Rightarrow> True)"

definition bind_result :: "'a result \<Rightarrow> ('a \<Rightarrow> 'b result) \<Rightarrow> 'b result" where
  "bind_result r f = (case r of Inl e \<Rightarrow> Inl e | Inr x \<Rightarrow> f x)"

lemmas bind_result_code [code_unfold] = bind_result_def

lemma bind_result_simps [simp]:
  "bind_result (Inl e) f = Inl e"
  "bind_result (Inr x) f = f x"
  by (simp_all add: bind_result_def)

lemma bind_result_Inr_iff: "bind_result r f = Inr y \<longleftrightarrow> (\<exists>x. r = Inr x \<and> f x = Inr y)"
  by (cases r) auto

lemma is_ok_simps [simp]: "is_ok (Inl e) = False" "is_ok (Inr x) = True"
  by (simp_all add: is_ok_def)

section \<open>Rows of a table\<close>

definition update_rows :: "('r \<Rightarrow> bool) \<Rightarrow> ('r \<Rightarrow> 'r) \<Rightarrow> 'r list \<Rightarrow> 'r list" where
  "update_rows p f rs = map (\<lambda>r. if p r then f r else r) rs"

definition count_rows :: "('r \<Rightarrow> bool) \<Rightarrow> 'r list \<Rightarrow> nat" where
  "count_rows p rs = length (filter p rs)"

definition exists_row :: "('r \<Rightarrow> bool) \<Rightarrow> 'r list \<Rightarrow> bool" where
  "exists_row p rs = list_ex p rs"

lemma update_rows_Nil [simp]: "update_rows p f [] = []"
  by (simp add: update_rows_def)

lemma update_rows_Cons [simp]:
  "update_rows p f (r # rs) = (if p r then f r else r) # update_rows p f rs"
  by (simp add: update_rows_def)

lemma update_rows_append [simp]:
  "update_rows p f (rs @ ss) = update_rows p f rs @ update_rows p f ss"
  by (simp add: update_rows_def)

lemma length_update_rows [simp]: "length (update_rows p f rs) = length rs"
  by (simp add: update_rows_def)

lemma set_update_rows:
  "set (update_rows p f rs) = (\<lambda>r. if p r then f r else r) ` set rs"
  by (simp add: update_rows_def)

lemma update_rows_key [row_simps]:
  assumes "\<And>r. k (f r) = k r"
  shows "map k (update_rows p f rs) = map k rs"
  using assms by (simp add: update_rows_def)

lemma update_rows_none: "(\<And>r. r \<in> set rs \<Longrightarrow> \<not> p r) \<Longrightarrow> update_rows p f rs = rs"
  by (induction rs) auto

lemma in_update_rowsE:
  assumes "y \<in> set (update_rows p f rs)"
  obtains x where "x \<in> set rs" "p x" "y = f x" | "y \<in> set rs" "\<not> p y"
  using assms by (auto simp: set_update_rows split: if_splits)

lemma exists_row_iff [simp]: "exists_row p rs \<longleftrightarrow> (\<exists>r \<in> set rs. p r)"
  by (simp add: exists_row_def list_ex_iff)

lemma count_rows_zero_iff: "count_rows p rs = 0 \<longleftrightarrow> (\<forall>r \<in> set rs. \<not> p r)"
  by (auto simp: count_rows_def filter_empty_conv)

lemma count_rows_append [simp]: "count_rows p (rs @ ss) = count_rows p rs + count_rows p ss"
  by (simp add: count_rows_def)

lemma count_rows_single [simp]: "count_rows p [r] = (if p r then 1 else 0)"
  by (simp add: count_rows_def)

lemma count_rows_mono:
  "(\<And>r. r \<in> set rs \<Longrightarrow> p r \<Longrightarrow> q r) \<Longrightarrow> count_rows p rs \<le> count_rows q rs"
  by (induction rs) (auto simp: count_rows_def)

section \<open>Finding rows\<close>

lemma find_SomeD: "List.find p rs = Some r \<Longrightarrow> r \<in> set rs \<and> p r"
  by (induction rs) (auto split: if_splits)

lemma find_None_iff_ball: "List.find p rs = None \<longleftrightarrow> (\<forall>r \<in> set rs. \<not> p r)"
  by (induction rs) auto

lemma find_unique:
  assumes "distinct (map k rs)" and "r \<in> set rs"
  shows "List.find (\<lambda>x. k x = k r) rs = Some r"
  using assms by (induction rs) auto

lemma distinct_key_eq:
  assumes "distinct (map k rs)" and "x \<in> set rs" and "y \<in> set rs" and "k x = k y"
  shows "x = y"
  using assms by (auto simp: distinct_map dest: inj_onD)

lemma find_key_distinct:
  assumes "distinct (map k rs)"
  shows "List.find (\<lambda>x. k x = i) rs = Some r \<longleftrightarrow> r \<in> set rs \<and> k r = i"
proof
  assume "List.find (\<lambda>x. k x = i) rs = Some r"
  then show "r \<in> set rs \<and> k r = i" by (rule find_SomeD)
next
  assume "r \<in> set rs \<and> k r = i"
  then show "List.find (\<lambda>x. k x = i) rs = Some r"
    using find_unique [of k rs r] assms by simp
qed

lemma count_rows_one:
  assumes "distinct (map k rs)" and "r \<in> set rs" and "\<And>x. x \<in> set rs \<Longrightarrow> p x \<longleftrightarrow> k x = k r"
  shows "count_rows p rs = 1"
  using assms
proof (induction rs)
  case (Cons x rs)
  show ?case
  proof (cases "x = r")
    case True
    then have "\<not> p y" if "y \<in> set rs" for y
      using Cons.prems(1) Cons.prems(3) [of y] that by (force simp: image_iff)
    then have "count_rows p rs = 0" by (simp add: count_rows_zero_iff)
    then show ?thesis using True Cons.prems(3) by (simp add: count_rows_def)
  next
    case False
    then have r: "r \<in> set rs" using Cons.prems(2) by simp
    then have "\<not> p x" using Cons.prems(1,3) by (force simp: image_iff)
    then show ?thesis using Cons.IH [OF _ r] Cons.prems by (simp add: count_rows_def)
  qed
qed simp

lemma find_append: "List.find p (xs @ ys) = (case List.find p xs of None \<Rightarrow> List.find p ys | Some x \<Rightarrow> Some x)"
  by (induction xs) auto

lemma find_cong_key: "(\<And>r. r \<in> set rs \<Longrightarrow> p r = q r) \<Longrightarrow> List.find p rs = List.find q rs"
  by (induction rs) auto

lemma find_update_rows:
  assumes "\<And>r. p r \<Longrightarrow> q (f r) = q r"
  shows "List.find q (update_rows p f rs) =
    map_option (\<lambda>r. if p r then f r else r) (List.find q rs)"
  using assms by (induction rs) auto

section \<open>Invariants of a step relation\<close>

text \<open>
  The interface between a component's step relation and the properties of the states it
  reaches: an invariant that each step keeps is kept by every sequence of steps.
\<close>

locale step_invariant =
  fixes step :: "'s \<Rightarrow> 's \<Rightarrow> bool"
    and inv :: "'s \<Rightarrow> bool"
  assumes inv_step: "step s t \<Longrightarrow> inv s \<Longrightarrow> inv t"
begin

lemma inv_steps: "step\<^sup>*\<^sup>* s t \<Longrightarrow> inv s \<Longrightarrow> inv t"
  by (induction rule: rtranclp_induct) (auto intro: inv_step)

end

text \<open>Two invariants of one relation hold together.\<close>

locale step_invariants = a: step_invariant step inv1 + b: step_invariant step inv2
  for step :: "'s \<Rightarrow> 's \<Rightarrow> bool" and inv1 inv2 :: "'s \<Rightarrow> bool"

sublocale step_invariants \<subseteq> both: step_invariant step "\<lambda>s. inv1 s \<and> inv2 s"
  by unfold_locales (auto intro: a.inv_step b.inv_step)

end
