(* ===== verification/Workflow.thy ===== *)
theory Workflow
  imports Prelude
begin

text \<open>
  The status machines of the program: the enumerations of the database schema, the declared
  contracts of \<open>common/domain/workflow-contract.ts\<close>, the transition table of
  \<open>payments/deposit-state.ts\<close> and the participant's next action of
  \<open>booking/booking-next-action.ts\<close>. The locale \<open>lifecycle\<close> collects what follows from a
  machine whose edges all increase a rank; it is interpreted on the booking, payment,
  dispute and deposit machines.
\<close>

section \<open>Statuses\<close>

datatype booking_status =
  Bk_PENDING | Bk_CONFIRMED | Bk_ACTIVE | Bk_RETURNED | Bk_COMPLETED | Bk_CANCELLED

datatype payment_status = Pay_PENDING | Pay_SUCCEEDED | Pay_FAILED | Pay_CANCELLED

datatype payout_status =
  Out_PENDING | Out_PROCESSING | Out_SUCCEEDED | Out_FAILED | Out_CANCELLED

datatype dispute_status = Dis_OPEN | Dis_UNDER_REVIEW | Dis_RESOLVED

datatype deposit_status =
  Dep_PENDING | Dep_HELD | Dep_DISPUTED | Dep_RESOLVING | Dep_RESOLVED | Dep_CANCELLED

definition BOOKING_STATUSES :: "booking_status list" where
  "BOOKING_STATUSES =
     [Bk_PENDING, Bk_CONFIRMED, Bk_ACTIVE, Bk_RETURNED, Bk_COMPLETED, Bk_CANCELLED]"

definition PAYMENT_STATUSES :: "payment_status list" where
  "PAYMENT_STATUSES = [Pay_PENDING, Pay_SUCCEEDED, Pay_FAILED, Pay_CANCELLED]"

definition PAYOUT_STATUSES :: "payout_status list" where
  "PAYOUT_STATUSES = [Out_PENDING, Out_PROCESSING, Out_SUCCEEDED, Out_FAILED, Out_CANCELLED]"

definition DISPUTE_STATUSES :: "dispute_status list" where
  "DISPUTE_STATUSES = [Dis_OPEN, Dis_UNDER_REVIEW, Dis_RESOLVED]"

section \<open>Declared workflow contracts\<close>

record 's wf_transition =
  wf_command :: string
  wf_from :: 's
  wf_to :: 's
  wf_actors :: "string list"
  wf_preconditions :: "string list"

definition tr :: "string \<Rightarrow> 's \<Rightarrow> 's \<Rightarrow> string list \<Rightarrow> string list \<Rightarrow> 's wf_transition" where
  "tr c f t as ps =
     \<lparr>wf_command = c, wf_from = f, wf_to = t, wf_actors = as, wf_preconditions = ps\<rparr>"

definition booking_contract :: "booking_status wf_transition list" where
  "booking_contract =
     [tr ''confirm'' Bk_PENDING Bk_CONFIRMED [''LENDER'']
        [''notExpired'', ''periodAvailable'', ''versionMatches''],
      tr ''cancel'' Bk_PENDING Bk_CANCELLED [''BORROWER'', ''LENDER'']
        [''participant'', ''versionMatches''],
      tr ''expire'' Bk_PENDING Bk_CANCELLED [''SYSTEM'']
        [''expiresAtReached'', ''reasonIsPendingTimeout''],
      tr ''cancel'' Bk_CONFIRMED Bk_CANCELLED [''BORROWER'', ''LENDER'']
        [''participant'', ''cancellationPolicyAllows''],
      tr ''activate'' Bk_CONFIRMED Bk_ACTIVE [''BORROWER'', ''LENDER'']
        [''participant'', ''handoverConfirmedByBoth''],
      tr ''return'' Bk_ACTIVE Bk_RETURNED [''BORROWER'', ''LENDER'']
        [''participant'', ''returnConfirmedByBoth''],
      tr ''complete'' Bk_RETURNED Bk_COMPLETED [''SYSTEM'']
        [''disputeWindowClosed'', ''noOpenDispute'']]"

definition payment_contract :: "payment_status wf_transition list" where
  "payment_contract =
     [tr ''succeed'' Pay_PENDING Pay_SUCCEEDED [''PAYMENT_PROVIDER'']
        [''providerEventVerified'', ''amountAndCurrencyMatch''],
      tr ''fail'' Pay_PENDING Pay_FAILED [''PAYMENT_PROVIDER''] [''providerEventVerified''],
      tr ''cancel'' Pay_PENDING Pay_CANCELLED [''SYSTEM'', ''PAYMENT_PROVIDER'']
        [''bookingCancelledOrProviderCancelled'']]"

definition payout_contract :: "payout_status wf_transition list" where
  "payout_contract =
     [tr ''start'' Out_PENDING Out_PROCESSING [''SYSTEM'']
        [''bookingReturned'', ''disputeWindowClosed'', ''noOpenDispute'', ''recipientEligible''],
      tr ''cancel'' Out_PENDING Out_CANCELLED [''SYSTEM''] [''disputeOpenedBeforeDispatch''],
      tr ''succeed'' Out_PROCESSING Out_SUCCEEDED [''PAYMENT_PROVIDER''] [''providerEventVerified''],
      tr ''fail'' Out_PROCESSING Out_FAILED [''PAYMENT_PROVIDER''] [''providerEventVerified''],
      tr ''retry'' Out_FAILED Out_PROCESSING [''SYSTEM''] [''newAttemptCreated'', ''noOpenDispute'']]"

definition dispute_contract :: "dispute_status wf_transition list" where
  "dispute_contract =
     [tr ''review'' Dis_OPEN Dis_UNDER_REVIEW [''ADMIN_DISPUTE'']
        [''stepUpValid'', ''capabilityPresent'', ''auditEnabled''],
      tr ''resolve'' Dis_OPEN Dis_RESOLVED [''ADMIN_DISPUTE'']
        [''stepUpValid'', ''resolutionAllowed'', ''auditEnabled''],
      tr ''resolve'' Dis_UNDER_REVIEW Dis_RESOLVED [''ADMIN_DISPUTE'']
        [''stepUpValid'', ''resolutionAllowed'', ''auditEnabled'']]"

text \<open>A contract allows a step when it lists the command, both statuses and the actor.\<close>

definition contract_allows :: "'s wf_transition list \<Rightarrow> string \<Rightarrow> string \<Rightarrow> 's \<Rightarrow> 's \<Rightarrow> bool" where
  "contract_allows c command actor old new =
     exists_row (\<lambda>t. wf_command t = command \<and> actor \<in> set (wf_actors t)
       \<and> wf_from t = old \<and> wf_to t = new) c"

definition contract_edge :: "'s wf_transition list \<Rightarrow> 's \<Rightarrow> 's \<Rightarrow> bool" where
  "contract_edge c old new = exists_row (\<lambda>t. wf_from t = old \<and> wf_to t = new) c"

lemma contract_allows_edge: "contract_allows c cmd a x y \<Longrightarrow> contract_edge c x y"
  by (auto simp: contract_allows_def contract_edge_def)

section \<open>The deposit's transition table\<close>

fun ALLOWED_TRANSITIONS :: "deposit_status \<Rightarrow> deposit_status list" where
  "ALLOWED_TRANSITIONS Dep_PENDING = [Dep_HELD, Dep_CANCELLED]"
| "ALLOWED_TRANSITIONS Dep_HELD = [Dep_DISPUTED, Dep_RESOLVING]"
| "ALLOWED_TRANSITIONS Dep_DISPUTED = [Dep_RESOLVING]"
| "ALLOWED_TRANSITIONS Dep_RESOLVING = [Dep_RESOLVED]"
| "ALLOWED_TRANSITIONS Dep_RESOLVED = []"
| "ALLOWED_TRANSITIONS Dep_CANCELLED = []"

definition assert_deposit_transition :: "deposit_status \<Rightarrow> deposit_status \<Rightarrow> unit result" where
  "assert_deposit_transition current nxt =
     (if nxt \<notin> set (ALLOWED_TRANSITIONS current)
      then Inl (Plain_error ''illegal-deposit-transition'') else Inr ())"

definition deposit_edge :: "deposit_status \<Rightarrow> deposit_status \<Rightarrow> bool" where
  "deposit_edge x y \<longleftrightarrow> y \<in> set (ALLOWED_TRANSITIONS x)"

text \<open>
  Deposit statuses in the order of the lifecycle; the library's order on them lets a
  status be compared with \<open>\<le>\<close>.
\<close>

fun deposit_rank :: "deposit_status \<Rightarrow> nat" where
  "deposit_rank Dep_PENDING = 0"
| "deposit_rank Dep_HELD = 1"
| "deposit_rank Dep_DISPUTED = 2"
| "deposit_rank Dep_RESOLVING = 3"
| "deposit_rank Dep_RESOLVED = 4"
| "deposit_rank Dep_CANCELLED = 5"

lemma deposit_rank_inject [simp]: "deposit_rank x = deposit_rank y \<longleftrightarrow> x = y"
  by (cases x; cases y) auto

instantiation deposit_status :: linorder
begin

definition less_eq_deposit_status :: "deposit_status \<Rightarrow> deposit_status \<Rightarrow> bool" where
  "less_eq_deposit_status x y \<longleftrightarrow> deposit_rank x \<le> deposit_rank y"

definition less_deposit_status :: "deposit_status \<Rightarrow> deposit_status \<Rightarrow> bool" where
  "less_deposit_status x y \<longleftrightarrow> deposit_rank x < deposit_rank y"

instance
  by standard (auto simp: less_eq_deposit_status_def less_deposit_status_def
      dest: antisym)

end

section \<open>Machines whose edges increase a rank\<close>

locale lifecycle =
  fixes edge :: "'s \<Rightarrow> 's \<Rightarrow> bool"
    and rank :: "'s \<Rightarrow> nat"
    and top :: nat
  assumes edge_rank: "edge x y \<Longrightarrow> rank x < rank y"
    and rank_top: "rank x \<le> top"
begin

lemma trancl_rank: "edge\<^sup>+\<^sup>+ x y \<Longrightarrow> rank x < rank y"
  by (induction rule: tranclp_induct) (auto dest: edge_rank intro: less_trans)

lemma rtrancl_rank: "edge\<^sup>*\<^sup>* x y \<Longrightarrow> rank x \<le> rank y"
  by (induction rule: rtranclp_induct) (auto dest: edge_rank)

lemma no_return: "edge\<^sup>+\<^sup>+ x y \<Longrightarrow> \<not> edge\<^sup>*\<^sup>* y x"
  using trancl_rank rtrancl_rank by (meson leD)

lemma path_length: "(edge ^^ n) x y \<Longrightarrow> rank x + n \<le> rank y"
proof (induction n arbitrary: y)
  case 0
  then show ?case by simp
next
  case (Suc n)
  then obtain z where "(edge ^^ n) x z" "edge z y" by auto
  with Suc.IH [of z] edge_rank [of z y] show ?case by simp
qed

lemma path_bounded: "(edge ^^ n) x y \<Longrightarrow> n \<le> top"
  using path_length [of n x y] rank_top [of y] by simp

end

fun booking_rank :: "booking_status \<Rightarrow> nat" where
  "booking_rank Bk_PENDING = 0"
| "booking_rank Bk_CONFIRMED = 1"
| "booking_rank Bk_ACTIVE = 2"
| "booking_rank Bk_RETURNED = 3"
| "booking_rank Bk_COMPLETED = 4"
| "booking_rank Bk_CANCELLED = 4"

fun payment_rank :: "payment_status \<Rightarrow> nat" where
  "payment_rank Pay_PENDING = 0"
| "payment_rank _ = 1"

fun dispute_rank :: "dispute_status \<Rightarrow> nat" where
  "dispute_rank Dis_OPEN = 0"
| "dispute_rank Dis_UNDER_REVIEW = 1"
| "dispute_rank Dis_RESOLVED = 2"

lemma booking_edge_cases:
  "contract_edge booking_contract x y \<longleftrightarrow>
     (x, y) \<in> {(Bk_PENDING, Bk_CONFIRMED), (Bk_PENDING, Bk_CANCELLED), (Bk_CONFIRMED, Bk_CANCELLED),
       (Bk_CONFIRMED, Bk_ACTIVE), (Bk_ACTIVE, Bk_RETURNED), (Bk_RETURNED, Bk_COMPLETED)}"
  by (auto simp: contract_edge_def booking_contract_def tr_def)

interpretation booking_life: lifecycle "contract_edge booking_contract" booking_rank 4
proof
  show "contract_edge booking_contract x y \<Longrightarrow> booking_rank x < booking_rank y" for x y
    by (auto simp: booking_edge_cases)
  show "booking_rank x \<le> 4" for x by (cases x) auto
qed

interpretation payment_life: lifecycle "contract_edge payment_contract" payment_rank 1
proof
  show "contract_edge payment_contract x y \<Longrightarrow> payment_rank x < payment_rank y" for x y
    by (auto simp: contract_edge_def payment_contract_def tr_def)
  show "payment_rank x \<le> 1" for x by (cases x) auto
qed

interpretation dispute_life: lifecycle "contract_edge dispute_contract" dispute_rank 2
proof
  show "contract_edge dispute_contract x y \<Longrightarrow> dispute_rank x < dispute_rank y" for x y
    by (auto simp: contract_edge_def dispute_contract_def tr_def)
  show "dispute_rank x \<le> 2" for x by (cases x) auto
qed

interpretation deposit_life: lifecycle deposit_edge deposit_rank 5
proof
  show "deposit_edge x y \<Longrightarrow> deposit_rank x < deposit_rank y" for x y
    by (cases x) (auto simp: deposit_edge_def)
  show "deposit_rank x \<le> 5" for x by (cases x) auto
qed

text \<open>
  C11. A deposit's life is at most four steps long and never returns to an earlier status:
  every allowed transition moves strictly up in the lifecycle order, and a resolved or
  cancelled deposit has no successor.
\<close>

theorem deposit_lifecycle:
  "(assert_deposit_transition x y = Inr () \<longrightarrow> x < y)
   \<and> (deposit_edge\<^sup>+\<^sup>+ x y \<longrightarrow> \<not> deposit_edge\<^sup>*\<^sup>* y x)
   \<and> ((deposit_edge ^^ n) x y \<longrightarrow> n \<le> 4)
   \<and> (\<forall>z. x \<in> {Dep_RESOLVED, Dep_CANCELLED} \<longrightarrow> assert_deposit_transition x z \<noteq> Inr ())"
proof (intro conjI impI allI)
  assume "assert_deposit_transition x y = Inr ()"
  then show "x < y"
    using deposit_life.edge_rank [of x y]
    by (auto simp: assert_deposit_transition_def deposit_edge_def less_deposit_status_def split: if_splits)
next
  assume "deposit_edge\<^sup>+\<^sup>+ x y"
  then show "\<not> deposit_edge\<^sup>*\<^sup>* y x" by (rule deposit_life.no_return)
next
  assume p: "(deposit_edge ^^ n) x y"
  have "deposit_rank y \<noteq> 5 \<or> n \<le> 4"
  proof (cases n)
    case (Suc k)
    with p obtain z where "(deposit_edge ^^ k) x z" "deposit_edge z y" by auto
    then show ?thesis
      using deposit_life.path_length [of k x z] Suc by (cases z) (auto simp: deposit_edge_def)
  qed simp
  then show "n \<le> 4"
    using deposit_life.path_length [OF p] deposit_life.rank_top [of y] by linarith
next
  fix z assume "x \<in> {Dep_RESOLVED, Dep_CANCELLED}"
  then show "assert_deposit_transition x z \<noteq> Inr ()"
    by (auto simp: assert_deposit_transition_def)
qed

theorem deposit_lifecycle_witness:
  "Dep_HELD < Dep_RESOLVING \<and> assert_deposit_transition Dep_RESOLVED Dep_HELD \<noteq> Inr ()"
proof -
  have "assert_deposit_transition Dep_HELD Dep_RESOLVING = Inr ()"
    by (simp add: assert_deposit_transition_def)
  then show ?thesis
    using deposit_lifecycle [of Dep_HELD Dep_RESOLVING 0] deposit_lifecycle [of Dep_RESOLVED Dep_HELD 0]
    by simp
qed

section \<open>The participant's next action\<close>

datatype actor_role = BORROWER | LENDER

datatype next_action_code =
  WAIT_LENDER | REVIEW_REQUEST | PREPARE_HANDOVER | USE_ITEM | WAIT_RETURN | REVIEW_RETURN
  | LEAVE_REVIEW | NO_ACTION

text \<open>The title and description of an action are fixed by its code and left out.\<close>

definition booking_next_action :: "booking_status \<Rightarrow> actor_role \<Rightarrow> next_action_code" where
  "booking_next_action status actorRole =
     (if status = Bk_PENDING then (if actorRole = LENDER then REVIEW_REQUEST else WAIT_LENDER)
      else if status = Bk_CONFIRMED then PREPARE_HANDOVER
      else if status = Bk_ACTIVE then (if actorRole = LENDER then WAIT_RETURN else USE_ITEM)
      else if status = Bk_RETURNED then REVIEW_RETURN
      else if status = Bk_COMPLETED then LEAVE_REVIEW
      else NO_ACTION)"

end
