(* ===== verification/Js_Number.thy ===== *)
theory Js_Number
  imports Prelude "HOL-Library.Log_Nat"
begin

text \<open>
  JavaScript numbers. The server keeps money as exact decimals and \<open>bigint\<close> minor units,
  but a booking's terms snapshot stores rouble amounts as JSON numbers, that is, as IEEE 754
  doubles. A finite double is modelled by the rational it denotes, and every operation of
  the source on such values rounds its exact result to the nearest double, ties to even
  (\<open>fl\<close>). Amounts stay far below the overflow threshold of doubles, so infinities do not
  arise. The lemmas bound the rounding error by the magnitude of the argument and show
  that integers below \<open>2 ^ 53\<close> are exact.
\<close>

section \<open>Rounding to the nearest double\<close>

definition rne :: "rat \<Rightarrow> int" where
  "rne x =
     (let f = \<lfloor>x\<rfloor>; d = x - of_int f
      in if d < 1/2 then f else if 1/2 < d then f + 1 else if even f then f else f + 1)"

text \<open>
  \<open>fl_grid k x\<close> rounds \<open>x \<ge> 0\<close> to 53 significant bits, on the grid of multiples of
  \<open>2 ^ (- k)\<close>. Doubles are the case \<open>k = 1074\<close>, which also covers subnormals: there the
  shift \<open>s\<close> is 0.
\<close>

definition fl_grid :: "nat \<Rightarrow> rat \<Rightarrow> rat" where
  "fl_grid k x =
     (let n = x * 2 ^ k; s = floorlog 2 (nat \<lfloor>n\<rfloor>) - 53
      in of_int (rne (n / 2 ^ s)) * 2 ^ s / 2 ^ k)"

definition fl :: "rat \<Rightarrow> rat" where
  "fl x = (if x < 0 then - fl_grid 1074 (- x) else fl_grid 1074 x)"

definition js_mul :: "rat \<Rightarrow> rat \<Rightarrow> rat" where
  "js_mul a b = fl (a * b)"

definition js_add :: "rat \<Rightarrow> rat \<Rightarrow> rat" where
  "js_add a b = fl (a + b)"

definition js_sub :: "rat \<Rightarrow> rat \<Rightarrow> rat" where
  "js_sub a b = fl (a - b)"

text \<open>\<open>Math.round\<close>: the nearest integer, ties towards plus infinity.\<close>

definition js_round :: "rat \<Rightarrow> int" where
  "js_round x = \<lfloor>x + 1/2\<rfloor>"

definition max_safe :: int where
  "max_safe = 9007199254740991"

definition is_integer :: "rat \<Rightarrow> bool" where
  "is_integer x \<longleftrightarrow> of_int \<lfloor>x\<rfloor> = x"

definition is_safe_integer :: "rat \<Rightarrow> bool" where
  "is_safe_integer x \<longleftrightarrow> is_integer x \<and> \<bar>\<lfloor>x\<rfloor>\<bar> \<le> max_safe"

section \<open>The rounding error\<close>

lemma rne_error: "\<bar>of_int (rne x) - x\<bar> \<le> 1/2"
proof -
  have lo: "of_int \<lfloor>x\<rfloor> \<le> x" and hi: "x < of_int \<lfloor>x\<rfloor> + 1"
    by linarith+
  then show ?thesis
    by (auto simp: rne_def Let_def abs_le_iff)
qed

lemma rne_of_int [simp]: "rne (of_int n) = n"
  by (simp add: rne_def)

lemma floorlog_le_of_less:
  assumes "x < 2 ^ k"
  shows "floorlog 2 x \<le> k"
  using assms by (intro floorlog_leI) auto

lemma shift_bound:
  fixes x :: rat
  assumes "0 \<le> x" and "x < 2 ^ e"
  shows "floorlog 2 (nat \<lfloor>x * 2 ^ k\<rfloor>) \<le> e + k"
proof (rule floorlog_le_of_less)
  have "x * 2 ^ k < 2 ^ e * (2 ^ k :: rat)"
    using assms by simp
  then have "\<lfloor>x * 2 ^ k\<rfloor> < 2 ^ (e + k)"
    by (simp add: floor_less_iff power_add)
  then show "nat \<lfloor>x * 2 ^ k\<rfloor> < 2 ^ (e + k)"
    using assms by (simp add: nat_less_iff)
qed

lemma fl_grid_error:
  assumes "0 \<le> x" and "x < 2 ^ e" and "53 \<le> e + k"
  shows "\<bar>fl_grid k x - x\<bar> \<le> 2 ^ e / 2 ^ 54"
proof -
  define n where "n = x * 2 ^ k"
  define s where "s = floorlog 2 (nat \<lfloor>n\<rfloor>) - 53"
  have s: "s + 53 \<le> e + k"
    using shift_bound [OF assms(1,2), of k] assms(3) by (auto simp: s_def n_def)
  have fl: "fl_grid k x = of_int (rne (n / 2 ^ s)) * 2 ^ s / 2 ^ k"
    by (simp add: fl_grid_def n_def s_def Let_def)
  have x: "x = n / 2 ^ s * 2 ^ s / 2 ^ k"
    by (simp add: n_def)
  have "\<bar>fl_grid k x - x\<bar> = \<bar>(of_int (rne (n / 2 ^ s)) - n / 2 ^ s) * (2 ^ s / 2 ^ k)\<bar>"
  proof -
    have "fl_grid k x - x = (of_int (rne (n / 2 ^ s)) - n / 2 ^ s) * (2 ^ s / 2 ^ k)"
      by (subst x, subst fl) (simp add: field_simps)
    then show ?thesis by (simp only:)
  qed
  also have "\<dots> = \<bar>of_int (rne (n / 2 ^ s)) - n / 2 ^ s\<bar> * (2 ^ s / 2 ^ k)"
    by (subst abs_mult) simp
  also have "\<dots> \<le> 1/2 * (2 ^ s / 2 ^ k)"
    by (intro mult_right_mono rne_error) simp
  also have "\<dots> \<le> 2 ^ e / 2 ^ 54"
  proof -
    have "(2::rat) ^ (s + 53) \<le> 2 ^ (e + k)"
      using s by (intro power_increasing) auto
    then have "(2::rat) ^ s * 2 ^ 53 \<le> 2 ^ e * 2 ^ k"
      by (simp only: power_add)
    then show ?thesis
      by (simp add: field_simps)
  qed
  finally show ?thesis .
qed

lemma fl_error [fl_intros]:
  assumes "0 \<le> x" and "x < 2 ^ e"
  shows "\<bar>fl x - x\<bar> \<le> 2 ^ e / 2 ^ 54"
  using fl_grid_error [OF assms, of 1074] assms(1) by (simp add: fl_def)

lemma fl_minus: "fl (- x) = - fl x"
proof -
  have "fl_grid 1074 0 = 0"
    by (simp add: fl_grid_def rne_def floorlog_def)
  then show ?thesis
    by (auto simp: fl_def)
qed

lemma fl_error_abs:
  assumes "\<bar>x\<bar> < 2 ^ e"
  shows "\<bar>fl x - x\<bar> \<le> 2 ^ e / 2 ^ 54"
proof (cases "0 \<le> x")
  case True
  with assms show ?thesis by (intro fl_error) auto
next
  case False
  with assms have "\<bar>fl (- x) - (- x)\<bar> \<le> 2 ^ e / 2 ^ 54"
    by (intro fl_error) auto
  then show ?thesis by (simp add: fl_minus abs_minus_commute)
qed

section \<open>Exact integers\<close>

lemma fl_nat_exact:
  assumes "n < 2 ^ 53"
  shows "fl (of_nat n) = of_nat n"
proof -
  define N where "N = n * 2 ^ 1074"
  define s where "s = floorlog 2 N - 53"
  have "floorlog 2 N \<le> 53 + 1074"
    unfolding N_def using assms by (intro floorlog_le_of_less) (simp add: power_add)
  then have s: "s \<le> 1074" by (simp add: s_def)
  then have split: "(2::rat) ^ 1074 = 2 ^ s * 2 ^ (1074 - s)"
    by (simp only: power_add [symmetric]) simp
  have N: "nat \<lfloor>(of_nat n :: rat) * 2 ^ 1074\<rfloor> = N"
  proof -
    have "(of_nat n :: rat) * 2 ^ 1074 = of_nat N" by (simp add: N_def)
    then show ?thesis by (simp only: floor_of_nat nat_int)
  qed
  have "(of_nat n :: rat) * 2 ^ 1074 / 2 ^ s = of_int (int n * 2 ^ (1074 - s))"
    by (subst split) simp
  then have "rne ((of_nat n :: rat) * 2 ^ 1074 / 2 ^ s) = int n * 2 ^ (1074 - s)"
    by (simp only: rne_of_int)
  then have "fl_grid 1074 (of_nat n) = of_int (int n * 2 ^ (1074 - s)) * 2 ^ s / 2 ^ 1074"
    unfolding fl_grid_def Let_def N s_def [symmetric] by (simp only:)
  also have "\<dots> = of_nat n"
    by (subst split) simp
  finally show ?thesis
    by (simp add: fl_def)
qed

lemma fl_of_int [simp]:
  assumes "\<bar>n\<bar> < 2 ^ 53"
  shows "fl (of_int n) = of_int n"
proof (cases "0 \<le> n")
  case True
  then obtain k where "n = int k" using zero_le_imp_eq_int by blast
  with assms have "k < 2 ^ 53" by simp
  with \<open>n = int k\<close> show ?thesis by (simp add: fl_nat_exact)
next
  case False
  then obtain k where k: "n = - int k" by (metis int_cases2 of_nat_0_le_iff)
  with assms have "k < 2 ^ 53" by simp
  with k show ?thesis by (simp add: fl_minus fl_nat_exact)
qed

lemma is_integer_of_int [simp]: "is_integer (of_int n)"
  by (simp add: is_integer_def)

lemma is_safe_integer_of_int [simp]: "is_safe_integer (of_int n) \<longleftrightarrow> \<bar>n\<bar> \<le> max_safe"
  by (simp add: is_safe_integer_def)

lemma js_round_near:
  assumes "\<bar>x - of_int n\<bar> < 1/2"
  shows "js_round x = n"
proof -
  have "of_int n \<le> x + 1/2" and "x + 1/2 < of_int n + 1"
    using assms unfolding abs_less_iff by linarith+
  then show ?thesis
    unfolding js_round_def by (simp add: floor_unique)
qed

text \<open>Integers need no rounding, which keeps evaluation on concrete amounts cheap.\<close>

lemma fl_code [code]:
  "fl x = (if is_integer x \<and> \<bar>\<lfloor>x\<rfloor>\<bar> \<le> max_safe then x
     else if x < 0 then - fl_grid 1074 (- x) else fl_grid 1074 x)"
proof (cases "is_integer x \<and> \<bar>\<lfloor>x\<rfloor>\<bar> \<le> max_safe")
  case True
  then have x: "of_int \<lfloor>x\<rfloor> = x" unfolding is_integer_def by blast
  have "\<bar>\<lfloor>x\<rfloor>\<bar> < 2 ^ 53" using True by (simp add: max_safe_def)
  from fl_of_int [OF this] have "fl x = x" unfolding x .
  then show ?thesis using True by simp
next
  case False
  then show ?thesis by (auto simp: fl_def)
qed

end
