(* ===== verification/Money.thy ===== *)
theory Money
  imports Js_Number
begin

text \<open>
  Money in minor units (\<open>payments/money-minor.ts\<close>) and the provisional price of a safe
  deal (\<open>payments/safe-deal-price.ts\<close>). \<open>Prisma.Decimal\<close> values are exact decimals of at
  most two fractional digits in every column the code reads, so they are modelled by the
  rationals they denote; \<open>bigint\<close> is \<open>int\<close>.
\<close>

section \<open>Conversions\<close>

definition decimal_to_minor :: "rat \<Rightarrow> int result" where
  "decimal_to_minor value =
     (let minor = value * 100
      in if \<not> is_integer minor then Inl (Range_error ''whole-kopecks'')
         else Inr \<lfloor>minor\<rfloor>)"

definition minor_to_decimal :: "int \<Rightarrow> rat" where
  "minor_to_decimal value = of_int value / 100"

definition minor_to_safe_number :: "int \<Rightarrow> int result" where
  "minor_to_safe_number value =
     (let r = fl (of_int value)
      in if \<not> is_safe_integer r then Inl (Range_error ''unsafe-minor-units'')
         else Inr \<lfloor>r\<rfloor>)"

definition assert_resolution_total :: "int \<Rightarrow> int \<Rightarrow> int \<Rightarrow> unit result" where
  "assert_resolution_total depositMinor refundMinor releaseMinor =
     (if depositMinor < 0 \<or> refundMinor < 0 \<or> releaseMinor < 0
      then Inl (Range_error ''negative-resolution'')
      else if refundMinor + releaseMinor \<noteq> depositMinor
      then Inl (Range_error ''resolution-total'')
      else Inr ())"

lemma decimal_to_minor_of_minor [simp]: "decimal_to_minor (minor_to_decimal m) = Inr m"
  by (simp add: decimal_to_minor_def minor_to_decimal_def)

lemma decimal_to_minor_Inr_iff: "decimal_to_minor v = Inr m \<longleftrightarrow> v = minor_to_decimal m"
  by (auto simp: decimal_to_minor_def minor_to_decimal_def is_integer_def Let_def
      split: if_splits)

lemma decimal_to_minor_Inl_iff:
  "(\<exists>e. decimal_to_minor v = Inl e) \<longleftrightarrow> (\<nexists>m. v = minor_to_decimal m)"
  by (metis decimal_to_minor_Inr_iff decimal_to_minor_of_minor obj_sumE sum.distinct(1))

lemma decimal_to_minor_0 [simp]: "decimal_to_minor 0 = Inr 0"
  by (simp add: decimal_to_minor_Inr_iff minor_to_decimal_def)

lemma minor_to_decimal_inj [simp]: "minor_to_decimal a = minor_to_decimal b \<longleftrightarrow> a = b"
  by (simp add: minor_to_decimal_def)

lemma minor_to_decimal_add: "minor_to_decimal (a + b) = minor_to_decimal a + minor_to_decimal b"
  by (simp add: minor_to_decimal_def add_divide_distrib)

lemma minor_to_decimal_le [simp]: "minor_to_decimal a \<le> minor_to_decimal b \<longleftrightarrow> a \<le> b"
  by (simp add: minor_to_decimal_def divide_le_cancel)

lemma minor_to_decimal_0 [simp]: "minor_to_decimal 0 = 0"
  by (simp add: minor_to_decimal_def)

section \<open>Safe integers\<close>

lemma rne_ge:
  assumes "of_int m \<le> x"
  shows "m \<le> rne x"
proof -
  have "m \<le> \<lfloor>x\<rfloor>" using assms by (simp add: le_floor_iff)
  then show ?thesis by (auto simp: rne_def Let_def)
qed

lemma fl_large:
  assumes "2 ^ 53 \<le> (v :: int)"
  shows "2 ^ 53 \<le> fl (of_int v)"
proof -
  define N where "N = nat v * 2 ^ 1074"
  define s where "s = floorlog 2 N - 53"
  have v: "(of_int v :: rat) = of_nat (nat v)" using assms by simp
  have pos: "0 < N" using assms by (simp add: N_def)
  have big: "2 ^ (53 + 1074) \<le> N"
  proof -
    have "2 ^ 53 \<le> nat v" using assms by (simp add: nat_le_iff le_nat_iff)
    then show ?thesis unfolding N_def power_add by (intro mult_right_mono) auto
  qed
  have N: "nat \<lfloor>(of_int v :: rat) * 2 ^ 1074\<rfloor> = N"
  proof -
    have "(of_int v :: rat) * 2 ^ 1074 = of_nat N" by (simp add: N_def v)
    then show ?thesis by (simp only: floor_of_nat nat_int)
  qed
  have le: "2 ^ (floorlog 2 N - 1) \<le> N" using floorlog_bounds [OF pos, of 2] by simp
  have gt: "N < 2 ^ floorlog 2 N" using floorlog_bounds [OF pos, of 2] by simp
  have "(2::nat) ^ (53 + 1074) < 2 ^ floorlog 2 N" using big gt by (rule le_less_trans)
  then have fb: "53 + 1074 < floorlog 2 N" by (simp only: power_strict_increasing_iff)
  then have s: "floorlog 2 N - 1 = s + 52" by (simp add: s_def)
  define t where "t = min (53 + 1074) (s + 52) - s"
  have t: "s + t = min (53 + 1074) (s + 52) \<or> (53 + 1074 < s \<and> t = 0)"
    by (auto simp: t_def)
  have key: "2 ^ (53 + 1074) \<le> (of_int (rne (of_nat N / 2 ^ s)) :: rat) * 2 ^ s"
  proof (cases "s \<le> 53 + 1074")
    case True
    have "(2::nat) ^ (53 + 1074 - s) * 2 ^ s = 2 ^ (53 + 1074)"
      using True by (simp only: power_add [symmetric]) simp
    with big have "2 ^ (53 + 1074 - s) * 2 ^ s \<le> N" by (simp only:)
    then have "of_nat (2 ^ (53 + 1074 - s) * 2 ^ s) \<le> (of_nat N :: rat)"
      by (simp only: of_nat_le_iff)
    then have "(of_int (2 ^ (53 + 1074 - s)) :: rat) * 2 ^ s \<le> of_nat N"
      by (simp only: of_nat_mult of_nat_power of_nat_numeral of_int_power of_int_numeral)
    then have "(of_int (2 ^ (53 + 1074 - s)) :: rat) \<le> of_nat N / 2 ^ s"
      by (simp only: pos_le_divide_eq zero_less_power zero_less_numeral)
    then have "2 ^ (53 + 1074 - s) \<le> rne (of_nat N / 2 ^ s)"
      by (rule rne_ge)
    then have "(2::rat) ^ (53 + 1074 - s) \<le> of_int (rne (of_nat N / 2 ^ s))"
      by (metis of_int_le_iff of_int_numeral of_int_power)
    then have "(2::rat) ^ (53 + 1074 - s) * 2 ^ s \<le> of_int (rne (of_nat N / 2 ^ s)) * 2 ^ s"
      by (intro mult_right_mono) auto
    moreover have "(2::rat) ^ (53 + 1074 - s) * 2 ^ s = 2 ^ (53 + 1074)"
      using True by (simp only: power_add [symmetric]) simp
    ultimately show ?thesis by (simp only:)
  next
    case False
    have "(1::rat) \<le> of_nat N / 2 ^ s"
    proof -
      have "2 ^ s \<le> N"
        using le unfolding s by (rule order_trans [rotated]) (intro power_increasing, auto)
      then have "(2::rat) ^ s \<le> of_nat N"
        by (metis of_nat_le_iff of_nat_numeral of_nat_power)
      then show ?thesis by simp
    qed
    then have "1 \<le> rne (of_nat N / 2 ^ s)" by (intro rne_ge) simp
    then have "(1::rat) * 2 ^ s \<le> of_int (rne (of_nat N / 2 ^ s)) * 2 ^ s"
      by (intro mult_right_mono) auto
    moreover have "(2::rat) ^ (53 + 1074) \<le> 2 ^ s"
      using False by (intro power_increasing) auto
    ultimately show ?thesis by linarith
  qed
  have "fl (of_int v) = of_int (rne (of_nat N / 2 ^ s)) * 2 ^ s / 2 ^ 1074"
  proof -
    have e: "(of_int v :: rat) * 2 ^ 1074 = of_nat N" by (simp add: N_def v)
    have "fl (of_int v) = fl_grid 1074 (of_int v)" using assms by (simp add: fl_def)
    also have "\<dots> = of_int (rne (of_nat N / 2 ^ s)) * 2 ^ s / 2 ^ 1074"
      unfolding fl_grid_def Let_def N s_def [symmetric] by (simp only: e)
    finally show ?thesis .
  qed
  moreover have "(2::rat) ^ 53 = 2 ^ (53 + 1074) / 2 ^ 1074" by (simp only: power_add) simp
  ultimately show ?thesis
    using key by (simp only: divide_right_mono zero_le_power zero_le_numeral)
qed

lemma minor_to_safe_number_eq:
  "minor_to_safe_number v =
     (if \<bar>v\<bar> \<le> max_safe then Inr v else Inl (Range_error ''unsafe-minor-units''))"
proof (cases "\<bar>v\<bar> \<le> max_safe")
  case True
  then have "fl (of_int v) = of_int v" by (intro fl_of_int) (simp add: max_safe_def)
  with True show ?thesis by (simp add: minor_to_safe_number_def)
next
  case False
  have "\<not> is_safe_integer (fl (of_int v))"
  proof (cases "0 \<le> v")
    case True
    with False have "2 ^ 53 \<le> fl (of_int v)" by (intro fl_large) (simp add: max_safe_def)
    then have "2 ^ 53 \<le> \<lfloor>fl (of_int v)\<rfloor>" by (simp add: le_floor_iff)
    then show ?thesis by (simp add: is_safe_integer_def max_safe_def)
  next
    case neg: False
    with False have "2 ^ 53 \<le> fl (of_int (- v))" by (intro fl_large) (simp add: max_safe_def)
    then have "fl (of_int v) \<le> - (2 ^ 53)" by (simp add: fl_minus)
    moreover have "- (2 ^ 53) = (of_int (- 9007199254740992) :: rat)" by simp
    ultimately have "\<lfloor>fl (of_int v)\<rfloor> \<le> - 9007199254740992"
      by (metis floor_mono floor_of_int)
    then have "\<not> \<bar>\<lfloor>fl (of_int v)\<rfloor>\<bar> \<le> max_safe"
      unfolding max_safe_def by linarith
    then show ?thesis unfolding is_safe_integer_def by blast
  qed
  with False show ?thesis by (simp add: minor_to_safe_number_def)
qed

section \<open>The provisional price of a safe deal\<close>

definition BASIS_POINTS_DENOMINATOR :: int where
  "BASIS_POINTS_DENOMINATOR = 10000"

definition HALF_BASIS_POINT_DENOMINATOR :: int where
  "HALF_BASIS_POINT_DENOMINATOR = BASIS_POINTS_DENOMINATOR div 2"

definition PROVISIONAL_PLATFORM_FEE_BASIS_POINTS :: int where
  "PROVISIONAL_PLATFORM_FEE_BASIS_POINTS = 100"

record safe_deal_price =
  rentalSubtotalMinor :: int
  depositMinor :: int
  borrowerTotalMinor :: int
  platformFeeMinor :: int
  ownerPayoutMinor :: int

text \<open>The division of the source is on non-negative \<open>bigint\<close>s, where it agrees with \<open>div\<close>.\<close>

definition calculate_provisional_safe_deal_price :: "int \<Rightarrow> int \<Rightarrow> safe_deal_price result" where
  "calculate_provisional_safe_deal_price rental deposit =
     (if rental \<le> 0 then Inl (Bad_request ''rental-subtotal-positive'')
      else if deposit < 0 then Inl (Bad_request ''deposit-non-negative'')
      else
        let platformFee =
              (rental * PROVISIONAL_PLATFORM_FEE_BASIS_POINTS + HALF_BASIS_POINT_DENOMINATOR)
                div BASIS_POINTS_DENOMINATOR;
            ownerPayout = rental - platformFee
        in Inr \<lparr>rentalSubtotalMinor = rental, depositMinor = deposit,
                borrowerTotalMinor = rental + deposit, platformFeeMinor = platformFee,
                ownerPayoutMinor = ownerPayout\<rparr>)"

lemmas price_constants =
  BASIS_POINTS_DENOMINATOR_def HALF_BASIS_POINT_DENOMINATOR_def
  PROVISIONAL_PLATFORM_FEE_BASIS_POINTS_def

lemma safe_deal_price_conserves:
  assumes "calculate_provisional_safe_deal_price r d = Inr p"
  shows "rentalSubtotalMinor p = r" "depositMinor p = d"
    "platformFeeMinor p + ownerPayoutMinor p = r" "borrowerTotalMinor p = r + d"
  using assms by (auto simp: calculate_provisional_safe_deal_price_def Let_def split: if_splits)

lemma safe_deal_fee_bounds:
  assumes "calculate_provisional_safe_deal_price r d = Inr p"
  shows "0 \<le> platformFeeMinor p" "platformFeeMinor p < r \<or> r = 0" "0 < ownerPayoutMinor p"
    "\<bar>100 * platformFeeMinor p - r\<bar> \<le> 50"
  using assms
  by (auto simp: calculate_provisional_safe_deal_price_def price_constants Let_def
      split: if_splits; linarith)+

end
