(* ===== verification/Booking_Period.thy ===== *)
theory Booking_Period
  imports Prelude
begin

text \<open>
  Calendar dates and booking periods (\<open>booking/booking-period.ts\<close>). A JavaScript \<open>Date\<close> is
  its time value, an \<open>int\<close> of milliseconds since 1970-01-01 UTC. The part of the standard
  library that the code uses is modelled here: the date forms of the Date Time String Format,
  \<open>YYYY\<close>, \<open>YYYY-MM\<close> and \<open>YYYY-MM-DD\<close>, each also with an expanded year of a sign and six
  digits, where day numbers up to 31 are read in every month and overflow into the next one,
  and time values more than a hundred million days from the epoch are invalid; and printing a
  time value with \<open>toISOString\<close>. ECMAScript leaves the strings outside that format to the
  implementation. They cannot pass the code's print-and-compare check, whatever time value
  they are given (\<open>printed_dates_in_format\<close>), so \<open>js_parse_date\<close> reads them as invalid.
\<close>

section \<open>The proleptic Gregorian calendar\<close>

definition is_leap :: "int \<Rightarrow> bool" where
  "is_leap y \<longleftrightarrow> y mod 4 = 0 \<and> (y mod 100 \<noteq> 0 \<or> y mod 400 = 0)"

text \<open>Days from 0000-01-01 to the first day of year \<open>y\<close>.\<close>

definition days_before_year :: "int \<Rightarrow> int" where
  "days_before_year y = 365 * y + (y + 3) div 4 - (y + 99) div 100 + (y + 399) div 400"

definition month_start :: "bool \<Rightarrow> int \<Rightarrow> int" where
  "month_start leap m =
     (let k = (if leap then 1 else 0)
      in if m \<le> 1 then 0 else if m = 2 then 31 else if m = 3 then 59 + k
         else if m = 4 then 90 + k else if m = 5 then 120 + k else if m = 6 then 151 + k
         else if m = 7 then 181 + k else if m = 8 then 212 + k else if m = 9 then 243 + k
         else if m = 10 then 273 + k else if m = 11 then 304 + k else if m = 12 then 334 + k
         else 365 + k)"

definition days_in_month :: "bool \<Rightarrow> int \<Rightarrow> int" where
  "days_in_month leap m = month_start leap (m + 1) - month_start leap m"

definition valid_civil :: "int \<Rightarrow> int \<Rightarrow> int \<Rightarrow> bool" where
  "valid_civil y m d \<longleftrightarrow> 1 \<le> m \<and> m \<le> 12 \<and> 1 \<le> d \<and> d \<le> days_in_month (is_leap y) m"

definition EPOCH_DAYS :: int where
  "EPOCH_DAYS = 719528"

definition day_number :: "int \<Rightarrow> int \<Rightarrow> int \<Rightarrow> int" where
  "day_number y m d = days_before_year y + month_start (is_leap y) m + (d - 1) - EPOCH_DAYS"

definition year_of :: "int \<Rightarrow> int" where
  "year_of n =
     (let e = (400 * n) div 146097
      in if n < days_before_year e then e - 1
         else if days_before_year (e + 1) \<le> n then e + 1 else e)"

fun month_of :: "bool \<Rightarrow> int \<Rightarrow> int list \<Rightarrow> int" where
  "month_of leap r [] = 12"
| "month_of leap r (m # ms) = (if r < month_start leap (m + 1) then m else month_of leap r ms)"

definition civil_of_day :: "int \<Rightarrow> int \<times> int \<times> int" where
  "civil_of_day n =
     (let k = n + EPOCH_DAYS; y = year_of k; r = k - days_before_year y;
          m = month_of (is_leap y) r [1, 2, 3, 4, 5, 6, 7, 8, 9, 10, 11]
      in (y, m, r - month_start (is_leap y) m + 1))"

lemma div_bounds:
  fixes k n :: int
  assumes "0 < k"
  shows "k * (n div k) \<le> n" and "n < k * (n div k) + k"
proof -
  have "k * (n div k) + n mod k = n" by simp
  with assms pos_mod_sign [of k n] pos_mod_bound [of k n]
  show "k * (n div k) \<le> n" and "n < k * (n div k) + k" by linarith+
qed

lemma div_round_up:
  fixes k y :: int
  assumes "0 < k"
  shows "(y + (k - 1)) div k = y div k + (if y mod k = 0 then 0 else 1)"
proof -
  have y: "y + (k - 1) = (y mod k + (k - 1)) + k * (y div k)" by simp
  have "(y + (k - 1)) div k = (y mod k + (k - 1)) div k + y div k"
    using assms by (subst y, subst div_mult_self2) auto
  moreover have "(y mod k + (k - 1)) div k = (if y mod k = 0 then 0 else 1)"
  proof (cases "y mod k = 0")
    case True
    with assms show ?thesis by simp
  next
    case False
    with assms have "0 \<le> y mod k - 1" "y mod k - 1 < k"
      using pos_mod_sign [of k y] pos_mod_bound [of k y] by linarith+
    then have "(y mod k - 1 + k * 1) div k = 1"
      using assms by (subst div_mult_self2) auto
    with False show ?thesis by (simp add: algebra_simps)
  qed
  ultimately show ?thesis by simp
qed

lemma div_step:
  fixes k y :: int
  assumes "0 < k"
  shows "(y + k) div k = (y + (k - 1)) div k + (if y mod k = 0 then 1 else 0)"
  using assms by (simp add: div_round_up)

declare month_of.simps [simp del]

lemma days_before_year_step:
  "days_before_year (y + 1) = days_before_year y + (if is_leap y then 366 else 365)"
proof -
  have s: "(y + 1 + 3) div 4 = (y + 3) div 4 + (if y mod 4 = 0 then 1 else 0)"
    "(y + 1 + 99) div 100 = (y + 99) div 100 + (if y mod 100 = 0 then 1 else 0)"
    "(y + 1 + 399) div 400 = (y + 399) div 400 + (if y mod 400 = 0 then 1 else 0)"
  proof -
    have e: "y + 1 + 3 = y + 4" "y + 1 + 99 = y + 100" "y + 1 + 399 = y + 400"
      "(4::int) - 1 = 3" "(100::int) - 1 = 99" "(400::int) - 1 = 399"
      "(0::int) < 4" "(0::int) < 100" "(0::int) < 400"
      by simp_all
    show "(y + 1 + 3) div 4 = (y + 3) div 4 + (if y mod 4 = 0 then 1 else 0)"
      using div_step [OF e(7), of y] by (simp only: e)
    show "(y + 1 + 99) div 100 = (y + 99) div 100 + (if y mod 100 = 0 then 1 else 0)"
      using div_step [OF e(8), of y] by (simp only: e)
    show "(y + 1 + 399) div 400 = (y + 399) div 400 + (if y mod 400 = 0 then 1 else 0)"
      using div_step [OF e(9), of y] by (simp only: e)
  qed
  have d: "y mod 400 = 0 \<Longrightarrow> y mod 100 = 0" "y mod 100 = 0 \<Longrightarrow> y mod 4 = 0"
    using dvd_trans [of 100 400 y] dvd_trans [of 4 100 y] by (simp_all add: mod_eq_0_iff_dvd)
  define a b c where "a = (y + 3) div 4" and "b = (y + 99) div 100" and "c = (y + 399) div 400"
  show ?thesis
    unfolding days_before_year_def is_leap_def s a_def [symmetric] b_def [symmetric] c_def [symmetric]
    using d by (cases "y mod 4 = 0"; cases "y mod 100 = 0"; cases "y mod 400 = 0") simp_all
qed

lemma days_before_year_bounds:
  "146097 * y \<le> 400 * days_before_year y + 400"
  "400 * days_before_year y \<le> 146097 * y + 800"
proof -
  have "4 * ((y + 3) div 4) \<le> y + 3" "y \<le> 4 * ((y + 3) div 4)"
    "100 * ((y + 99) div 100) \<le> y + 99" "y \<le> 100 * ((y + 99) div 100)"
    "400 * ((y + 399) div 400) \<le> y + 399" "y \<le> 400 * ((y + 399) div 400)"
    using div_bounds [of 4 "y + 3"] div_bounds [of 100 "y + 99"] div_bounds [of 400 "y + 399"]
    by linarith+
  then show "146097 * y \<le> 400 * days_before_year y + 400"
    and "400 * days_before_year y \<le> 146097 * y + 800"
    by (simp_all add: days_before_year_def algebra_simps)
qed

lemma year_of_bounds:
  "days_before_year (year_of n) \<le> n \<and> n < days_before_year (year_of n + 1)"
proof -
  define e where "e = (400 * n) div 146097"
  have e: "146097 * e \<le> 400 * n" "400 * n < 146097 * e + 146097"
    using div_bounds [of 146097 "400 * n"] unfolding e_def by linarith+
  have "days_before_year (e - 1) \<le> n"
    using days_before_year_bounds(2) [of "e - 1"] e by (simp add: algebra_simps)
  moreover have "n < days_before_year (e + 2)"
    using days_before_year_bounds(1) [of "e + 2"] e by (simp add: algebra_simps)
  ultimately show ?thesis
    by (auto simp: year_of_def Let_def e_def [symmetric] add.commute)
qed

lemma days_before_year_mono: "y \<le> z \<Longrightarrow> days_before_year y \<le> days_before_year z"
proof (induction "nat (z - y)" arbitrary: z)
  case 0
  then show ?case by simp
next
  case (Suc k)
  then have "days_before_year y \<le> days_before_year (z - 1)" by simp
  also have "\<dots> \<le> days_before_year z"
    using days_before_year_step [of "z - 1"] by (simp split: if_splits)
  finally show ?case .
qed

lemma year_of_unique:
  assumes "days_before_year y \<le> n" and "n < days_before_year (y + 1)"
  shows "year_of n = y"
proof -
  have "\<not> y + 1 \<le> year_of n"
    using days_before_year_mono [of "y + 1" "year_of n"] year_of_bounds [of n] assms by linarith
  moreover have "\<not> year_of n + 1 \<le> y"
    using days_before_year_mono [of "year_of n + 1" y] year_of_bounds [of n] assms by linarith
  ultimately show ?thesis by linarith
qed

lemma year_length:
  "days_before_year (y + 1) - days_before_year y = month_start (is_leap y) 13"
  by (simp add: days_before_year_step month_start_def)

lemma month_of_bounds:
  assumes "0 \<le> r" and "r < month_start leap 13"
    and m: "m = month_of leap r [1, 2, 3, 4, 5, 6, 7, 8, 9, 10, 11]"
  shows "1 \<le> m \<and> m \<le> 12 \<and> month_start leap m \<le> r \<and> r < month_start leap (m + 1)"
  using assms(1,2) unfolding m by (cases leap) (simp_all add: month_start_def month_of.simps)

lemma month_of_unique:
  assumes "1 \<le> m" and "m \<le> 12" and "month_start leap m \<le> r" and "r < month_start leap (m + 1)"
  shows "month_of leap r [1, 2, 3, 4, 5, 6, 7, 8, 9, 10, 11] = m"
proof -
  have "m = 1 \<or> m = 2 \<or> m = 3 \<or> m = 4 \<or> m = 5 \<or> m = 6 \<or> m = 7 \<or> m = 8 \<or> m = 9
      \<or> m = 10 \<or> m = 11 \<or> m = 12"
    using assms(1,2) by arith
  then show ?thesis
    using assms(3,4) by (cases leap; elim disjE) (simp_all add: month_start_def month_of.simps)
qed

lemma civil_of_day_valid:
  assumes "civil_of_day n = (y, m, d)"
  shows "valid_civil y m d" and "day_number y m d = n"
proof -
  define k where "k = n + EPOCH_DAYS"
  have y: "y = year_of k"
    and m: "m = month_of (is_leap y) (k - days_before_year y) [1, 2, 3, 4, 5, 6, 7, 8, 9, 10, 11]"
    and d: "d = k - days_before_year y - month_start (is_leap y) m + 1"
    using assms by (auto simp: civil_of_day_def k_def Let_def)
  have "0 \<le> k - days_before_year y" "k - days_before_year y < month_start (is_leap y) 13"
    using year_of_bounds [of k] year_length [of y] unfolding y by linarith+
  note b = month_of_bounds [OF this m]
  show "valid_civil y m d"
    using b by (simp add: valid_civil_def days_in_month_def d)
  show "day_number y m d = n"
    by (simp add: day_number_def d k_def)
qed

lemma month_start_step_le: "1 \<le> m \<Longrightarrow> m \<le> 12 \<Longrightarrow> 0 \<le> month_start leap m"
  by (cases leap) (simp_all add: month_start_def)

lemma month_start_le_13: "1 \<le> m \<Longrightarrow> m \<le> 12 \<Longrightarrow> month_start leap (m + 1) \<le> month_start leap 13"
  by (cases leap) (simp_all add: month_start_def)

lemma civil_of_day_number:
  assumes "valid_civil y m d"
  shows "civil_of_day (day_number y m d) = (y, m, d)"
proof -
  define r where "r = month_start (is_leap y) m + (d - 1)"
  have m: "1 \<le> m" "m \<le> 12" and r: "month_start (is_leap y) m \<le> r" "r < month_start (is_leap y) (m + 1)"
    using assms by (auto simp: valid_civil_def days_in_month_def r_def)
  have "0 \<le> r" "r < month_start (is_leap y) 13"
    using r month_start_step_le [OF m] month_start_le_13 [OF m] by (meson order_trans less_le_trans)+
  then have "year_of (days_before_year y + r) = y"
    using year_length [of y] by (intro year_of_unique) auto
  moreover have "day_number y m d + EPOCH_DAYS = days_before_year y + r"
    by (simp add: day_number_def r_def)
  ultimately show ?thesis
    using month_of_unique [OF m r] unfolding civil_of_day_def Let_def by (simp add: r_def)
qed

section \<open>Reading and printing ISO dates\<close>

type_synonym timestamp = int

definition DAY_MS :: int where
  "DAY_MS = 86400000"

definition digit_char :: "int \<Rightarrow> char" where
  "digit_char n = char_of (nat (48 + n))"

definition digit_val :: "char \<Rightarrow> int" where
  "digit_val c = int (of_char c) - 48"

definition is_digit :: "char \<Rightarrow> bool" where
  "is_digit c \<longleftrightarrow> 0 \<le> digit_val c \<and> digit_val c \<le> 9"

definition pad2 :: "int \<Rightarrow> string" where
  "pad2 n = [digit_char (n div 10 mod 10), digit_char (n mod 10)]"

definition pad4 :: "int \<Rightarrow> string" where
  "pad4 n = [digit_char (n div 1000 mod 10), digit_char (n div 100 mod 10),
             digit_char (n div 10 mod 10), digit_char (n mod 10)]"

definition pad6 :: "int \<Rightarrow> string" where
  "pad6 n = [digit_char (n div 100000 mod 10), digit_char (n div 10000 mod 10)] @ pad4 (n mod 10000)"

text \<open>\<open>toISOString\<close> prints years outside 0 to 9999 with a sign and six digits.\<close>

definition iso_year :: "int \<Rightarrow> string" where
  "iso_year y =
     (if y < 0 then ''-'' @ pad6 (- y) else if y \<le> 9999 then pad4 y else ''+'' @ pad6 y)"

definition iso_date :: "int \<Rightarrow> int \<Rightarrow> int \<Rightarrow> string" where
  "iso_date y m d = iso_year y @ ''-'' @ pad2 m @ ''-'' @ pad2 d"

text \<open>The date part and the first ten characters of \<open>date.toISOString()\<close>, at midnight UTC.\<close>

definition iso_slice :: "timestamp \<Rightarrow> string" where
  "iso_slice t =
     (case civil_of_day (t div DAY_MS) of (y, m, d) \<Rightarrow>
        take 10 (iso_date y m d @ ''T00:00:00.000Z''))"

text \<open>
  The year at the front of a date and what follows it: four digits, or a sign and six digits.
  The year zero has no negative form.
\<close>

definition read_year :: "string \<Rightarrow> (int \<times> string) option" where
  "read_year v =
     (let expanded = (v \<noteq> [] \<and> (hd v = CHR ''+'' \<or> hd v = CHR ''-''));
          ds = (if expanded then take 6 (tl v) else take 4 v);
          rest = (if expanded then drop 6 (tl v) else drop 4 v);
          y = foldl (\<lambda>n c. 10 * n + digit_val c) 0 ds
      in if length ds \<noteq> (if expanded then 6 else 4) \<or> \<not> list_all is_digit ds then None
         else if expanded \<and> hd v = CHR ''-'' then (if y = 0 then None else Some (- y, rest))
         else Some (y, rest))"

text \<open>Month and day that follow a year; a part that is left out is the first.\<close>

fun read_month_day :: "string \<Rightarrow> (int \<times> int) option" where
  "read_month_day [] = Some (1, 1)"
| "read_month_day [s1, m1, m2] =
     (if s1 = CHR ''-'' \<and> list_all is_digit [m1, m2] then Some (10 * digit_val m1 + digit_val m2, 1) else None)"
| "read_month_day [s1, m1, m2, s2, d1, d2] =
     (if s1 = CHR ''-'' \<and> s2 = CHR ''-'' \<and> list_all is_digit [m1, m2, d1, d2]
      then Some (10 * digit_val m1 + digit_val m2, 10 * digit_val d1 + digit_val d2) else None)"
| "read_month_day _ = None"

text \<open>A time value is at most a hundred million days away from the epoch.\<close>

definition MAX_DAYS :: int where
  "MAX_DAYS = 100000000"

definition time_clip :: "timestamp \<Rightarrow> timestamp option" where
  "time_clip t = (if \<bar>t\<bar> \<le> MAX_DAYS * DAY_MS then Some t else None)"

text \<open>\<open>new Date(`${value}T00:00:00.000Z`)\<close>; \<open>None\<close> is the invalid date.\<close>

definition js_parse_date :: "string \<Rightarrow> timestamp option" where
  "js_parse_date v =
     (case read_year v of None \<Rightarrow> None
      | Some (y, rest) \<Rightarrow>
          (case read_month_day rest of None \<Rightarrow> None
           | Some (m, d) \<Rightarrow>
               if 1 \<le> m \<and> m \<le> 12 \<and> 1 \<le> d \<and> d \<le> 31 then time_clip (DAY_MS * day_number y m d) else None))"

definition parse_calendar_date :: "string \<Rightarrow> timestamp result" where
  "parse_calendar_date value =
     (case js_parse_date value of
        None \<Rightarrow> Inl (Bad_request ''calendar-date'')
      | Some t \<Rightarrow> if iso_slice t \<noteq> value then Inl (Bad_request ''calendar-date'') else Inr t)"

definition difference_in_days :: "timestamp \<Rightarrow> timestamp \<Rightarrow> int" where
  "difference_in_days a b = (b - a) div DAY_MS"

definition BOOKING_MAX_DAYS :: int where
  "BOOKING_MAX_DAYS = 30"

definition BOOKING_HORIZON_DAYS :: int where
  "BOOKING_HORIZON_DAYS = 90"

record booking_period =
  per_startDate :: timestamp
  per_endDate :: timestamp
  per_days :: int

definition parse_booking_period :: "string \<Rightarrow> string \<Rightarrow> string \<Rightarrow> booking_period result" where
  "parse_booking_period start_str end_str today =
     bind_result (parse_calendar_date start_str) (\<lambda>startDate.
     bind_result (parse_calendar_date end_str) (\<lambda>endDate.
     bind_result (parse_calendar_date today) (\<lambda>todayDate.
       if startDate < todayDate then Inl (Bad_request ''start-in-past'')
       else if endDate < startDate then Inl (Bad_request ''end-before-start'')
       else
         let days = difference_in_days startDate endDate + 1
         in if BOOKING_MAX_DAYS < days then Inl (Bad_request ''too-many-days'')
            else if BOOKING_HORIZON_DAYS < difference_in_days todayDate startDate
            then Inl (Bad_request ''beyond-horizon'')
            else Inr \<lparr>per_startDate = startDate, per_endDate = endDate, per_days = days\<rparr>)))"

section \<open>The check accepts exactly the Gregorian dates\<close>

lemma digit_val_char [simp]: "0 \<le> n \<Longrightarrow> n \<le> 9 \<Longrightarrow> digit_val (digit_char n) = n"
  by (simp add: digit_val_def digit_char_def of_char_of)

lemma digit_valD: "is_digit c \<Longrightarrow> 0 \<le> digit_val c \<and> digit_val c \<le> 9"
  by (simp add: is_digit_def)

lemma is_digit_char [simp]: "0 \<le> n \<Longrightarrow> n \<le> 9 \<Longrightarrow> is_digit (digit_char n)"
  by (simp add: is_digit_def)

lemma small_mod: "0 \<le> (a::int) \<Longrightarrow> a \<le> 9 \<Longrightarrow> a mod 10 = a"
  by (intro mod_pos_pos_trivial) simp_all

lemma mod_ten_digit [simp]: "0 \<le> (n::int) mod 10" "(n::int) mod 10 \<le> 9"
  using pos_mod_sign [of 10 n] pos_mod_bound [of 10 n] by linarith+

lemma iso_year_small: "0 \<le> y \<Longrightarrow> y \<le> 9999 \<Longrightarrow> iso_year y = pad4 y"
  by (simp add: iso_year_def)

lemma digit_sum4:
  fixes n :: int
  assumes "0 \<le> n" "n \<le> 9999"
  shows "1000 * (n div 1000 mod 10) + 100 * (n div 100 mod 10) + 10 * (n div 10 mod 10) + n mod 10 = n"
proof -
  have e: "n div 100 = n div 10 div 10" "n div 1000 = n div 10 div 10 div 10"
    by (simp_all add: zdiv_zmult2_eq [symmetric])
  have "0 \<le> n div 10 div 10 div 10" "n div 10 div 10 div 10 \<le> 9"
    using div_bounds [of 1000 n] assms unfolding e [symmetric] by linarith+
  then have "n div 10 div 10 div 10 mod 10 = n div 10 div 10 div 10" by (rule small_mod)
  moreover have "10 * (k div 10) + k mod 10 = k" for k :: int by simp
  from this [of n] this [of "n div 10"] this [of "n div 10 div 10"]
  have "n = 10 * (n div 10) + n mod 10" "n div 10 = 10 * (n div 10 div 10) + n div 10 mod 10"
    "n div 10 div 10 = 10 * (n div 10 div 10 div 10) + n div 10 div 10 mod 10" by linarith+
  ultimately show ?thesis unfolding e by linarith
qed

lemma digit_sum2:
  fixes n :: int
  assumes "0 \<le> n" "n \<le> 99"
  shows "10 * (n div 10 mod 10) + n mod 10 = n"
proof -
  have "0 \<le> n div 10" "n div 10 \<le> 9" using div_bounds [of 10 n] assms by linarith+
  then have "n div 10 mod 10 = n div 10" by (rule small_mod)
  then show ?thesis by (simp only: mult_div_mod_eq)
qed

lemma valid_civil_bounds:
  assumes "valid_civil y m d"
  shows "1 \<le> m \<and> m \<le> 12 \<and> 1 \<le> d \<and> d \<le> 31"
proof -
  have "days_in_month l k \<le> 31" for l k
    by (cases l) (simp_all add: days_in_month_def month_start_def)
  with assms show ?thesis by (auto simp: valid_civil_def intro: order_trans)
qed

text \<open>Printing the year, month and day and reading them back.\<close>

lemma digits_value4:
  assumes "0 \<le> x" "x \<le> 9999"
  shows "foldl (\<lambda>n c. 10 * n + digit_val c) q (pad4 x) = 10000 * q + x"
proof -
  define a b c d where "a = x div 1000 mod 10" and "b = x div 100 mod 10" and "c = x div 10 mod 10" and "d = x mod 10"
  have "foldl (\<lambda>n c. 10 * n + digit_val c) q (pad4 x) = 10 * (10 * (10 * (10 * q + a) + b) + c) + d"
    unfolding pad4_def a_def b_def c_def d_def by (simp only: foldl.simps digit_val_char mod_ten_digit)
  moreover have "1000 * a + 100 * b + 10 * c + d = x"
    unfolding a_def b_def c_def d_def by (rule digit_sum4 [OF assms])
  then have "10 * (10 * (10 * (10 * q + a) + b) + c) + d = 10000 * q + x" by (simp add: algebra_simps)
  ultimately show ?thesis by (simp only:)
qed

lemma digits_value6:
  assumes "0 \<le> n" "n \<le> 999999"
  shows "foldl (\<lambda>n c. 10 * n + digit_val c) 0 (pad6 n) = n"
proof -
  define q x where "q = n div 10000" and "x = n mod 10000"
  define a b where "a = q div 10 mod 10" and "b = q mod 10"
  have n: "n = 10000 * q + x" and x: "0 \<le> x" "x \<le> 9999"
    using pos_mod_bound [of 10000 n] by (simp_all add: q_def x_def)
  then have "0 \<le> q" "q \<le> 99" using assms by linarith+
  then have q: "10 * a + b = q" unfolding a_def b_def by (rule digit_sum2)
  have "n div 100000 = q div 10" by (simp add: q_def zdiv_zmult2_eq [symmetric])
  then have "pad6 n = digit_char a # digit_char b # pad4 x"
    by (simp only: pad6_def q_def x_def a_def b_def append.simps)
  moreover have "digit_val (digit_char a) = a" "digit_val (digit_char b) = b"
    unfolding a_def b_def by (simp_all only: digit_val_char mod_ten_digit)
  ultimately have "foldl (\<lambda>n c. 10 * n + digit_val c) 0 (pad6 n) = 10000 * (10 * (10 * 0 + a) + b) + x"
    by (simp only: foldl.simps digits_value4 [OF x])
  moreover have "10000 * (10 * (10 * 0 + a) + b) + x = n" using n q by (simp add: algebra_simps)
  ultimately show ?thesis by (simp only:)
qed

lemma sign_no_digit: "digit_char (k mod 10) \<noteq> CHR ''-''" "digit_char (k mod 10) \<noteq> CHR ''+''"
proof -
  have "is_digit (digit_char (k mod 10))" by simp
  moreover have "\<not> is_digit CHR ''-''" "\<not> is_digit CHR ''+''"
    by (simp_all add: is_digit_def digit_val_def)
  ultimately show "digit_char (k mod 10) \<noteq> CHR ''-''" "digit_char (k mod 10) \<noteq> CHR ''+''" by metis+
qed

lemma read_year_iso:
  assumes "\<bar>y\<bar> \<le> 999999"
  shows "read_year (iso_year y @ rest) = Some (y, rest)"
proof -
  have digits6: "length (pad6 k) = 6" "list_all is_digit (pad6 k)" for k by (simp_all add: pad6_def pad4_def)
  have take6: "take 6 (pad6 k @ rest) = pad6 k" "drop 6 (pad6 k @ rest) = rest" for k by (simp_all add: digits6)
  consider "y < 0" | "0 \<le> y" "y \<le> 9999" | "9999 < y" by linarith
  then show ?thesis
  proof cases
    case 1
    then have "foldl (\<lambda>n c. 10 * n + digit_val c) 0 (pad6 (- y)) = - y" using assms by (intro digits_value6) simp_all
    with 1 show ?thesis by (simp add: read_year_def iso_year_def Let_def take6 digits6)
  next
    case 2
    then have "foldl (\<lambda>n c. 10 * n + digit_val c) 0 (pad4 y) = y"
      using digits_value4 [OF 2, of 0] by simp
    moreover have "length (pad4 y) = 4" "list_all is_digit (pad4 y)" by (simp_all add: pad4_def)
    moreover have "hd (pad4 y @ rest) \<noteq> CHR ''+''" "hd (pad4 y @ rest) \<noteq> CHR ''-''"
      using sign_no_digit by (simp_all add: pad4_def)
    ultimately show ?thesis using 2 by (simp add: read_year_def iso_year_small Let_def)
  next
    case 3
    then have "foldl (\<lambda>n c. 10 * n + digit_val c) 0 (pad6 y) = y" using assms by (intro digits_value6) simp_all
    with 3 show ?thesis by (simp add: read_year_def iso_year_def Let_def take6 digits6)
  qed
qed

lemma read_month_day_iso:
  assumes "1 \<le> m" "m \<le> 12" "1 \<le> d" "d \<le> 31"
  shows "read_month_day (CHR ''-'' # pad2 m) = Some (m, 1)"
    and "read_month_day (CHR ''-'' # pad2 m @ CHR ''-'' # pad2 d) = Some (m, d)"
proof -
  have n: "10 * (m div 10 mod 10) + m mod 10 = m" "10 * (d div 10 mod 10) + d mod 10 = d"
    by (rule digit_sum2; use assms in linarith)+
  show "read_month_day (CHR ''-'' # pad2 m) = Some (m, 1)"
    and "read_month_day (CHR ''-'' # pad2 m @ CHR ''-'' # pad2 d) = Some (m, d)"
    unfolding pad2_def append.simps read_month_day.simps
    by (simp_all only: list.pred_inject is_digit_char mod_ten_digit digit_val_char n simp_thms if_True)
qed

lemma month_start_grows: "1 \<le> m \<Longrightarrow> m \<le> 12 \<Longrightarrow> month_start leap m + 1 \<le> month_start leap (m + 1)"
proof -
  assume "1 \<le> m" "m \<le> 12"
  then have "m = 1 \<or> m = 2 \<or> m = 3 \<or> m = 4 \<or> m = 5 \<or> m = 6 \<or> m = 7 \<or> m = 8 \<or> m = 9
      \<or> m = 10 \<or> m = 11 \<or> m = 12"
    by arith
  then show ?thesis by (cases leap; elim disjE) (simp_all add: month_start_def)
qed

text \<open>The years of the time values, and the time values of the years with four digits.\<close>

lemma day_number_bounds:
  assumes "1 \<le> m" "m \<le> 12" "1 \<le> d" "d \<le> 31"
  shows "146097 * y \<le> 400 * day_number y m d + 287811600"
    and "400 * day_number y m d \<le> 146097 * y - 287652000"
proof -
  have "month_start (is_leap y) m \<le> 366" using assms by (simp add: month_start_def Let_def)
  moreover have "0 \<le> month_start (is_leap y) m" using assms by (rule_tac month_start_step_le)
  ultimately show "146097 * y \<le> 400 * day_number y m d + 287811600"
    and "400 * day_number y m d \<le> 146097 * y - 287652000"
    using days_before_year_bounds [of y] assms by (simp_all add: day_number_def EPOCH_DAYS_def algebra_simps)
qed

lemma time_value_years:
  assumes "\<bar>day_number y m d\<bar> \<le> MAX_DAYS" and "1 \<le> m" "m \<le> 12" "1 \<le> d" "d \<le> 31"
  shows "\<bar>y\<bar> \<le> 999999"
proof (rule abs_leI)
  note b = day_number_bounds [OF assms(2-), of y]
  have n: "day_number y m d \<le> 100000000" "- 100000000 \<le> day_number y m d"
    using assms(1) by (simp_all add: MAX_DAYS_def abs_le_iff)
  show "y \<le> 999999" using b(1) n(1) by linarith
  show "- y \<le> 999999" using b(2) n(2) by linarith
qed

lemma time_clip_day: "time_clip (DAY_MS * n) = (if \<bar>n\<bar> \<le> MAX_DAYS then Some (DAY_MS * n) else None)"
  by (simp add: time_clip_def DAY_MS_def abs_mult)

lemma js_parse_date_iso:
  assumes "0 \<le> y" "y \<le> 9999" "1 \<le> m" "m \<le> 12" "1 \<le> d" "d \<le> 31"
  shows "js_parse_date (iso_date y m d) = Some (DAY_MS * day_number y m d)"
proof -
  note b = day_number_bounds [OF assms(3-), of y]
  have "\<bar>day_number y m d\<bar> \<le> MAX_DAYS"
  proof (rule abs_leI)
    show "day_number y m d \<le> MAX_DAYS" using b(2) assms(2) unfolding MAX_DAYS_def by linarith
    show "- day_number y m d \<le> MAX_DAYS" using b(1) assms(1) unfolding MAX_DAYS_def by linarith
  qed
  moreover have "read_year (iso_date y m d) = Some (y, CHR ''-'' # pad2 m @ CHR ''-'' # pad2 d)"
    using read_year_iso [of y] assms(1,2) by (simp add: iso_date_def)
  ultimately show ?thesis
    using read_month_day_iso(2) [OF assms(3-)] assms(3-) by (simp add: js_parse_date_def time_clip_day)
qed

text \<open>What a date prints to: all of it, or year and month when the year is expanded.\<close>

lemma length_iso_year: "length (iso_year y) = (if 0 \<le> y \<and> y \<le> 9999 then 4 else 7)"
  by (simp add: iso_year_def pad6_def pad4_def)

lemma iso_slice_day:
  assumes "valid_civil y m d"
  shows "iso_slice (DAY_MS * day_number y m d) =
    (if 0 \<le> y \<and> y \<le> 9999 then iso_date y m d else iso_year y @ ''-'' @ pad2 m)"
proof -
  have "DAY_MS * day_number y m d div DAY_MS = day_number y m d"
    by (simp add: DAY_MS_def)
  moreover have "length (pad2 k) = 2" for k by (simp add: pad2_def)
  ultimately show ?thesis
    by (simp add: iso_slice_def civil_of_day_number assms iso_date_def length_iso_year)
qed

text \<open>Every string that the date of a time value prints to is in the format that is read.\<close>

lemma printed_dates_in_format:
  assumes "\<bar>t\<bar> \<le> MAX_DAYS * DAY_MS"
  obtains y m d rest d' where "read_year (iso_slice t) = Some (y, rest)" "read_month_day rest = Some (m, d')"
    "valid_civil y m d" "t div DAY_MS = day_number y m d"
    "0 \<le> y \<and> y \<le> 9999 \<and> d' = d \<or> (y < 0 \<or> 9999 < y) \<and> d' = 1"
    "iso_slice t = (if 0 \<le> y \<and> y \<le> 9999 then iso_date y m d else iso_year y @ ''-'' @ pad2 m)"
proof -
  let ?n = "t div DAY_MS"
  obtain y m d where c: "civil_of_day ?n = (y, m, d)" by (metis prod_cases3)
  note v = civil_of_day_valid [OF c]
  note b = valid_civil_bounds [OF v(1)]
  have "\<bar>?n\<bar> \<le> MAX_DAYS"
    using assms div_bounds [of DAY_MS t] unfolding DAY_MS_def MAX_DAYS_def by linarith
  then have y: "\<bar>y\<bar> \<le> 999999" using b v(2) by (intro time_value_years [of y m d]) simp_all
  have "iso_slice t = iso_slice (DAY_MS * ?n)" by (simp add: iso_slice_def DAY_MS_def)
  then have p: "iso_slice t = (if 0 \<le> y \<and> y \<le> 9999 then iso_date y m d else iso_year y @ ''-'' @ pad2 m)"
    using iso_slice_day [OF v(1)] v(2) by simp
  show thesis
  proof (cases "0 \<le> y \<and> y \<le> 9999")
    case True
    then show ?thesis
      using that [of y "CHR ''-'' # pad2 m @ CHR ''-'' # pad2 d" m d d] p v b read_year_iso [OF y] read_month_day_iso(2)
      by (simp add: iso_date_def)
  next
    case False
    then show ?thesis
      using that [of y "CHR ''-'' # pad2 m" m 1 d] p v b read_year_iso [OF y] read_month_day_iso(1) by auto
  qed
qed

lemma calendar_date_accepted:
  "parse_calendar_date v = Inr t \<longleftrightarrow>
    (\<exists>y m d. valid_civil y m d \<and> 0 \<le> y \<and> y \<le> 9999 \<and> v = iso_date y m d \<and> t = DAY_MS * day_number y m d)
    \<or> (\<exists>y m. 1 \<le> m \<and> m \<le> 12 \<and> (y < 0 \<or> 9999 < y) \<and> \<bar>day_number y m 1\<bar> \<le> MAX_DAYS
         \<and> v = iso_year y @ ''-'' @ pad2 m \<and> t = DAY_MS * day_number y m 1)" (is "_ \<longleftrightarrow> ?plain \<or> ?expanded")
proof (intro iffI)
  assume "parse_calendar_date v = Inr t"
  then have js: "js_parse_date v = Some t" and sl: "iso_slice t = v"
    by (auto simp: parse_calendar_date_def split: option.splits if_splits)
  have "\<bar>t\<bar> \<le> MAX_DAYS * DAY_MS"
    using js by (auto simp: js_parse_date_def time_clip_def split: option.splits if_splits)
  then obtain y m d rest d' where r: "read_year v = Some (y, rest)" "read_month_day rest = Some (m, d')"
    and v: "valid_civil y m d" and d': "0 \<le> y \<and> y \<le> 9999 \<and> d' = d \<or> (y < 0 \<or> 9999 < y) \<and> d' = 1"
    and p: "v = (if 0 \<le> y \<and> y \<le> 9999 then iso_date y m d else iso_year y @ ''-'' @ pad2 m)"
    using printed_dates_in_format [of t] sl by metis
  have t: "t = DAY_MS * day_number y m d'" "\<bar>day_number y m d'\<bar> \<le> MAX_DAYS"
    using js r by (auto simp: js_parse_date_def time_clip_day split: if_splits)
  from d' show "?plain \<or> ?expanded"
    using v t p valid_civil_bounds [OF v] by (elim disjE) auto
next
  assume "?plain \<or> ?expanded"
  then show "parse_calendar_date v = Inr t"
  proof
    assume ?plain
    then obtain y m d where v: "valid_civil y m d" and y: "0 \<le> y" "y \<le> 9999"
      and e: "v = iso_date y m d" "t = DAY_MS * day_number y m d" by blast
    from valid_civil_bounds [OF v] y have "js_parse_date v = Some t" unfolding e by (simp add: js_parse_date_iso)
    then show ?thesis using iso_slice_day [OF v] y by (simp add: parse_calendar_date_def e)
  next
    assume ?expanded
    then obtain y m where m: "1 \<le> m" "m \<le> 12" and y: "y < 0 \<or> 9999 < y" "\<bar>day_number y m 1\<bar> \<le> MAX_DAYS"
      and e: "v = iso_year y @ ''-'' @ pad2 m" "t = DAY_MS * day_number y m 1" by blast
    have valid: "valid_civil y m 1"
      using month_start_grows [OF m, of "is_leap y"] m by (simp add: valid_civil_def days_in_month_def)
    have "read_year v = Some (y, CHR ''-'' # pad2 m)"
      using read_year_iso [OF time_value_years [OF y(2) m]] by (simp add: e)
    then have "js_parse_date v = Some t"
      using read_month_day_iso(1) [OF m, of 1] m y(2) by (simp add: js_parse_date_def time_clip_day e)
    moreover have "iso_slice t = v" using iso_slice_day [OF valid] y(1) by (auto simp: e)
    ultimately show ?thesis by (simp add: parse_calendar_date_def)
  qed
qed

text \<open>
  C10. A calendar date is accepted exactly when it is a date of the Gregorian calendar written as
  four, two and two digits, or a month written with an expanded year, which has as many
  characters; the requests' pattern admits the first form only. The comparison with the
  printed date rejects the day numbers that JavaScript lets overflow into the next month. The
  accepted value is midnight UTC of that day, or of the first day of that month.
\<close>

theorem parse_calendar_date_iff:
  "parse_calendar_date v = Inr t \<longleftrightarrow>
    (\<exists>y m d. valid_civil y m d \<and> 0 \<le> y \<and> y \<le> 9999 \<and> v = iso_date y m d \<and> t = DAY_MS * day_number y m d)
    \<or> (\<exists>y m. 1 \<le> m \<and> m \<le> 12 \<and> (y < 0 \<or> 9999 < y) \<and> \<bar>day_number y m 1\<bar> \<le> MAX_DAYS
         \<and> v = iso_year y @ ''-'' @ pad2 m \<and> t = DAY_MS * day_number y m 1)"
  by (rule calendar_date_accepted)

section \<open>Accepted periods\<close>

lemma parse_calendar_date_valid:
  assumes "valid_civil y m d" "0 \<le> y" "y \<le> 9999"
  shows "parse_calendar_date (iso_date y m d) = Inr (DAY_MS * day_number y m d)"
  using iso_slice_day [OF assms(1)] assms js_parse_date_iso [OF assms(2,3)] valid_civil_bounds [OF assms(1)]
  by (simp add: parse_calendar_date_def)

lemma parse_calendar_date_midnight:
  "parse_calendar_date v = Inr t \<Longrightarrow> \<exists>k. t = DAY_MS * k"
  by (auto simp: calendar_date_accepted)

lemma difference_in_days_mult [simp]:
  "difference_in_days (DAY_MS * a) (DAY_MS * b) = b - a"
proof -
  have "DAY_MS * b - DAY_MS * a = (b - a) * DAY_MS" by (simp add: algebra_simps)
  moreover have "DAY_MS \<noteq> 0" by (simp add: DAY_MS_def)
  ultimately show ?thesis
    unfolding difference_in_days_def by (simp add: nonzero_mult_div_cancel_right)
qed

lemma midnight_le [simp]: "DAY_MS * a \<le> DAY_MS * b \<longleftrightarrow> a \<le> b"
  and midnight_less [simp]: "DAY_MS * a < DAY_MS * b \<longleftrightarrow> a < b"
  by (simp_all add: DAY_MS_def)

lemma parse_booking_periodE:
  assumes "parse_booking_period s e today = Inr p"
  obtains a b t where "parse_calendar_date s = Inr (DAY_MS * a)"
    "parse_calendar_date e = Inr (DAY_MS * b)" "parse_calendar_date today = Inr (DAY_MS * t)"
    "t \<le> a" "a \<le> b" "b - a < 30" "a - t \<le> 90"
    "per_startDate p = DAY_MS * a" "per_endDate p = DAY_MS * b" "per_days p = b - a + 1"
proof -
  from assms obtain sd ed td where
    d: "parse_calendar_date s = Inr sd" "parse_calendar_date e = Inr ed"
       "parse_calendar_date today = Inr td"
    by (auto simp: parse_booking_period_def bind_result_Inr_iff)
  then obtain a b t where m: "sd = DAY_MS * a" "ed = DAY_MS * b" "td = DAY_MS * t"
    using parse_calendar_date_midnight by metis
  show thesis
    using assms d unfolding m
    by (intro that [of a b t])
       (auto simp: parse_booking_period_def Let_def BOOKING_MAX_DAYS_def BOOKING_HORIZON_DAYS_def
         split: if_splits)
qed

text \<open>
  Every accepted period starts today or later and at most 90 days ahead, ends on or
  after its start, and its day count is the number of calendar days it covers, both ends
  included, between 1 and 30.
\<close>

theorem booking_period_bounds:
  assumes "parse_booking_period s e today = Inr p" and "parse_calendar_date today = Inr t"
  shows "t \<le> per_startDate p \<and> per_startDate p \<le> t + 90 * DAY_MS
    \<and> per_startDate p \<le> per_endDate p \<and> 1 \<le> per_days p \<and> per_days p \<le> 30
    \<and> per_endDate p = per_startDate p + (per_days p - 1) * DAY_MS"
proof -
  from assms(1) obtain a b k where *: "parse_calendar_date today = Inr (DAY_MS * k)"
    "k \<le> a" "a \<le> b" "b - a < 30" "a - k \<le> 90"
    "per_startDate p = DAY_MS * a" "per_endDate p = DAY_MS * b" "per_days p = b - a + 1"
    by (rule parse_booking_periodE)
  then have "t = DAY_MS * k" using assms(2) by simp
  then show ?thesis using * by (simp add: DAY_MS_def)
qed

theorem booking_period_bounds_witness:
  "\<exists>p t. parse_booking_period ''2028-02-28'' ''2028-03-01'' ''2028-02-27'' = Inr p
     \<and> parse_calendar_date ''2028-02-27'' = Inr t \<and> per_days p = 3
     \<and> t \<le> per_startDate p \<and> per_days p \<le> 30"
proof -
  have iso: "iso_date 2028 2 28 = ''2028-02-28''" "iso_date 2028 3 1 = ''2028-03-01''"
    "iso_date 2028 2 27 = ''2028-02-27''" by code_simp+
  have d: "parse_calendar_date ''2028-02-28'' = Inr (DAY_MS * day_number 2028 2 28)"
    "parse_calendar_date ''2028-03-01'' = Inr (DAY_MS * day_number 2028 3 1)"
    "parse_calendar_date ''2028-02-27'' = Inr (DAY_MS * day_number 2028 2 27)"
    unfolding iso [symmetric] by (rule parse_calendar_date_valid; code_simp)+
  have n: "day_number 2028 2 28 = 21242" "day_number 2028 3 1 = 21244" "day_number 2028 2 27 = 21241"
    by code_simp+
  obtain p where p: "parse_booking_period ''2028-02-28'' ''2028-03-01'' ''2028-02-27'' = Inr p"
    "per_days p = 3"
    unfolding parse_booking_period_def d n
    by (simp add: Let_def BOOKING_MAX_DAYS_def BOOKING_HORIZON_DAYS_def)
  show ?thesis using booking_period_bounds [OF p(1) d(3)] p d(3) by blast
qed

end
