(* ===== verification/Js_Text.thy ===== *)
theory Js_Text
  imports Prelude
begin

text \<open>
  Strings and JSON values. A JavaScript string is modelled by the list of its code units
  as \<open>char\<close>s, so text is limited to code units below 256; the Russian texts of the program
  are replaced by ASCII tags wherever the model keeps them. A JSON value as Prisma returns
  it is a \<open>json\<close>; a missing property (\<open>undefined\<close>) is \<open>None\<close>.
\<close>

section \<open>Trimming\<close>

definition is_js_space :: "char \<Rightarrow> bool" where
  "is_js_space c \<longleftrightarrow> (of_char c :: nat) \<in> {9, 10, 11, 12, 13, 32, 160}"

definition js_trim :: "string \<Rightarrow> string" where
  "js_trim s = rev (dropWhile is_js_space (rev (dropWhile is_js_space s)))"

lemma dropWhile_eq_Nil_iff: "dropWhile p xs = [] \<longleftrightarrow> (\<forall>x \<in> set xs. p x)"
  by (induction xs) auto

lemma js_trim_eq_Nil_iff: "js_trim s = [] \<longleftrightarrow> (\<forall>c \<in> set s. is_js_space c)"
proof -
  have "js_trim s = [] \<longleftrightarrow> (\<forall>c \<in> set (dropWhile is_js_space s). is_js_space c)"
    by (simp add: js_trim_def dropWhile_eq_Nil_iff)
  also have "\<dots> \<longleftrightarrow> (\<forall>c \<in> set s. is_js_space c)"
    by (induction s) auto
  finally show ?thesis .
qed

lemma length_js_trim: "length (js_trim s) \<le> length s"
  unfolding js_trim_def by (metis length_dropWhile_le length_rev order_trans)

lemma dropWhile_idem: "dropWhile p (dropWhile p xs) = dropWhile p xs"
  by (induction xs) auto

lemma js_trim_idem [simp]: "js_trim (js_trim s) = js_trim s"
proof -
  define t where "t = dropWhile is_js_space s"
  define u where "u = dropWhile is_js_space (rev t)"
  have "dropWhile is_js_space (rev u) = rev u"
  proof (cases "rev u")
    case (Cons c w)
    obtain v where "rev t = v @ u" unfolding u_def by (metis takeWhile_dropWhile_id)
    then have "t = rev u @ rev v" by (metis rev_append rev_rev_ident)
    then have "hd t = c" "t \<noteq> []" using Cons by auto
    then have "\<not> is_js_space c" unfolding t_def by (metis hd_dropWhile)
    with Cons show ?thesis by simp
  qed simp
  moreover have "dropWhile is_js_space u = u" unfolding u_def by (rule dropWhile_idem)
  ultimately show ?thesis
    unfolding js_trim_def t_def [symmetric] u_def [symmetric] by simp
qed

text \<open>Characters that the chat and the reviews reject.\<close>

definition is_unsafe_control :: "char \<Rightarrow> bool" where
  "is_unsafe_control c \<longleftrightarrow>
     (let code = (of_char c :: nat)
      in code \<le> 8 \<or> code = 11 \<or> code = 12 \<or> (14 \<le> code \<and> code \<le> 31) \<or> code = 127)"

section \<open>JSON\<close>

datatype json =
    JNull
  | JBool bool
  | JNum rat
  | JStr string
  | JArr "json list"
  | JObj "(string \<times> json) list"

fun get_field :: "json \<Rightarrow> string \<Rightarrow> json option" where
  "get_field (JObj kvs) k = map_of kvs k"
| "get_field _ k = None"

fun is_json_record :: "json option \<Rightarrow> bool" where
  "is_json_record (Some (JObj kvs)) = True"
| "is_json_record _ = False"

fun is_non_empty_string :: "json option \<Rightarrow> bool" where
  "is_non_empty_string (Some (JStr s)) = (0 < length (js_trim s))"
| "is_non_empty_string _ = False"

fun is_nullable_string :: "json option \<Rightarrow> bool" where
  "is_nullable_string (Some JNull) = True"
| "is_nullable_string (Some (JStr s)) = True"
| "is_nullable_string _ = False"

fun is_nullable_version :: "json option \<Rightarrow> bool" where
  "is_nullable_version v = (v = Some JNull \<or> is_non_empty_string v)"

text \<open>Reading a property at the type its checks have established.\<close>

fun num_of :: "json option \<Rightarrow> rat" where
  "num_of (Some (JNum x)) = x"
| "num_of _ = 0"

fun str_of :: "json option \<Rightarrow> string" where
  "str_of (Some (JStr s)) = s"
| "str_of _ = []"

fun nullable_str_of :: "json option \<Rightarrow> string option" where
  "nullable_str_of (Some (JStr s)) = Some s"
| "nullable_str_of _ = None"

fun nullable_num_of :: "json option \<Rightarrow> rat option" where
  "nullable_num_of (Some (JNum x)) = Some x"
| "nullable_num_of _ = None"

definition json_of_str :: "string option \<Rightarrow> json" where
  "json_of_str s = (case s of None \<Rightarrow> JNull | Some t \<Rightarrow> JStr t)"

definition json_of_num :: "rat option \<Rightarrow> json" where
  "json_of_num s = (case s of None \<Rightarrow> JNull | Some t \<Rightarrow> JNum t)"

lemma nullable_str_of_json [simp]: "nullable_str_of (Some (json_of_str s)) = s"
  by (cases s) (simp_all add: json_of_str_def)

lemma nullable_num_of_json [simp]: "nullable_num_of (Some (json_of_num s)) = s"
  by (cases s) (simp_all add: json_of_num_def)

lemma is_nullable_string_json [simp]: "is_nullable_string (Some (json_of_str s))"
  by (cases s) (simp_all add: json_of_str_def)

end
