(* ===== verification/Booking_Terms.thy ===== *)
theory Booking_Terms
  imports Money Booking_Period Js_Text
begin

text \<open>
  The terms snapshot of a booking (\<open>booking/booking-terms.ts\<close>): the record that
  \<open>BookingService.create\<close> stores as JSON, and the reader that every later command uses and
  that accepts a snapshot only when all its fields are present, well typed and consistent.
  The main lemmas show that the reader inverts the writer on every consistent snapshot, that
  is, that rouble amounts survive their representation as doubles, and that whatever the
  reader accepts satisfies the price equations.
\<close>

section \<open>Snapshots\<close>

record booking_money_minor =
  mm_pricePerDay :: int
  mm_rentalSubtotal :: int
  mm_deposit :: int
  mm_platformFee :: int
  mm_ownerPayout :: int
  mm_total :: int

record deposit_terms =
  dt_policyVersion :: string
  dt_disputeWindowSeconds :: int

datatype snapshot_scenario = Snap_PAY_ON_HANDOVER | Snap_FAKE_SAFE_DEAL

record handover_terms =
  ho_area :: string
  ho_address :: string
  ho_latitude :: rat
  ho_longitude :: rat

record acceptance =
  ac_actorId :: string
  ac_acceptedAt :: string
  ac_offerVersion :: string
  ac_cancellationPolicyVersion :: string

text \<open>The constant fields \<open>currency\<close> ('RUB') and \<open>acceptance.method\<close> are implicit.\<close>

record booking_terms_snapshot =
  sn_itemTitle :: string
  sn_lenderId :: string
  sn_lenderDisplayName :: "string option"
  sn_pricePerDay :: rat
  sn_days :: rat
  sn_rentalSubtotal :: rat
  sn_depositAmount :: "rat option"
  sn_platformFee :: rat
  sn_ownerPayout :: rat
  sn_total :: rat
  sn_paymentScenario :: snapshot_scenario
  sn_moneyMinor :: booking_money_minor
  sn_depositTerms :: "deposit_terms option"
  sn_handover :: handover_terms
  sn_listingVersion :: string
  sn_offerVersion :: "string option"
  sn_cancellationPolicyVersion :: "string option"
  sn_acceptance :: "acceptance option"

definition scenario_name :: "snapshot_scenario \<Rightarrow> string" where
  "scenario_name s =
     (case s of Snap_PAY_ON_HANDOVER \<Rightarrow> ''PAY_ON_HANDOVER'' | Snap_FAKE_SAFE_DEAL \<Rightarrow> ''FAKE_SAFE_DEAL'')"

text \<open>The JSON object that storing a snapshot in a JSON column produces.\<close>

definition to_snapshot_json :: "booking_terms_snapshot \<Rightarrow> json" where
  "to_snapshot_json s = JObj
     [(''itemTitle'', JStr (sn_itemTitle s)),
      (''lenderId'', JStr (sn_lenderId s)),
      (''lenderDisplayName'', json_of_str (sn_lenderDisplayName s)),
      (''pricePerDay'', JNum (sn_pricePerDay s)),
      (''days'', JNum (sn_days s)),
      (''rentalSubtotal'', JNum (sn_rentalSubtotal s)),
      (''depositAmount'', json_of_num (sn_depositAmount s)),
      (''platformFee'', JNum (sn_platformFee s)),
      (''ownerPayout'', JNum (sn_ownerPayout s)),
      (''total'', JNum (sn_total s)),
      (''currency'', JStr ''RUB''),
      (''paymentScenario'', JStr (scenario_name (sn_paymentScenario s))),
      (''moneyMinor'', JObj
        [(''pricePerDay'', JNum (of_int (mm_pricePerDay (sn_moneyMinor s)))),
         (''rentalSubtotal'', JNum (of_int (mm_rentalSubtotal (sn_moneyMinor s)))),
         (''deposit'', JNum (of_int (mm_deposit (sn_moneyMinor s)))),
         (''platformFee'', JNum (of_int (mm_platformFee (sn_moneyMinor s)))),
         (''ownerPayout'', JNum (of_int (mm_ownerPayout (sn_moneyMinor s)))),
         (''total'', JNum (of_int (mm_total (sn_moneyMinor s))))]),
      (''depositTerms'', (case sn_depositTerms s of
          None \<Rightarrow> JNull
        | Some t \<Rightarrow> JObj [(''policyVersion'', JStr (dt_policyVersion t)),
                         (''disputeWindowSeconds'', JNum (of_int (dt_disputeWindowSeconds t)))])),
      (''handover'', JObj
        [(''area'', JStr (ho_area (sn_handover s))),
         (''address'', JStr (ho_address (sn_handover s))),
         (''latitude'', JNum (ho_latitude (sn_handover s))),
         (''longitude'', JNum (ho_longitude (sn_handover s)))]),
      (''listingVersion'', JStr (sn_listingVersion s)),
      (''offerVersion'', json_of_str (sn_offerVersion s)),
      (''cancellationPolicyVersion'', json_of_str (sn_cancellationPolicyVersion s)),
      (''acceptance'', (case sn_acceptance s of
          None \<Rightarrow> JNull
        | Some a \<Rightarrow> JObj
            [(''actorId'', JStr (ac_actorId a)),
             (''acceptedAt'', JStr (ac_acceptedAt a)),
             (''method'', JStr ''BOOKING_SUBMIT_CHECKBOX''),
             (''offerVersion'', JStr (ac_offerVersion a)),
             (''cancellationPolicyVersion'', JStr (ac_cancellationPolicyVersion a))]))]"

section \<open>Timestamps in ISO format\<close>

definition pad3 :: "int \<Rightarrow> string" where
  "pad3 n = [digit_char (n div 100 mod 10), digit_char (n div 10 mod 10), digit_char (n mod 10)]"

definition iso_clock :: "int \<Rightarrow> string" where
  "iso_clock r = ''T'' @ pad2 (r div 3600000) @ '':'' @ pad2 (r div 60000 mod 60) @ '':''
     @ pad2 (r div 1000 mod 60) @ ''.'' @ pad3 (r mod 1000) @ ''Z''"

text \<open>\<open>toISOString\<close> of a time value.\<close>

definition iso_timestamp :: "timestamp \<Rightarrow> string" where
  "iso_timestamp t =
     (case civil_of_day (t div DAY_MS) of (y, m, d) \<Rightarrow> iso_date y m d @ iso_clock (t mod DAY_MS))"

fun js_parse_clock :: "string \<Rightarrow> int option" where
  "js_parse_clock [t, h1, h2, c1, m1, m2, c2, s1, s2, p, f1, f2, f3, z] =
     (if list_all is_digit [h1, h2, m1, m2, s1, s2, f1, f2, f3]
         \<and> t = CHR ''T'' \<and> c1 = CHR '':'' \<and> c2 = CHR '':'' \<and> p = CHR ''.'' \<and> z = CHR ''Z''
      then
        let h = 10 * digit_val h1 + digit_val h2;
            m = 10 * digit_val m1 + digit_val m2;
            s = 10 * digit_val s1 + digit_val s2;
            f = 100 * digit_val f1 + 10 * digit_val f2 + digit_val f3
        in if h \<le> 23 \<and> m \<le> 59 \<and> s \<le> 59 then Some (3600000 * h + 60000 * m + 1000 * s + f) else None
      else None)"
| "js_parse_clock _ = None"

text \<open>
  \<open>Date.parse\<close> on the format that \<open>toISOString\<close> produces. Every other accepted format fails the
  comparison with the printed timestamp below.
\<close>

definition js_parse_timestamp :: "string \<Rightarrow> timestamp option" where
  "js_parse_timestamp v =
     (case js_parse_date (takeWhile (\<lambda>c. c \<noteq> CHR ''T'') v) of None \<Rightarrow> None
      | Some d \<Rightarrow> (case js_parse_clock (dropWhile (\<lambda>c. c \<noteq> CHR ''T'') v) of None \<Rightarrow> None
                    | Some c \<Rightarrow> time_clip (d + c)))"

fun is_iso_timestamp :: "json option \<Rightarrow> bool" where
  "is_iso_timestamp (Some (JStr v)) =
     (case js_parse_timestamp v of None \<Rightarrow> False | Some t \<Rightarrow> iso_timestamp t = v)"
| "is_iso_timestamp _ = False"

section \<open>Reading numbers\<close>

definition within_tolerance :: "rat \<Rightarrow> bool" where
  "within_tolerance d \<longleftrightarrow> \<bar>d\<bar> < fl (1/1000000)"

definition minor_units_num :: "rat \<Rightarrow> int option" where
  "minor_units_num value =
     (if value < 0 then None
      else
        let scaled = js_mul value 100; rounded = js_round scaled
        in if is_safe_integer (of_int rounded) \<and> within_tolerance (js_sub scaled (of_int rounded))
           then Some rounded else None)"

lemma tolerance_bound: "1/1000000 - 1 / 2 ^ 54 \<le> fl (1/1000000)"
proof -
  have "\<bar>fl (1/1000000) - 1/1000000\<bar> \<le> 1 / 2 ^ 54"
    using fl_error [of "1/1000000" 0] by simp
  then show ?thesis unfolding abs_le_iff by linarith
qed

text \<open>An exact amount needs no comparison with the tolerance.\<close>

lemma within_tolerance_code [code]:
  "within_tolerance d = (if d = 0 then True else \<bar>d\<bar> < fl (1/1000000))"
proof -
  have "(0 :: rat) < 1/1000000 - 1 / 2 ^ 54" by simp
  then have "0 < fl (1/1000000)" using tolerance_bound by (rule less_le_trans)
  then show ?thesis by (simp add: within_tolerance_def)
qed

fun minor_units :: "json option \<Rightarrow> int option" where
  "minor_units (Some (JNum x)) = minor_units_num x"
| "minor_units _ = None"

fun is_json_number :: "json option \<Rightarrow> bool" where
  "is_json_number (Some (JNum x)) = True"
| "is_json_number _ = False"

fun safe_minor :: "json option \<Rightarrow> int option" where
  "safe_minor (Some (JNum x)) = (if is_safe_integer x \<and> 0 \<le> x then Some \<lfloor>x\<rfloor> else None)"
| "safe_minor _ = None"

fun is_positive_safe_integer :: "json option \<Rightarrow> bool" where
  "is_positive_safe_integer (Some (JNum x)) = (is_safe_integer x \<and> 0 < x)"
| "is_positive_safe_integer _ = False"

fun is_coordinate :: "json option \<Rightarrow> rat \<Rightarrow> rat \<Rightarrow> bool" where
  "is_coordinate (Some (JNum x)) lo hi = (lo \<le> x \<and> x \<le> hi)"
| "is_coordinate _ lo hi = False"

definition read_money_minor :: "json \<Rightarrow> booking_money_minor option" where
  "read_money_minor value =
     (let pricePerDay = safe_minor (get_field value ''pricePerDay'');
          rentalSubtotal = safe_minor (get_field value ''rentalSubtotal'');
          deposit = safe_minor (get_field value ''deposit'');
          platformFee = safe_minor (get_field value ''platformFee'');
          ownerPayout = safe_minor (get_field value ''ownerPayout'');
          totalAmt = safe_minor (get_field value ''total'')
      in if pricePerDay = None \<or> rentalSubtotal = None \<or> deposit = None \<or> platformFee = None
            \<or> ownerPayout = None \<or> totalAmt = None
         then None
         else Some \<lparr>mm_pricePerDay = the pricePerDay, mm_rentalSubtotal = the rentalSubtotal,
           mm_deposit = the deposit, mm_platformFee = the platformFee,
           mm_ownerPayout = the ownerPayout, mm_total = the totalAmt\<rparr>)"

text \<open>The result \<open>None\<close> stands for \<open>undefined\<close>, \<open>Some None\<close> for \<open>null\<close>.\<close>

definition read_deposit_terms :: "json option \<Rightarrow> deposit_terms option option" where
  "read_deposit_terms value =
     (if value = Some JNull then Some None
      else if \<not> is_json_record value
        \<or> \<not> is_non_empty_string (get_field (the value) ''policyVersion'')
        \<or> \<not> is_positive_safe_integer (get_field (the value) ''disputeWindowSeconds'')
      then None
      else Some (Some \<lparr>dt_policyVersion = str_of (get_field (the value) ''policyVersion''),
        dt_disputeWindowSeconds = \<lfloor>num_of (get_field (the value) ''disputeWindowSeconds'')\<rfloor>\<rparr>))"

definition valid_acceptance :: "json option \<Rightarrow> json option \<Rightarrow> json option \<Rightarrow> bool" where
  "valid_acceptance acceptance offerVersion cancellationPolicyVersion =
     (if offerVersion = Some JNull \<and> cancellationPolicyVersion = Some JNull
      then acceptance = None
      else if \<not> is_non_empty_string offerVersion
        \<or> \<not> is_non_empty_string cancellationPolicyVersion \<or> acceptance = None
      then False
      else is_non_empty_string (get_field (the acceptance) ''actorId'')
        \<and> is_iso_timestamp (get_field (the acceptance) ''acceptedAt'')
        \<and> get_field (the acceptance) ''method'' = Some (JStr ''BOOKING_SUBMIT_CHECKBOX'')
        \<and> get_field (the acceptance) ''offerVersion'' = offerVersion
        \<and> get_field (the acceptance) ''cancellationPolicyVersion'' = cancellationPolicyVersion)"

section \<open>The reader\<close>

definition read_scenario :: "json option \<Rightarrow> snapshot_scenario option" where
  "read_scenario v =
     (if v = Some (JStr ''PAY_ON_HANDOVER'') then Some Snap_PAY_ON_HANDOVER
      else if v = Some (JStr ''FAKE_SAFE_DEAL'') then Some Snap_FAKE_SAFE_DEAL else None)"

text \<open>
  The reader rejects a value when one of the disjuncts of a long condition holds. They are
  split here into those on texts and places and those on money; none has an effect, so their
  order does not matter.
\<close>

definition texts_rejected :: "json \<Rightarrow> json \<Rightarrow> json option \<Rightarrow> snapshot_scenario option \<Rightarrow> bool" where
  "texts_rejected value handover acceptance paymentScenario \<longleftrightarrow>
       \<not> is_non_empty_string (get_field value ''itemTitle'')
     \<or> \<not> is_non_empty_string (get_field value ''lenderId'')
     \<or> \<not> is_nullable_string (get_field value ''lenderDisplayName'')
     \<or> get_field value ''currency'' \<noteq> Some (JStr ''RUB'')
     \<or> paymentScenario = None
     \<or> \<not> is_non_empty_string (get_field handover ''area'')
     \<or> \<not> is_non_empty_string (get_field handover ''address'')
     \<or> \<not> is_coordinate (get_field handover ''latitude'') (-90) 90
     \<or> \<not> is_coordinate (get_field handover ''longitude'') (-180) 180
     \<or> \<not> is_non_empty_string (get_field value ''listingVersion'')
     \<or> \<not> is_nullable_version (get_field value ''offerVersion'')
     \<or> \<not> is_nullable_version (get_field value ''cancellationPolicyVersion'')
     \<or> \<not> valid_acceptance acceptance (get_field value ''offerVersion'')
           (get_field value ''cancellationPolicyVersion'')
     \<or> (paymentScenario \<noteq> Some Snap_PAY_ON_HANDOVER \<and> acceptance = None)"

definition money_rejected ::
    "json option \<Rightarrow> bool \<Rightarrow> int option \<Rightarrow> int option \<Rightarrow> int option \<Rightarrow> int option \<Rightarrow> int option \<Rightarrow> int option
      \<Rightarrow> booking_money_minor option \<Rightarrow> deposit_terms option option \<Rightarrow> bool" where
  "money_rejected days isOffline pricePerDay rentalSubtotal depositAmount platformFee ownerPayout totalAmt
       moneyMinor depositTerms \<longleftrightarrow>
       pricePerDay = None
     \<or> \<not> is_json_number days
     \<or> \<not> is_integer (num_of days)
     \<or> num_of days < 1
     \<or> rentalSubtotal = None
     \<or> depositAmount = None
     \<or> moneyMinor = None
     \<or> depositTerms = None
     \<or> ownerPayout = None
     \<or> totalAmt = None
     \<or> (let mm = the moneyMinor in
          \<not> is_safe_integer (js_mul (of_int (mm_pricePerDay mm)) (num_of days))
        \<or> of_int (mm_rentalSubtotal mm) \<noteq> js_mul (of_int (mm_pricePerDay mm)) (num_of days)
        \<or> js_add (of_int (mm_ownerPayout mm)) (of_int (mm_platformFee mm)) \<noteq> of_int (mm_rentalSubtotal mm)
        \<or> of_int (mm_total mm) \<noteq> js_add (of_int (mm_rentalSubtotal mm)) (of_int (mm_deposit mm))
        \<or> pricePerDay \<noteq> Some (mm_pricePerDay mm)
        \<or> rentalSubtotal \<noteq> Some (mm_rentalSubtotal mm)
        \<or> depositAmount \<noteq> Some (mm_deposit mm)
        \<or> platformFee \<noteq> Some (mm_platformFee mm)
        \<or> ownerPayout \<noteq> Some (mm_ownerPayout mm)
        \<or> totalAmt \<noteq> Some (mm_total mm)
        \<or> (isOffline \<and> (mm_deposit mm \<noteq> 0 \<or> mm_platformFee mm \<noteq> 0
             \<or> mm_ownerPayout mm \<noteq> mm_rentalSubtotal mm \<or> depositTerms \<noteq> Some None))
        \<or> (\<not> isOffline \<and> (0 < mm_deposit mm) \<noteq> (depositTerms \<noteq> Some None)))"

definition read_acceptance :: "json option \<Rightarrow> acceptance option" where
  "read_acceptance acceptance =
     (case acceptance of None \<Rightarrow> None | Some a \<Rightarrow> Some
       \<lparr>ac_actorId = str_of (get_field a ''actorId''),
        ac_acceptedAt = str_of (get_field a ''acceptedAt''),
        ac_offerVersion = str_of (get_field a ''offerVersion''),
        ac_cancellationPolicyVersion = str_of (get_field a ''cancellationPolicyVersion'')\<rparr>)"

definition choose_money_minor ::
    "json option \<Rightarrow> bool \<Rightarrow> int option \<Rightarrow> int option \<Rightarrow> int option \<Rightarrow> int option \<Rightarrow> int option \<Rightarrow> int option
      \<Rightarrow> booking_money_minor option" where
  "choose_money_minor supplied isOffline pricePerDay rentalSubtotal depositAmount platformFee ownerPayout totalAmt =
     (case (if is_json_record supplied then read_money_minor (the supplied) else None) of
        Some m \<Rightarrow> Some m
      | None \<Rightarrow>
          (if isOffline \<and> pricePerDay \<noteq> None \<and> rentalSubtotal \<noteq> None \<and> depositAmount \<noteq> None
              \<and> platformFee \<noteq> None \<and> ownerPayout \<noteq> None \<and> totalAmt \<noteq> None
           then Some \<lparr>mm_pricePerDay = the pricePerDay, mm_rentalSubtotal = the rentalSubtotal,
                  mm_deposit = the depositAmount, mm_platformFee = the platformFee,
                  mm_ownerPayout = the ownerPayout, mm_total = the totalAmt\<rparr>
           else None))"

definition read_deposit_amount :: "json option \<Rightarrow> int option" where
  "read_deposit_amount v = (if v = Some JNull then Some 0 else minor_units v)"

definition read_booking_terms_snapshot :: "json \<Rightarrow> booking_terms_snapshot option" where
  "read_booking_terms_snapshot value =
    (if \<not> is_json_record (Some value) \<or> \<not> is_json_record (get_field value ''handover'') then None
     else
     let handover = the (get_field value ''handover'');
         acceptance = (if is_json_record (get_field value ''acceptance'')
                       then get_field value ''acceptance'' else None);
         pricePerDay = minor_units (get_field value ''pricePerDay'');
         rentalSubtotal = minor_units (get_field value ''rentalSubtotal'');
         depositAmount = read_deposit_amount (get_field value ''depositAmount'');
         platformFee = minor_units (get_field value ''platformFee'');
         ownerPayout = minor_units (get_field value ''ownerPayout'');
         totalAmt = minor_units (get_field value ''total'');
         paymentScenario = read_scenario (get_field value ''paymentScenario'');
         isOffline = (paymentScenario = Some Snap_PAY_ON_HANDOVER);
         moneyMinor = choose_money_minor (get_field value ''moneyMinor'') isOffline pricePerDay
           rentalSubtotal depositAmount platformFee ownerPayout totalAmt;
         depositTerms = (if get_field value ''depositTerms'' = None \<and> isOffline then Some None
                         else read_deposit_terms (get_field value ''depositTerms''))
     in
     if texts_rejected value handover acceptance paymentScenario
        \<or> money_rejected (get_field value ''days'') isOffline pricePerDay rentalSubtotal depositAmount
            platformFee ownerPayout totalAmt moneyMinor depositTerms
     then None
     else Some
       \<lparr>sn_itemTitle = str_of (get_field value ''itemTitle''),
        sn_lenderId = str_of (get_field value ''lenderId''),
        sn_lenderDisplayName = nullable_str_of (get_field value ''lenderDisplayName''),
        sn_pricePerDay = num_of (get_field value ''pricePerDay''),
        sn_days = num_of (get_field value ''days''),
        sn_rentalSubtotal = num_of (get_field value ''rentalSubtotal''),
        sn_depositAmount = nullable_num_of (get_field value ''depositAmount''),
        sn_platformFee = num_of (get_field value ''platformFee''),
        sn_ownerPayout = num_of (get_field value ''ownerPayout''),
        sn_total = num_of (get_field value ''total''),
        sn_paymentScenario = the paymentScenario,
        sn_moneyMinor = the moneyMinor,
        sn_depositTerms = the depositTerms,
        sn_handover = \<lparr>ho_area = str_of (get_field handover ''area''),
          ho_address = str_of (get_field handover ''address''),
          ho_latitude = num_of (get_field handover ''latitude''),
          ho_longitude = num_of (get_field handover ''longitude'')\<rparr>,
        sn_listingVersion = str_of (get_field value ''listingVersion''),
        sn_offerVersion = nullable_str_of (get_field value ''offerVersion''),
        sn_cancellationPolicyVersion = nullable_str_of (get_field value ''cancellationPolicyVersion''),
        sn_acceptance = read_acceptance acceptance\<rparr>)"

record snapshot_binding =
  bind_borrowerId :: string
  bind_lenderId :: string
  bind_days :: int
  bind_totalAmount :: rat

definition read_bound_booking_terms_snapshot ::
    "json \<Rightarrow> snapshot_binding \<Rightarrow> booking_terms_snapshot option" where
  "read_bound_booking_terms_snapshot value binding =
     (case read_booking_terms_snapshot value of
        None \<Rightarrow> None
      | Some snapshot \<Rightarrow>
          if sn_lenderId snapshot \<noteq> bind_lenderId binding
             \<or> sn_days snapshot \<noteq> of_int (bind_days binding)
             \<or> (case sn_acceptance snapshot of None \<Rightarrow> False
                | Some a \<Rightarrow> ac_actorId a \<noteq> bind_borrowerId binding)
             \<or> Some (mm_total (sn_moneyMinor snapshot)) \<noteq> minor_units_num (bind_totalAmount binding)
          then None else Some snapshot)"

section \<open>Rouble amounts survive their representation as doubles\<close>

lemma fl_minor_error:
  assumes "0 \<le> m" and "m < 6710886400"
  shows "\<bar>fl (minor_to_decimal m) - minor_to_decimal m\<bar> \<le> 1 / 2 ^ 28"
proof -
  have "\<bar>fl (minor_to_decimal m) - minor_to_decimal m\<bar> \<le> 2 ^ 26 / 2 ^ 54"
    using assms by (intro fl_error) (simp_all add: minor_to_decimal_def)
  then show ?thesis by simp
qed

lemma fl_nonneg: "0 \<le> x \<Longrightarrow> 0 \<le> fl x"
  using rne_ge [of 0] by (simp add: fl_def fl_grid_def Let_def)

lemma minor_units_fl:
  assumes m: "0 \<le> m" "m < 6710886400"
  shows "minor_units_num (fl (minor_to_decimal m)) = Some m"
proof -
  define v where "v = fl (minor_to_decimal m)"
  have v: "\<bar>v - minor_to_decimal m\<bar> \<le> 1 / 2 ^ 28" "0 \<le> v"
    using fl_minor_error [OF m] m by (simp_all add: v_def fl_nonneg minor_to_decimal_def)
  have y: "\<bar>v * 100 - of_int m\<bar> \<le> 100 / 2 ^ 28"
  proof -
    have "v * 100 - of_int m = 100 * (v - minor_to_decimal m)"
      by (simp add: minor_to_decimal_def algebra_simps)
    then have "\<bar>v * 100 - of_int m\<bar> = 100 * \<bar>v - minor_to_decimal m\<bar>"
      by (simp only: abs_mult abs_numeral)
    with v(1) show ?thesis by simp
  qed
  have "(100 :: rat) / 2 ^ 28 \<le> 1" by simp
  with y have "\<bar>v * 100 - of_int m\<bar> \<le> 1" by (rule order_trans)
  then have "v * 100 \<le> of_int m + 1" by (simp add: abs_le_iff)
  moreover have "(of_int m :: rat) < 6710886400" using m(2) by simp
  ultimately have y': "v * 100 < 2 ^ 33" "0 \<le> v * 100"
    using v(2) by simp_all
  have s: "\<bar>js_mul v 100 - v * 100\<bar> \<le> 1 / 2 ^ 21"
    using fl_error [OF y'(2,1)] by (simp add: js_mul_def)
  then have d: "\<bar>js_mul v 100 - of_int m\<bar> \<le> 100 / 2 ^ 28 + 1 / 2 ^ 21"
    using y by linarith
  then have r: "js_round (js_mul v 100) = m"
    by (intro js_round_near) simp
  have "\<bar>fl (js_mul v 100 - of_int m) - (js_mul v 100 - of_int m)\<bar> \<le> 1 / 2 ^ 54"
    using fl_error_abs [of "js_mul v 100 - of_int m" 0] d by simp
  then have "\<bar>js_sub (js_mul v 100) (of_int m)\<bar> \<le> 100 / 2 ^ 28 + 1 / 2 ^ 21 + 1 / 2 ^ 54"
    using d unfolding js_sub_def by linarith
  moreover have "(100 :: rat) / 2 ^ 28 + 1 / 2 ^ 21 + 1 / 2 ^ 54 < 1/1000000 - 1 / 2 ^ 54" by simp
  moreover note tolerance_bound
  ultimately have "\<bar>js_sub (js_mul v 100) (of_int m)\<bar> < fl (1/1000000)"
    by (meson le_less_trans less_le_trans)
  moreover have "\<bar>m\<bar> \<le> max_safe" using m by (simp add: max_safe_def)
  ultimately show ?thesis
    using v(2) unfolding minor_units_num_def within_tolerance_def v_def [symmetric] by (simp add: r Let_def)
qed

section \<open>Timestamps read back\<close>

lemma digits3:
  fixes n :: int
  assumes "0 \<le> n" "n \<le> 999"
  shows "100 * (n div 100 mod 10) + 10 * (n div 10 mod 10) + n mod 10 = n"
proof -
  have "n div 1000 = 0" using assms by simp
  then show ?thesis using digit_sum4 [of n] assms by simp
qed

lemma clock_parts:
  fixes r :: int
  assumes "0 \<le> r" "r < DAY_MS"
  shows "0 \<le> r div 3600000" "r div 3600000 \<le> 23" "0 \<le> r div 60000 mod 60" "r div 60000 mod 60 \<le> 59"
    "0 \<le> r div 1000 mod 60" "r div 1000 mod 60 \<le> 59" "0 \<le> r mod 1000" "r mod 1000 \<le> 999"
    "3600000 * (r div 3600000) + 60000 * (r div 60000 mod 60) + 1000 * (r div 1000 mod 60) + r mod 1000 = r"
proof -
  have b: "0 \<le> k mod n" "k mod n < n" if "0 < n" for k n :: int
    using that by simp_all
  show "0 \<le> r div 3600000" "r div 3600000 \<le> 23"
    using div_bounds [of 3600000 r] assms by (simp_all add: DAY_MS_def)
  show "0 \<le> r div 60000 mod 60" "r div 60000 mod 60 \<le> 59"
    "0 \<le> r div 1000 mod 60" "r div 1000 mod 60 \<le> 59" "0 \<le> r mod 1000" "r mod 1000 \<le> 999"
    using b [of 60 "r div 60000"] b [of 60 "r div 1000"] b [of 1000 r] by linarith+
  have e: "r div 60000 = r div 1000 div 60" "r div 3600000 = r div 1000 div 60 div 60"
    by (simp_all add: zdiv_zmult2_eq [symmetric])
  have "60 * (k div 60) + k mod 60 = k" for k :: int by simp
  from this [of "r div 1000"] this [of "r div 1000 div 60"]
  have "r div 1000 = 60 * (r div 1000 div 60) + r div 1000 mod 60"
    "r div 1000 div 60 = 60 * (r div 1000 div 60 div 60) + r div 1000 div 60 mod 60" by linarith+
  moreover have "r = 1000 * (r div 1000) + r mod 1000" by simp
  ultimately show "3600000 * (r div 3600000) + 60000 * (r div 60000 mod 60)
      + 1000 * (r div 1000 mod 60) + r mod 1000 = r"
    unfolding e by linarith
qed

lemma js_parse_clock_iso:
  assumes "0 \<le> r" "r < DAY_MS"
  shows "js_parse_clock (iso_clock r) = Some r"
proof -
  note c = clock_parts [OF assms]
  define h m s f where "h = r div 3600000" and "m = r div 60000 mod 60" and "s = r div 1000 mod 60"
    and "f = r mod 1000"
  have b: "0 \<le> h" "h \<le> 23" "0 \<le> m" "m \<le> 59" "0 \<le> s" "s \<le> 59" "0 \<le> f" "f \<le> 999"
    and sum: "3600000 * h + 60000 * m + 1000 * s + f = r"
    unfolding h_def m_def s_def f_def using c by blast+
  have n: "10 * (h div 10 mod 10) + h mod 10 = h" "10 * (m div 10 mod 10) + m mod 10 = m"
    "10 * (s div 10 mod 10) + s mod 10 = s" "100 * (f div 100 mod 10) + 10 * (f div 10 mod 10) + f mod 10 = f"
    by (rule digit_sum2 digits3; use b in linarith)+
  have v: "js_parse_clock (iso_clock r) = js_parse_clock
      [CHR ''T'', digit_char (h div 10 mod 10), digit_char (h mod 10), CHR '':'',
       digit_char (m div 10 mod 10), digit_char (m mod 10), CHR '':'',
       digit_char (s div 10 mod 10), digit_char (s mod 10), CHR ''.'',
       digit_char (f div 100 mod 10), digit_char (f div 10 mod 10), digit_char (f mod 10), CHR ''Z'']"
    unfolding iso_clock_def h_def [symmetric] m_def [symmetric] s_def [symmetric] f_def [symmetric]
    by (simp only: pad2_def pad3_def append.simps)
  show ?thesis
    unfolding v js_parse_clock.simps
    by (simp only: list.pred_inject is_digit_char mod_ten_digit digit_val_char n sum b
        Let_def simp_thms if_True)
qed

lemma digit_not_T: "CHR ''T'' \<noteq> digit_char (k mod 10)"
proof -
  have "is_digit (digit_char (k mod 10))" by simp
  moreover have "\<not> is_digit CHR ''T''" by (simp add: is_digit_def digit_val_def)
  ultimately show ?thesis by metis
qed

lemma is_iso_timestamp_iso:
  assumes "civil_of_day (t div DAY_MS) = (y, m, d)" and "0 \<le> y" "y \<le> 9999"
  shows "is_iso_timestamp (Some (JStr (iso_timestamp t)))"
proof -
  have v: "valid_civil y m d" and n: "day_number y m d = t div DAY_MS"
    using civil_of_day_valid [OF assms(1)] by simp_all
  have r: "0 \<le> t mod DAY_MS" "t mod DAY_MS < DAY_MS" by (simp_all add: DAY_MS_def)
  have letters: "CHR ''T'' \<notin> set (iso_date y m d)"
    unfolding iso_date_def iso_year_small [OF assms(2,3)] pad4_def pad2_def append.simps list.set insert_iff empty_iff
    using digit_not_T by simp
  obtain clock where clock: "iso_clock (t mod DAY_MS) = CHR ''T'' # clock" by (simp add: iso_clock_def)
  have t: "iso_timestamp t = iso_date y m d @ iso_clock (t mod DAY_MS)"
    using assms by (simp add: iso_timestamp_def)
  have "takeWhile (\<lambda>c. c \<noteq> CHR ''T'') (iso_timestamp t) = iso_date y m d"
    "dropWhile (\<lambda>c. c \<noteq> CHR ''T'') (iso_timestamp t) = iso_clock (t mod DAY_MS)"
    unfolding t clock using letters by (auto simp: takeWhile_append dropWhile_append)
  moreover have "time_clip t = Some t"
  proof -
    have "day_number y m d \<le> 4000000" "- 4000000 \<le> day_number y m d"
      using day_number_bounds [of m d y] valid_civil_bounds [OF v] assms(2,3) by linarith+
    then have "t \<le> MAX_DAYS * DAY_MS" "- t \<le> MAX_DAYS * DAY_MS"
      using n div_bounds [of DAY_MS t] unfolding DAY_MS_def MAX_DAYS_def by linarith+
    then show ?thesis by (simp add: time_clip_def abs_le_iff)
  qed
  moreover have "js_parse_date (iso_date y m d) = Some (DAY_MS * (t div DAY_MS))"
    using valid_civil_bounds [OF v] assms by (simp add: js_parse_date_iso n)
  ultimately have "js_parse_timestamp (iso_timestamp t) = Some t"
    using js_parse_clock_iso [OF r] by (simp add: js_parse_timestamp_def)
  then show ?thesis by simp
qed

section \<open>The reader inverts the writer\<close>

definition nonblank :: "string \<Rightarrow> bool" where
  "nonblank s \<longleftrightarrow> js_trim s \<noteq> []"

text \<open>
  The storage ceiling of a booking's total is 60,000,000 roubles; the bound here, at which
  doubles still resolve kopecks, lies above it.
\<close>

definition MINOR_BOUND :: int where
  "MINOR_BOUND = 6710886400"

definition money_consistent :: "booking_terms_snapshot \<Rightarrow> bool" where
  "money_consistent s \<longleftrightarrow>
     (let mm = sn_moneyMinor s; k = \<lfloor>sn_days s\<rfloor>
      in sn_days s = of_int k \<and> 1 \<le> k \<and> 0 \<le> mm_pricePerDay mm \<and> 0 \<le> mm_deposit mm
       \<and> 0 \<le> mm_platformFee mm \<and> 0 \<le> mm_ownerPayout mm
       \<and> mm_rentalSubtotal mm = mm_pricePerDay mm * k
       \<and> mm_ownerPayout mm + mm_platformFee mm = mm_rentalSubtotal mm
       \<and> mm_total mm = mm_rentalSubtotal mm + mm_deposit mm
       \<and> mm_total mm < MINOR_BOUND
       \<and> sn_pricePerDay s = fl (minor_to_decimal (mm_pricePerDay mm))
       \<and> sn_rentalSubtotal s = fl (minor_to_decimal (mm_rentalSubtotal mm))
       \<and> (case sn_depositAmount s of None \<Rightarrow> mm_deposit mm = 0
          | Some d \<Rightarrow> d = fl (minor_to_decimal (mm_deposit mm)))
       \<and> sn_platformFee s = fl (minor_to_decimal (mm_platformFee mm))
       \<and> sn_ownerPayout s = fl (minor_to_decimal (mm_ownerPayout mm))
       \<and> sn_total s = fl (minor_to_decimal (mm_total mm)))"

definition scenario_consistent :: "booking_terms_snapshot \<Rightarrow> bool" where
  "scenario_consistent s \<longleftrightarrow>
     (let mm = sn_moneyMinor s
      in (sn_paymentScenario s = Snap_PAY_ON_HANDOVER \<longrightarrow>
            mm_deposit mm = 0 \<and> mm_platformFee mm = 0 \<and> sn_depositTerms s = None)
       \<and> (sn_paymentScenario s = Snap_FAKE_SAFE_DEAL \<longrightarrow>
            sn_acceptance s \<noteq> None \<and> (0 < mm_deposit mm \<longleftrightarrow> sn_depositTerms s \<noteq> None))
       \<and> (case sn_depositTerms s of None \<Rightarrow> True
          | Some t \<Rightarrow> nonblank (dt_policyVersion t) \<and> 0 < dt_disputeWindowSeconds t
              \<and> dt_disputeWindowSeconds t \<le> max_safe))"

definition texts_consistent :: "booking_terms_snapshot \<Rightarrow> bool" where
  "texts_consistent s \<longleftrightarrow>
     nonblank (sn_itemTitle s) \<and> nonblank (sn_lenderId s) \<and> nonblank (sn_listingVersion s)
     \<and> nonblank (ho_area (sn_handover s)) \<and> nonblank (ho_address (sn_handover s))
     \<and> -90 \<le> ho_latitude (sn_handover s) \<and> ho_latitude (sn_handover s) \<le> 90
     \<and> -180 \<le> ho_longitude (sn_handover s) \<and> ho_longitude (sn_handover s) \<le> 180
     \<and> (case sn_acceptance s of
          None \<Rightarrow> sn_offerVersion s = None \<and> sn_cancellationPolicyVersion s = None
        | Some a \<Rightarrow> nonblank (ac_actorId a) \<and> is_iso_timestamp (Some (JStr (ac_acceptedAt a)))
            \<and> sn_offerVersion s = Some (ac_offerVersion a) \<and> nonblank (ac_offerVersion a)
            \<and> sn_cancellationPolicyVersion s = Some (ac_cancellationPolicyVersion a)
            \<and> nonblank (ac_cancellationPolicyVersion a))"

definition snapshot_consistent :: "booking_terms_snapshot \<Rightarrow> bool" where
  "snapshot_consistent s \<longleftrightarrow> money_consistent s \<and> scenario_consistent s \<and> texts_consistent s"

abbreviation money_json :: "booking_money_minor \<Rightarrow> json" where
  "money_json m \<equiv> JObj
     [(''pricePerDay'', JNum (of_int (mm_pricePerDay m))),
      (''rentalSubtotal'', JNum (of_int (mm_rentalSubtotal m))),
      (''deposit'', JNum (of_int (mm_deposit m))),
      (''platformFee'', JNum (of_int (mm_platformFee m))),
      (''ownerPayout'', JNum (of_int (mm_ownerPayout m))),
      (''total'', JNum (of_int (mm_total m)))]"

abbreviation deposit_terms_json :: "deposit_terms option \<Rightarrow> json" where
  "deposit_terms_json d \<equiv> (case d of
          None \<Rightarrow> JNull
        | Some t \<Rightarrow> JObj [(''policyVersion'', JStr (dt_policyVersion t)),
                         (''disputeWindowSeconds'', JNum (of_int (dt_disputeWindowSeconds t)))])"

abbreviation handover_json :: "handover_terms \<Rightarrow> json" where
  "handover_json h \<equiv> JObj
        [(''area'', JStr (ho_area h)), (''address'', JStr (ho_address h)),
         (''latitude'', JNum (ho_latitude h)), (''longitude'', JNum (ho_longitude h))]"

abbreviation acceptance_json :: "acceptance option \<Rightarrow> json" where
  "acceptance_json x \<equiv> (case x of
          None \<Rightarrow> JNull
        | Some a \<Rightarrow> JObj
            [(''actorId'', JStr (ac_actorId a)),
             (''acceptedAt'', JStr (ac_acceptedAt a)),
             (''method'', JStr ''BOOKING_SUBMIT_CHECKBOX''),
             (''offerVersion'', JStr (ac_offerVersion a)),
             (''cancellationPolicyVersion'', JStr (ac_cancellationPolicyVersion a))])"

lemma snapshot_fields:
  "get_field (to_snapshot_json s) ''itemTitle'' = Some (JStr (sn_itemTitle s))"
  "get_field (to_snapshot_json s) ''lenderId'' = Some (JStr (sn_lenderId s))"
  "get_field (to_snapshot_json s) ''lenderDisplayName'' = Some (json_of_str (sn_lenderDisplayName s))"
  "get_field (to_snapshot_json s) ''pricePerDay'' = Some (JNum (sn_pricePerDay s))"
  "get_field (to_snapshot_json s) ''days'' = Some (JNum (sn_days s))"
  "get_field (to_snapshot_json s) ''rentalSubtotal'' = Some (JNum (sn_rentalSubtotal s))"
  "get_field (to_snapshot_json s) ''depositAmount'' = Some (json_of_num (sn_depositAmount s))"
  "get_field (to_snapshot_json s) ''platformFee'' = Some (JNum (sn_platformFee s))"
  "get_field (to_snapshot_json s) ''ownerPayout'' = Some (JNum (sn_ownerPayout s))"
  "get_field (to_snapshot_json s) ''total'' = Some (JNum (sn_total s))"
  "get_field (to_snapshot_json s) ''currency'' = Some (JStr ''RUB'')"
  "get_field (to_snapshot_json s) ''paymentScenario'' = Some (JStr (scenario_name (sn_paymentScenario s)))"
  "get_field (to_snapshot_json s) ''moneyMinor'' = Some (money_json (sn_moneyMinor s))"
  "get_field (to_snapshot_json s) ''depositTerms'' = Some (deposit_terms_json (sn_depositTerms s))"
  "get_field (to_snapshot_json s) ''handover'' = Some (handover_json (sn_handover s))"
  "get_field (to_snapshot_json s) ''listingVersion'' = Some (JStr (sn_listingVersion s))"
  "get_field (to_snapshot_json s) ''offerVersion'' = Some (json_of_str (sn_offerVersion s))"
  "get_field (to_snapshot_json s) ''cancellationPolicyVersion''
     = Some (json_of_str (sn_cancellationPolicyVersion s))"
  "get_field (to_snapshot_json s) ''acceptance'' = Some (acceptance_json (sn_acceptance s))"
  "is_json_record (Some (to_snapshot_json s))"
  by (simp_all add: to_snapshot_json_def)

definition money_in_range :: "booking_money_minor \<Rightarrow> bool" where
  "money_in_range m \<longleftrightarrow>
     list_all (\<lambda>x. 0 \<le> x \<and> x < MINOR_BOUND)
       [mm_pricePerDay m, mm_rentalSubtotal m, mm_deposit m, mm_platformFee m, mm_ownerPayout m, mm_total m]"

lemma money_consistent_range:
  assumes "money_consistent s"
  shows "money_in_range (sn_moneyMinor s)"
proof -
  define m k where "m = sn_moneyMinor s" and "k = \<lfloor>sn_days s\<rfloor>"
  have *: "1 \<le> k" "0 \<le> mm_pricePerDay m" "0 \<le> mm_deposit m" "0 \<le> mm_platformFee m" "0 \<le> mm_ownerPayout m"
    "mm_rentalSubtotal m = mm_pricePerDay m * k" "mm_ownerPayout m + mm_platformFee m = mm_rentalSubtotal m"
    "mm_total m = mm_rentalSubtotal m + mm_deposit m" "mm_total m < MINOR_BOUND"
    using assms by (simp_all add: money_consistent_def Let_def m_def k_def)
  then have "mm_pricePerDay m \<le> mm_rentalSubtotal m"
    using mult_left_mono [of 1 k "mm_pricePerDay m"] by simp
  with * have "0 \<le> mm_rentalSubtotal m" "0 \<le> mm_total m" "mm_rentalSubtotal m < MINOR_BOUND"
    "mm_pricePerDay m < MINOR_BOUND" "mm_deposit m < MINOR_BOUND" "mm_platformFee m < MINOR_BOUND"
    "mm_ownerPayout m < MINOR_BOUND"
    by linarith+
  with * show ?thesis
    unfolding money_in_range_def m_def [symmetric] by simp
qed

lemma read_money_minor_json:
  assumes "money_in_range m"
  shows "read_money_minor (money_json m) = Some m"
  using assms
  by (simp add: read_money_minor_def money_in_range_def Let_def MINOR_BOUND_def max_safe_def)

lemma read_scenario_name [simp]: "read_scenario (Some (JStr (scenario_name x))) = Some x"
  by (cases x) (simp_all add: read_scenario_def scenario_name_def)

lemma read_deposit_terms_json:
  assumes "scenario_consistent s"
  shows "read_deposit_terms (Some (deposit_terms_json (sn_depositTerms s))) = Some (sn_depositTerms s)"
  using assms
  by (auto simp: read_deposit_terms_def scenario_consistent_def Let_def nonblank_def split: option.splits)

lemma minor_units_json:
  "0 \<le> m \<Longrightarrow> m < MINOR_BOUND \<Longrightarrow> minor_units (Some (JNum (fl (minor_to_decimal m)))) = Some m"
  by (simp add: minor_units_fl MINOR_BOUND_def)

lemma minor_units_num_json:
  "0 \<le> m \<Longrightarrow> m < MINOR_BOUND \<Longrightarrow> minor_units_num (fl (minor_to_decimal m)) = Some m"
  by (simp add: minor_units_fl MINOR_BOUND_def)

lemma valid_acceptance_json:
  assumes "texts_consistent s"
  shows "valid_acceptance
     (if is_json_record (Some (acceptance_json (sn_acceptance s)))
      then Some (acceptance_json (sn_acceptance s)) else None)
     (Some (json_of_str (sn_offerVersion s))) (Some (json_of_str (sn_cancellationPolicyVersion s)))"
  using assms
  by (cases "sn_acceptance s")
     (simp_all add: texts_consistent_def valid_acceptance_def json_of_str_def nonblank_def
       del: is_iso_timestamp.simps)

lemma js_add_of_int: "\<bar>a + b\<bar> < 2 ^ 53 \<Longrightarrow> js_add (of_int a) (of_int b) = of_int (a + b)"
  unfolding js_add_def of_int_add [symmetric] by (rule fl_of_int)

lemma js_mul_of_int: "\<bar>a * b\<bar> < 2 ^ 53 \<Longrightarrow> js_mul (of_int a) (of_int b) = of_int (a * b)"
  unfolding js_mul_def of_int_mult [symmetric] by (rule fl_of_int)

text \<open>What the reader computes from the written object, field by field.\<close>

lemma read_money_checks:
  assumes "money_consistent s"
  defines "mm \<equiv> sn_moneyMinor s"
  shows "is_integer (sn_days s)" "\<not> sn_days s < 1"
    "minor_units (Some (JNum (sn_pricePerDay s))) = Some (mm_pricePerDay mm)"
    "minor_units (Some (JNum (sn_rentalSubtotal s))) = Some (mm_rentalSubtotal mm)"
    "(if Some (json_of_num (sn_depositAmount s)) = Some JNull then Some 0
      else minor_units (Some (json_of_num (sn_depositAmount s)))) = Some (mm_deposit mm)"
    "minor_units (Some (JNum (sn_platformFee s))) = Some (mm_platformFee mm)"
    "minor_units (Some (JNum (sn_ownerPayout s))) = Some (mm_ownerPayout mm)"
    "minor_units (Some (JNum (sn_total s))) = Some (mm_total mm)"
    "is_safe_integer (js_mul (of_int (mm_pricePerDay mm)) (sn_days s))"
    "of_int (mm_rentalSubtotal mm) = js_mul (of_int (mm_pricePerDay mm)) (sn_days s)"
    "js_add (of_int (mm_ownerPayout mm)) (of_int (mm_platformFee mm)) = of_int (mm_rentalSubtotal mm)"
    "of_int (mm_total mm) = js_add (of_int (mm_rentalSubtotal mm)) (of_int (mm_deposit mm))"
proof -
  define k where "k = \<lfloor>sn_days s\<rfloor>"
  have days: "sn_days s = of_int k" and k: "1 \<le> k"
    and eqs: "mm_rentalSubtotal mm = mm_pricePerDay mm * k"
      "mm_ownerPayout mm + mm_platformFee mm = mm_rentalSubtotal mm"
      "mm_total mm = mm_rentalSubtotal mm + mm_deposit mm"
    and num: "sn_pricePerDay s = fl (minor_to_decimal (mm_pricePerDay mm))"
      "sn_rentalSubtotal s = fl (minor_to_decimal (mm_rentalSubtotal mm))"
      "case sn_depositAmount s of None \<Rightarrow> mm_deposit mm = 0
         | Some d \<Rightarrow> d = fl (minor_to_decimal (mm_deposit mm))"
      "sn_platformFee s = fl (minor_to_decimal (mm_platformFee mm))"
      "sn_ownerPayout s = fl (minor_to_decimal (mm_ownerPayout mm))"
      "sn_total s = fl (minor_to_decimal (mm_total mm))"
    using assms(1) unfolding money_consistent_def Let_def mm_def k_def by blast+
  have r: "0 \<le> mm_pricePerDay mm" "mm_pricePerDay mm < MINOR_BOUND"
    "0 \<le> mm_rentalSubtotal mm" "mm_rentalSubtotal mm < MINOR_BOUND"
    "0 \<le> mm_deposit mm" "mm_deposit mm < MINOR_BOUND"
    "0 \<le> mm_platformFee mm" "mm_platformFee mm < MINOR_BOUND"
    "0 \<le> mm_ownerPayout mm" "mm_ownerPayout mm < MINOR_BOUND"
    "0 \<le> mm_total mm" "mm_total mm < MINOR_BOUND"
    using money_consistent_range [OF assms(1)] by (simp_all add: money_in_range_def mm_def)
  show "is_integer (sn_days s)" "\<not> sn_days s < 1" using k by (simp_all add: days)
  show "minor_units (Some (JNum (sn_pricePerDay s))) = Some (mm_pricePerDay mm)"
    "minor_units (Some (JNum (sn_rentalSubtotal s))) = Some (mm_rentalSubtotal mm)"
    "minor_units (Some (JNum (sn_platformFee s))) = Some (mm_platformFee mm)"
    "minor_units (Some (JNum (sn_ownerPayout s))) = Some (mm_ownerPayout mm)"
    "minor_units (Some (JNum (sn_total s))) = Some (mm_total mm)"
    unfolding num using r by (simp_all only: minor_units_json)
  show "(if Some (json_of_num (sn_depositAmount s)) = Some JNull then Some 0
      else minor_units (Some (json_of_num (sn_depositAmount s)))) = Some (mm_deposit mm)"
    using num(3) r(5,6) by (cases "sn_depositAmount s") (simp_all add: json_of_num_def minor_units_num_json)
  have prod: "js_mul (of_int (mm_pricePerDay mm)) (sn_days s) = of_int (mm_rentalSubtotal mm)"
    unfolding days eqs(1) by (rule js_mul_of_int) (use r(3,4) eqs(1) in \<open>simp add: MINOR_BOUND_def\<close>)
  show "is_safe_integer (js_mul (of_int (mm_pricePerDay mm)) (sn_days s))"
    unfolding prod using r(3,4) by (simp add: MINOR_BOUND_def max_safe_def)
  show "of_int (mm_rentalSubtotal mm) = js_mul (of_int (mm_pricePerDay mm)) (sn_days s)"
    by (rule prod [symmetric])
  have "js_add (of_int (mm_ownerPayout mm)) (of_int (mm_platformFee mm)) = of_int (mm_ownerPayout mm + mm_platformFee mm)"
    by (rule js_add_of_int) (use r(3,4) eqs(2) in \<open>simp add: MINOR_BOUND_def\<close>)
  then show "js_add (of_int (mm_ownerPayout mm)) (of_int (mm_platformFee mm)) = of_int (mm_rentalSubtotal mm)"
    by (simp only: eqs(2))
  have "js_add (of_int (mm_rentalSubtotal mm)) (of_int (mm_deposit mm)) = of_int (mm_rentalSubtotal mm + mm_deposit mm)"
    by (rule js_add_of_int) (use r(11,12) eqs(3) in \<open>simp add: MINOR_BOUND_def\<close>)
  then show "of_int (mm_total mm) = js_add (of_int (mm_rentalSubtotal mm)) (of_int (mm_deposit mm))"
    by (simp only: eqs(3))
qed

lemma scenario_checks:
  assumes "scenario_consistent s" and "money_consistent s"
  defines "mm \<equiv> sn_moneyMinor s"
  shows "sn_paymentScenario s = Snap_PAY_ON_HANDOVER \<Longrightarrow> mm_deposit mm = 0"
    "sn_paymentScenario s = Snap_PAY_ON_HANDOVER \<Longrightarrow> mm_platformFee mm = 0"
    "sn_paymentScenario s = Snap_PAY_ON_HANDOVER \<Longrightarrow> mm_ownerPayout mm = mm_rentalSubtotal mm"
    "sn_paymentScenario s = Snap_PAY_ON_HANDOVER \<Longrightarrow> sn_depositTerms s = None"
    "sn_paymentScenario s \<noteq> Snap_PAY_ON_HANDOVER \<Longrightarrow> sn_acceptance s \<noteq> None"
    "sn_paymentScenario s \<noteq> Snap_PAY_ON_HANDOVER \<Longrightarrow> (0 < mm_deposit mm) = (sn_depositTerms s \<noteq> None)"
  using assms(1,2) unfolding scenario_consistent_def money_consistent_def Let_def mm_def
  by (cases "sn_paymentScenario s"; simp)+

lemma acceptance_json_record:
  "(if is_json_record (Some (acceptance_json x)) then Some (acceptance_json x) else None)
     = map_option (\<lambda>a. acceptance_json (Some a)) x"
  by (cases x) simp_all

lemma snapshot_reads_back:
  assumes "snapshot_consistent s"
  shows "read_booking_terms_snapshot (to_snapshot_json s) = Some s"
proof -
  have c: "money_consistent s" "scenario_consistent s" "texts_consistent s"
    using assms by (simp_all add: snapshot_consistent_def)
  define acc where "acc = map_option (\<lambda>a. acceptance_json (Some a)) (sn_acceptance s)"
  note m = read_money_checks [OF c(1), folded read_deposit_amount_def]
  have cm: "choose_money_minor (Some (money_json (sn_moneyMinor s))) off a b d e f g = Some (sn_moneyMinor s)"
    for off a b d e f g
    using read_money_minor_json [OF money_consistent_range [OF c(1)]] by (simp add: choose_money_minor_def)
  have ver: "is_nullable_version (Some (json_of_str (sn_offerVersion s)))"
    "is_nullable_version (Some (json_of_str (sn_cancellationPolicyVersion s)))"
    using c(3) by (cases "sn_acceptance s"; simp add: texts_consistent_def json_of_str_def nonblank_def)+
  have acc: "read_acceptance acc = sn_acceptance s" "acc = None \<longleftrightarrow> sn_acceptance s = None"
    by (cases "sn_acceptance s"; simp add: acc_def read_acceptance_def)+
  note sc = scenario_checks [OF c(2,1)]
  have t: "\<not> texts_rejected (to_snapshot_json s) (handover_json (sn_handover s)) acc
      (Some (sn_paymentScenario s))"
    using c(3) ver sc(5) valid_acceptance_json [OF c(3)] acc(2)
    unfolding texts_rejected_def snapshot_fields acceptance_json_record acc_def [symmetric]
    by (auto simp: texts_consistent_def nonblank_def simp del: is_nullable_version.simps)
  have mo: "\<not> money_rejected (Some (JNum (sn_days s))) (sn_paymentScenario s = Snap_PAY_ON_HANDOVER)
     (Some (mm_pricePerDay (sn_moneyMinor s))) (Some (mm_rentalSubtotal (sn_moneyMinor s)))
     (Some (mm_deposit (sn_moneyMinor s))) (Some (mm_platformFee (sn_moneyMinor s)))
     (Some (mm_ownerPayout (sn_moneyMinor s))) (Some (mm_total (sn_moneyMinor s)))
     (Some (sn_moneyMinor s)) (Some (sn_depositTerms s))"
    using m(1,2,9-12) sc unfolding money_rejected_def Let_def option.sel
    by (cases "sn_paymentScenario s = Snap_PAY_ON_HANDOVER") simp_all
  show ?thesis
    unfolding read_booking_terms_snapshot_def snapshot_fields acceptance_json_record acc_def [symmetric]
      m(3-8) read_scenario_name read_deposit_terms_json [OF c(2)] Let_def cm
    using t mo snapshot_fields(20) [of s] by (simp add: acc)
qed

text \<open>
  A concrete safe deal: two days at 1500 roubles with a deposit of 3000 roubles. The rouble
  fields are the doubles next to the decimals; the latitude and longitude are exact.
\<close>

definition sample_snapshot :: booking_terms_snapshot where
  "sample_snapshot =
     \<lparr>sn_itemTitle = ''Drill'', sn_lenderId = ''owner'', sn_lenderDisplayName = Some ''Ann'',
      sn_pricePerDay = fl (minor_to_decimal 150000), sn_days = of_int 2,
      sn_rentalSubtotal = fl (minor_to_decimal 300000),
      sn_depositAmount = Some (fl (minor_to_decimal 300000)),
      sn_platformFee = fl (minor_to_decimal 30000),
      sn_ownerPayout = fl (minor_to_decimal 270000), sn_total = fl (minor_to_decimal 600000),
      sn_paymentScenario = Snap_FAKE_SAFE_DEAL,
      sn_moneyMinor = \<lparr>mm_pricePerDay = 150000, mm_rentalSubtotal = 300000, mm_deposit = 300000,
        mm_platformFee = 30000, mm_ownerPayout = 270000, mm_total = 600000\<rparr>,
      sn_depositTerms = Some \<lparr>dt_policyVersion = ''v1'', dt_disputeWindowSeconds = 86400\<rparr>,
      sn_handover = \<lparr>ho_area = ''North'', ho_address = ''Lane 1'', ho_latitude = 60, ho_longitude = 30\<rparr>,
      sn_listingVersion = ''hash'', sn_offerVersion = Some ''offer-1'',
      sn_cancellationPolicyVersion = Some ''cancel-1'',
      sn_acceptance = Some \<lparr>ac_actorId = ''borrower'', ac_acceptedAt = ''2026-09-02T10:15:30.250Z'',
        ac_offerVersion = ''offer-1'', ac_cancellationPolicyVersion = ''cancel-1''\<rparr>\<rparr>"

lemma sample_acceptance_time: "is_iso_timestamp (Some (JStr ''2026-09-02T10:15:30.250Z''))"
  by code_simp

lemma nonblank_Cons: "\<not> is_js_space c \<Longrightarrow> nonblank (c # cs)"
  by (auto simp: nonblank_def js_trim_eq_Nil_iff)

lemma sample_snapshot_consistent: "snapshot_consistent sample_snapshot"
proof -
  have "money_consistent sample_snapshot"
    by (simp add: money_consistent_def sample_snapshot_def MINOR_BOUND_def)
  moreover have "scenario_consistent sample_snapshot"
    by (simp add: scenario_consistent_def sample_snapshot_def nonblank_Cons is_js_space_def max_safe_def)
  moreover have "texts_consistent sample_snapshot"
    using sample_acceptance_time
    by (simp add: texts_consistent_def sample_snapshot_def nonblank_Cons is_js_space_def)
  ultimately show ?thesis by (simp add: snapshot_consistent_def)
qed

text \<open>
  C12. Reading the JSON of a snapshot gives the snapshot back: for every consistent snapshot
  with a total below 67,108,864 roubles no rounding of the rouble amounts as doubles, nor of
  the products and sums the reader recomputes, makes it reject the terms or change a field.
\<close>

theorem snapshot_roundtrip:
  assumes "snapshot_consistent s"
  shows "read_booking_terms_snapshot (to_snapshot_json s) = Some s"
  using assms by (rule snapshot_reads_back)

theorem snapshot_roundtrip_witness:
  "read_booking_terms_snapshot (to_snapshot_json sample_snapshot) = Some sample_snapshot"
  by (rule snapshot_roundtrip [OF sample_snapshot_consistent])

section \<open>What the reader accepts\<close>

lemma fl_safe_exact:
  assumes "is_safe_integer (fl (of_int v))"
  shows "fl (of_int v) = of_int v"
proof -
  have "\<bar>v\<bar> \<le> max_safe"
    using assms minor_to_safe_number_eq [of v]
    by (simp add: minor_to_safe_number_def split: if_splits)
  then show ?thesis by (intro fl_of_int) (simp add: max_safe_def)
qed

lemma js_mul_safe: "is_safe_integer (js_mul (of_int a) (of_int b)) \<Longrightarrow> js_mul (of_int a) (of_int b) = of_int (a * b)"
  unfolding js_mul_def of_int_mult [symmetric] by (rule fl_safe_exact)

lemma js_add_safe:
  assumes "js_add (of_int a) (of_int b) = of_int c" and "\<bar>c\<bar> \<le> max_safe"
  shows "a + b = c"
proof -
  have "fl (of_int (a + b)) = of_int c" using assms(1) by (simp add: js_add_def)
  then have "is_safe_integer (fl (of_int (a + b)))" using assms(2) by simp
  then have "fl (of_int (a + b)) = of_int (a + b)" by (rule fl_safe_exact)
  with \<open>fl (of_int (a + b)) = of_int c\<close> show ?thesis by (metis of_int_eq_iff)
qed

lemma minor_units_range:
  assumes "minor_units v = Some m"
  shows "0 \<le> m \<and> m \<le> max_safe"
proof -
  from assms obtain x where x: "v = Some (JNum x)" "minor_units_num x = Some m"
    by (elim minor_units.elims) auto
  then have "0 \<le> x" "m = js_round (js_mul x 100)" "\<bar>m\<bar> \<le> max_safe"
    by (auto simp: minor_units_num_def Let_def split: if_splits)
  moreover from this have "0 \<le> js_mul x 100" unfolding js_mul_def by (intro fl_nonneg) simp
  ultimately show ?thesis by (simp add: js_round_def)
qed

lemma snapshot_acceptedE:
  assumes "read_booking_terms_snapshot v = Some s"
  obtains days off p r d f w t where
    "\<not> money_rejected days off p r d f w t (Some (sn_moneyMinor s)) (Some (sn_depositTerms s))"
    "off = (sn_paymentScenario s = Snap_PAY_ON_HANDOVER)" "sn_days s = num_of days"
    "r = minor_units (get_field v ''rentalSubtotal'')" "t = minor_units (get_field v ''total'')"
    "off \<or> sn_acceptance s \<noteq> None"
proof -
  define acceptance where "acceptance = (if is_json_record (get_field v ''acceptance'')
                       then get_field v ''acceptance'' else None)"
  define scen where "scen = read_scenario (get_field v ''paymentScenario'')"
  define d where "d = read_deposit_amount (get_field v ''depositAmount'')"
  define mo where "mo = choose_money_minor (get_field v ''moneyMinor'') (scen = Some Snap_PAY_ON_HANDOVER)
     (minor_units (get_field v ''pricePerDay'')) (minor_units (get_field v ''rentalSubtotal'')) d
     (minor_units (get_field v ''platformFee'')) (minor_units (get_field v ''ownerPayout''))
     (minor_units (get_field v ''total''))"
  define dt where "dt = (if get_field v ''depositTerms'' = None \<and> scen = Some Snap_PAY_ON_HANDOVER
     then Some None else read_deposit_terms (get_field v ''depositTerms''))"
  note defs = acceptance_def [symmetric] scen_def [symmetric] d_def [symmetric] mo_def [symmetric]
    dt_def [symmetric]
  have t: "\<not> texts_rejected v (the (get_field v ''handover'')) acceptance scen"
    and mr: "\<not> money_rejected (get_field v ''days'') (scen = Some Snap_PAY_ON_HANDOVER)
      (minor_units (get_field v ''pricePerDay'')) (minor_units (get_field v ''rentalSubtotal'')) d
      (minor_units (get_field v ''platformFee'')) (minor_units (get_field v ''ownerPayout''))
      (minor_units (get_field v ''total'')) mo dt"
    and s: "sn_paymentScenario s = the scen" "sn_moneyMinor s = the mo" "sn_depositTerms s = the dt"
      "sn_days s = num_of (get_field v ''days'')" "sn_acceptance s = read_acceptance acceptance"
    using assms unfolding read_booking_terms_snapshot_def Let_def defs
    by (auto split: if_split_asm)
  have "mo \<noteq> None" by (rule notI) (use mr in \<open>simp add: money_rejected_def\<close>)
  moreover have "dt \<noteq> None" by (rule notI) (use mr in \<open>simp add: money_rejected_def\<close>)
  moreover have "scen \<noteq> None" by (rule notI) (use t in \<open>simp add: texts_rejected_def\<close>)
  moreover have "scen = Some Snap_PAY_ON_HANDOVER \<or> acceptance \<noteq> None"
    by (rule ccontr) (use t in \<open>simp add: texts_rejected_def\<close>)
  ultimately have e: "scen = Some (sn_paymentScenario s)" "mo = Some (sn_moneyMinor s)" "dt = Some (sn_depositTerms s)"
    and ac: "sn_paymentScenario s = Snap_PAY_ON_HANDOVER \<or> sn_acceptance s \<noteq> None"
    using s by (auto simp: read_acceptance_def)
  show thesis
    by (rule that [OF mr [unfolded e(2,3)] _ s(4) refl refl]) (use ac in \<open>simp_all add: e(1)\<close>)
qed

text \<open>
  C13. The terms every command works with are arithmetically sound: whatever value the reader
  accepts, its rental is the daily price times the whole number of days, the owner's payout
  and the platform fee make up the rental, the total is the rental plus the deposit, an
  offline rental has neither deposit nor fee, and a safe deal carries an acceptance and has
  deposit terms exactly when its deposit is positive.
\<close>

theorem snapshot_accepted_sound:
  assumes "read_booking_terms_snapshot v = Some s"
  shows "\<exists>k. sn_days s = of_int k \<and> 1 \<le> k
     \<and> mm_rentalSubtotal (sn_moneyMinor s) = mm_pricePerDay (sn_moneyMinor s) * k
     \<and> mm_ownerPayout (sn_moneyMinor s) + mm_platformFee (sn_moneyMinor s) = mm_rentalSubtotal (sn_moneyMinor s)
     \<and> mm_total (sn_moneyMinor s) = mm_rentalSubtotal (sn_moneyMinor s) + mm_deposit (sn_moneyMinor s)
     \<and> (sn_paymentScenario s = Snap_PAY_ON_HANDOVER \<longrightarrow>
          mm_deposit (sn_moneyMinor s) = 0 \<and> mm_platformFee (sn_moneyMinor s) = 0 \<and> sn_depositTerms s = None)
     \<and> (sn_paymentScenario s = Snap_FAKE_SAFE_DEAL \<longrightarrow>
          sn_acceptance s \<noteq> None \<and> (0 < mm_deposit (sn_moneyMinor s) \<longleftrightarrow> sn_depositTerms s \<noteq> None))"
proof -
  define mm where "mm = sn_moneyMinor s"
  from assms obtain days off p r d f w t where
    n: "\<not> money_rejected days off p r d f w t (Some mm) (Some (sn_depositTerms s))"
    and o: "off = (sn_paymentScenario s = Snap_PAY_ON_HANDOVER)" and days: "sn_days s = num_of days"
    and rt: "r = minor_units (get_field v ''rentalSubtotal'')" "t = minor_units (get_field v ''total'')"
    and ac: "off \<or> sn_acceptance s \<noteq> None"
    unfolding mm_def by (rule snapshot_acceptedE)
  have c: "is_integer (sn_days s)" "\<not> sn_days s < 1" "is_safe_integer (js_mul (of_int (mm_pricePerDay mm)) (sn_days s))"
    "of_int (mm_rentalSubtotal mm) = js_mul (of_int (mm_pricePerDay mm)) (sn_days s)"
    "js_add (of_int (mm_ownerPayout mm)) (of_int (mm_platformFee mm)) = of_int (mm_rentalSubtotal mm)"
    "of_int (mm_total mm) = js_add (of_int (mm_rentalSubtotal mm)) (of_int (mm_deposit mm))"
    "r = Some (mm_rentalSubtotal mm)" "t = Some (mm_total mm)"
    "off \<longrightarrow> mm_deposit mm = 0 \<and> mm_platformFee mm = 0 \<and> sn_depositTerms s = None"
    "\<not> off \<longrightarrow> (0 < mm_deposit mm \<longleftrightarrow> sn_depositTerms s \<noteq> None)"
    using n unfolding days money_rejected_def Let_def option.sel by auto
  define k where "k = \<lfloor>sn_days s\<rfloor>"
  have k: "sn_days s = of_int k" using c(1) unfolding k_def is_integer_def by (rule sym)
  then have "1 \<le> k" using c(2) by simp
  moreover have "mm_rentalSubtotal mm = mm_pricePerDay mm * k"
    using c(3,4) js_mul_safe unfolding k by (metis of_int_eq_iff)
  moreover have "mm_ownerPayout mm + mm_platformFee mm = mm_rentalSubtotal mm"
    using c(5) minor_units_range [of _ "mm_rentalSubtotal mm"] c(7) rt(1) by (intro js_add_safe) auto
  moreover have "mm_rentalSubtotal mm + mm_deposit mm = mm_total mm"
    using c(6) minor_units_range [of _ "mm_total mm"] c(8) rt(2) by (intro js_add_safe) auto
  ultimately show ?thesis
    using k c(9,10) o ac unfolding mm_def by (intro exI [of _ k]) auto
qed

theorem snapshot_accepted_sound_witness:
  "\<exists>k. sn_days sample_snapshot = of_int k \<and> 1 \<le> k
     \<and> mm_rentalSubtotal (sn_moneyMinor sample_snapshot) = mm_pricePerDay (sn_moneyMinor sample_snapshot) * k"
  using snapshot_accepted_sound [OF snapshot_reads_back [OF sample_snapshot_consistent]] by blast

lemma read_bound_SomeD:
  assumes "read_bound_booking_terms_snapshot v b = Some s"
  shows "read_booking_terms_snapshot v = Some s" "sn_lenderId s = bind_lenderId b"
    "sn_days s = of_int (bind_days b)"
    "sn_acceptance s = None \<or> ac_actorId (the (sn_acceptance s)) = bind_borrowerId b"
    "minor_units_num (bind_totalAmount b) = Some (mm_total (sn_moneyMinor s))"
  using assms
  by (auto simp: read_bound_booking_terms_snapshot_def split: option.splits if_splits)

end
