(* ===== verification/Database.thy ===== *)
theory Database
  imports Workflow Booking_Terms
begin

text \<open>
  The relational state the booking, deposit, dispute, notification and review components
  share (\<open>backend/prisma/schema.prisma\<close>): one record type per table, restricted to the
  columns the modelled code reads or writes, and one state record holding all tables.
  A table is the list of its rows in insertion order. Row ids come from a supply that the
  state carries (\<open>@default(uuid())\<close>), \<open>db_now\<close> is the database's clock
  (\<open>@default(now())\<close>). The insert operations check the UNIQUE and CHECK constraints of the
  schema and its migrations; foreign keys are not modelled.
\<close>

section \<open>Enumerations\<close>

datatype item_status = It_PENDING | It_APPROVED | It_REJECTED | It_HIDDEN

datatype message_role = Msg_BORROWER | Msg_LENDER | Msg_SYSTEM

datatype act_stage = HANDOVER | RETURN_STAGE

datatype operation_kind = Op_HOLD | Op_CANCEL | Op_REFUND | Op_RELEASE_TO_LENDER

datatype operation_status = Ops_PENDING | Ops_SUCCEEDED | Ops_FAILED

datatype dispute_reason = ITEM_DAMAGED | ITEM_LOST | OTHER

datatype push_status = Push_PENDING | Push_PROCESSING | Push_RETRY | Push_DELIVERED

datatype push_provider_name = FCM | RUSTORE

datatype push_platform = ANDROID | IOS

datatype user_role = Role_USER | Role_ADMIN

datatype kyc_status = Kyc_PENDING | Kyc_VERIFIED | Kyc_REJECTED

datatype item_condition = Cond_NEW | Cond_LIKE_NEW | Cond_GOOD | Cond_FAIR

datatype listing_policy = Pol_ALLOWED | Pol_RESTRICTED | Pol_PROHIBITED

datatype ticket_status = Tk_OPEN | Tk_IN_PROGRESS | Tk_CLOSED

datatype ticket_type = Tk_GENERAL | Tk_DISPUTE

datatype booking_issue = OWNER_NO_SHOW | BORROWER_NO_SHOW | ITEM_FAULTY | EARLY_RETURN | LATE_RETURN
  | Issue_ITEM_DAMAGED | Issue_ITEM_LOST

datatype support_role = Sup_USER | Sup_SUPPORT

datatype report_target = Tgt_ITEM | Tgt_USER | Tgt_BOOKING | Tgt_MESSAGE | Tgt_REVIEW

datatype report_reason = PROHIBITED_CATEGORY | MISLEADING_LISTING | UNSAFE_ITEM | SUSPECTED_FRAUD | HARASSMENT
  | IMPERSONATION | PRIVACY_VIOLATION | NO_SHOW | UNSAFE_HANDOVER | ITEM_NOT_AS_DESCRIBED | Reason_OTHER

datatype report_status = Rep_OPEN | Rep_DISMISSED | Rep_ACTIONED

section \<open>Rows\<close>

record user_row =
  us_id :: string
  us_phone :: string
  us_name :: "string option"
  us_city :: "string option"
  us_avatarUrl :: "string option"
  us_role :: user_role
  us_kycStatus :: "kyc_status option"
  us_isBlocked :: bool
  us_sessionVersion :: int
  us_deletedAt :: "timestamp option"
  us_anonymizedAt :: "timestamp option"
  us_createdAt :: timestamp
  us_updatedAt :: timestamp

text \<open>The columns of a listing that its owner writes and no other service reads.\<close>

record listing_details =
  ld_clientRequestId :: "string option"
  ld_clientRequestHash :: "string option"
  ld_categoryId :: string
  ld_description :: string
  ld_condition :: item_condition
  ld_completeness :: string
  ld_handoverTerms :: string
  ld_rejectReason :: "string option"
  ld_listingRulesAcceptedAt :: "timestamp option"
  ld_listingRulesAcceptanceMethod :: "string option"
  ld_safetyNoticeSnapshot :: "string option"
  ld_createdAt :: timestamp

record item_row =
  it_id :: string
  it_ownerId :: string
  it_title :: string
  it_pricePerDay :: rat
  it_depositAmount :: "rat option"
  it_status :: item_status
  it_publicArea :: string
  it_address :: string
  it_latitude :: rat
  it_longitude :: rat
  it_listingRulesVersion :: "string option"
  it_updatedAt :: timestamp
  it_details :: listing_details

record category_row =
  cat_id :: string
  cat_name :: string
  cat_slug :: string
  cat_iconName :: "string option"
  cat_sortOrder :: int
  cat_isActive :: bool
  cat_isAllowedForListings :: bool
  cat_listingPolicy :: listing_policy
  cat_safetyNotice :: string
  cat_createdAt :: timestamp
  cat_updatedAt :: timestamp

record favorite_row =
  fav_userId :: string
  fav_itemId :: string
  fav_createdAt :: timestamp

record photo_row =
  ph_id :: string
  ph_itemId :: string
  ph_uploadIntentId :: "string option"
  ph_originalUrl :: "string option"
  ph_thumbnailUrl :: "string option"
  ph_previewUrl :: "string option"
  ph_sortOrder :: int
  ph_isCover :: bool
  ph_createdAt :: timestamp

record unavailable_row =
  un_id :: string
  un_itemId :: string
  un_startDate :: timestamp
  un_endDate :: timestamp
  un_createdAt :: timestamp

record booking_row =
  bk_id :: string
  bk_itemId :: string
  bk_borrowerId :: string
  bk_clientRequestId :: "string option"
  bk_clientRequestHash :: "string option"
  bk_lenderId :: string
  bk_startDate :: timestamp
  bk_endDate :: timestamp
  bk_totalAmount :: rat
  bk_status :: booking_status
  bk_expiresAt :: "timestamp option"
  bk_cancellationReason :: "string option"
  bk_termsSnapshot :: "json option"
  bk_createdAt :: timestamp

record deposit_row =
  dep_id :: string
  dep_bookingId :: string
  dep_amount :: rat
  dep_currency :: string
  dep_policyVersion :: string
  dep_disputeWindowSeconds :: int
  dep_status :: deposit_status
  dep_disputeWindowEndsAt :: "timestamp option"
  dep_refundedAmount :: rat
  dep_releasedToLenderAmount :: rat

record operation_row =
  op_id :: string
  op_depositId :: string
  op_kind :: operation_kind
  op_amount :: rat
  op_status :: operation_status
  op_idempotencyKey :: string
  op_providerOperationId :: "string option"
  op_retryOfId :: "string option"
  op_providerErrorCode :: "string option"
  op_attempts :: nat
  op_nextAttemptAt :: timestamp
  op_processingUntil :: "timestamp option"
  op_completedAt :: "timestamp option"
  op_createdAt :: timestamp

record payment_row =
  pay_id :: string
  pay_bookingId :: string
  pay_userId :: string
  pay_amount :: rat
  pay_status :: payment_status
  pay_yookassaPaymentId :: "string option"

record dispute_row =
  dis_id :: string
  dis_bookingId :: string
  dis_openedById :: string
  dis_resolvedById :: "string option"
  dis_reason :: dispute_reason
  dis_description :: "string option"
  dis_status :: dispute_status
  dis_decisionReason :: "string option"
  dis_refundToBorrowerAmount :: rat
  dis_releaseToLenderAmount :: rat
  dis_openedAt :: timestamp
  dis_resolvedAt :: "timestamp option"

record evidence_row =
  ev_id :: string
  ev_ownerId :: string
  ev_uploadIntentId :: string
  ev_storageKey :: string
  ev_sha256 :: string
  ev_createdAt :: timestamp

record act_row =
  act_id :: string
  act_bookingId :: string
  act_authorId :: string
  act_stage_of :: act_stage
  act_createdAt :: timestamp
  act_confirmedById :: "string option"
  act_confirmedAt :: "timestamp option"
  act_readinessIsWorking :: "bool option"
  act_readinessIsComplete :: "bool option"
  act_readinessVisibleDefects :: "string option"
  act_readinessDeclaredAt :: "timestamp option"

record intent_row =
  int_id :: string
  int_actorId :: string
  int_purpose :: string
  int_entityId :: string
  int_bucket :: string
  int_objectKey :: string
  int_contentType :: string
  int_sizeBytes :: int
  int_expiresAt :: timestamp
  int_confirmedAt :: "timestamp option"

record message_row =
  msg_id :: string
  msg_bookingId :: string
  msg_authorId :: "string option"
  msg_authorRole :: message_role
  msg_clientMessageId :: "string option"
  msg_body :: string
  msg_createdAt :: timestamp

record history_row =
  hist_id :: string
  hist_bookingId :: string
  hist_actorId :: "string option"
  hist_actorType :: string
  hist_command :: string
  hist_oldStatus :: "booking_status option"
  hist_newStatus :: booking_status
  hist_reason :: "string option"
  hist_requestId :: string
  hist_createdAt :: timestamp

record outbox_row =
  out_id :: string
  out_bookingId :: "string option"
  out_supportTicketId :: "string option"
  out_recipientId :: "string option"
  out_itemId :: "string option"
  out_eventType :: string
  out_deduplicationKey :: string
  out_createdAt :: timestamp
  out_processedAt :: "timestamp option"

record inbox_row =
  inb_id :: string
  inb_eventId :: string
  inb_recipientId :: string
  inb_bookingId :: "string option"
  inb_supportTicketId :: "string option"
  inb_itemId :: "string option"
  inb_eventType :: string
  inb_readAt :: "timestamp option"
  inb_createdAt :: timestamp

record block_row =
  blk_id :: string
  blk_blockerId :: string
  blk_blockedId :: string
  blk_createdAt :: timestamp

record review_row =
  rev_id :: string
  rev_bookingId :: string
  rev_authorId :: "string option"
  rev_targetId :: string
  rev_authorRole :: actor_role
  rev_clientReviewId :: "string option"
  rev_rating :: int
  rev_text :: "string option"
  rev_publishAt :: timestamp
  rev_hiddenAt :: "timestamp option"
  rev_hiddenById :: "string option"
  rev_hiddenReason :: "string option"
  rev_createdAt :: timestamp

record token_row =
  tok_id :: string
  tok_userId :: string
  tok_installationId :: string
  tok_provider :: push_provider_name
  tok_platform :: push_platform
  tok_token :: string
  tok_updatedAt :: timestamp

record push_row =
  push_id :: string
  push_eventId :: string
  push_tokenId :: string
  push_status_of :: push_status
  push_attempts :: nat
  push_nextAttemptAt :: timestamp
  push_processingUntil :: "timestamp option"
  push_deliveredAt :: "timestamp option"
  push_lastErrorCode :: "string option"
  push_createdAt :: timestamp

record audit_row =
  aud_adminId :: "string option"
  aud_action :: string
  aud_entityType :: string
  aud_entityId :: "string option"
  aud_reason :: "string option"

record kyc_row =
  kyc_userId :: string

record ticket_row =
  tk_id :: string
  tk_userId :: string
  tk_bookingId :: "string option"
  tk_bookingIssueReason :: "booking_issue option"
  tk_type :: ticket_type
  tk_subject :: string
  tk_message :: string
  tk_status :: ticket_status
  tk_adminResponse :: "string option"
  tk_assigneeId :: "string option"
  tk_respondedById :: "string option"
  tk_respondedAt :: "timestamp option"
  tk_createdAt :: timestamp
  tk_updatedAt :: timestamp

record support_message_row =
  sm_id :: string
  sm_ticketId :: string
  sm_authorId :: string
  sm_authorRole :: support_role
  sm_body :: string
  sm_createdAt :: timestamp

record report_row =
  rp_id :: string
  rp_reporterId :: string
  rp_targetType :: report_target
  rp_targetId :: string
  rp_reason :: report_reason
  rp_description :: string
  rp_status :: report_status
  rp_reviewedById :: "string option"
  rp_reviewedAt :: "timestamp option"
  rp_decision :: "string option"
  rp_createdAt :: timestamp
  rp_updatedAt :: timestamp

section \<open>The state\<close>

text \<open>The tables of the catalogue and of the help desk, which the other services hardly touch.\<close>

record catalog =
  ct_categories :: "category_row list"
  ct_favorites :: "favorite_row list"
  ct_photos :: "photo_row list"

record desk =
  dk_tickets :: "ticket_row list"
  dk_messages :: "support_message_row list"
  dk_attachments :: "evidence_row list"
  dk_reports :: "report_row list"
  dk_kyc :: "kyc_row list"

record db =
  db_supply :: "nat \<Rightarrow> string"
  db_next :: nat
  db_now :: timestamp
  db_users :: "user_row list"
  db_items :: "item_row list"
  db_unavailable :: "unavailable_row list"
  db_blocks :: "block_row list"
  db_bookings :: "booking_row list"
  db_deposits :: "deposit_row list"
  db_operations :: "operation_row list"
  db_payments :: "payment_row list"
  db_disputes :: "dispute_row list"
  db_disputeEvidence :: "evidence_row list"
  db_acts :: "act_row list"
  db_actEvidence :: "evidence_row list"
  db_intents :: "intent_row list"
  db_messages :: "message_row list"
  db_history :: "history_row list"
  db_outbox :: "outbox_row list"
  db_inbox :: "inbox_row list"
  db_reviews :: "review_row list"
  db_tokens :: "token_row list"
  db_pushes :: "push_row list"
  db_audit :: "audit_row list"
  db_catalog :: catalog
  db_desk :: desk

definition fresh_id :: "db \<Rightarrow> string" where
  "fresh_id db = db_supply db (db_next db)"

section \<open>Lookups\<close>

definition find_user :: "db \<Rightarrow> string \<Rightarrow> user_row option" where
  "find_user db i = List.find (\<lambda>u. us_id u = i) (db_users db)"

definition find_booking :: "db \<Rightarrow> string \<Rightarrow> booking_row option" where
  "find_booking db i = List.find (\<lambda>b. bk_id b = i) (db_bookings db)"

definition deposit_of :: "db \<Rightarrow> string \<Rightarrow> deposit_row option" where
  "deposit_of db bookingId = List.find (\<lambda>d. dep_bookingId d = bookingId) (db_deposits db)"

definition find_deposit :: "db \<Rightarrow> string \<Rightarrow> deposit_row option" where
  "find_deposit db i = List.find (\<lambda>d. dep_id d = i) (db_deposits db)"

definition payment_of :: "db \<Rightarrow> string \<Rightarrow> payment_row option" where
  "payment_of db bookingId = List.find (\<lambda>p. pay_bookingId p = bookingId) (db_payments db)"

definition dispute_of :: "db \<Rightarrow> string \<Rightarrow> dispute_row option" where
  "dispute_of db bookingId = List.find (\<lambda>d. dis_bookingId d = bookingId) (db_disputes db)"

definition find_dispute :: "db \<Rightarrow> string \<Rightarrow> dispute_row option" where
  "find_dispute db i = List.find (\<lambda>d. dis_id d = i) (db_disputes db)"

definition find_operation :: "db \<Rightarrow> string \<Rightarrow> operation_row option" where
  "find_operation db i = List.find (\<lambda>x. op_id x = i) (db_operations db)"

definition operation_by_key :: "db \<Rightarrow> string \<Rightarrow> operation_row option" where
  "operation_by_key db k = List.find (\<lambda>x. op_idempotencyKey x = k) (db_operations db)"

lemmas lookup_defs = find_user_def find_booking_def deposit_of_def find_deposit_def payment_of_def
  dispute_of_def find_dispute_def find_operation_def operation_by_key_def

text \<open>The condition \<open>OR: [{ borrowerId: actorId }, { lenderId: actorId }]\<close>.\<close>

definition is_participant :: "string \<Rightarrow> booking_row \<Rightarrow> bool" where
  "is_participant actorId b \<longleftrightarrow> bk_borrowerId b = actorId \<or> bk_lenderId b = actorId"

definition find_participant_booking :: "db \<Rightarrow> string \<Rightarrow> string \<Rightarrow> booking_row option" where
  "find_participant_booking db actorId bookingId =
     List.find (\<lambda>b. bk_id b = bookingId \<and> is_participant actorId b) (db_bookings db)"

text \<open>Closed periods overlap: \<open>startDate <= end\<close> and \<open>endDate >= start\<close>.\<close>

definition overlaps :: "timestamp \<Rightarrow> timestamp \<Rightarrow> timestamp \<Rightarrow> timestamp \<Rightarrow> bool" where
  "overlaps s e s' e' \<longleftrightarrow> s \<le> e' \<and> s' \<le> e"

definition is_reserved :: "booking_row \<Rightarrow> bool" where
  "is_reserved b \<longleftrightarrow> bk_status b \<in> {Bk_CONFIRMED, Bk_ACTIVE, Bk_RETURNED}"

definition booking_overlaps :: "string \<Rightarrow> timestamp \<Rightarrow> timestamp \<Rightarrow> booking_row \<Rightarrow> bool" where
  "booking_overlaps itemId s e b \<longleftrightarrow>
     bk_itemId b = itemId \<and> overlaps (bk_startDate b) (bk_endDate b) s e"

definition period_unavailable :: "db \<Rightarrow> string \<Rightarrow> timestamp \<Rightarrow> timestamp \<Rightarrow> bool" where
  "period_unavailable db itemId s e =
     exists_row (\<lambda>u. un_itemId u = itemId \<and> overlaps (un_startDate u) (un_endDate u) s e)
       (db_unavailable db)"

text \<open>The number of days a booking row covers: \<open>Math.floor((end - start) / 86_400_000) + 1\<close>.\<close>

definition row_days :: "booking_row \<Rightarrow> int" where
  "row_days b = (bk_endDate b - bk_startDate b) div DAY_MS + 1"

text \<open>\<open>Decimal.toNumber()\<close>: the double next to the decimal.\<close>

definition to_number :: "rat \<Rightarrow> rat" where
  "to_number d = fl d"

text \<open>The terms snapshot of a booking row, bound to the row's own columns.\<close>

definition bound_snapshot :: "booking_row \<Rightarrow> booking_terms_snapshot option" where
  "bound_snapshot b =
     read_bound_booking_terms_snapshot (case bk_termsSnapshot b of None \<Rightarrow> JNull | Some j \<Rightarrow> j)
       \<lparr>bind_borrowerId = bk_borrowerId b, bind_lenderId = bk_lenderId b, bind_days = row_days b,
        bind_totalAmount = to_number (bk_totalAmount b)\<rparr>"

section \<open>Inserts\<close>

definition insert_booking :: "booking_row \<Rightarrow> db \<Rightarrow> db result" where
  "insert_booking b db =
     (if bk_clientRequestId b \<noteq> None
         \<and> exists_row (\<lambda>c. bk_borrowerId c = bk_borrowerId b
              \<and> bk_clientRequestId c = bk_clientRequestId b) (db_bookings db)
      then Inl (Unique_violation ''bookings.borrowerId,clientRequestId'')
      else if bk_totalAmount b < 1 \<or> 60000000 < bk_totalAmount b
      then Inl (Check_violation ''bookings.totalAmount'')
      else if bk_borrowerId b = bk_lenderId b
      then Inl (Check_violation ''bookings.borrowerId,lenderId'')
      else Inr (db\<lparr>db_next := Suc (db_next db), db_bookings := db_bookings db @ [b]\<rparr>))"

definition deposit_amounts_ok :: "deposit_row \<Rightarrow> bool" where
  "deposit_amounts_ok d \<longleftrightarrow>
     dep_currency d = ''RUB'' \<and> 0 < dep_amount d \<and> 0 \<le> dep_refundedAmount d
     \<and> 0 \<le> dep_releasedToLenderAmount d
     \<and> dep_refundedAmount d + dep_releasedToLenderAmount d \<le> dep_amount d
     \<and> (dep_status d = Dep_RESOLVED \<longrightarrow>
          dep_refundedAmount d + dep_releasedToLenderAmount d = dep_amount d)"

definition insert_deposit :: "deposit_row \<Rightarrow> db \<Rightarrow> db result" where
  "insert_deposit d db =
     (if exists_row (\<lambda>c. dep_bookingId c = dep_bookingId d) (db_deposits db)
      then Inl (Unique_violation ''booking_deposits.bookingId'')
      else if \<not> deposit_amounts_ok d then Inl (Check_violation ''booking_deposits'')
      else Inr (db\<lparr>db_next := Suc (db_next db), db_deposits := db_deposits db @ [d]\<rparr>))"

definition insert_operation :: "operation_row \<Rightarrow> db \<Rightarrow> db result" where
  "insert_operation x db =
     (if exists_row (\<lambda>y. op_idempotencyKey y = op_idempotencyKey x) (db_operations db)
      then Inl (Unique_violation ''deposit_operations.idempotencyKey'')
      else if op_providerOperationId x \<noteq> None
         \<and> exists_row (\<lambda>y. op_providerOperationId y = op_providerOperationId x) (db_operations db)
      then Inl (Unique_violation ''deposit_operations.providerOperationId'')
      else if op_amount x \<le> 0 then Inl (Check_violation ''deposit_operations.amount'')
      else Inr (db\<lparr>db_next := Suc (db_next db), db_operations := db_operations db @ [x]\<rparr>))"

definition insert_payment :: "payment_row \<Rightarrow> db \<Rightarrow> db result" where
  "insert_payment p db =
     (if exists_row (\<lambda>q. pay_bookingId q = pay_bookingId p) (db_payments db)
      then Inl (Unique_violation ''payments.bookingId'')
      else if pay_yookassaPaymentId p \<noteq> None
         \<and> exists_row (\<lambda>q. pay_yookassaPaymentId q = pay_yookassaPaymentId p) (db_payments db)
      then Inl (Unique_violation ''payments.yookassaPaymentId'')
      else if pay_amount p < 1 \<or> 60000000 < pay_amount p then Inl (Check_violation ''payments.amount'')
      else Inr (db\<lparr>db_next := Suc (db_next db), db_payments := db_payments db @ [p]\<rparr>))"

definition insert_message :: "message_row \<Rightarrow> db \<Rightarrow> db result" where
  "insert_message m db =
     (if msg_authorId m \<noteq> None \<and> msg_clientMessageId m \<noteq> None
         \<and> exists_row (\<lambda>n. msg_authorId n = msg_authorId m
              \<and> msg_clientMessageId n = msg_clientMessageId m) (db_messages db)
      then Inl (Unique_violation ''booking_messages.authorId,clientMessageId'')
      else Inr (db\<lparr>db_next := Suc (db_next db), db_messages := db_messages db @ [m]\<rparr>))"

definition insert_history :: "history_row \<Rightarrow> db \<Rightarrow> db" where
  "insert_history h db = db\<lparr>db_next := Suc (db_next db), db_history := db_history db @ [h]\<rparr>"

definition insert_outbox :: "outbox_row \<Rightarrow> db \<Rightarrow> db result" where
  "insert_outbox x db =
     (if exists_row (\<lambda>y. out_deduplicationKey y = out_deduplicationKey x) (db_outbox db)
      then Inl (Unique_violation ''notification_outbox_events.deduplicationKey'')
      else Inr (db\<lparr>db_next := Suc (db_next db), db_outbox := db_outbox db @ [x]\<rparr>))"

text \<open>\<open>createMany\<close> with \<open>skipDuplicates\<close> leaves an existing row in place.\<close>

definition insert_outbox_skip :: "outbox_row \<Rightarrow> db \<Rightarrow> db" where
  "insert_outbox_skip x db = (case insert_outbox x db of Inl _ \<Rightarrow> db | Inr db' \<Rightarrow> db')"

section \<open>Rows the booking commands write\<close>

definition system_message :: "string \<Rightarrow> string \<Rightarrow> db \<Rightarrow> db" where
  "system_message bookingId body db =
     db\<lparr>db_next := Suc (db_next db), db_messages := db_messages db @
       [\<lparr>msg_id = fresh_id db, msg_bookingId = bookingId, msg_authorId = None,
         msg_authorRole = Msg_SYSTEM, msg_clientMessageId = None, msg_body = body,
         msg_createdAt = db_now db\<rparr>]\<rparr>"

definition history_row_of ::
    "db \<Rightarrow> string \<Rightarrow> string option \<Rightarrow> string \<Rightarrow> string \<Rightarrow> booking_status option \<Rightarrow> booking_status
      \<Rightarrow> string option \<Rightarrow> string \<Rightarrow> history_row" where
  "history_row_of db bookingId actorId actorType command old new reason requestId =
     \<lparr>hist_id = fresh_id db, hist_bookingId = bookingId, hist_actorId = actorId,
      hist_actorType = actorType, hist_command = command, hist_oldStatus = old,
      hist_newStatus = new, hist_reason = reason, hist_requestId = requestId,
      hist_createdAt = db_now db\<rparr>"

definition record_transition ::
    "string \<Rightarrow> string option \<Rightarrow> string \<Rightarrow> string \<Rightarrow> booking_status option \<Rightarrow> booking_status
      \<Rightarrow> string option \<Rightarrow> string \<Rightarrow> db \<Rightarrow> db" where
  "record_transition bookingId actorId actorType command old new reason requestId db =
     insert_history (history_row_of db bookingId actorId actorType command old new reason requestId) db"

datatype booking_event_type =
  Ev_CREATED | Ev_CONFIRMED | Ev_CANCELLED | Ev_COMPETING_CANCELLED | Ev_HANDOVER_CONFIRMED
  | Ev_RETURN_CONFIRMED | Ev_COMPLETED | Ev_PENDING_TIMEOUT

fun booking_event_name :: "booking_event_type \<Rightarrow> string" where
  "booking_event_name Ev_CREATED = ''BOOKING_CREATED''"
| "booking_event_name Ev_CONFIRMED = ''BOOKING_CONFIRMED''"
| "booking_event_name Ev_CANCELLED = ''BOOKING_CANCELLED''"
| "booking_event_name Ev_COMPETING_CANCELLED = ''BOOKING_COMPETING_CANCELLED''"
| "booking_event_name Ev_HANDOVER_CONFIRMED = ''BOOKING_HANDOVER_CONFIRMED''"
| "booking_event_name Ev_RETURN_CONFIRMED = ''BOOKING_RETURN_CONFIRMED''"
| "booking_event_name Ev_COMPLETED = ''BOOKING_COMPLETED''"
| "booking_event_name Ev_PENDING_TIMEOUT = ''BOOKING_PENDING_TIMEOUT''"

definition booking_event_key :: "string \<Rightarrow> booking_event_type \<Rightarrow> string" where
  "booking_event_key bookingId eventType =
     ''booking:'' @ bookingId @ '':'' @ booking_event_name eventType"

definition booking_event_row :: "db \<Rightarrow> string \<Rightarrow> booking_event_type \<Rightarrow> outbox_row" where
  "booking_event_row db bookingId eventType =
     \<lparr>out_id = fresh_id db, out_bookingId = Some bookingId, out_supportTicketId = None,
      out_recipientId = None, out_itemId = None, out_eventType = booking_event_name eventType,
      out_deduplicationKey = booking_event_key bookingId eventType,
      out_createdAt = db_now db, out_processedAt = None\<rparr>"

definition emit_event :: "string \<Rightarrow> booking_event_type \<Rightarrow> db \<Rightarrow> db result" where
  "emit_event bookingId eventType db = insert_outbox (booking_event_row db bookingId eventType) db"

definition emit_event_skip :: "string \<Rightarrow> booking_event_type \<Rightarrow> db \<Rightarrow> db" where
  "emit_event_skip bookingId eventType db =
     insert_outbox_skip (booking_event_row db bookingId eventType) db"

section \<open>What the writing operations leave alone\<close>

lemma system_message_frame [simp]:
  "db_supply (system_message i t db) = db_supply db"
  "db_now (system_message i t db) = db_now db"
  "db_users (system_message i t db) = db_users db"
  "db_items (system_message i t db) = db_items db"
  "db_unavailable (system_message i t db) = db_unavailable db"
  "db_blocks (system_message i t db) = db_blocks db"
  "db_bookings (system_message i t db) = db_bookings db"
  "db_deposits (system_message i t db) = db_deposits db"
  "db_operations (system_message i t db) = db_operations db"
  "db_payments (system_message i t db) = db_payments db"
  "db_disputes (system_message i t db) = db_disputes db"
  "db_disputeEvidence (system_message i t db) = db_disputeEvidence db"
  "db_acts (system_message i t db) = db_acts db"
  "db_actEvidence (system_message i t db) = db_actEvidence db"
  "db_intents (system_message i t db) = db_intents db"
  "db_history (system_message i t db) = db_history db"
  "db_outbox (system_message i t db) = db_outbox db"
  "db_inbox (system_message i t db) = db_inbox db"
  "db_reviews (system_message i t db) = db_reviews db"
  "db_tokens (system_message i t db) = db_tokens db"
  "db_pushes (system_message i t db) = db_pushes db"
  "db_audit (system_message i t db) = db_audit db"
  "db_catalog (system_message i t db) = db_catalog db"
  "db_desk (system_message i t db) = db_desk db"
  by (simp_all add: system_message_def)

lemma record_transition_frame [simp]:
  "db_supply (record_transition i a ty c old new r q db) = db_supply db"
  "db_now (record_transition i a ty c old new r q db) = db_now db"
  "db_users (record_transition i a ty c old new r q db) = db_users db"
  "db_items (record_transition i a ty c old new r q db) = db_items db"
  "db_unavailable (record_transition i a ty c old new r q db) = db_unavailable db"
  "db_blocks (record_transition i a ty c old new r q db) = db_blocks db"
  "db_bookings (record_transition i a ty c old new r q db) = db_bookings db"
  "db_deposits (record_transition i a ty c old new r q db) = db_deposits db"
  "db_operations (record_transition i a ty c old new r q db) = db_operations db"
  "db_payments (record_transition i a ty c old new r q db) = db_payments db"
  "db_disputes (record_transition i a ty c old new r q db) = db_disputes db"
  "db_disputeEvidence (record_transition i a ty c old new r q db) = db_disputeEvidence db"
  "db_acts (record_transition i a ty c old new r q db) = db_acts db"
  "db_actEvidence (record_transition i a ty c old new r q db) = db_actEvidence db"
  "db_intents (record_transition i a ty c old new r q db) = db_intents db"
  "db_messages (record_transition i a ty c old new r q db) = db_messages db"
  "db_outbox (record_transition i a ty c old new r q db) = db_outbox db"
  "db_inbox (record_transition i a ty c old new r q db) = db_inbox db"
  "db_reviews (record_transition i a ty c old new r q db) = db_reviews db"
  "db_tokens (record_transition i a ty c old new r q db) = db_tokens db"
  "db_pushes (record_transition i a ty c old new r q db) = db_pushes db"
  "db_audit (record_transition i a ty c old new r q db) = db_audit db"
  "db_catalog (record_transition i a ty c old new r q db) = db_catalog db"
  "db_desk (record_transition i a ty c old new r q db) = db_desk db"
  by (simp_all add: record_transition_def insert_history_def)

lemma insert_outbox_skip_frame [simp]:
  "db_supply (insert_outbox_skip x db) = db_supply db"
  "db_now (insert_outbox_skip x db) = db_now db"
  "db_users (insert_outbox_skip x db) = db_users db"
  "db_items (insert_outbox_skip x db) = db_items db"
  "db_unavailable (insert_outbox_skip x db) = db_unavailable db"
  "db_blocks (insert_outbox_skip x db) = db_blocks db"
  "db_bookings (insert_outbox_skip x db) = db_bookings db"
  "db_deposits (insert_outbox_skip x db) = db_deposits db"
  "db_operations (insert_outbox_skip x db) = db_operations db"
  "db_payments (insert_outbox_skip x db) = db_payments db"
  "db_disputes (insert_outbox_skip x db) = db_disputes db"
  "db_disputeEvidence (insert_outbox_skip x db) = db_disputeEvidence db"
  "db_acts (insert_outbox_skip x db) = db_acts db"
  "db_actEvidence (insert_outbox_skip x db) = db_actEvidence db"
  "db_intents (insert_outbox_skip x db) = db_intents db"
  "db_messages (insert_outbox_skip x db) = db_messages db"
  "db_history (insert_outbox_skip x db) = db_history db"
  "db_inbox (insert_outbox_skip x db) = db_inbox db"
  "db_reviews (insert_outbox_skip x db) = db_reviews db"
  "db_tokens (insert_outbox_skip x db) = db_tokens db"
  "db_pushes (insert_outbox_skip x db) = db_pushes db"
  "db_audit (insert_outbox_skip x db) = db_audit db"
  "db_catalog (insert_outbox_skip x db) = db_catalog db"
  "db_desk (insert_outbox_skip x db) = db_desk db"
  by (simp_all add: insert_outbox_skip_def insert_outbox_def)

lemma emit_event_skip_frame [simp]:
  "db_supply (emit_event_skip i e db) = db_supply db"
  "db_now (emit_event_skip i e db) = db_now db"
  "db_users (emit_event_skip i e db) = db_users db"
  "db_items (emit_event_skip i e db) = db_items db"
  "db_unavailable (emit_event_skip i e db) = db_unavailable db"
  "db_blocks (emit_event_skip i e db) = db_blocks db"
  "db_bookings (emit_event_skip i e db) = db_bookings db"
  "db_deposits (emit_event_skip i e db) = db_deposits db"
  "db_operations (emit_event_skip i e db) = db_operations db"
  "db_payments (emit_event_skip i e db) = db_payments db"
  "db_disputes (emit_event_skip i e db) = db_disputes db"
  "db_disputeEvidence (emit_event_skip i e db) = db_disputeEvidence db"
  "db_acts (emit_event_skip i e db) = db_acts db"
  "db_actEvidence (emit_event_skip i e db) = db_actEvidence db"
  "db_intents (emit_event_skip i e db) = db_intents db"
  "db_messages (emit_event_skip i e db) = db_messages db"
  "db_history (emit_event_skip i e db) = db_history db"
  "db_inbox (emit_event_skip i e db) = db_inbox db"
  "db_reviews (emit_event_skip i e db) = db_reviews db"
  "db_tokens (emit_event_skip i e db) = db_tokens db"
  "db_pushes (emit_event_skip i e db) = db_pushes db"
  "db_audit (emit_event_skip i e db) = db_audit db"
  "db_catalog (emit_event_skip i e db) = db_catalog db"
  "db_desk (emit_event_skip i e db) = db_desk db"
  by (simp_all add: emit_event_skip_def)

lemma record_transition_history [simp]:
  "db_history (record_transition i a ty c old new r q db)
     = db_history db @ [history_row_of db i a ty c old new r q]"
  by (simp add: record_transition_def insert_history_def)

lemma db_next_writers [simp]:
  "db_next (system_message i t db) = Suc (db_next db)"
  "db_next (record_transition i a ty c old new r q db) = Suc (db_next db)"
  "db_next db \<le> db_next (insert_outbox_skip x db)"
  "db_next db \<le> db_next (emit_event_skip i e db)"
  by (simp_all add: system_message_def record_transition_def insert_history_def emit_event_skip_def
      insert_outbox_skip_def insert_outbox_def)

lemma fold_frame: "(\<And>c d. s (g c d) = s d) \<Longrightarrow> s (fold g xs d) = s d"
  by (induction xs arbitrary: d) auto

lemma fold_mono: "(\<And>c d. (s d :: nat) \<le> s (g c d)) \<Longrightarrow> s d \<le> s (fold g xs d)"
  by (induction xs arbitrary: d) (auto intro: order_trans)

lemma insert_bookingD:
  "insert_booking b db = Inr db' \<Longrightarrow>
     db' = db\<lparr>db_next := Suc (db_next db), db_bookings := db_bookings db @ [b]\<rparr>
     \<and> 1 \<le> bk_totalAmount b \<and> bk_totalAmount b \<le> 60000000 \<and> bk_borrowerId b \<noteq> bk_lenderId b"
  by (auto simp: insert_booking_def split: if_splits)

lemma insert_depositD:
  "insert_deposit d db = Inr db' \<Longrightarrow>
     db' = db\<lparr>db_next := Suc (db_next db), db_deposits := db_deposits db @ [d]\<rparr>
     \<and> deposit_amounts_ok d \<and> (\<forall>c \<in> set (db_deposits db). dep_bookingId c \<noteq> dep_bookingId d)"
  by (auto simp: insert_deposit_def split: if_splits)

lemma insert_operationD:
  "insert_operation x db = Inr db' \<Longrightarrow>
     db' = db\<lparr>db_next := Suc (db_next db), db_operations := db_operations db @ [x]\<rparr>
     \<and> 0 < op_amount x \<and> (\<forall>y \<in> set (db_operations db). op_idempotencyKey y \<noteq> op_idempotencyKey x)"
  by (auto simp: insert_operation_def split: if_splits)

lemma insert_paymentD:
  "insert_payment p db = Inr db' \<Longrightarrow>
     db' = db\<lparr>db_next := Suc (db_next db), db_payments := db_payments db @ [p]\<rparr>
     \<and> (\<forall>q \<in> set (db_payments db). pay_bookingId q \<noteq> pay_bookingId p)
     \<and> 1 \<le> pay_amount p \<and> pay_amount p \<le> 60000000"
  by (auto simp: insert_payment_def split: if_splits)

lemma insert_messageD:
  "insert_message m db = Inr db' \<Longrightarrow>
     db' = db\<lparr>db_next := Suc (db_next db), db_messages := db_messages db @ [m]\<rparr>"
  by (auto simp: insert_message_def split: if_splits)

lemma insert_outboxD:
  "insert_outbox x db = Inr db' \<Longrightarrow>
     db' = db\<lparr>db_next := Suc (db_next db), db_outbox := db_outbox db @ [x]\<rparr>
     \<and> (\<forall>y \<in> set (db_outbox db). out_deduplicationKey y \<noteq> out_deduplicationKey x)"
  by (auto simp: insert_outbox_def split: if_splits)

lemma emit_eventD:
  "emit_event i e db = Inr db' \<Longrightarrow>
     db' = db\<lparr>db_next := Suc (db_next db), db_outbox := db_outbox db @ [booking_event_row db i e]\<rparr>"
  by (auto simp: emit_event_def dest: insert_outboxD)

section \<open>Issued ids\<close>

text \<open>An id is issued when the supply has handed it out.\<close>

definition issued :: "db \<Rightarrow> string \<Rightarrow> bool" where
  "issued db i \<longleftrightarrow> (\<exists>n < db_next db. i = db_supply db n)"

definition ids_ok :: "db \<Rightarrow> bool" where
  "ids_ok db \<longleftrightarrow>
     inj (db_supply db)
     \<and> (\<forall>b \<in> set (db_bookings db). issued db (bk_id b))
     \<and> (\<forall>d \<in> set (db_deposits db). issued db (dep_id d))
     \<and> (\<forall>x \<in> set (db_operations db). issued db (op_id x))
     \<and> (\<forall>u \<in> set (db_unavailable db). issued db (un_id u))"

lemma fresh_not_issued: "inj (db_supply db) \<Longrightarrow> \<not> issued db (fresh_id db)"
  by (auto simp: issued_def fresh_id_def dest: injD)

lemma issued_mono:
  "db_supply db' = db_supply db \<Longrightarrow> db_next db \<le> db_next db' \<Longrightarrow> issued db i \<Longrightarrow> issued db' i"
  by (auto simp: issued_def intro: less_le_trans)

lemma issued_fresh:
  "db_supply db' = db_supply db \<Longrightarrow> db_next db < db_next db' \<Longrightarrow> issued db' (fresh_id db)"
  by (auto simp: issued_def fresh_id_def)

lemma issued_image:
  assumes "db_supply db' = db_supply db" and "db_next db \<le> db_next db'"
    and "k ` set ys \<subseteq> k ` set xs \<union> Collect (issued db')"
    and "\<forall>x \<in> set xs. issued db (k x)"
  shows "\<forall>y \<in> set ys. issued db' (k y)"
proof
  fix y assume "y \<in> set ys"
  then have "k y \<in> k ` set xs \<or> issued db' (k y)" using assms(3) by auto
  then show "issued db' (k y)"
  proof
    assume "k y \<in> k ` set xs"
    then have "issued db (k y)" using assms(4) by auto
    then show ?thesis by (rule issued_mono [OF assms(1,2)])
  qed
qed

lemma ids_ok_step:
  assumes "ids_ok db" and "db_supply db' = db_supply db" and "db_next db \<le> db_next db'"
    and "bk_id ` set (db_bookings db') \<subseteq> bk_id ` set (db_bookings db) \<union> Collect (issued db')"
    and "dep_id ` set (db_deposits db') \<subseteq> dep_id ` set (db_deposits db) \<union> Collect (issued db')"
    and "op_id ` set (db_operations db') \<subseteq> op_id ` set (db_operations db) \<union> Collect (issued db')"
    and "un_id ` set (db_unavailable db') \<subseteq> un_id ` set (db_unavailable db) \<union> Collect (issued db')"
  shows "ids_ok db'"
proof -
  have "inj (db_supply db')" using assms(1,2) by (simp add: ids_ok_def)
  moreover have "\<forall>b \<in> set (db_bookings db). issued db (bk_id b)" "\<forall>d \<in> set (db_deposits db). issued db (dep_id d)"
    "\<forall>x \<in> set (db_operations db). issued db (op_id x)" "\<forall>u \<in> set (db_unavailable db). issued db (un_id u)"
    using assms(1) by (simp_all add: ids_ok_def)
  ultimately show ?thesis
    using issued_image [OF assms(2,3,4)] issued_image [OF assms(2,3,5)] issued_image [OF assms(2,3,6)]
      issued_image [OF assms(2,3,7)] assms(1)
    unfolding ids_ok_def by blast
qed

lemma update_rows_image: "(\<And>r. k (f r) = k r) \<Longrightarrow> k ` set (update_rows p f rs) = k ` set rs"
  unfolding set_update_rows image_image by (rule image_cong) auto


end
