(* ===== verification/Payment_Policy.thy ===== *)
theory Payment_Policy
  imports Database
begin

text \<open>
  The marketplace policy (\<open>payments/payment-policy.service.ts\<close>): parsing of the environment
  at start-up, the guard of the fake safe deal and the deposit ceiling. The configuration is
  a function from variable names to optional strings. The lemmas bound what a server can
  start with: the real safe deal is always refused, the fake one never runs in production and
  always has a complete policy.
\<close>

section \<open>\<open>Number\<close> of a string\<close>

definition radix_digit :: "char \<Rightarrow> int" where
  "radix_digit c =
     (let n = (of_char c :: int)
      in if 48 \<le> n \<and> n \<le> 57 then n - 48
         else if 97 \<le> n \<and> n \<le> 122 then n - 87
         else if 65 \<le> n \<and> n \<le> 90 then n - 55 else 99)"

definition parse_radix :: "int \<Rightarrow> string \<Rightarrow> int option" where
  "parse_radix r s =
     (if s = [] \<or> list_ex (\<lambda>c. r \<le> radix_digit c) s then None
      else Some (fold (\<lambda>c a. a * r + radix_digit c) s 0))"

definition parse_exponent :: "string \<Rightarrow> int option" where
  "parse_exponent s =
     (case s of
        [] \<Rightarrow> Some 0
      | e # t \<Rightarrow>
          (if e \<noteq> CHR ''e'' \<and> e \<noteq> CHR ''E'' then None
           else (case t of
              [] \<Rightarrow> None
            | c # u \<Rightarrow> (if c = CHR ''-'' then map_option uminus (parse_radix 10 u)
                      else if c = CHR ''+'' then parse_radix 10 u
                      else parse_radix 10 t))))"

definition rat_pow10 :: "int \<Rightarrow> rat" where
  "rat_pow10 e = (if 0 \<le> e then 10 ^ nat e else 1 / 10 ^ nat (- e))"

definition finite_double :: "rat \<Rightarrow> rat option" where
  "finite_double v = (if \<bar>fl v\<bar> < 2 ^ 1024 then Some (fl v) else None)"

definition parse_unsigned_decimal :: "string \<Rightarrow> rat option" where
  "parse_unsigned_decimal s =
     (let ip = takeWhile is_digit s; r1 = dropWhile is_digit s;
          dot = (r1 \<noteq> [] \<and> hd r1 = CHR ''.'');
          fp = (if dot then takeWhile is_digit (tl r1) else []);
          r2 = (if dot then dropWhile is_digit (tl r1) else r1)
      in case (parse_radix 10 (ip @ fp), parse_exponent r2) of
           (Some m, Some e) \<Rightarrow> Some (of_int m * rat_pow10 (e - int (length fp)))
         | _ \<Rightarrow> None)"

text \<open>\<open>None\<close> stands for \<open>NaN\<close> and for the infinities.\<close>

definition js_number :: "string \<Rightarrow> rat option" where
  "js_number text =
     (let s = js_trim text
      in if s = [] then Some 0
         else if take 2 s \<in> {''0x'', ''0X''}
         then Option.bind (parse_radix 16 (drop 2 s)) (\<lambda>n. finite_double (of_int n))
         else if take 2 s \<in> {''0o'', ''0O''}
         then Option.bind (parse_radix 8 (drop 2 s)) (\<lambda>n. finite_double (of_int n))
         else if take 2 s \<in> {''0b'', ''0B''}
         then Option.bind (parse_radix 2 (drop 2 s)) (\<lambda>n. finite_double (of_int n))
         else if hd s = CHR ''-''
         then Option.bind (parse_unsigned_decimal (tl s)) (\<lambda>v. finite_double (- v))
         else if hd s = CHR ''+''
         then Option.bind (parse_unsigned_decimal (tl s)) finite_double
         else Option.bind (parse_unsigned_decimal s) finite_double)"

section \<open>The policy\<close>

type_synonym config = "string \<Rightarrow> string option"

datatype payment_scenario = PAY_ON_HANDOVER | FAKE_SAFE_DEAL | SAFE_DEAL

record marketplace_policy =
  pol_paymentScenario :: payment_scenario
  pol_enabled :: bool
  pol_maximumMinor :: "int option"
  pol_policyVersion :: "string option"
  pol_disputeWindowSeconds :: "int option"

definition parse_positive_safe_integer :: "string \<Rightarrow> string \<Rightarrow> int result" where
  "parse_positive_safe_integer value name =
     (case js_number value of
        None \<Rightarrow> Inl (Plain_error name)
      | Some parsed \<Rightarrow>
          (if \<not> is_safe_integer parsed \<or> parsed \<le> 0 then Inl (Plain_error name)
           else Inr \<lfloor>parsed\<rfloor>))"

definition pay_on_handover_policy :: marketplace_policy where
  "pay_on_handover_policy =
     \<lparr>pol_paymentScenario = PAY_ON_HANDOVER, pol_enabled = False, pol_maximumMinor = None,
      pol_policyVersion = None, pol_disputeWindowSeconds = None\<rparr>"

text \<open>An optional value is falsy when it is \<open>undefined\<close> or the empty string.\<close>

definition blank :: "string option \<Rightarrow> bool" where
  "blank v \<longleftrightarrow> v = None \<or> v = Some []"

definition parse_policy :: "config \<Rightarrow> marketplace_policy result" where
  "parse_policy config =
     (let scenario = map_option js_trim (config ''PAYMENT_SCENARIO'')
      in if blank scenario \<or> scenario = Some ''PAY_ON_HANDOVER'' then Inr pay_on_handover_policy
      else if scenario = Some ''SAFE_DEAL'' then Inl (Plain_error ''SAFE_DEAL_PROVIDER_NOT_CONFIGURED'')
      else if scenario \<noteq> Some ''FAKE_SAFE_DEAL'' then Inl (Plain_error ''PAYMENT_SCENARIO is invalid'')
      else if config ''NODE_ENV'' = Some ''production''
           \<or> config ''DEPLOYMENT_ENVIRONMENT'' = Some ''production''
      then Inl (Plain_error ''FAKE_SAFE_DEAL is not allowed in production'')
      else
        let maximumRaw = map_option js_trim (config ''FAKE_SAFE_DEAL_DEPOSIT_MAX_MINOR'');
            policyVersion = map_option js_trim (config ''FAKE_SAFE_DEAL_POLICY_VERSION'');
            disputeWindowRaw = map_option js_trim (config ''FAKE_SAFE_DEAL_DISPUTE_WINDOW_SECONDS'')
        in if blank maximumRaw \<or> blank policyVersion \<or> blank disputeWindowRaw
           then Inl (Plain_error ''FAKE_SAFE_DEAL requires complete deposit policy configuration'')
           else
             bind_result (parse_positive_safe_integer (the maximumRaw) ''FAKE_SAFE_DEAL_DEPOSIT_MAX_MINOR'') (\<lambda>maximumMinor.
             bind_result (parse_positive_safe_integer (the disputeWindowRaw) ''FAKE_SAFE_DEAL_DISPUTE_WINDOW_SECONDS'') (\<lambda>window.
             Inr \<lparr>pol_paymentScenario = FAKE_SAFE_DEAL, pol_enabled = True,
               pol_maximumMinor = Some maximumMinor, pol_policyVersion = policyVersion,
               pol_disputeWindowSeconds = Some window\<rparr>)))"

definition require_fake_safe_deal :: "marketplace_policy \<Rightarrow> unit result" where
  "require_fake_safe_deal p =
     (if pol_paymentScenario p \<noteq> FAKE_SAFE_DEAL then Inl (Bad_request ''FAKE_SAFE_DEAL_REQUIRED'')
      else Inr ())"

definition assert_deposit_allowed :: "marketplace_policy \<Rightarrow> int \<Rightarrow> unit result" where
  "assert_deposit_allowed p amountMinor =
     (if amountMinor < 0 then Inl (Bad_request ''deposit-negative'')
      else if pol_paymentScenario p = PAY_ON_HANDOVER \<and> amountMinor \<noteq> 0
      then Inl (Bad_request ''deposits-require-fake-safe-deal'')
      else if pol_paymentScenario p = FAKE_SAFE_DEAL
           \<and> (case pol_maximumMinor p of None \<Rightarrow> 0 | Some m \<Rightarrow> m) < amountMinor
      then Inl (Bad_request ''deposit-exceeds-maximum'')
      else Inr ())"

section \<open>What a started server has\<close>

definition policy_ok :: "marketplace_policy \<Rightarrow> bool" where
  "policy_ok p \<longleftrightarrow>
     (case pol_paymentScenario p of
        PAY_ON_HANDOVER \<Rightarrow> p = pay_on_handover_policy
      | FAKE_SAFE_DEAL \<Rightarrow>
          pol_enabled p
          \<and> (\<exists>m. pol_maximumMinor p = Some m \<and> 0 < m \<and> m \<le> max_safe)
          \<and> (\<exists>w. pol_disputeWindowSeconds p = Some w \<and> 0 < w \<and> w \<le> max_safe)
          \<and> (\<exists>v. pol_policyVersion p = Some v \<and> nonblank v)
      | SAFE_DEAL \<Rightarrow> False)"

lemma parse_positive_safe_integerD:
  assumes "parse_positive_safe_integer s name = Inr n"
  shows "0 < n" "n \<le> max_safe"
proof -
  from assms obtain x where x: "is_safe_integer x" "0 < x" "n = \<lfloor>x\<rfloor>"
    by (auto simp: parse_positive_safe_integer_def split: option.splits if_splits)
  have "of_int \<lfloor>x\<rfloor> = x" using x(1) unfolding is_safe_integer_def is_integer_def by (rule conjunct1)
  then have "is_safe_integer (of_int n)" "0 < (of_int n :: rat)" using x(1,2) by (simp_all only: x(3))
  then show "0 < n" "n \<le> max_safe" by simp_all
qed

lemma parse_policyE:
  assumes "parse_policy config = Inr p"
  obtains (handover) "p = pay_on_handover_policy"
  | (fake) "config ''NODE_ENV'' \<noteq> Some ''production''"
      "config ''DEPLOYMENT_ENVIRONMENT'' \<noteq> Some ''production''"
      "pol_paymentScenario p = FAKE_SAFE_DEAL" "policy_ok p"
proof (cases "p = pay_on_handover_policy")
  case False
  obtain m w v where e: "config ''NODE_ENV'' \<noteq> Some ''production''"
      "config ''DEPLOYMENT_ENVIRONMENT'' \<noteq> Some ''production''"
      "0 < m" "m \<le> max_safe" "0 < w" "w \<le> max_safe"
      "\<not> blank v" "\<exists>raw. v = map_option js_trim raw"
      "p = \<lparr>pol_paymentScenario = FAKE_SAFE_DEAL, pol_enabled = True,
               pol_maximumMinor = Some m, pol_policyVersion = v, pol_disputeWindowSeconds = Some w\<rparr>"
    using assms False unfolding parse_policy_def Let_def
    by (auto simp: bind_result_Inr_iff dest: parse_positive_safe_integerD split: if_split_asm)
  then have "policy_ok p"
    by (auto simp: policy_ok_def blank_def nonblank_def)
  with e show thesis by (intro fake) simp_all
qed (rule handover)

text \<open>
  A server that starts has a usable policy: \<open>SAFE_DEAL\<close> never comes out of the
  configuration, a pay-on-handover policy enables no deposits, and the fake safe deal only
  comes out when neither environment variable says production and then carries a positive
  safe ceiling, a positive safe dispute window and a non-blank version.
\<close>

theorem parse_policy_safe:
  assumes "parse_policy config = Inr p"
  shows "policy_ok p
    \<and> (pol_paymentScenario p = FAKE_SAFE_DEAL \<longrightarrow>
      config ''NODE_ENV'' \<noteq> Some ''production'' \<and> config ''DEPLOYMENT_ENVIRONMENT'' \<noteq> Some ''production'')"
  using assms by (elim parse_policyE; simp add: policy_ok_def pay_on_handover_policy_def)

definition sample_config :: config where
  "sample_config =
     map_of [(''PAYMENT_SCENARIO'', '' FAKE_SAFE_DEAL ''), (''NODE_ENV'', ''development''),
       (''FAKE_SAFE_DEAL_DEPOSIT_MAX_MINOR'', ''5e6''), (''FAKE_SAFE_DEAL_POLICY_VERSION'', ''v1''),
       (''FAKE_SAFE_DEAL_DISPUTE_WINDOW_SECONDS'', ''86400'')]"

definition sample_policy :: marketplace_policy where
  "sample_policy =
     \<lparr>pol_paymentScenario = FAKE_SAFE_DEAL, pol_enabled = True, pol_maximumMinor = Some 5000000,
      pol_policyVersion = Some ''v1'', pol_disputeWindowSeconds = Some 86400\<rparr>"

lemma finite_double_of_int [simp]:
  assumes "\<bar>n\<bar> \<le> max_safe"
  shows "finite_double (of_int n) = Some (of_int n)"
proof -
  have "fl (of_int n) = of_int n" using assms by (intro fl_of_int) (simp add: max_safe_def)
  moreover have "\<bar>of_int n\<bar> < (2 :: rat) ^ 1024"
  proof -
    have "\<bar>n\<bar> < 2 ^ 1024" using assms by (simp add: max_safe_def)
    then have "(of_int \<bar>n\<bar> :: rat) < of_int (2 ^ 1024)" by (simp only: of_int_less_iff)
    then show ?thesis by simp
  qed
  ultimately show ?thesis by (simp add: finite_double_def)
qed

lemmas js_number_eval = js_number_def js_trim_def is_js_space_def parse_unsigned_decimal_def
  parse_radix_def radix_digit_def parse_exponent_def is_digit_def digit_val_def rat_pow10_def Let_def

lemma sample_numbers: "js_number ''5e6'' = Some 5000000" "js_number ''86400'' = Some 86400"
  using finite_double_of_int [of 5000000] finite_double_of_int [of 86400]
  by (simp_all add: js_number_eval max_safe_def)

lemma sample_trims:
  "js_trim '' FAKE_SAFE_DEAL '' = ''FAKE_SAFE_DEAL''" "js_trim ''5e6'' = ''5e6''"
  "js_trim ''v1'' = ''v1''" "js_trim ''86400'' = ''86400''"
  by code_simp+

lemma sample_config_parses: "parse_policy sample_config = Inr sample_policy"
  by (simp add: parse_policy_def sample_config_def sample_trims sample_numbers sample_policy_def
      parse_positive_safe_integer_def is_safe_integer_def is_integer_def max_safe_def blank_def)

theorem parse_policy_safe_witness: "policy_ok sample_policy"
  using parse_policy_safe [OF sample_config_parses] by simp

lemma assert_deposit_allowed_Inr_iff:
  assumes "policy_ok p"
  shows "assert_deposit_allowed p a = Inr () \<longleftrightarrow>
     0 \<le> a \<and> (case pol_maximumMinor p of None \<Rightarrow> a = 0 | Some m \<Rightarrow> a \<le> m)"
  using assms
  by (cases "pol_paymentScenario p")
     (auto simp: assert_deposit_allowed_def policy_ok_def pay_on_handover_policy_def)

end
