(* ===== verification/Booking_Service.thy ===== *)
theory Booking_Service
  imports Payment_Policy
begin

text \<open>
  The commands of \<open>booking/booking.service.ts\<close>: \<open>create\<close>, \<open>confirm\<close>, \<open>cancelPending\<close>,
  the two reads and the refused extension, with the legal gate in front of \<open>create\<close>. A
  command is a function from the database to an error, which leaves the database as it was
  (the transaction rolls back), or to the new database and the response. The advisory locks
  make each transaction atomic. Clock readings (\<open>now\<close>), the calendar date in Moscow
  (\<open>today\<close>) and the payload hash are arguments.
\<close>

section \<open>Constants\<close>

definition BOOKING_PENDING_TTL_MS :: int where
  "BOOKING_PENDING_TTL_MS = 12 * 60 * 60 * 1000"

definition BOOKING_MAX_ACTIVE_PENDING :: nat where
  "BOOKING_MAX_ACTIVE_PENDING = 5"

definition BOOKING_MAX_COMPETING_PENDING :: nat where
  "BOOKING_MAX_COMPETING_PENDING = 20"

definition BOOKING_COMPETING_CANCELLATION_REASON :: string where
  "BOOKING_COMPETING_CANCELLATION_REASON = ''COMPETING_REQUEST_CONFIRMED''"

definition BOOKING_BORROWER_CANCELLATION_REASON :: string where
  "BOOKING_BORROWER_CANCELLATION_REASON = ''BORROWER_CANCELLED''"

definition BOOKING_LENDER_CANCELLATION_REASON :: string where
  "BOOKING_LENDER_CANCELLATION_REASON = ''LENDER_DECLINED''"

definition HANDOVER_VISIBLE_STATUSES :: "booking_status list" where
  "HANDOVER_VISIBLE_STATUSES = [Bk_CONFIRMED, Bk_ACTIVE]"

section \<open>Requests and responses\<close>

record create_booking_dto =
  cb_itemId :: string
  cb_startDate :: string
  cb_endDate :: string
  cb_offerVersion :: "string option"
  cb_cancellationPolicyVersion :: "string option"
  cb_offerAccepted :: "bool option"
  cb_rentalRulesAccepted :: "bool option"

record legal_terms =
  lt_offerVersion :: string
  lt_cancellationPolicyVersion :: string

record booking_response =
  br_id :: string
  br_itemId :: string
  br_borrowerId :: string
  br_lenderId :: string
  br_startDate :: timestamp
  br_endDate :: timestamp
  br_days :: int
  br_totalAmount :: rat
  br_status :: booking_status
  br_expiresAt :: "timestamp option"
  br_cancellationReason :: "string option"
  br_createdAt :: timestamp

definition booking_response_of :: "int \<Rightarrow> booking_row \<Rightarrow> booking_response" where
  "booking_response_of days b =
     \<lparr>br_id = bk_id b, br_itemId = bk_itemId b, br_borrowerId = bk_borrowerId b,
      br_lenderId = bk_lenderId b, br_startDate = bk_startDate b, br_endDate = bk_endDate b,
      br_days = days, br_totalAmount = to_number (bk_totalAmount b), br_status = bk_status b,
      br_expiresAt = bk_expiresAt b, br_cancellationReason = bk_cancellationReason b,
      br_createdAt = bk_createdAt b\<rparr>"

section \<open>The legal gate\<close>

definition to_lower :: "char \<Rightarrow> char" where
  "to_lower c =
     (let n = (of_char c :: nat)
      in if (65 \<le> n \<and> n \<le> 90) \<or> (192 \<le> n \<and> n \<le> 222 \<and> n \<noteq> 215) then char_of (n + 32) else c)"

definition contains_text :: "string \<Rightarrow> string \<Rightarrow> bool" where
  "contains_text needle s =
     list_ex (\<lambda>n. take (length needle) (drop n s) = needle) [0..<Suc (length s)]"

definition is_ascii_alnum :: "char \<Rightarrow> bool" where
  "is_ascii_alnum c =
     (let n = (of_char c :: nat)
      in (48 \<le> n \<and> n \<le> 57) \<or> (65 \<le> n \<and> n \<le> 90) \<or> (97 \<le> n \<and> n \<le> 122))"

definition is_version_char :: "char \<Rightarrow> bool" where
  "is_version_char c \<longleftrightarrow> is_ascii_alnum c \<or> c = CHR ''.'' \<or> c = CHR ''_'' \<or> c = CHR ''-''"

fun is_approved_document_version :: "string option \<Rightarrow> bool" where
  "is_approved_document_version None = False"
| "is_approved_document_version (Some []) = False"
| "is_approved_document_version (Some (c # cs)) =
     (is_ascii_alnum c \<and> length cs \<le> 63 \<and> list_all is_version_char cs
      \<and> \<not> contains_text ''draft'' (map to_lower (c # cs)))"

definition require_approved_marketplace_terms :: "config \<Rightarrow> legal_terms result" where
  "require_approved_marketplace_terms config =
     (let offerVersion = map_option js_trim (config ''MARKETPLACE_OFFER_VERSION'');
          cancellationPolicyVersion = map_option js_trim (config ''MARKETPLACE_CANCELLATION_POLICY_VERSION'')
      in if \<not> is_approved_document_version offerVersion
            \<or> \<not> is_approved_document_version cancellationPolicyVersion
         then Inl (Service_unavailable ''BOOKING_LEGAL_GATE_CLOSED'')
         else Inr \<lparr>lt_offerVersion = the offerVersion,
                   lt_cancellationPolicyVersion = the cancellationPolicyVersion\<rparr>)"

definition require_marketplace_terms_acceptance :: "create_booking_dto \<Rightarrow> legal_terms \<Rightarrow> unit result" where
  "require_marketplace_terms_acceptance dto terms =
     (if cb_offerAccepted dto \<noteq> Some True
         \<or> cb_rentalRulesAccepted dto \<noteq> Some True
         \<or> cb_offerVersion dto \<noteq> Some (lt_offerVersion terms)
         \<or> cb_cancellationPolicyVersion dto \<noteq> Some (lt_cancellationPolicyVersion terms)
      then Inl (Conflict ''BOOKING_TERMS_ACCEPTANCE_REQUIRED'')
      else Inr ())"

section \<open>Creating a request\<close>

definition find_repeated :: "db \<Rightarrow> string \<Rightarrow> string \<Rightarrow> booking_row option" where
  "find_repeated db borrowerId requestId =
     List.find (\<lambda>b. bk_borrowerId b = borrowerId \<and> bk_clientRequestId b = Some requestId)
       (db_bookings db)"

definition active_pending :: "timestamp \<Rightarrow> booking_row \<Rightarrow> bool" where
  "active_pending now b \<longleftrightarrow>
     bk_status b = Bk_PENDING \<and> (case bk_expiresAt b of None \<Rightarrow> False | Some e \<Rightarrow> now < e)"

definition find_bookable_item :: "db \<Rightarrow> string \<Rightarrow> item_row option" where
  "find_bookable_item db itemId =
     List.find (\<lambda>i. it_id i = itemId \<and> it_status i = It_APPROVED
         \<and> (case find_user db (it_ownerId i) of None \<Rightarrow> False
            | Some u \<Rightarrow> \<not> us_isBlocked u \<and> us_deletedAt u = None))
       (db_items db)"

definition interaction_blocked :: "db \<Rightarrow> string \<Rightarrow> string \<Rightarrow> bool" where
  "interaction_blocked db a b =
     exists_row (\<lambda>x. (blk_blockerId x = a \<and> blk_blockedId x = b)
                  \<or> (blk_blockerId x = b \<and> blk_blockedId x = a)) (db_blocks db)"

text \<open>
  The checks inside the transaction after the replay check, in the code's order; the result
  is the item and its deposit in minor units.
\<close>

definition create_guards ::
    "marketplace_policy \<Rightarrow> string \<Rightarrow> string \<Rightarrow> booking_period \<Rightarrow> timestamp \<Rightarrow> db \<Rightarrow> (item_row \<times> int) result" where
  "create_guards policy borrowerId itemId period now db =
     (if BOOKING_MAX_ACTIVE_PENDING
           \<le> count_rows (\<lambda>b. bk_borrowerId b = borrowerId \<and> active_pending now b) (db_bookings db)
      then Inl (Too_many_requests ''active-pending-limit'')
      else case find_bookable_item db itemId of
        None \<Rightarrow> Inl (Not_found ''item-unavailable'')
      | Some item \<Rightarrow>
          if it_ownerId item = borrowerId then Inl (Bad_request ''own-item'')
          else
          bind_result (case it_depositAmount item of None \<Rightarrow> Inr 0 | Some d \<Rightarrow> decimal_to_minor d) (\<lambda>deposit.
          if pol_paymentScenario policy = PAY_ON_HANDOVER \<and> deposit \<noteq> 0
          then Inl (Conflict ''ITEM_DEPOSIT_NOT_SUPPORTED'')
          else
          bind_result (assert_deposit_allowed policy deposit) (\<lambda>_.
          if interaction_blocked db borrowerId (it_ownerId item)
          then Inl (Conflict ''USER_INTERACTION_BLOCKED'')
          else if period_unavailable db (it_id item) (per_startDate period) (per_endDate period)
          then Inl (Conflict ''CALENDAR_CONFLICT'')
          else if exists_row (\<lambda>b. is_reserved b
               \<and> booking_overlaps (it_id item) (per_startDate period) (per_endDate period) b) (db_bookings db)
          then Inl (Conflict ''BOOKING_CONFLICT'')
          else if BOOKING_MAX_COMPETING_PENDING
               \<le> count_rows (\<lambda>b. active_pending now b
                   \<and> booking_overlaps (it_id item) (per_startDate period) (per_endDate period) b) (db_bookings db)
          then Inl (Too_many_requests ''competing-pending-limit'')
          else Inr (item, deposit))))"

definition booking_price :: "marketplace_policy \<Rightarrow> int \<Rightarrow> int \<Rightarrow> safe_deal_price result" where
  "booking_price policy rental deposit =
     (if pol_paymentScenario policy = FAKE_SAFE_DEAL
      then calculate_provisional_safe_deal_price rental deposit
      else Inr \<lparr>rentalSubtotalMinor = rental, depositMinor = deposit, borrowerTotalMinor = rental,
                platformFeeMinor = 0, ownerPayoutMinor = rental\<rparr>)"

definition snapshot_money :: "int \<Rightarrow> int \<Rightarrow> safe_deal_price \<Rightarrow> booking_money_minor result" where
  "snapshot_money pricePerDay deposit price =
     bind_result (minor_to_safe_number pricePerDay) (\<lambda>p.
     bind_result (minor_to_safe_number (rentalSubtotalMinor price)) (\<lambda>r.
     bind_result (minor_to_safe_number deposit) (\<lambda>d.
     bind_result (minor_to_safe_number (platformFeeMinor price)) (\<lambda>f.
     bind_result (minor_to_safe_number (ownerPayoutMinor price)) (\<lambda>w.
     bind_result (minor_to_safe_number (borrowerTotalMinor price)) (\<lambda>t.
     Inr \<lparr>mm_pricePerDay = p, mm_rentalSubtotal = r, mm_deposit = d, mm_platformFee = f,
          mm_ownerPayout = w, mm_total = t\<rparr>))))))"

definition deposit_terms_of :: "marketplace_policy \<Rightarrow> int \<Rightarrow> deposit_terms option" where
  "deposit_terms_of policy deposit =
     (if pol_paymentScenario policy = FAKE_SAFE_DEAL \<and> 0 < deposit
      then Some \<lparr>dt_policyVersion = the (pol_policyVersion policy),
                 dt_disputeWindowSeconds = the (pol_disputeWindowSeconds policy)\<rparr>
      else None)"

text \<open>The name of the item's owner, from the joined user row.\<close>

definition owner_name :: "db \<Rightarrow> item_row \<Rightarrow> string option" where
  "owner_name db item = (case find_user db (it_ownerId item) of None \<Rightarrow> None | Some u \<Rightarrow> us_name u)"

definition build_snapshot ::
    "marketplace_policy \<Rightarrow> legal_terms \<Rightarrow> string \<Rightarrow> string option \<Rightarrow> item_row \<Rightarrow> int \<Rightarrow> booking_period \<Rightarrow> timestamp
      \<Rightarrow> (booking_terms_snapshot \<times> rat) result" where
  "build_snapshot policy legal borrowerId ownerName item deposit period now =
     bind_result (decimal_to_minor (it_pricePerDay item)) (\<lambda>pricePerDayMinor.
     let rentalSubtotalMinor = pricePerDayMinor * per_days period in
     bind_result (booking_price policy rentalSubtotalMinor deposit) (\<lambda>price.
     let totalAmount = minor_to_decimal (borrowerTotalMinor price) in
     bind_result (snapshot_money pricePerDayMinor deposit price) (\<lambda>money.
     Inr (\<lparr>sn_itemTitle = it_title item, sn_lenderId = it_ownerId item,
        sn_lenderDisplayName = ownerName, sn_pricePerDay = to_number (it_pricePerDay item),
        sn_days = of_int (per_days period),
        sn_rentalSubtotal = to_number (minor_to_decimal (safe_deal_price.rentalSubtotalMinor price)),
        sn_depositAmount = map_option to_number (it_depositAmount item),
        sn_platformFee = to_number (minor_to_decimal (platformFeeMinor price)),
        sn_ownerPayout = to_number (minor_to_decimal (ownerPayoutMinor price)),
        sn_total = to_number totalAmount,
        sn_paymentScenario = (if pol_paymentScenario policy = FAKE_SAFE_DEAL
                              then Snap_FAKE_SAFE_DEAL else Snap_PAY_ON_HANDOVER),
        sn_moneyMinor = money, sn_depositTerms = deposit_terms_of policy deposit,
        sn_handover = \<lparr>ho_area = it_publicArea item, ho_address = it_address item,
          ho_latitude = it_latitude item, ho_longitude = it_longitude item\<rparr>,
        sn_listingVersion = (case it_listingRulesVersion item of None \<Rightarrow> ''legacy'' | Some v \<Rightarrow> v)
          @ '':'' @ iso_timestamp (it_updatedAt item),
        sn_offerVersion = Some (lt_offerVersion legal),
        sn_cancellationPolicyVersion = Some (lt_cancellationPolicyVersion legal),
        sn_acceptance = Some \<lparr>ac_actorId = borrowerId, ac_acceptedAt = iso_timestamp now,
          ac_offerVersion = lt_offerVersion legal,
          ac_cancellationPolicyVersion = lt_cancellationPolicyVersion legal\<rparr>\<rparr>, totalAmount))))"

definition new_booking_row ::
    "db \<Rightarrow> string \<Rightarrow> string \<Rightarrow> string \<Rightarrow> item_row \<Rightarrow> booking_period \<Rightarrow> timestamp \<Rightarrow> booking_terms_snapshot \<Rightarrow> rat
      \<Rightarrow> booking_row" where
  "new_booking_row db borrowerId requestId requestHash item period now snapshot totalAmount =
     \<lparr>bk_id = fresh_id db, bk_itemId = it_id item, bk_borrowerId = borrowerId,
      bk_clientRequestId = Some requestId, bk_clientRequestHash = Some requestHash,
      bk_lenderId = it_ownerId item, bk_startDate = per_startDate period,
      bk_endDate = per_endDate period, bk_totalAmount = totalAmount, bk_status = Bk_PENDING,
      bk_expiresAt = Some (now + BOOKING_PENDING_TTL_MS), bk_cancellationReason = None,
      bk_termsSnapshot = Some (to_snapshot_json snapshot), bk_createdAt = db_now db\<rparr>"

definition new_deposit_row :: "db \<Rightarrow> string \<Rightarrow> int \<Rightarrow> deposit_terms \<Rightarrow> deposit_row" where
  "new_deposit_row db bookingId deposit terms =
     \<lparr>dep_id = fresh_id db, dep_bookingId = bookingId, dep_amount = minor_to_decimal deposit,
      dep_currency = ''RUB'', dep_policyVersion = dt_policyVersion terms,
      dep_disputeWindowSeconds = dt_disputeWindowSeconds terms, dep_status = Dep_PENDING,
      dep_disputeWindowEndsAt = None, dep_refundedAmount = 0, dep_releasedToLenderAmount = 0\<rparr>"

definition create_effects ::
    "string \<Rightarrow> string \<Rightarrow> int \<Rightarrow> deposit_terms option \<Rightarrow> booking_row \<Rightarrow> db \<Rightarrow> db result" where
  "create_effects borrowerId requestId deposit terms b db =
     bind_result (insert_booking b db) (\<lambda>db.
     bind_result (case terms of None \<Rightarrow> Inr db
                  | Some t \<Rightarrow> insert_deposit (new_deposit_row db (bk_id b) deposit t) db) (\<lambda>db.
     emit_event (bk_id b) Ev_CREATED
       (record_transition (bk_id b) (Some borrowerId) ''BORROWER'' ''CREATE'' None Bk_PENDING None requestId
         (system_message (bk_id b) ''request-sent'' db))))"

definition create_transaction ::
    "marketplace_policy \<Rightarrow> legal_terms \<Rightarrow> string \<Rightarrow> string \<Rightarrow> booking_period \<Rightarrow> string \<Rightarrow> string \<Rightarrow> timestamp \<Rightarrow> db
      \<Rightarrow> (db \<times> booking_row) result" where
  "create_transaction policy legal borrowerId itemId period requestId requestHash now db =
     (case find_repeated db borrowerId requestId of
        Some repeated \<Rightarrow>
          (if bk_clientRequestHash repeated \<noteq> Some requestHash
           then Inl (Conflict ''IDEMPOTENCY_KEY_REUSED'') else Inr (db, repeated))
      | None \<Rightarrow>
          bind_result (create_guards policy borrowerId itemId period now db) (\<lambda>(item, deposit).
          bind_result (build_snapshot policy legal borrowerId (owner_name db item) item deposit period now)
            (\<lambda>(snapshot, totalAmount).
          let b = new_booking_row db borrowerId requestId requestHash item period now snapshot totalAmount in
          bind_result (create_effects borrowerId requestId deposit (deposit_terms_of policy deposit) b db) (\<lambda>db'.
          Inr (db', b)))))"

definition create_booking ::
    "config \<Rightarrow> marketplace_policy \<Rightarrow> (create_booking_dto \<Rightarrow> string) \<Rightarrow> string \<Rightarrow> create_booking_dto \<Rightarrow> string
      \<Rightarrow> string \<Rightarrow> timestamp \<Rightarrow> db \<Rightarrow> (db \<times> booking_response) result" where
  "create_booking config policy payload_hash borrowerId dto requestId today now db =
     bind_result (require_approved_marketplace_terms config) (\<lambda>legal.
     bind_result (require_marketplace_terms_acceptance dto legal) (\<lambda>_.
     bind_result (parse_booking_period (cb_startDate dto) (cb_endDate dto) today) (\<lambda>period.
     bind_result (create_transaction policy legal borrowerId (cb_itemId dto) period requestId
       (payload_hash dto) now db) (\<lambda>(db', b).
     Inr (db', booking_response_of (per_days period) b)))))"

section \<open>Confirming a request\<close>

definition set_booking :: "string \<Rightarrow> (booking_row \<Rightarrow> booking_row) \<Rightarrow> db \<Rightarrow> db" where
  "set_booking i f db = db\<lparr>db_bookings := update_rows (\<lambda>b. bk_id b = i) f (db_bookings db)\<rparr>"

definition close_booking :: "booking_status \<Rightarrow> string option \<Rightarrow> booking_row \<Rightarrow> booking_row" where
  "close_booking status reason b =
     b\<lparr>bk_status := status, bk_cancellationReason := reason, bk_expiresAt := None\<rparr>"

definition cancel_pending_deposits :: "string list \<Rightarrow> db \<Rightarrow> db" where
  "cancel_pending_deposits bookingIds db =
     db\<lparr>db_deposits := update_rows (\<lambda>d. dep_bookingId d \<in> set bookingIds \<and> dep_status d = Dep_PENDING)
          (\<lambda>d. d\<lparr>dep_status := Dep_CANCELLED\<rparr>) (db_deposits db)\<rparr>"

definition is_confirmable :: "timestamp \<Rightarrow> booking_row \<Rightarrow> bool" where
  "is_confirmable now b \<longleftrightarrow>
     \<not> (bk_status b \<noteq> Bk_PENDING \<or> bk_expiresAt b = None \<or> the (bk_expiresAt b) \<le> now)"

definition confirm_guards :: "string \<Rightarrow> string \<Rightarrow> timestamp \<Rightarrow> db \<Rightarrow> booking_row result" where
  "confirm_guards lenderId bookingId now db =
     (case List.find (\<lambda>b. bk_id b = bookingId \<and> bk_lenderId b = lenderId) (db_bookings db) of
        None \<Rightarrow> Inl (Not_found ''booking'')
      | Some booking \<Rightarrow>
          if \<not> is_confirmable now booking then Inl (Conflict ''INVALID_BOOKING_TRANSITION'')
          else if period_unavailable db (bk_itemId booking) (bk_startDate booking) (bk_endDate booking)
          then Inl (Conflict ''CALENDAR_CONFLICT'')
          else if exists_row (\<lambda>b. bk_id b \<noteq> bk_id booking \<and> is_reserved b
               \<and> booking_overlaps (bk_itemId booking) (bk_startDate booking) (bk_endDate booking) b)
               (db_bookings db)
          then Inl (Conflict ''BOOKING_CONFLICT'')
          else Inr booking)"

definition competitors_of :: "booking_row \<Rightarrow> timestamp \<Rightarrow> db \<Rightarrow> booking_row list" where
  "competitors_of booking now db =
     filter (\<lambda>b. bk_id b \<noteq> bk_id booking \<and> active_pending now b
        \<and> booking_overlaps (bk_itemId booking) (bk_startDate booking) (bk_endDate booking) b)
       (db_bookings db)"

definition cancel_competitors :: "string list \<Rightarrow> db \<Rightarrow> db" where
  "cancel_competitors ids db =
     (if ids = [] then db
      else cancel_pending_deposits ids
        (db\<lparr>db_bookings := update_rows (\<lambda>b. bk_id b \<in> set ids \<and> bk_status b = Bk_PENDING)
            (close_booking Bk_CANCELLED (Some BOOKING_COMPETING_CANCELLATION_REASON)) (db_bookings db)\<rparr>))"

definition confirm_messages :: "string \<Rightarrow> string list \<Rightarrow> db \<Rightarrow> db" where
  "confirm_messages bookingId competitors db =
     fold (\<lambda>c. system_message c ''other-request-confirmed'') competitors
       (system_message bookingId ''request-confirmed'' db)"

definition confirm_history :: "string \<Rightarrow> string \<Rightarrow> string list \<Rightarrow> string \<Rightarrow> db \<Rightarrow> db" where
  "confirm_history lenderId bookingId competitors requestId db =
     fold (\<lambda>c. record_transition c (Some lenderId) ''LENDER'' ''CANCEL_COMPETING'' (Some Bk_PENDING)
             Bk_CANCELLED (Some BOOKING_COMPETING_CANCELLATION_REASON) requestId) competitors
       (record_transition bookingId (Some lenderId) ''LENDER'' ''CONFIRM'' (Some Bk_PENDING)
          Bk_CONFIRMED None requestId db)"

definition confirm_events :: "string \<Rightarrow> string list \<Rightarrow> db \<Rightarrow> db" where
  "confirm_events bookingId competitors db =
     fold (\<lambda>c. emit_event_skip c Ev_COMPETING_CANCELLED) competitors
       (emit_event_skip bookingId Ev_CONFIRMED db)"

definition confirm_effects :: "string \<Rightarrow> string \<Rightarrow> booking_row \<Rightarrow> string list \<Rightarrow> db \<Rightarrow> db" where
  "confirm_effects lenderId requestId booking competitors db =
     confirm_events (bk_id booking) competitors
       (confirm_history lenderId (bk_id booking) competitors requestId
         (confirm_messages (bk_id booking) competitors
           (cancel_competitors competitors
             (set_booking (bk_id booking) (close_booking Bk_CONFIRMED None) db))))"

definition confirm_booking ::
    "string \<Rightarrow> string \<Rightarrow> string \<Rightarrow> timestamp \<Rightarrow> db \<Rightarrow> (db \<times> booking_response) result" where
  "confirm_booking lenderId bookingId requestId now db =
     bind_result (confirm_guards lenderId bookingId now db) (\<lambda>booking.
     let competitors = map bk_id (competitors_of booking now db);
         selected = close_booking Bk_CONFIRMED None booking
     in Inr (confirm_effects lenderId requestId booking competitors db,
             booking_response_of (row_days selected) selected))"

section \<open>Cancelling\<close>

definition participant_cancellation_reason :: "string \<Rightarrow> booking_row \<Rightarrow> string" where
  "participant_cancellation_reason actorId b =
     (if bk_borrowerId b = actorId then BOOKING_BORROWER_CANCELLATION_REASON
      else BOOKING_LENDER_CANCELLATION_REASON)"

definition is_confirmed_fake :: "booking_row \<Rightarrow> bool" where
  "is_confirmed_fake b \<longleftrightarrow>
     bk_status b = Bk_CONFIRMED
     \<and> (case bound_snapshot b of None \<Rightarrow> False | Some s \<Rightarrow> sn_paymentScenario s = Snap_FAKE_SAFE_DEAL)"

definition cancel_guards ::
    "marketplace_policy \<Rightarrow> timestamp \<Rightarrow> booking_row \<Rightarrow> deposit_row option \<Rightarrow> unit result" where
  "cancel_guards policy now booking deposit =
     bind_result (if is_confirmed_fake booking then require_fake_safe_deal policy else Inr ()) (\<lambda>_.
     if \<not> active_pending now booking \<and> \<not> is_confirmed_fake booking
     then Inl (Conflict ''INVALID_BOOKING_TRANSITION'')
     else if is_confirmed_fake booking
       \<and> (case deposit of None \<Rightarrow> False | Some d \<Rightarrow> dep_status d \<noteq> Dep_PENDING \<and> dep_status d \<noteq> Dep_HELD)
     then Inl (Conflict ''INVALID_DEPOSIT_TRANSITION'')
     else Inr ())"

definition set_deposit :: "string \<Rightarrow> (deposit_row \<Rightarrow> deposit_row) \<Rightarrow> db \<Rightarrow> db" where
  "set_deposit i f db = db\<lparr>db_deposits := update_rows (\<lambda>d. dep_id d = i) f (db_deposits db)\<rparr>"

definition new_operation ::
    "db \<Rightarrow> string \<Rightarrow> operation_kind \<Rightarrow> rat \<Rightarrow> string \<Rightarrow> string option \<Rightarrow> timestamp \<Rightarrow> operation_row" where
  "new_operation db depositId kind amount idempotencyKey retryOf nextAttemptAt =
     \<lparr>op_id = fresh_id db, op_depositId = depositId, op_kind = kind, op_amount = amount,
      op_status = Ops_PENDING, op_idempotencyKey = idempotencyKey, op_providerOperationId = None,
      op_retryOfId = retryOf, op_providerErrorCode = None, op_attempts = 0,
      op_nextAttemptAt = nextAttemptAt, op_processingUntil = None, op_completedAt = None,
      op_createdAt = db_now db\<rparr>"

definition pre_handover_refund_key :: "string \<Rightarrow> string" where
  "pre_handover_refund_key depositId = ''deposit:'' @ depositId @ '':pre-handover-refund''"

definition settle_cancelled_deposit :: "deposit_row option \<Rightarrow> db \<Rightarrow> db result" where
  "settle_cancelled_deposit deposit db =
     (case deposit of None \<Rightarrow> Inr db
      | Some d \<Rightarrow>
          if dep_status d = Dep_PENDING
          then Inr (set_deposit (dep_id d) (\<lambda>x. x\<lparr>dep_status := Dep_CANCELLED\<rparr>) db)
          else if dep_status d = Dep_HELD
          then (let db = set_deposit (dep_id d) (\<lambda>x. x\<lparr>dep_status := Dep_RESOLVING\<rparr>) db
                in insert_operation (new_operation db (dep_id d) Op_REFUND (dep_amount d)
                     (pre_handover_refund_key (dep_id d)) None (db_now db)) db)
          else Inr db)"

definition cancel_effects ::
    "string \<Rightarrow> string \<Rightarrow> booking_row \<Rightarrow> deposit_row option \<Rightarrow> db \<Rightarrow> db result" where
  "cancel_effects actorId requestId booking deposit db =
     (let reason = participant_cancellation_reason actorId booking;
          isBorrower = (bk_borrowerId booking = actorId)
      in
      bind_result (settle_cancelled_deposit deposit
         (set_booking (bk_id booking) (close_booking Bk_CANCELLED (Some reason)) db)) (\<lambda>db.
      emit_event (bk_id booking) Ev_CANCELLED
       (record_transition (bk_id booking) (Some actorId) (if isBorrower then ''BORROWER'' else ''LENDER'')
          ''CANCEL'' (Some (bk_status booking)) Bk_CANCELLED (Some reason) requestId
         (system_message (bk_id booking)
           (if isBorrower then ''borrower-cancelled'' else ''lender-declined'') db))))"

definition cancel_pending ::
    "marketplace_policy \<Rightarrow> string \<Rightarrow> string \<Rightarrow> string \<Rightarrow> timestamp \<Rightarrow> db \<Rightarrow> (db \<times> booking_response) result" where
  "cancel_pending policy actorId bookingId requestId now db =
     (case find_participant_booking db actorId bookingId of
        None \<Rightarrow> Inl (Not_found ''booking'')
      | Some booking \<Rightarrow>
          let reason = participant_cancellation_reason actorId booking;
              deposit = deposit_of db (bk_id booking)
          in if bk_status booking = Bk_CANCELLED \<and> bk_cancellationReason booking = Some reason
             then Inr (db, booking_response_of (row_days booking) booking)
             else
             bind_result (cancel_guards policy now booking deposit) (\<lambda>_.
             bind_result (cancel_effects actorId requestId booking deposit db) (\<lambda>db'.
             let updated = close_booking Bk_CANCELLED (Some reason) booking
             in Inr (db', booking_response_of (row_days updated) updated))))"

section \<open>Reading and extending\<close>

record participant_payment =
  pp_amountMinor :: int
  pp_status :: payment_status

record participant_deposit =
  pd_amountMinor :: int
  pd_status :: deposit_status
  pd_refundedMinor :: int
  pd_releasedToLenderMinor :: int
  pd_policyVersion :: string
  pd_disputeWindowEndsAt :: "timestamp option"

text \<open>
  The \<open>terms\<close> of the response copy all fields of the snapshot but the lender's id, the
  handover place and the acceptance, which the model clears.
\<close>

record participant_response =
  pr_id :: string
  pr_itemId :: string
  pr_actorRole :: actor_role
  pr_startDate :: timestamp
  pr_endDate :: timestamp
  pr_status :: booking_status
  pr_nextAction :: next_action_code
  pr_expiresAt :: "timestamp option"
  pr_cancellationReason :: "string option"
  pr_terms :: "booking_terms_snapshot option"
  pr_payment :: "participant_payment option"
  pr_deposit :: "participant_deposit option"
  pr_handover :: "handover_terms option"
  pr_counterpartyContact :: "string option"
  pr_createdAt :: timestamp

definition no_handover :: handover_terms where
  "no_handover = \<lparr>ho_area = [], ho_address = [], ho_latitude = 0, ho_longitude = 0\<rparr>"

definition public_terms :: "booking_terms_snapshot \<Rightarrow> booking_terms_snapshot" where
  "public_terms s = s\<lparr>sn_lenderId := [], sn_handover := no_handover, sn_acceptance := None\<rparr>"

definition safe_minor_of :: "rat \<Rightarrow> int result" where
  "safe_minor_of d = bind_result (decimal_to_minor d) minor_to_safe_number"

definition participant_payment_of :: "payment_row option \<Rightarrow> participant_payment option result" where
  "participant_payment_of payment =
     (case payment of None \<Rightarrow> Inr None
      | Some p \<Rightarrow> bind_result (safe_minor_of (pay_amount p)) (\<lambda>a.
          Inr (Some \<lparr>pp_amountMinor = a, pp_status = pay_status p\<rparr>)))"

definition participant_deposit_of :: "deposit_row option \<Rightarrow> participant_deposit option result" where
  "participant_deposit_of deposit =
     (case deposit of None \<Rightarrow> Inr None
      | Some d \<Rightarrow>
          bind_result (safe_minor_of (dep_amount d)) (\<lambda>a.
          bind_result (safe_minor_of (dep_refundedAmount d)) (\<lambda>r.
          bind_result (safe_minor_of (dep_releasedToLenderAmount d)) (\<lambda>l.
          Inr (Some \<lparr>pd_amountMinor = a, pd_status = dep_status d, pd_refundedMinor = r,
            pd_releasedToLenderMinor = l, pd_policyVersion = dep_policyVersion d,
            pd_disputeWindowEndsAt = dep_disputeWindowEndsAt d\<rparr>)))))"

definition user_phone :: "db \<Rightarrow> string \<Rightarrow> string option" where
  "user_phone db i = map_option us_phone (find_user db i)"

definition to_participant_response :: "db \<Rightarrow> string \<Rightarrow> booking_row \<Rightarrow> participant_response result" where
  "to_participant_response db actorId b =
     (let snapshot = bound_snapshot b;
          canSeeHandover = (bk_status b \<in> set HANDOVER_VISIBLE_STATUSES);
          isBorrower = (bk_borrowerId b = actorId);
          actorRole = (if isBorrower then BORROWER else LENDER)
      in
      bind_result (participant_payment_of (payment_of db (bk_id b))) (\<lambda>payment.
      bind_result (participant_deposit_of (deposit_of db (bk_id b))) (\<lambda>deposit.
      Inr \<lparr>pr_id = bk_id b, pr_itemId = bk_itemId b, pr_actorRole = actorRole,
        pr_startDate = bk_startDate b, pr_endDate = bk_endDate b, pr_status = bk_status b,
        pr_nextAction = booking_next_action (bk_status b) actorRole,
        pr_expiresAt = bk_expiresAt b, pr_cancellationReason = bk_cancellationReason b,
        pr_terms = map_option public_terms snapshot, pr_payment = payment, pr_deposit = deposit,
        pr_handover = (if canSeeHandover \<and> snapshot \<noteq> None then Some (sn_handover (the snapshot)) else None),
        pr_counterpartyContact = (if canSeeHandover
           then (if isBorrower then user_phone db (bk_lenderId b) else user_phone db (bk_borrowerId b))
           else None),
        pr_createdAt = bk_createdAt b\<rparr>)))"

definition get_for_participant :: "db \<Rightarrow> string \<Rightarrow> string \<Rightarrow> participant_response result" where
  "get_for_participant db actorId bookingId =
     (case find_participant_booking db actorId bookingId of
        None \<Rightarrow> Inl (Not_found ''booking'')
      | Some b \<Rightarrow> to_participant_response db actorId b)"

fun map_results :: "('a \<Rightarrow> 'b result) \<Rightarrow> 'a list \<Rightarrow> 'b list result" where
  "map_results f [] = Inr []"
| "map_results f (x # xs) = bind_result (f x) (\<lambda>y. bind_result (map_results f xs) (\<lambda>ys. Inr (y # ys)))"

definition list_for_participant :: "db \<Rightarrow> string \<Rightarrow> participant_response list result" where
  "list_for_participant db actorId =
     map_results (to_participant_response db actorId)
       (sort_key (\<lambda>b. - bk_createdAt b) (filter (is_participant actorId) (db_bookings db)))"

definition reject_extension :: "db \<Rightarrow> string \<Rightarrow> string \<Rightarrow> unit result" where
  "reject_extension db actorId bookingId =
     (case find_participant_booking db actorId bookingId of
        None \<Rightarrow> Inl (Not_found ''booking'')
      | Some _ \<Rightarrow> Inl (Conflict ''BOOKING_EXTENSION_NOT_SUPPORTED''))"

end
