(* ===== verification/Calendar.thy ===== *)
theory Calendar
  imports Database
begin

text \<open>
  The abstract specification of the booking calendar: the booking rows, the owners'
  unavailable periods and the append-only transition history, with the elementary steps a
  command may take. Each command of the booking, act, deposit and dispute services is shown
  elsewhere to be a sequence of these steps; the invariants are proved here once, on the
  abstract machine: reserved periods of an item never overlap one another or an unavailable
  period, and the history of a booking is a path of the declared workflow contract from its
  creation to its current status.
\<close>

section \<open>The machine\<close>

record calendar =
  cal_bookings :: "booking_row list"
  cal_unavailable :: "unavailable_row list"
  cal_history :: "history_row list"

definition calendar_of :: "db \<Rightarrow> calendar" where
  "calendar_of db =
     \<lparr>cal_bookings = db_bookings db, cal_unavailable = db_unavailable db, cal_history = db_history db\<rparr>"

definition same_slot :: "booking_row \<Rightarrow> booking_row \<Rightarrow> bool" where
  "same_slot a b \<longleftrightarrow> bk_id a = bk_id b \<and> bk_itemId a = bk_itemId b
     \<and> bk_startDate a = bk_startDate b \<and> bk_endDate a = bk_endDate b"

definition move_row :: "string \<Rightarrow> (booking_row \<Rightarrow> booking_row) \<Rightarrow> booking_row list \<Rightarrow> booking_row list" where
  "move_row i f = update_rows (\<lambda>b. bk_id b = i) f"

definition slots_clash :: "booking_row \<Rightarrow> booking_row \<Rightarrow> bool" where
  "slots_clash a b \<longleftrightarrow> booking_overlaps (bk_itemId b) (bk_startDate b) (bk_endDate b) a"

definition blocked_by :: "booking_row \<Rightarrow> unavailable_row \<Rightarrow> bool" where
  "blocked_by b u \<longleftrightarrow>
     un_itemId u = bk_itemId b \<and> overlaps (un_startDate u) (un_endDate u) (bk_startDate b) (bk_endDate b)"

text \<open>The contract's name of a command written to the history, and the contract's actors.\<close>

definition contract_command :: "string \<Rightarrow> string" where
  "contract_command c =
     (if c = ''CONFIRM'' then ''confirm''
      else if c \<in> {''CANCEL'', ''CANCEL_COMPETING'', ''BLOCK_COUNTERPARTY''} then ''cancel''
      else if c = ''EXPIRE'' then ''expire''
      else if c = ''CONFIRM_HANDOVER'' then ''activate''
      else if c = ''CONFIRM_RETURN'' then ''return''
      else if c \<in> {''COMPLETE_AFTER_RETURN'', ''COMPLETE_AFTER_DISPUTE_WINDOW'',
        ''COMPLETE_AFTER_DISPUTE_DECISION'', ''COMPLETE_AFTER_DEPOSIT_SETTLED''} then ''complete''
      else '''')"

text \<open>
  The confirmer of an act is written as a role of its own; it is the participant who did not
  author the act, whom the contract calls by the side of the deal. So is the participant who
  blocks the other one and thereby cancels their open requests.
\<close>

definition contract_actors :: "string \<Rightarrow> string list" where
  "contract_actors a =
     (if a \<in> {''HANDOVER_CONFIRMER'', ''RETURN_CONFIRMER'', ''PARTICIPANT''} then [''BORROWER'', ''LENDER''] else [a])"

definition history_allowed :: "history_row \<Rightarrow> bool" where
  "history_allowed h \<longleftrightarrow>
     (case hist_oldStatus h of
        None \<Rightarrow> hist_command h = ''CREATE'' \<and> hist_newStatus h = Bk_PENDING
      | Some old \<Rightarrow> list_ex (\<lambda>a. contract_allows booking_contract (contract_command (hist_command h)) a old
            (hist_newStatus h)) (contract_actors (hist_actorType h)))"

inductive calendar_step :: "calendar \<Rightarrow> calendar \<Rightarrow> bool" where
  request:
    "\<lbrakk>bk_id b \<notin> bk_id ` set bs; bk_status b = Bk_PENDING; bk_startDate b \<le> bk_endDate b;
      hist_bookingId h = bk_id b; hist_oldStatus h = None; hist_newStatus h = Bk_PENDING; history_allowed h\<rbrakk>
     \<Longrightarrow> calendar_step \<lparr>cal_bookings = bs, cal_unavailable = us, cal_history = hs\<rparr>
          \<lparr>cal_bookings = bs @ [b], cal_unavailable = us, cal_history = hs @ [h]\<rparr>"
| confirm:
    "\<lbrakk>b \<in> set bs; bk_status b = Bk_PENDING; \<forall>u \<in> set us. \<not> blocked_by b u;
      \<forall>c \<in> set bs. bk_id c \<noteq> bk_id b \<longrightarrow> is_reserved c \<longrightarrow> \<not> slots_clash c b;
      \<forall>x. same_slot (f x) x \<and> bk_status (f x) = Bk_CONFIRMED;
      hist_bookingId h = bk_id b; hist_oldStatus h = Some Bk_PENDING; hist_newStatus h = Bk_CONFIRMED;
      history_allowed h\<rbrakk>
     \<Longrightarrow> calendar_step \<lparr>cal_bookings = bs, cal_unavailable = us, cal_history = hs\<rparr>
          \<lparr>cal_bookings = move_row (bk_id b) f bs, cal_unavailable = us, cal_history = hs @ [h]\<rparr>"
| move:
    "\<lbrakk>b \<in> set bs; bk_status b = old; new \<noteq> Bk_CONFIRMED; \<forall>x. same_slot (f x) x \<and> bk_status (f x) = new;
      hist_bookingId h = bk_id b; hist_oldStatus h = Some old; hist_newStatus h = new; history_allowed h\<rbrakk>
     \<Longrightarrow> calendar_step \<lparr>cal_bookings = bs, cal_unavailable = us, cal_history = hs\<rparr>
          \<lparr>cal_bookings = move_row (bk_id b) f bs, cal_unavailable = us, cal_history = hs @ [h]\<rparr>"
| block:
    "\<lbrakk>un_id u \<notin> un_id ` set us; un_startDate u \<le> un_endDate u;
      \<forall>b \<in> set bs. is_reserved b \<longrightarrow> \<not> blocked_by b u;
      \<forall>v \<in> set us. \<not> (un_itemId v = un_itemId u
         \<and> overlaps (un_startDate v) (un_endDate v) (un_startDate u) (un_endDate u))\<rbrakk>
     \<Longrightarrow> calendar_step \<lparr>cal_bookings = bs, cal_unavailable = us, cal_history = hs\<rparr>
          \<lparr>cal_bookings = bs, cal_unavailable = us @ [u], cal_history = hs\<rparr>"
| unblock:
    "calendar_step \<lparr>cal_bookings = bs, cal_unavailable = us, cal_history = hs\<rparr>
          \<lparr>cal_bookings = bs, cal_unavailable = filter p us, cal_history = hs\<rparr>"

inductive_cases calendar_stepE: "calendar_step c d"

abbreviation calendar_steps :: "calendar \<Rightarrow> calendar \<Rightarrow> bool" where
  "calendar_steps \<equiv> calendar_step\<^sup>*\<^sup>*"

section \<open>Reserved periods\<close>

definition no_double_booking :: "booking_row list \<Rightarrow> bool" where
  "no_double_booking bs \<longleftrightarrow>
     (\<forall>a \<in> set bs. \<forall>b \<in> set bs. is_reserved a \<longrightarrow> is_reserved b \<longrightarrow> bk_id a \<noteq> bk_id b \<longrightarrow> \<not> slots_clash a b)"

definition reserved_available :: "booking_row list \<Rightarrow> unavailable_row list \<Rightarrow> bool" where
  "reserved_available bs us \<longleftrightarrow>
     (\<forall>b \<in> set bs. is_reserved b \<longrightarrow> (\<forall>u \<in> set us. \<not> blocked_by b u))"

lemma no_double_bookingD:
  assumes "no_double_booking bs" and "a \<in> set bs" "b \<in> set bs" "is_reserved a" "is_reserved b"
    "bk_itemId a = bk_itemId b" "bk_id a \<noteq> bk_id b"
  shows "bk_endDate a < bk_startDate b \<or> bk_endDate b < bk_startDate a"
proof -
  have "\<not> slots_clash a b" using assms unfolding no_double_booking_def by blast
  then show ?thesis using assms(6) by (auto simp: slots_clash_def booking_overlaps_def overlaps_def)
qed

lemma reserved_availableD:
  assumes "reserved_available bs us" and "a \<in> set bs" "u \<in> set us" "is_reserved a" "un_itemId u = bk_itemId a"
  shows "bk_endDate a < un_startDate u \<or> un_endDate u < bk_startDate a"
proof -
  have "\<not> blocked_by a u" using assms unfolding reserved_available_def by blast
  then show ?thesis using assms(5) by (auto simp: blocked_by_def overlaps_def)
qed

definition unavailable_disjoint :: "unavailable_row list \<Rightarrow> bool" where
  "unavailable_disjoint us \<longleftrightarrow>
     (\<forall>u \<in> set us. \<forall>v \<in> set us. un_id u \<noteq> un_id v \<longrightarrow> un_itemId u = un_itemId v \<longrightarrow>
        \<not> overlaps (un_startDate u) (un_endDate u) (un_startDate v) (un_endDate v))"

definition calendar_ok :: "calendar \<Rightarrow> bool" where
  "calendar_ok c \<longleftrightarrow>
     distinct (map bk_id (cal_bookings c)) \<and> distinct (map un_id (cal_unavailable c))
     \<and> no_double_booking (cal_bookings c)
     \<and> reserved_available (cal_bookings c) (cal_unavailable c)
     \<and> unavailable_disjoint (cal_unavailable c)"

lemma overlaps_sym: "overlaps s e s' e' \<longleftrightarrow> overlaps s' e' s e"
  by (auto simp: overlaps_def)

lemma slots_clash_sym: "slots_clash a b \<longleftrightarrow> slots_clash b a"
  by (auto simp: slots_clash_def booking_overlaps_def overlaps_def)

lemma same_slot_clash:
  "same_slot a a' \<Longrightarrow> same_slot b b' \<Longrightarrow> slots_clash a b \<longleftrightarrow> slots_clash a' b'"
  by (simp add: same_slot_def slots_clash_def booking_overlaps_def)

lemma same_slot_blocked: "same_slot a b \<Longrightarrow> blocked_by a u \<longleftrightarrow> blocked_by b u"
  by (simp add: same_slot_def blocked_by_def)

lemma same_slot_refl [simp]: "same_slot a a"
  by (simp add: same_slot_def)

lemma move_row_origin:
  assumes "y \<in> set (move_row i f bs)" and "\<forall>x. same_slot (f x) x"
  obtains x where "x \<in> set bs" "same_slot y x" "bk_id x = i \<and> y = f x \<or> bk_id x \<noteq> i \<and> y = x"
  using assms unfolding move_row_def by (auto elim!: in_update_rowsE)

lemma distinct_move_row:
  assumes "\<forall>x. same_slot (f x) x"
  shows "map bk_id (move_row i f bs) = map bk_id bs"
  unfolding move_row_def by (rule update_rows_key) (use assms in \<open>simp add: same_slot_def\<close>)

text \<open>
  Moving one booking preserves the reservations when the moved booking was reserved before
  or fits in the calendar.
\<close>

lemma no_double_booking_move:
  assumes d: "distinct (map bk_id bs)" and ndb: "no_double_booking bs" and f: "\<forall>x. same_slot (f x) x"
    and b: "b \<in> set bs"
    and fits: "is_reserved (f b) \<Longrightarrow> is_reserved b \<or> (\<forall>c \<in> set bs. bk_id c \<noteq> bk_id b \<longrightarrow> is_reserved c \<longrightarrow> \<not> slots_clash c b)"
  shows "no_double_booking (move_row (bk_id b) f bs)"
  unfolding no_double_booking_def
proof (intro ballI impI)
  fix x y assume x: "x \<in> set (move_row (bk_id b) f bs)" and y: "y \<in> set (move_row (bk_id b) f bs)"
    and r: "is_reserved x" "is_reserved y" and ne: "bk_id x \<noteq> bk_id y"
  obtain x' where x': "x' \<in> set bs" "same_slot x x'" "bk_id x' = bk_id b \<and> x = f x' \<or> bk_id x' \<noteq> bk_id b \<and> x = x'"
    using x f by (rule move_row_origin)
  obtain y' where y': "y' \<in> set bs" "same_slot y y'" "bk_id y' = bk_id b \<and> y = f y' \<or> bk_id y' \<noteq> bk_id b \<and> y = y'"
    using y f by (rule move_row_origin)
  have uniq: "z = b" if "z \<in> set bs" "bk_id z = bk_id b" for z
    using distinct_key_eq [OF d that(1) b that(2)] .
  have ids: "bk_id x' \<noteq> bk_id y'" using ne x'(2) y'(2) by (simp add: same_slot_def)
  have "\<not> slots_clash x' y'"
  proof (cases "bk_id x' = bk_id b")
    case True
    then have "x' = b" "y = y'" using uniq x'(1) ids y'(3) by auto
    moreover from this have "is_reserved (f b)" using r x'(3) True by auto
    ultimately show ?thesis
      using fits ndb y'(1) r(2) ids True b slots_clash_sym by (auto simp: no_double_booking_def)
  next
    case False
    show ?thesis
    proof (cases "bk_id y' = bk_id b")
      case True
      then have "y' = b" "x = x'" using uniq y'(1) ids x'(3) by auto
      moreover from this have "is_reserved (f b)" using r y'(3) True by auto
      ultimately show ?thesis
        using fits ndb x'(1) r(1) ids True b by (auto simp: no_double_booking_def)
    next
      case ny: False
      then show ?thesis using False x'(1,3) y'(1,3) r ids ndb by (auto simp: no_double_booking_def)
    qed
  qed
  then show "\<not> slots_clash x y" using same_slot_clash [OF x'(2) y'(2)] by simp
qed

lemma reserved_available_move:
  assumes "distinct (map bk_id bs)" and "reserved_available bs us" and f: "\<forall>x. same_slot (f x) x"
    and "b \<in> set bs" and fits: "is_reserved (f b) \<Longrightarrow> is_reserved b \<or> (\<forall>u \<in> set us. \<not> blocked_by b u)"
  shows "reserved_available (move_row (bk_id b) f bs) us"
  unfolding reserved_available_def
proof (intro ballI impI)
  fix x u assume x: "x \<in> set (move_row (bk_id b) f bs)" and r: "is_reserved x" and u: "u \<in> set us"
  obtain x' where x': "x' \<in> set bs" "same_slot x x'" "bk_id x' = bk_id b \<and> x = f x' \<or> bk_id x' \<noteq> bk_id b \<and> x = x'"
    using x f by (rule move_row_origin)
  have "\<not> blocked_by x' u"
  proof (cases "bk_id x' = bk_id b")
    case True
    then have "x' = b" using distinct_key_eq [OF assms(1) x'(1) assms(4)] by simp
    moreover from this have "is_reserved (f b)" using r x'(3) True by auto
    ultimately show ?thesis using fits u assms(2,4) by (auto simp: reserved_available_def)
  next
    case False
    then show ?thesis using x'(1,3) r u assms(2) by (auto simp: reserved_available_def)
  qed
  then show "\<not> blocked_by x u" using same_slot_blocked [OF x'(2)] by simp
qed

lemma history_allowed_edge:
  assumes "history_allowed h" and "hist_oldStatus h = Some old"
  shows "contract_edge booking_contract old (hist_newStatus h)"
  using assms by (auto simp: history_allowed_def list_ex_iff dest: contract_allows_edge)

lemma move_keeps_reserved:
  assumes "history_allowed h" and "hist_oldStatus h = Some (bk_status b)" and "hist_newStatus h \<noteq> Bk_CONFIRMED"
    and "bk_status (f b) = hist_newStatus h"
  shows "is_reserved (f b) \<Longrightarrow> is_reserved b"
  using history_allowed_edge [OF assms(1,2)] assms(3,4)
  by (auto simp: booking_edge_cases is_reserved_def)

lemma unavailable_disjoint_snoc:
  assumes "unavailable_disjoint us"
    and new: "\<forall>v \<in> set us. \<not> (un_itemId v = un_itemId u
         \<and> overlaps (un_startDate v) (un_endDate v) (un_startDate u) (un_endDate u))"
  shows "unavailable_disjoint (us @ [u])"
  unfolding unavailable_disjoint_def
proof (intro ballI impI)
  fix v w assume "v \<in> set (us @ [u])" "w \<in> set (us @ [u])" "un_id v \<noteq> un_id w" "un_itemId v = un_itemId w"
  then consider "v \<in> set us" "w \<in> set us" | "v \<in> set us" "w = u" | "v = u" "w \<in> set us" by auto
  then show "\<not> overlaps (un_startDate v) (un_endDate v) (un_startDate w) (un_endDate w)"
  proof cases
    case 1
    then show ?thesis using assms(1) \<open>un_id v \<noteq> un_id w\<close> \<open>un_itemId v = un_itemId w\<close>
      by (simp add: unavailable_disjoint_def)
  next
    case 2
    then show ?thesis using new \<open>un_itemId v = un_itemId w\<close> by blast
  next
    case 3
    then have "\<not> overlaps (un_startDate w) (un_endDate w) (un_startDate v) (un_endDate v)"
      using new \<open>un_itemId v = un_itemId w\<close> by force
    then show ?thesis using overlaps_sym by blast
  qed
qed

lemma calendar_step_ok:
  assumes "calendar_step c d" and "calendar_ok c"
  shows "calendar_ok d"
  using assms
proof (cases rule: calendar_step.cases)
  case (request b bs h us hs)
  then show ?thesis
    using assms(2) by (auto simp: calendar_ok_def no_double_booking_def reserved_available_def is_reserved_def)
next
  case (confirm b bs us f h hs)
  have f: "\<forall>x. same_slot (f x) x" using confirm(7) by simp
  show ?thesis
    using assms(2) confirm no_double_booking_move [OF _ _ f confirm(3), of] reserved_available_move [OF _ _ f confirm(3), of us]
    by (simp add: calendar_ok_def distinct_move_row [OF f])
next
  case (move b bs old new f h us hs)
  have f: "\<forall>x. same_slot (f x) x" using move(6) by simp
  have "is_reserved (f b) \<Longrightarrow> is_reserved b"
    using move by (intro move_keeps_reserved [of h b f]) auto
  then show ?thesis
    using assms(2) move(1,2) no_double_booking_move [OF _ _ f move(3)] reserved_available_move [OF _ _ f move(3), of us]
    by (simp add: calendar_ok_def distinct_move_row [OF f])
next
  case (block u us bs hs)
  have "unavailable_disjoint (us @ [u])"
    using block assms(2) by (intro unavailable_disjoint_snoc) (auto simp: calendar_ok_def)
  moreover have "reserved_available bs (us @ [u])"
    using block assms(2) by (auto simp: calendar_ok_def reserved_available_def)
  ultimately show ?thesis
    using assms(2) block(1,2,3) by (simp add: calendar_ok_def)
next
  case (unblock bs us hs p)
  then show ?thesis
    using assms(2)
    by (auto simp: calendar_ok_def reserved_available_def unavailable_disjoint_def distinct_map_filter)
qed

section \<open>The history is a path of the contract\<close>

fun history_chain :: "booking_status option \<Rightarrow> history_row list \<Rightarrow> booking_status option \<Rightarrow> bool" where
  "history_chain s [] t \<longleftrightarrow> s = t"
| "history_chain s (h # hs) t \<longleftrightarrow>
     hist_oldStatus h = s \<and> history_allowed h \<and> history_chain (Some (hist_newStatus h)) hs t"

definition history_of :: "string \<Rightarrow> history_row list \<Rightarrow> history_row list" where
  "history_of i hs = filter (\<lambda>h. hist_bookingId h = i) hs"

definition history_ok :: "calendar \<Rightarrow> bool" where
  "history_ok c \<longleftrightarrow>
     distinct (map bk_id (cal_bookings c))
     \<and> (\<forall>h \<in> set (cal_history c). hist_bookingId h \<in> bk_id ` set (cal_bookings c))
     \<and> (\<forall>b \<in> set (cal_bookings c).
          history_chain None (history_of (bk_id b) (cal_history c)) (Some (bk_status b)))"

lemma history_chain_snoc:
  "history_chain s (hs @ [h]) t \<longleftrightarrow>
     history_chain s hs (hist_oldStatus h) \<and> history_allowed h \<and> t = Some (hist_newStatus h)"
  by (induction hs arbitrary: s) auto

lemma history_of_snoc:
  "history_of i (hs @ [h]) = history_of i hs @ (if hist_bookingId h = i then [h] else [])"
  by (simp add: history_of_def)

lemma history_of_none: "(\<forall>h \<in> set hs. hist_bookingId h \<noteq> i) \<Longrightarrow> history_of i hs = []"
  by (simp add: history_of_def filter_empty_conv)

lemma history_move:
  assumes ok: "history_ok \<lparr>cal_bookings = bs, cal_unavailable = us, cal_history = hs\<rparr>"
    and b: "b \<in> set bs" and f: "\<forall>x. same_slot (f x) x \<and> bk_status (f x) = new"
    and h: "hist_bookingId h = bk_id b" "hist_oldStatus h = Some (bk_status b)" "hist_newStatus h = new"
      "history_allowed h"
  shows "history_ok \<lparr>cal_bookings = move_row (bk_id b) f bs, cal_unavailable = us, cal_history = hs @ [h]\<rparr>"
proof -
  have f': "\<forall>x. same_slot (f x) x" using f by simp
  have d: "distinct (map bk_id bs)" using ok by (simp add: history_ok_def)
  have keys: "map bk_id (move_row (bk_id b) f bs) = map bk_id bs" by (rule distinct_move_row [OF f'])
  then have ids: "bk_id ` set (move_row (bk_id b) f bs) = bk_id ` set bs"
    by (metis list.set_map)
  have "history_chain None (history_of (bk_id y) (hs @ [h])) (Some (bk_status y))"
    if y: "y \<in> set (move_row (bk_id b) f bs)" for y
  proof -
    obtain x where x: "x \<in> set bs" "same_slot y x" "bk_id x = bk_id b \<and> y = f x \<or> bk_id x \<noteq> bk_id b \<and> y = x"
      using y f' by (rule move_row_origin)
    have chain: "history_chain None (history_of (bk_id x) hs) (Some (bk_status x))"
      using ok x(1) by (simp add: history_ok_def)
    show ?thesis
    proof (cases "bk_id x = bk_id b")
      case True
      then have "x = b" using distinct_key_eq [OF d x(1) b] by simp
      then show ?thesis
        using x(2,3) True chain f h by (auto simp: history_of_snoc history_chain_snoc same_slot_def)
    next
      case False
      then show ?thesis using x(3) chain h(1) by (auto simp: history_of_snoc)
    qed
  qed
  then show ?thesis
    using ok b h(1) by (auto simp: history_ok_def keys ids)
qed

lemma history_step_ok:
  assumes "calendar_step c d" and "history_ok c"
  shows "history_ok d"
  using assms
proof (cases rule: calendar_step.cases)
  case (request b bs h us hs)
  have "history_of (bk_id b) hs = []"
  proof (rule history_of_none, rule ballI)
    fix g assume "g \<in> set hs"
    then have "hist_bookingId g \<in> bk_id ` set bs"
      using assms(2) request(1) by (simp add: history_ok_def)
    then show "hist_bookingId g \<noteq> bk_id b" using request(3) by auto
  qed
  then show ?thesis
    using assms(2) request by (auto simp: history_ok_def history_of_snoc)
next
  case (confirm b bs us f h hs)
  then show ?thesis using assms(2) by (auto intro!: history_move)
next
  case (move b bs old new f h us hs)
  then show ?thesis using assms(2) by (auto intro!: history_move)
qed (use assms(2) in \<open>auto simp: history_ok_def\<close>)

lemma history_chain_path:
  assumes "history_chain (Some s) hs (Some t)"
  shows "((contract_edge booking_contract) ^^ length hs) s t"
  using assms
proof (induction hs arbitrary: s)
  case (Cons h hs)
  then have "contract_edge booking_contract s (hist_newStatus h)"
    using history_allowed_edge by simp
  moreover have "((contract_edge booking_contract) ^^ length hs) (hist_newStatus h) t"
    using Cons by simp
  ultimately show ?case unfolding length_Cons by (rule relpowp_Suc_I2)
qed simp

lemma history_ok_path:
  assumes "history_ok c" and "b \<in> set (cal_bookings c)"
  obtains n where "length (history_of (bk_id b) (cal_history c)) = Suc n"
    "((contract_edge booking_contract) ^^ n) Bk_PENDING (bk_status b)" "n \<le> 4"
proof -
  have ch: "history_chain None (history_of (bk_id b) (cal_history c)) (Some (bk_status b))"
    using assms by (simp add: history_ok_def)
  then obtain h hs where hs: "history_of (bk_id b) (cal_history c) = h # hs"
    by (cases "history_of (bk_id b) (cal_history c)") auto
  with ch have "hist_newStatus h = Bk_PENDING" "history_chain (Some (hist_newStatus h)) hs (Some (bk_status b))"
    by (auto simp: history_allowed_def)
  then have "((contract_edge booking_contract) ^^ length hs) Bk_PENDING (bk_status b)"
    using history_chain_path by simp
  with hs show thesis using booking_life.path_bounded by (intro that [of "length hs"]) auto
qed

interpretation calendar: step_invariants calendar_step calendar_ok history_ok
  by unfold_locales (fact calendar_step_ok, fact history_step_ok)

end
