(* ===== verification/Booking_Refinement.thy ===== *)
theory Booking_Refinement
  imports Booking_Service Calendar
begin

text \<open>
  The commands of the booking service refine the calendar machine: what each of them does to
  the bookings, the unavailable periods and the history is a sequence of calendar steps. The
  behaviour of the commands themselves (limits, idempotency, the fate of competing requests,
  the refund on cancellation, what a participant sees) is stated here as well.
\<close>

text \<open>What the refinement lemmas assume and keep of the concrete state.\<close>

definition db_sim :: "db \<Rightarrow> db \<Rightarrow> bool" where
  "db_sim db db' \<longleftrightarrow> calendar_steps (calendar_of db) (calendar_of db') \<and> ids_ok db'"

lemma db_sim_refl: "ids_ok db \<Longrightarrow> db_sim db db"
  by (simp add: db_sim_def)

lemma db_sim_trans: "db_sim a b \<Longrightarrow> db_sim b c \<Longrightarrow> db_sim a c"
  by (auto simp: db_sim_def)

lemma calendar_of_eqI:
  "db_bookings db' = db_bookings db \<Longrightarrow> db_unavailable db' = db_unavailable db \<Longrightarrow>
   db_history db' = db_history db \<Longrightarrow> calendar_of db' = calendar_of db"
  by (simp add: calendar_of_def)

lemma bookings_fresh: "ids_ok db \<Longrightarrow> fresh_id db \<notin> bk_id ` set (db_bookings db)"
  using fresh_not_issued [of db] by (auto simp: ids_ok_def)

lemma deposits_fresh: "ids_ok db \<Longrightarrow> fresh_id db \<notin> dep_id ` set (db_deposits db)"
  using fresh_not_issued [of db] by (auto simp: ids_ok_def)

lemma close_booking_slot [simp]: "same_slot (close_booking st r b) b"
  by (simp add: same_slot_def close_booking_def)

lemma close_booking_status [simp]: "bk_status (close_booking st r b) = st"
  by (simp add: close_booking_def)

lemma history_row_of_simps [simp]:
  "hist_bookingId (history_row_of db i a ty c old new r q) = i"
  "hist_oldStatus (history_row_of db i a ty c old new r q) = old"
  "hist_newStatus (history_row_of db i a ty c old new r q) = new"
  "hist_command (history_row_of db i a ty c old new r q) = c"
  "hist_actorType (history_row_of db i a ty c old new r q) = ty"
  "hist_actorId (history_row_of db i a ty c old new r q) = a"
  by (simp_all add: history_row_of_def)

definition is_entry ::
    "history_row \<Rightarrow> string \<Rightarrow> string \<Rightarrow> string \<Rightarrow> booking_status option \<Rightarrow> booking_status \<Rightarrow> bool" where
  "is_entry h i ty c old new \<longleftrightarrow> hist_bookingId h = i \<and> hist_actorType h = ty \<and> hist_command h = c
     \<and> hist_oldStatus h = old \<and> hist_newStatus h = new"

lemma is_entry_row [simp]: "is_entry (history_row_of db i a ty c old new r q) i ty c old new"
  by (simp add: is_entry_def)

lemmas history_allowed_simps = history_allowed_def contract_command_def contract_actors_def
  contract_allows_def booking_contract_def tr_def

section \<open>Creating\<close>

lemma create_guardsD:
  assumes "create_guards policy borrowerId itemId period now db = Inr (item, deposit)"
  shows "find_bookable_item db itemId = Some item" "it_ownerId item \<noteq> borrowerId"
    "case it_depositAmount item of None \<Rightarrow> deposit = 0 | Some d \<Rightarrow> d = minor_to_decimal deposit"
    "assert_deposit_allowed policy deposit = Inr ()"
    "pol_paymentScenario policy = PAY_ON_HANDOVER \<longrightarrow> deposit = 0"
    "\<not> interaction_blocked db borrowerId (it_ownerId item)"
    "\<not> period_unavailable db (it_id item) (per_startDate period) (per_endDate period)"
    "\<forall>b \<in> set (db_bookings db). is_reserved b \<longrightarrow>
       \<not> booking_overlaps (it_id item) (per_startDate period) (per_endDate period) b"
    "count_rows (\<lambda>b. bk_borrowerId b = borrowerId \<and> active_pending now b) (db_bookings db) < 5"
    "count_rows (\<lambda>b. active_pending now b
       \<and> booking_overlaps (it_id item) (per_startDate period) (per_endDate period) b) (db_bookings db) < 20"
  using assms unfolding create_guards_def
  by (auto simp: bind_result_Inr_iff BOOKING_MAX_ACTIVE_PENDING_def BOOKING_MAX_COMPETING_PENDING_def
      decimal_to_minor_Inr_iff split: option.splits if_split_asm)

lemma create_effectsD:
  assumes "create_effects borrowerId requestId deposit terms b db = Inr db'"
  shows "db_bookings db' = db_bookings db @ [b]" "db_unavailable db' = db_unavailable db"
    "\<exists>h. db_history db' = db_history db @ [h] \<and> is_entry h (bk_id b) ''BORROWER'' ''CREATE'' None Bk_PENDING"
    "db_supply db' = db_supply db" "db_next db < db_next db'" "db_operations db' = db_operations db"
    "case terms of None \<Rightarrow> db_deposits db' = db_deposits db
     | Some t \<Rightarrow> db_deposits db' = db_deposits db @
         [(new_deposit_row db (bk_id b) deposit t)\<lparr>dep_id := db_supply db (Suc (db_next db))\<rparr>]"
    "terms \<noteq> None \<Longrightarrow> Suc (db_next db) < db_next db'"
    "terms \<noteq> None \<Longrightarrow> 0 < deposit \<and> (\<forall>d \<in> set (db_deposits db). dep_bookingId d \<noteq> bk_id b)"
    "1 \<le> bk_totalAmount b" "bk_totalAmount b \<le> 60000000" "bk_borrowerId b \<noteq> bk_lenderId b"
  using assms unfolding create_effects_def
  by (auto simp: bind_result_Inr_iff new_deposit_row_def fresh_id_def deposit_amounts_ok_def minor_to_decimal_def
      dest!: insert_bookingD insert_depositD emit_eventD split: option.splits)

lemma create_transactionE:
  assumes "create_transaction policy legal borrowerId itemId period requestId requestHash now db = Inr (db', b)"
  obtains (repeated) "db' = db" "find_repeated db borrowerId requestId = Some b"
      "bk_clientRequestHash b = Some requestHash"
  | (created) item deposit snapshot totalAmount where
      "find_repeated db borrowerId requestId = None"
      "create_guards policy borrowerId itemId period now db = Inr (item, deposit)"
      "build_snapshot policy legal borrowerId (owner_name db item) item deposit period now
         = Inr (snapshot, totalAmount)"
      "b = new_booking_row db borrowerId requestId requestHash item period now snapshot totalAmount"
      "create_effects borrowerId requestId deposit (deposit_terms_of policy deposit) b db = Inr db'"
  using assms unfolding create_transaction_def
  by (auto simp: bind_result_Inr_iff Let_def split: option.splits if_split_asm)

lemma create_bookingE:
  assumes "create_booking config policy payload_hash borrowerId dto requestId today now db = Inr (db', r)"
  obtains legal period b where "require_approved_marketplace_terms config = Inr legal"
    "require_marketplace_terms_acceptance dto legal = Inr ()"
    "parse_booking_period (cb_startDate dto) (cb_endDate dto) today = Inr period"
    "create_transaction policy legal borrowerId (cb_itemId dto) period requestId (payload_hash dto) now db = Inr (db', b)"
    "r = booking_response_of (per_days period) b"
  using assms unfolding create_booking_def by (auto simp: bind_result_Inr_iff)

lemma ids_ok_new_booking:
  assumes "ids_ok db" "db_bookings db' = db_bookings db @ [b]" "bk_id b = fresh_id db"
    "db_supply db' = db_supply db" "db_next db < db_next db'"
    "dep_id ` set (db_deposits db') \<subseteq> dep_id ` set (db_deposits db) \<union> Collect (issued db')"
    "db_operations db' = db_operations db" "db_unavailable db' = db_unavailable db"
  shows "ids_ok db'"
  by (rule ids_ok_step [OF assms(1,4)])
     (use assms issued_fresh [OF assms(4,5)] in auto)

lemma create_booking_sim:
  assumes "create_booking config policy payload_hash borrowerId dto requestId today now db = Inr (db', r)"
    and ids: "ids_ok db"
  shows "db_sim db db'"
  using assms(1)
proof (rule create_bookingE)
  fix legal period b
  assume per: "parse_booking_period (cb_startDate dto) (cb_endDate dto) today = Inr period"
    and tx: "create_transaction policy legal borrowerId (cb_itemId dto) period requestId (payload_hash dto) now db = Inr (db', b)"
  from tx show ?thesis
  proof (cases rule: create_transactionE)
    case repeated
    then show ?thesis using ids by (simp add: db_sim_refl)
  next
    case (created item deposit snapshot totalAmount)
    note e = create_effectsD [OF created(5)]
    from e(3) obtain h where h: "db_history db' = db_history db @ [h]"
      "is_entry h (bk_id b) ''BORROWER'' ''CREATE'' None Bk_PENDING" by blast
    have b: "bk_id b = fresh_id db" "bk_status b = Bk_PENDING"
      "bk_startDate b = per_startDate period" "bk_endDate b = per_endDate period"
      by (simp_all add: created(4) new_booking_row_def)
    have "per_startDate period \<le> per_endDate period"
      using per by (elim parse_booking_periodE) simp
    then have "calendar_step (calendar_of db) (calendar_of db')"
      unfolding calendar_of_def e(1,2) h(1)
      using bookings_fresh [OF ids] h(2) b
      by (intro calendar_step.request) (auto simp: is_entry_def history_allowed_def)
    moreover have "dep_id ` set (db_deposits db') \<subseteq> dep_id ` set (db_deposits db) \<union> Collect (issued db')"
      using e(4,7,8) by (auto simp: issued_def split: option.splits)
    then have "ids_ok db'"
      using ids_ok_new_booking [OF ids e(1) b(1) e(4,5)] e(2,6) by simp
    ultimately show ?thesis by (auto simp: db_sim_def)
  qed
qed

section \<open>Confirming\<close>

lemma fold_record_history:
  "\<exists>hs. db_history (fold (\<lambda>c. record_transition c a ty cmd old new r q) ids db) = db_history db @ hs
     \<and> list_all2 (\<lambda>i h. is_entry h i ty cmd old new) ids hs"
proof (induction ids arbitrary: db)
  case (Cons i ids)
  from Cons.IH [of "record_transition i a ty cmd old new r q db"] obtain hs where
    hs: "db_history (fold (\<lambda>c. record_transition c a ty cmd old new r q) ids (record_transition i a ty cmd old new r q db))
       = db_history db @ [history_row_of db i a ty cmd old new r q] @ hs"
    "list_all2 (\<lambda>i h. is_entry h i ty cmd old new) ids hs" by auto
  then show ?case
    by (intro exI [of _ "history_row_of db i a ty cmd old new r q # hs"]) simp
qed simp

text \<open>Cancelling several pending bookings at once is cancelling them one after another.\<close>

lemma cancel_many_steps:
  assumes "distinct (map bk_id bs)" and "distinct ids"
    and "\<forall>i \<in> set ids. \<exists>b \<in> set bs. bk_id b = i \<and> bk_status b = Bk_PENDING"
    and f: "\<forall>x. same_slot (f x) x \<and> bk_status (f x) = Bk_CANCELLED"
    and hs: "list_all2 (\<lambda>i h. is_entry h i ty cmd (Some Bk_PENDING) Bk_CANCELLED) ids hs"
    and allowed: "\<And>h i. is_entry h i ty cmd (Some Bk_PENDING) Bk_CANCELLED \<Longrightarrow> history_allowed h"
  shows "calendar_steps \<lparr>cal_bookings = bs, cal_unavailable = us, cal_history = gs\<rparr>
     \<lparr>cal_bookings = update_rows (\<lambda>b. bk_id b \<in> set ids \<and> bk_status b = Bk_PENDING) f bs,
      cal_unavailable = us, cal_history = gs @ hs\<rparr>"
  using assms(1-3) hs
proof (induction ids arbitrary: bs gs hs)
  case Nil
  then show ?case by (simp add: update_rows_none)
next
  case (Cons i ids)
  from Cons.prems(4) obtain h hs' where hs: "hs = h # hs'"
    "is_entry h i ty cmd (Some Bk_PENDING) Bk_CANCELLED"
    "list_all2 (\<lambda>i h. is_entry h i ty cmd (Some Bk_PENDING) Bk_CANCELLED) ids hs'"
    by (cases hs) auto
  from Cons.prems(3) obtain b where b: "b \<in> set bs" "bk_id b = i" "bk_status b = Bk_PENDING" by auto
  define cs where "cs = move_row i f bs"
  have f': "\<forall>x. same_slot (f x) x" using f by simp
  have keys: "map bk_id cs = map bk_id bs" unfolding cs_def by (rule distinct_move_row [OF f'])
  have step: "calendar_step \<lparr>cal_bookings = bs, cal_unavailable = us, cal_history = gs\<rparr>
     \<lparr>cal_bookings = cs, cal_unavailable = us, cal_history = gs @ [h]\<rparr>"
    unfolding cs_def b(2) [symmetric]
    by (rule calendar_step.move [OF b(1,3)]) (use f hs(2) b(2) allowed in \<open>auto simp: is_entry_def\<close>)
  have "\<forall>j \<in> set ids. \<exists>c \<in> set cs. bk_id c = j \<and> bk_status c = Bk_PENDING"
  proof
    fix j assume j: "j \<in> set ids"
    then obtain c where c: "c \<in> set bs" "bk_id c = j" "bk_status c = Bk_PENDING" using Cons.prems(3) by auto
    then have "c \<in> set cs" using j Cons.prems(2) by (force simp: cs_def move_row_def set_update_rows)
    with c show "\<exists>c \<in> set cs. bk_id c = j \<and> bk_status c = Bk_PENDING" by blast
  qed
  then have "calendar_steps \<lparr>cal_bookings = cs, cal_unavailable = us, cal_history = gs @ [h]\<rparr>
     \<lparr>cal_bookings = update_rows (\<lambda>b. bk_id b \<in> set ids \<and> bk_status b = Bk_PENDING) f cs,
      cal_unavailable = us, cal_history = (gs @ [h]) @ hs'\<rparr>"
    using Cons.prems(1,2) hs(3) keys by (intro Cons.IH) simp_all
  moreover have "update_rows (\<lambda>b. bk_id b \<in> set ids \<and> bk_status b = Bk_PENDING) f cs
     = update_rows (\<lambda>b. bk_id b \<in> set (i # ids) \<and> bk_status b = Bk_PENDING) f bs"
  proof -
    have "(let d = (if bk_id c = i then f c else c) in if bk_id d \<in> set ids \<and> bk_status d = Bk_PENDING then f d else d)
       = (if bk_id c \<in> set (i # ids) \<and> bk_status c = Bk_PENDING then f c else c)" if c: "c \<in> set bs" for c
    proof (cases "bk_id c = i")
      case True
      then have "c = b" using distinct_key_eq [OF Cons.prems(1) c b(1)] b(2) by simp
      moreover have "bk_status (f c) = Bk_CANCELLED" using f by simp
      ultimately show ?thesis using True b(3) by simp
    qed simp
    then show ?thesis
      unfolding cs_def move_row_def update_rows_def map_map Let_def comp_def by (intro map_cong refl) simp
  qed
  ultimately have "calendar_steps \<lparr>cal_bookings = cs, cal_unavailable = us, cal_history = gs @ [h]\<rparr>
     \<lparr>cal_bookings = update_rows (\<lambda>b. bk_id b \<in> set (i # ids) \<and> bk_status b = Bk_PENDING) f bs,
      cal_unavailable = us, cal_history = gs @ hs\<rparr>"
    by (simp only: hs(1) append_assoc append_Cons append_Nil)
  with step show ?case by (rule converse_rtranclp_into_rtranclp)
qed

lemma confirm_guardsD:
  assumes "confirm_guards lenderId bookingId now db = Inr b"
  shows "b \<in> set (db_bookings db)" "bk_id b = bookingId" "bk_lenderId b = lenderId"
    "bk_status b = Bk_PENDING" "\<exists>e. bk_expiresAt b = Some e \<and> now < e"
    "\<forall>u \<in> set (db_unavailable db). \<not> blocked_by b u"
    "\<forall>c \<in> set (db_bookings db). bk_id c \<noteq> bk_id b \<longrightarrow> is_reserved c \<longrightarrow> \<not> slots_clash c b"
  using assms unfolding confirm_guards_def
  by (auto simp: is_confirmable_def period_unavailable_def blocked_by_def slots_clash_def
      split: option.splits if_split_asm dest!: find_SomeD)

lemma confirm_effects_frame:
  fixes db :: db
  assumes "db' = confirm_effects lenderId requestId b ids db"
  shows "db_bookings db' = update_rows (\<lambda>b. bk_id b \<in> set ids \<and> bk_status b = Bk_PENDING)
      (close_booking Bk_CANCELLED (Some BOOKING_COMPETING_CANCELLATION_REASON))
      (move_row (bk_id b) (close_booking Bk_CONFIRMED None) (db_bookings db))"
    "db_unavailable db' = db_unavailable db" "db_supply db' = db_supply db"
    "db_operations db' = db_operations db"
    "db_deposits db' = update_rows (\<lambda>d. dep_bookingId d \<in> set ids \<and> dep_status d = Dep_PENDING)
       (\<lambda>d. d\<lparr>dep_status := Dep_CANCELLED\<rparr>) (db_deposits db)"
    "db_next db \<le> db_next db'"
    "\<exists>h hs. db_history db' = db_history db @ h # hs \<and> is_entry h (bk_id b) ''LENDER'' ''CONFIRM'' (Some Bk_PENDING) Bk_CONFIRMED
       \<and> list_all2 (\<lambda>i h. is_entry h i ''LENDER'' ''CANCEL_COMPETING'' (Some Bk_PENDING) Bk_CANCELLED) ids hs"
proof -
  define d1 where "d1 = cancel_competitors ids (set_booking (bk_id b) (close_booking Bk_CONFIRMED None) db)"
  have d1: "db_bookings d1 = update_rows (\<lambda>b. bk_id b \<in> set ids \<and> bk_status b = Bk_PENDING)
      (close_booking Bk_CANCELLED (Some BOOKING_COMPETING_CANCELLATION_REASON))
      (move_row (bk_id b) (close_booking Bk_CONFIRMED None) (db_bookings db))"
    "db_deposits d1 = update_rows (\<lambda>d. dep_bookingId d \<in> set ids \<and> dep_status d = Dep_PENDING)
       (\<lambda>d. d\<lparr>dep_status := Dep_CANCELLED\<rparr>) (db_deposits db)"
    "db_unavailable d1 = db_unavailable db" "db_supply d1 = db_supply db" "db_operations d1 = db_operations db"
    "db_history d1 = db_history db" "db_next d1 = db_next db"
    by (auto simp: d1_def cancel_competitors_def cancel_pending_deposits_def set_booking_def move_row_def
        update_rows_none)
  define d2 where "d2 = confirm_messages (bk_id b) ids d1"
  have d2: "db_bookings d2 = db_bookings d1" "db_deposits d2 = db_deposits d1" "db_unavailable d2 = db_unavailable d1"
    "db_supply d2 = db_supply d1" "db_operations d2 = db_operations d1" "db_history d2 = db_history d1"
    "db_next d1 \<le> db_next d2"
    unfolding d2_def confirm_messages_def
    by (simp_all add: fold_frame [where s = db_bookings] fold_frame [where s = db_deposits]
        fold_frame [where s = db_unavailable] fold_frame [where s = db_supply]
        fold_frame [where s = db_operations] fold_frame [where s = db_history])
       (rule order_trans [OF _ fold_mono]; simp)
  define d3 where "d3 = confirm_history lenderId (bk_id b) ids requestId d2"
  have d3: "db_bookings d3 = db_bookings d2" "db_deposits d3 = db_deposits d2" "db_unavailable d3 = db_unavailable d2"
    "db_supply d3 = db_supply d2" "db_operations d3 = db_operations d2" "db_next d2 \<le> db_next d3"
    unfolding d3_def confirm_history_def
    by (simp_all add: fold_frame [where s = db_bookings] fold_frame [where s = db_deposits]
        fold_frame [where s = db_unavailable] fold_frame [where s = db_supply]
        fold_frame [where s = db_operations])
       (rule order_trans [OF _ fold_mono]; simp)
  have h3: "\<exists>h hs. db_history d3 = db_history d2 @ h # hs
       \<and> is_entry h (bk_id b) ''LENDER'' ''CONFIRM'' (Some Bk_PENDING) Bk_CONFIRMED
       \<and> list_all2 (\<lambda>i h. is_entry h i ''LENDER'' ''CANCEL_COMPETING'' (Some Bk_PENDING) Bk_CANCELLED) ids hs"
    using fold_record_history [of "Some lenderId" "''LENDER''" "''CANCEL_COMPETING''" "Some Bk_PENDING" Bk_CANCELLED
        "Some BOOKING_COMPETING_CANCELLATION_REASON" requestId ids
        "record_transition (bk_id b) (Some lenderId) ''LENDER'' ''CONFIRM'' (Some Bk_PENDING) Bk_CONFIRMED None requestId d2"]
    unfolding d3_def confirm_history_def by force
  have d4: "db' = confirm_events (bk_id b) ids d3"
    by (simp add: assms confirm_effects_def d1_def d2_def d3_def)
  have e: "db_bookings db' = db_bookings d3" "db_deposits db' = db_deposits d3" "db_unavailable db' = db_unavailable d3"
    "db_supply db' = db_supply d3" "db_operations db' = db_operations d3" "db_history db' = db_history d3"
    "db_next d3 \<le> db_next db'"
    unfolding d4 confirm_events_def
    by (simp_all add: fold_frame [where s = db_bookings] fold_frame [where s = db_deposits]
        fold_frame [where s = db_unavailable] fold_frame [where s = db_supply]
        fold_frame [where s = db_operations] fold_frame [where s = db_history])
       (rule order_trans [OF _ fold_mono]; simp)
  show "db_next db \<le> db_next db'" using d1 d2 d3 e by linarith
  show "\<exists>h hs. db_history db' = db_history db @ h # hs \<and> is_entry h (bk_id b) ''LENDER'' ''CONFIRM'' (Some Bk_PENDING) Bk_CONFIRMED
       \<and> list_all2 (\<lambda>i h. is_entry h i ''LENDER'' ''CANCEL_COMPETING'' (Some Bk_PENDING) Bk_CANCELLED) ids hs"
    using h3 by (simp only: e d2 d1)
  show "db_bookings db' = update_rows (\<lambda>b. bk_id b \<in> set ids \<and> bk_status b = Bk_PENDING)
      (close_booking Bk_CANCELLED (Some BOOKING_COMPETING_CANCELLATION_REASON))
      (move_row (bk_id b) (close_booking Bk_CONFIRMED None) (db_bookings db))"
    "db_unavailable db' = db_unavailable db" "db_supply db' = db_supply db"
    "db_operations db' = db_operations db"
    "db_deposits db' = update_rows (\<lambda>d. dep_bookingId d \<in> set ids \<and> dep_status d = Dep_PENDING)
       (\<lambda>d. d\<lparr>dep_status := Dep_CANCELLED\<rparr>) (db_deposits db)"
    by (simp_all only: e d3 d2 d1)
qed

lemma calendar_distinct: "calendar_ok (calendar_of db) \<Longrightarrow> distinct (map bk_id (db_bookings db))"
  by (simp add: calendar_ok_def calendar_of_def)

lemma update_rows_ids:
  "\<forall>x. same_slot (f x) x \<Longrightarrow> bk_id ` set (update_rows p f bs) = bk_id ` set bs"
  by (rule update_rows_image) (simp add: same_slot_def)

lemma confirm_booking_sim:
  assumes "confirm_booking lenderId bookingId requestId now db = Inr (db', r)"
    and ids: "ids_ok db" and ok: "calendar_ok (calendar_of db)"
  shows "db_sim db db'"
proof -
  from assms(1) obtain b where g: "confirm_guards lenderId bookingId now db = Inr b"
    and db': "db' = confirm_effects lenderId requestId b (map bk_id (competitors_of b now db)) db"
    by (auto simp: confirm_booking_def bind_result_Inr_iff Let_def)
  define ids where "ids = map bk_id (competitors_of b now db)"
  note gd = confirm_guardsD [OF g]
  note fr = confirm_effects_frame [OF db' [folded ids_def]]
  from fr(7) obtain h hs where h: "db_history db' = db_history db @ h # hs"
    "is_entry h (bk_id b) ''LENDER'' ''CONFIRM'' (Some Bk_PENDING) Bk_CONFIRMED"
    "list_all2 (\<lambda>i h. is_entry h i ''LENDER'' ''CANCEL_COMPETING'' (Some Bk_PENDING) Bk_CANCELLED) ids hs"
    by blast
  define bs where "bs = move_row (bk_id b) (close_booking Bk_CONFIRMED None) (db_bookings db)"
  have dist: "distinct (map bk_id (db_bookings db))" by (rule calendar_distinct [OF ok])
  have keys: "map bk_id bs = map bk_id (db_bookings db)"
    unfolding bs_def by (rule distinct_move_row) simp
  have "calendar_step (calendar_of db)
     \<lparr>cal_bookings = bs, cal_unavailable = db_unavailable db, cal_history = db_history db @ [h]\<rparr>"
    unfolding calendar_of_def bs_def
    by (rule calendar_step.confirm [OF gd(1,4,6,7)])
       (use h(2) in \<open>auto simp: is_entry_def history_allowed_simps\<close>)
  moreover have "calendar_steps
     \<lparr>cal_bookings = bs, cal_unavailable = db_unavailable db, cal_history = db_history db @ [h]\<rparr>
     \<lparr>cal_bookings = update_rows (\<lambda>b. bk_id b \<in> set ids \<and> bk_status b = Bk_PENDING)
         (close_booking Bk_CANCELLED (Some BOOKING_COMPETING_CANCELLATION_REASON)) bs,
      cal_unavailable = db_unavailable db, cal_history = (db_history db @ [h]) @ hs\<rparr>"
  proof (rule cancel_many_steps [OF _ _ _ _ h(3)])
    show "distinct (map bk_id bs)" using dist by (simp only: keys)
    show "distinct ids"
      unfolding ids_def competitors_of_def using dist by (rule distinct_map_filter)
    show "\<forall>i \<in> set ids. \<exists>c \<in> set bs. bk_id c = i \<and> bk_status c = Bk_PENDING"
    proof
      fix i assume "i \<in> set ids"
      then obtain c where c: "c \<in> set (db_bookings db)" "bk_id c = i" "bk_id c \<noteq> bk_id b" "bk_status c = Bk_PENDING"
        by (auto simp: ids_def competitors_of_def active_pending_def)
      then have "c \<in> set bs" by (force simp: bs_def move_row_def set_update_rows)
      with c show "\<exists>c \<in> set bs. bk_id c = i \<and> bk_status c = Bk_PENDING" by blast
    qed
    show "history_allowed h" if "is_entry h i ''LENDER'' ''CANCEL_COMPETING'' (Some Bk_PENDING) Bk_CANCELLED" for h i
      using that by (auto simp: is_entry_def history_allowed_simps)
  qed simp
  ultimately have "calendar_steps (calendar_of db) (calendar_of db')"
    unfolding calendar_of_def fr(1,2) h(1) bs_def [symmetric] by (simp add: converse_rtranclp_into_rtranclp)
  moreover have "ids_ok db'"
  proof (rule ids_ok_step [OF ids fr(3,6)])
    show "bk_id ` set (db_bookings db') \<subseteq> bk_id ` set (db_bookings db) \<union> Collect (issued db')"
      unfolding fr(1) move_row_def by (simp add: update_rows_ids)
    show "dep_id ` set (db_deposits db') \<subseteq> dep_id ` set (db_deposits db) \<union> Collect (issued db')"
      unfolding fr(5) by (simp add: update_rows_image)
  qed (simp_all add: fr(2,4))
  ultimately show ?thesis by (simp add: db_sim_def)
qed

section \<open>Cancelling\<close>

lemma cancel_effectsD:
  assumes "cancel_effects actorId requestId b deposit db = Inr db'"
  shows "db_bookings db' = move_row (bk_id b)
      (close_booking Bk_CANCELLED (Some (participant_cancellation_reason actorId b))) (db_bookings db)"
    "db_unavailable db' = db_unavailable db" "db_supply db' = db_supply db" "db_next db < db_next db'"
    "\<exists>h. db_history db' = db_history db @ [h] \<and> is_entry h (bk_id b)
       (if bk_borrowerId b = actorId then ''BORROWER'' else ''LENDER'') ''CANCEL'' (Some (bk_status b)) Bk_CANCELLED"
    "db_payments db' = db_payments db"
    "deposit = None \<Longrightarrow> db_deposits db' = db_deposits db \<and> db_operations db' = db_operations db"
    "deposit = Some d \<Longrightarrow> dep_status d = Dep_PENDING \<Longrightarrow>
       db_deposits db' = update_rows (\<lambda>x. dep_id x = dep_id d) (\<lambda>x. x\<lparr>dep_status := Dep_CANCELLED\<rparr>) (db_deposits db)
       \<and> db_operations db' = db_operations db"
    "deposit = Some d \<Longrightarrow> dep_status d = Dep_HELD \<Longrightarrow>
       db_deposits db' = update_rows (\<lambda>x. dep_id x = dep_id d) (\<lambda>x. x\<lparr>dep_status := Dep_RESOLVING\<rparr>) (db_deposits db)
       \<and> db_operations db' = db_operations db @ [new_operation db (dep_id d) Op_REFUND (dep_amount d)
             (pre_handover_refund_key (dep_id d)) None (db_now db)]"
    "deposit = Some d \<Longrightarrow> dep_status d \<notin> {Dep_PENDING, Dep_HELD} \<Longrightarrow>
       db_deposits db' = db_deposits db \<and> db_operations db' = db_operations db"
  using assms unfolding cancel_effects_def settle_cancelled_deposit_def
  by (auto simp: bind_result_Inr_iff Let_def set_booking_def set_deposit_def move_row_def new_operation_def
      fresh_id_def split: option.splits if_split_asm dest!: insert_operationD emit_eventD)

lemma cancel_pendingE:
  assumes "cancel_pending policy actorId bookingId requestId now db = Inr (db', r)"
  obtains (repeated) b where "find_participant_booking db actorId bookingId = Some b" "db' = db"
      "bk_status b = Bk_CANCELLED"
      "bk_cancellationReason b = Some (participant_cancellation_reason actorId b)"
      "r = booking_response_of (row_days b) b"
  | (cancelled) b where "find_participant_booking db actorId bookingId = Some b"
      "cancel_guards policy now b (deposit_of db (bk_id b)) = Inr ()"
      "cancel_effects actorId requestId b (deposit_of db (bk_id b)) db = Inr db'"
      "br_status r = Bk_CANCELLED" "br_id r = bk_id b"
  using assms unfolding cancel_pending_def
  by (auto simp: bind_result_Inr_iff Let_def booking_response_of_def close_booking_def
      split: option.splits if_split_asm)

lemma cancel_guardsD:
  assumes "cancel_guards policy now b deposit = Inr ()"
  shows "active_pending now b \<or> is_confirmed_fake b"
    "is_confirmed_fake b \<Longrightarrow> pol_paymentScenario policy = FAKE_SAFE_DEAL"
    "is_confirmed_fake b \<Longrightarrow> deposit = Some d \<Longrightarrow> dep_status d \<in> {Dep_PENDING, Dep_HELD}"
    "bk_status b \<in> {Bk_PENDING, Bk_CONFIRMED}"
  using assms unfolding cancel_guards_def
  by (auto simp: bind_result_Inr_iff require_fake_safe_deal_def active_pending_def is_confirmed_fake_def
      split: if_split_asm option.splits)

lemma find_participant_bookingD:
  assumes "find_participant_booking db actorId bookingId = Some b"
  shows "b \<in> set (db_bookings db)" "bk_id b = bookingId" "bk_borrowerId b = actorId \<or> bk_lenderId b = actorId"
  using assms by (auto simp: find_participant_booking_def is_participant_def dest!: find_SomeD)

lemma deposit_ofD:
  assumes "deposit_of db i = Some d"
  shows "d \<in> set (db_deposits db)" "dep_bookingId d = i"
  using assms by (auto simp: deposit_of_def dest!: find_SomeD)

lemma cancel_effects_deposits:
  assumes "cancel_effects actorId requestId b deposit db = Inr db'"
  shows "dep_id ` set (db_deposits db') = dep_id ` set (db_deposits db)"
    "op_id ` set (db_operations db') \<subseteq> op_id ` set (db_operations db) \<union> {fresh_id db}"
proof -
  have "dep_id ` set (db_deposits db') = dep_id ` set (db_deposits db)
    \<and> op_id ` set (db_operations db') \<subseteq> op_id ` set (db_operations db) \<union> {fresh_id db}"
  proof (cases deposit)
    case None
    then show ?thesis using cancel_effectsD(7) [OF assms] by auto
  next
    case (Some d)
    then show ?thesis
      using cancel_effectsD(8-10) [OF assms Some]
      by (cases "dep_status d") (auto simp: update_rows_image new_operation_def)
  qed
  then show "dep_id ` set (db_deposits db') = dep_id ` set (db_deposits db)"
    "op_id ` set (db_operations db') \<subseteq> op_id ` set (db_operations db) \<union> {fresh_id db}" by auto
qed

lemma cancel_pending_sim:
  assumes "cancel_pending policy actorId bookingId requestId now db = Inr (db', r)" and ids: "ids_ok db"
  shows "db_sim db db'"
  using assms(1)
proof (cases rule: cancel_pendingE)
  case (repeated b)
  then show ?thesis using ids by (simp add: db_sim_refl)
next
  case (cancelled b)
  note e = cancel_effectsD [OF cancelled(3)]
  note p = find_participant_bookingD [OF cancelled(1)]
  from e(5) obtain h where h: "db_history db' = db_history db @ [h]"
    "is_entry h (bk_id b) (if bk_borrowerId b = actorId then ''BORROWER'' else ''LENDER'') ''CANCEL''
       (Some (bk_status b)) Bk_CANCELLED" by blast
  have "calendar_step (calendar_of db) (calendar_of db')"
    unfolding calendar_of_def e(1,2) h(1)
    by (rule calendar_step.move [OF p(1) refl, of Bk_CANCELLED])
       (use h(2) cancel_guardsD(4) [OF cancelled(2)] in \<open>auto simp: is_entry_def history_allowed_simps\<close>)
  moreover have "ids_ok db'"
  proof (rule ids_ok_step [OF ids e(3)])
    show "op_id ` set (db_operations db') \<subseteq> op_id ` set (db_operations db) \<union> Collect (issued db')"
      using cancel_effects_deposits(2) [OF cancelled(3)] issued_fresh [OF e(3,4)] by auto
    show "bk_id ` set (db_bookings db') \<subseteq> bk_id ` set (db_bookings db) \<union> Collect (issued db')"
      unfolding e(1) move_row_def by (simp add: update_rows_ids)
  qed (use e(2,4) cancel_effects_deposits(1) [OF cancelled(3)] in auto)
  ultimately show ?thesis by (auto simp: db_sim_def)
qed

end
