(* ===== verification/Safe_Deal_Provider.thy ===== *)
theory Safe_Deal_Provider
  imports Payment_Policy
begin

text \<open>
  The fake payment provider (\<open>payments/fake-safe-deal.provider.ts\<close>): an in-memory store of
  operations by idempotency key. The fingerprint of a request is the JSON text of the request
  object, which determines it, so the model stores the request. The hash function of
  \<open>node:crypto\<close> is an argument. The locale \<open>idempotent_store\<close> states what a client may rely
  on when it repeats a call: the first answer to a key is the answer forever, whatever other
  calls come in between, and another request under the same key is refused.
\<close>

section \<open>Idempotent stores\<close>

locale idempotent_store =
  fixes exec :: "'k \<Rightarrow> 'r \<Rightarrow> 's \<Rightarrow> ('s \<times> 'x) result"
    and stored :: "'s \<Rightarrow> 'k \<Rightarrow> ('r \<times> 'x) option"
  assumes exec_new: "exec k r s = Inr (s', x) \<Longrightarrow> stored s' k = Some (r, x)"
    and exec_keep: "exec k r s = Inr (s', x) \<Longrightarrow> stored s k' = Some rx \<Longrightarrow> stored s' k' = Some rx"
    and exec_again: "exec k r s = Inr (s', x) \<Longrightarrow> stored t k = Some (r, y) \<Longrightarrow> exec k r t = Inr (t, y)"
    and exec_conflict: "stored s k = Some (r', x) \<Longrightarrow> r \<noteq> r' \<Longrightarrow> \<exists>e. exec k r s = Inl e"
begin

inductive calls :: "'s \<Rightarrow> 's \<Rightarrow> bool" where
  calls_refl: "calls s s"
| calls_step: "calls s t \<Longrightarrow> exec k r t = Inr (u, x) \<Longrightarrow> calls s u"

lemma calls_stored: "calls s t \<Longrightarrow> stored s k = Some y \<Longrightarrow> stored t k = Some y"
  by (induction rule: calls.induct) (auto intro: exec_keep)

lemma replay:
  assumes "exec k r s = Inr (s', x)" and "calls s' t"
  shows "exec k r t = Inr (t, x)"
  using exec_again [OF assms(1) calls_stored [OF assms(2) exec_new [OF assms(1)]]] .

lemma refuse_other:
  assumes "exec k r s = Inr (s', x)" and "calls s' t" and "r' \<noteq> r"
  shows "\<exists>e. exec k r' t = Inl e"
  using exec_conflict [OF calls_stored [OF assms(2) exec_new [OF assms(1)]] assms(3)] .

end

section \<open>The provider\<close>

datatype fake_outcome = SUCCESS | DECLINE | TIMEOUT

datatype provider_request =
    Checkout_request (req_key: string) (req_target: string) (req_amount: int) (req_currency: string)
      (req_outcome: fake_outcome)
  | Deposit_request (req_key: string) (req_target: string) (req_kind: operation_kind) (req_amount: int)
      (req_currency: string) (req_outcome: fake_outcome)

datatype provider_result =
    Provider_SUCCEEDED string
  | Provider_DECLINED string
  | Provider_TIMEOUT

type_synonym provider = "string \<Rightarrow> (provider_request \<times> provider_result) option"

definition provider_validate :: "provider_request \<Rightarrow> unit result" where
  "provider_validate request =
     (if js_trim (req_key request) = [] \<or> js_trim (req_target request) = []
      then Inl (Bad_request ''idempotency-key-and-target-required'')
      else if req_currency request \<noteq> ''RUB'' \<or> req_amount request \<le> 0
      then Inl (Bad_request ''positive-rub-amount-required'')
      else Inr ())"

definition provider_result_of :: "(string \<Rightarrow> string) \<Rightarrow> string \<Rightarrow> string \<Rightarrow> fake_outcome \<Rightarrow> provider_result" where
  "provider_result_of sha256_hex command idempotencyKey outcome =
     (case outcome of
        DECLINE \<Rightarrow> Provider_DECLINED ''FAKE_DECLINED''
      | TIMEOUT \<Rightarrow> Provider_TIMEOUT
      | SUCCESS \<Rightarrow> Provider_SUCCEEDED (''fake_'' @ command @ ''_''
          @ take 24 (sha256_hex (command @ '':'' @ idempotencyKey))))"

definition provider_execute ::
    "(string \<Rightarrow> string) \<Rightarrow> string \<Rightarrow> provider_request \<Rightarrow> provider \<Rightarrow> (provider \<times> provider_result) result" where
  "provider_execute sha256_hex command request operations =
     bind_result (provider_validate request) (\<lambda>_.
     case operations (req_key request) of
       Some (fingerprint, result) \<Rightarrow>
         (if fingerprint \<noteq> request then Inl (Conflict ''idempotency-key-of-another-operation'')
          else Inr (operations, result))
     | None \<Rightarrow>
         let result = provider_result_of sha256_hex command (req_key request) (req_outcome request)
         in Inr (operations(req_key request \<mapsto> (request, result)), result))"

definition provider_checkout ::
    "(string \<Rightarrow> string) \<Rightarrow> string \<Rightarrow> string \<Rightarrow> int \<Rightarrow> fake_outcome \<Rightarrow> provider \<Rightarrow> (provider \<times> provider_result) result" where
  "provider_checkout sha256_hex idempotencyKey bookingId amountMinor outcome =
     provider_execute sha256_hex ''checkout''
       (Checkout_request idempotencyKey bookingId amountMinor ''RUB'' outcome)"

definition execute_deposit_operation ::
    "(string \<Rightarrow> string) \<Rightarrow> string \<Rightarrow> string \<Rightarrow> operation_kind \<Rightarrow> int \<Rightarrow> fake_outcome \<Rightarrow> provider
      \<Rightarrow> (provider \<times> provider_result) result" where
  "execute_deposit_operation sha256_hex idempotencyKey depositId kind amountMinor outcome =
     provider_execute sha256_hex ''deposit''
       (Deposit_request idempotencyKey depositId kind amountMinor ''RUB'' outcome)"

text \<open>The command that goes with a request.\<close>

fun req_command :: "provider_request \<Rightarrow> string" where
  "req_command (Checkout_request _ _ _ _ _) = ''checkout''"
| "req_command (Deposit_request _ _ _ _ _ _) = ''deposit''"

text \<open>One call of the provider, as the two public methods make it.\<close>

definition provider_call ::
    "(string \<Rightarrow> string) \<Rightarrow> string \<Rightarrow> provider_request \<Rightarrow> provider \<Rightarrow> (provider \<times> provider_result) result" where
  "provider_call sha256_hex key request operations =
     (if req_key request \<noteq> key then Inl (Plain_error ''key-of-request'')
      else provider_execute sha256_hex (req_command request) request operations)"

lemma provider_executeE:
  assumes "provider_execute sha command request ops = Inr (ops', x)"
  obtains (old) "provider_validate request = Inr ()" "ops (req_key request) = Some (request, x)" "ops' = ops"
  | (new) "provider_validate request = Inr ()" "ops (req_key request) = None"
      "x = provider_result_of sha command (req_key request) (req_outcome request)"
      "ops' = ops(req_key request \<mapsto> (request, x))"
  using assms unfolding provider_execute_def
  by (auto simp: bind_result_Inr_iff Let_def split: option.splits if_splits prod.splits)

interpretation provider: idempotent_store "provider_call sha256_hex" "\<lambda>ops. ops" for sha256_hex
proof
  fix k :: string and r s s' x
  assume c: "provider_call sha256_hex k r s = Inr (s', x)"
  then have k: "req_key r = k" and e: "provider_execute sha256_hex (req_command r) r s = Inr (s', x)"
    by (auto simp: provider_call_def split: if_splits)
  show "s' k = Some (r, x)" using e k by (cases rule: provider_executeE) auto
  show "s k' = Some y \<Longrightarrow> s' k' = Some y" for k' :: string and y using e k by (cases rule: provider_executeE) auto
  have "provider_validate r = Inr ()" using e by (cases rule: provider_executeE)
  then show "t k = Some (r, y) \<Longrightarrow> provider_call sha256_hex k r t = Inr (t, y)" for t :: provider and y
    using k by (simp add: provider_call_def provider_execute_def)
next
  fix s :: provider and k :: string and r' x r
  assume "s k = Some (r', x)" "r \<noteq> r'"
  then show "\<exists>e. provider_call sha256_hex k r s = Inl e"
    by (cases "provider_validate r") (auto simp: provider_call_def provider_execute_def)
qed

text \<open>
  Repeating a payment or a deposit operation is safe: once the provider has answered a
  request under a key, the same request gets the same answer after any number of other calls
  and changes nothing, and any other request under that key is refused.
\<close>

theorem provider_idempotent:
  assumes "provider_call sha k r s = Inr (s', x)" and "provider.calls sha s' t"
  shows "provider_call sha k r t = Inr (t, x) \<and> (\<forall>r'. r' \<noteq> r \<longrightarrow> (\<exists>e. provider_call sha k r' t = Inl e))"
  using provider.replay [OF assms] provider.refuse_other [OF assms] by blast

theorem provider_idempotent_witness:
  "provider_call id ''k'' (Checkout_request ''k'' ''b'' 500 ''RUB'' SUCCESS)
     [''k'' \<mapsto> (Checkout_request ''k'' ''b'' 500 ''RUB'' SUCCESS, Provider_SUCCEEDED ''fake_checkout_checkout:k''),
      ''d'' \<mapsto> (Deposit_request ''d'' ''x'' Op_HOLD 200 ''RUB'' DECLINE, Provider_DECLINED ''FAKE_DECLINED'')]
   = Inr ([''k'' \<mapsto> (Checkout_request ''k'' ''b'' 500 ''RUB'' SUCCESS, Provider_SUCCEEDED ''fake_checkout_checkout:k''),
      ''d'' \<mapsto> (Deposit_request ''d'' ''x'' Op_HOLD 200 ''RUB'' DECLINE, Provider_DECLINED ''FAKE_DECLINED'')],
      Provider_SUCCEEDED ''fake_checkout_checkout:k'')"
proof -
  let ?r = "Checkout_request ''k'' ''b'' 500 ''RUB'' SUCCESS"
  let ?x = "Provider_SUCCEEDED ''fake_checkout_checkout:k''"
  let ?q = "Deposit_request ''d'' ''x'' Op_HOLD 200 ''RUB'' DECLINE"
  have v: "provider_validate ?r = Inr ()" "provider_validate ?q = Inr ()"
    by (simp_all add: provider_validate_def js_trim_def is_js_space_def)
  have 1: "provider_call id ''k'' ?r Map.empty = Inr ([''k'' \<mapsto> (?r, ?x)], ?x)"
    by (simp add: provider_call_def provider_execute_def v provider_result_of_def Let_def)
  have "provider_call id ''d'' ?q [''k'' \<mapsto> (?r, ?x)]
      = Inr ([''k'' \<mapsto> (?r, ?x), ''d'' \<mapsto> (?q, Provider_DECLINED ''FAKE_DECLINED'')], Provider_DECLINED ''FAKE_DECLINED'')"
    by (simp add: provider_call_def provider_execute_def v provider_result_of_def Let_def)
  then have "provider.calls id [''k'' \<mapsto> (?r, ?x)] [''k'' \<mapsto> (?r, ?x), ''d'' \<mapsto> (?q, Provider_DECLINED ''FAKE_DECLINED'')]"
    by (intro provider.calls_step [OF provider.calls_refl])
  from provider_idempotent [OF 1 this] show ?thesis by simp
qed

end
