(* ===== verification/Deposit_Service.thy ===== *)
theory Deposit_Service
  imports Booking_Refinement Safe_Deal_Provider
begin

text \<open>
  The deposit commands of \<open>payments/deposit.service.ts\<close>: the completion of a returned
  booking, the test checkout and the retry of a failed operation. The provider keeps its
  operations in memory, outside the transaction, so a command that calls it returns the
  provider's state also when the database rolls back.
\<close>

section \<open>Completion\<close>

definition assert_deposit_settled :: "deposit_row option \<Rightarrow> unit result" where
  "assert_deposit_settled deposit =
     (case deposit of
        None \<Rightarrow> Inr ()
      | Some d \<Rightarrow>
          if dep_status d \<noteq> Dep_RESOLVED then Inl (Conflict ''deposit-not-settled'')
          else
          bind_result (decimal_to_minor (dep_refundedAmount d)) (\<lambda>refunded.
          bind_result (decimal_to_minor (dep_releasedToLenderAmount d)) (\<lambda>released.
          bind_result (decimal_to_minor (dep_amount d)) (\<lambda>amount.
          if refunded + released \<noteq> amount then Inl (Conflict ''deposit-not-settled'') else Inr ()))))"

datatype completion_trigger = DEPOSIT_SETTLED | DISPUTE_DECIDED | DISPUTE_WINDOW_CLOSED | ZERO_DEPOSIT_RETURN

fun completion_command :: "completion_trigger \<Rightarrow> string" where
  "completion_command ZERO_DEPOSIT_RETURN = ''COMPLETE_AFTER_RETURN''"
| "completion_command DISPUTE_WINDOW_CLOSED = ''COMPLETE_AFTER_DISPUTE_WINDOW''"
| "completion_command DISPUTE_DECIDED = ''COMPLETE_AFTER_DISPUTE_DECISION''"
| "completion_command DEPOSIT_SETTLED = ''COMPLETE_AFTER_DEPOSIT_SETTLED''"

definition completion_request_id :: "completion_trigger \<Rightarrow> string \<Rightarrow> deposit_row option \<Rightarrow> string" where
  "completion_request_id trigger bookingId deposit =
     (case trigger of
        ZERO_DEPOSIT_RETURN \<Rightarrow> ''booking:'' @ bookingId @ '':complete-after-return''
      | DISPUTE_WINDOW_CLOSED \<Rightarrow> ''booking:'' @ bookingId @ '':complete-after-dispute-window''
      | DISPUTE_DECIDED \<Rightarrow> ''booking:'' @ bookingId @ '':complete-after-dispute-decision''
      | DEPOSIT_SETTLED \<Rightarrow> ''deposit:'' @ dep_id (the deposit) @ '':complete'')"

definition window_open :: "deposit_row option \<Rightarrow> timestamp \<Rightarrow> bool" where
  "window_open deposit now \<longleftrightarrow>
     (case deposit of None \<Rightarrow> True
      | Some d \<Rightarrow> (case dep_disputeWindowEndsAt d of None \<Rightarrow> True | Some e \<Rightarrow> now < e))"

definition dispute_resolved :: "dispute_row option \<Rightarrow> bool" where
  "dispute_resolved dispute \<longleftrightarrow> (case dispute of None \<Rightarrow> False | Some d \<Rightarrow> dis_status d = Dis_RESOLVED)"

text \<open>
  The conditions of a trigger: an exception, \<open>False\<close> for the early return of 0, or \<open>True\<close>
  to complete.
\<close>

definition completion_due ::
    "completion_trigger \<Rightarrow> timestamp \<Rightarrow> deposit_row option \<Rightarrow> dispute_row option \<Rightarrow> bool result" where
  "completion_due trigger now deposit dispute =
     (case trigger of
        ZERO_DEPOSIT_RETURN \<Rightarrow>
          if deposit \<noteq> None \<or> dispute \<noteq> None then Inl (Conflict ''unexpected-deposit'')
          else bind_result (assert_deposit_settled None) (\<lambda>_. Inr True)
      | DISPUTE_WINDOW_CLOSED \<Rightarrow> Inr (\<not> (window_open deposit now \<or> dispute \<noteq> None))
      | DISPUTE_DECIDED \<Rightarrow> Inr (\<not> (deposit = None \<or> dispute = None \<or> \<not> dispute_resolved dispute))
      | DEPOSIT_SETTLED \<Rightarrow>
          if dispute \<noteq> None \<and> \<not> dispute_resolved dispute then Inr False
          else if deposit = None \<or> dep_disputeWindowEndsAt (the deposit) = None then Inr False
          else if window_open deposit now \<and> \<not> dispute_resolved dispute then Inr False
          else bind_result (assert_deposit_settled deposit) (\<lambda>_. Inr True))"

definition complete_effects ::
    "completion_trigger \<Rightarrow> string \<Rightarrow> deposit_row option \<Rightarrow> db \<Rightarrow> (db \<times> nat) result" where
  "complete_effects trigger bookingId deposit db =
     bind_result (emit_event bookingId Ev_COMPLETED
       (record_transition bookingId None ''SYSTEM'' (completion_command trigger) (Some Bk_RETURNED)
          Bk_COMPLETED None (completion_request_id trigger bookingId deposit)
         (db\<lparr>db_bookings := update_rows (\<lambda>b. bk_id b = bookingId \<and> bk_status b = Bk_RETURNED)
            (\<lambda>b. b\<lparr>bk_status := Bk_COMPLETED\<rparr>) (db_bookings db)\<rparr>)))
       (\<lambda>db. Inr (db, 1))"

text \<open>
  The second read of the status by \<open>updateMany\<close> cannot fail within the transaction that
  has just read the row, so its early return of 0 is the one for a row not returned.
\<close>

definition complete_booking_after_return ::
    "string \<Rightarrow> timestamp \<Rightarrow> completion_trigger \<Rightarrow> db \<Rightarrow> (db \<times> nat) result" where
  "complete_booking_after_return bookingId now trigger db =
     (case find_booking db bookingId of
        None \<Rightarrow> Inr (db, 0)
      | Some booking \<Rightarrow>
          if bk_status booking = Bk_COMPLETED then Inr (db, 0)
          else if bk_status booking \<noteq> Bk_RETURNED then Inr (db, 0)
          else
          let deposit = deposit_of db bookingId; dispute = dispute_of db bookingId in
          bind_result (completion_due trigger now deposit dispute) (\<lambda>due.
          if \<not> due then Inr (db, 0) else complete_effects trigger bookingId deposit db))"

definition complete_after_deposit_settled :: "string \<Rightarrow> timestamp \<Rightarrow> db \<Rightarrow> (db \<times> nat) result" where
  "complete_after_deposit_settled bookingId now db =
     complete_booking_after_return bookingId now DEPOSIT_SETTLED db"

section \<open>Checkout\<close>

definition hold_key :: "string \<Rightarrow> string" where
  "hold_key depositId = ''deposit:'' @ depositId @ '':hold''"

definition checkout_guards :: "string \<Rightarrow> string \<Rightarrow> db \<Rightarrow> (booking_row \<times> booking_terms_snapshot) result" where
  "checkout_guards borrowerId bookingId db =
     (case find_booking db bookingId of
        None \<Rightarrow> Inl (Not_found ''booking'')
      | Some booking \<Rightarrow>
          if bk_borrowerId booking \<noteq> borrowerId then Inl (Not_found ''booking'')
          else if bk_status booking \<noteq> Bk_CONFIRMED then Inl (Conflict ''INVALID_BOOKING_TRANSITION'')
          else (case bound_snapshot booking of
              None \<Rightarrow> Inl (Conflict ''INVALID_BOOKING_PAYMENT_TERMS'')
            | Some snapshot \<Rightarrow>
                if sn_paymentScenario snapshot \<noteq> Snap_FAKE_SAFE_DEAL
                then Inl (Conflict ''INVALID_BOOKING_PAYMENT_TERMS'')
                else Inr (booking, snapshot)))"

text \<open>A checkout of a booking that has a payment already answers from that payment.\<close>

definition checkout_paid ::
    "string \<Rightarrow> int \<Rightarrow> payment_row \<Rightarrow> deposit_row option \<Rightarrow> provider_result result" where
  "checkout_paid borrowerId amountMinor payment deposit =
     (if pay_userId payment \<noteq> borrowerId \<or> pay_status payment \<noteq> Pay_SUCCEEDED
      then Inl (Conflict ''payment-state-conflicts'')
      else
      bind_result (decimal_to_minor (pay_amount payment)) (\<lambda>paid.
      if paid \<noteq> amountMinor \<or> blank (pay_yookassaPaymentId payment)
      then Inl (Conflict ''payment-state-conflicts'')
      else if (case deposit of None \<Rightarrow> False | Some d \<Rightarrow> dep_status d \<noteq> Dep_HELD)
      then Inl (Conflict ''deposit-state-conflicts'')
      else Inr (Provider_SUCCEEDED (the (pay_yookassaPaymentId payment)))))"

definition checkout_deposit_guard :: "booking_terms_snapshot \<Rightarrow> deposit_row option \<Rightarrow> unit result" where
  "checkout_deposit_guard snapshot deposit =
     (if 0 < mm_deposit (sn_moneyMinor snapshot) then
        (case deposit of
           None \<Rightarrow> Inl (Conflict ''deposit-state-conflicts-with-snapshot'')
         | Some d \<Rightarrow>
             if dep_status d \<noteq> Dep_PENDING \<or> dep_currency d \<noteq> ''RUB''
             then Inl (Conflict ''deposit-state-conflicts-with-snapshot'')
             else
             bind_result (safe_minor_of (dep_amount d)) (\<lambda>a.
             if a \<noteq> mm_deposit (sn_moneyMinor snapshot)
             then Inl (Conflict ''deposit-state-conflicts-with-snapshot'') else Inr ()))
      else if deposit \<noteq> None then Inl (Conflict ''unexpected-deposit'')
      else Inr ())"

definition held_operation :: "db \<Rightarrow> string \<Rightarrow> int \<Rightarrow> string \<Rightarrow> timestamp \<Rightarrow> operation_row" where
  "held_operation db depositId amountMinor providerOperationId completedAt =
     \<lparr>op_id = fresh_id db, op_depositId = depositId, op_kind = Op_HOLD,
      op_amount = minor_to_decimal amountMinor, op_status = Ops_SUCCEEDED,
      op_idempotencyKey = hold_key depositId, op_providerOperationId = Some providerOperationId,
      op_retryOfId = None, op_providerErrorCode = None, op_attempts = 1,
      op_nextAttemptAt = completedAt, op_processingUntil = None, op_completedAt = Some completedAt,
      op_createdAt = db_now db\<rparr>"

definition checkout_effects ::
    "string \<Rightarrow> string \<Rightarrow> int \<Rightarrow> string \<Rightarrow> (deposit_row \<times> int \<times> string) option \<Rightarrow> timestamp \<Rightarrow> db \<Rightarrow> db result" where
  "checkout_effects borrowerId bookingId amountMinor paymentId hold completedAt db =
     bind_result (insert_payment \<lparr>pay_id = fresh_id db, pay_bookingId = bookingId, pay_userId = borrowerId,
        pay_amount = minor_to_decimal amountMinor, pay_status = Pay_SUCCEEDED,
        pay_yookassaPaymentId = Some paymentId\<rparr> db) (\<lambda>db.
     case hold of
       None \<Rightarrow> Inr db
     | Some (d, holdMinor, holdId) \<Rightarrow>
         let db = set_deposit (dep_id d) (\<lambda>x. x\<lparr>dep_status := Dep_HELD\<rparr>) db
         in insert_operation (held_operation db (dep_id d) holdMinor holdId completedAt) db)"

text \<open>The part after a successful call of the provider for a booking without a payment.\<close>

definition checkout_unpaid ::
    "(string \<Rightarrow> string) \<Rightarrow> string \<Rightarrow> string \<Rightarrow> booking_terms_snapshot \<Rightarrow> string \<Rightarrow> timestamp \<Rightarrow> db \<Rightarrow> provider
      \<Rightarrow> db \<times> provider \<times> provider_result result" where
  "checkout_unpaid sha256_hex borrowerId bookingId snapshot paymentId completedAt db prov =
     (let deposit = deposit_of db bookingId;
          amountMinor = mm_total (sn_moneyMinor snapshot);
          holdMinor = mm_deposit (sn_moneyMinor snapshot)
      in case checkout_deposit_guard snapshot deposit of
        Inl e \<Rightarrow> (db, prov, Inl e)
      | Inr _ \<Rightarrow>
         (case deposit of
            None \<Rightarrow>
              (case checkout_effects borrowerId bookingId amountMinor paymentId None completedAt db of
                 Inl e \<Rightarrow> (db, prov, Inl e)
               | Inr db' \<Rightarrow> (db', prov, Inr (Provider_SUCCEEDED paymentId)))
          | Some d \<Rightarrow>
              (case execute_deposit_operation sha256_hex (hold_key (dep_id d)) (dep_id d) Op_HOLD holdMinor SUCCESS prov of
                 Inl e \<Rightarrow> (db, prov, Inl e)
               | Inr (prov', Provider_SUCCEEDED holdId) \<Rightarrow>
                   (case checkout_effects borrowerId bookingId amountMinor paymentId
                      (Some (d, holdMinor, holdId)) completedAt db of
                      Inl e \<Rightarrow> (db, prov', Inl e)
                    | Inr db' \<Rightarrow> (db', prov', Inr (Provider_SUCCEEDED paymentId)))
               | Inr (prov', _) \<Rightarrow> (db, prov', Inl (Conflict ''hold-did-not-succeed'')))))"

definition checkout ::
    "(string \<Rightarrow> string) \<Rightarrow> marketplace_policy \<Rightarrow> string \<Rightarrow> string \<Rightarrow> fake_outcome \<Rightarrow> string \<Rightarrow> timestamp \<Rightarrow> db \<Rightarrow> provider
      \<Rightarrow> db \<times> provider \<times> provider_result result" where
  "checkout sha256_hex policy borrowerId bookingId outcome idempotencyKey completedAt db prov =
     (case require_fake_safe_deal policy of
        Inl e \<Rightarrow> (db, prov, Inl e)
      | Inr _ \<Rightarrow>
        if js_trim idempotencyKey = [] then (db, prov, Inl (Bad_request ''idempotency-key-required''))
        else
        (case checkout_guards borrowerId bookingId db of
           Inl e \<Rightarrow> (db, prov, Inl e)
         | Inr (booking, snapshot) \<Rightarrow>
           (case provider_checkout sha256_hex idempotencyKey bookingId (mm_total (sn_moneyMinor snapshot)) outcome prov of
              Inl e \<Rightarrow> (db, prov, Inl e)
            | Inr (prov', Provider_SUCCEEDED paymentId) \<Rightarrow>
                (case payment_of db bookingId of
                   Some payment \<Rightarrow>
                     (db, prov', checkout_paid borrowerId (mm_total (sn_moneyMinor snapshot)) payment
                        (deposit_of db bookingId))
                 | None \<Rightarrow>
                     checkout_unpaid sha256_hex borrowerId bookingId snapshot paymentId completedAt db prov')
            | Inr (prov', other) \<Rightarrow> (db, prov', Inr other))))"

section \<open>Retrying a failed operation\<close>

record operation_response =
  or_id :: string
  or_depositId :: string
  or_kind :: operation_kind
  or_amountMinor :: int
  or_status :: operation_status
  or_retryOfId :: "string option"

definition to_operation_response :: "operation_row \<Rightarrow> operation_response result" where
  "to_operation_response x =
     bind_result (safe_minor_of (op_amount x)) (\<lambda>a.
     Inr \<lparr>or_id = op_id x, or_depositId = op_depositId x, or_kind = op_kind x, or_amountMinor = a,
       or_status = op_status x, or_retryOfId = op_retryOfId x\<rparr>)"

definition write_audit ::
    "string option \<Rightarrow> string \<Rightarrow> string \<Rightarrow> string option \<Rightarrow> string option \<Rightarrow> db \<Rightarrow> db" where
  "write_audit adminId action entityType entityId reason db =
     db\<lparr>db_next := Suc (db_next db), db_audit := db_audit db @
       [\<lparr>aud_adminId = adminId, aud_action = action, aud_entityType = entityType,
         aud_entityId = entityId, aud_reason = reason\<rparr>]\<rparr>"

definition retry_key :: "string \<Rightarrow> string \<Rightarrow> string" where
  "retry_key operationId commandKey = ''deposit-operation:'' @ operationId @ '':retry:'' @ commandKey"

definition required_leg :: "operation_kind \<Rightarrow> dispute_row option \<Rightarrow> rat option" where
  "required_leg kind dispute =
     (case dispute of None \<Rightarrow> None
      | Some d \<Rightarrow> (if kind = Op_REFUND then Some (dis_refundToBorrowerAmount d)
                  else if kind = Op_RELEASE_TO_LENDER then Some (dis_releaseToLenderAmount d)
                  else None))"

definition dispute_decided_or_reviewed :: "dispute_row option \<Rightarrow> bool" where
  "dispute_decided_or_reviewed dispute \<longleftrightarrow>
     (case dispute of None \<Rightarrow> False | Some d \<Rightarrow> dis_status d \<in> {Dis_UNDER_REVIEW, Dis_RESOLVED})"

definition retry_refused :: "operation_row \<Rightarrow> deposit_row \<Rightarrow> dispute_row option \<Rightarrow> bool result" where
  "retry_refused x deposit dispute =
     (if op_status x \<noteq> Ops_FAILED \<or> dep_status deposit \<noteq> Dep_RESOLVING
         \<or> \<not> dispute_decided_or_reviewed dispute
      then Inr True
      else case required_leg (op_kind x) dispute of
        None \<Rightarrow> Inr True
      | Some required \<Rightarrow>
          bind_result (decimal_to_minor required) (\<lambda>r.
          if r \<le> 0 then Inr True
          else bind_result (decimal_to_minor (op_amount x)) (\<lambda>a. Inr (r \<noteq> a))))"

text \<open>A retry under a key already used answers with the operation of that key.\<close>

definition retry_existing :: "operation_row \<Rightarrow> operation_row \<Rightarrow> operation_response result" where
  "retry_existing x existing =
     (if op_retryOfId existing \<noteq> Some (op_id x) \<or> op_depositId existing \<noteq> op_depositId x
         \<or> op_kind existing \<noteq> op_kind x
      then Inl (Conflict ''idempotency-key-used'')
      else
      bind_result (decimal_to_minor (op_amount existing)) (\<lambda>a.
      bind_result (decimal_to_minor (op_amount x)) (\<lambda>b.
      if a \<noteq> b then Inl (Conflict ''idempotency-key-used'') else to_operation_response existing)))"

definition retry_create ::
    "string \<Rightarrow> operation_row \<Rightarrow> deposit_row \<Rightarrow> string \<Rightarrow> timestamp \<Rightarrow> db \<Rightarrow> (db \<times> operation_response) result" where
  "retry_create adminId x deposit retryKey now db =
     bind_result (retry_refused x deposit (dispute_of db (dep_bookingId deposit))) (\<lambda>refused.
     if refused then Inl (Conflict ''operation-not-retriable'')
     else if exists_row (\<lambda>y. op_retryOfId y = Some (op_id x)) (db_operations db)
     then Inl (Conflict ''retry-exists'')
     else
     let retry = new_operation db (op_depositId x) (op_kind x) (op_amount x) retryKey (Some (op_id x)) now in
     bind_result (insert_operation retry db) (\<lambda>db'.
     bind_result (to_operation_response retry) (\<lambda>r.
     Inr (write_audit (Some adminId) ''DEPOSIT_OPERATION_RETRY_CREATED'' ''DepositOperation''
       (Some (op_id retry)) None db', r))))"

definition retry_failed_operation ::
    "marketplace_policy \<Rightarrow> string \<Rightarrow> string \<Rightarrow> string \<Rightarrow> timestamp \<Rightarrow> db \<Rightarrow> (db \<times> operation_response) result" where
  "retry_failed_operation policy adminId operationId idempotencyKey now db =
     bind_result (require_fake_safe_deal policy) (\<lambda>_.
     let commandKey = js_trim idempotencyKey in
     if commandKey = [] then Inl (Bad_request ''idempotency-key-required'')
     else case find_operation db operationId of
       None \<Rightarrow> Inl (Not_found ''deposit-operation'')
     | Some x \<Rightarrow>
       (case find_deposit db (op_depositId x) of
          None \<Rightarrow> Inl (Not_found ''deposit-operation'')
        | Some deposit \<Rightarrow>
          let retryKey = retry_key (op_id x) commandKey in
          (case operation_by_key db retryKey of
             Some existing \<Rightarrow> bind_result (retry_existing x existing) (\<lambda>r. Inr (db, r))
           | None \<Rightarrow> retry_create adminId x deposit retryKey now db)))"

end
