(* ===== verification/Deposit_Processor.thy ===== *)
theory Deposit_Processor
  imports Deposit_Service
begin

text \<open>
  The background workers of the deposits: \<open>payments/deposit-operation.processor.ts\<close>, which
  leases pending operations, calls the provider and applies the outcome, and
  \<open>payments/deposit-deadline.service.ts\<close>, which schedules the automatic refund when the
  dispute window has closed. Claiming and applying are two transactions, so a worker may be
  overtaken by another between them; they are separate operations of the model.
\<close>

section \<open>Leases and retries\<close>

definition OPERATION_BATCH_SIZE :: nat where
  "OPERATION_BATCH_SIZE = 50"

definition OPERATION_LEASE_MS :: int where
  "OPERATION_LEASE_MS = 60 * 1000"

definition INITIAL_RETRY_MS :: int where
  "INITIAL_RETRY_MS = 30 * 1000"

definition MAX_RETRY_MS :: int where
  "MAX_RETRY_MS = 60 * 60 * 1000"

definition retry_delay :: "nat \<Rightarrow> int" where
  "retry_delay attempts = min (INITIAL_RETRY_MS * 2 ^ min (attempts - 1) 10) MAX_RETRY_MS"

definition operation_claimable :: "timestamp \<Rightarrow> operation_row \<Rightarrow> bool" where
  "operation_claimable now x \<longleftrightarrow>
     op_status x = Ops_PENDING \<and> op_nextAttemptAt x \<le> now
     \<and> (case op_processingUntil x of None \<Rightarrow> True | Some u \<Rightarrow> u \<le> now)"

definition pending_operations :: "timestamp \<Rightarrow> db \<Rightarrow> operation_row list" where
  "pending_operations now db =
     take OPERATION_BATCH_SIZE (sort_key op_nextAttemptAt (sort_key op_createdAt
       (filter (operation_claimable now) (db_operations db))))"

definition claim_row :: "timestamp \<Rightarrow> operation_row \<Rightarrow> operation_row" where
  "claim_row processingUntil x =
     x\<lparr>op_processingUntil := Some processingUntil, op_attempts := op_attempts x + 1\<rparr>"

definition claim_operation :: "string \<Rightarrow> timestamp \<Rightarrow> db \<Rightarrow> db \<times> (operation_row \<times> deposit_row) option" where
  "claim_operation operationId now db =
     (if \<not> exists_row (\<lambda>x. op_id x = operationId \<and> operation_claimable now x) (db_operations db)
      then (db, None)
      else
        let db' = db\<lparr>db_operations := update_rows (\<lambda>x. op_id x = operationId \<and> operation_claimable now x)
              (claim_row (now + OPERATION_LEASE_MS)) (db_operations db)\<rparr>
        in (db', Option.bind (find_operation db' operationId) (\<lambda>x.
                 map_option (Pair x) (find_deposit db' (op_depositId x)))))"

section \<open>Applying an outcome\<close>

definition holds_lease :: "timestamp \<Rightarrow> operation_row \<Rightarrow> bool" where
  "holds_lease processingUntil x \<longleftrightarrow>
     op_status x = Ops_PENDING \<and> op_processingUntil x = Some processingUntil"

definition set_operation :: "string \<Rightarrow> (operation_row \<Rightarrow> bool) \<Rightarrow> (operation_row \<Rightarrow> operation_row) \<Rightarrow> db \<Rightarrow> db" where
  "set_operation i p f db =
     db\<lparr>db_operations := update_rows (\<lambda>x. op_id x = i \<and> p x) f (db_operations db)\<rparr>"

definition reschedule_row :: "timestamp \<Rightarrow> operation_row \<Rightarrow> operation_row" where
  "reschedule_row nextAttemptAt x = x\<lparr>op_processingUntil := None, op_nextAttemptAt := nextAttemptAt\<rparr>"

definition fail_row :: "string \<Rightarrow> timestamp \<Rightarrow> operation_row \<Rightarrow> operation_row" where
  "fail_row errorCode now x =
     x\<lparr>op_status := Ops_FAILED, op_processingUntil := None, op_providerErrorCode := Some errorCode,
       op_completedAt := Some now\<rparr>"

definition succeed_row :: "string \<Rightarrow> timestamp \<Rightarrow> operation_row \<Rightarrow> operation_row" where
  "succeed_row providerOperationId now x =
     x\<lparr>op_status := Ops_SUCCEEDED, op_processingUntil := None,
       op_providerOperationId := Some providerOperationId, op_providerErrorCode := None,
       op_completedAt := Some now\<rparr>"

fun failure_metric :: "operation_kind \<Rightarrow> string option" where
  "failure_metric Op_REFUND = Some ''refund''"
| "failure_metric Op_RELEASE_TO_LENDER = Some ''payout''"
| "failure_metric _ = None"

definition increment_deposit :: "operation_row \<Rightarrow> deposit_status \<Rightarrow> deposit_row \<Rightarrow> deposit_row" where
  "increment_deposit x status d =
     d\<lparr>dep_refundedAmount := (if op_kind x = Op_REFUND then dep_refundedAmount d + op_amount x
          else dep_refundedAmount d),
       dep_releasedToLenderAmount := (if op_kind x = Op_RELEASE_TO_LENDER
          then dep_releasedToLenderAmount d + op_amount x else dep_releasedToLenderAmount d),
       dep_status := status\<rparr>"

definition leg_done :: "db \<Rightarrow> string \<Rightarrow> operation_kind \<Rightarrow> rat \<Rightarrow> bool result" where
  "leg_done db depositId kind amount =
     bind_result (decimal_to_minor amount) (\<lambda>a.
     Inr (a = 0 \<or> exists_row (\<lambda>y. op_depositId y = depositId \<and> op_kind y = kind \<and> op_amount y = amount
             \<and> op_status y = Ops_SUCCEEDED) (db_operations db)))"

text \<open>The loop over the two legs stops at the first leg without a successful attempt.\<close>

definition dispute_legs_done :: "db \<Rightarrow> string \<Rightarrow> dispute_row option \<Rightarrow> bool result" where
  "dispute_legs_done db depositId dispute =
     (if \<not> dispute_decided_or_reviewed dispute then Inr True
      else
      bind_result (leg_done db depositId Op_REFUND (dis_refundToBorrowerAmount (the dispute))) (\<lambda>a.
      if \<not> a then Inr False
      else leg_done db depositId Op_RELEASE_TO_LENDER (dis_releaseToLenderAmount (the dispute))))"

definition settle_deposit ::
    "string \<Rightarrow> operation_row \<Rightarrow> deposit_row \<Rightarrow> bool \<Rightarrow> timestamp \<Rightarrow> db \<Rightarrow> db result" where
  "settle_deposit bookingId x deposit resolved now db =
     (let status = (if resolved then Dep_RESOLVED else Dep_RESOLVING);
          db = set_deposit (op_depositId x) (increment_deposit x status) db
      in if \<not> deposit_amounts_ok (increment_deposit x status deposit)
         then Inl (Check_violation ''booking_deposits'')
         else if resolved
         then bind_result (complete_booking_after_return bookingId now DEPOSIT_SETTLED db) (\<lambda>(db, _). Inr db)
         else Inr db)"

definition settle_operation ::
    "string \<Rightarrow> operation_row \<Rightarrow> deposit_row \<Rightarrow> timestamp \<Rightarrow> string \<Rightarrow> timestamp \<Rightarrow> db \<Rightarrow> db result" where
  "settle_operation bookingId x deposit processingUntil providerOperationId now db =
     bind_result (decimal_to_minor (op_amount x)) (\<lambda>amountMinor.
     bind_result (decimal_to_minor (dep_refundedAmount deposit)) (\<lambda>refundedMinor.
     bind_result (decimal_to_minor (dep_releasedToLenderAmount deposit)) (\<lambda>releasedMinor.
     bind_result (decimal_to_minor (dep_amount deposit)) (\<lambda>totalMinor.
     let nextRefunded = (if op_kind x = Op_REFUND then refundedMinor + amountMinor else refundedMinor);
         nextReleased = (if op_kind x = Op_RELEASE_TO_LENDER then releasedMinor + amountMinor else releasedMinor)
     in if op_kind x \<notin> {Op_REFUND, Op_RELEASE_TO_LENDER} \<or> totalMinor < nextRefunded + nextReleased
        then Inl (Plain_error ''operation-exceeds-unsettled-amount'')
        else
        let db = set_operation (op_id x) (holds_lease processingUntil) (succeed_row providerOperationId now) db in
        bind_result (if nextRefunded + nextReleased = totalMinor
            then dispute_legs_done db (op_depositId x) (dispute_of db bookingId) else Inr False) (\<lambda>resolved.
        settle_deposit bookingId x deposit resolved now db)))))"

definition apply_outcome ::
    "string \<Rightarrow> string \<Rightarrow> nat \<Rightarrow> timestamp \<Rightarrow> provider_result \<Rightarrow> timestamp \<Rightarrow> db \<Rightarrow> (db \<times> string option) result" where
  "apply_outcome operationId bookingId attempts processingUntil outcome now db =
     (case find_operation db operationId of
        None \<Rightarrow> Inr (db, None)
      | Some x \<Rightarrow>
          if \<not> holds_lease processingUntil x then Inr (db, None)
          else (case outcome of
            Provider_TIMEOUT \<Rightarrow>
              Inr (set_operation (op_id x) (holds_lease processingUntil)
                     (reschedule_row (now + retry_delay attempts)) db, None)
          | Provider_DECLINED errorCode \<Rightarrow>
              Inr (write_audit None ''DEPOSIT_OPERATION_PROVIDER_DECLINED'' ''DepositOperation''
                     (Some (op_id x)) (Some errorCode)
                     (set_operation (op_id x) (holds_lease processingUntil) (fail_row errorCode now) db),
                   failure_metric (op_kind x))
          | Provider_SUCCEEDED providerOperationId \<Rightarrow>
              (case find_deposit db (op_depositId x) of
                 None \<Rightarrow> Inr (db, None)
               | Some deposit \<Rightarrow>
                   if dep_status deposit \<noteq> Dep_RESOLVING then Inr (db, None)
                   else bind_result (settle_operation bookingId x deposit processingUntil providerOperationId now db)
                          (\<lambda>db'. Inr (db', None)))))"

section \<open>The worker\<close>

definition provider_outcome ::
    "(string \<Rightarrow> string) \<Rightarrow> marketplace_policy \<Rightarrow> operation_row \<Rightarrow> provider \<Rightarrow> provider \<times> provider_result" where
  "provider_outcome sha256_hex policy x prov =
     (case bind_result (require_fake_safe_deal policy) (\<lambda>_.
           bind_result (decimal_to_minor (op_amount x)) (\<lambda>amountMinor.
           execute_deposit_operation sha256_hex (op_idempotencyKey x) (op_depositId x) (op_kind x)
             amountMinor SUCCESS prov)) of
        Inl _ \<Rightarrow> (prov, Provider_TIMEOUT)
      | Inr r \<Rightarrow> r)"

definition process_one ::
    "(string \<Rightarrow> string) \<Rightarrow> marketplace_policy \<Rightarrow> string \<Rightarrow> timestamp \<Rightarrow> db \<Rightarrow> provider
      \<Rightarrow> db \<times> provider \<times> nat result" where
  "process_one sha256_hex policy operationId now db prov =
     (case claim_operation operationId now db of
        (db1, None) \<Rightarrow> (db1, prov, Inr 0)
      | (db1, Some (x, deposit)) \<Rightarrow>
          if dep_currency deposit \<noteq> ''RUB'' then (db1, prov, Inl (Plain_error ''currency-must-be-RUB''))
          else
          (case provider_outcome sha256_hex policy x prov of
             (prov', outcome) \<Rightarrow>
               (case apply_outcome (op_id x) (dep_bookingId deposit) (op_attempts x)
                   (now + OPERATION_LEASE_MS) outcome now db1 of
                  Inl e \<Rightarrow> (db1, prov', Inl e)
                | Inr (db2, _) \<Rightarrow> (db2, prov', Inr 1))))"

fun process_loop ::
    "(string \<Rightarrow> string) \<Rightarrow> marketplace_policy \<Rightarrow> timestamp \<Rightarrow> string list \<Rightarrow> nat \<Rightarrow> db \<Rightarrow> provider
      \<Rightarrow> db \<times> provider \<times> nat result" where
  "process_loop sha256_hex policy now [] processed db prov = (db, prov, Inr processed)"
| "process_loop sha256_hex policy now (i # ids) processed db prov =
     (case process_one sha256_hex policy i now db prov of
        (db', prov', Inl e) \<Rightarrow> (db', prov', Inl e)
      | (db', prov', Inr n) \<Rightarrow> process_loop sha256_hex policy now ids (processed + n) db' prov')"

definition process_pending_operations ::
    "(string \<Rightarrow> string) \<Rightarrow> marketplace_policy \<Rightarrow> timestamp \<Rightarrow> db \<Rightarrow> provider \<Rightarrow> db \<times> provider \<times> nat result" where
  "process_pending_operations sha256_hex policy now db prov =
     (case require_fake_safe_deal policy of
        Inl e \<Rightarrow> (db, prov, Inl e)
      | Inr _ \<Rightarrow> process_loop sha256_hex policy now (map op_id (pending_operations now db)) 0 db prov)"

section \<open>The deadline of the dispute window\<close>

definition auto_refund_key :: "string \<Rightarrow> string" where
  "auto_refund_key depositId = ''deposit:'' @ depositId @ '':auto-refund''"

definition window_closed :: "timestamp \<Rightarrow> deposit_row \<Rightarrow> bool" where
  "window_closed now d \<longleftrightarrow>
     dep_status d = Dep_HELD \<and> (case dep_disputeWindowEndsAt d of None \<Rightarrow> False | Some e \<Rightarrow> e \<le> now)"

definition process_due_one :: "timestamp \<Rightarrow> string \<Rightarrow> db \<Rightarrow> (db \<times> nat) result" where
  "process_due_one now depositId db =
     (case find_deposit db depositId of
        None \<Rightarrow> Inr (db, 0)
      | Some deposit \<Rightarrow>
          if \<not> window_closed now deposit
             \<or> (case find_booking db (dep_bookingId deposit) of None \<Rightarrow> True
                | Some b \<Rightarrow> bk_status b \<noteq> Bk_RETURNED)
             \<or> dispute_of db (dep_bookingId deposit) \<noteq> None
          then Inr (db, 0)
          else if operation_by_key db (auto_refund_key (dep_id deposit)) \<noteq> None then Inr (db, 0)
          else
          bind_result (insert_operation (new_operation db (dep_id deposit) Op_REFUND (dep_amount deposit)
             (auto_refund_key (dep_id deposit)) None now) db) (\<lambda>db.
          let db = set_deposit (dep_id deposit) (\<lambda>x. x\<lparr>dep_status := Dep_RESOLVING\<rparr>) db in
          bind_result (complete_booking_after_return (dep_bookingId deposit) now DISPUTE_WINDOW_CLOSED db)
            (\<lambda>(db, _). Inr (db, 1))))"

fun process_due_loop :: "timestamp \<Rightarrow> string list \<Rightarrow> nat \<Rightarrow> db \<Rightarrow> db \<times> nat result" where
  "process_due_loop now [] scheduled db = (db, Inr scheduled)"
| "process_due_loop now (i # ids) scheduled db =
     (case process_due_one now i db of
        Inl e \<Rightarrow> (db, Inl e)
      | Inr (db', n) \<Rightarrow> process_due_loop now ids (scheduled + n) db')"

definition process_due :: "timestamp \<Rightarrow> db \<Rightarrow> db \<times> nat result" where
  "process_due now db =
     process_due_loop now (map dep_id (sort_key (\<lambda>d. the (dep_disputeWindowEndsAt d))
       (filter (window_closed now) (db_deposits db)))) 0 db"

end
