(* ===== verification/Dispute_Service.thy ===== *)
theory Dispute_Service
  imports Deposit_Processor
begin

text \<open>
  Financial disputes (\<open>payments/dispute.service.ts\<close>): opening within the dispute window, the
  participants' and the administrators' reads, the resolution that splits the deposit into a
  refund and a release, and evidence. The verification of an upload (an S3 object of
  \<open>upload.service.ts\<close>) is an argument: the intent, the object key and the hash it returned.
\<close>

record verified_upload =
  vu_intentId :: string
  vu_objectKey :: string
  vu_sha256 :: string

section \<open>Responses\<close>

record evidence_response =
  er_id :: string
  er_sha256 :: string
  er_createdAt :: timestamp

definition to_evidence_response :: "evidence_row \<Rightarrow> evidence_response" where
  "to_evidence_response e = \<lparr>er_id = ev_id e, er_sha256 = ev_sha256 e, er_createdAt = ev_createdAt e\<rparr>"

definition evidence_of :: "string \<Rightarrow> evidence_row list \<Rightarrow> evidence_response list" where
  "evidence_of ownerId es =
     map to_evidence_response (sort_key ev_createdAt (filter (\<lambda>e. ev_ownerId e = ownerId) es))"

record dispute_response =
  dr_id :: string
  dr_bookingId :: string
  dr_openedById :: string
  dr_reason :: dispute_reason
  dr_description :: "string option"
  dr_status :: dispute_status
  dr_openedAt :: timestamp
  dr_resolvedAt :: "timestamp option"
  dr_evidence :: "evidence_response list"

definition to_dispute_response :: "db \<Rightarrow> dispute_row \<Rightarrow> dispute_response" where
  "to_dispute_response db d =
     \<lparr>dr_id = dis_id d, dr_bookingId = dis_bookingId d, dr_openedById = dis_openedById d,
      dr_reason = dis_reason d, dr_description = dis_description d, dr_status = dis_status d,
      dr_openedAt = dis_openedAt d, dr_resolvedAt = dis_resolvedAt d,
      dr_evidence = evidence_of (dis_id d) (db_disputeEvidence db)\<rparr>"

record failed_operation =
  fo_id :: string
  fo_kind :: operation_kind
  fo_amountMinor :: int
  fo_errorCode :: "string option"
  fo_attempts :: nat
  fo_retryOfId :: "string option"
  fo_retryId :: "string option"
  fo_createdAt :: timestamp
  fo_completedAt :: "timestamp option"

definition to_failed_operation :: "db \<Rightarrow> operation_row \<Rightarrow> failed_operation result" where
  "to_failed_operation db x =
     bind_result (safe_minor_of (op_amount x)) (\<lambda>a.
     Inr \<lparr>fo_id = op_id x, fo_kind = op_kind x, fo_amountMinor = a,
       fo_errorCode = op_providerErrorCode x, fo_attempts = op_attempts x,
       fo_retryOfId = op_retryOfId x,
       fo_retryId = (case sort_key op_createdAt (filter (\<lambda>y. op_retryOfId y = Some (op_id x)) (db_operations db)) of
          [] \<Rightarrow> None | y # _ \<Rightarrow> Some (op_id y)),
       fo_createdAt = op_createdAt x, fo_completedAt = op_completedAt x\<rparr>)"

record admin_dispute_response =
  ad_id :: string
  ad_bookingId :: string
  ad_reason :: dispute_reason
  ad_description :: "string option"
  ad_status :: dispute_status
  ad_refundToBorrowerMinor :: int
  ad_releaseToLenderMinor :: int
  ad_depositAmountMinor :: int
  ad_depositStatus :: deposit_status
  ad_disputeWindowEndsAt :: "timestamp option"
  ad_openedAt :: timestamp
  ad_resolvedAt :: "timestamp option"
  ad_evidence :: "evidence_response list"
  ad_failedOperations :: "failed_operation list"

definition to_admin_dispute_response :: "db \<Rightarrow> dispute_row \<Rightarrow> admin_dispute_response result" where
  "to_admin_dispute_response db d =
     (case deposit_of db (dis_bookingId d) of
        None \<Rightarrow> Inl (Conflict ''dispute-without-deposit'')
      | Some deposit \<Rightarrow>
          bind_result (safe_minor_of (dis_refundToBorrowerAmount d)) (\<lambda>refund.
          bind_result (safe_minor_of (dis_releaseToLenderAmount d)) (\<lambda>release.
          bind_result (safe_minor_of (dep_amount deposit)) (\<lambda>amount.
          bind_result (map_results (to_failed_operation db)
              (sort_key op_createdAt (filter (\<lambda>x. op_depositId x = dep_id deposit \<and> op_status x = Ops_FAILED)
                 (db_operations db)))) (\<lambda>failed.
          Inr \<lparr>ad_id = dis_id d, ad_bookingId = dis_bookingId d, ad_reason = dis_reason d,
            ad_description = dis_description d, ad_status = dis_status d,
            ad_refundToBorrowerMinor = refund, ad_releaseToLenderMinor = release,
            ad_depositAmountMinor = amount, ad_depositStatus = dep_status deposit,
            ad_disputeWindowEndsAt = dep_disputeWindowEndsAt deposit,
            ad_openedAt = dis_openedAt d, ad_resolvedAt = dis_resolvedAt d,
            ad_evidence = evidence_of (dis_id d) (db_disputeEvidence db),
            ad_failedOperations = failed\<rparr>)))))"

definition get_dispute :: "db \<Rightarrow> string \<Rightarrow> string \<Rightarrow> dispute_response result" where
  "get_dispute db actorId bookingId =
     (case find_participant_booking db actorId bookingId of
        None \<Rightarrow> Inl (Not_found ''dispute'')
      | Some b \<Rightarrow>
          (case dispute_of db (bk_id b) of
             None \<Rightarrow> Inl (Not_found ''dispute'')
           | Some d \<Rightarrow> Inr (to_dispute_response db d)))"

definition list_for_admin :: "string \<Rightarrow> db \<Rightarrow> (db \<times> admin_dispute_response list) result" where
  "list_for_admin adminId db =
     bind_result (map_results (to_admin_dispute_response db) (sort_key dis_openedAt (db_disputes db))) (\<lambda>response.
     Inr (write_audit (Some adminId) ''FINANCIAL_DISPUTE_QUEUE_ACCESSED'' ''FinancialDispute'' None None db, response))"

section \<open>Opening\<close>

record create_dispute_dto =
  cd_reason :: dispute_reason
  cd_description :: "string option"

definition insert_dispute :: "dispute_row \<Rightarrow> db \<Rightarrow> db result" where
  "insert_dispute d db =
     (if exists_row (\<lambda>c. dis_bookingId c = dis_bookingId d) (db_disputes db)
      then Inl (Unique_violation ''financial_disputes.bookingId'')
      else if dis_refundToBorrowerAmount d < 0 \<or> dis_releaseToLenderAmount d < 0
      then Inl (Check_violation ''financial_disputes.amounts'')
      else Inr (db\<lparr>db_next := Suc (db_next db), db_disputes := db_disputes db @ [d]\<rparr>))"

definition dispute_openable :: "booking_row \<Rightarrow> deposit_row option \<Rightarrow> dispute_row option \<Rightarrow> timestamp \<Rightarrow> bool" where
  "dispute_openable b deposit dispute now \<longleftrightarrow>
     \<not> (bk_status b \<noteq> Bk_RETURNED \<or> deposit = None \<or> dep_status (the deposit) \<noteq> Dep_HELD
        \<or> dep_disputeWindowEndsAt (the deposit) = None
        \<or> the (dep_disputeWindowEndsAt (the deposit)) \<le> now \<or> dispute \<noteq> None)"

definition new_dispute_row :: "db \<Rightarrow> string \<Rightarrow> string \<Rightarrow> create_dispute_dto \<Rightarrow> timestamp \<Rightarrow> dispute_row" where
  "new_dispute_row db actorId bookingId dto now =
     \<lparr>dis_id = fresh_id db, dis_bookingId = bookingId, dis_openedById = actorId,
      dis_resolvedById = None, dis_reason = cd_reason dto,
      dis_description = (if blank (cd_description dto) then None else cd_description dto),
      dis_status = Dis_OPEN, dis_decisionReason = None, dis_refundToBorrowerAmount = 0,
      dis_releaseToLenderAmount = 0, dis_openedAt = now, dis_resolvedAt = None\<rparr>"

definition open_dispute ::
    "string \<Rightarrow> string \<Rightarrow> create_dispute_dto \<Rightarrow> timestamp \<Rightarrow> db \<Rightarrow> (db \<times> dispute_response) result" where
  "open_dispute actorId bookingId dto now db =
     (case find_booking db bookingId of
        None \<Rightarrow> Inl (Not_found ''booking'')
      | Some booking \<Rightarrow>
          if bk_borrowerId booking \<noteq> actorId \<and> bk_lenderId booking \<noteq> actorId
          then Inl (Not_found ''booking'')
          else
          let deposit = deposit_of db bookingId; dispute = dispute_of db bookingId in
          if \<not> dispute_openable booking deposit dispute now then Inl (Conflict ''dispute-not-openable'')
          else
          let d = new_dispute_row db actorId bookingId dto now
          in bind_result (insert_dispute d db) (\<lambda>db.
             Inr (set_deposit (dep_id (the deposit)) (\<lambda>x. x\<lparr>dep_status := Dep_DISPUTED\<rparr>) db,
                  to_dispute_response db d)))"

section \<open>Resolving\<close>

record resolve_dispute_dto =
  rd_refundToBorrowerMinor :: rat
  rd_releaseToLenderMinor :: rat
  rd_reason :: string

definition assert_resolution_leg :: "rat \<Rightarrow> unit result" where
  "assert_resolution_leg value =
     (if \<not> is_safe_integer value \<or> value < 0 then Inl (Conflict ''resolution-leg-integer'') else Inr ())"

definition resolution_operation_key :: "string \<Rightarrow> string \<Rightarrow> operation_kind \<Rightarrow> string" where
  "resolution_operation_key disputeId commandKey kind =
     ''dispute:'' @ disputeId @ '':resolve:'' @ commandKey @ '':''
       @ (if kind = Op_REFUND then ''refund'' else ''release-to-lender'')"

definition create_resolution_operation ::
    "string \<Rightarrow> string \<Rightarrow> operation_kind \<Rightarrow> int \<Rightarrow> string \<Rightarrow> timestamp \<Rightarrow> db \<Rightarrow> db result" where
  "create_resolution_operation disputeId depositId kind amountMinor commandKey now db =
     (if amountMinor = 0 then Inr db
      else insert_operation (new_operation db depositId kind (minor_to_decimal amountMinor)
             (resolution_operation_key disputeId commandKey kind) None now) db)"

definition has_resolution_operation ::
    "db \<Rightarrow> string \<Rightarrow> string \<Rightarrow> operation_kind \<Rightarrow> int \<Rightarrow> string \<Rightarrow> bool result" where
  "has_resolution_operation db disputeId depositId kind amountMinor commandKey =
     (if amountMinor = 0 then Inr True
      else case operation_by_key db (resolution_operation_key disputeId commandKey kind) of
        None \<Rightarrow> Inr False
      | Some x \<Rightarrow>
          if op_depositId x \<noteq> depositId \<or> op_kind x \<noteq> kind then Inr False
          else bind_result (decimal_to_minor (op_amount x)) (\<lambda>a. Inr (a = amountMinor)))"

definition has_resolution_operations ::
    "db \<Rightarrow> string \<Rightarrow> string \<Rightarrow> int \<Rightarrow> int \<Rightarrow> string \<Rightarrow> bool result" where
  "has_resolution_operations db disputeId depositId refundMinor releaseMinor commandKey =
     bind_result (has_resolution_operation db disputeId depositId Op_REFUND refundMinor commandKey) (\<lambda>a.
     if \<not> a then Inr False
     else has_resolution_operation db disputeId depositId Op_RELEASE_TO_LENDER releaseMinor commandKey)"

definition resolution_replays ::
    "db \<Rightarrow> string \<Rightarrow> dispute_row \<Rightarrow> deposit_row \<Rightarrow> string \<Rightarrow> int \<Rightarrow> int \<Rightarrow> string \<Rightarrow> bool result" where
  "resolution_replays db adminId d deposit reason refundMinor releaseMinor commandKey =
     (if dis_resolvedById d \<noteq> Some adminId \<or> dis_decisionReason d \<noteq> Some reason then Inr False
      else
      bind_result (decimal_to_minor (dis_refundToBorrowerAmount d)) (\<lambda>r.
      if r \<noteq> refundMinor then Inr False
      else
      bind_result (decimal_to_minor (dis_releaseToLenderAmount d)) (\<lambda>l.
      if l \<noteq> releaseMinor then Inr False
      else has_resolution_operations db (dis_id d) (dep_id deposit) refundMinor releaseMinor commandKey)))"

definition resolved_row :: "string \<Rightarrow> string \<Rightarrow> int \<Rightarrow> int \<Rightarrow> timestamp \<Rightarrow> dispute_row \<Rightarrow> dispute_row" where
  "resolved_row adminId reason refundMinor releaseMinor now d =
     d\<lparr>dis_status := Dis_RESOLVED, dis_resolvedById := Some adminId, dis_decisionReason := Some reason,
       dis_refundToBorrowerAmount := minor_to_decimal refundMinor,
       dis_releaseToLenderAmount := minor_to_decimal releaseMinor, dis_resolvedAt := Some now\<rparr>"

definition resolve_effects ::
    "string \<Rightarrow> dispute_row \<Rightarrow> deposit_row \<Rightarrow> string \<Rightarrow> int \<Rightarrow> int \<Rightarrow> string \<Rightarrow> timestamp \<Rightarrow> db \<Rightarrow> db result" where
  "resolve_effects adminId d deposit reason refundMinor releaseMinor commandKey now db =
     bind_result (create_resolution_operation (dis_id d) (dep_id deposit) Op_REFUND refundMinor commandKey now db) (\<lambda>db.
     bind_result (create_resolution_operation (dis_id d) (dep_id deposit) Op_RELEASE_TO_LENDER releaseMinor commandKey now db) (\<lambda>db.
     let db = set_deposit (dep_id deposit) (\<lambda>x. x\<lparr>dep_status := Dep_RESOLVING\<rparr>) db;
         db = db\<lparr>db_disputes := update_rows (\<lambda>x. dis_id x = dis_id d)
                (resolved_row adminId reason refundMinor releaseMinor now) (db_disputes db)\<rparr>;
         db = write_audit (Some adminId) ''FINANCIAL_DISPUTE_RESOLVED'' ''FinancialDispute'' (Some (dis_id d))
                (Some reason) db
     in bind_result (complete_booking_after_return (dis_bookingId d) now DISPUTE_DECIDED db) (\<lambda>(db, _). Inr db)))"

definition resolve_dispute ::
    "marketplace_policy \<Rightarrow> string \<Rightarrow> string \<Rightarrow> resolve_dispute_dto \<Rightarrow> string \<Rightarrow> timestamp \<Rightarrow> db
      \<Rightarrow> (db \<times> dispute_response) result" where
  "resolve_dispute policy adminId disputeId dto idempotencyKey now db =
     bind_result (require_fake_safe_deal policy) (\<lambda>_.
     let commandKey = js_trim idempotencyKey in
     if commandKey = [] then Inl (Bad_request ''idempotency-key-required'')
     else
     bind_result (assert_resolution_leg (rd_refundToBorrowerMinor dto)) (\<lambda>_.
     bind_result (assert_resolution_leg (rd_releaseToLenderMinor dto)) (\<lambda>_.
     case find_dispute db disputeId of
       None \<Rightarrow> Inl (Not_found ''dispute'')
     | Some d \<Rightarrow>
       (case (find_booking db (dis_bookingId d), deposit_of db (dis_bookingId d)) of
          (Some booking, Some deposit) \<Rightarrow>
            let refundMinor = \<lfloor>rd_refundToBorrowerMinor dto\<rfloor>;
                releaseMinor = \<lfloor>rd_releaseToLenderMinor dto\<rfloor> in
            bind_result (decimal_to_minor (dep_amount deposit)) (\<lambda>amountMinor.
            if refundMinor + releaseMinor \<noteq> amountMinor then Inl (Conflict ''resolution-total'')
            else if dis_status d \<in> {Dis_UNDER_REVIEW, Dis_RESOLVED}
            then bind_result (resolution_replays db adminId d deposit (rd_reason dto) refundMinor releaseMinor commandKey)
                   (\<lambda>same. if \<not> same then Inl (Conflict ''other-resolution'')
                           else Inr (db, to_dispute_response db d))
            else if dis_status d \<noteq> Dis_OPEN \<or> bk_status booking \<noteq> Bk_RETURNED
               \<or> dep_status deposit \<noteq> Dep_DISPUTED
            then Inl (Conflict ''dispute-not-resolvable'')
            else bind_result (resolve_effects adminId d deposit (rd_reason dto) refundMinor releaseMinor
                   commandKey now db)
                   (\<lambda>db'. Inr (db', to_dispute_response db'
                        (resolved_row adminId (rd_reason dto) refundMinor releaseMinor now d))))
        | _ \<Rightarrow> Inl (Not_found ''dispute'')))))"

section \<open>Evidence\<close>

definition consume_intent :: "(intent_row \<Rightarrow> bool) \<Rightarrow> timestamp \<Rightarrow> db \<Rightarrow> db option" where
  "consume_intent p now db =
     (let hit = (\<lambda>i. p i \<and> int_confirmedAt i = None)
      in if count_rows hit (db_intents db) \<noteq> 1 then None
         else Some (db\<lparr>db_intents := update_rows hit (\<lambda>i. i\<lparr>int_confirmedAt := Some now\<rparr>) (db_intents db)\<rparr>))"

definition add_dispute_evidence ::
    "string \<Rightarrow> string \<Rightarrow> string \<Rightarrow> verified_upload \<Rightarrow> timestamp \<Rightarrow> db \<Rightarrow> (db \<times> evidence_response) result" where
  "add_dispute_evidence actorId bookingId disputeId verified now db =
     (if \<not> exists_row (\<lambda>d. dis_id d = disputeId \<and> dis_bookingId d = bookingId
          \<and> find_participant_booking db actorId (dis_bookingId d) \<noteq> None) (db_disputes db)
      then Inl (Not_found ''dispute'')
      else case consume_intent (\<lambda>i. int_id i = vu_intentId verified \<and> int_actorId i = actorId
            \<and> int_entityId i = disputeId \<and> int_purpose i = ''DISPUTE_EVIDENCE'' \<and> now < int_expiresAt i) now db of
        None \<Rightarrow> Inl (Conflict ''upload-intent-used-or-expired'')
      | Some db \<Rightarrow>
          if exists_row (\<lambda>e. ev_uploadIntentId e = vu_intentId verified) (db_disputeEvidence db)
          then Inl (Unique_violation ''dispute_evidence.uploadIntentId'')
          else
          let e = \<lparr>ev_id = fresh_id db, ev_ownerId = disputeId, ev_uploadIntentId = vu_intentId verified,
                ev_storageKey = vu_objectKey verified, ev_sha256 = vu_sha256 verified,
                ev_createdAt = db_now db\<rparr>
          in Inr (db\<lparr>db_next := Suc (db_next db), db_disputeEvidence := db_disputeEvidence db @ [e]\<rparr>,
                  to_evidence_response e))"

end
