(* ===== verification/Booking_Act.thy ===== *)
theory Booking_Act
  imports Dispute_Service
begin

text \<open>
  Handover and return acts (\<open>booking/booking-act.service.ts\<close>): the lender hands over and the
  borrower returns by writing an act with a photo; the other participant's confirmation moves
  the booking, opens the dispute window and completes a booking without a deposit. What the
  upload service verified (an S3 object) is an argument.
\<close>

section \<open>Responses\<close>

record readiness_response =
  rr_isWorking :: bool
  rr_isComplete :: bool
  rr_visibleDefects :: string
  rr_declaredAt :: timestamp

record act_response =
  ar_id :: string
  ar_bookingId :: string
  ar_authorId :: string
  ar_stage :: act_stage
  ar_createdAt :: timestamp
  ar_confirmedById :: "string option"
  ar_confirmedAt :: "timestamp option"
  ar_evidence :: "evidence_response list"
  ar_readiness :: "readiness_response option"

definition to_act_response :: "db \<Rightarrow> act_row \<Rightarrow> act_response" where
  "to_act_response db a =
     \<lparr>ar_id = act_id a, ar_bookingId = act_bookingId a, ar_authorId = act_authorId a,
      ar_stage = act_stage_of a, ar_createdAt = act_createdAt a,
      ar_confirmedById = act_confirmedById a, ar_confirmedAt = act_confirmedAt a,
      ar_evidence = evidence_of (act_id a) (db_actEvidence db),
      ar_readiness =
        (case (act_readinessIsWorking a, act_readinessIsComplete a, act_readinessVisibleDefects a,
               act_readinessDeclaredAt a) of
           (Some w, Some c, Some v, Some t) \<Rightarrow>
             Some \<lparr>rr_isWorking = w, rr_isComplete = c, rr_visibleDefects = v, rr_declaredAt = t\<rparr>
         | _ \<Rightarrow> None)\<rparr>"

section \<open>Guards\<close>

record handover_readiness =
  hr_isWorking :: bool
  hr_isComplete :: bool
  hr_visibleDefects :: string

record create_act_dto =
  ca_stage :: act_stage
  ca_intentId :: string
  ca_readiness :: "handover_readiness option"

definition require_participant :: "db \<Rightarrow> string \<Rightarrow> string \<Rightarrow> unit result" where
  "require_participant db actorId bookingId =
     (if find_participant_booking db actorId bookingId = None then Inl (Not_found ''booking'') else Inr ())"

definition ensure_stage_state :: "act_stage \<Rightarrow> booking_status \<Rightarrow> unit result" where
  "ensure_stage_state stage status =
     (let expected = (if stage = HANDOVER then Bk_CONFIRMED else Bk_ACTIVE)
      in if status \<noteq> expected then Inl (Conflict ''INVALID_BOOKING_TRANSITION'') else Inr ())"

definition ensure_readiness :: "create_act_dto \<Rightarrow> unit result" where
  "ensure_readiness dto =
     (if ca_stage dto = HANDOVER \<and> ca_readiness dto = None then Inl (Bad_request ''checklist-required'')
      else if ca_stage dto = RETURN_STAGE \<and> ca_readiness dto \<noteq> None
      then Inl (Bad_request ''checklist-only-for-handover'')
      else Inr ())"

definition ensure_stage_actor :: "act_stage \<Rightarrow> string \<Rightarrow> booking_row \<Rightarrow> unit result" where
  "ensure_stage_actor stage actorId b =
     (let expectedActorId = (if stage = HANDOVER then bk_lenderId b else bk_borrowerId b)
      in if actorId \<noteq> expectedActorId
         then Inl (Forbidden (if stage = HANDOVER then ''handover-act-by-lender'' else ''return-act-by-borrower''))
         else Inr ())"

definition list_acts :: "db \<Rightarrow> string \<Rightarrow> string \<Rightarrow> act_response list result" where
  "list_acts db actorId bookingId =
     bind_result (require_participant db actorId bookingId) (\<lambda>_.
     Inr (map (to_act_response db) (sort_key act_createdAt
            (filter (\<lambda>a. act_bookingId a = bookingId) (db_acts db)))))"

section \<open>Creating an act\<close>

definition find_act_replay :: "db \<Rightarrow> string \<Rightarrow> string \<Rightarrow> create_act_dto \<Rightarrow> act_row option" where
  "find_act_replay db actorId bookingId dto =
     List.find (\<lambda>a. act_bookingId a = bookingId \<and> act_authorId a = actorId \<and> act_stage_of a = ca_stage dto
         \<and> exists_row (\<lambda>e. ev_ownerId e = act_id a \<and> ev_uploadIntentId e = ca_intentId dto) (db_actEvidence db))
       (db_acts db)"

text \<open>A violated UNIQUE key of the two inserts becomes the conflict that the source throws.\<close>

definition insert_act :: "act_row \<Rightarrow> evidence_row \<Rightarrow> db \<Rightarrow> db result" where
  "insert_act a e db =
     (if exists_row (\<lambda>b. act_bookingId b = act_bookingId a \<and> act_stage_of b = act_stage_of a) (db_acts db)
         \<or> exists_row (\<lambda>f. ev_uploadIntentId f = ev_uploadIntentId e) (db_actEvidence db)
      then Inl (Conflict ''act-of-stage-exists'')
      else Inr (db\<lparr>db_next := Suc (Suc (db_next db)), db_acts := db_acts db @ [a],
                  db_actEvidence := db_actEvidence db @ [e]\<rparr>))"

definition new_act_row :: "db \<Rightarrow> string \<Rightarrow> string \<Rightarrow> create_act_dto \<Rightarrow> timestamp \<Rightarrow> act_row" where
  "new_act_row db actorId bookingId dto declaredAt =
     \<lparr>act_id = fresh_id db, act_bookingId = bookingId, act_authorId = actorId,
      act_stage_of = ca_stage dto, act_createdAt = db_now db, act_confirmedById = None,
      act_confirmedAt = None,
      act_readinessIsWorking = map_option hr_isWorking (ca_readiness dto),
      act_readinessIsComplete = map_option hr_isComplete (ca_readiness dto),
      act_readinessVisibleDefects = map_option (\<lambda>r. js_trim (hr_visibleDefects r)) (ca_readiness dto),
      act_readinessDeclaredAt = (if ca_stage dto = HANDOVER then Some declaredAt else None)\<rparr>"

definition create_act_transaction ::
    "string \<Rightarrow> string \<Rightarrow> create_act_dto \<Rightarrow> verified_upload \<Rightarrow> timestamp \<Rightarrow> db \<Rightarrow> (db \<times> act_response) result" where
  "create_act_transaction actorId bookingId dto verified now db =
     (case find_participant_booking db actorId bookingId of
        None \<Rightarrow> Inl (Not_found ''booking'')
      | Some booking \<Rightarrow>
          bind_result (ensure_stage_state (ca_stage dto) (bk_status booking)) (\<lambda>_.
          bind_result (ensure_stage_actor (ca_stage dto) actorId booking) (\<lambda>_.
          case consume_intent (\<lambda>i. int_id i = vu_intentId verified \<and> int_actorId i = actorId
                \<and> int_entityId i = bookingId \<and> now < int_expiresAt i) now db of
            None \<Rightarrow> Inl (Conflict ''upload-intent-used'')
          | Some db \<Rightarrow>
              let a = new_act_row db actorId bookingId dto now;
                  e = \<lparr>ev_id = db_supply db (Suc (db_next db)), ev_ownerId = act_id a,
                    ev_uploadIntentId = vu_intentId verified, ev_storageKey = vu_objectKey verified,
                    ev_sha256 = vu_sha256 verified, ev_createdAt = db_now db\<rparr>
              in bind_result (insert_act a e db) (\<lambda>db'. Inr (db', to_act_response db' a)))))"

definition create_act ::
    "string \<Rightarrow> string \<Rightarrow> create_act_dto \<Rightarrow> verified_upload result \<Rightarrow> timestamp \<Rightarrow> db \<Rightarrow> (db \<times> act_response) result" where
  "create_act actorId bookingId dto verification now db =
     (case find_act_replay db actorId bookingId dto of
        Some a \<Rightarrow> Inr (db, to_act_response db a)
      | None \<Rightarrow>
          bind_result (ensure_readiness dto) (\<lambda>_.
          bind_result verification (\<lambda>verified.
          create_act_transaction actorId bookingId dto verified now db)))"

section \<open>Confirming an act\<close>

definition handover_guard ::
    "booking_terms_snapshot option \<Rightarrow> payment_row option \<Rightarrow> deposit_row option \<Rightarrow> unit result" where
  "handover_guard snapshot payment deposit =
     (case snapshot of
        None \<Rightarrow> Inr ()
      | Some s \<Rightarrow>
          if sn_paymentScenario s \<noteq> Snap_FAKE_SAFE_DEAL then Inr ()
          else if map_option pay_status payment \<noteq> Some Pay_SUCCEEDED
          then Inl (Conflict ''handover-before-payment'')
          else if 0 < mm_deposit (sn_moneyMinor s) \<and> map_option dep_status deposit \<noteq> Some Dep_HELD
          then Inl (Conflict ''handover-before-hold'')
          else Inr ())"

definition confirm_act_guards ::
    "string \<Rightarrow> act_row \<Rightarrow> booking_row \<Rightarrow> payment_row option \<Rightarrow> deposit_row option \<Rightarrow> unit result" where
  "confirm_act_guards actorId act booking payment deposit =
     bind_result (ensure_stage_state (act_stage_of act) (bk_status booking)) (\<lambda>_.
     if bk_termsSnapshot booking \<noteq> None \<and> bound_snapshot booking = None
     then Inl (Conflict ''booking-terms-invalid'')
     else if act_stage_of act = HANDOVER then handover_guard (bound_snapshot booking) payment deposit
     else Inr ())"

definition open_dispute_window ::
    "act_stage \<Rightarrow> booking_terms_snapshot option \<Rightarrow> deposit_row option \<Rightarrow> timestamp \<Rightarrow> db \<Rightarrow> db" where
  "open_dispute_window stage snapshot deposit confirmedAt db =
     (case (snapshot, deposit) of
        (Some s, Some d) \<Rightarrow>
          (case sn_depositTerms s of
             Some t \<Rightarrow>
               if stage = RETURN_STAGE \<and> sn_paymentScenario s = Snap_FAKE_SAFE_DEAL
               then set_deposit (dep_id d) (\<lambda>x. x\<lparr>dep_disputeWindowEndsAt :=
                      Some (confirmedAt + dt_disputeWindowSeconds t * 1000)\<rparr>) db
               else db
           | None \<Rightarrow> db)
      | _ \<Rightarrow> db)"

definition stamp_act :: "string \<Rightarrow> string \<Rightarrow> timestamp \<Rightarrow> db \<Rightarrow> db" where
  "stamp_act actId actorId confirmedAt db =
     db\<lparr>db_acts := update_rows (\<lambda>a. act_id a = actId)
          (\<lambda>a. a\<lparr>act_confirmedById := Some actorId, act_confirmedAt := Some confirmedAt\<rparr>) (db_acts db)\<rparr>"

definition move_booking :: "act_stage \<Rightarrow> string \<Rightarrow> string \<Rightarrow> booking_row \<Rightarrow> db \<Rightarrow> db result" where
  "move_booking stage actorId requestId booking db =
     (let handover = (stage = HANDOVER);
          nextStatus = (if handover then Bk_ACTIVE else Bk_RETURNED)
      in emit_event (bk_id booking) (if handover then Ev_HANDOVER_CONFIRMED else Ev_RETURN_CONFIRMED)
       (record_transition (bk_id booking) (Some actorId)
          (if handover then ''HANDOVER_CONFIRMER'' else ''RETURN_CONFIRMER'')
          (if handover then ''CONFIRM_HANDOVER'' else ''CONFIRM_RETURN'')
          (Some (bk_status booking)) nextStatus None requestId
         (system_message (bk_id booking) (if handover then ''handover-confirmed'' else ''return-confirmed'')
           (set_booking (bk_id booking) (\<lambda>b. b\<lparr>bk_status := nextStatus\<rparr>) db))))"

definition returns_without_deposit :: "act_stage \<Rightarrow> booking_terms_snapshot option \<Rightarrow> bool" where
  "returns_without_deposit stage snapshot \<longleftrightarrow>
     stage = RETURN_STAGE \<and> (case snapshot of None \<Rightarrow> False | Some s \<Rightarrow> mm_deposit (sn_moneyMinor s) = 0)"

definition confirm_act_effects ::
    "string \<Rightarrow> string \<Rightarrow> act_row \<Rightarrow> booking_row \<Rightarrow> deposit_row option \<Rightarrow> timestamp \<Rightarrow> db \<Rightarrow> db result" where
  "confirm_act_effects actorId requestId act booking deposit confirmedAt db =
     (let snapshot = bound_snapshot booking in
      bind_result (move_booking (act_stage_of act) actorId requestId booking
        (open_dispute_window (act_stage_of act) snapshot deposit confirmedAt
          (stamp_act (act_id act) actorId confirmedAt db))) (\<lambda>db.
      if returns_without_deposit (act_stage_of act) snapshot
      then bind_result (complete_booking_after_return (bk_id booking) confirmedAt ZERO_DEPOSIT_RETURN db)
             (\<lambda>(db, _). Inr db)
      else Inr db))"

definition confirm_act ::
    "string \<Rightarrow> string \<Rightarrow> string \<Rightarrow> string \<Rightarrow> timestamp \<Rightarrow> db \<Rightarrow> (db \<times> act_response) result" where
  "confirm_act actorId bookingId actId requestId now db =
     (case (List.find (\<lambda>a. act_id a = actId \<and> act_bookingId a = bookingId) (db_acts db),
            find_participant_booking db actorId bookingId) of
        (Some act, Some booking) \<Rightarrow>
          if act_authorId act = actorId then Inl (Conflict ''own-act'')
          else if act_confirmedAt act \<noteq> None
          then (if act_confirmedById act = Some actorId then Inr (db, to_act_response db act)
                else Inl (Conflict ''act-confirmed''))
          else
          bind_result (confirm_act_guards actorId act booking (payment_of db bookingId) (deposit_of db bookingId)) (\<lambda>_.
          bind_result (confirm_act_effects actorId requestId act booking (deposit_of db bookingId) now db) (\<lambda>db'.
          Inr (db', to_act_response db'
                 (act\<lparr>act_confirmedById := Some actorId, act_confirmedAt := Some now\<rparr>))))
      | _ \<Rightarrow> Inl (Not_found ''act''))"

end
