(* ===== verification/Sample_Data.thy ===== *)
theory Sample_Data
  imports Booking_Service
begin

text \<open>
  A small database on which the witnesses of the properties evaluate: a lender \<open>L\<close> with one
  approved item, two borrowers, ids that are strings of growing length, and the server's
  configuration with approved legal documents.
\<close>

definition sample_supply :: "nat \<Rightarrow> string" where
  "sample_supply n = replicate n (CHR ''i'')"

lemma sample_supply_inj: "inj sample_supply"
  by (rule injI) (simp add: sample_supply_def replicate_eq_replicate)

definition SAMPLE_NOW :: timestamp where
  "SAMPLE_NOW = 1788344130250"

definition sample_user :: "string \<Rightarrow> user_row" where
  "sample_user i = \<lparr>us_id = i, us_phone = ''+7'' @ i, us_name = Some ''Anna'', us_city = None,
     us_avatarUrl = None, us_role = Role_USER, us_kycStatus = None, us_isBlocked = False, us_sessionVersion = 0,
     us_deletedAt = None, us_anonymizedAt = None, us_createdAt = 0, us_updatedAt = 0\<rparr>"

definition sample_details :: listing_details where
  "sample_details =
     \<lparr>ld_clientRequestId = None, ld_clientRequestHash = None, ld_categoryId = ''tools'',
      ld_description = ''A drill'', ld_condition = Cond_GOOD, ld_completeness = ''full'',
      ld_handoverTerms = ''by hand'', ld_rejectReason = None, ld_listingRulesAcceptedAt = None,
      ld_listingRulesAcceptanceMethod = None, ld_safetyNoticeSnapshot = None, ld_createdAt = 0\<rparr>"

definition sample_item :: item_row where
  "sample_item =
     \<lparr>it_id = ''I'', it_ownerId = ''L'', it_title = ''Drill'', it_pricePerDay = 500,
      it_depositAmount = Some 2000, it_status = It_APPROVED, it_publicArea = ''Center'',
      it_address = ''Street 1'', it_latitude = 55, it_longitude = 37,
      it_listingRulesVersion = Some ''v1'', it_updatedAt = 0,
      it_details = sample_details\<rparr>"

text \<open>Uploaded photos of the first booking, one of the lender and one of the borrower.\<close>

definition sample_intent :: "string \<Rightarrow> string \<Rightarrow> intent_row" where
  "sample_intent i actorId =
     \<lparr>int_id = i, int_actorId = actorId, int_purpose = ''BOOKING_EVIDENCE'', int_entityId = ''i'',
      int_bucket = ''private'', int_objectKey = ''key-'' @ i, int_contentType = ''image/png'', int_sizeBytes = 8, int_expiresAt = SAMPLE_NOW + 3600000, int_confirmedAt = None\<rparr>"

definition sample_db :: db where
  "sample_db =
     \<lparr>db_supply = sample_supply, db_next = 1, db_now = SAMPLE_NOW,
      db_users = [sample_user ''L'', sample_user ''B'', sample_user ''C''],
      db_items = [sample_item], db_unavailable = [], db_blocks = [], db_bookings = [],
      db_deposits = [], db_operations = [], db_payments = [], db_disputes = [],
      db_disputeEvidence = [], db_acts = [], db_actEvidence = [], db_intents = [sample_intent ''p1'' ''L'', sample_intent ''p2'' ''B''],
      db_messages = [], db_history = [], db_outbox = [], db_inbox = [], db_reviews = [],
      db_tokens = [], db_pushes = [], db_audit = [],
      db_catalog = \<lparr>ct_categories = [], ct_favorites = [], ct_photos = []\<rparr>,
      db_desk = \<lparr>dk_tickets = [], dk_messages = [], dk_attachments = [], dk_reports = [], dk_kyc = []\<rparr>\<rparr>"

text \<open>A request for the item, without stored terms.\<close>

definition sample_booking :: "string \<Rightarrow> booking_status \<Rightarrow> timestamp \<Rightarrow> timestamp option \<Rightarrow> booking_row" where
  "sample_booking i st start expiresAt =
     \<lparr>bk_id = i, bk_itemId = ''I'', bk_borrowerId = ''B'', bk_clientRequestId = Some i,
      bk_clientRequestHash = Some ''h'', bk_lenderId = ''L'', bk_startDate = start,
      bk_endDate = start, bk_totalAmount = 500, bk_status = st, bk_expiresAt = expiresAt,
      bk_cancellationReason = None, bk_termsSnapshot = None, bk_createdAt = SAMPLE_NOW\<rparr>"

definition sample_legal_config :: config where
  "sample_legal_config = sample_config(''MARKETPLACE_OFFER_VERSION'' \<mapsto> ''offer-1'',
     ''MARKETPLACE_CANCELLATION_POLICY_VERSION'' \<mapsto> ''cancel-1'')"

definition sample_dto :: create_booking_dto where
  "sample_dto =
     \<lparr>cb_itemId = ''I'', cb_startDate = ''2026-09-10'', cb_endDate = ''2026-09-11'',
      cb_offerVersion = Some ''offer-1'', cb_cancellationPolicyVersion = Some ''cancel-1'',
      cb_offerAccepted = Some True, cb_rentalRulesAccepted = Some True\<rparr>"

lemmas sample_data = sample_db_def sample_intent_def sample_item_def sample_user_def sample_booking_def

end
