(* ===== verification/Booking_Expiry.thy ===== *)
theory Booking_Expiry
  imports Booking_Refinement Sample_Data
begin

text \<open>
  The clean-up of expired requests (\<open>booking/booking-expiry.service.ts\<close>) and the owner's
  calendar (\<open>booking/booking-availability.service.ts\<close>). The clean-up is a loop of
  transactions, one per candidate: an exception of one of them ends the loop and keeps what
  the earlier ones committed, so the result carries the database in both cases.
\<close>

section \<open>Expiry of pending requests\<close>

definition BOOKING_PENDING_TIMEOUT_REASON :: string where
  "BOOKING_PENDING_TIMEOUT_REASON = ''PENDING_TIMEOUT''"

definition is_expired_pending :: "timestamp \<Rightarrow> booking_row \<Rightarrow> bool" where
  "is_expired_pending now b \<longleftrightarrow>
     bk_status b = Bk_PENDING \<and> (case bk_expiresAt b of None \<Rightarrow> False | Some e \<Rightarrow> e \<le> now)"

definition expire_one :: "string \<Rightarrow> timestamp \<Rightarrow> string \<Rightarrow> db \<Rightarrow> (db \<times> nat) result" where
  "expire_one requestId now bookingId db =
     (if \<not> exists_row (\<lambda>b. bk_id b = bookingId \<and> is_expired_pending now b) (db_bookings db)
      then Inr (db, 0)
      else
        let db = db\<lparr>db_bookings := update_rows (\<lambda>b. bk_id b = bookingId \<and> is_expired_pending now b)
              (close_booking Bk_CANCELLED (Some BOOKING_PENDING_TIMEOUT_REASON)) (db_bookings db)\<rparr>;
            db = cancel_pending_deposits [bookingId] db;
            db = system_message bookingId ''request-timed-out'' db;
            db = record_transition bookingId None ''SYSTEM'' ''EXPIRE'' (Some Bk_PENDING) Bk_CANCELLED
              (Some BOOKING_PENDING_TIMEOUT_REASON) requestId db
        in bind_result (emit_event bookingId Ev_PENDING_TIMEOUT db) (\<lambda>db. Inr (db, 1)))"

fun expire_loop :: "string \<Rightarrow> timestamp \<Rightarrow> string list \<Rightarrow> nat \<Rightarrow> db \<Rightarrow> db \<times> nat result" where
  "expire_loop requestId now [] expiredCount db = (db, Inr expiredCount)"
| "expire_loop requestId now (i # ids) expiredCount db =
     (case expire_one requestId now i db of
        Inl e \<Rightarrow> (db, Inl e)
      | Inr (db', n) \<Rightarrow> expire_loop requestId now ids (expiredCount + n) db')"

definition expire_pending :: "string \<Rightarrow> timestamp \<Rightarrow> db \<Rightarrow> db \<times> nat result" where
  "expire_pending requestId now db =
     expire_loop requestId now (map bk_id (filter (is_expired_pending now) (db_bookings db))) 0 db"

lemma expire_oneE:
  assumes "expire_one requestId now i db = Inr (db', n)"
  obtains (none) "db' = db" "n = 0" "\<forall>b \<in> set (db_bookings db). bk_id b = i \<longrightarrow> \<not> is_expired_pending now b"
  | (one) b h where "n = 1" "b \<in> set (db_bookings db)" "bk_id b = i" "is_expired_pending now b"
      "db_bookings db' = update_rows (\<lambda>b. bk_id b = i \<and> is_expired_pending now b)
         (close_booking Bk_CANCELLED (Some BOOKING_PENDING_TIMEOUT_REASON)) (db_bookings db)"
      "db_history db' = db_history db @ [h]" "is_entry h i ''SYSTEM'' ''EXPIRE'' (Some Bk_PENDING) Bk_CANCELLED"
      "db_unavailable db' = db_unavailable db" "db_supply db' = db_supply db" "db_next db < db_next db'"
      "db_operations db' = db_operations db" "db_disputes db' = db_disputes db"
      "db_deposits db' = update_rows (\<lambda>d. dep_bookingId d = i \<and> dep_status d = Dep_PENDING)
         (\<lambda>d. d\<lparr>dep_status := Dep_CANCELLED\<rparr>) (db_deposits db)"
proof (cases "exists_row (\<lambda>b. bk_id b = i \<and> is_expired_pending now b) (db_bookings db)")
  case False
  then show thesis using assms none unfolding expire_one_def by auto
next
  case True
  have e: "n = 1 \<and> db_bookings db' = update_rows (\<lambda>b. bk_id b = i \<and> is_expired_pending now b)
         (close_booking Bk_CANCELLED (Some BOOKING_PENDING_TIMEOUT_REASON)) (db_bookings db)
      \<and> (\<exists>h. db_history db' = db_history db @ [h] \<and> is_entry h i ''SYSTEM'' ''EXPIRE'' (Some Bk_PENDING) Bk_CANCELLED)
      \<and> db_unavailable db' = db_unavailable db \<and> db_supply db' = db_supply db \<and> db_next db < db_next db'
      \<and> db_operations db' = db_operations db \<and> db_disputes db' = db_disputes db
      \<and> db_deposits db' = update_rows (\<lambda>d. dep_bookingId d = i \<and> dep_status d = Dep_PENDING)
         (\<lambda>d. d\<lparr>dep_status := Dep_CANCELLED\<rparr>) (db_deposits db)"
    using assms True unfolding expire_one_def Let_def
    by (auto simp: bind_result_Inr_iff cancel_pending_deposits_def simp del: exists_row_iff dest!: emit_eventD)
  from True obtain b where "b \<in> set (db_bookings db)" "bk_id b = i" "is_expired_pending now b" by auto
  with e one show thesis by blast
qed

lemma expire_one_sim:
  assumes "expire_one requestId now i db = Inr (db', n)" and ids: "ids_ok db" and ok: "calendar_ok (calendar_of db)"
  shows "db_sim db db'"
  using assms(1)
proof (cases rule: expire_oneE)
  case none
  then show ?thesis using ids by (simp add: db_sim_refl)
next
  case (one b h)
  have "c = b" if "c \<in> set (db_bookings db)" "bk_id c = i" for c
    using distinct_key_eq [OF calendar_distinct [OF ok] that(1) one(2)] that(2) one(3) by simp
  then have bs: "db_bookings db' = move_row (bk_id b)
         (close_booking Bk_CANCELLED (Some BOOKING_PENDING_TIMEOUT_REASON)) (db_bookings db)"
    unfolding one(5) move_row_def update_rows_def using one(3,4) by (intro map_cong refl) auto
  have "bk_status b = Bk_PENDING" using one(4) by (simp add: is_expired_pending_def)
  then have "calendar_step (calendar_of db) (calendar_of db')"
    unfolding calendar_of_def bs one(6,8)
    by (intro calendar_step.move [OF one(2), where new = Bk_CANCELLED])
       (use one(3,7) in \<open>auto simp: is_entry_def history_allowed_simps\<close>)
  moreover have "ids_ok db'"
  proof (rule ids_ok_step [OF ids one(9)])
    show "bk_id ` set (db_bookings db') \<subseteq> bk_id ` set (db_bookings db) \<union> Collect (issued db')"
      unfolding one(5) by (simp add: update_rows_ids)
    show "dep_id ` set (db_deposits db') \<subseteq> dep_id ` set (db_deposits db) \<union> Collect (issued db')"
      unfolding one(13) by (simp add: update_rows_image)
  qed (use one(8,10,11) in simp_all)
  ultimately show ?thesis by (auto simp: db_sim_def)
qed

lemma db_sim_calendar_ok: "db_sim db db' \<Longrightarrow> calendar_ok (calendar_of db) \<Longrightarrow> calendar_ok (calendar_of db')"
  using calendar.a.inv_steps by (auto simp: db_sim_def)

lemma expire_loop_sim:
  assumes "expire_loop requestId now ids n db = (db', r)" and "ids_ok db" and "calendar_ok (calendar_of db)"
  shows "db_sim db db'"
  using assms
proof (induction ids arbitrary: n db)
  case Nil
  then show ?case by (simp add: db_sim_refl)
next
  case (Cons i ids)
  show ?case
  proof (cases "expire_one requestId now i db")
    case (Inl e)
    then show ?thesis using Cons.prems by (simp add: db_sim_refl)
  next
    case (Inr p)
    obtain d1 k where p: "p = (d1, k)" by (cases p)
    have s: "db_sim db d1" using expire_one_sim Inr p Cons.prems by blast
    then have "ids_ok d1" "calendar_ok (calendar_of d1)"
      using db_sim_calendar_ok Cons.prems by (auto simp: db_sim_def)
    then have "db_sim d1 db'" using Cons.IH Cons.prems(1) Inr p by simp
    with s show ?thesis by (rule db_sim_trans)
  qed
qed

lemma expire_pending_sim:
  "expire_pending requestId now db = (db', r) \<Longrightarrow> ids_ok db \<Longrightarrow> calendar_ok (calendar_of db) \<Longrightarrow> db_sim db db'"
  unfolding expire_pending_def by (rule expire_loop_sim)

lemma expire_one_expired:
  assumes "expire_one requestId now i db = Inr (db', n)" and "b' \<in> set (db_bookings db')" and "is_expired_pending now b'"
  shows "b' \<in> set (db_bookings db)" "bk_id b' \<noteq> i"
  using assms(1)
  by (cases rule: expire_oneE; use assms(2,3) in \<open>force simp: set_update_rows is_expired_pending_def close_booking_def\<close>)+

lemma expire_loop_expired:
  assumes "expire_loop requestId now ids n db = (db', Inr m)" and "b' \<in> set (db_bookings db')"
    and "is_expired_pending now b'"
  shows "b' \<in> set (db_bookings db) \<and> bk_id b' \<notin> set ids"
  using assms
proof (induction ids arbitrary: n db)
  case (Cons i ids)
  then obtain d1 k where p: "expire_one requestId now i db = Inr (d1, k)"
    "expire_loop requestId now ids (n + k) d1 = (db', Inr m)"
    by (auto split: sum.splits)
  with Cons.IH [OF p(2) Cons.prems(2,3)] expire_one_expired [OF p(1) _ Cons.prems(3)] show ?case by simp
qed simp

text \<open>
  After a clean-up that returns normally no pending request is past its deadline: every
  request that was expired at the given time has been cancelled, and none is left over.
\<close>

theorem expire_pending_complete:
  assumes "expire_pending requestId now db = (db', Inr m)"
  shows "\<forall>b \<in> set (db_bookings db'). \<not> is_expired_pending now b"
proof (intro ballI notI)
  fix b assume b: "b \<in> set (db_bookings db')" "is_expired_pending now b"
  then have "b \<in> set (db_bookings db) \<and> bk_id b \<notin> set (map bk_id (filter (is_expired_pending now) (db_bookings db)))"
    using assms expire_loop_expired unfolding expire_pending_def by blast
  with b(2) show False by auto
qed

theorem expire_pending_complete_witness:
  "let db = sample_db\<lparr>db_bookings := [sample_booking ''b1'' Bk_PENDING 0 (Some 5), sample_booking ''b2'' Bk_PENDING 0 (Some 9)]\<rparr>
   in snd (expire_pending ''r'' 5 db) = Inr 1
      \<and> (\<forall>b \<in> set (db_bookings (fst (expire_pending ''r'' 5 db))). \<not> is_expired_pending 5 b)"
proof -
  let ?db = "sample_db\<lparr>db_bookings := [sample_booking ''b1'' Bk_PENDING 0 (Some 5), sample_booking ''b2'' Bk_PENDING 0 (Some 9)]\<rparr>"
  have "snd (expire_pending ''r'' 5 ?db) = Inr 1"
    by code_simp
  then obtain d where "expire_pending ''r'' 5 ?db = (d, Inr 1)" by (metis prod.collapse)
  from expire_pending_complete [OF this] this show ?thesis by (simp add: Let_def)
qed

section \<open>The owner's calendar\<close>

record period_dto =
  pe_startDate :: string
  pe_endDate :: string

definition require_owned_item :: "db \<Rightarrow> string \<Rightarrow> string \<Rightarrow> unit result" where
  "require_owned_item db ownerId itemId =
     (if exists_row (\<lambda>i. it_id i = itemId \<and> it_ownerId i = ownerId) (db_items db)
      then Inr () else Inl (Not_found ''item''))"

definition check_availability :: "db \<Rightarrow> string \<Rightarrow> period_dto \<Rightarrow> string \<Rightarrow> bool result" where
  "check_availability db itemId dto today =
     bind_result (parse_booking_period (pe_startDate dto) (pe_endDate dto) today) (\<lambda>period.
     if \<not> exists_row (\<lambda>i. it_id i = itemId \<and> it_status i = It_APPROVED) (db_items db)
     then Inl (Not_found ''item'')
     else
       let bookingConflict = exists_row (\<lambda>b. is_reserved b
             \<and> booking_overlaps itemId (per_startDate period) (per_endDate period) b) (db_bookings db);
           calendarConflict = period_unavailable db itemId (per_startDate period) (per_endDate period)
       in Inr (\<not> bookingConflict \<and> \<not> calendarConflict))"

definition list_own_periods :: "db \<Rightarrow> string \<Rightarrow> string \<Rightarrow> unavailable_row list result" where
  "list_own_periods db ownerId itemId =
     bind_result (require_owned_item db ownerId itemId) (\<lambda>_.
     Inr (sort_key un_startDate (sort_key un_createdAt
            (filter (\<lambda>u. un_itemId u = itemId) (db_unavailable db)))))"

text \<open>The insert also checks the UNIQUE key on item, start and end.\<close>

definition insert_unavailable :: "unavailable_row \<Rightarrow> db \<Rightarrow> db result" where
  "insert_unavailable u db =
     (if exists_row (\<lambda>v. un_itemId v = un_itemId u \<and> un_startDate v = un_startDate u
          \<and> un_endDate v = un_endDate u) (db_unavailable db)
      then Inl (Unique_violation ''item_unavailable_periods.itemId,startDate,endDate'')
      else if un_endDate u < un_startDate u then Inl (Check_violation ''item_unavailable_periods.dates'')
      else Inr (db\<lparr>db_next := Suc (db_next db), db_unavailable := db_unavailable db @ [u]\<rparr>))"

definition create_unavailable :: "string \<Rightarrow> string \<Rightarrow> period_dto \<Rightarrow> string \<Rightarrow> db \<Rightarrow> (db \<times> unavailable_row) result" where
  "create_unavailable ownerId itemId dto today db =
     bind_result (parse_booking_period (pe_startDate dto) (pe_endDate dto) today) (\<lambda>period.
     bind_result (require_owned_item db ownerId itemId) (\<lambda>_.
     if exists_row (\<lambda>b. is_reserved b
          \<and> booking_overlaps itemId (per_startDate period) (per_endDate period) b) (db_bookings db)
     then Inl (Conflict ''BOOKING_CONFLICT'')
     else if period_unavailable db itemId (per_startDate period) (per_endDate period)
     then Inl (Conflict ''CALENDAR_CONFLICT'')
     else
       let u = \<lparr>un_id = fresh_id db, un_itemId = itemId, un_startDate = per_startDate period,
                un_endDate = per_endDate period, un_createdAt = db_now db\<rparr>
       in bind_result (insert_unavailable u db) (\<lambda>db'. Inr (db', u))))"

definition remove_unavailable :: "string \<Rightarrow> string \<Rightarrow> string \<Rightarrow> db \<Rightarrow> db result" where
  "remove_unavailable ownerId itemId periodId db =
     bind_result (require_owned_item db ownerId itemId) (\<lambda>_.
     let hit = (\<lambda>u. un_id u = periodId \<and> un_itemId u = itemId) in
     if \<not> exists_row hit (db_unavailable db) then Inl (Not_found ''unavailable-period'')
     else Inr (db\<lparr>db_unavailable := filter (\<lambda>u. \<not> hit u) (db_unavailable db)\<rparr>))"

lemma create_unavailable_sim:
  assumes "create_unavailable ownerId itemId dto today db = Inr (db', u)" and ids: "ids_ok db"
  shows "db_sim db db'"
proof -
  from assms(1) obtain period where per: "parse_booking_period (pe_startDate dto) (pe_endDate dto) today = Inr period"
    and g: "\<forall>b \<in> set (db_bookings db). is_reserved b \<longrightarrow>
        \<not> booking_overlaps itemId (per_startDate period) (per_endDate period) b"
      "\<not> period_unavailable db itemId (per_startDate period) (per_endDate period)"
    and u: "u = \<lparr>un_id = fresh_id db, un_itemId = itemId, un_startDate = per_startDate period,
                un_endDate = per_endDate period, un_createdAt = db_now db\<rparr>"
    and db': "db' = db\<lparr>db_next := Suc (db_next db), db_unavailable := db_unavailable db @ [u]\<rparr>"
    unfolding create_unavailable_def insert_unavailable_def
    by (auto simp: bind_result_Inr_iff Let_def split: if_split_asm)
  have fresh: "fresh_id db \<notin> un_id ` set (db_unavailable db)"
    using fresh_not_issued [of db] ids by (auto simp: ids_ok_def)
  have "per_startDate period \<le> per_endDate period"
    using per by (elim parse_booking_periodE) simp
  then have "calendar_step (calendar_of db) (calendar_of db')"
    using fresh g u unfolding calendar_of_def db'
    by (auto intro!: calendar_step.block simp: blocked_by_def booking_overlaps_def overlaps_def period_unavailable_def)
  moreover have "ids_ok db'"
    by (rule ids_ok_step [OF ids]) (auto simp: db' u issued_def fresh_id_def)
  ultimately show ?thesis by (auto simp: db_sim_def)
qed

lemma remove_unavailable_sim:
  assumes "remove_unavailable ownerId itemId periodId db = Inr db'" and ids: "ids_ok db"
  shows "db_sim db db'"
proof -
  from assms(1) have db': "db' = db\<lparr>db_unavailable := filter (\<lambda>u. \<not> (un_id u = periodId \<and> un_itemId u = itemId)) (db_unavailable db)\<rparr>"
    by (auto simp: remove_unavailable_def bind_result_Inr_iff Let_def split: if_split_asm)
  have "calendar_step (calendar_of db) (calendar_of db')"
    unfolding calendar_of_def db' by (simp add: calendar_step.unblock)
  moreover have "ids_ok db'"
    by (rule ids_ok_step [OF ids]) (auto simp: db')
  ultimately show ?thesis by (auto simp: db_sim_def)
qed

end
