(* ===== verification/Deposit_Ledger.thy ===== *)
theory Deposit_Ledger
  imports Database
begin

text \<open>
  The abstract specification of the deposits: the deposit rows and the operation rows, with
  the elementary steps the commands and the workers may take. The invariant is conservation:
  what a deposit has refunded and released is exactly the sum of its successful operations,
  never more than its amount, equal to it once the deposit is resolved, and zero while the
  deposit is pending, held, disputed or cancelled.
\<close>

section \<open>The machine\<close>

record ledger =
  led_deposits :: "deposit_row list"
  led_operations :: "operation_row list"

definition ledger_of :: "db \<Rightarrow> ledger" where
  "ledger_of db = \<lparr>led_deposits = db_deposits db, led_operations = db_operations db\<rparr>"

definition same_amounts :: "deposit_row \<Rightarrow> deposit_row \<Rightarrow> bool" where
  "same_amounts a b \<longleftrightarrow> dep_id a = dep_id b \<and> dep_bookingId a = dep_bookingId b
     \<and> dep_amount a = dep_amount b \<and> dep_currency a = dep_currency b
     \<and> dep_refundedAmount a = dep_refundedAmount b
     \<and> dep_releasedToLenderAmount a = dep_releasedToLenderAmount b"

definition same_operation :: "operation_row \<Rightarrow> operation_row \<Rightarrow> bool" where
  "same_operation x y \<longleftrightarrow> op_id x = op_id y \<and> op_depositId x = op_depositId y \<and> op_kind x = op_kind y
     \<and> op_amount x = op_amount y \<and> op_idempotencyKey x = op_idempotencyKey y"

definition settles :: "operation_row \<Rightarrow> operation_kind \<Rightarrow> rat" where
  "settles x k = (if op_kind x = k then op_amount x else 0)"

inductive ledger_step :: "ledger \<Rightarrow> ledger \<Rightarrow> bool" where
  create_deposit:
    "\<lbrakk>dep_id d \<notin> dep_id ` set ds; dep_bookingId d \<notin> dep_bookingId ` set ds; deposit_amounts_ok d;
      dep_status d = Dep_PENDING; dep_refundedAmount d = 0; dep_releasedToLenderAmount d = 0\<rbrakk>
     \<Longrightarrow> ledger_step \<lparr>led_deposits = ds, led_operations = xs\<rparr> \<lparr>led_deposits = ds @ [d], led_operations = xs\<rparr>"
| move_deposits:
    "\<lbrakk>\<forall>d \<in> set ds. p d \<longrightarrow> deposit_edge (dep_status d) new; new \<noteq> Dep_RESOLVED;
      \<forall>d. same_amounts (f d) d \<and> dep_status (f d) = new\<rbrakk>
     \<Longrightarrow> ledger_step \<lparr>led_deposits = ds, led_operations = xs\<rparr>
          \<lparr>led_deposits = update_rows p f ds, led_operations = xs\<rparr>"
| annotate_deposits:
    "\<forall>d. same_amounts (f d) d \<and> dep_status (f d) = dep_status d
     \<Longrightarrow> ledger_step \<lparr>led_deposits = ds, led_operations = xs\<rparr>
          \<lparr>led_deposits = update_rows p f ds, led_operations = xs\<rparr>"
| request_operation:
    "\<lbrakk>op_id x \<notin> op_id ` set xs; op_idempotencyKey x \<notin> op_idempotencyKey ` set xs; 0 < op_amount x;
      op_depositId x \<in> dep_id ` set ds;
      op_status x = Ops_PENDING \<or> (op_status x = Ops_SUCCEEDED \<and> op_kind x = Op_HOLD)\<rbrakk>
     \<Longrightarrow> ledger_step \<lparr>led_deposits = ds, led_operations = xs\<rparr> \<lparr>led_deposits = ds, led_operations = xs @ [x]\<rparr>"
| annotate_operations:
    "\<lbrakk>\<forall>x \<in> set xs. p x \<longrightarrow> op_status x = Ops_PENDING;
      \<forall>x. same_operation (f x) x \<and> op_status (f x) \<in> {op_status x, Ops_FAILED}\<rbrakk>
     \<Longrightarrow> ledger_step \<lparr>led_deposits = ds, led_operations = xs\<rparr>
          \<lparr>led_deposits = ds, led_operations = update_rows p f xs\<rparr>"
| settle:
    "\<lbrakk>x \<in> set xs; op_status x = Ops_PENDING; op_kind x \<in> {Op_REFUND, Op_RELEASE_TO_LENDER};
      d \<in> set ds; dep_id d = op_depositId x; dep_status d = Dep_RESOLVING;
      \<forall>e. dep_id (g e) = dep_id e \<and> dep_bookingId (g e) = dep_bookingId e \<and> dep_amount (g e) = dep_amount e
         \<and> dep_refundedAmount (g e) = dep_refundedAmount e + settles x Op_REFUND
         \<and> dep_releasedToLenderAmount (g e) = dep_releasedToLenderAmount e + settles x Op_RELEASE_TO_LENDER
         \<and> dep_status (g e) \<in> {Dep_RESOLVING, Dep_RESOLVED};
      deposit_amounts_ok (g d);
      \<forall>y. same_operation (f y) y \<and> op_status (f y) = Ops_SUCCEEDED\<rbrakk>
     \<Longrightarrow> ledger_step \<lparr>led_deposits = ds, led_operations = xs\<rparr>
          \<lparr>led_deposits = update_rows (\<lambda>e. dep_id e = op_depositId x) g ds,
           led_operations = update_rows (\<lambda>y. op_id y = op_id x) f xs\<rparr>"

abbreviation ledger_steps :: "ledger \<Rightarrow> ledger \<Rightarrow> bool" where
  "ledger_steps \<equiv> ledger_step\<^sup>*\<^sup>*"

section \<open>Conservation\<close>

definition counts :: "string \<Rightarrow> operation_kind \<Rightarrow> operation_row \<Rightarrow> bool" where
  "counts i k x \<longleftrightarrow> op_depositId x = i \<and> op_kind x = k \<and> op_status x = Ops_SUCCEEDED"

definition settled :: "string \<Rightarrow> operation_kind \<Rightarrow> operation_row list \<Rightarrow> rat" where
  "settled i k xs = (\<Sum>x \<leftarrow> xs. if counts i k x then op_amount x else 0)"

definition conserved :: "operation_row list \<Rightarrow> deposit_row \<Rightarrow> bool" where
  "conserved xs d \<longleftrightarrow>
     deposit_amounts_ok d
     \<and> dep_refundedAmount d = settled (dep_id d) Op_REFUND xs
     \<and> dep_releasedToLenderAmount d = settled (dep_id d) Op_RELEASE_TO_LENDER xs
     \<and> (dep_status d \<notin> {Dep_RESOLVING, Dep_RESOLVED} \<longrightarrow>
          dep_refundedAmount d = 0 \<and> dep_releasedToLenderAmount d = 0)"

definition ledger_ok :: "ledger \<Rightarrow> bool" where
  "ledger_ok l \<longleftrightarrow>
     distinct (map dep_id (led_deposits l)) \<and> distinct (map dep_bookingId (led_deposits l))
     \<and> distinct (map op_id (led_operations l)) \<and> distinct (map op_idempotencyKey (led_operations l))
     \<and> (\<forall>x \<in> set (led_operations l). 0 < op_amount x \<and> op_depositId x \<in> dep_id ` set (led_deposits l))
     \<and> (\<forall>d \<in> set (led_deposits l). conserved (led_operations l) d)"

lemma settled_snoc:
  "settled i k (xs @ [x]) = settled i k xs + (if counts i k x then op_amount x else 0)"
  by (simp add: settled_def)

lemma settled_filter:
  "settled i k xs = (\<Sum>x \<leftarrow> filter (\<lambda>x. op_depositId x = i \<and> op_kind x = k \<and> op_status x = Ops_SUCCEEDED) xs. op_amount x)"
  unfolding settled_def counts_def by (induction xs) auto

lemma settled_none: "(\<forall>x \<in> set xs. op_depositId x \<noteq> i) \<Longrightarrow> settled i k xs = 0"
  unfolding settled_def counts_def by (induction xs) auto

lemma settled_cong:
  "(\<And>x. x \<in> set xs \<Longrightarrow> p x \<Longrightarrow> counts i k (f x) = counts i k x \<and> (counts i k x \<longrightarrow> op_amount (f x) = op_amount x))
   \<Longrightarrow> settled i k (update_rows p f xs) = settled i k xs"
  unfolding settled_def by (induction xs) auto

lemma settled_settle:
  assumes "distinct (map op_id xs)" and "x \<in> set xs" and "op_status x = Ops_PENDING"
    and f: "\<forall>y. same_operation (f y) y \<and> op_status (f y) = Ops_SUCCEEDED"
  shows "settled i k (update_rows (\<lambda>y. op_id y = op_id x) f xs) =
     settled i k xs + (if op_depositId x = i then settles x k else 0)"
  using assms(1,2)
proof (induction xs)
  case (Cons y ys)
  show ?case
  proof (cases "op_id y = op_id x")
    case True
    then have y: "y = x" using Cons.prems by (auto simp: image_iff)
    then have "\<forall>z \<in> set ys. op_id z \<noteq> op_id x" using Cons.prems(1) by (auto simp: image_iff)
    then have ys: "update_rows (\<lambda>y. op_id y = op_id x) f ys = ys" by (intro update_rows_none) auto
    have "op_depositId (f x) = op_depositId x" "op_kind (f x) = op_kind x" "op_amount (f x) = op_amount x"
      "op_status (f x) = Ops_SUCCEEDED" using f by (simp_all add: same_operation_def)
    then show ?thesis using assms(3) by (simp add: y ys settled_def counts_def settles_def)
  next
    case False
    then have "x \<in> set ys" using Cons.prems(2) by auto
    with Cons False show ?thesis by (simp add: settled_def)
  qed
qed simp

lemma same_amounts_ok:
  "same_amounts a b \<Longrightarrow> dep_status a \<noteq> Dep_RESOLVED \<or> dep_status a = dep_status b \<Longrightarrow>
   deposit_amounts_ok b \<Longrightarrow> deposit_amounts_ok a"
  by (auto simp: same_amounts_def deposit_amounts_ok_def)

lemma conserved_move:
  assumes "conserved xs d" and "same_amounts (f d) d"
    and "dep_status (f d) = dep_status d \<or> (deposit_edge (dep_status d) (dep_status (f d)) \<and> dep_status (f d) \<noteq> Dep_RESOLVED)"
  shows "conserved xs (f d)"
proof -
  have "deposit_amounts_ok (f d)"
    using assms same_amounts_ok [OF assms(2)] by (auto simp: conserved_def)
  moreover have "dep_status (f d) \<notin> {Dep_RESOLVING, Dep_RESOLVED} \<longrightarrow> dep_status d \<notin> {Dep_RESOLVING, Dep_RESOLVED}"
    using assms(3) by (cases "dep_status d") (auto simp: deposit_edge_def)
  ultimately show ?thesis using assms(1,2) by (auto simp: conserved_def same_amounts_def)
qed

lemma update_deposits_keys:
  assumes "\<forall>d. dep_id (f d) = dep_id d \<and> dep_bookingId (f d) = dep_bookingId d"
  shows "map dep_id (update_rows p f ds) = map dep_id ds"
    "map dep_bookingId (update_rows p f ds) = map dep_bookingId ds"
    "dep_id ` set (update_rows p f ds) = dep_id ` set ds"
  using assms by (auto intro!: update_rows_key update_rows_image)

lemma update_operations_keys:
  assumes "\<forall>x. same_operation (f x) x"
  shows "map op_id (update_rows p f xs) = map op_id xs"
    "map op_idempotencyKey (update_rows p f xs) = map op_idempotencyKey xs"
  using assms by (auto intro!: update_rows_key simp: same_operation_def)

lemma update_operations_ball:
  assumes "\<forall>x. same_operation (f x) x" and "\<forall>x \<in> set xs. 0 < op_amount x \<and> op_depositId x \<in> I"
  shows "\<forall>x \<in> set (update_rows p f xs). 0 < op_amount x \<and> op_depositId x \<in> I"
  using assms by (auto simp: set_update_rows same_operation_def)

lemma ledger_ok_deposits:
  assumes "ledger_ok \<lparr>led_deposits = ds, led_operations = xs\<rparr>"
    and f: "\<forall>d. same_amounts (f d) d"
    and st: "\<forall>d \<in> set ds. p d \<longrightarrow> dep_status (f d) = dep_status d
       \<or> (deposit_edge (dep_status d) (dep_status (f d)) \<and> dep_status (f d) \<noteq> Dep_RESOLVED)"
  shows "ledger_ok \<lparr>led_deposits = update_rows p f ds, led_operations = xs\<rparr>"
proof -
  have k: "\<forall>d. dep_id (f d) = dep_id d \<and> dep_bookingId (f d) = dep_bookingId d"
    using f by (simp add: same_amounts_def)
  have "conserved xs e" if "e \<in> set (update_rows p f ds)" for e
    using that
  proof (cases rule: in_update_rowsE)
    case (1 d)
    have "conserved xs d" using assms(1) 1(1) by (simp add: ledger_ok_def)
    then have "conserved xs (f d)"
      by (rule conserved_move [OF _ spec [OF f]]) (use st 1(1,2) in blast)
    then show ?thesis by (simp only: 1(3))
  next
    case 2
    then show ?thesis using assms(1) by (auto simp: ledger_ok_def)
  qed
  then show ?thesis using assms(1) by (simp add: ledger_ok_def update_deposits_keys [OF k])
qed

lemma ledger_step_ok:
  assumes "ledger_step l m" and "ledger_ok l"
  shows "ledger_ok m"
  using assms
proof (cases rule: ledger_step.cases)
  case (create_deposit d ds xs)
  have "settled (dep_id d) k xs = 0" for k
  proof (rule settled_none, rule ballI)
    fix x assume "x \<in> set xs"
    then have "op_depositId x \<in> dep_id ` set ds" using assms(2) create_deposit(1) by (simp add: ledger_ok_def)
    then show "op_depositId x \<noteq> dep_id d" using create_deposit(3) by auto
  qed
  then show ?thesis
    using assms(2) create_deposit by (auto simp: ledger_ok_def conserved_def)
next
  case (move_deposits ds p new f xs)
  then show ?thesis using assms(2) by (auto intro!: ledger_ok_deposits)
next
  case (annotate_deposits f ds xs p)
  then show ?thesis using assms(2) by (auto intro!: ledger_ok_deposits)
next
  case (request_operation x xs ds)
  have "settled i k (xs @ [x]) = settled i k xs" if "k \<in> {Op_REFUND, Op_RELEASE_TO_LENDER}" for i k
    using request_operation(7) that by (auto simp: settled_snoc counts_def)
  then show ?thesis
    using assms(2) request_operation by (auto simp: ledger_ok_def conserved_def)
next
  case (annotate_operations xs p f ds)
  have f: "\<forall>x. same_operation (f x) x" using annotate_operations(4) by simp
  have "settled i k (update_rows p f xs) = settled i k xs" for i k
  proof (rule settled_cong)
    fix x assume "x \<in> set xs" "p x"
    then have p: "op_status x = Ops_PENDING" using annotate_operations(3) by blast
    have "op_status (f x) \<in> {op_status x, Ops_FAILED}" using annotate_operations(4) by blast
    with p have "op_status (f x) \<in> {Ops_PENDING, Ops_FAILED}" by simp
    with p show "counts i k (f x) = counts i k x \<and> (counts i k x \<longrightarrow> op_amount (f x) = op_amount x)"
      by (auto simp: counts_def)
  qed
  then have "conserved (update_rows p f xs) d = conserved xs d" for d by (simp add: conserved_def)
  moreover have "\<forall>x \<in> set (update_rows p f xs). 0 < op_amount x \<and> op_depositId x \<in> dep_id ` set ds"
    by (rule update_operations_ball [OF f]) (use assms(2) annotate_operations(1) in \<open>simp add: ledger_ok_def\<close>)
  ultimately show ?thesis
    using assms(2) annotate_operations(1,2)
    by (simp add: ledger_ok_def update_operations_keys [OF f])
next
  case (settle x xs d ds g f)
  have f: "\<forall>y. same_operation (f y) y" using settle(11) by simp
  have g: "\<forall>e. dep_id (g e) = dep_id e \<and> dep_bookingId (g e) = dep_bookingId e" using settle(9) by simp
  note sum = settled_settle [OF _ settle(3,4,11)]
  have ok: "distinct (map op_id xs)" "distinct (map dep_id ds)" "\<forall>d \<in> set ds. conserved xs d"
    using assms(2) settle(1) by (simp_all add: ledger_ok_def)
  have "conserved (update_rows (\<lambda>y. op_id y = op_id x) f xs) e"
    if "e \<in> set (update_rows (\<lambda>e. dep_id e = op_depositId x) g ds)" for e
    using that
  proof (cases rule: in_update_rowsE)
    case (1 c)
    then have "c = d" using distinct_key_eq [OF ok(2) 1(1) settle(6)] settle(7) by simp
    then show ?thesis
      using 1 ok(3) settle(5,7,9,10) sum [OF ok(1)] by (auto simp: conserved_def)
  next
    case 2
    then show ?thesis using ok(3) sum [OF ok(1)] by (auto simp: conserved_def)
  qed
  moreover have "\<forall>y \<in> set (update_rows (\<lambda>y. op_id y = op_id x) f xs). 0 < op_amount y \<and> op_depositId y \<in> dep_id ` set ds"
    by (rule update_operations_ball [OF f]) (use assms(2) settle(1) in \<open>simp add: ledger_ok_def\<close>)
  ultimately show ?thesis
    using assms(2) settle(1,2)
    by (simp add: ledger_ok_def update_operations_keys [OF f] update_deposits_keys [OF g])
qed

section \<open>The life of one deposit\<close>

definition deposit_path :: "deposit_row list \<Rightarrow> deposit_row list \<Rightarrow> bool" where
  "deposit_path ds es \<longleftrightarrow> (\<forall>d \<in> set ds. \<exists>e \<in> set es. dep_id e = dep_id d \<and> dep_bookingId e = dep_bookingId d
     \<and> dep_amount e = dep_amount d \<and> deposit_edge\<^sup>*\<^sup>* (dep_status d) (dep_status e)
     \<and> dep_refundedAmount d \<le> dep_refundedAmount e \<and> dep_releasedToLenderAmount d \<le> dep_releasedToLenderAmount e)"

lemma deposit_path_refl: "deposit_path ds ds"
  by (auto simp: deposit_path_def)

lemma deposit_path_trans: "deposit_path a b \<Longrightarrow> deposit_path b c \<Longrightarrow> deposit_path a c"
  unfolding deposit_path_def by (metis order_trans rtranclp_trans)

lemma deposit_path_update:
  assumes "\<And>d. d \<in> set ds \<Longrightarrow> p d \<Longrightarrow> dep_id (f d) = dep_id d \<and> dep_bookingId (f d) = dep_bookingId d
     \<and> dep_amount (f d) = dep_amount d \<and> deposit_edge\<^sup>*\<^sup>* (dep_status d) (dep_status (f d))
     \<and> dep_refundedAmount d \<le> dep_refundedAmount (f d)
     \<and> dep_releasedToLenderAmount d \<le> dep_releasedToLenderAmount (f d)"
  shows "deposit_path ds (update_rows p f ds)"
  unfolding deposit_path_def
proof
  fix d assume d: "d \<in> set ds"
  have "(if p d then f d else d) \<in> set (update_rows p f ds)" using d by (auto simp: set_update_rows)
  then show "\<exists>e \<in> set (update_rows p f ds). dep_id e = dep_id d \<and> dep_bookingId e = dep_bookingId d
     \<and> dep_amount e = dep_amount d \<and> deposit_edge\<^sup>*\<^sup>* (dep_status d) (dep_status e)
     \<and> dep_refundedAmount d \<le> dep_refundedAmount e \<and> dep_releasedToLenderAmount d \<le> dep_releasedToLenderAmount e"
    by (rule bexI [rotated]) (use assms [OF d] in auto)
qed

lemma ledger_step_path:
  assumes "ledger_step l m" and "ledger_ok l"
  shows "deposit_path (led_deposits l) (led_deposits m)"
  using assms(1)
proof (cases rule: ledger_step.cases)
  case (create_deposit d ds xs)
  then show ?thesis by (auto simp: deposit_path_def)
next
  case (move_deposits ds p new f xs)
  then show ?thesis by (auto intro!: deposit_path_update simp: same_amounts_def)
next
  case (annotate_deposits f ds xs p)
  then show ?thesis by (auto intro!: deposit_path_update simp: same_amounts_def)
next
  case (settle x xs d ds g f)
  have pos: "0 < op_amount x" using assms(2) settle(1,3) by (simp add: ledger_ok_def)
  have d: "c = d" if "c \<in> set ds" "dep_id c = op_depositId x" for c
    using distinct_key_eq [of dep_id ds c d] that settle(1,6,7) assms(2) by (simp add: ledger_ok_def)
  have "deposit_edge\<^sup>*\<^sup>* Dep_RESOLVING (dep_status (g d))"
    using settle(9) by (auto simp: deposit_edge_def dest!: spec [of _ d])
  then show ?thesis
    using settle(1,2,8,9) pos d by (auto intro!: deposit_path_update simp: settles_def)
qed (auto simp: deposit_path_refl)

interpretation ledger: step_invariant ledger_step ledger_ok
  by unfold_locales (fact ledger_step_ok)

lemma ledger_steps_path:
  "ledger_steps l m \<Longrightarrow> ledger_ok l \<Longrightarrow> deposit_path (led_deposits l) (led_deposits m)"
proof (induction rule: rtranclp_induct)
  case (step m n)
  then show ?case
    using ledger.inv_steps [of l m] ledger_step_path [of m n] deposit_path_trans by blast
qed (simp add: deposit_path_refl)

end
