(* ===== verification/Deposit_Refinement.thy ===== *)
theory Deposit_Refinement
  imports Booking_Act Booking_Expiry Deposit_Ledger
begin

text \<open>
  The deposit, dispute and act commands refine the calendar and the ledger: each changes the
  bookings by calendar steps and the deposits by ledger steps. The relation \<open>refines\<close> says
  both, and that the ids stay those the supply has issued.
\<close>

definition refines :: "db \<Rightarrow> db \<Rightarrow> bool" where
  "refines db db' \<longleftrightarrow> db_sim db db' \<and> ledger_steps (ledger_of db) (ledger_of db')"

definition db_ok :: "db \<Rightarrow> bool" where
  "db_ok db \<longleftrightarrow> ids_ok db \<and> calendar_ok (calendar_of db) \<and> history_ok (calendar_of db) \<and> ledger_ok (ledger_of db)"

lemma refines_refl: "ids_ok db \<Longrightarrow> refines db db"
  by (simp add: refines_def db_sim_refl)

lemma refines_trans: "refines a b \<Longrightarrow> refines b c \<Longrightarrow> refines a c"
  by (auto simp: refines_def intro: db_sim_trans)

lemma refines_ok:
  assumes "refines db db'" and "db_ok db"
  shows "db_ok db'"
  using assms calendar.a.inv_steps calendar.b.inv_steps ledger.inv_steps
  by (auto simp: refines_def db_sim_def db_ok_def)

lemma refines_frame:
  assumes "ids_ok db" and "db_bookings db' = db_bookings db" "db_unavailable db' = db_unavailable db"
    "db_history db' = db_history db" "db_deposits db' = db_deposits db" "db_operations db' = db_operations db"
    "db_supply db' = db_supply db" "db_next db \<le> db_next db'"
  shows "refines db db'"
proof -
  have "ids_ok db'" by (rule ids_ok_step [OF assms(1,7,8)]) (simp_all add: assms)
  then show ?thesis
    by (simp add: refines_def db_sim_def calendar_of_def ledger_of_def assms)
qed

lemma find_bookingD:
  assumes "find_booking db i = Some b"
  shows "b \<in> set (db_bookings db)" "bk_id b = i"
  using assms by (auto simp: find_booking_def dest!: find_SomeD)

lemma find_depositD:
  assumes "find_deposit db i = Some d"
  shows "d \<in> set (db_deposits db)" "dep_id d = i"
  using assms by (auto simp: find_deposit_def dest!: find_SomeD)

lemma find_deposit_mem: "find_deposit db i = Some d \<Longrightarrow> i \<in> dep_id ` set (db_deposits db)"
  using find_depositD [of db i d] by auto

lemma find_operationD:
  assumes "find_operation db i = Some x"
  shows "x \<in> set (db_operations db)" "op_id x = i"
  using assms by (auto simp: find_operation_def dest!: find_SomeD)

lemma booking_uniq:
  assumes "db_ok db" and "b \<in> set (db_bookings db)" "c \<in> set (db_bookings db)" "bk_id c = bk_id b"
  shows "c = b"
  using distinct_key_eq [of bk_id "db_bookings db" c b] assms calendar_distinct by (simp add: db_ok_def)

lemma deposit_uniq:
  assumes "db_ok db" and "d \<in> set (db_deposits db)" "e \<in> set (db_deposits db)" "dep_id e = dep_id d"
  shows "e = d"
  using distinct_key_eq [of dep_id "db_deposits db" e d] assms by (simp add: db_ok_def ledger_ok_def ledger_of_def)

lemma operation_uniq:
  assumes "db_ok db" and "x \<in> set (db_operations db)" "y \<in> set (db_operations db)" "op_id y = op_id x"
  shows "y = x"
  using distinct_key_eq [of op_id "db_operations db" y x] assms by (simp add: db_ok_def ledger_ok_def ledger_of_def)

lemma db_ok_simps:
  assumes "db_ok db"
  shows "ids_ok db" "calendar_ok (calendar_of db)" "ledger_ok (ledger_of db)"
    "distinct (map bk_id (db_bookings db))"
  using assms calendar_distinct by (auto simp: db_ok_def)

section \<open>Completion\<close>

lemma completeE:
  assumes "complete_booking_after_return i now trig db = Inr (db', n)"
  obtains (none) "db' = db" "n = 0"
  | (completed) b h where "n = 1" "find_booking db i = Some b" "bk_status b = Bk_RETURNED"
      "completion_due trig now (deposit_of db i) (dispute_of db i) = Inr True"
      "db_bookings db' = update_rows (\<lambda>b. bk_id b = i \<and> bk_status b = Bk_RETURNED)
         (\<lambda>b. b\<lparr>bk_status := Bk_COMPLETED\<rparr>) (db_bookings db)"
      "db_history db' = db_history db @ [h]"
      "is_entry h i ''SYSTEM'' (completion_command trig) (Some Bk_RETURNED) Bk_COMPLETED"
      "db_unavailable db' = db_unavailable db" "db_supply db' = db_supply db" "db_next db < db_next db'"
      "db_deposits db' = db_deposits db" "db_operations db' = db_operations db"
      "db_disputes db' = db_disputes db" "db_payments db' = db_payments db"
proof (cases "db' = db \<and> n = 0")
  case True
  then show thesis using none by simp
next
  case False
  then obtain b where b: "find_booking db i = Some b" "bk_status b = Bk_RETURNED"
    "completion_due trig now (deposit_of db i) (dispute_of db i) = Inr True"
    "complete_effects trig i (deposit_of db i) db = Inr (db', n)"
    using assms unfolding complete_booking_after_return_def
    by (auto simp: Let_def bind_result_Inr_iff split: option.splits if_split_asm)
  define d where "d = db\<lparr>db_bookings := update_rows (\<lambda>b. bk_id b = i \<and> bk_status b = Bk_RETURNED)
     (\<lambda>b. b\<lparr>bk_status := Bk_COMPLETED\<rparr>) (db_bookings db)\<rparr>"
  define h where "h = history_row_of d i None ''SYSTEM'' (completion_command trig) (Some Bk_RETURNED)
      Bk_COMPLETED None (completion_request_id trig i (deposit_of db i))"
  have e: "n = 1" "emit_event i Ev_COMPLETED (record_transition i None ''SYSTEM'' (completion_command trig)
      (Some Bk_RETURNED) Bk_COMPLETED None (completion_request_id trig i (deposit_of db i)) d) = Inr db'"
    using b(4) by (auto simp: complete_effects_def bind_result_Inr_iff d_def)
  have "is_entry h i ''SYSTEM'' (completion_command trig) (Some Bk_RETURNED) Bk_COMPLETED"
    by (simp add: h_def)
  then show thesis
    by (rule completed [OF e(1) b(1-3) _ _ , rotated 2])
       (use emit_eventD [OF e(2)] in \<open>simp_all add: d_def h_def\<close>)
qed

lemma completion_allowed:
  assumes "is_entry h i ''SYSTEM'' (completion_command trig) (Some Bk_RETURNED) Bk_COMPLETED"
  shows "history_allowed h"
  using assms by (cases trig) (auto simp: is_entry_def history_allowed_simps)

lemma complete_refines:
  assumes "complete_booking_after_return i now trig db = Inr (db', n)" and ok: "db_ok db"
  shows "refines db db'"
  using assms(1)
proof (cases rule: completeE)
  case none
  then show ?thesis using ok by (simp add: refines_refl db_ok_def)
next
  case (completed b h)
  note b = find_bookingD [OF completed(2)]
  have bs: "db_bookings db' = move_row (bk_id b) (\<lambda>b. b\<lparr>bk_status := Bk_COMPLETED\<rparr>) (db_bookings db)"
    unfolding completed(5) move_row_def update_rows_def
    using booking_uniq [OF ok b(1)] b(2) completed(3) by (intro map_cong refl) auto
  have "calendar_step (calendar_of db) (calendar_of db')"
    unfolding calendar_of_def bs completed(6,8)
    by (rule calendar_step.move [OF b(1) completed(3), of Bk_COMPLETED])
       (use completed(7) b(2) completion_allowed [OF completed(7)] in \<open>auto simp: is_entry_def same_slot_def\<close>)
  moreover have "ids_ok db'"
  proof (rule ids_ok_step [OF db_ok_simps(1) [OF ok] completed(9)])
    show "bk_id ` set (db_bookings db') \<subseteq> bk_id ` set (db_bookings db) \<union> Collect (issued db')"
      unfolding completed(5) by (simp add: update_rows_image)
  qed (use completed in simp_all)
  ultimately show ?thesis using completed(11,12) by (auto simp: refines_def db_sim_def ledger_of_def)
qed

section \<open>The booking commands on the ledger\<close>

lemma deposit_id_fresh: "ids_ok db \<Longrightarrow> \<not> issued db (dep_id d) \<Longrightarrow> dep_id d \<notin> dep_id ` set (db_deposits db)"
  by (auto simp: ids_ok_def)

lemma create_booking_refines:
  assumes "create_booking config policy payload_hash borrowerId dto requestId today now db = Inr (db', r)"
    and ok: "db_ok db"
  shows "refines db db'"
proof -
  have sim: "db_sim db db'" using create_booking_sim [OF assms(1)] ok by (simp add: db_ok_def)
  have "ledger_steps (ledger_of db) (ledger_of db')"
    using assms(1)
  proof (rule create_bookingE)
    fix legal period b
    assume tx: "create_transaction policy legal borrowerId (cb_itemId dto) period requestId (payload_hash dto) now db = Inr (db', b)"
    from tx show ?thesis
    proof (cases rule: create_transactionE)
      case repeated
      then show ?thesis by simp
    next
      case (created item deposit snapshot totalAmount)
      note e = create_effectsD [OF created(5)]
      show ?thesis
      proof (cases "deposit_terms_of policy deposit")
        case None
        then show ?thesis using e(6,7) by (simp add: ledger_of_def)
      next
        case (Some t)
        define d where "d = (new_deposit_row db (bk_id b) deposit t)\<lparr>dep_id := db_supply db (Suc (db_next db))\<rparr>"
        have d: "db_deposits db' = db_deposits db @ [d]" "0 < deposit" "\<forall>c \<in> set (db_deposits db). dep_bookingId c \<noteq> bk_id b"
          using e(7,9) Some by (simp_all add: d_def)
        have "\<not> issued db (dep_id d)"
          using ok by (auto simp: d_def issued_def db_ok_def ids_ok_def dest!: injD)
        then have fresh: "dep_id d \<notin> dep_id ` set (db_deposits db)"
          by (rule deposit_id_fresh [OF db_ok_simps(1) [OF ok]])
        have "ledger_step (ledger_of db) (ledger_of db')"
          unfolding ledger_of_def d(1) e(6)
          by (rule ledger_step.create_deposit [OF fresh])
             (use d in \<open>auto simp: d_def new_deposit_row_def deposit_amounts_ok_def minor_to_decimal_def\<close>)
        then show ?thesis by (rule r_into_rtranclp)
      qed
    qed
  qed
  with sim show ?thesis by (simp add: refines_def)
qed

lemma cancel_many_ledger:
  assumes "db_operations db' = db_operations db"
    and "db_deposits db' = update_rows (\<lambda>d. p d \<and> dep_status d = Dep_PENDING) (\<lambda>d. d\<lparr>dep_status := Dep_CANCELLED\<rparr>) (db_deposits db)"
  shows "ledger_steps (ledger_of db) (ledger_of db')"
  unfolding ledger_of_def assms
  by (intro r_into_rtranclp ledger_step.move_deposits [where new = Dep_CANCELLED])
     (auto simp: deposit_edge_def same_amounts_def)

lemma confirm_booking_refines:
  assumes "confirm_booking lenderId bookingId requestId now db = Inr (db', r)" and ok: "db_ok db"
  shows "refines db db'"
proof -
  from assms(1) obtain b where db': "db' = confirm_effects lenderId requestId b (map bk_id (competitors_of b now db)) db"
    by (auto simp: confirm_booking_def bind_result_Inr_iff Let_def)
  note fr = confirm_effects_frame [OF db']
  show ?thesis
    using confirm_booking_sim [OF assms(1)] cancel_many_ledger [OF fr(4,5)] ok
    by (simp add: refines_def db_ok_def)
qed

lemma move_one_ledger:
  assumes ok: "db_ok db" and d: "d \<in> set (db_deposits db)" and e: "deposit_edge (dep_status d) new" "new \<noteq> Dep_RESOLVED"
    and xs: "db_operations db1 = db_operations db"
    and ds: "db_deposits db1 = update_rows (\<lambda>x. dep_id x = dep_id d) (\<lambda>x. x\<lparr>dep_status := new\<rparr>) (db_deposits db)"
  shows "ledger_steps (ledger_of db) (ledger_of db1)"
  unfolding ledger_of_def xs ds
  by (intro r_into_rtranclp ledger_step.move_deposits [where new = new])
     (use deposit_uniq [OF ok d] e in \<open>auto simp: same_amounts_def\<close>)

lemma new_operation_simps [simp]:
  "op_id (new_operation db i k a key r t) = fresh_id db"
  "op_depositId (new_operation db i k a key r t) = i"
  "op_kind (new_operation db i k a key r t) = k"
  "op_amount (new_operation db i k a key r t) = a"
  "op_status (new_operation db i k a key r t) = Ops_PENDING"
  "op_idempotencyKey (new_operation db i k a key r t) = key"
  by (simp_all add: new_operation_def)

lemma request_operation_ledger:
  assumes "ids_ok db" and x: "op_id x = fresh_id db" and i: "insert_operation x db = Inr db'"
    and d: "op_depositId x \<in> dep_id ` set (db_deposits db)"
    and st: "op_status x = Ops_PENDING \<or> (op_status x = Ops_SUCCEEDED \<and> op_kind x = Op_HOLD)"
  shows "ledger_steps (ledger_of db) (ledger_of db')"
proof -
  note e = insert_operationD [OF i]
  have "\<not> issued db (op_id x)"
    using assms(1) fresh_not_issued x by (simp add: ids_ok_def)
  then have "op_id x \<notin> op_id ` set (db_operations db)" using assms(1) by (auto simp: ids_ok_def)
  then have "ledger_step (ledger_of db) (ledger_of db')"
    using e d st by (auto simp: ledger_of_def intro!: ledger_step.request_operation)
  then show ?thesis by (rule r_into_rtranclp)
qed

lemma cancel_pending_refines:
  assumes "cancel_pending policy actorId bookingId requestId now db = Inr (db', r)" and ok: "db_ok db"
  shows "refines db db'"
proof -
  have sim: "db_sim db db'" using cancel_pending_sim [OF assms(1)] ok by (simp add: db_ok_def)
  have "ledger_steps (ledger_of db) (ledger_of db')"
    using assms(1)
  proof (cases rule: cancel_pendingE)
    case (repeated b)
    then show ?thesis by simp
  next
    case (cancelled b)
    note e = cancel_effectsD [OF cancelled(3)]
    show ?thesis
    proof (cases "deposit_of db (bk_id b)")
      case None
      then show ?thesis using e(7) by (simp add: ledger_of_def)
    next
      case (Some d)
      note d = deposit_ofD [OF Some]
      consider "dep_status d = Dep_PENDING" | "dep_status d = Dep_HELD" | "dep_status d \<notin> {Dep_PENDING, Dep_HELD}" by auto
      then show ?thesis
      proof cases
        case 1
        then show ?thesis
          using e(8) [OF Some] d(1) ok by (intro move_one_ledger [of db d Dep_CANCELLED]) (auto simp: deposit_edge_def)
      next
        case 2
        have m: "ledger_steps (ledger_of db) (ledger_of (db\<lparr>db_deposits := db_deposits db'\<rparr>))"
          using e(9) [OF Some 2] d(1) ok 2
          by (intro move_one_ledger [of db d Dep_RESOLVING]) (auto simp: deposit_edge_def)
        have key: "\<forall>y \<in> set (db_operations db). op_idempotencyKey y \<noteq> pre_handover_refund_key (dep_id d)"
          and pos: "0 < dep_amount d"
          using cancelled(3) Some 2
          unfolding cancel_effects_def settle_cancelled_deposit_def Let_def
          by (auto simp: bind_result_Inr_iff set_booking_def set_deposit_def dest!: insert_operationD)
        have "fresh_id db \<notin> op_id ` set (db_operations db)"
          using ok fresh_not_issued [of db] by (auto simp: db_ok_def ids_ok_def)
        moreover have "dep_id d \<in> dep_id ` set (db_deposits db')"
          using e(9) [OF Some 2] d(1) by (auto simp: update_rows_image)
        ultimately have "ledger_step (ledger_of (db\<lparr>db_deposits := db_deposits db'\<rparr>)) (ledger_of db')"
          using e(9) [OF Some 2] key pos by (auto simp: ledger_of_def intro!: ledger_step.request_operation)
        with m show ?thesis by (rule rtranclp.rtrancl_into_rtrancl)
      next
        case 3
        then show ?thesis using e(10) [OF Some] by (simp add: ledger_of_def)
      qed
    qed
  qed
  with sim show ?thesis by (simp add: refines_def)
qed

lemma expire_one_refines:
  assumes "expire_one requestId now i db = Inr (db', n)" and ok: "db_ok db"
  shows "refines db db'"
proof -
  have "ledger_steps (ledger_of db) (ledger_of db')"
    using assms(1)
  proof (cases rule: expire_oneE)
    case (one b h)
    then show ?thesis by (intro cancel_many_ledger [of _ _ "\<lambda>d. dep_bookingId d = i"])
  qed simp
  then show ?thesis using expire_one_sim [OF assms(1)] ok by (simp add: refines_def db_ok_def)
qed

lemma expire_loop_refines:
  assumes "expire_loop requestId now ids n db = (db', r)" and "db_ok db"
  shows "refines db db'"
  using assms
proof (induction ids arbitrary: n db)
  case Nil
  then show ?case by (simp add: refines_refl db_ok_def)
next
  case (Cons i ids)
  show ?case
  proof (cases "expire_one requestId now i db")
    case (Inl e)
    then show ?thesis using Cons.prems by (simp add: refines_refl db_ok_def)
  next
    case (Inr p)
    obtain d1 k where p: "p = (d1, k)" by (cases p)
    have s: "refines db d1" using expire_one_refines Inr p Cons.prems by blast
    then have "refines d1 db'" using Cons.IH Cons.prems Inr p refines_ok by simp
    with s show ?thesis by (rule refines_trans)
  qed
qed

lemma expire_pending_refines: "expire_pending requestId now db = (db', r) \<Longrightarrow> db_ok db \<Longrightarrow> refines db db'"
  unfolding expire_pending_def by (rule expire_loop_refines)

lemma create_unavailable_refines:
  assumes "create_unavailable ownerId itemId dto today db = Inr (db', u)" and "db_ok db"
  shows "refines db db'"
proof -
  have "ledger_of db' = ledger_of db"
    using assms(1) unfolding create_unavailable_def insert_unavailable_def
    by (auto simp: bind_result_Inr_iff Let_def ledger_of_def split: if_split_asm)
  then show ?thesis using create_unavailable_sim [OF assms(1)] assms(2) by (simp add: refines_def db_ok_def)
qed

lemma remove_unavailable_refines:
  assumes "remove_unavailable ownerId itemId periodId db = Inr db'" and "db_ok db"
  shows "refines db db'"
proof -
  have "ledger_of db' = ledger_of db"
    using assms(1) by (auto simp: remove_unavailable_def bind_result_Inr_iff Let_def ledger_of_def split: if_split_asm)
  then show ?thesis using remove_unavailable_sim [OF assms(1)] assms(2) by (simp add: refines_def db_ok_def)
qed

section \<open>Checkout and retry\<close>

lemma checkout_effectsD:
  assumes "checkout_effects borrowerId bookingId amountMinor paymentId hold completedAt db = Inr db'"
  shows "db_bookings db' = db_bookings db" "db_unavailable db' = db_unavailable db" "db_history db' = db_history db"
    "db_supply db' = db_supply db" "db_next db < db_next db'"
    "\<exists>p. db_payments db' = db_payments db @ [p] \<and> pay_bookingId p = bookingId \<and> pay_userId p = borrowerId
       \<and> pay_amount p = minor_to_decimal amountMinor \<and> pay_status p = Pay_SUCCEEDED
       \<and> pay_yookassaPaymentId p = Some paymentId"
    "\<forall>p \<in> set (db_payments db). pay_bookingId p \<noteq> bookingId"
    "hold = None \<Longrightarrow> db_deposits db' = db_deposits db \<and> db_operations db' = db_operations db"
    "hold = Some (d, m, k) \<Longrightarrow>
       db_deposits db' = update_rows (\<lambda>x. dep_id x = dep_id d) (\<lambda>x. x\<lparr>dep_status := Dep_HELD\<rparr>) (db_deposits db)
       \<and> (\<exists>x. db_operations db' = db_operations db @ [x] \<and> op_id x = db_supply db (Suc (db_next db))
            \<and> Suc (db_next db) < db_next db'
            \<and> op_depositId x = dep_id d \<and> op_kind x = Op_HOLD \<and> op_status x = Ops_SUCCEEDED
            \<and> op_amount x = minor_to_decimal m \<and> 0 < op_amount x
            \<and> (\<forall>y \<in> set (db_operations db). op_idempotencyKey y \<noteq> op_idempotencyKey x))"
proof -
  define p where "p = \<lparr>pay_id = fresh_id db, pay_bookingId = bookingId, pay_userId = borrowerId,
        pay_amount = minor_to_decimal amountMinor, pay_status = Pay_SUCCEEDED,
        pay_yookassaPaymentId = Some paymentId\<rparr>"
  from assms obtain db1 where p: "insert_payment p db = Inr db1"
    and r: "(case hold of None \<Rightarrow> Inr db1
      | Some (d, m, k) \<Rightarrow> insert_operation
          (held_operation (set_deposit (dep_id d) (\<lambda>x. x\<lparr>dep_status := Dep_HELD\<rparr>) db1) (dep_id d) m k completedAt)
          (set_deposit (dep_id d) (\<lambda>x. x\<lparr>dep_status := Dep_HELD\<rparr>) db1)) = Inr db'"
    unfolding checkout_effects_def Let_def p_def by (auto simp: bind_result_Inr_iff)
  note ip = insert_paymentD [OF p]
  have e: "db_bookings db' = db_bookings db \<and> db_unavailable db' = db_unavailable db \<and> db_history db' = db_history db
    \<and> db_supply db' = db_supply db \<and> db_next db < db_next db' \<and> db_payments db' = db_payments db @ [p]"
    using r ip by (auto simp: set_deposit_def split: option.splits dest!: insert_operationD)
  then show "db_bookings db' = db_bookings db" "db_unavailable db' = db_unavailable db" "db_history db' = db_history db"
    "db_supply db' = db_supply db" "db_next db < db_next db'" by simp_all
  show "\<exists>p. db_payments db' = db_payments db @ [p] \<and> pay_bookingId p = bookingId \<and> pay_userId p = borrowerId
       \<and> pay_amount p = minor_to_decimal amountMinor \<and> pay_status p = Pay_SUCCEEDED
       \<and> pay_yookassaPaymentId p = Some paymentId"
    using e by (intro exI [of _ p]) (simp add: p_def)
  show "\<forall>p \<in> set (db_payments db). pay_bookingId p \<noteq> bookingId" using ip by (simp add: p_def)
  show "hold = None \<Longrightarrow> db_deposits db' = db_deposits db \<and> db_operations db' = db_operations db"
    using r ip by auto
  show "hold = Some (d, m, k) \<Longrightarrow>
       db_deposits db' = update_rows (\<lambda>x. dep_id x = dep_id d) (\<lambda>x. x\<lparr>dep_status := Dep_HELD\<rparr>) (db_deposits db)
       \<and> (\<exists>x. db_operations db' = db_operations db @ [x] \<and> op_id x = db_supply db (Suc (db_next db))
            \<and> Suc (db_next db) < db_next db'
            \<and> op_depositId x = dep_id d \<and> op_kind x = Op_HOLD \<and> op_status x = Ops_SUCCEEDED
            \<and> op_amount x = minor_to_decimal m \<and> 0 < op_amount x
            \<and> (\<forall>y \<in> set (db_operations db). op_idempotencyKey y \<noteq> op_idempotencyKey x))"
    using r ip by (auto simp: set_deposit_def held_operation_def fresh_id_def dest!: insert_operationD)
qed

lemma checkout_unpaidE:
  assumes "checkout_unpaid sha borrowerId bookingId snapshot paymentId completedAt db prov = (db', prov', res)"
  obtains (unchanged) e where "db' = db" "res = Inl e"
  | (paid) "deposit_of db bookingId = None" "res = Inr (Provider_SUCCEEDED paymentId)"
      "checkout_deposit_guard snapshot None = Inr ()"
      "checkout_effects borrowerId bookingId (mm_total (sn_moneyMinor snapshot)) paymentId None completedAt db = Inr db'"
  | (held) d holdId where "deposit_of db bookingId = Some d" "res = Inr (Provider_SUCCEEDED paymentId)"
      "checkout_deposit_guard snapshot (Some d) = Inr ()"
      "checkout_effects borrowerId bookingId (mm_total (sn_moneyMinor snapshot)) paymentId
         (Some (d, mm_deposit (sn_moneyMinor snapshot), holdId)) completedAt db = Inr db'"
  using assms unfolding checkout_unpaid_def
  by (auto simp: Let_def split: sum.splits option.splits prod.splits provider_result.splits)

lemma checkout_deposit_guardD:
  assumes "checkout_deposit_guard snapshot deposit = Inr ()"
  shows "deposit = Some d \<Longrightarrow> dep_status d = Dep_PENDING \<and> 0 < mm_deposit (sn_moneyMinor snapshot)
      \<and> dep_amount d = minor_to_decimal (mm_deposit (sn_moneyMinor snapshot))"
    "deposit = None \<Longrightarrow> mm_deposit (sn_moneyMinor snapshot) \<le> 0"
  using assms unfolding checkout_deposit_guard_def safe_minor_of_def
  by (auto simp: bind_result_Inr_iff decimal_to_minor_Inr_iff minor_to_safe_number_eq
      split: option.splits if_split_asm)

lemma checkoutE:
  assumes "checkout sha policy borrowerId bookingId outcome key completedAt db prov = (db', prov', res)"
  obtains (unchanged) "db' = db"
  | (first) booking snapshot paymentId prov1 where "checkout_guards borrowerId bookingId db = Inr (booking, snapshot)"
      "pol_paymentScenario policy = FAKE_SAFE_DEAL"
      "provider_checkout sha key bookingId (mm_total (sn_moneyMinor snapshot)) outcome prov
         = Inr (prov1, Provider_SUCCEEDED paymentId)"
      "payment_of db bookingId = None"
      "checkout_unpaid sha borrowerId bookingId snapshot paymentId completedAt db prov1 = (db', prov', res)"
  using assms unfolding checkout_def
  by (auto simp: require_fake_safe_deal_def split: sum.splits option.splits prod.splits provider_result.splits if_split_asm)

lemma checkout_unpaid_refines:
  assumes "checkout_unpaid sha borrowerId bookingId snapshot paymentId completedAt db prov = (db', prov', res)"
    and ok: "db_ok db"
  shows "refines db db'"
  using assms(1)
proof (cases rule: checkout_unpaidE)
  case (unchanged e)
  then show ?thesis using ok by (simp add: refines_refl db_ok_def)
next
  case paid
  note e = checkout_effectsD [OF paid(4)]
  show ?thesis
    using e(1-5) e(8) [OF refl] by (intro refines_frame [OF db_ok_simps(1) [OF ok]]) auto
next
  case (held d holdId)
  note e = checkout_effectsD [OF held(4)]
  note d = deposit_ofD [OF held(1)]
  note g = checkout_deposit_guardD(1) [OF held(3) refl]
  from e(9) [OF refl] obtain x where ds:
    "db_deposits db' = update_rows (\<lambda>x. dep_id x = dep_id d) (\<lambda>x. x\<lparr>dep_status := Dep_HELD\<rparr>) (db_deposits db)"
    and x: "db_operations db' = db_operations db @ [x]" "op_id x = db_supply db (Suc (db_next db))"
    "Suc (db_next db) < db_next db'" "op_depositId x = dep_id d" "op_kind x = Op_HOLD" "op_status x = Ops_SUCCEEDED"
    "0 < op_amount x" "\<forall>y \<in> set (db_operations db). op_idempotencyKey y \<noteq> op_idempotencyKey x" by blast
  have iss: "issued db' (op_id x)" using x(2,3) e(4) by (auto simp: issued_def)
  have "\<not> issued db (op_id x)"
    using ok by (auto simp: x(2) issued_def db_ok_def ids_ok_def dest!: injD)
  then have fresh: "op_id x \<notin> op_id ` set (db_operations db)" using ok by (auto simp: db_ok_def ids_ok_def)
  have m: "ledger_steps (ledger_of db) (ledger_of (db\<lparr>db_deposits := db_deposits db'\<rparr>))"
    using ds d(1) ok g by (intro move_one_ledger [of db d Dep_HELD]) (auto simp: deposit_edge_def)
  have "dep_id d \<in> dep_id ` set (db_deposits db')"
    using ds d(1) by (auto simp: update_rows_image)
  then have "ledger_step \<lparr>led_deposits = db_deposits db', led_operations = db_operations db\<rparr>
      \<lparr>led_deposits = db_deposits db', led_operations = db_operations db @ [x]\<rparr>"
    by (intro ledger_step.request_operation [OF fresh]) (use x(4-8) in auto)
  then have "ledger_step (ledger_of (db\<lparr>db_deposits := db_deposits db'\<rparr>)) (ledger_of db')"
    by (simp add: ledger_of_def x(1))
  with m have "ledger_steps (ledger_of db) (ledger_of db')" by (rule rtranclp.rtrancl_into_rtrancl)
  moreover have "ids_ok db'"
    by (rule ids_ok_step [OF db_ok_simps(1) [OF ok] e(4)])
       (use e(1,2,5) ds x(1) iss in \<open>auto simp: update_rows_image\<close>)
  moreover have "calendar_of db' = calendar_of db" using e(1-3) by (simp add: calendar_of_def)
  ultimately show ?thesis by (simp add: refines_def db_sim_def)
qed

lemma checkout_refines:
  assumes "checkout sha policy borrowerId bookingId outcome key completedAt db prov = (db', prov', res)"
    and ok: "db_ok db"
  shows "refines db db'"
  using assms(1)
proof (cases rule: checkoutE)
  case unchanged
  then show ?thesis using ok by (simp add: refines_refl db_ok_def)
next
  case (first booking snapshot paymentId prov1)
  then show ?thesis using checkout_unpaid_refines ok by blast
qed

lemma insert_operation_refines:
  assumes "insert_operation x db = Inr db'" and ok: "db_ok db" and x: "op_id x = fresh_id db"
    and d: "op_depositId x \<in> dep_id ` set (db_deposits db)" and st: "op_status x = Ops_PENDING"
  shows "refines db db'"
proof -
  note e = insert_operationD [OF assms(1)]
  have "ledger_steps (ledger_of db) (ledger_of db')"
    using request_operation_ledger [OF db_ok_simps(1) [OF ok] x assms(1) d] st by simp
  moreover have "ids_ok db'"
    by (rule ids_ok_step [OF db_ok_simps(1) [OF ok]])
       (use e x in \<open>auto simp: issued_def fresh_id_def\<close>)
  moreover have "calendar_of db' = calendar_of db" using e by (simp add: calendar_of_def)
  ultimately show ?thesis by (simp add: refines_def db_sim_def)
qed

lemma write_audit_frame [simp]:
  "db_bookings (write_audit a b c d e db) = db_bookings db"
  "db_unavailable (write_audit a b c d e db) = db_unavailable db"
  "db_history (write_audit a b c d e db) = db_history db"
  "db_deposits (write_audit a b c d e db) = db_deposits db"
  "db_operations (write_audit a b c d e db) = db_operations db"
  "db_disputes (write_audit a b c d e db) = db_disputes db"
  "db_payments (write_audit a b c d e db) = db_payments db"
  "db_supply (write_audit a b c d e db) = db_supply db"
  "db_next (write_audit a b c d e db) = Suc (db_next db)"
  by (simp_all add: write_audit_def)

lemma write_audit_refines: "ids_ok db \<Longrightarrow> refines db (write_audit a b c d e db)"
  by (rule refines_frame) simp_all

lemma retryE:
  assumes "retry_failed_operation policy adminId operationId key now db = Inr (db', r)"
  obtains (repeated) x existing where "db' = db" "find_operation db operationId = Some x"
      "operation_by_key db (retry_key (op_id x) (js_trim key)) = Some existing" "op_retryOfId existing = Some (op_id x)"
      "retry_existing x existing = Inr r"
  | (created) x d retry db1 where "find_operation db operationId = Some x" "find_deposit db (op_depositId x) = Some d"
      "retry_refused x d (dispute_of db (dep_bookingId d)) = Inr False"
      "\<forall>y \<in> set (db_operations db). op_retryOfId y \<noteq> Some (op_id x)"
      "retry = new_operation db (op_depositId x) (op_kind x) (op_amount x) (retry_key (op_id x) (js_trim key))
         (Some (op_id x)) now"
      "insert_operation retry db = Inr db1"
      "db' = write_audit (Some adminId) ''DEPOSIT_OPERATION_RETRY_CREATED'' ''DepositOperation''
                 (Some (op_id retry)) None db1"
      "to_operation_response retry = Inr r"
proof -
  from assms obtain x d where x: "find_operation db operationId = Some x" "find_deposit db (op_depositId x) = Some d"
    and r: "(case operation_by_key db (retry_key (op_id x) (js_trim key)) of
             Some existing \<Rightarrow> bind_result (retry_existing x existing) (\<lambda>r. Inr (db, r))
           | None \<Rightarrow> retry_create adminId x d (retry_key (op_id x) (js_trim key)) now db) = Inr (db', r)"
    unfolding retry_failed_operation_def Let_def
    by (auto simp: bind_result_Inr_iff split: option.splits if_split_asm)
  show thesis
  proof (cases "operation_by_key db (retry_key (op_id x) (js_trim key))")
    case (Some existing)
    then have "retry_existing x existing = Inr r" "db' = db" using r by (auto simp: bind_result_Inr_iff)
    moreover have "op_retryOfId existing = Some (op_id x)"
      using \<open>retry_existing x existing = Inr r\<close> by (auto simp: retry_existing_def split: if_split_asm)
    ultimately show thesis using repeated x Some by blast
  next
    case None
    with r have "retry_create adminId x d (retry_key (op_id x) (js_trim key)) now db = Inr (db', r)" by simp
    then show thesis
      unfolding retry_create_def
      using created x by (auto simp: bind_result_Inr_iff Let_def split: if_split_asm)
  qed
qed

lemma retry_refines:
  assumes "retry_failed_operation policy adminId operationId key now db = Inr (db', r)" and ok: "db_ok db"
  shows "refines db db'"
  using assms(1)
proof (cases rule: retryE)
  case (repeated x existing)
  then show ?thesis using ok by (simp add: refines_refl db_ok_def)
next
  case (created x d retry db1)
  have "refines db db1"
    using find_deposit_mem [OF created(2)] created(5)
    by (intro insert_operation_refines [OF created(6) ok]) auto
  moreover from this have "refines db1 db'"
    unfolding created(7) using refines_ok ok by (intro write_audit_refines) (auto simp: db_ok_def)
  ultimately show ?thesis by (rule refines_trans)
qed

section \<open>The operation worker\<close>

text \<open>A bulk update of pending operations that keeps what the ledger looks at.\<close>

lemma annotate_operations_refines:
  assumes ok: "db_ok db" and p: "\<forall>x \<in> set (db_operations db). p x \<longrightarrow> op_status x = Ops_PENDING"
    and f: "\<forall>x. same_operation (f x) x \<and> op_status (f x) \<in> {op_status x, Ops_FAILED}"
  shows "refines db (db\<lparr>db_operations := update_rows p f (db_operations db)\<rparr>)"
proof -
  have "ledger_step (ledger_of db) (ledger_of (db\<lparr>db_operations := update_rows p f (db_operations db)\<rparr>))"
    unfolding ledger_of_def using p f by (auto intro!: ledger_step.annotate_operations)
  moreover have "ids_ok (db\<lparr>db_operations := update_rows p f (db_operations db)\<rparr>)"
    by (rule ids_ok_step [OF db_ok_simps(1) [OF ok]])
       (use f in \<open>auto simp: update_rows_image same_operation_def\<close>)
  ultimately show ?thesis by (auto simp: refines_def db_sim_def calendar_of_def)
qed

lemma claim_refines:
  assumes "claim_operation i now db = (db', r)" and ok: "db_ok db"
  shows "refines db db'"
proof (cases "db' = db")
  case True
  then show ?thesis using ok by (simp add: refines_refl db_ok_def)
next
  case False
  then have "db' = db\<lparr>db_operations := update_rows (\<lambda>x. op_id x = i \<and> operation_claimable now x)
              (claim_row (now + OPERATION_LEASE_MS)) (db_operations db)\<rparr>"
    using assms(1) by (auto simp: claim_operation_def Let_def split: if_split_asm)
  then show ?thesis
    using annotate_operations_refines [OF ok, of "\<lambda>x. op_id x = i \<and> operation_claimable now x"]
    by (auto simp: operation_claimable_def claim_row_def same_operation_def)
qed

lemma set_operation_refines:
  assumes ok: "db_ok db" and f: "\<forall>x. same_operation (f x) x \<and> op_status (f x) \<in> {op_status x, Ops_FAILED}"
  shows "refines db (set_operation i (holds_lease t) f db)"
  unfolding set_operation_def
  by (rule annotate_operations_refines [OF ok _ f]) (simp add: holds_lease_def)

lemma settle_operationE:
  assumes "settle_operation bookingId x d t pid now db = Inr db'"
  obtains db1 resolved where "op_kind x \<in> {Op_REFUND, Op_RELEASE_TO_LENDER}"
    "db1 = set_deposit (op_depositId x) (increment_deposit x (if resolved then Dep_RESOLVED else Dep_RESOLVING))
       (set_operation (op_id x) (holds_lease t) (succeed_row pid now) db)"
    "deposit_amounts_ok (increment_deposit x (if resolved then Dep_RESOLVED else Dep_RESOLVING) d)"
    "resolved \<Longrightarrow> \<exists>n. complete_booking_after_return bookingId now DEPOSIT_SETTLED db1 = Inr (db', n)"
    "\<not> resolved \<Longrightarrow> db' = db1"
proof -
  define db0 where "db0 = set_operation (op_id x) (holds_lease t) (succeed_row pid now) db"
  from assms obtain resolved where k: "op_kind x \<in> {Op_REFUND, Op_RELEASE_TO_LENDER}"
    and r: "settle_deposit bookingId x d resolved now db0 = Inr db'"
    unfolding settle_operation_def Let_def db0_def [symmetric]
    by (auto simp: bind_result_Inr_iff split: if_split_asm simp del: insert_iff)
  define st where "st = (if resolved then Dep_RESOLVED else Dep_RESOLVING)"
  from r have ok: "deposit_amounts_ok (increment_deposit x st d)"
    and e: "(if resolved then bind_result (complete_booking_after_return bookingId now DEPOSIT_SETTLED
        (set_deposit (op_depositId x) (increment_deposit x st) db0)) (\<lambda>(db, _). Inr db)
      else Inr (set_deposit (op_depositId x) (increment_deposit x st) db0)) = Inr db'"
    unfolding settle_deposit_def Let_def st_def [symmetric] by (simp_all split: if_split_asm)
  show thesis
    by (rule that [OF k refl ok [unfolded st_def]])
       (use e in \<open>auto simp: db0_def st_def bind_result_Inr_iff split: if_split_asm\<close>)
qed

lemma settle_refines:
  assumes "settle_operation bookingId x d t pid now db = Inr db'" and ok: "db_ok db"
    and x: "x \<in> set (db_operations db)" "holds_lease t x"
    and d: "d \<in> set (db_deposits db)" "dep_id d = op_depositId x" "dep_status d = Dep_RESOLVING"
  shows "refines db db'"
  using assms(1)
proof (rule settle_operationE)
  fix db1 resolved
  let ?st = "if resolved then Dep_RESOLVED else Dep_RESOLVING"
  assume a: "op_kind x \<in> {Op_REFUND, Op_RELEASE_TO_LENDER}"
    "db1 = set_deposit (op_depositId x) (increment_deposit x ?st)
       (set_operation (op_id x) (holds_lease t) (succeed_row pid now) db)"
    "deposit_amounts_ok (increment_deposit x ?st d)"
    "resolved \<Longrightarrow> \<exists>n. complete_booking_after_return bookingId now DEPOSIT_SETTLED db1 = Inr (db', n)"
    "\<not> resolved \<Longrightarrow> db' = db1"
  have xs: "db_operations db1 = update_rows (\<lambda>y. op_id y = op_id x) (succeed_row pid now) (db_operations db)"
  proof -
    have "db_operations db1 = update_rows (\<lambda>y. op_id y = op_id x \<and> holds_lease t y) (succeed_row pid now) (db_operations db)"
      by (simp add: a(2) set_deposit_def set_operation_def)
    also have "\<dots> = update_rows (\<lambda>y. op_id y = op_id x) (succeed_row pid now) (db_operations db)"
      unfolding update_rows_def using operation_uniq [OF ok x(1)] x(2) by (intro map_cong refl) auto
    finally show ?thesis .
  qed
  have ds: "db_deposits db1 = update_rows (\<lambda>e. dep_id e = op_depositId x) (increment_deposit x ?st) (db_deposits db)"
    by (simp add: a(2) set_deposit_def set_operation_def)
  have "ledger_step \<lparr>led_deposits = db_deposits db, led_operations = db_operations db\<rparr>
      \<lparr>led_deposits = db_deposits db1, led_operations = db_operations db1\<rparr>"
    unfolding xs ds
    by (rule ledger_step.settle [OF x(1) _ a(1) d])
       (use x(2) a(1,3) in \<open>auto simp: holds_lease_def increment_deposit_def settles_def same_operation_def succeed_row_def\<close>)
  then have step: "ledger_step (ledger_of db) (ledger_of db1)" by (simp add: ledger_of_def)
  have "ids_ok db1"
    by (rule ids_ok_step [OF db_ok_simps(1) [OF ok]])
       (auto simp: a(2) set_deposit_def set_operation_def update_rows_image increment_deposit_def succeed_row_def)
  moreover have "calendar_of db1 = calendar_of db"
    by (simp add: a(2) set_deposit_def set_operation_def calendar_of_def)
  ultimately have r: "refines db db1" using step by (auto simp: refines_def db_sim_def)
  show ?thesis
  proof (cases resolved)
    case True
    with a(4) obtain n where "complete_booking_after_return bookingId now DEPOSIT_SETTLED db1 = Inr (db', n)" by blast
    then have "refines db1 db'" using complete_refines refines_ok [OF r ok] by blast
    with r show ?thesis by (rule refines_trans)
  next
    case False
    then show ?thesis using a(5) r by simp
  qed
qed

lemma apply_outcome_refines:
  assumes "apply_outcome i bookingId attempts t outcome now db = Inr (db', m)" and ok: "db_ok db"
  shows "refines db db'"
proof (cases "db' = db")
  case True
  then show ?thesis using ok by (simp add: refines_refl db_ok_def)
next
  case False
  then obtain x where f: "find_operation db i = Some x" and l: "holds_lease t x"
    using assms(1) by (auto simp: apply_outcome_def split: option.splits if_split_asm)
  note x = find_operationD [OF f]
  show ?thesis
  proof (cases outcome)
    case (Provider_SUCCEEDED pid)
    then obtain d where d: "find_deposit db (op_depositId x) = Some d" "dep_status d = Dep_RESOLVING"
      "settle_operation bookingId x d t pid now db = Inr db'"
      using assms(1) False f l
      by (auto simp: apply_outcome_def bind_result_Inr_iff split: option.splits if_split_asm)
    show ?thesis
      by (rule settle_refines [OF d(3) ok x(1) l find_depositD [OF d(1)] d(2)])
  next
    case (Provider_DECLINED e)
    define db1 where "db1 = set_operation (op_id x) (holds_lease t) (fail_row e now) db"
    have r: "refines db db1"
      unfolding db1_def by (rule set_operation_refines [OF ok]) (simp add: fail_row_def same_operation_def)
    have "\<exists>en r. db' = write_audit None ''DEPOSIT_OPERATION_PROVIDER_DECLINED'' ''DepositOperation'' en r db1"
      using assms(1) f l Provider_DECLINED by (auto simp: apply_outcome_def db1_def)
    then have "refines db1 db'" using write_audit_refines refines_ok [OF r ok] by (auto simp: db_ok_def)
    with r show ?thesis by (rule refines_trans)
  next
    case Provider_TIMEOUT
    then have "db' = set_operation (op_id x) (holds_lease t) (reschedule_row (now + retry_delay attempts)) db"
      using assms(1) f l by (simp add: apply_outcome_def)
    then show ?thesis
      using set_operation_refines [OF ok] by (simp add: reschedule_row_def same_operation_def)
  qed
qed

lemma process_one_refines:
  assumes "process_one sha policy i now db prov = (db', prov', r)" and ok: "db_ok db"
  shows "refines db db'"
proof -
  obtain db1 c where cl: "claim_operation i now db = (db1, c)" by (cases "claim_operation i now db")
  have r1: "refines db db1" using claim_refines [OF cl ok] .
  have ok1: "db_ok db1" using refines_ok [OF r1 ok] .
  have "refines db1 db'"
    using assms(1) cl apply_outcome_refines [OF _ ok1] refines_refl [of db1] ok1
    unfolding process_one_def
    by (auto simp: db_ok_def split: option.splits prod.splits sum.splits if_split_asm)
  with r1 show ?thesis by (rule refines_trans)
qed

lemma process_loop_refines:
  "process_loop sha policy now ids n db prov = (db', prov', r) \<Longrightarrow> db_ok db \<Longrightarrow> refines db db'"
proof (induction ids arbitrary: n db prov)
  case Nil
  then show ?case by (simp add: refines_refl db_ok_def)
next
  case (Cons i ids)
  obtain db1 prov1 r1 where p: "process_one sha policy i now db prov = (db1, prov1, r1)"
    by (cases "process_one sha policy i now db prov") auto
  have s: "refines db db1" using process_one_refines [OF p Cons.prems(2)] .
  show ?case
  proof (cases r1)
    case (Inl e)
    then show ?thesis using s p Cons.prems(1) by simp
  next
    case (Inr k)
    then have "refines db1 db'" using Cons.IH Cons.prems p refines_ok [OF s] by simp
    with s show ?thesis by (rule refines_trans)
  qed
qed

lemma process_pending_operations_refines:
  assumes "process_pending_operations sha policy now db prov = (db', prov', r)" and ok: "db_ok db"
  shows "refines db db'"
  using assms process_loop_refines refines_refl [of db]
  unfolding process_pending_operations_def by (auto simp: db_ok_def split: sum.splits)

section \<open>The deadline of the dispute window\<close>

lemma set_deposit_refines:
  assumes ok: "db_ok db" and d: "d \<in> set (db_deposits db)" and e: "deposit_edge (dep_status d) new" "new \<noteq> Dep_RESOLVED"
  shows "refines db (set_deposit (dep_id d) (\<lambda>x. x\<lparr>dep_status := new\<rparr>) db)"
proof -
  have "ids_ok (set_deposit (dep_id d) (\<lambda>x. x\<lparr>dep_status := new\<rparr>) db)"
    by (rule ids_ok_step [OF db_ok_simps(1) [OF ok]]) (auto simp: set_deposit_def update_rows_image)
  moreover have "ledger_steps (ledger_of db) (ledger_of (set_deposit (dep_id d) (\<lambda>x. x\<lparr>dep_status := new\<rparr>) db))"
    by (rule move_one_ledger [OF ok d e]) (simp_all add: set_deposit_def)
  ultimately show ?thesis by (simp add: refines_def db_sim_def calendar_of_def set_deposit_def)
qed

lemma process_due_oneE:
  assumes "process_due_one now i db = Inr (db', n)"
  obtains (none) "db' = db" "n = 0"
  | (scheduled) d b db1 m where "find_deposit db i = Some d" "window_closed now d"
      "find_booking db (dep_bookingId d) = Some b" "bk_status b = Bk_RETURNED"
      "dispute_of db (dep_bookingId d) = None" "n = 1"
      "insert_operation (new_operation db (dep_id d) Op_REFUND (dep_amount d) (auto_refund_key (dep_id d)) None now) db
         = Inr db1"
      "complete_booking_after_return (dep_bookingId d) now DISPUTE_WINDOW_CLOSED
         (set_deposit (dep_id d) (\<lambda>x. x\<lparr>dep_status := Dep_RESOLVING\<rparr>) db1) = Inr (db', m)"
  using assms unfolding process_due_one_def
  by (auto simp: bind_result_Inr_iff Let_def split: option.splits if_split_asm)

lemma process_due_one_refines:
  assumes "process_due_one now i db = Inr (db', n)" and ok: "db_ok db"
  shows "refines db db'"
  using assms(1)
proof (cases rule: process_due_oneE)
  case none
  then show ?thesis using ok by (simp add: refines_refl db_ok_def)
next
  case (scheduled d b db1 m)
  note d = find_depositD [OF scheduled(1)]
  have r1: "refines db db1"
    by (rule insert_operation_refines [OF scheduled(7) ok]) (use d in auto)
  have d1: "d \<in> set (db_deposits db1)" using insert_operationD [OF scheduled(7)] d(1) by auto
  have r2: "refines db1 (set_deposit (dep_id d) (\<lambda>x. x\<lparr>dep_status := Dep_RESOLVING\<rparr>) db1)"
    by (rule set_deposit_refines [OF refines_ok [OF r1 ok] d1])
       (use scheduled(2) in \<open>auto simp: window_closed_def deposit_edge_def\<close>)
  have r12: "refines db (set_deposit (dep_id d) (\<lambda>x. x\<lparr>dep_status := Dep_RESOLVING\<rparr>) db1)"
    using r1 r2 by (rule refines_trans)
  have "refines (set_deposit (dep_id d) (\<lambda>x. x\<lparr>dep_status := Dep_RESOLVING\<rparr>) db1) db'"
    by (rule complete_refines [OF scheduled(8) refines_ok [OF r12 ok]])
  with r12 show ?thesis by (rule refines_trans)
qed

lemma process_due_loop_refines:
  "process_due_loop now ids n db = (db', r) \<Longrightarrow> db_ok db \<Longrightarrow> refines db db'"
proof (induction ids arbitrary: n db)
  case Nil
  then show ?case by (simp add: refines_refl db_ok_def)
next
  case (Cons i ids)
  show ?case
  proof (cases "process_due_one now i db")
    case (Inl e)
    then show ?thesis using Cons.prems by (simp add: refines_refl db_ok_def)
  next
    case (Inr p)
    obtain db1 k where p: "p = (db1, k)" by (cases p)
    have s: "refines db db1" using process_due_one_refines Inr p Cons.prems(2) by blast
    then have "refines db1 db'" using Cons.IH Cons.prems Inr p refines_ok [OF s] by simp
    with s show ?thesis by (rule refines_trans)
  qed
qed

lemma process_due_refines: "process_due now db = (db', r) \<Longrightarrow> db_ok db \<Longrightarrow> refines db db'"
  unfolding process_due_def by (rule process_due_loop_refines)

end
