(* ===== verification/Dispute_Refinement.thy ===== *)
theory Dispute_Refinement
  imports Deposit_Refinement
begin

text \<open>
  The dispute commands and the acts refine the calendar and the ledger, too.
\<close>

section \<open>Disputes\<close>

lemma insert_disputeD:
  assumes "insert_dispute d db = Inr db'"
  shows "db_disputes db' = db_disputes db @ [d]" "db_bookings db' = db_bookings db"
    "db_unavailable db' = db_unavailable db" "db_history db' = db_history db" "db_deposits db' = db_deposits db"
    "db_operations db' = db_operations db" "db_supply db' = db_supply db" "db_next db' = Suc (db_next db)"
    "\<forall>c \<in> set (db_disputes db). dis_bookingId c \<noteq> dis_bookingId d"
  using assms by (auto simp: insert_dispute_def split: if_split_asm)

lemma open_disputeE:
  assumes "open_dispute actorId bookingId dto now db = Inr (db', r)"
  obtains b d dep e db1 where "find_booking db bookingId = Some b" "actorId \<in> {bk_borrowerId b, bk_lenderId b}"
    "bk_status b = Bk_RETURNED" "deposit_of db bookingId = Some dep" "dep_status dep = Dep_HELD"
    "dep_disputeWindowEndsAt dep = Some e" "now < e" "dispute_of db bookingId = None"
    "d = new_dispute_row db actorId bookingId dto now" "insert_dispute d db = Inr db1"
    "db' = set_deposit (dep_id dep) (\<lambda>x. x\<lparr>dep_status := Dep_DISPUTED\<rparr>) db1"
proof -
  from assms obtain b where b: "find_booking db bookingId = Some b" "actorId \<in> {bk_borrowerId b, bk_lenderId b}"
    and o: "dispute_openable b (deposit_of db bookingId) (dispute_of db bookingId) now"
    and e: "bind_result (insert_dispute (new_dispute_row db actorId bookingId dto now) db) (\<lambda>db1.
             Inr (set_deposit (dep_id (the (deposit_of db bookingId))) (\<lambda>x. x\<lparr>dep_status := Dep_DISPUTED\<rparr>) db1,
                  to_dispute_response db1 (new_dispute_row db actorId bookingId dto now))) = Inr (db', r)"
    unfolding open_dispute_def Let_def by (auto split: option.splits if_split_asm)
  from o obtain dep t where "bk_status b = Bk_RETURNED" "deposit_of db bookingId = Some dep" "dep_status dep = Dep_HELD"
    "dep_disputeWindowEndsAt dep = Some t" "now < t" "dispute_of db bookingId = None"
    by (auto simp: dispute_openable_def)
  with b e show thesis using that by (auto simp: bind_result_Inr_iff)
qed

lemma open_dispute_refines:
  assumes "open_dispute actorId bookingId dto now db = Inr (db', r)" and ok: "db_ok db"
  shows "refines db db'"
  using assms(1)
proof (rule open_disputeE)
  fix b d dep e db1
  assume dep: "deposit_of db bookingId = Some dep" "dep_status dep = Dep_HELD"
    and i: "insert_dispute d db = Inr db1"
    and db': "db' = set_deposit (dep_id dep) (\<lambda>x. x\<lparr>dep_status := Dep_DISPUTED\<rparr>) db1"
  note f = insert_disputeD [OF i]
  have r1: "refines db db1"
    by (rule refines_frame [OF db_ok_simps(1) [OF ok] f(2-7)]) (simp add: f)
  have "refines db1 db'"
    unfolding db'
    by (rule set_deposit_refines [OF refines_ok [OF r1 ok]])
       (use deposit_ofD [OF dep(1)] dep(2) f in \<open>auto simp: deposit_edge_def\<close>)
  with r1 show ?thesis by (rule refines_trans)
qed

lemma create_resolution_refines:
  assumes "create_resolution_operation disputeId depositId kind amountMinor commandKey now db = Inr db'"
    and ok: "db_ok db" and d: "depositId \<in> dep_id ` set (db_deposits db)"
  shows "refines db db'" "db_deposits db' = db_deposits db"
proof -
  show "refines db db'"
    using assms insert_operation_refines [OF _ ok] refines_refl [of db]
    by (auto simp: create_resolution_operation_def db_ok_def split: if_split_asm)
  show "db_deposits db' = db_deposits db"
    using assms(1) by (auto simp: create_resolution_operation_def split: if_split_asm dest: insert_operationD)
qed

lemma resolve_effectsE:
  assumes "resolve_effects adminId d dep reason refundMinor releaseMinor commandKey now db = Inr db'"
  obtains db1 db2 db3 n where
    "create_resolution_operation (dis_id d) (dep_id dep) Op_REFUND refundMinor commandKey now db = Inr db1"
    "create_resolution_operation (dis_id d) (dep_id dep) Op_RELEASE_TO_LENDER releaseMinor commandKey now db1 = Inr db2"
    "db3 = write_audit (Some adminId) ''FINANCIAL_DISPUTE_RESOLVED'' ''FinancialDispute'' (Some (dis_id d)) (Some reason)
      ((set_deposit (dep_id dep) (\<lambda>x. x\<lparr>dep_status := Dep_RESOLVING\<rparr>) db2)
        \<lparr>db_disputes := update_rows (\<lambda>x. dis_id x = dis_id d)
           (resolved_row adminId reason refundMinor releaseMinor now) (db_disputes db2)\<rparr>)"
    "complete_booking_after_return (dis_bookingId d) now DISPUTE_DECIDED db3 = Inr (db', n)"
proof -
  from assms obtain db1 where 1:
    "create_resolution_operation (dis_id d) (dep_id dep) Op_REFUND refundMinor commandKey now db = Inr db1"
    and "bind_result (create_resolution_operation (dis_id d) (dep_id dep) Op_RELEASE_TO_LENDER releaseMinor commandKey now db1) (\<lambda>db.
     let db = set_deposit (dep_id dep) (\<lambda>x. x\<lparr>dep_status := Dep_RESOLVING\<rparr>) db;
         db = db\<lparr>db_disputes := update_rows (\<lambda>x. dis_id x = dis_id d)
                (resolved_row adminId reason refundMinor releaseMinor now) (db_disputes db)\<rparr>;
         db = write_audit (Some adminId) ''FINANCIAL_DISPUTE_RESOLVED'' ''FinancialDispute'' (Some (dis_id d))
                (Some reason) db
     in bind_result (complete_booking_after_return (dis_bookingId d) now DISPUTE_DECIDED db) (\<lambda>(db, _). Inr db)) = Inr db'"
    unfolding resolve_effects_def by (simp only: bind_result_Inr_iff) blast
  then obtain db2 where 2:
    "create_resolution_operation (dis_id d) (dep_id dep) Op_RELEASE_TO_LENDER releaseMinor commandKey now db1 = Inr db2"
    and "bind_result (complete_booking_after_return (dis_bookingId d) now DISPUTE_DECIDED
      (write_audit (Some adminId) ''FINANCIAL_DISPUTE_RESOLVED'' ''FinancialDispute'' (Some (dis_id d)) (Some reason)
      ((set_deposit (dep_id dep) (\<lambda>x. x\<lparr>dep_status := Dep_RESOLVING\<rparr>) db2)
        \<lparr>db_disputes := update_rows (\<lambda>x. dis_id x = dis_id d)
           (resolved_row adminId reason refundMinor releaseMinor now) (db_disputes db2)\<rparr>))) (\<lambda>(db, _). Inr db) = Inr db'"
    by (auto simp: bind_result_Inr_iff Let_def set_deposit_def)
  then show thesis using that [OF 1 2 refl] by (auto simp: bind_result_Inr_iff)
qed

lemma resolve_effects_refines:
  assumes "resolve_effects adminId d dep reason refundMinor releaseMinor commandKey now db = Inr db'"
    and ok: "db_ok db" and dep: "dep \<in> set (db_deposits db)" "dep_status dep = Dep_DISPUTED"
  shows "refines db db'"
  using assms(1)
proof (rule resolve_effectsE)
  fix db1 db2 db3 n
  let ?d = "set_deposit (dep_id dep) (\<lambda>x. x\<lparr>dep_status := Dep_RESOLVING\<rparr>) db2"
  assume 1: "create_resolution_operation (dis_id d) (dep_id dep) Op_REFUND refundMinor commandKey now db = Inr db1"
    and 2: "create_resolution_operation (dis_id d) (dep_id dep) Op_RELEASE_TO_LENDER releaseMinor commandKey now db1 = Inr db2"
    and 3: "db3 = write_audit (Some adminId) ''FINANCIAL_DISPUTE_RESOLVED'' ''FinancialDispute'' (Some (dis_id d)) (Some reason)
      (?d\<lparr>db_disputes := update_rows (\<lambda>x. dis_id x = dis_id d)
           (resolved_row adminId reason refundMinor releaseMinor now) (db_disputes db2)\<rparr>)"
    and 4: "complete_booking_after_return (dis_bookingId d) now DISPUTE_DECIDED db3 = Inr (db', n)"
  have m: "dep_id dep \<in> dep_id ` set (db_deposits db)" using dep by simp
  note c1 = create_resolution_refines [OF 1 ok m]
  note ok1 = refines_ok [OF c1(1) ok]
  note c2 = create_resolution_refines [OF 2 ok1 m [folded c1(2)]]
  note ok2 = refines_ok [OF c2(1) ok1]
  have r3: "refines db2 ?d"
    by (rule set_deposit_refines [OF ok2]) (use dep c1 c2 in \<open>auto simp: deposit_edge_def\<close>)
  note ok3 = refines_ok [OF r3 ok2]
  have r4: "refines ?d db3"
    unfolding 3 by (rule refines_frame [OF db_ok_simps(1) [OF ok3]]) simp_all
  have "refines db3 db'" by (rule complete_refines [OF 4 refines_ok [OF r4 ok3]])
  then show ?thesis using c1(1) c2(1) r3 r4 by (blast intro: refines_trans)
qed

lemma resolve_disputeE:
  assumes "resolve_dispute policy adminId disputeId dto key now db = Inr (db', r)"
  obtains (repeated) "db' = db"
  | (resolved) d b dep refundMinor releaseMinor where "find_dispute db disputeId = Some d"
      "find_booking db (dis_bookingId d) = Some b" "deposit_of db (dis_bookingId d) = Some dep"
      "dis_status d = Dis_OPEN" "bk_status b = Bk_RETURNED" "dep_status dep = Dep_DISPUTED"
      "rd_refundToBorrowerMinor dto = of_int refundMinor" "rd_releaseToLenderMinor dto = of_int releaseMinor"
      "0 \<le> refundMinor" "0 \<le> releaseMinor"
      "dep_amount dep = minor_to_decimal (refundMinor + releaseMinor)"
      "resolve_effects adminId d dep (rd_reason dto) refundMinor releaseMinor (js_trim key) now db = Inr db'"
  using assms unfolding resolve_dispute_def assert_resolution_leg_def
  by (auto simp: bind_result_Inr_iff Let_def decimal_to_minor_Inr_iff is_safe_integer_def is_integer_def
      split: option.splits if_split_asm)

lemma resolve_dispute_refines:
  assumes "resolve_dispute policy adminId disputeId dto key now db = Inr (db', r)" and ok: "db_ok db"
  shows "refines db db'"
  using assms(1)
proof (cases rule: resolve_disputeE)
  case repeated
  then show ?thesis using ok by (simp add: refines_refl db_ok_def)
next
  case (resolved d b dep refundMinor releaseMinor)
  then show ?thesis
    using deposit_ofD [OF resolved(3)] by (intro resolve_effects_refines [OF resolved(12) ok]) auto
qed

lemma consume_intentD:
  assumes "consume_intent p now db = Some db'"
  shows "db_bookings db' = db_bookings db" "db_unavailable db' = db_unavailable db" "db_history db' = db_history db"
    "db_deposits db' = db_deposits db" "db_operations db' = db_operations db" "db_supply db' = db_supply db"
    "db_next db' = db_next db" "db_acts db' = db_acts db" "db_actEvidence db' = db_actEvidence db"
    "db_disputes db' = db_disputes db" "db_disputeEvidence db' = db_disputeEvidence db"
    "db_intents db' = update_rows (\<lambda>i. p i \<and> int_confirmedAt i = None) (\<lambda>i. i\<lparr>int_confirmedAt := Some now\<rparr>) (db_intents db)"
    "count_rows (\<lambda>i. p i \<and> int_confirmedAt i = None) (db_intents db) = 1"
  using assms by (auto simp: consume_intent_def Let_def split: if_split_asm)

lemma add_dispute_evidenceE:
  assumes "add_dispute_evidence actorId bookingId disputeId verified now db = Inr (db', r)"
  obtains db1 e where "consume_intent (\<lambda>i. int_id i = vu_intentId verified \<and> int_actorId i = actorId
            \<and> int_entityId i = disputeId \<and> int_purpose i = ''DISPUTE_EVIDENCE'' \<and> now < int_expiresAt i) now db = Some db1"
    "\<exists>d \<in> set (db_disputes db). dis_id d = disputeId \<and> find_participant_booking db actorId (dis_bookingId d) \<noteq> None"
    "e = \<lparr>ev_id = fresh_id db1, ev_ownerId = disputeId, ev_uploadIntentId = vu_intentId verified,
                ev_storageKey = vu_objectKey verified, ev_sha256 = vu_sha256 verified, ev_createdAt = db_now db1\<rparr>"
    "\<forall>f \<in> set (db_disputeEvidence db1). ev_uploadIntentId f \<noteq> vu_intentId verified"
    "db' = db1\<lparr>db_next := Suc (db_next db1), db_disputeEvidence := db_disputeEvidence db1 @ [e]\<rparr>"
  using assms unfolding add_dispute_evidence_def
  by (auto simp: Let_def split: if_split_asm option.splits)

lemma add_dispute_evidence_refines:
  assumes "add_dispute_evidence actorId bookingId disputeId verified now db = Inr (db', r)" and ok: "db_ok db"
  shows "refines db db'"
  using assms(1)
proof (rule add_dispute_evidenceE)
  fix db1 e
  assume c: "consume_intent (\<lambda>i. int_id i = vu_intentId verified \<and> int_actorId i = actorId
            \<and> int_entityId i = disputeId \<and> int_purpose i = ''DISPUTE_EVIDENCE'' \<and> now < int_expiresAt i) now db = Some db1"
    and e: "db' = db1\<lparr>db_next := Suc (db_next db1), db_disputeEvidence := db_disputeEvidence db1 @ [e]\<rparr>"
  show ?thesis
    unfolding e by (rule refines_frame [OF db_ok_simps(1) [OF ok]]) (simp_all add: consume_intentD [OF c])
qed

lemma list_for_admin_refines:
  assumes "list_for_admin adminId db = Inr (db', r)" and ok: "db_ok db"
  shows "refines db db'"
  using assms write_audit_refines [OF db_ok_simps(1) [OF ok]]
  by (auto simp: list_for_admin_def bind_result_Inr_iff)

section \<open>Acts\<close>

lemma create_act_transactionE:
  assumes "create_act_transaction actorId bookingId dto verified now db = Inr (db', r)"
  obtains b db1 a e where "find_participant_booking db actorId bookingId = Some b"
    "ensure_stage_state (ca_stage dto) (bk_status b) = Inr ()" "ensure_stage_actor (ca_stage dto) actorId b = Inr ()"
    "consume_intent (\<lambda>i. int_id i = vu_intentId verified \<and> int_actorId i = actorId
                \<and> int_entityId i = bookingId \<and> now < int_expiresAt i) now db = Some db1"
    "a = new_act_row db1 actorId bookingId dto now" "insert_act a e db1 = Inr db'"
  using assms unfolding create_act_transaction_def
  by (auto simp: Let_def bind_result_Inr_iff split: option.splits)

lemma insert_actD:
  assumes "insert_act a e db = Inr db'"
  shows "db' = db\<lparr>db_next := Suc (Suc (db_next db)), db_acts := db_acts db @ [a],
                  db_actEvidence := db_actEvidence db @ [e]\<rparr>"
    "\<forall>b \<in> set (db_acts db). act_bookingId b = act_bookingId a \<longrightarrow> act_stage_of b \<noteq> act_stage_of a"
  using assms by (auto simp: insert_act_def split: if_split_asm)

lemma create_act_refines:
  assumes "create_act actorId bookingId dto verification now db = Inr (db', r)" and ok: "db_ok db"
  shows "refines db db'"
proof (cases "db' = db")
  case True
  then show ?thesis using ok by (simp add: refines_refl db_ok_def)
next
  case False
  with assms(1) obtain verified where "create_act_transaction actorId bookingId dto verified now db = Inr (db', r)"
    by (auto simp: create_act_def bind_result_Inr_iff split: option.splits)
  then show ?thesis
  proof (rule create_act_transactionE)
    fix db1 a e
    assume c: "consume_intent (\<lambda>i. int_id i = vu_intentId verified \<and> int_actorId i = actorId
                \<and> int_entityId i = bookingId \<and> now < int_expiresAt i) now db = Some db1"
      and i: "insert_act a e db1 = Inr db'"
    show ?thesis
      unfolding insert_actD(1) [OF i]
      by (rule refines_frame [OF db_ok_simps(1) [OF ok]]) (simp_all add: consume_intentD [OF c])
  qed
qed

text \<open>Stamping a date on deposits.\<close>

lemma annotate_deposits_refines:
  assumes ok: "db_ok db" and f: "\<forall>d. same_amounts (f d) d \<and> dep_status (f d) = dep_status d"
  shows "refines db (set_deposit i f db)"
proof -
  have "ledger_step (ledger_of db) (ledger_of (set_deposit i f db))"
    unfolding ledger_of_def set_deposit_def using f by (auto intro!: ledger_step.annotate_deposits)
  moreover have "ids_ok (set_deposit i f db)"
    by (rule ids_ok_step [OF db_ok_simps(1) [OF ok]])
       (use f in \<open>auto simp: set_deposit_def update_rows_image same_amounts_def\<close>)
  ultimately show ?thesis by (auto simp: refines_def db_sim_def calendar_of_def set_deposit_def)
qed

lemma open_dispute_window_refines:
  "db_ok db \<Longrightarrow> refines db (open_dispute_window stage snapshot deposit confirmedAt db)"
  unfolding open_dispute_window_def
  by (auto simp: same_amounts_def refines_refl db_ok_def split: option.splits
      intro!: annotate_deposits_refines [of db, unfolded db_ok_def])

lemma open_dispute_window_frame [simp]:
  "db_bookings (open_dispute_window stage snapshot deposit t db) = db_bookings db"
  "db_unavailable (open_dispute_window stage snapshot deposit t db) = db_unavailable db"
  "db_history (open_dispute_window stage snapshot deposit t db) = db_history db"
  "db_operations (open_dispute_window stage snapshot deposit t db) = db_operations db"
  by (auto simp: open_dispute_window_def set_deposit_def split: option.splits)

text \<open>The step of the booking itself, from its expected state to the next.\<close>

text \<open>What a confirmation does when it is not a replay.\<close>

lemma confirm_actE:
  assumes "confirm_act actorId bookingId actId requestId now db = Inr (db', r)"
  obtains (repeated) "db' = db"
  | (confirmed) act b where "act \<in> set (db_acts db)" "act_id act = actId" "act_bookingId act = bookingId"
      "find_participant_booking db actorId bookingId = Some b" "act_authorId act \<noteq> actorId"
      "act_confirmedAt act = None"
      "confirm_act_guards actorId act b (payment_of db bookingId) (deposit_of db bookingId) = Inr ()"
      "confirm_act_effects actorId requestId act b (deposit_of db bookingId) now db = Inr db'"
  using assms unfolding confirm_act_def
  by (auto simp: bind_result_Inr_iff split: option.splits if_split_asm dest!: find_SomeD)

lemma confirm_act_guardsD:
  assumes "confirm_act_guards actorId act b payment deposit = Inr ()"
  shows "bk_status b = (if act_stage_of act = HANDOVER then Bk_CONFIRMED else Bk_ACTIVE)"
    "bk_termsSnapshot b \<noteq> None \<Longrightarrow> bound_snapshot b \<noteq> None"
    "act_stage_of act = HANDOVER \<Longrightarrow> handover_guard (bound_snapshot b) payment deposit = Inr ()"
  using assms unfolding confirm_act_guards_def
  by (auto simp: bind_result_Inr_iff ensure_stage_state_def Let_def split: if_split_asm)

lemma move_booking_refines:
  assumes ok: "db_ok db" and b: "b \<in> set (db_bookings db)"
    and old: "bk_status b = (if stage = HANDOVER then Bk_CONFIRMED else Bk_ACTIVE)"
    and m: "move_booking stage actorId requestId b db = Inr db'"
  shows "refines db db'"
proof -
  define new where "new = (if stage = HANDOVER then Bk_ACTIVE else Bk_RETURNED)"
  define d where "d = system_message (bk_id b) (if stage = HANDOVER then ''handover-confirmed'' else ''return-confirmed'')
      (set_booking (bk_id b) (\<lambda>b. b\<lparr>bk_status := new\<rparr>) db)"
  define h where "h = history_row_of d (bk_id b) (Some actorId)
      (if stage = HANDOVER then ''HANDOVER_CONFIRMER'' else ''RETURN_CONFIRMER'')
      (if stage = HANDOVER then ''CONFIRM_HANDOVER'' else ''CONFIRM_RETURN'') (Some (bk_status b)) new None requestId"
  note f = emit_eventD [OF m [unfolded move_booking_def Let_def new_def [symmetric] d_def [symmetric]]]
  have hs: "db_history db' = db_history db @ [h]"
    using f by (simp add: h_def d_def set_booking_def)
  have bs: "db_bookings db' = move_row (bk_id b) (\<lambda>b. b\<lparr>bk_status := new\<rparr>) (db_bookings db)"
    using f by (simp add: d_def set_booking_def move_row_def)
  have fr: "db_unavailable db' = db_unavailable db" "db_deposits db' = db_deposits db"
      "db_operations db' = db_operations db" "db_supply db' = db_supply db" "db_next db \<le> db_next db'"
    using f by (simp_all add: d_def set_booking_def)
  have h: "hist_bookingId h = bk_id b" "hist_oldStatus h = Some (bk_status b)" "hist_newStatus h = new"
    "history_allowed h"
    using old by (auto simp: h_def new_def history_allowed_simps)
  have "calendar_step (calendar_of db) (calendar_of db')"
    unfolding calendar_of_def bs fr hs
    by (rule calendar_step.move [OF b refl, of new]) (use h in \<open>auto simp: new_def same_slot_def\<close>)
  moreover have "ids_ok db'"
    by (rule ids_ok_step [OF db_ok_simps(1) [OF ok] fr(4,5)])
       (simp_all add: fr bs move_row_def update_rows_image)
  ultimately show ?thesis by (auto simp: refines_def db_sim_def ledger_of_def fr)
qed

lemma stamp_act_frame [simp]:
  "db_bookings (stamp_act i a t db) = db_bookings db" "db_unavailable (stamp_act i a t db) = db_unavailable db"
  "db_history (stamp_act i a t db) = db_history db" "db_deposits (stamp_act i a t db) = db_deposits db"
  "db_operations (stamp_act i a t db) = db_operations db" "db_payments (stamp_act i a t db) = db_payments db"
  "db_disputes (stamp_act i a t db) = db_disputes db"
  "db_supply (stamp_act i a t db) = db_supply db" "db_next (stamp_act i a t db) = db_next db"
  by (simp_all add: stamp_act_def)

lemma confirm_act_effectsE:
  assumes "confirm_act_effects actorId requestId act b deposit now db = Inr db'"
  obtains db0 db1 where
    "db0 = open_dispute_window (act_stage_of act) (bound_snapshot b) deposit now (stamp_act (act_id act) actorId now db)"
    "move_booking (act_stage_of act) actorId requestId b db0 = Inr db1"
    "db' = db1 \<or> (\<exists>n. complete_booking_after_return (bk_id b) now ZERO_DEPOSIT_RETURN db1 = Inr (db', n))"
  using assms unfolding confirm_act_effects_def Let_def
  by (auto simp: bind_result_Inr_iff split: if_split_asm)

lemma confirm_act_refines:
  assumes "confirm_act actorId bookingId actId requestId now db = Inr (db', r)" and ok: "db_ok db"
  shows "refines db db'"
  using assms(1)
proof (cases rule: confirm_actE)
  case repeated
  then show ?thesis using ok by (simp add: refines_refl db_ok_def)
next
  case (confirmed act b)
  note b = find_participant_bookingD [OF confirmed(4)]
  let ?a = "stamp_act (act_id act) actorId now db"
  have ra: "refines db ?a" by (rule refines_frame [OF db_ok_simps(1) [OF ok]]) simp_all
  have oka: "db_ok ?a" by (rule refines_ok [OF ra ok])
  from confirmed(8) show ?thesis
  proof (rule confirm_act_effectsE)
    fix db0 db1
    assume db0: "db0 = open_dispute_window (act_stage_of act) (bound_snapshot b) (deposit_of db bookingId) now ?a"
      and m: "move_booking (act_stage_of act) actorId requestId b db0 = Inr db1"
      and c: "db' = db1 \<or> (\<exists>n. complete_booking_after_return (bk_id b) now ZERO_DEPOSIT_RETURN db1 = Inr (db', n))"
    have r0: "refines ?a db0" unfolding db0 by (rule open_dispute_window_refines [OF oka])
    note ok0 = refines_ok [OF r0 oka]
    have r1: "refines db0 db1"
      by (rule move_booking_refines [OF ok0 _ confirm_act_guardsD(1) [OF confirmed(7)] m]) (simp add: db0 b)
    have "refines db1 db'"
      using c complete_refines refines_ok [OF r1 ok0] refines_refl [of db1] by (auto simp: db_ok_def)
    then show ?thesis using ra r0 r1 by (blast intro: refines_trans)
  qed
qed

end
