(* ===== verification/Paging.thy ===== *)
theory Paging
  imports Database "HOL-Library.List_Lexorder" "HOL-Library.Char_ord" "HOL-Library.Product_Lexorder"
begin

text \<open>
  Lists that a client reads page by page, newest first. The queries order by creation time
  and then by id, ask for one row more than the limit to learn whether another page follows,
  and hand out the id of a row of the page as the cursor of the next one. The interface
  \<open>paging\<close> states what a service promises of its pages; a client that follows the cursors
  then reads every row exactly once, in order.
\<close>

section \<open>Order and pages\<close>

text \<open>\<open>orderBy: [{ createdAt: 'desc' }, { id: 'desc' }]\<close>.\<close>

definition newest_first :: "('r \<Rightarrow> timestamp \<times> string) \<Rightarrow> 'r list \<Rightarrow> 'r list" where
  "newest_first key rows = rev (sort_key key rows)"

text \<open>\<open>orderBy: [{ createdAt: 'asc' }, { id: 'asc' }]\<close>.\<close>

definition oldest_first :: "('r \<Rightarrow> timestamp \<times> string) \<Rightarrow> 'r list \<Rightarrow> 'r list" where
  "oldest_first key rows = sort_key key rows"

text \<open>
  \<open>take: limit + 1\<close>, then \<open>hasMore ? rows.slice(0, limit) : rows\<close> and the id of the last row
  as the next cursor.
\<close>

definition cut_page :: "('r \<Rightarrow> string) \<Rightarrow> nat \<Rightarrow> 'r list \<Rightarrow> 'r list \<times> string option" where
  "cut_page rid limit rows =
     (let taken = take (Suc limit) rows;
          hasMore = limit < length taken;
          page = (if hasMore then take limit taken else taken)
      in (page, if hasMore then (if page = [] then None else Some (rid (last page))) else None))"

text \<open>The condition for rows strictly after a row in the descending order.\<close>

definition older_than :: "('r \<Rightarrow> timestamp \<times> string) \<Rightarrow> timestamp \<times> string \<Rightarrow> 'r list \<Rightarrow> 'r list" where
  "older_than key k rows =
     filter (\<lambda>r. fst (key r) < fst k \<or> (fst (key r) = fst k \<and> snd (key r) < snd k)) rows"

lemma cut_page_all: "length rows \<le> limit \<Longrightarrow> cut_page rid limit rows = (rows, None)"
  by (simp add: cut_page_def)

lemma cut_page_more:
  assumes "0 < limit" and "limit < length rows"
  shows "cut_page rid limit rows = (take limit rows, Some (rid (rows ! (limit - 1))))"
proof -
  have ne: "take limit rows \<noteq> []" using assms by auto
  moreover have "last (take limit rows) = rows ! (limit - 1)"
    using assms last_conv_nth [OF ne] by (simp add: min_def)
  ultimately show ?thesis using assms by (simp add: cut_page_def min_def)
qed

lemma set_newest_first [simp]: "set (newest_first key rows) = set rows"
  by (simp add: newest_first_def)

lemma set_oldest_first [simp]: "set (oldest_first key rows) = set rows"
  by (simp add: oldest_first_def)

lemma length_newest_first [simp]: "length (newest_first key rows) = length rows"
  by (simp add: newest_first_def)

lemma distinct_newest_first [simp]:
  "distinct (map k (newest_first key rows)) \<longleftrightarrow> distinct (map k rows)"
  by (simp add: newest_first_def distinct_map)

lemma filter_newest_first: "filter p (newest_first key rows) = newest_first key (filter p rows)"
  by (simp add: newest_first_def filter_sort flip: rev_filter)

lemma newest_first_desc: "sorted_wrt (\<lambda>x y. key y \<le> key x) (newest_first key rows)"
proof -
  have "sorted_wrt (\<le>) (map key (sort_key key rows))" by (rule sorted_sort_key)
  then show ?thesis by (simp add: newest_first_def sorted_wrt_rev sorted_wrt_map)
qed

text \<open>With distinct ids, the rows after a given row are those that its key excludes.\<close>

lemma older_than_newest:
  assumes rows: "newest_first key rows = pre @ r # rest" and distinct: "distinct (map (snd \<circ> key) rows)"
  shows "newest_first key (older_than key (key r) rows) = rest"
proof -
  have d: "distinct (map (snd \<circ> key) (pre @ r # rest))"
    using distinct distinct_newest_first [of "snd \<circ> key" key rows] rows by simp
  have s: "sorted_wrt (\<lambda>x y. key y \<le> key x) (pre @ r # rest)"
    using newest_first_desc [of key rows] rows by simp
  let ?p = "\<lambda>x. fst (key x) < fst (key r) \<or> (fst (key x) = fst (key r) \<and> snd (key x) < snd (key r))"
  have p: "?p x \<longleftrightarrow> key x < key r" for x
    by (simp add: less_prod_def less_le) auto
  have pre: "\<not> key x < key r" if "x \<in> set pre" for x
    using s that by (auto simp: sorted_wrt_append)
  have rest: "key x < key r" if "x \<in> set rest" for x
  proof -
    have "key x \<le> key r" using s that by (auto simp: sorted_wrt_append)
    moreover have "snd (key x) \<noteq> snd (key r)" using d that by (auto simp: image_iff)
    ultimately show ?thesis by (auto simp: order.strict_iff_order)
  qed
  have "newest_first key (older_than key (key r) rows) = filter ?p (newest_first key rows)"
    by (simp add: older_than_def filter_newest_first)
  also have "\<dots> = rest"
    unfolding rows using pre rest by (simp add: p filter_empty_conv filter_id_conv)
  finally show ?thesis .
qed

text \<open>
  The page after a row of a table: looking the cursor up finds that row, and the keys after it
  are the rest of the list.
\<close>

lemma keyset_next_page:
  assumes rows: "newest_first key (filter p table) = pre @ r # rest"
    and distinct: "distinct (map rid (newest_first key (filter p table)))" and rid: "rid = snd \<circ> key"
  shows "List.find (\<lambda>x. rid x = rid r \<and> p x) table = Some r"
    and "newest_first key (older_than key (key r) (filter p table)) = rest"
proof -
  have d: "distinct (map rid (filter p table))" using distinct by simp
  have "r \<in> set (newest_first key (filter p table))" using rows by simp
  then have r: "r \<in> set (filter p table)" by simp
  obtain x where x: "List.find (\<lambda>x. rid x = rid r \<and> p x) table = Some x"
    using r by (cases "List.find (\<lambda>x. rid x = rid r \<and> p x) table") (auto simp: find_None_iff_ball)
  then have "x \<in> set (filter p table)" "rid x = rid r" by (auto dest: find_SomeD)
  then show "List.find (\<lambda>x. rid x = rid r \<and> p x) table = Some r" using distinct_key_eq [OF d _ r] x by blast
  show "newest_first key (older_than key (key r) (filter p table)) = rest"
    using rows d by (intro older_than_newest) (simp_all add: rid)
qed

section \<open>The interface of a paged list\<close>

text \<open>
  \<open>rows\<close> are the rows the client may see, in the order of the list, and \<open>page limit cursor\<close>
  the answer of the service. A positive limit and distinct ids are the client's part.
\<close>

locale paging =
  fixes rows :: "'s \<Rightarrow> 'r list"
    and rid :: "'r \<Rightarrow> string"
    and page :: "'s \<Rightarrow> nat \<Rightarrow> string option \<Rightarrow> ('r list \<times> string option) option"
  assumes first_page: "page s limit None = Some (cut_page rid limit (rows s))"
    and next_page: "rows s = pre @ r # rest \<Longrightarrow> distinct (map rid (rows s)) \<Longrightarrow>
      page s limit (Some (rid r)) = Some (cut_page rid limit rest)"
begin

text \<open>A client that follows the cursors, at most \<open>n\<close> pages.\<close>

fun read_all :: "'s \<Rightarrow> nat \<Rightarrow> nat \<Rightarrow> string option \<Rightarrow> 'r list option" where
  "read_all s limit 0 cursor = None"
| "read_all s limit (Suc n) cursor =
     (case page s limit cursor of
        None \<Rightarrow> None
      | Some (items, None) \<Rightarrow> Some items
      | Some (items, Some c) \<Rightarrow> map_option (\<lambda>more. items @ more) (read_all s limit n (Some c)))"

lemma read_rest:
  assumes "distinct (map rid (rows s))" and "0 < limit"
  shows "\<lbrakk>rows s = pre @ rest; page s limit cursor = Some (cut_page rid limit rest); length rest < n\<rbrakk>
    \<Longrightarrow> read_all s limit n cursor = Some rest"
proof (induction n arbitrary: pre rest cursor)
  case (Suc n)
  show ?case
  proof (cases "length rest \<le> limit")
    case True
    then show ?thesis using Suc.prems(2) by (simp add: cut_page_all)
  next
    case False
    define r where "r = rest ! (limit - 1)"
    have split: "rest = take (limit - 1) rest @ r # drop limit rest"
      using False assms(2) id_take_nth_drop [of "limit - 1" rest] by (simp add: r_def)
    have "rows s = (pre @ take (limit - 1) rest) @ r # drop limit rest"
      using Suc.prems(1) split by simp
    from next_page [OF this assms(1)]
    have "page s limit (Some (rid r)) = Some (cut_page rid limit (drop limit rest))" .
    then have "read_all s limit n (Some (rid r)) = Some (drop limit rest)"
      using False assms(2) Suc.prems by (intro Suc.IH [of "pre @ take limit rest"]) auto
    moreover have "cut_page rid limit rest = (take limit rest, Some (rid r))"
      unfolding r_def using False assms(2) by (intro cut_page_more) auto
    ultimately show ?thesis using Suc.prems(2) by simp
  qed
qed simp

theorem read_all_complete:
  assumes "distinct (map rid (rows s))" and "0 < limit" and "length (rows s) < n"
  shows "read_all s limit n None = Some (rows s)"
  by (rule read_rest [OF assms(1,2), of "[]"]) (use assms(3) first_page in auto)

end

end
