(* ===== verification/Users_Service.thy ===== *)
theory Users_Service
  imports Paging Deposit_Refinement
begin

text \<open>
  Accounts (\<open>users/users.service.ts\<close>): the profile, the blocks between users, and the closure of
  an account, which anonymizes it at once or, while obligations are open, later by the
  finalizer. Blocking a user cancels the open requests between the two; that command moves
  bookings, so its refinement of the calendar and the ledger is proved here.
\<close>

section \<open>Profiles\<close>

record user_profile =
  upf_id :: string
  upf_phone :: string
  upf_name :: "string option"
  upf_city :: "string option"
  upf_avatarUrl :: "string option"
  upf_role :: user_role
  upf_kycStatus :: "kyc_status option"
  upf_isBlocked :: bool
  upf_createdAt :: timestamp
  upf_updatedAt :: timestamp

text \<open>A field of the request is absent (\<open>None\<close>) or present, and then null (\<open>Some None\<close>) or a text.\<close>

record update_profile_dto =
  ud_name :: "string option option"
  ud_city :: "string option option"

definition to_profile_response :: "user_row \<Rightarrow> user_profile" where
  "to_profile_response u =
     \<lparr>upf_id = us_id u, upf_phone = us_phone u, upf_name = us_name u, upf_city = us_city u,
      upf_avatarUrl = us_avatarUrl u, upf_role = us_role u, upf_kycStatus = us_kycStatus u,
      upf_isBlocked = us_isBlocked u, upf_createdAt = us_createdAt u, upf_updatedAt = us_updatedAt u\<rparr>"

definition find_active_user :: "db \<Rightarrow> string \<Rightarrow> user_row result" where
  "find_active_user db userId =
     (case find_user db userId of
        None \<Rightarrow> Inl (Not_found ''user'')
      | Some u \<Rightarrow>
          if us_deletedAt u \<noteq> None then Inl (Not_found ''user'')
          else if us_isBlocked u then Inl (Forbidden ''user-blocked'')
          else Inr u)"

definition get_my_profile :: "db \<Rightarrow> string \<Rightarrow> user_profile result" where
  "get_my_profile db userId = bind_result (find_active_user db userId) (\<lambda>u. Inr (to_profile_response u))"

definition profile_update :: "update_profile_dto \<Rightarrow> user_row \<Rightarrow> user_row" where
  "profile_update dto u =
     u\<lparr>us_name := (case ud_name dto of None \<Rightarrow> us_name u | Some n \<Rightarrow> n),
       us_city := (case ud_city dto of None \<Rightarrow> us_city u | Some c \<Rightarrow> c)\<rparr>"

definition set_user :: "string \<Rightarrow> (user_row \<Rightarrow> user_row) \<Rightarrow> db \<Rightarrow> db" where
  "set_user i f db = db\<lparr>db_users := update_rows (\<lambda>u. us_id u = i) f (db_users db)\<rparr>"

definition update_my_profile :: "string \<Rightarrow> update_profile_dto \<Rightarrow> timestamp \<Rightarrow> db \<Rightarrow> (db \<times> user_profile) result" where
  "update_my_profile userId dto now db =
     bind_result (find_active_user db userId) (\<lambda>u.
     if ud_name dto = None \<and> ud_city dto = None then Inr (db, to_profile_response u)
     else let f = (\<lambda>u. profile_update dto u\<lparr>us_updatedAt := now\<rparr>)
          in Inr (set_user userId f db, to_profile_response (f u)))"

section \<open>Blocks between users\<close>

definition BOOKING_PARTICIPANT_BLOCKED_REASON :: string where
  "BOOKING_PARTICIPANT_BLOCKED_REASON = ''PARTICIPANT_BLOCKED''"

record user_block_response =
  ub_id :: string
  ub_blocked :: "string \<times> string option"
  ub_createdAt :: timestamp

definition block_response_of :: "db \<Rightarrow> block_row \<Rightarrow> user_block_response" where
  "block_response_of db x =
     \<lparr>ub_id = blk_id x, ub_blocked = (blk_blockedId x, Option.bind (find_user db (blk_blockedId x)) us_name),
      ub_createdAt = blk_createdAt x\<rparr>"

definition list_blocked_users :: "db \<Rightarrow> string \<Rightarrow> user_block_response list" where
  "list_blocked_users db userId =
     map (block_response_of db)
       (newest_first (\<lambda>x. (blk_createdAt x, blk_id x)) (filter (\<lambda>x. blk_blockerId x = userId) (db_blocks db)))"

definition between :: "string \<Rightarrow> string \<Rightarrow> booking_row \<Rightarrow> bool" where
  "between a b x \<longleftrightarrow>
     (bk_borrowerId x = a \<and> bk_lenderId x = b) \<or> (bk_borrowerId x = b \<and> bk_lenderId x = a)"

definition upsert_block :: "string \<Rightarrow> string \<Rightarrow> db \<Rightarrow> db \<times> block_row" where
  "upsert_block blockerId blockedId db =
     (case List.find (\<lambda>x. blk_blockerId x = blockerId \<and> blk_blockedId x = blockedId) (db_blocks db) of
        Some x \<Rightarrow> (db, x)
      | None \<Rightarrow>
          let x = \<lparr>blk_id = fresh_id db, blk_blockerId = blockerId, blk_blockedId = blockedId, blk_createdAt = db_now db\<rparr>
          in (db\<lparr>db_next := Suc (db_next db), db_blocks := db_blocks db @ [x]\<rparr>, x))"

fun emit_events :: "string list \<Rightarrow> booking_event_type \<Rightarrow> db \<Rightarrow> db result" where
  "emit_events [] e db = Inr db"
| "emit_events (i # ids) e db = bind_result (emit_event i e db) (emit_events ids e)"

definition cancel_blocked :: "string \<Rightarrow> string \<Rightarrow> string list \<Rightarrow> db \<Rightarrow> db result" where
  "cancel_blocked blockerId requestId ids db =
     emit_events ids Ev_CANCELLED
      (fold (\<lambda>i. record_transition i (Some blockerId) ''PARTICIPANT'' ''BLOCK_COUNTERPARTY''
          (Some Bk_PENDING) Bk_CANCELLED (Some BOOKING_PARTICIPANT_BLOCKED_REASON) requestId) ids
        (fold (\<lambda>i. system_message i ''participant-blocked'') ids
          (db\<lparr>db_bookings := update_rows (\<lambda>b. bk_id b \<in> set ids \<and> bk_status b = Bk_PENDING)
              (close_booking Bk_CANCELLED (Some BOOKING_PARTICIPANT_BLOCKED_REASON)) (db_bookings db)\<rparr>)))"

definition block_user ::
    "string \<Rightarrow> string \<Rightarrow> string \<Rightarrow> timestamp \<Rightarrow> db \<Rightarrow> (db \<times> user_block_response) result" where
  "block_user blockerId blockedId requestId now db =
     (if blockerId = blockedId then Inl (Bad_request ''block-self'')
      else if \<not> exists_row (\<lambda>u. us_id u = blockedId \<and> us_deletedAt u = None \<and> \<not> us_isBlocked u) (db_users db)
      then Inl (Not_found ''user'')
      else case upsert_block blockerId blockedId db of (db1, block) \<Rightarrow>
        bind_result (cancel_blocked blockerId requestId
            (map bk_id (filter (\<lambda>b. active_pending now b \<and> between blockerId blockedId b) (db_bookings db1))) db1)
          (\<lambda>db2. Inr (db2, block_response_of db2 block)))"

definition unblock_user :: "string \<Rightarrow> string \<Rightarrow> db \<Rightarrow> db" where
  "unblock_user blockerId blockedId db =
     db\<lparr>db_blocks := filter (\<lambda>x. \<not> (blk_blockerId x = blockerId \<and> blk_blockedId x = blockedId)) (db_blocks db)\<rparr>"

section \<open>Closing an account\<close>

record account_closure =
  ac_anonymized :: bool
  ac_requestedAt :: timestamp
  ac_anonymizedAt :: "timestamp option"

definition unfinished :: "booking_row \<Rightarrow> bool" where
  "unfinished b \<longleftrightarrow> bk_status b \<in> {Bk_PENDING, Bk_CONFIRMED, Bk_ACTIVE, Bk_RETURNED}"

definition participates :: "db \<Rightarrow> string \<Rightarrow> string \<Rightarrow> bool" where
  "participates db userId bookingId =
     (case find_booking db bookingId of None \<Rightarrow> False | Some b \<Rightarrow> is_participant userId b)"

definition has_deletion_blockers :: "db \<Rightarrow> string \<Rightarrow> bool" where
  "has_deletion_blockers db userId =
     (exists_row (\<lambda>b. is_participant userId b \<and> unfinished b) (db_bookings db)
      \<or> exists_row (\<lambda>t. tk_type t = Tk_DISPUTE \<and> tk_status t \<in> {Tk_OPEN, Tk_IN_PROGRESS}
           \<and> (tk_userId t = userId \<or> (case tk_bookingId t of None \<Rightarrow> False | Some i \<Rightarrow> participates db userId i)))
           (dk_tickets (db_desk db))
      \<or> exists_row (\<lambda>p. pay_userId p = userId \<or> participates db userId (pay_bookingId p)) (db_payments db)
      \<or> exists_row (\<lambda>k. kyc_userId k = userId) (dk_kyc (db_desk db)))"

definition anonymized_user :: "timestamp \<Rightarrow> user_row \<Rightarrow> user_row" where
  "anonymized_user anonymizedAt u =
     u\<lparr>us_phone := ''deleted:'' @ us_id u, us_name := None, us_city := None, us_avatarUrl := None,
       us_anonymizedAt := Some anonymizedAt\<rparr>"

definition closed_user :: "timestamp \<Rightarrow> user_row \<Rightarrow> user_row" where
  "closed_user now u = u\<lparr>us_sessionVersion := us_sessionVersion u + 1, us_deletedAt := Some now, us_updatedAt := now\<rparr>"

definition delete_me :: "string \<Rightarrow> timestamp \<Rightarrow> db \<Rightarrow> (db \<times> account_closure) result" where
  "delete_me userId now db =
     bind_result (find_active_user db userId) (\<lambda>_.
     let hasBlockers = has_deletion_blockers db userId
     in Inr (set_user userId (\<lambda>u. if hasBlockers then closed_user now u else anonymized_user now (closed_user now u)) db,
             \<lparr>ac_anonymized = (\<not> hasBlockers), ac_requestedAt = now,
              ac_anonymizedAt = (if hasBlockers then None else Some now)\<rparr>))"

definition closure_pending :: "user_row \<Rightarrow> bool" where
  "closure_pending u \<longleftrightarrow> us_deletedAt u \<noteq> None \<and> us_anonymizedAt u = None"

definition finalize_one :: "timestamp \<Rightarrow> string \<Rightarrow> db \<Rightarrow> db \<times> nat" where
  "finalize_one now userId db =
     (if has_deletion_blockers db userId then (db, 0)
      else let p = (\<lambda>u. us_id u = userId \<and> closure_pending u)
           in (db\<lparr>db_users := update_rows p (\<lambda>u. anonymized_user now u\<lparr>us_updatedAt := now\<rparr>) (db_users db)\<rparr>,
               count_rows p (db_users db)))"

fun finalize_loop :: "timestamp \<Rightarrow> string list \<Rightarrow> nat \<Rightarrow> db \<Rightarrow> db \<times> nat" where
  "finalize_loop now [] finalizedCount db = (db, finalizedCount)"
| "finalize_loop now (i # ids) finalizedCount db =
     (case finalize_one now i db of (db', n) \<Rightarrow> finalize_loop now ids (finalizedCount + n) db')"

definition finalize_closures :: "timestamp \<Rightarrow> db \<Rightarrow> db \<times> nat" where
  "finalize_closures now db = finalize_loop now (map us_id (filter closure_pending (db_users db))) 0 db"

section \<open>Blocking refines the calendar\<close>

lemma emit_events_frame:
  "emit_events ids e db = Inr db' \<Longrightarrow>
     \<exists>n xs. db' = db\<lparr>db_next := n, db_outbox := xs\<rparr> \<and> db_next db \<le> n"
proof (induction ids arbitrary: db)
  case Nil
  then show ?case by (intro exI [of _ "db_next db"] exI [of _ "db_outbox db"]) simp
next
  case (Cons i ids)
  from Cons.prems obtain d where d: "emit_event i e db = Inr d" "emit_events ids e d = Inr db'"
    by (auto simp: bind_result_Inr_iff)
  from Cons.IH [OF d(2)] emit_eventD [OF d(1)] show ?case by auto
qed

lemma upsert_block_frame:
  assumes "upsert_block a b db = (db', x)"
  shows "db_bookings db' = db_bookings db" "db_history db' = db_history db" "db_unavailable db' = db_unavailable db"
    "db_supply db' = db_supply db" "db_next db \<le> db_next db'" "db_deposits db' = db_deposits db"
    "db_operations db' = db_operations db" "db_disputes db' = db_disputes db" "db_users db' = db_users db"
    "db_outbox db' = db_outbox db" "blk_blockerId x = a" "blk_blockedId x = b" "x \<in> set (db_blocks db')"
  using assms by (auto simp: upsert_block_def Let_def split: option.splits dest!: find_SomeD)

lemma cancel_blocked_frame:
  assumes "cancel_blocked blockerId requestId ids db = Inr db'"
  shows "db_bookings db' = update_rows (\<lambda>b. bk_id b \<in> set ids \<and> bk_status b = Bk_PENDING)
      (close_booking Bk_CANCELLED (Some BOOKING_PARTICIPANT_BLOCKED_REASON)) (db_bookings db)"
    "db_unavailable db' = db_unavailable db" "db_supply db' = db_supply db" "db_next db \<le> db_next db'"
    "db_deposits db' = db_deposits db" "db_operations db' = db_operations db" "db_blocks db' = db_blocks db"
    "\<exists>hs. db_history db' = db_history db @ hs \<and> list_all2 (\<lambda>i h. is_entry h i ''PARTICIPANT'' ''BLOCK_COUNTERPARTY''
        (Some Bk_PENDING) Bk_CANCELLED) ids hs"
proof -
  define d1 where "d1 = fold (\<lambda>i. system_message i ''participant-blocked'') ids
    (db\<lparr>db_bookings := update_rows (\<lambda>b. bk_id b \<in> set ids \<and> bk_status b = Bk_PENDING)
       (close_booking Bk_CANCELLED (Some BOOKING_PARTICIPANT_BLOCKED_REASON)) (db_bookings db)\<rparr>)"
  have d1: "db_bookings d1 = update_rows (\<lambda>b. bk_id b \<in> set ids \<and> bk_status b = Bk_PENDING)
      (close_booking Bk_CANCELLED (Some BOOKING_PARTICIPANT_BLOCKED_REASON)) (db_bookings db)"
    "db_unavailable d1 = db_unavailable db" "db_supply d1 = db_supply db" "db_next db \<le> db_next d1"
    "db_deposits d1 = db_deposits db" "db_operations d1 = db_operations db" "db_blocks d1 = db_blocks db"
    "db_history d1 = db_history db"
    unfolding d1_def
    by (simp_all add: fold_frame [where s = db_bookings] fold_frame [where s = db_deposits]
        fold_frame [where s = db_unavailable] fold_frame [where s = db_supply] fold_frame [where s = db_blocks]
        fold_frame [where s = db_operations] fold_frame [where s = db_history])
       (rule order_trans [OF _ fold_mono]; simp)
  define d2 where "d2 = fold (\<lambda>i. record_transition i (Some blockerId) ''PARTICIPANT'' ''BLOCK_COUNTERPARTY''
      (Some Bk_PENDING) Bk_CANCELLED (Some BOOKING_PARTICIPANT_BLOCKED_REASON) requestId) ids d1"
  have d2: "db_bookings d2 = db_bookings d1" "db_unavailable d2 = db_unavailable d1" "db_supply d2 = db_supply d1"
    "db_next d1 \<le> db_next d2" "db_deposits d2 = db_deposits d1" "db_operations d2 = db_operations d1"
    "db_blocks d2 = db_blocks d1"
    unfolding d2_def
    by (simp_all add: fold_frame [where s = db_bookings] fold_frame [where s = db_deposits]
        fold_frame [where s = db_unavailable] fold_frame [where s = db_supply] fold_frame [where s = db_blocks]
        fold_frame [where s = db_operations])
       (rule order_trans [OF _ fold_mono]; simp)
  have "emit_events ids Ev_CANCELLED d2 = Inr db'"
    using assms by (simp add: cancel_blocked_def d1_def d2_def)
  then obtain n xs where e: "db' = d2\<lparr>db_next := n, db_outbox := xs\<rparr>" "db_next d2 \<le> n"
    using emit_events_frame by blast
  show "db_bookings db' = update_rows (\<lambda>b. bk_id b \<in> set ids \<and> bk_status b = Bk_PENDING)
      (close_booking Bk_CANCELLED (Some BOOKING_PARTICIPANT_BLOCKED_REASON)) (db_bookings db)"
    "db_unavailable db' = db_unavailable db" "db_supply db' = db_supply db" "db_next db \<le> db_next db'"
    "db_deposits db' = db_deposits db" "db_operations db' = db_operations db" "db_blocks db' = db_blocks db"
    using e d1 d2 by simp_all
  show "\<exists>hs. db_history db' = db_history db @ hs \<and> list_all2 (\<lambda>i h. is_entry h i ''PARTICIPANT'' ''BLOCK_COUNTERPARTY''
        (Some Bk_PENDING) Bk_CANCELLED) ids hs"
    using fold_record_history [of "Some blockerId" "''PARTICIPANT''" "''BLOCK_COUNTERPARTY''" "Some Bk_PENDING"
        Bk_CANCELLED "Some BOOKING_PARTICIPANT_BLOCKED_REASON" requestId ids d1]
    unfolding d2_def [symmetric] by (simp add: e d1(8))
qed

lemma block_userE:
  assumes "block_user blockerId blockedId requestId now db = Inr (db', r)"
  obtains d x where "blockerId \<noteq> blockedId" "upsert_block blockerId blockedId db = (d, x)"
    "cancel_blocked blockerId requestId
       (map bk_id (filter (\<lambda>b. active_pending now b \<and> between blockerId blockedId b) (db_bookings db))) d = Inr db'"
  using assms upsert_block_frame(1) unfolding block_user_def
  by (auto simp: bind_result_Inr_iff split: if_splits prod.splits)

lemma block_user_refines:
  assumes "block_user blockerId blockedId requestId now db = Inr (db', r)" and ok: "db_ok db"
  shows "refines db db'"
  using assms(1)
proof (rule block_userE)
  fix d x
  let ?ids = "map bk_id (filter (\<lambda>b. active_pending now b \<and> between blockerId blockedId b) (db_bookings db))"
  assume u: "upsert_block blockerId blockedId db = (d, x)"
    and c: "cancel_blocked blockerId requestId ?ids d = Inr db'"
  note u = upsert_block_frame [OF u] and c = cancel_blocked_frame [OF c]
  have ids: "ids_ok db" and cal: "calendar_ok (calendar_of db)" using ok by (simp_all add: db_ok_def)
  have dist: "distinct (map bk_id (db_bookings db))" by (rule calendar_distinct [OF cal])
  from c(8) obtain hs where hs: "db_history db' = db_history db @ hs"
    "list_all2 (\<lambda>i h. is_entry h i ''PARTICIPANT'' ''BLOCK_COUNTERPARTY'' (Some Bk_PENDING) Bk_CANCELLED) ?ids hs"
    unfolding u(2) by blast
  have bs: "db_bookings db' = update_rows (\<lambda>b. bk_id b \<in> set ?ids \<and> bk_status b = Bk_PENDING)
      (close_booking Bk_CANCELLED (Some BOOKING_PARTICIPANT_BLOCKED_REASON)) (db_bookings db)"
    unfolding c(1) u(1) ..
  have "calendar_steps (calendar_of db) (calendar_of db')"
    unfolding calendar_of_def bs c(2) u(3) hs(1)
  proof (rule cancel_many_steps [OF dist _ _ _ hs(2)])
    show "distinct ?ids" using dist by (rule distinct_map_filter)
    show "\<forall>i \<in> set ?ids. \<exists>b \<in> set (db_bookings db). bk_id b = i \<and> bk_status b = Bk_PENDING"
      by (auto simp: active_pending_def)
    show "history_allowed h" if "is_entry h i ''PARTICIPANT'' ''BLOCK_COUNTERPARTY'' (Some Bk_PENDING) Bk_CANCELLED" for h i
      using that by (auto simp: is_entry_def history_allowed_simps)
  qed simp
  moreover have "ids_ok db'"
  proof (rule ids_ok_step [OF ids])
    show "bk_id ` set (db_bookings db') \<subseteq> bk_id ` set (db_bookings db) \<union> Collect (issued db')"
      unfolding bs by (simp add: update_rows_ids)
  qed (use u c in simp_all)
  moreover have "ledger_of db' = ledger_of db" using u c by (simp add: ledger_of_def)
  ultimately show ?thesis by (simp add: refines_def db_sim_def)
qed

end
