(* ===== verification/Marketplace.thy ===== *)
theory Marketplace
  imports Dispute_Refinement Users_Service
begin

text \<open>
  The marketplace as a whole: the database with the provider's memory, the commands that the
  users, the administrators and the background workers issue in any order, and the states
  they reach. The other services of the server (profiles, listings, messages, notifications)
  may change their own tables at any time.
\<close>

section \<open>State and commands\<close>

record server =
  su_config :: config
  su_policy :: marketplace_policy
  su_payload_hash :: "create_booking_dto \<Rightarrow> string"
  su_sha256_hex :: "string \<Rightarrow> string"

record world =
  w_db :: db
  w_provider :: provider

datatype command =
  Create_booking string create_booking_dto string string timestamp
| Confirm_booking string string string timestamp
| Cancel_booking string string string timestamp
| Expire_bookings string timestamp
| Block_period string string period_dto string
| Unblock_period string string string
| Create_act string string create_act_dto "verified_upload result" timestamp
| Confirm_act string string string string timestamp
| Checkout string string fake_outcome string timestamp
| Settle_booking string timestamp
| Run_operations timestamp
| Run_deadlines timestamp
| Retry_operation string string string timestamp
| Open_dispute string string create_dispute_dto timestamp
| Resolve_dispute string string resolve_dispute_dto string timestamp
| Add_evidence string string string verified_upload timestamp
| List_disputes string
| Block_user string string string timestamp

text \<open>A transaction that fails leaves the database as it was.\<close>

definition commit :: "db \<Rightarrow> (db \<times> 'a) result \<Rightarrow> db" where
  "commit db r = (case r of Inl _ \<Rightarrow> db | Inr (db', _) \<Rightarrow> db')"

fun exec_db :: "server \<Rightarrow> command \<Rightarrow> db \<Rightarrow> db" where
  "exec_db su (Create_booking borrowerId dto requestId today now) db =
     commit db (create_booking (su_config su) (su_policy su) (su_payload_hash su) borrowerId dto requestId today now db)"
| "exec_db su (Confirm_booking lenderId bookingId requestId now) db =
     commit db (confirm_booking lenderId bookingId requestId now db)"
| "exec_db su (Cancel_booking actorId bookingId requestId now) db =
     commit db (cancel_pending (su_policy su) actorId bookingId requestId now db)"
| "exec_db su (Expire_bookings requestId now) db = fst (expire_pending requestId now db)"
| "exec_db su (Block_period ownerId itemId dto today) db = commit db (create_unavailable ownerId itemId dto today db)"
| "exec_db su (Unblock_period ownerId itemId periodId) db =
     (case remove_unavailable ownerId itemId periodId db of Inl _ \<Rightarrow> db | Inr db' \<Rightarrow> db')"
| "exec_db su (Create_act actorId bookingId dto verification now) db =
     commit db (create_act actorId bookingId dto verification now db)"
| "exec_db su (Confirm_act actorId bookingId actId requestId now) db =
     commit db (confirm_act actorId bookingId actId requestId now db)"
| "exec_db su (Settle_booking bookingId now) db = commit db (complete_after_deposit_settled bookingId now db)"
| "exec_db su (Run_deadlines now) db = fst (process_due now db)"
| "exec_db su (Retry_operation adminId operationId key now) db =
     commit db (retry_failed_operation (su_policy su) adminId operationId key now db)"
| "exec_db su (Open_dispute actorId bookingId dto now) db = commit db (open_dispute actorId bookingId dto now db)"
| "exec_db su (Resolve_dispute adminId disputeId dto key now) db =
     commit db (resolve_dispute (su_policy su) adminId disputeId dto key now db)"
| "exec_db su (Add_evidence actorId bookingId disputeId verified now) db =
     commit db (add_dispute_evidence actorId bookingId disputeId verified now db)"
| "exec_db su (Block_user blockerId blockedId requestId now) db =
     commit db (block_user blockerId blockedId requestId now db)"
| "exec_db su (List_disputes adminId) db = commit db (list_for_admin adminId db)"
| "exec_db su _ db = db"

fun exec :: "server \<Rightarrow> command \<Rightarrow> world \<Rightarrow> world" where
  "exec su (Checkout borrowerId bookingId outcome key now) w =
     (case checkout (su_sha256_hex su) (su_policy su) borrowerId bookingId outcome key now (w_db w) (w_provider w) of
        (db', prov', _) \<Rightarrow> \<lparr>w_db = db', w_provider = prov'\<rparr>)"
| "exec su (Run_operations now) w =
     (case process_pending_operations (su_sha256_hex su) (su_policy su) now (w_db w) (w_provider w) of
        (db', prov', _) \<Rightarrow> \<lparr>w_db = db', w_provider = prov'\<rparr>)"
| "exec su c w = w\<lparr>w_db := exec_db su c (w_db w)\<rparr>"

text \<open>What the rest of the server may do: anything to the tables of other components.\<close>

definition unrelated :: "db \<Rightarrow> db \<Rightarrow> bool" where
  "unrelated db db' \<longleftrightarrow>
     db_supply db' = db_supply db \<and> db_next db \<le> db_next db' \<and> db_bookings db' = db_bookings db
     \<and> db_unavailable db' = db_unavailable db \<and> db_history db' = db_history db
     \<and> db_deposits db' = db_deposits db \<and> db_operations db' = db_operations db
     \<and> db_payments db' = db_payments db \<and> db_disputes db' = db_disputes db"

inductive system_step :: "server \<Rightarrow> world \<Rightarrow> world \<Rightarrow> bool" for su where
  command: "system_step su w (exec su c w)"
| environment: "unrelated (w_db w) db' \<Longrightarrow> system_step su w (w\<lparr>w_db := db'\<rparr>)"

abbreviation system_steps :: "server \<Rightarrow> world \<Rightarrow> world \<Rightarrow> bool" where
  "system_steps su \<equiv> (system_step su)\<^sup>*\<^sup>*"

definition initial :: "world \<Rightarrow> bool" where
  "initial w \<longleftrightarrow>
     inj (db_supply (w_db w)) \<and> db_bookings (w_db w) = [] \<and> db_unavailable (w_db w) = []
     \<and> db_history (w_db w) = [] \<and> db_deposits (w_db w) = [] \<and> db_operations (w_db w) = []
     \<and> db_payments (w_db w) = [] \<and> db_disputes (w_db w) = [] \<and> w_provider w = Map.empty"

definition reachable :: "server \<Rightarrow> world \<Rightarrow> bool" where
  "reachable su w \<longleftrightarrow> (\<exists>v. initial v \<and> system_steps su v w)"

definition run :: "server \<Rightarrow> command list \<Rightarrow> world \<Rightarrow> world" where
  "run su cs w = fold (exec su) cs w"

lemma run_steps: "system_steps su w (run su cs w)"
proof (induction cs arbitrary: w)
  case (Cons c cs)
  have "system_step su w (exec su c w)" by (rule system_step.command)
  then show ?case using Cons [of "exec su c w"] by (simp add: run_def converse_rtranclp_into_rtranclp)
qed (simp add: run_def)

lemma run_reachable: "reachable su w \<Longrightarrow> reachable su (run su cs w)"
  unfolding reachable_def using run_steps by (blast intro: rtranclp_trans)

lemma reachable_step: "reachable su w \<Longrightarrow> system_step su w w' \<Longrightarrow> reachable su w'"
  unfolding reachable_def by (blast intro: rtranclp.rtrancl_into_rtrancl)

section \<open>Every step refines the calendar and the ledger\<close>

lemma commit_refines:
  "(\<And>db' x. r = Inr (db', x) \<Longrightarrow> refines db db') \<Longrightarrow> db_ok db \<Longrightarrow> refines db (commit db r)"
  by (auto simp: commit_def db_ok_def intro: refines_refl split: sum.splits)

lemmas command_refines = create_booking_refines confirm_booking_refines cancel_pending_refines
  create_unavailable_refines create_act_refines confirm_act_refines retry_refines open_dispute_refines
  resolve_dispute_refines add_dispute_evidence_refines list_for_admin_refines block_user_refines

lemma exec_db_refines:
  assumes "db_ok db"
  shows "refines db (exec_db su c db)"
proof (cases c)
  case (Expire_bookings requestId now)
  then show ?thesis using expire_pending_refines [OF _ assms] by (cases "expire_pending requestId now db") simp
next
  case (Run_deadlines now)
  then show ?thesis using process_due_refines [OF _ assms] by (cases "process_due now db") simp
next
  case (Unblock_period ownerId itemId periodId)
  then show ?thesis
    using remove_unavailable_refines [OF _ assms] refines_refl assms by (auto simp: db_ok_def split: sum.splits)
next
  case (Settle_booking bookingId now)
  then show ?thesis
    using complete_refines [OF _ assms] by (auto simp: complete_after_deposit_settled_def intro: commit_refines assms)
qed (auto intro!: commit_refines simp: assms refines_refl db_ok_simps(1) [OF assms]
      intro: command_refines)

lemma exec_refines:
  assumes "db_ok (w_db w)"
  shows "refines (w_db w) (w_db (exec su c w))"
proof (cases "\<exists>a b d e t. c = Checkout a b d e t")
  case True
  then obtain a b d e t where c: "c = Checkout a b d e t" by blast
  obtain db' prov' r where r: "checkout (su_sha256_hex su) (su_policy su) a b d e t (w_db w) (w_provider w) = (db', prov', r)"
    by (cases "checkout (su_sha256_hex su) (su_policy su) a b d e t (w_db w) (w_provider w)")
  then show ?thesis using checkout_refines [OF r assms] c by simp
next
  case F: False
  show ?thesis
  proof (cases "\<exists>t. c = Run_operations t")
    case True
    then obtain t where c: "c = Run_operations t" by blast
    obtain db' prov' r where r: "process_pending_operations (su_sha256_hex su) (su_policy su) t (w_db w) (w_provider w) = (db', prov', r)"
      by (cases "process_pending_operations (su_sha256_hex su) (su_policy su) t (w_db w) (w_provider w)")
    then show ?thesis using process_pending_operations_refines [OF r assms] c by simp
  next
    case False
    then have "exec su c w = w\<lparr>w_db := exec_db su c (w_db w)\<rparr>" using F by (cases c) auto
    then show ?thesis using exec_db_refines [OF assms] by simp
  qed
qed

lemma system_step_refines:
  assumes "system_step su w w'" and "db_ok (w_db w)"
  shows "refines (w_db w) (w_db w')"
  using assms(1)
proof (cases rule: system_step.cases)
  case (environment db')
  then show ?thesis
    using assms(2) refines_frame [of "w_db w" db'] by (simp add: unrelated_def db_ok_def)
next
  case (command c)
  then show ?thesis using exec_refines [OF assms(2)] by simp
qed

interpretation marketplace: step_invariant "system_step su" "\<lambda>w. db_ok (w_db w)" for su
  by unfold_locales (rule refines_ok [OF system_step_refines])

lemma system_steps_refine:
  "system_steps su v w \<Longrightarrow> db_ok (w_db v) \<Longrightarrow> refines (w_db v) (w_db w)"
proof (induction rule: rtranclp_induct)
  case (step x y)
  then show ?case
    using marketplace.inv_steps [of su v x] system_step_refines [of su x y] by (blast intro: refines_trans)
qed (simp add: refines_refl db_ok_def)

lemma initial_ok: "initial w \<Longrightarrow> db_ok (w_db w)"
  by (simp add: initial_def db_ok_def ids_ok_def calendar_ok_def history_ok_def ledger_ok_def calendar_of_def
      ledger_of_def no_double_booking_def reserved_available_def unavailable_disjoint_def)

lemma reachable_ok: "reachable su w \<Longrightarrow> db_ok (w_db w)"
  unfolding reachable_def using marketplace.inv_steps initial_ok by blast

end
