(* ===== verification/Sample_Run.thy ===== *)
theory Sample_Run
  imports Marketplace
begin

text \<open>
  A concrete run of the marketplace, evaluated in the kernel, on which the witnesses of the
  properties rest. Two borrowers ask for the same days, the lender confirms the first and the
  borrower pays; the item is handed over and returned, the lender opens a dispute, and an
  administrator gives a quarter of the deposit back and the rest to the lender.
\<close>

definition sample_server :: server where
  "sample_server =
     \<lparr>su_config = sample_legal_config, su_policy = sample_policy, su_payload_hash = (\<lambda>_. ''h''),
      su_sha256_hex = (\<lambda>s. s)\<rparr>"

definition sample_world :: world where
  "sample_world = \<lparr>w_db = sample_db, w_provider = Map.empty\<rparr>"

definition paid_commands :: "command list" where
  "paid_commands =
     [Create_booking ''B'' sample_dto ''r1'' ''2026-09-02'' SAMPLE_NOW,
      Create_booking ''C'' sample_dto ''r2'' ''2026-09-02'' SAMPLE_NOW,
      Confirm_booking ''L'' ''i'' ''r3'' SAMPLE_NOW,
      Checkout ''B'' ''i'' SUCCESS ''k'' SAMPLE_NOW]"

definition sample_act :: "act_stage \<Rightarrow> string \<Rightarrow> create_act_dto" where
  "sample_act stage intent = \<lparr>ca_stage = stage, ca_intentId = intent,
     ca_readiness = (if stage = HANDOVER
       then Some \<lparr>hr_isWorking = True, hr_isComplete = True, hr_visibleDefects = ''none''\<rparr> else None)\<rparr>"

definition sample_upload :: "string \<Rightarrow> verified_upload" where
  "sample_upload intent = \<lparr>vu_intentId = intent, vu_objectKey = ''key'', vu_sha256 = ''hash''\<rparr>"

definition handover_commands :: "command list" where
  "handover_commands =
     [Create_act ''L'' ''i'' (sample_act HANDOVER ''p1'') (Inr (sample_upload ''p1'')) SAMPLE_NOW,
      Confirm_act ''B'' ''i'' (sample_supply 19) ''r5'' SAMPLE_NOW,
      Create_act ''B'' ''i'' (sample_act RETURN_STAGE ''p2'') (Inr (sample_upload ''p2'')) SAMPLE_NOW,
      Confirm_act ''L'' ''i'' (sample_supply 24) ''r6'' SAMPLE_NOW]"

definition dispute_commands :: "command list" where
  "dispute_commands =
     [Open_dispute ''L'' ''i'' \<lparr>cd_reason = ITEM_DAMAGED, cd_description = None\<rparr> SAMPLE_NOW,
      Resolve_dispute ''A'' (sample_supply 29)
        \<lparr>rd_refundToBorrowerMinor = 50000, rd_releaseToLenderMinor = 150000, rd_reason = ''scratch''\<rparr> ''d'' SAMPLE_NOW,
      Run_operations SAMPLE_NOW]"

definition world_summary ::
    "world \<Rightarrow> (string \<times> booking_status) list \<times> (string \<times> deposit_status \<times> rat \<times> rat) list" where
  "world_summary w =
     (map (\<lambda>b. (bk_id b, bk_status b)) (db_bookings (w_db w)),
      map (\<lambda>d. (dep_id d, dep_status d, dep_refundedAmount d, dep_releasedToLenderAmount d)) (db_deposits (w_db w)))"

definition sample_end :: world where
  "sample_end = run sample_server (paid_commands @ handover_commands @ dispute_commands) sample_world"

lemma sample_run_summary:
  "world_summary sample_end =
     ([(''i'', Bk_COMPLETED), (''iiiiii'', Bk_CANCELLED)],
      [(''ii'', Dep_RESOLVED, 500, 1500), (''iiiiiii'', Dep_CANCELLED, 0, 0)])"
  by code_simp

lemma sample_initial: "initial sample_world"
  by (simp add: initial_def sample_world_def sample_db_def sample_supply_inj)

lemma sample_reachable: "reachable sample_server sample_end"
  unfolding sample_end_def using sample_initial by (intro run_reachable) (auto simp: reachable_def)

lemma sample_booking_completed:
  obtains b where "b \<in> set (db_bookings (w_db sample_end))" "bk_id b = ''i''" "bk_status b = Bk_COMPLETED"
proof -
  have "(''i'', Bk_COMPLETED) \<in> set (map (\<lambda>b. (bk_id b, bk_status b)) (db_bookings (w_db sample_end)))"
    using arg_cong [OF sample_run_summary, of fst] by (simp add: world_summary_def)
  then show thesis using that by auto
qed

lemma sample_deposit_split:
  obtains d where "d \<in> set (db_deposits (w_db sample_end))" "dep_id d = ''ii''" "dep_status d = Dep_RESOLVED"
    "dep_refundedAmount d = 500" "dep_releasedToLenderAmount d = 1500"
proof -
  have "(''ii'', Dep_RESOLVED, 500, 1500) \<in> set (map (\<lambda>d. (dep_id d, dep_status d, dep_refundedAmount d,
      dep_releasedToLenderAmount d)) (db_deposits (w_db sample_end)))"
    using arg_cong [OF sample_run_summary, of snd] by (simp add: world_summary_def)
  then show thesis using that by auto
qed

end
