(* ===== verification/Booking_Properties.thy ===== *)
theory Booking_Properties
  imports Sample_Run
begin

text \<open>
  What the commands of the bookings promise to the participants: the limits and the replay of
  \<open>create\<close>, the terms every created booking carries, the effect of a confirmation on the
  competing requests, the refund of a cancellation, and what a participant may see.
\<close>

section \<open>The terms of a created booking\<close>

lemma nonblank_iff: "nonblank s \<longleftrightarrow> (\<exists>c \<in> set s. \<not> is_js_space c)"
  by (auto simp: nonblank_def js_trim_eq_Nil_iff)

lemma approved_version_nonblank:
  assumes "is_approved_document_version (Some v)"
  shows "nonblank v"
proof -
  obtain c cs where v: "v = c # cs" "is_ascii_alnum c" using assms by (cases v) auto
  then have "\<not> is_js_space c" by (auto simp: is_ascii_alnum_def is_js_space_def Let_def)
  with v show ?thesis by (simp add: nonblank_iff)
qed

lemma legal_terms_nonblank:
  assumes "require_approved_marketplace_terms config = Inr legal"
  shows "nonblank (lt_offerVersion legal)" "nonblank (lt_cancellationPolicyVersion legal)"
proof -
  have "is_approved_document_version (Some (lt_offerVersion legal))"
    "is_approved_document_version (Some (lt_cancellationPolicyVersion legal))"
    using assms unfolding require_approved_marketplace_terms_def Let_def
    by (cases "config ''MARKETPLACE_OFFER_VERSION''"; cases "config ''MARKETPLACE_CANCELLATION_POLICY_VERSION''";
        auto split: if_split_asm)+
  then show "nonblank (lt_offerVersion legal)" "nonblank (lt_cancellationPolicyVersion legal)"
    by (simp_all add: approved_version_nonblank)
qed

text \<open>Listings that the moderation approves have texts and a place on the globe.\<close>

definition item_presentable :: "item_row \<Rightarrow> bool" where
  "item_presentable i \<longleftrightarrow> nonblank (it_ownerId i) \<and> nonblank (it_title i) \<and> nonblank (it_publicArea i)
     \<and> nonblank (it_address i) \<and> -90 \<le> it_latitude i \<and> it_latitude i \<le> 90
     \<and> -180 \<le> it_longitude i \<and> it_longitude i \<le> 180"

definition in_iso_range :: "timestamp \<Rightarrow> bool" where
  "in_iso_range t \<longleftrightarrow> (case civil_of_day (t div DAY_MS) of (y, m, d) \<Rightarrow> 0 \<le> y \<and> y \<le> 9999)"

lemma booking_priceD:
  assumes "booking_price policy rental deposit = Inr p"
  shows "rentalSubtotalMinor p = rental" "borrowerTotalMinor p = (if pol_paymentScenario policy = FAKE_SAFE_DEAL then rental + deposit else rental)"
    "platformFeeMinor p + ownerPayoutMinor p = rental"
    "pol_paymentScenario policy \<noteq> FAKE_SAFE_DEAL \<Longrightarrow> platformFeeMinor p = 0"
    "pol_paymentScenario policy = FAKE_SAFE_DEAL \<Longrightarrow> 0 \<le> platformFeeMinor p \<and> 0 < ownerPayoutMinor p"
  using assms safe_deal_price_conserves [of rental deposit p] safe_deal_fee_bounds [of rental deposit p]
  by (auto simp: booking_price_def split: if_split_asm)

lemma snapshot_moneyD:
  assumes "snapshot_money pricePerDay deposit p = Inr m"
  shows "m = \<lparr>mm_pricePerDay = pricePerDay, mm_rentalSubtotal = rentalSubtotalMinor p, mm_deposit = deposit,
     mm_platformFee = platformFeeMinor p, mm_ownerPayout = ownerPayoutMinor p, mm_total = borrowerTotalMinor p\<rparr>"
  using assms by (auto simp: snapshot_money_def bind_result_Inr_iff minor_to_safe_number_eq split: if_split_asm)

lemma build_snapshotE:
  assumes "build_snapshot policy legal borrowerId ownerName item deposit period now = Inr (s, t)"
  obtains price p where "it_pricePerDay item = minor_to_decimal price"
    "booking_price policy (price * per_days period) deposit = Inr p"
    "t = minor_to_decimal (borrowerTotalMinor p)"
    "sn_moneyMinor s = \<lparr>mm_pricePerDay = price, mm_rentalSubtotal = price * per_days period, mm_deposit = deposit,
     mm_platformFee = platformFeeMinor p, mm_ownerPayout = ownerPayoutMinor p, mm_total = borrowerTotalMinor p\<rparr>"
    "sn_itemTitle s = it_title item" "sn_lenderId s = it_ownerId item" "sn_days s = of_int (per_days period)"
    "sn_pricePerDay s = fl (minor_to_decimal price)"
    "sn_rentalSubtotal s = fl (minor_to_decimal (price * per_days period))"
    "sn_depositAmount s = map_option fl (it_depositAmount item)"
    "sn_platformFee s = fl (minor_to_decimal (platformFeeMinor p))"
    "sn_ownerPayout s = fl (minor_to_decimal (ownerPayoutMinor p))" "sn_total s = fl t"
    "sn_paymentScenario s = (if pol_paymentScenario policy = FAKE_SAFE_DEAL then Snap_FAKE_SAFE_DEAL else Snap_PAY_ON_HANDOVER)"
    "sn_depositTerms s = deposit_terms_of policy deposit"
    "sn_handover s = \<lparr>ho_area = it_publicArea item, ho_address = it_address item,
          ho_latitude = it_latitude item, ho_longitude = it_longitude item\<rparr>"
    "CHR '':'' \<in> set (sn_listingVersion s)"
    "sn_offerVersion s = Some (lt_offerVersion legal)"
    "sn_cancellationPolicyVersion s = Some (lt_cancellationPolicyVersion legal)"
    "sn_acceptance s = Some \<lparr>ac_actorId = borrowerId, ac_acceptedAt = iso_timestamp now,
          ac_offerVersion = lt_offerVersion legal,
          ac_cancellationPolicyVersion = lt_cancellationPolicyVersion legal\<rparr>"
proof -
  from assms obtain price p m where price: "it_pricePerDay item = minor_to_decimal price"
    and p: "booking_price policy (price * per_days period) deposit = Inr p"
    and m: "snapshot_money price deposit p = Inr m" and t: "t = minor_to_decimal (borrowerTotalMinor p)"
    and s: "s = \<lparr>sn_itemTitle = it_title item, sn_lenderId = it_ownerId item,
        sn_lenderDisplayName = ownerName, sn_pricePerDay = to_number (it_pricePerDay item),
        sn_days = of_int (per_days period),
        sn_rentalSubtotal = to_number (minor_to_decimal (rentalSubtotalMinor p)),
        sn_depositAmount = map_option to_number (it_depositAmount item),
        sn_platformFee = to_number (minor_to_decimal (platformFeeMinor p)),
        sn_ownerPayout = to_number (minor_to_decimal (ownerPayoutMinor p)),
        sn_total = to_number t,
        sn_paymentScenario = (if pol_paymentScenario policy = FAKE_SAFE_DEAL
                              then Snap_FAKE_SAFE_DEAL else Snap_PAY_ON_HANDOVER),
        sn_moneyMinor = m, sn_depositTerms = deposit_terms_of policy deposit,
        sn_handover = \<lparr>ho_area = it_publicArea item, ho_address = it_address item,
          ho_latitude = it_latitude item, ho_longitude = it_longitude item\<rparr>,
        sn_listingVersion = (case it_listingRulesVersion item of None \<Rightarrow> ''legacy'' | Some v \<Rightarrow> v)
          @ '':'' @ iso_timestamp (it_updatedAt item),
        sn_offerVersion = Some (lt_offerVersion legal),
        sn_cancellationPolicyVersion = Some (lt_cancellationPolicyVersion legal),
        sn_acceptance = Some \<lparr>ac_actorId = borrowerId, ac_acceptedAt = iso_timestamp now,
          ac_offerVersion = lt_offerVersion legal,
          ac_cancellationPolicyVersion = lt_cancellationPolicyVersion legal\<rparr>\<rparr>"
    unfolding build_snapshot_def by (auto simp: bind_result_Inr_iff Let_def decimal_to_minor_Inr_iff)
  show thesis
    by (rule that [OF price p t]; simp only: s booking_terms_snapshot.simps)
       (use snapshot_moneyD [OF m] booking_priceD(1) [OF p] price in \<open>simp_all add: to_number_def [abs_def]\<close>)
qed

lemma minor_to_decimal_le_int: "minor_to_decimal a \<le> of_int n \<longleftrightarrow> a \<le> 100 * n"
proof -
  have "minor_to_decimal a \<le> of_int n \<longleftrightarrow> (of_int a :: rat) \<le> of_int (100 * n)"
    by (auto simp: minor_to_decimal_def field_simps)
  then show ?thesis by (simp only: of_int_le_iff)
qed

lemma minor_to_decimal_ge: "of_int n \<le> minor_to_decimal a \<longleftrightarrow> 100 * n \<le> a"
proof -
  have "of_int n \<le> minor_to_decimal a \<longleftrightarrow> (of_int (100 * n) :: rat) \<le> of_int a"
    by (auto simp: minor_to_decimal_def field_simps)
  then show ?thesis by (simp only: of_int_le_iff)
qed

lemma build_snapshot_consistent:
  assumes b: "build_snapshot policy legal borrowerId ownerName item deposit period now = Inr (s, t)"
    and pol: "policy_ok policy" "assert_deposit_allowed policy deposit = Inr ()"
      "pol_paymentScenario policy = PAY_ON_HANDOVER \<longrightarrow> deposit = 0"
    and dep: "case it_depositAmount item of None \<Rightarrow> deposit = 0 | Some d \<Rightarrow> d = minor_to_decimal deposit"
    and t: "1 \<le> t" "t \<le> 60000000" and days: "1 \<le> per_days period"
    and text_ok: "item_presentable item" "nonblank borrowerId" "in_iso_range now"
      "nonblank (lt_offerVersion legal)" "nonblank (lt_cancellationPolicyVersion legal)"
  shows "snapshot_consistent s"
  using b
proof (rule build_snapshotE)
  fix price p
  assume price: "it_pricePerDay item = minor_to_decimal price"
    and p: "booking_price policy (price * per_days period) deposit = Inr p"
    and tt: "t = minor_to_decimal (borrowerTotalMinor p)"
    and s: "sn_moneyMinor s = \<lparr>mm_pricePerDay = price, mm_rentalSubtotal = price * per_days period, mm_deposit = deposit,
     mm_platformFee = platformFeeMinor p, mm_ownerPayout = ownerPayoutMinor p, mm_total = borrowerTotalMinor p\<rparr>"
    "sn_itemTitle s = it_title item" "sn_lenderId s = it_ownerId item" "sn_days s = of_int (per_days period)"
    "sn_pricePerDay s = fl (minor_to_decimal price)"
    "sn_rentalSubtotal s = fl (minor_to_decimal (price * per_days period))"
    "sn_depositAmount s = map_option fl (it_depositAmount item)"
    "sn_platformFee s = fl (minor_to_decimal (platformFeeMinor p))"
    "sn_ownerPayout s = fl (minor_to_decimal (ownerPayoutMinor p))" "sn_total s = fl t"
    "sn_paymentScenario s = (if pol_paymentScenario policy = FAKE_SAFE_DEAL then Snap_FAKE_SAFE_DEAL else Snap_PAY_ON_HANDOVER)"
    "sn_depositTerms s = deposit_terms_of policy deposit"
    and tx: "sn_handover s = \<lparr>ho_area = it_publicArea item, ho_address = it_address item,
          ho_latitude = it_latitude item, ho_longitude = it_longitude item\<rparr>"
    "CHR '':'' \<in> set (sn_listingVersion s)"
    "sn_offerVersion s = Some (lt_offerVersion legal)"
    "sn_cancellationPolicyVersion s = Some (lt_cancellationPolicyVersion legal)"
    "sn_acceptance s = Some \<lparr>ac_actorId = borrowerId, ac_acceptedAt = iso_timestamp now,
          ac_offerVersion = lt_offerVersion legal,
          ac_cancellationPolicyVersion = lt_cancellationPolicyVersion legal\<rparr>"
  note pd = booking_priceD [OF p]
  have scen: "pol_paymentScenario policy \<in> {FAKE_SAFE_DEAL, PAY_ON_HANDOVER}"
    using pol(1) by (auto simp: policy_ok_def split: payment_scenario.splits)
  have d0: "0 \<le> deposit" using pol(1,2) by (simp add: assert_deposit_allowed_Inr_iff)
  have tot: "borrowerTotalMinor p = price * per_days period + deposit"
    using pd(2) pol(3) scen by auto
  have range: "100 \<le> borrowerTotalMinor p" "borrowerTotalMinor p \<le> 6000000000"
    using t minor_to_decimal_ge [of 1 "borrowerTotalMinor p"] minor_to_decimal_le_int [of "borrowerTotalMinor p" 60000000]
    by (simp_all add: tt)
  have payout: "0 \<le> platformFeeMinor p" "0 \<le> ownerPayoutMinor p"
  proof -
    show "0 \<le> platformFeeMinor p" using pd(4,5) by (cases "pol_paymentScenario policy = FAKE_SAFE_DEAL") auto
    show "0 \<le> ownerPayoutMinor p"
      using pd(3-5) pol(3) scen tot range(1) by (cases "pol_paymentScenario policy = FAKE_SAFE_DEAL") auto
  qed
  have "0 \<le> price * per_days period" using pd(3) payout by linarith
  then have price0: "0 \<le> price" using days by (simp add: zero_le_mult_iff)
  have m: "money_consistent s"
    unfolding money_consistent_def Let_def s booking_money_minor.simps
    using price0 d0 payout days pd(3) tot range dep
    by (simp add: tt MINOR_BOUND_def s split: option.splits)
  have sc: "scenario_consistent s"
    unfolding scenario_consistent_def Let_def s booking_money_minor.simps
    using scen pol pd(4) d0 tx(5)
    by (auto simp: deposit_terms_of_def policy_ok_def nonblank_def)
  have iso: "is_iso_timestamp (Some (JStr (iso_timestamp now)))"
  proof -
    obtain y m d where c: "civil_of_day (now div DAY_MS) = (y, m, d)" by (metis prod_cases3)
    then show ?thesis using text_ok(3) by (intro is_iso_timestamp_iso [OF c]) (auto simp: in_iso_range_def)
  qed
  have nb: "nonblank (sn_listingVersion s)"
    using tx(2) unfolding nonblank_iff by (rule bexI [rotated]) (simp add: is_js_space_def)
  have "texts_consistent s"
    unfolding texts_consistent_def s tx
    using text_ok iso nb by (simp add: item_presentable_def)
  with m sc show ?thesis by (simp add: snapshot_consistent_def)
qed

text \<open>
  C6. Every booking that \<open>create\<close> makes carries terms the later commands can use: its stored
  JSON reads back, bound to the row's own columns, as terms that name the lender, the period
  and the whole amount the row charges, and whose total is the rent plus the deposit.
\<close>

theorem created_terms_bound:
  assumes "create_booking config policy payload_hash borrowerId dto requestId today now db = Inr (db', r)"
    and "find_repeated db borrowerId requestId = None" and "policy_ok policy"
    and "\<forall>i \<in> set (db_items db). it_status i = It_APPROVED \<longrightarrow> item_presentable i"
    and "nonblank borrowerId" and "in_iso_range now"
  shows "\<exists>b s. db_bookings db' = db_bookings db @ [b] \<and> bound_snapshot b = Some s
    \<and> sn_lenderId s = bk_lenderId b \<and> sn_days s = of_int (row_days b)
    \<and> bk_totalAmount b = minor_to_decimal (mm_total (sn_moneyMinor s))
    \<and> mm_total (sn_moneyMinor s) = mm_pricePerDay (sn_moneyMinor s) * row_days b + mm_deposit (sn_moneyMinor s)"
  using assms(1)
proof (rule create_bookingE)
  fix legal period b
  assume legal: "require_approved_marketplace_terms config = Inr legal"
    and period: "parse_booking_period (cb_startDate dto) (cb_endDate dto) today = Inr period"
    and tx: "create_transaction policy legal borrowerId (cb_itemId dto) period requestId (payload_hash dto) now db = Inr (db', b)"
  from period have per: "1 \<le> per_days period" "(per_endDate period - per_startDate period) div DAY_MS + 1 = per_days period"
    by (rule parse_booking_periodE; simp add: DAY_MS_def algebra_simps)+
  from tx show ?thesis
  proof (cases rule: create_transactionE)
    case repeated
    then show ?thesis using assms(2) by simp
  next
    case (created item deposit s t)
    note g = create_guardsD [OF created(2)]
    note e = create_effectsD [OF created(5)]
    have item: "item_presentable item"
      using g(1) assms(4) by (auto simp: find_bookable_item_def dest!: find_SomeD)
    have bt: "bk_totalAmount b = t" "bk_lenderId b = it_ownerId item" "bk_borrowerId b = borrowerId"
      "bk_termsSnapshot b = Some (to_snapshot_json s)" "row_days b = per_days period"
      using created(4) per(2) by (simp_all add: new_booking_row_def row_days_def)
    have con: "snapshot_consistent s"
      by (rule build_snapshot_consistent [OF created(3) assms(3) g(4,5,3) _ _ per(1) item assms(5,6)])
         (use e(10,11) bt(1) legal_terms_nonblank [OF legal] in auto)
    from created(3) obtain p where p: "t = minor_to_decimal (mm_total (sn_moneyMinor s))"
      "sn_lenderId s = it_ownerId item" "sn_days s = of_int (per_days period)"
      "ac_actorId (the (sn_acceptance s)) = borrowerId"
      by (rule build_snapshotE) auto
    have mc: "money_consistent s" using con by (simp add: snapshot_consistent_def)
    have "minor_units_num (fl t) = Some (mm_total (sn_moneyMinor s))"
      unfolding p(1) using mc by (intro minor_units_fl) (auto simp: money_consistent_def Let_def MINOR_BOUND_def)
    then have "bound_snapshot b = Some s"
      unfolding bound_snapshot_def read_bound_booking_terms_snapshot_def
      using snapshot_reads_back [OF con] p bt by (simp add: to_number_def split: option.splits) auto
    moreover have "mm_total (sn_moneyMinor s)
        = mm_pricePerDay (sn_moneyMinor s) * row_days b + mm_deposit (sn_moneyMinor s)"
      using mc p(3) bt(5) by (simp add: money_consistent_def Let_def)
    ultimately show ?thesis using e(1) p bt by auto
  qed
qed

lemma sample_create:
  obtains db' r where "create_booking sample_legal_config sample_policy (\<lambda>_. ''h'') ''B'' sample_dto ''r1''
     ''2026-09-02'' SAMPLE_NOW sample_db = Inr (db', r)"
proof -
  have "is_ok (create_booking sample_legal_config sample_policy (\<lambda>_. ''h'') ''B'' sample_dto ''r1''
     ''2026-09-02'' SAMPLE_NOW sample_db)" by code_simp
  then show thesis using that by (auto simp: is_ok_def split: sum.splits)
qed

theorem created_terms_bound_witness:
  "\<exists>db' r b s. create_booking sample_legal_config sample_policy (\<lambda>_. ''h'') ''B'' sample_dto ''r1''
     ''2026-09-02'' SAMPLE_NOW sample_db = Inr (db', r) \<and> b \<in> set (db_bookings db') \<and> bound_snapshot b = Some s"
proof -
  obtain db' r where c: "create_booking sample_legal_config sample_policy (\<lambda>_. ''h'') ''B'' sample_dto ''r1''
     ''2026-09-02'' SAMPLE_NOW sample_db = Inr (db', r)" by (rule sample_create)
  have "policy_ok sample_policy" "find_repeated sample_db ''B'' ''r1'' = None"
    by (simp_all add: policy_ok_def sample_policy_def max_safe_def nonblank_Cons is_js_space_def
        find_repeated_def sample_db_def)
  moreover have "\<forall>i \<in> set (db_items sample_db). it_status i = It_APPROVED \<longrightarrow> item_presentable i"
    by (simp add: sample_data item_presentable_def nonblank_Cons is_js_space_def)
  moreover have "nonblank ''B''" by (simp add: nonblank_Cons is_js_space_def)
  moreover have "in_iso_range SAMPLE_NOW" by code_simp
  ultimately obtain b s where "db_bookings db' = db_bookings sample_db @ [b]" "bound_snapshot b = Some s"
    using created_terms_bound [OF c] by blast
  then show ?thesis using c by force
qed

section \<open>Limits and replay of a request\<close>

text \<open>
  C7. A new request never breaks the limits: the borrower then has at most five open requests,
  at most twenty open requests compete for the days, the days are free of reservations and of
  the owner's blocked periods, and the request waits for the lender for twelve hours.
\<close>

theorem create_limits:
  assumes "create_booking config policy payload_hash borrowerId dto requestId today now db = Inr (db', r)"
    and "find_repeated db borrowerId requestId = None"
  shows "\<exists>b. db_bookings db' = db_bookings db @ [b] \<and> bk_status b = Bk_PENDING
    \<and> bk_expiresAt b = Some (now + 12 * 60 * 60 * 1000) \<and> bk_borrowerId b = borrowerId \<and> bk_lenderId b \<noteq> borrowerId
    \<and> count_rows (\<lambda>c. bk_borrowerId c = borrowerId \<and> active_pending now c) (db_bookings db') \<le> 5
    \<and> count_rows (\<lambda>c. active_pending now c \<and> booking_overlaps (bk_itemId b) (bk_startDate b) (bk_endDate b) c)
        (db_bookings db') \<le> 20
    \<and> (\<forall>c \<in> set (db_bookings db). is_reserved c \<longrightarrow>
        \<not> booking_overlaps (bk_itemId b) (bk_startDate b) (bk_endDate b) c)
    \<and> \<not> period_unavailable db (bk_itemId b) (bk_startDate b) (bk_endDate b)"
  using assms(1)
proof (rule create_bookingE)
  fix legal period b
  assume tx: "create_transaction policy legal borrowerId (cb_itemId dto) period requestId (payload_hash dto) now db = Inr (db', b)"
  then show ?thesis
  proof (cases rule: create_transactionE)
    case repeated
    then show ?thesis using assms(2) by simp
  next
    case (created item deposit s t)
    have b: "bk_itemId b = it_id item" "bk_startDate b = per_startDate period" "bk_endDate b = per_endDate period"
      "bk_status b = Bk_PENDING" "bk_expiresAt b = Some (now + 12 * 60 * 60 * 1000)" "bk_borrowerId b = borrowerId"
      "bk_lenderId b = it_ownerId item"
      using created(4) by (simp_all add: new_booking_row_def BOOKING_PENDING_TTL_MS_def)
    show ?thesis
      using create_effectsD(1) [OF created(5)] create_guardsD [OF created(2)] b
      by (intro exI [of _ b]) simp
  qed
qed

theorem create_limits_witness:
  "\<exists>db' r. create_booking sample_legal_config sample_policy (\<lambda>_. ''h'') ''B'' sample_dto ''r1''
     ''2026-09-02'' SAMPLE_NOW sample_db = Inr (db', r) \<and> length (db_bookings db') = 1
     \<and> count_rows (\<lambda>c. bk_borrowerId c = ''B'' \<and> active_pending SAMPLE_NOW c) (db_bookings db') \<le> 5"
proof -
  obtain db' r where c: "create_booking sample_legal_config sample_policy (\<lambda>_. ''h'') ''B'' sample_dto ''r1''
     ''2026-09-02'' SAMPLE_NOW sample_db = Inr (db', r)" by (rule sample_create)
  have "find_repeated sample_db ''B'' ''r1'' = None" by (simp add: find_repeated_def sample_db_def)
  from create_limits [OF c this] c show ?thesis by (auto simp: sample_db_def)
qed

lemma create_leaves_request:
  assumes "create_transaction policy legal borrowerId itemId period requestId requestHash now db = Inr (db', b)"
  shows "find_repeated db' borrowerId requestId = Some b" "bk_clientRequestHash b = Some requestHash"
  using assms
  by (cases rule: create_transactionE;
      simp add: find_repeated_def create_effectsD(1) find_append new_booking_row_def)+

text \<open>
  A request can be sent again safely: after a successful \<open>create\<close> the same request under
  the same key, at any later time of the day, changes nothing and gives the same answer, and
  a request with another payload under that key is refused.
\<close>

theorem create_replay:
  assumes "create_booking config policy payload_hash borrowerId dto requestId today now db = Inr (db', r)"
  shows "create_booking config policy payload_hash borrowerId dto requestId today now' db' = Inr (db', r)
    \<and> (\<forall>dto'. payload_hash dto' \<noteq> payload_hash dto \<longrightarrow>
        \<not> is_ok (create_booking config policy payload_hash borrowerId dto' requestId today now' db'))"
  using assms
proof (rule create_bookingE)
  fix legal period b
  assume 1: "require_approved_marketplace_terms config = Inr legal"
    "require_marketplace_terms_acceptance dto legal = Inr ()"
    "parse_booking_period (cb_startDate dto) (cb_endDate dto) today = Inr period"
    and r: "r = booking_response_of (per_days period) b"
    and tx: "create_transaction policy legal borrowerId (cb_itemId dto) period requestId (payload_hash dto) now db = Inr (db', b)"
  note b = create_leaves_request [OF tx]
  have "\<not> is_ok (create_booking config policy payload_hash borrowerId dto' requestId today now' db')"
    if h: "payload_hash dto' \<noteq> payload_hash dto" for dto'
  proof
    assume "is_ok (create_booking config policy payload_hash borrowerId dto' requestId today now' db')"
    then obtain d x where "create_booking config policy payload_hash borrowerId dto' requestId today now' db' = Inr (d, x)"
      by (auto simp: is_ok_def split: sum.splits)
    then show False
      by (rule create_bookingE) (use b h in \<open>auto simp: create_transaction_def\<close>)
  qed
  moreover have "create_booking config policy payload_hash borrowerId dto requestId today now' db' = Inr (db', r)"
    unfolding create_booking_def by (simp add: 1 create_transaction_def b r)
  ultimately show ?thesis by blast
qed

theorem create_replay_witness:
  "\<exists>db' r. create_booking sample_legal_config sample_policy cb_endDate ''B'' sample_dto ''r1'' ''2026-09-02'' SAMPLE_NOW sample_db = Inr (db', r)
     \<and> create_booking sample_legal_config sample_policy cb_endDate ''B'' sample_dto ''r1'' ''2026-09-02'' (SAMPLE_NOW + 5) db' = Inr (db', r)
     \<and> \<not> is_ok (create_booking sample_legal_config sample_policy cb_endDate ''B'' (sample_dto\<lparr>cb_endDate := ''2026-09-12''\<rparr>) ''r1''
          ''2026-09-02'' SAMPLE_NOW db')"
proof -
  have "is_ok (create_booking sample_legal_config sample_policy cb_endDate ''B'' sample_dto ''r1''
     ''2026-09-02'' SAMPLE_NOW sample_db)" by code_simp
  then obtain db' r where c: "create_booking sample_legal_config sample_policy cb_endDate ''B'' sample_dto ''r1''
     ''2026-09-02'' SAMPLE_NOW sample_db = Inr (db', r)" by (auto simp: is_ok_def split: sum.splits)
  have "cb_endDate (sample_dto\<lparr>cb_endDate := ''2026-09-12''\<rparr>) \<noteq> cb_endDate sample_dto" by (simp add: sample_dto_def)
  then show ?thesis using c create_replay [OF c] by blast
qed

section \<open>Confirming\<close>

abbreviation competes :: "booking_row \<Rightarrow> timestamp \<Rightarrow> booking_row \<Rightarrow> bool" where
  "competes b now c \<equiv> active_pending now c \<and> booking_overlaps (bk_itemId b) (bk_startDate b) (bk_endDate b) c"

abbreviation confirmed_row :: "booking_row \<Rightarrow> timestamp \<Rightarrow> booking_row \<Rightarrow> booking_row" where
  "confirmed_row b now c \<equiv>
     (if bk_id c = bk_id b then close_booking Bk_CONFIRMED None c
      else if competes b now c then close_booking Bk_CANCELLED (Some BOOKING_COMPETING_CANCELLATION_REASON) c else c)"

lemma competitor_ids:
  assumes "distinct (map bk_id (db_bookings db))" and c: "c \<in> set (db_bookings db)"
  shows "bk_id c \<in> bk_id ` set (competitors_of b now db) \<longleftrightarrow> bk_id c \<noteq> bk_id b \<and> competes b now c"
proof
  assume "bk_id c \<in> bk_id ` set (competitors_of b now db)"
  then obtain x where x: "x \<in> set (competitors_of b now db)" "bk_id c = bk_id x" by blast
  then have "x \<in> set (db_bookings db)" by (simp add: competitors_of_def)
  then have "c = x" using distinct_key_eq [OF assms(1) c _ x(2)] by blast
  then show "bk_id c \<noteq> bk_id b \<and> competes b now c" using x(1) by (simp add: competitors_of_def)
next
  assume "bk_id c \<noteq> bk_id b \<and> competes b now c"
  then have "c \<in> set (competitors_of b now db)" using c by (simp add: competitors_of_def)
  then show "bk_id c \<in> bk_id ` set (competitors_of b now db)" by (rule imageI)
qed

lemma confirm_effects_rows:
  assumes "db' = confirm_effects lenderId requestId b (map bk_id (competitors_of b now db)) db"
    and d: "distinct (map bk_id (db_bookings db))"
  shows "db_bookings db' = map (confirmed_row b now) (db_bookings db)"
proof -
  let ?sel = "\<lambda>c. if bk_id c = bk_id b then close_booking Bk_CONFIRMED None c else c"
  have "db_bookings db' = map (\<lambda>c. if bk_id (?sel c) \<in> bk_id ` set (competitors_of b now db)
           \<and> bk_status (?sel c) = Bk_PENDING
         then close_booking Bk_CANCELLED (Some BOOKING_COMPETING_CANCELLATION_REASON) (?sel c)
         else ?sel c) (db_bookings db)"
    by (simp add: confirm_effects_frame(1) [OF assms(1)] move_row_def update_rows_def comp_def)
  also have "\<dots> = map (confirmed_row b now) (db_bookings db)"
  proof (rule map_cong [OF refl])
    fix c assume c: "c \<in> set (db_bookings db)"
    show "(if bk_id (?sel c) \<in> bk_id ` set (competitors_of b now db) \<and> bk_status (?sel c) = Bk_PENDING
         then close_booking Bk_CANCELLED (Some BOOKING_COMPETING_CANCELLATION_REASON) (?sel c)
         else ?sel c) = confirmed_row b now c"
      using competitor_ids [OF d c, of b now]
      by (cases "bk_id c = bk_id b") (simp_all add: close_booking_def active_pending_def)
  qed
  finally show ?thesis .
qed

text \<open>
  C8. Confirming selects one request and clears its competitors: only the lender of a pending,
  unexpired request can confirm it; then that booking is confirmed, every other open request
  that overlaps its days is cancelled with the competing reason, no other booking changes, and
  no open request for those days is left.
\<close>

theorem confirm_clears_competitors:
  assumes "confirm_booking lenderId bookingId requestId now db = Inr (db', r)"
    and "distinct (map bk_id (db_bookings db))"
  shows "\<exists>b \<in> set (db_bookings db). bk_id b = bookingId \<and> bk_lenderId b = lenderId \<and> active_pending now b
    \<and> db_bookings db' = map (\<lambda>c. if bk_id c = bookingId then close_booking Bk_CONFIRMED None c
        else if active_pending now c \<and> booking_overlaps (bk_itemId b) (bk_startDate b) (bk_endDate b) c
        then close_booking Bk_CANCELLED (Some BOOKING_COMPETING_CANCELLATION_REASON) c else c) (db_bookings db)
    \<and> (\<forall>c \<in> set (db_bookings db'). \<not> (active_pending now c
        \<and> booking_overlaps (bk_itemId b) (bk_startDate b) (bk_endDate b) c))"
proof -
  from assms(1) obtain b where g: "confirm_guards lenderId bookingId now db = Inr b"
    and db': "db' = confirm_effects lenderId requestId b (map bk_id (competitors_of b now db)) db"
    by (auto simp: confirm_booking_def bind_result_Inr_iff Let_def)
  note b = confirm_guardsD [OF g] and rows = confirm_effects_rows [OF db' assms(2)]
  have "\<forall>c. \<not> competes b now (confirmed_row b now c)"
    by (simp add: close_booking_def active_pending_def)
  then have none: "\<forall>c \<in> set (db_bookings db'). \<not> competes b now c"
    unfolding rows set_map by blast
  have "active_pending now b" using b(4,5) by (auto simp: active_pending_def)
  then show ?thesis using b(1-3) rows [unfolded b(2)] none by blast
qed

definition two_requests :: db where
  "two_requests = sample_db\<lparr>db_bookings := [sample_booking ''b1'' Bk_PENDING 0 (Some 9), sample_booking ''b2'' Bk_PENDING 0 (Some 9)]\<rparr>"

theorem confirm_clears_competitors_witness:
  "\<exists>db' r. confirm_booking ''L'' ''b1'' ''r'' 5 two_requests = Inr (db', r)
     \<and> (\<forall>c \<in> set (db_bookings db'). \<not> (active_pending 5 c \<and> booking_overlaps ''I'' 0 0 c))"
proof -
  have "is_ok (confirm_booking ''L'' ''b1'' ''r'' 5 two_requests)" by code_simp
  then obtain db' r where c: "confirm_booking ''L'' ''b1'' ''r'' 5 two_requests = Inr (db', r)"
    by (auto simp: is_ok_def split: sum.splits)
  have d: "distinct (map bk_id (db_bookings two_requests))" by (simp add: two_requests_def sample_booking_def)
  have "b = sample_booking ''b1'' Bk_PENDING 0 (Some 9)"
    if "b \<in> set (db_bookings two_requests)" "bk_id b = ''b1''" for b
    using that by (auto simp: two_requests_def sample_booking_def)
  then obtain b where "b = sample_booking ''b1'' Bk_PENDING 0 (Some 9)"
    "\<forall>c \<in> set (db_bookings db'). \<not> (active_pending 5 c
        \<and> booking_overlaps (bk_itemId b) (bk_startDate b) (bk_endDate b) c)"
    using confirm_clears_competitors [OF c d] by blast
  then show ?thesis using c by (simp add: sample_booking_def)
qed

section \<open>Cancelling\<close>

text \<open>
  A cancellation gives the whole deposit back: cancelling a booking whose deposit is held
  cancels the booking, moves the deposit to \<open>RESOLVING\<close> and requests one refund of its full
  amount; a deposit that was not yet held is cancelled without any operation.
\<close>

theorem cancel_refunds_deposit:
  assumes "cancel_pending policy actorId bookingId requestId now db = Inr (db', r)"
    and "deposit_of db bookingId = Some d" and "db' \<noteq> db"
  shows "br_status r = Bk_CANCELLED
    \<and> (dep_status d = Dep_HELD \<longrightarrow> (\<exists>x. db_operations db' = db_operations db @ [x] \<and> op_depositId x = dep_id d
         \<and> op_kind x = Op_REFUND \<and> op_status x = Ops_PENDING \<and> op_amount x = dep_amount d)
       \<and> db_deposits db' = update_rows (\<lambda>x. dep_id x = dep_id d) (\<lambda>x. x\<lparr>dep_status := Dep_RESOLVING\<rparr>) (db_deposits db))
    \<and> (dep_status d = Dep_PENDING \<longrightarrow> db_operations db' = db_operations db
       \<and> db_deposits db' = update_rows (\<lambda>x. dep_id x = dep_id d) (\<lambda>x. x\<lparr>dep_status := Dep_CANCELLED\<rparr>) (db_deposits db))"
  using assms(1)
proof (cases rule: cancel_pendingE)
  case (repeated b)
  then show ?thesis using assms(3) by simp
next
  case (cancelled b)
  have "bk_id b = bookingId" using find_participant_bookingD [OF cancelled(1)] by simp
  then have e: "cancel_effects actorId requestId b (Some d) db = Inr db'" using cancelled(3) assms(2) by simp
  show ?thesis using cancel_effectsD(8,9) [OF e refl] cancelled(4) by auto
qed

definition paid_db :: db where
  "paid_db = sample_db\<lparr>db_bookings := [sample_booking ''b1'' Bk_PENDING 0 (Some 9)],
     db_deposits := [\<lparr>dep_id = ''d1'', dep_bookingId = ''b1'', dep_amount = 2000, dep_currency = ''RUB'',
       dep_policyVersion = ''v1'', dep_disputeWindowSeconds = 60, dep_status = Dep_HELD,
       dep_disputeWindowEndsAt = None, dep_refundedAmount = 0, dep_releasedToLenderAmount = 0\<rparr>]\<rparr>"

theorem cancel_refunds_deposit_witness:
  "\<exists>db' r x. cancel_pending sample_policy ''B'' ''b1'' ''r'' 5 paid_db = Inr (db', r)
     \<and> db_operations db' = [x] \<and> op_kind x = Op_REFUND \<and> op_amount x = 2000"
proof -
  have "is_ok (cancel_pending sample_policy ''B'' ''b1'' ''r'' 5 paid_db)" by code_simp
  then obtain db' r where c: "cancel_pending sample_policy ''B'' ''b1'' ''r'' 5 paid_db = Inr (db', r)"
    by (auto simp: is_ok_def split: sum.splits)
  obtain d where d: "deposit_of paid_db ''b1'' = Some d" "dep_status d = Dep_HELD" "dep_amount d = 2000"
    by (simp add: deposit_of_def paid_db_def)
  have ne: "db' \<noteq> paid_db"
  proof
    assume "db' = paid_db"
    from c [unfolded this] show False
      by (cases rule: cancel_pendingE)
         (auto simp: find_participant_booking_def is_participant_def paid_db_def sample_booking_def
            dest!: cancel_effectsD(4))
  qed
  have ops: "db_operations paid_db = []" by (simp add: paid_db_def sample_db_def)
  show ?thesis using cancel_refunds_deposit [OF c d(1) ne] c d(2,3) by (auto simp: ops)
qed

section \<open>What a participant sees\<close>

text \<open>
  C9. Contacts stay private: a participant's view of a booking exists only for its borrower
  and its lender, and it discloses the handover address and the other side's phone only while
  the booking is confirmed or active; the phone is then that of the counterparty.
\<close>

theorem participant_view_private:
  assumes "get_for_participant db actorId bookingId = Inr p"
  shows "\<exists>b \<in> set (db_bookings db). bk_id b = bookingId \<and> actorId \<in> {bk_borrowerId b, bk_lenderId b}
    \<and> pr_status p = bk_status b
    \<and> (bk_status b \<notin> {Bk_CONFIRMED, Bk_ACTIVE} \<longrightarrow> pr_handover p = None \<and> pr_counterpartyContact p = None)
    \<and> (\<forall>phone. pr_counterpartyContact p = Some phone \<longrightarrow>
         user_phone db (if actorId = bk_borrowerId b then bk_lenderId b else bk_borrowerId b) = Some phone)
    \<and> (\<forall>t. pr_terms p = Some t \<longrightarrow> sn_handover t = no_handover \<and> sn_acceptance t = None)"
proof -
  from assms obtain b where f: "find_participant_booking db actorId bookingId = Some b"
    and r: "to_participant_response db actorId b = Inr p"
    by (auto simp: get_for_participant_def split: option.splits)
  note b = find_participant_bookingD [OF f]
  have "pr_status p = bk_status b"
    "pr_terms p = map_option public_terms (bound_snapshot b)"
    "bk_status b \<notin> {Bk_CONFIRMED, Bk_ACTIVE} \<Longrightarrow> pr_handover p = None \<and> pr_counterpartyContact p = None"
    "\<forall>phone. pr_counterpartyContact p = Some phone \<longrightarrow>
         user_phone db (if bk_borrowerId b = actorId then bk_lenderId b else bk_borrowerId b) = Some phone"
    using r unfolding to_participant_response_def Let_def HANDOVER_VISIBLE_STATUSES_def
    by (auto simp: bind_result_Inr_iff split: if_split_asm)
  then show ?thesis using b by (intro bexI [OF _ b(1)]) (auto simp: public_terms_def)
qed

theorem participant_view_private_witness:
  "\<exists>p. get_for_participant two_requests ''B'' ''b1'' = Inr p \<and> pr_counterpartyContact p = None"
proof -
  have "is_ok (get_for_participant two_requests ''B'' ''b1'')" by code_simp
  then obtain p where p: "get_for_participant two_requests ''B'' ''b1'' = Inr p"
    by (auto simp: is_ok_def split: sum.splits)
  from participant_view_private [OF p] show ?thesis
    using p by (auto simp: two_requests_def sample_booking_def)
qed

section \<open>Prices\<close>

text \<open>
  A safe deal splits the rent without losing a kopeck: the borrower pays rent and deposit,
  the platform fee and the owner's payout add up to the rent, the fee is one percent of the
  rent rounded to the nearest kopeck, and the owner always gets something.
\<close>

theorem safe_deal_price_split:
  assumes "calculate_provisional_safe_deal_price rental deposit = Inr p"
  shows "borrowerTotalMinor p = rental + deposit \<and> platformFeeMinor p + ownerPayoutMinor p = rental
    \<and> \<bar>100 * platformFeeMinor p - rental\<bar> \<le> 50 \<and> 0 \<le> platformFeeMinor p \<and> 0 < ownerPayoutMinor p"
  using safe_deal_price_conserves [OF assms] safe_deal_fee_bounds [OF assms] by blast

theorem safe_deal_price_split_witness:
  "\<exists>p. calculate_provisional_safe_deal_price 150 500 = Inr p \<and> platformFeeMinor p + ownerPayoutMinor p = 150
     \<and> borrowerTotalMinor p = 650"
proof -
  obtain p where "calculate_provisional_safe_deal_price 150 500 = Inr p"
    by (simp add: calculate_provisional_safe_deal_price_def Let_def)
  from safe_deal_price_split [OF this] this show ?thesis by auto
qed

end
