(* ===== verification/Notifications.thy ===== *)
theory Notifications
  imports Paging
begin

text \<open>
  Delivery of notifications. The outbox worker (\<open>booking/booking-outbox.processor.ts\<close>) turns an
  event into inbox rows of its recipients and push deliveries to their devices; the push worker
  (\<open>notifications/push-delivery.processor.ts\<close>) claims a delivery for a lease, asks the push
  provider and records the outcome; users register and remove devices
  (\<open>notifications/device-tokens.service.ts\<close>) and read their inbox (\<open>booking/inbox.service.ts\<close>).
  The push provider is an argument: its answer for a device and an event, \<open>None\<close> when the call
  throws.
\<close>

section \<open>The outbox worker\<close>

definition OUTBOX_BATCH_SIZE :: nat where
  "OUTBOX_BATCH_SIZE = 50"

definition find_ticket :: "db \<Rightarrow> string \<Rightarrow> ticket_row option" where
  "find_ticket db i = List.find (\<lambda>t. tk_id t = i) (dk_tickets (db_desk db))"

text \<open>The relations \<open>booking\<close> and \<open>supportTicket\<close> of an event.\<close>

definition event_booking :: "db \<Rightarrow> outbox_row \<Rightarrow> booking_row option" where
  "event_booking db x = Option.bind (out_bookingId x) (find_booking db)"

definition event_ticket :: "db \<Rightarrow> outbox_row \<Rightarrow> ticket_row option" where
  "event_ticket db x = Option.bind (out_supportTicketId x) (find_ticket db)"

definition recipients_of :: "db \<Rightarrow> outbox_row \<Rightarrow> string list" where
  "recipients_of db x =
     (case out_recipientId x of
        Some r \<Rightarrow> [r]
      | None \<Rightarrow>
          (case event_booking db x of
             Some b \<Rightarrow> (if bk_borrowerId b = bk_lenderId b then [bk_borrowerId b] else [bk_borrowerId b, bk_lenderId b])
           | None \<Rightarrow> (case event_ticket db x of Some t \<Rightarrow> [tk_userId t] | None \<Rightarrow> [])))"

definition insert_inbox_skip :: "outbox_row \<Rightarrow> string \<Rightarrow> db \<Rightarrow> db" where
  "insert_inbox_skip x recipientId db =
     (if exists_row (\<lambda>i. inb_eventId i = out_id x \<and> inb_recipientId i = recipientId) (db_inbox db) then db
      else db\<lparr>db_next := Suc (db_next db), db_inbox := db_inbox db @
        [\<lparr>inb_id = fresh_id db, inb_eventId = out_id x, inb_recipientId = recipientId,
          inb_bookingId = out_bookingId x, inb_supportTicketId = out_supportTicketId x,
          inb_itemId = out_itemId x, inb_eventType = out_eventType x, inb_readAt = None,
          inb_createdAt = out_createdAt x\<rparr>]\<rparr>)"

definition insert_push_skip :: "string \<Rightarrow> string \<Rightarrow> db \<Rightarrow> db" where
  "insert_push_skip eventId tokenId db =
     (if exists_row (\<lambda>p. push_eventId p = eventId \<and> push_tokenId p = tokenId) (db_pushes db) then db
      else db\<lparr>db_next := Suc (db_next db), db_pushes := db_pushes db @
        [\<lparr>push_id = fresh_id db, push_eventId = eventId, push_tokenId = tokenId, push_status_of = Push_PENDING,
          push_attempts = 0, push_nextAttemptAt = db_now db, push_processingUntil = None,
          push_deliveredAt = None, push_lastErrorCode = None, push_createdAt = db_now db\<rparr>]\<rparr>)"

definition deliver_event :: "string \<Rightarrow> timestamp \<Rightarrow> db \<Rightarrow> (db \<times> nat) result" where
  "deliver_event eventId now db =
     (case List.find (\<lambda>x. out_id x = eventId \<and> out_processedAt x = None) (db_outbox db) of
        None \<Rightarrow> Inr (db, 0)
      | Some event \<Rightarrow>
          let recipientIds = recipients_of db event in
          if recipientIds = [] then Inl (Plain_error ''outbox-event-without-entity'')
          else
            let db1 = fold (insert_inbox_skip event) recipientIds db;
                tokens = filter (\<lambda>t. tok_userId t \<in> set recipientIds) (db_tokens db1);
                db2 = fold (\<lambda>t. insert_push_skip (out_id event) (tok_id t)) tokens db1
            in Inr (db2\<lparr>db_outbox := update_rows (\<lambda>x. out_id x = out_id event \<and> out_processedAt x = None)
                     (\<lambda>x. x\<lparr>out_processedAt := Some now\<rparr>) (db_outbox db2)\<rparr>, 1))"

definition pending_events :: "db \<Rightarrow> outbox_row list" where
  "pending_events db =
     take OUTBOX_BATCH_SIZE (sort_key out_createdAt (filter (\<lambda>x. out_processedAt x = None) (db_outbox db)))"

fun deliver_loop :: "timestamp \<Rightarrow> string list \<Rightarrow> nat \<Rightarrow> db \<Rightarrow> db \<times> nat result" where
  "deliver_loop now [] processed db = (db, Inr processed)"
| "deliver_loop now (i # ids) processed db =
     (case deliver_event i now db of
        Inl e \<Rightarrow> (db, Inl e)
      | Inr (db', n) \<Rightarrow> deliver_loop now ids (processed + n) db')"

definition process_outbox :: "timestamp \<Rightarrow> db \<Rightarrow> db \<times> nat result" where
  "process_outbox now db = deliver_loop now (map out_id (pending_events db)) 0 db"

section \<open>The push worker\<close>

datatype push_outcome = DELIVERED | INVALID_TOKEN | RETRY

definition PUSH_BATCH_SIZE :: nat where
  "PUSH_BATCH_SIZE = 50"

definition PUSH_PROCESSING_LEASE_MS :: int where
  "PUSH_PROCESSING_LEASE_MS = 60 * 1000"

definition PUSH_INITIAL_RETRY_MS :: int where
  "PUSH_INITIAL_RETRY_MS = 30 * 1000"

definition PUSH_MAX_RETRY_MS :: int where
  "PUSH_MAX_RETRY_MS = 60 * 60 * 1000"

definition push_claimable :: "timestamp \<Rightarrow> push_row \<Rightarrow> bool" where
  "push_claimable now p \<longleftrightarrow>
     (push_status_of p \<in> {Push_PENDING, Push_RETRY} \<and> push_nextAttemptAt p \<le> now)
     \<or> (push_status_of p = Push_PROCESSING \<and> (case push_processingUntil p of None \<Rightarrow> False | Some u \<Rightarrow> u \<le> now))"

definition pending_pushes :: "timestamp \<Rightarrow> db \<Rightarrow> push_row list" where
  "pending_pushes now db =
     take PUSH_BATCH_SIZE (sort_key (\<lambda>p. (push_nextAttemptAt p, push_createdAt p))
       (filter (push_claimable now) (db_pushes db)))"

definition push_retry_delay :: "nat \<Rightarrow> int" where
  "push_retry_delay attempts =
     (let retryNumber = attempts + 1
      in min (PUSH_INITIAL_RETRY_MS * 2 ^ min (retryNumber - 1) 10) PUSH_MAX_RETRY_MS)"

definition update_push :: "string \<Rightarrow> (push_row \<Rightarrow> push_row) \<Rightarrow> db \<Rightarrow> db" where
  "update_push i f db =
     db\<lparr>db_pushes := update_rows (\<lambda>p. push_id p = i \<and> push_status_of p = Push_PROCESSING) f (db_pushes db)\<rparr>"

definition claim_push :: "string \<Rightarrow> timestamp \<Rightarrow> db \<Rightarrow> db \<times> nat" where
  "claim_push i now db =
     (let p = (\<lambda>x. push_id x = i \<and> push_claimable now x)
      in (db\<lparr>db_pushes := update_rows p (\<lambda>x. x\<lparr>push_status_of := Push_PROCESSING,
              push_processingUntil := Some (now + PUSH_PROCESSING_LEASE_MS)\<rparr>) (db_pushes db)\<rparr>,
          count_rows p (db_pushes db)))"

text \<open>Deleting a device deletes its deliveries (\<open>onDelete: Cascade\<close>).\<close>

definition delete_tokens :: "(token_row \<Rightarrow> bool) \<Rightarrow> db \<Rightarrow> db" where
  "delete_tokens p db =
     (let gone = map tok_id (filter p (db_tokens db))
      in db\<lparr>db_tokens := filter (\<lambda>t. \<not> p t) (db_tokens db),
            db_pushes := filter (\<lambda>x. push_tokenId x \<notin> set gone) (db_pushes db)\<rparr>)"

definition delivered_push :: "timestamp \<Rightarrow> push_row \<Rightarrow> push_row" where
  "delivered_push now p =
     p\<lparr>push_status_of := Push_DELIVERED, push_attempts := push_attempts p + 1, push_processingUntil := None,
       push_deliveredAt := Some now, push_lastErrorCode := None\<rparr>"

definition retried_push :: "timestamp \<Rightarrow> nat \<Rightarrow> string \<Rightarrow> push_row \<Rightarrow> push_row" where
  "retried_push now attempts errorCode p =
     p\<lparr>push_status_of := Push_RETRY, push_attempts := push_attempts p + 1, push_processingUntil := None,
       push_nextAttemptAt := now + push_retry_delay attempts, push_lastErrorCode := Some errorCode\<rparr>"

text \<open>The claim and the outcome are statements of their own: an exception between them keeps the claim.\<close>

definition deliver_push ::
    "(push_provider_name \<Rightarrow> string \<Rightarrow> string \<Rightarrow> push_outcome option) \<Rightarrow> string \<Rightarrow> timestamp \<Rightarrow> db \<Rightarrow> db \<times> nat result" where
  "deliver_push send deliveryId now db =
     (case claim_push deliveryId now db of (db, claimed) \<Rightarrow>
      if claimed = 0 then (db, Inr 0)
      else case List.find (\<lambda>p. push_id p = deliveryId) (db_pushes db) of
        None \<Rightarrow> (db, Inr 0)
      | Some delivery \<Rightarrow>
          (case List.find (\<lambda>t. tok_id t = push_tokenId delivery) (db_tokens db) of
             None \<Rightarrow> (db, Inl (Plain_error ''token-relation-missing''))
           | Some token \<Rightarrow>
               (case send (tok_provider token) (tok_token token) (push_eventId delivery) of
                  Some DELIVERED \<Rightarrow> (update_push deliveryId (delivered_push now) db, Inr 1)
                | Some INVALID_TOKEN \<Rightarrow>
                    (delete_tokens (\<lambda>t. tok_id t = tok_id token \<and> tok_token t = tok_token token) db, Inr 1)
                | Some RETRY \<Rightarrow>
                    (update_push deliveryId (retried_push now (push_attempts delivery) ''PROVIDER_RETRY'') db, Inr 1)
                | None \<Rightarrow>
                    (update_push deliveryId (retried_push now (push_attempts delivery) ''PROVIDER_ERROR'') db, Inr 1))))"

fun push_loop ::
    "(push_provider_name \<Rightarrow> string \<Rightarrow> string \<Rightarrow> push_outcome option) \<Rightarrow> timestamp \<Rightarrow> string list \<Rightarrow> nat \<Rightarrow> db
      \<Rightarrow> db \<times> nat result" where
  "push_loop send now [] processed db = (db, Inr processed)"
| "push_loop send now (i # ids) processed db =
     (case deliver_push send i now db of
        (db', Inl e) \<Rightarrow> (db', Inl e)
      | (db', Inr n) \<Rightarrow> push_loop send now ids (processed + n) db')"

definition process_pushes ::
    "(push_provider_name \<Rightarrow> string \<Rightarrow> string \<Rightarrow> push_outcome option) \<Rightarrow> timestamp \<Rightarrow> db \<Rightarrow> db \<times> nat result" where
  "process_pushes send now db = push_loop send now (map push_id (pending_pushes now db)) 0 db"

section \<open>Devices\<close>

record register_token_dto =
  rt_provider :: push_provider_name
  rt_platform :: push_platform
  rt_token :: string

record device_token_response =
  dt_id :: string
  dt_installationId :: string
  dt_provider :: push_provider_name
  dt_platform :: push_platform
  dt_updatedAt :: timestamp

definition device_token_response_of :: "token_row \<Rightarrow> device_token_response" where
  "device_token_response_of t =
     \<lparr>dt_id = tok_id t, dt_installationId = tok_installationId t, dt_provider = tok_provider t,
      dt_platform = tok_platform t, dt_updatedAt = tok_updatedAt t\<rparr>"

definition token_slot :: "string \<Rightarrow> string \<Rightarrow> push_provider_name \<Rightarrow> token_row \<Rightarrow> bool" where
  "token_slot userId installationId provider t \<longleftrightarrow>
     tok_userId t = userId \<and> tok_installationId t = installationId \<and> tok_provider t = provider"

text \<open>
  The body of the serializable transaction. \<open>isUUID(installationId, '4')\<close> of the package
  class-validator is an argument; the retry on the serialization error P2034 has nothing to
  do where transactions run one after the other.
\<close>

definition register_transaction ::
    "string \<Rightarrow> string \<Rightarrow> register_token_dto \<Rightarrow> timestamp \<Rightarrow> db \<Rightarrow> (db \<times> device_token_response) result" where
  "register_transaction userId installationId dto now db =
     (let db = delete_tokens (\<lambda>t. tok_provider t = rt_provider dto \<and> tok_token t = rt_token dto
            \<and> \<not> (tok_userId t = userId \<and> tok_installationId t = installationId)) db
      in case List.find (token_slot userId installationId (rt_provider dto)) (db_tokens db) of
           Some t \<Rightarrow>
             (let t' = t\<lparr>tok_platform := rt_platform dto, tok_token := rt_token dto, tok_updatedAt := now\<rparr>
              in Inr (db\<lparr>db_tokens := update_rows (\<lambda>x. tok_id x = tok_id t) (\<lambda>_. t') (db_tokens db)\<rparr>,
                      device_token_response_of t'))
         | None \<Rightarrow>
             (let t' = \<lparr>tok_id = fresh_id db, tok_userId = userId, tok_installationId = installationId,
                  tok_provider = rt_provider dto, tok_platform = rt_platform dto, tok_token = rt_token dto,
                  tok_updatedAt = now\<rparr>
              in Inr (db\<lparr>db_next := Suc (db_next db), db_tokens := db_tokens db @ [t']\<rparr>,
                      device_token_response_of t')))"

definition register_token ::
    "(string \<Rightarrow> bool) \<Rightarrow> string \<Rightarrow> string \<Rightarrow> register_token_dto \<Rightarrow> timestamp \<Rightarrow> db \<Rightarrow> (db \<times> device_token_response) result" where
  "register_token is_uuid4 userId installationId dto now db =
     (if \<not> is_uuid4 installationId then Inl (Bad_request ''installation-id'')
      else if rt_provider dto = RUSTORE \<and> rt_platform dto \<noteq> ANDROID then Inl (Bad_request ''rustore-android-only'')
      else register_transaction userId installationId dto now db)"

definition remove_token :: "string \<Rightarrow> string \<Rightarrow> db \<Rightarrow> db \<times> bool" where
  "remove_token userId i db =
     (let p = (\<lambda>t. tok_id t = i \<and> tok_userId t = userId)
      in (delete_tokens p db, count_rows p (db_tokens db) = 1))"

end
