(* ===== verification/Inbox.thy ===== *)
theory Inbox
  imports Notifications
begin

text \<open>
  A user's inbox (\<open>booking/inbox.service.ts\<close>): the list of delivered events, page by page, the
  details of one event and the read marks. A page starts after the cursor's row in the order
  of the list (Prisma's \<open>cursor\<close> with \<open>skip: 1\<close>).
\<close>

record inbox_event =
  ie_eventId :: string
  ie_bookingId :: "string option"
  ie_supportTicketId :: "string option"
  ie_itemId :: "string option"
  ie_eventType :: string
  ie_readAt :: "timestamp option"
  ie_createdAt :: timestamp

record inbox_page =
  ip_items :: "inbox_event list"
  ip_nextCursor :: "string option"

record inbox_page_query =
  iq_limit :: "nat option"
  iq_cursor :: "string option"
  iq_unreadOnly :: "bool option"

record inbox_booking =
  ib_id :: string
  ib_itemId :: string
  ib_startDate :: timestamp
  ib_endDate :: timestamp
  ib_totalAmount :: rat
  ib_status :: booking_status
  ib_expiresAt :: "timestamp option"
  ib_cancellationReason :: "string option"

record inbox_details =
  id_event :: inbox_event
  id_booking :: "inbox_booking option"
  id_supportTicket :: "(string \<times> string \<times> ticket_status \<times> timestamp) option"

definition DEFAULT_PAGE_LIMIT :: nat where
  "DEFAULT_PAGE_LIMIT = 20"

definition inbox_event_of :: "inbox_row \<Rightarrow> inbox_event" where
  "inbox_event_of r =
     \<lparr>ie_eventId = inb_eventId r, ie_bookingId = inb_bookingId r, ie_supportTicketId = inb_supportTicketId r,
      ie_itemId = inb_itemId r, ie_eventType = inb_eventType r, ie_readAt = inb_readAt r,
      ie_createdAt = inb_createdAt r\<rparr>"

definition list_inbox :: "db \<Rightarrow> string \<Rightarrow> inbox_event list" where
  "list_inbox db recipientId =
     map inbox_event_of (sort_key (\<lambda>r. - inb_createdAt r) (filter (\<lambda>r. inb_recipientId r = recipientId) (db_inbox db)))"

definition inbox_key :: "inbox_row \<Rightarrow> timestamp \<times> string" where
  "inbox_key r = (inb_createdAt r, inb_id r)"

definition inbox_rows :: "bool \<Rightarrow> string \<Rightarrow> db \<Rightarrow> inbox_row list" where
  "inbox_rows unreadOnly recipientId db =
     filter (\<lambda>r. inb_recipientId r = recipientId \<and> (unreadOnly \<longrightarrow> inb_readAt r = None)) (db_inbox db)"

definition inbox_page_rows ::
    "bool \<Rightarrow> string \<Rightarrow> db \<Rightarrow> nat \<Rightarrow> string option \<Rightarrow> (inbox_row list \<times> string option) option" where
  "inbox_page_rows unreadOnly recipientId db limit cursor =
     (case cursor of
        None \<Rightarrow> Some (cut_page inb_id limit (newest_first inbox_key (inbox_rows unreadOnly recipientId db)))
      | Some c \<Rightarrow>
          (case List.find (\<lambda>r. inb_id r = c \<and> inb_recipientId r = recipientId) (db_inbox db) of
             None \<Rightarrow> None
           | Some r \<Rightarrow> Some (cut_page inb_id limit (newest_first inbox_key
               (older_than inbox_key (inbox_key r) (inbox_rows unreadOnly recipientId db))))))"

definition list_inbox_page :: "db \<Rightarrow> string \<Rightarrow> inbox_page_query \<Rightarrow> inbox_page result" where
  "list_inbox_page db recipientId query =
     (case inbox_page_rows (iq_unreadOnly query = Some True) recipientId db
             (case iq_limit query of None \<Rightarrow> DEFAULT_PAGE_LIMIT | Some l \<Rightarrow> l) (iq_cursor query) of
        None \<Rightarrow> Inl (Not_found ''inbox-page'')
      | Some (rows, nextCursor) \<Rightarrow> Inr \<lparr>ip_items = map inbox_event_of rows, ip_nextCursor = nextCursor\<rparr>)"

definition inbox_booking_of :: "booking_row \<Rightarrow> inbox_booking" where
  "inbox_booking_of b =
     \<lparr>ib_id = bk_id b, ib_itemId = bk_itemId b, ib_startDate = bk_startDate b, ib_endDate = bk_endDate b,
      ib_totalAmount = to_number (bk_totalAmount b), ib_status = bk_status b, ib_expiresAt = bk_expiresAt b,
      ib_cancellationReason = bk_cancellationReason b\<rparr>"

definition inbox_event_visible :: "db \<Rightarrow> string \<Rightarrow> inbox_row \<Rightarrow> bool" where
  "inbox_event_visible db recipientId r \<longleftrightarrow>
     (case Option.bind (inb_bookingId r) (find_booking db) of
        Some b \<Rightarrow> is_participant recipientId b | None \<Rightarrow> False)
     \<or> (case Option.bind (inb_supportTicketId r) (find_ticket db) of
          Some t \<Rightarrow> tk_userId t = recipientId | None \<Rightarrow> False)
     \<or> (case Option.bind (inb_itemId r) (\<lambda>i. List.find (\<lambda>x. it_id x = i) (db_items db)) of
          Some i \<Rightarrow> it_ownerId i = recipientId | None \<Rightarrow> False)"

definition get_inbox_details :: "db \<Rightarrow> string \<Rightarrow> string \<Rightarrow> inbox_details result" where
  "get_inbox_details db recipientId eventId =
     (case List.find (\<lambda>r. inb_eventId r = eventId \<and> inb_recipientId r = recipientId
             \<and> inbox_event_visible db recipientId r) (db_inbox db) of
        None \<Rightarrow> Inl (Not_found ''inbox-event'')
      | Some r \<Rightarrow> Inr
          \<lparr>id_event = inbox_event_of r,
           id_booking = map_option inbox_booking_of (Option.bind (inb_bookingId r) (find_booking db)),
           id_supportTicket = map_option (\<lambda>t. (tk_id t, tk_subject t, tk_status t, tk_updatedAt t))
             (Option.bind (inb_supportTicketId r) (find_ticket db))\<rparr>)"

definition mark_inbox_read :: "string \<Rightarrow> string \<Rightarrow> timestamp \<Rightarrow> db \<Rightarrow> (db \<times> inbox_event) result" where
  "mark_inbox_read recipientId eventId now db =
     (case List.find (\<lambda>r. inb_eventId r = eventId \<and> inb_recipientId r = recipientId) (db_inbox db) of
        None \<Rightarrow> Inl (Not_found ''inbox-event'')
      | Some r \<Rightarrow>
          let r' = r\<lparr>inb_readAt := Some (case inb_readAt r of None \<Rightarrow> now | Some t \<Rightarrow> t)\<rparr>
          in Inr (db\<lparr>db_inbox := update_rows (\<lambda>x. inb_id x = inb_id r) (\<lambda>_. r') (db_inbox db)\<rparr>,
                  inbox_event_of r'))"

definition mark_rows_read :: "(inbox_row \<Rightarrow> bool) \<Rightarrow> timestamp \<Rightarrow> db \<Rightarrow> db \<times> nat" where
  "mark_rows_read p now db =
     (db\<lparr>db_inbox := update_rows (\<lambda>r. p r \<and> inb_readAt r = None) (\<lambda>r. r\<lparr>inb_readAt := Some now\<rparr>) (db_inbox db)\<rparr>,
      count_rows (\<lambda>r. p r \<and> inb_readAt r = None) (db_inbox db))"

definition mark_all_read :: "string \<Rightarrow> timestamp \<Rightarrow> db \<Rightarrow> db \<times> nat" where
  "mark_all_read recipientId now db = mark_rows_read (\<lambda>r. inb_recipientId r = recipientId) now db"

section \<open>The pages of the inbox\<close>

lemma inbox_next_page:
  assumes "newest_first inbox_key (inbox_rows False recipientId db) = pre @ r # rest"
    and "distinct (map inb_id (newest_first inbox_key (inbox_rows False recipientId db)))"
  shows "inbox_page_rows False recipientId db limit (Some (inb_id r)) = Some (cut_page inb_id limit rest)"
proof -
  have rows: "inbox_rows False recipientId db = filter (\<lambda>r. inb_recipientId r = recipientId) (db_inbox db)"
    by (simp add: inbox_rows_def)
  have id: "inb_id = snd \<circ> inbox_key" by (simp add: fun_eq_iff inbox_key_def)
  note next_rows = keyset_next_page [OF assms [unfolded rows] id, folded rows]
  show ?thesis by (simp add: inbox_page_rows_def next_rows)
qed

interpretation inbox_pages: paging "\<lambda>db. newest_first inbox_key (inbox_rows False recipientId db)" inb_id
  "inbox_page_rows False recipientId" for recipientId
  by unfold_locales (simp add: inbox_page_rows_def, rule inbox_next_page)

end
