(* ===== verification/Booking_Messages.thy ===== *)
theory Booking_Messages
  imports Inbox Users_Service
begin

text \<open>
  The chat of a booking (\<open>booking/booking-message.service.ts\<close>): the two parties write while the
  request is open or the rental runs, under a rate limit and with an idempotency key per
  message, and read it page by page. The advisory locks of the code serialize the senders;
  here one command runs after the other.
\<close>

definition DEFAULT_PAGE_SIZE :: nat where
  "DEFAULT_PAGE_SIZE = 50"

definition BOOKING_CHAT_MAX_BODY_LENGTH :: nat where
  "BOOKING_CHAT_MAX_BODY_LENGTH = 2000"

definition BOOKING_CHAT_RATE_WINDOW_MS :: int where
  "BOOKING_CHAT_RATE_WINDOW_MS = 60 * 1000"

definition BOOKING_CHAT_MAX_PER_BOOKING_WINDOW :: nat where
  "BOOKING_CHAT_MAX_PER_BOOKING_WINDOW = 20"

definition BOOKING_CHAT_MAX_PER_ACTOR_WINDOW :: nat where
  "BOOKING_CHAT_MAX_PER_ACTOR_WINDOW = 60"

definition WRITABLE_STATUSES :: "booking_status list" where
  "WRITABLE_STATUSES = [Bk_CONFIRMED, Bk_ACTIVE, Bk_RETURNED]"

datatype message_author = SELF | COUNTERPARTY | SYSTEM_AUTHOR

record message_response =
  mr_id :: string
  mr_bookingId :: string
  mr_author :: message_author
  mr_clientMessageId :: "string option"
  mr_body :: string
  mr_createdAt :: timestamp

record create_message_dto =
  cm_clientMessageId :: string
  cm_body :: string

definition message_author_of :: "string \<Rightarrow> booking_row \<Rightarrow> message_row \<Rightarrow> message_author" where
  "message_author_of actorId booking m =
     (let actorRole = (if bk_borrowerId booking = actorId then Msg_BORROWER else Msg_LENDER)
      in if msg_authorRole m = Msg_SYSTEM then SYSTEM_AUTHOR
         else if msg_authorRole m = actorRole then SELF else COUNTERPARTY)"

definition to_message_response :: "string \<Rightarrow> booking_row \<Rightarrow> message_row \<Rightarrow> message_response" where
  "to_message_response actorId booking m =
     (let author = message_author_of actorId booking m
      in \<lparr>mr_id = msg_id m, mr_bookingId = msg_bookingId m, mr_author = author,
          mr_clientMessageId = (if author = SELF then msg_clientMessageId m else None),
          mr_body = msg_body m, mr_createdAt = msg_createdAt m\<rparr>)"

definition require_chat_participant :: "db \<Rightarrow> string \<Rightarrow> string \<Rightarrow> booking_row result" where
  "require_chat_participant db actorId bookingId =
     (case find_participant_booking db actorId bookingId of
        None \<Rightarrow> Inl (Not_found ''booking'')
      | Some b \<Rightarrow> Inr b)"

definition can_write :: "booking_status \<Rightarrow> timestamp option \<Rightarrow> timestamp \<Rightarrow> bool" where
  "can_write status expiresAt now =
     (if status = Bk_PENDING then (case expiresAt of None \<Rightarrow> False | Some e \<Rightarrow> now < e)
      else status \<in> set WRITABLE_STATUSES)"

definition counterparty_of :: "string \<Rightarrow> booking_row \<Rightarrow> string" where
  "counterparty_of actorId b = (if bk_borrowerId b = actorId then bk_lenderId b else bk_borrowerId b)"

definition block_counterparty ::
    "string \<Rightarrow> string \<Rightarrow> string \<Rightarrow> timestamp \<Rightarrow> db \<Rightarrow> (db \<times> user_block_response) result" where
  "block_counterparty actorId bookingId requestId now db =
     bind_result (require_chat_participant db actorId bookingId) (\<lambda>booking.
     block_user actorId (counterparty_of actorId booking) requestId now db)"

section \<open>Reading\<close>

definition message_key :: "message_row \<Rightarrow> timestamp \<times> string" where
  "message_key m = (msg_createdAt m, msg_id m)"

definition chat_rows :: "string \<Rightarrow> db \<Rightarrow> message_row list" where
  "chat_rows bookingId db = filter (\<lambda>m. msg_bookingId m = bookingId) (db_messages db)"

definition chat_page_rows ::
    "string \<Rightarrow> db \<Rightarrow> nat \<Rightarrow> string option \<Rightarrow> (message_row list \<times> string option) option" where
  "chat_page_rows bookingId db limit cursor =
     (case cursor of
        None \<Rightarrow> Some (cut_page msg_id limit (newest_first message_key (chat_rows bookingId db)))
      | Some c \<Rightarrow>
          (case List.find (\<lambda>m. msg_id m = c \<and> msg_bookingId m = bookingId) (db_messages db) of
             None \<Rightarrow> None
           | Some after \<Rightarrow> Some (cut_page msg_id limit (newest_first message_key
               (older_than message_key (message_key after) (chat_rows bookingId db))))))"

definition list_messages ::
    "db \<Rightarrow> string \<Rightarrow> string \<Rightarrow> string option \<Rightarrow> nat option \<Rightarrow> (message_response list \<times> string option) result" where
  "list_messages db actorId bookingId cursor limit =
     bind_result (require_chat_participant db actorId bookingId) (\<lambda>booking.
     case chat_page_rows bookingId db (case limit of None \<Rightarrow> DEFAULT_PAGE_SIZE | Some l \<Rightarrow> l) cursor of
       None \<Rightarrow> Inl (Bad_request ''INVALID_MESSAGE_CURSOR'')
     | Some (rows, nextCursor) \<Rightarrow> Inr (map (to_message_response actorId booking) (rev rows), nextCursor))"

section \<open>Sending\<close>

definition contains_unsafe_control :: "string \<Rightarrow> bool" where
  "contains_unsafe_control value \<longleftrightarrow> list_ex is_unsafe_control value"

definition message_body_ok :: "string \<Rightarrow> bool" where
  "message_body_ok body \<longleftrightarrow>
     \<not> (length body = 0 \<or> BOOKING_CHAT_MAX_BODY_LENGTH < length body \<or> contains_unsafe_control body)"

text \<open>The checks of a new message, in the code's order; the result is the recipient.\<close>

definition send_guards :: "string \<Rightarrow> booking_row \<Rightarrow> timestamp \<Rightarrow> db \<Rightarrow> string result" where
  "send_guards actorId booking now db =
     (let recipientId = counterparty_of actorId booking;
          unavailable = (case find_user db recipientId of None \<Rightarrow> True | Some u \<Rightarrow> us_deletedAt u \<noteq> None \<or> us_isBlocked u);
          recent = (\<lambda>m. msg_authorId m = Some actorId \<and> now - BOOKING_CHAT_RATE_WINDOW_MS \<le> msg_createdAt m)
      in
      if \<not> can_write (bk_status booking) (bk_expiresAt booking) now then Inl (Conflict ''BOOKING_CHAT_READ_ONLY'')
      else if unavailable then Inl (Conflict ''BOOKING_CHAT_READ_ONLY'')
      else if interaction_blocked db actorId recipientId then Inl (Conflict ''BOOKING_CHAT_BLOCKED'')
      else if BOOKING_CHAT_MAX_PER_BOOKING_WINDOW
             \<le> count_rows (\<lambda>m. msg_bookingId m = bk_id booking \<and> recent m) (db_messages db)
          \<or> BOOKING_CHAT_MAX_PER_ACTOR_WINDOW \<le> count_rows recent (db_messages db)
      then Inl (Too_many_requests ''messages'')
      else Inr recipientId)"

definition message_event_row :: "db \<Rightarrow> string \<Rightarrow> string \<Rightarrow> string \<Rightarrow> outbox_row" where
  "message_event_row db bookingId recipientId messageId =
     \<lparr>out_id = fresh_id db, out_bookingId = Some bookingId, out_supportTicketId = None,
      out_recipientId = Some recipientId, out_itemId = None, out_eventType = ''BOOKING_MESSAGE_CREATED'',
      out_deduplicationKey = ''booking:'' @ bookingId @ '':message:'' @ messageId,
      out_createdAt = db_now db, out_processedAt = None\<rparr>"

definition new_message :: "string \<Rightarrow> booking_row \<Rightarrow> string \<Rightarrow> string \<Rightarrow> db \<Rightarrow> message_row" where
  "new_message actorId booking clientMessageId body db =
     \<lparr>msg_id = fresh_id db, msg_bookingId = bk_id booking, msg_authorId = Some actorId,
      msg_authorRole = (if bk_borrowerId booking = actorId then Msg_BORROWER else Msg_LENDER),
      msg_clientMessageId = Some clientMessageId, msg_body = body, msg_createdAt = db_now db\<rparr>"

definition send_transaction ::
    "string \<Rightarrow> string \<Rightarrow> string \<Rightarrow> string \<Rightarrow> timestamp \<Rightarrow> db \<Rightarrow> (db \<times> booking_row \<times> message_row) result" where
  "send_transaction actorId bookingId clientMessageId body now db =
     bind_result (require_chat_participant db actorId bookingId) (\<lambda>booking.
     case List.find (\<lambda>m. msg_authorId m = Some actorId \<and> msg_clientMessageId m = Some clientMessageId)
            (db_messages db) of
       Some repeated \<Rightarrow>
         (if msg_bookingId repeated \<noteq> bookingId \<or> msg_body repeated \<noteq> body
          then Inl (Conflict ''IDEMPOTENCY_KEY_REUSED'')
          else Inr (db, booking, repeated))
     | None \<Rightarrow>
         bind_result (send_guards actorId booking now db) (\<lambda>recipientId.
         let m = new_message actorId booking clientMessageId body db in
         bind_result (insert_message m db) (\<lambda>db.
         bind_result (insert_outbox (message_event_row db bookingId recipientId (msg_id m)) db) (\<lambda>db.
         Inr (db, booking, m)))))"

definition send_message ::
    "string \<Rightarrow> string \<Rightarrow> create_message_dto \<Rightarrow> timestamp \<Rightarrow> db \<Rightarrow> (db \<times> message_response) result" where
  "send_message actorId bookingId dto now db =
     (let body = js_trim (cm_body dto) in
      if \<not> message_body_ok body then Inl (Bad_request ''INVALID_MESSAGE_BODY'')
      else
        bind_result (send_transaction actorId bookingId (cm_clientMessageId dto) body now db)
          (\<lambda>(db, booking, m). Inr (db, to_message_response actorId booking m)))"

definition mark_chat_read :: "string \<Rightarrow> string \<Rightarrow> timestamp \<Rightarrow> db \<Rightarrow> (db \<times> timestamp \<times> nat) result" where
  "mark_chat_read actorId bookingId now db =
     bind_result (require_chat_participant db actorId bookingId) (\<lambda>_.
     case mark_rows_read (\<lambda>r. inb_recipientId r = actorId \<and> inb_bookingId r = Some bookingId
            \<and> inb_eventType r = ''BOOKING_MESSAGE_CREATED'') now db of
       (db', updated) \<Rightarrow> Inr (db', now, updated))"

section \<open>The pages of the chat\<close>

lemma chat_next_page:
  assumes "newest_first message_key (chat_rows bookingId db) = pre @ r # rest"
    and "distinct (map msg_id (newest_first message_key (chat_rows bookingId db)))"
  shows "chat_page_rows bookingId db limit (Some (msg_id r)) = Some (cut_page msg_id limit rest)"
proof -
  have id: "msg_id = snd \<circ> message_key" by (simp add: fun_eq_iff message_key_def)
  note next_rows = keyset_next_page [OF assms [unfolded chat_rows_def] id, folded chat_rows_def]
  show ?thesis by (simp add: chat_page_rows_def next_rows)
qed

interpretation chat_pages: paging "\<lambda>db. newest_first message_key (chat_rows bookingId db)" msg_id
  "chat_page_rows bookingId" for bookingId
  by unfold_locales (simp add: chat_page_rows_def, rule chat_next_page)

end
