(* ===== verification/Notification_Properties.thy ===== *)
theory Notification_Properties
  imports Booking_Messages Sample_Data
begin

text \<open>
  What the delivery of notifications guarantees: every recipient of an event finds it once in
  the inbox and once on each device, whatever the order and the repetitions of the worker; a
  push is retried with a bounded back-off and never after it was delivered; a push token
  belongs to one account.
\<close>

section \<open>The outbox worker\<close>

definition inbox_slot :: "inbox_row \<Rightarrow> string \<times> string" where
  "inbox_slot i = (inb_eventId i, inb_recipientId i)"

definition push_slot :: "push_row \<Rightarrow> string \<times> string" where
  "push_slot p = (push_eventId p, push_tokenId p)"

text \<open>The unique constraints of the two tables and of the outbox's key.\<close>

definition delivery_keys_ok :: "db \<Rightarrow> bool" where
  "delivery_keys_ok db \<longleftrightarrow>
     distinct (map inbox_slot (db_inbox db)) \<and> distinct (map push_slot (db_pushes db))
     \<and> distinct (map out_id (db_outbox db))"

text \<open>What the inserts of the worker keep.\<close>

definition grows :: "db \<Rightarrow> db \<Rightarrow> bool" where
  "grows db db' \<longleftrightarrow>
     db_bookings db' = db_bookings db \<and> db_tokens db' = db_tokens db \<and> db_desk db' = db_desk db
     \<and> set (db_inbox db) \<subseteq> set (db_inbox db') \<and> set (db_pushes db) \<subseteq> set (db_pushes db')
     \<and> (distinct (map inbox_slot (db_inbox db)) \<longrightarrow> distinct (map inbox_slot (db_inbox db')))
     \<and> (distinct (map push_slot (db_pushes db)) \<longrightarrow> distinct (map push_slot (db_pushes db')))"

lemma grows_refl [simp]: "grows db db"
  by (simp add: grows_def)

lemma grows_trans: "grows a b \<Longrightarrow> grows b c \<Longrightarrow> grows a c"
  by (auto simp: grows_def)

lemma insert_inbox_grows:
  "grows db (insert_inbox_skip x r db) \<and> (out_id x, r) \<in> inbox_slot ` set (db_inbox (insert_inbox_skip x r db))
    \<and> db_outbox (insert_inbox_skip x r db) = db_outbox db"
  by (force simp: insert_inbox_skip_def grows_def inbox_slot_def)

lemma insert_push_grows:
  "grows db (insert_push_skip e t db) \<and> (e, t) \<in> push_slot ` set (db_pushes (insert_push_skip e t db))
    \<and> db_outbox (insert_push_skip e t db) = db_outbox db"
  by (force simp: insert_push_skip_def grows_def push_slot_def)

lemma grows_slots:
  assumes "grows db db'"
  shows "inbox_slot ` set (db_inbox db) \<subseteq> inbox_slot ` set (db_inbox db')"
    "push_slot ` set (db_pushes db) \<subseteq> push_slot ` set (db_pushes db')"
  using assms by (auto simp: grows_def)

lemma insert_all_inbox:
  "grows db (fold (insert_inbox_skip x) rs db)
    \<and> (\<forall>r \<in> set rs. (out_id x, r) \<in> inbox_slot ` set (db_inbox (fold (insert_inbox_skip x) rs db)))
    \<and> db_outbox (fold (insert_inbox_skip x) rs db) = db_outbox db"
proof (induction rs arbitrary: db)
  case (Cons r rs)
  let ?d = "insert_inbox_skip x r db"
  note a = insert_inbox_grows [of db x r] and b = Cons.IH [of ?d]
  have "(out_id x, r) \<in> inbox_slot ` set (db_inbox (fold (insert_inbox_skip x) rs ?d))"
    using a b grows_slots(1) by blast
  then show ?case using a b grows_trans by auto
qed simp

lemma insert_all_pushes:
  "grows db (fold (\<lambda>t. insert_push_skip e (tok_id t)) ts db)
    \<and> (\<forall>t \<in> set ts. (e, tok_id t) \<in> push_slot ` set (db_pushes (fold (\<lambda>t. insert_push_skip e (tok_id t)) ts db)))
    \<and> db_outbox (fold (\<lambda>t. insert_push_skip e (tok_id t)) ts db) = db_outbox db"
proof (induction ts arbitrary: db)
  case (Cons t ts)
  let ?d = "insert_push_skip e (tok_id t) db"
  note a = insert_push_grows [of db e "tok_id t"] and b = Cons.IH [of ?d]
  have "(e, tok_id t) \<in> push_slot ` set (db_pushes (fold (\<lambda>t. insert_push_skip e (tok_id t)) ts ?d))"
    using a b grows_slots(2) by blast
  then show ?case using a b grows_trans by auto
qed simp

lemma recipients_of_cong:
  assumes "db_bookings db' = db_bookings db" and "db_desk db' = db_desk db"
  shows "recipients_of db' x = recipients_of db x"
proof -
  have f: "find_booking db' = find_booking db" "find_ticket db' = find_ticket db"
    using assms by (auto simp: find_booking_def find_ticket_def)
  show ?thesis unfolding recipients_of_def event_booking_def event_ticket_def f ..
qed

text \<open>An event has reached its recipients.\<close>

definition fanned_out :: "db \<Rightarrow> outbox_row \<Rightarrow> bool" where
  "fanned_out db x \<longleftrightarrow>
     (\<forall>r \<in> set (recipients_of db x). (out_id x, r) \<in> inbox_slot ` set (db_inbox db))
     \<and> (\<forall>t \<in> set (db_tokens db). tok_userId t \<in> set (recipients_of db x) \<longrightarrow>
          (out_id x, tok_id t) \<in> push_slot ` set (db_pushes db))"

lemma fanned_out_grows: "grows db db' \<Longrightarrow> fanned_out db x \<Longrightarrow> fanned_out db' x"
  using grows_slots [of db db'] recipients_of_cong [of db' db x] by (auto simp: fanned_out_def grows_def)

definition marked :: "string \<Rightarrow> timestamp \<Rightarrow> outbox_row list \<Rightarrow> outbox_row list" where
  "marked i now xs = update_rows (\<lambda>x. out_id x = i \<and> out_processedAt x = None) (\<lambda>x. x\<lparr>out_processedAt := Some now\<rparr>) xs"

lemma deliver_eventE:
  assumes "deliver_event i now db = Inr (db', n)"
  shows "grows db db' \<and> db_outbox db' = marked i now (db_outbox db)"
    and "distinct (map out_id (db_outbox db)) \<Longrightarrow> x \<in> set (db_outbox db) \<Longrightarrow> out_id x = i \<Longrightarrow>
      out_processedAt x = None \<Longrightarrow> fanned_out db' x"
proof -
  let ?p = "\<lambda>x. out_id x = i \<and> out_processedAt x = None"
  have "grows db db' \<and> db_outbox db' = marked i now (db_outbox db) \<and>
    (distinct (map out_id (db_outbox db)) \<longrightarrow> x \<in> set (db_outbox db) \<longrightarrow> ?p x \<longrightarrow> fanned_out db' x)"
  proof (cases "List.find ?p (db_outbox db)")
    case None
    then have "marked i now (db_outbox db) = db_outbox db"
      by (auto simp: marked_def find_None_iff_ball intro!: update_rows_none)
    then show ?thesis using assms None by (auto simp: deliver_event_def find_None_iff_ball)
  next
    case (Some e)
    then have e: "e \<in> set (db_outbox db)" "out_id e = i" "out_processedAt e = None"
      by (auto dest: find_SomeD)
    let ?rs = "recipients_of db e"
    define d1 where "d1 = fold (insert_inbox_skip e) ?rs db"
    define ts where "ts = filter (\<lambda>t. tok_userId t \<in> set ?rs) (db_tokens d1)"
    define d2 where "d2 = fold (\<lambda>t. insert_push_skip (out_id e) (tok_id t)) ts d1"
    have db': "db' = d2\<lparr>db_outbox := marked i now (db_outbox d2)\<rparr>"
      using assms Some e(2)
      by (auto simp: deliver_event_def Let_def marked_def d1_def d2_def ts_def split: if_splits)
    have a: "grows db d1" "\<forall>r \<in> set ?rs. (i, r) \<in> inbox_slot ` set (db_inbox d1)" "db_outbox d1 = db_outbox db"
      using insert_all_inbox [of db e ?rs] e(2) by (simp_all add: d1_def)
    have b: "grows d1 d2" "\<forall>t \<in> set ts. (i, tok_id t) \<in> push_slot ` set (db_pushes d2)" "db_outbox d2 = db_outbox d1"
      using insert_all_pushes [of d1 i ts] e(2) by (simp_all add: d2_def)
    have g: "grows db d2" by (rule grows_trans [OF a(1) b(1)])
    then have g': "grows db db'" by (simp add: db' grows_def)
    have "recipients_of db' e = ?rs" using g' by (intro recipients_of_cong) (simp_all add: grows_def)
    moreover have "\<forall>r \<in> set ?rs. (i, r) \<in> inbox_slot ` set (db_inbox db')"
      using a(2) grows_slots(1) [OF b(1)] by (auto simp: db')
    moreover have "\<forall>t \<in> set (db_tokens db'). tok_userId t \<in> set ?rs \<longrightarrow> (i, tok_id t) \<in> push_slot ` set (db_pushes db')"
      using b(1,2) by (auto simp: db' ts_def grows_def)
    ultimately have "fanned_out db' e" using e(2) by (simp add: fanned_out_def)
    moreover have "x = e" if "distinct (map out_id (db_outbox db))" "x \<in> set (db_outbox db)" "out_id x = i"
      using distinct_key_eq [OF that(1,2) e(1)] that(3) e(2) by simp
    ultimately show ?thesis using g' by (auto simp: db' a(3) b(3))
  qed
  then show "grows db db' \<and> db_outbox db' = marked i now (db_outbox db)"
    and "distinct (map out_id (db_outbox db)) \<Longrightarrow> x \<in> set (db_outbox db) \<Longrightarrow> out_id x = i \<Longrightarrow>
      out_processedAt x = None \<Longrightarrow> fanned_out db' x" by blast+
qed

lemma marked_keys [simp]: "map out_id (marked i now xs) = map out_id xs"
  by (simp add: marked_def update_rows_def comp_def if_distrib cong: if_cong)

definition all_processed :: "outbox_row list \<Rightarrow> string \<Rightarrow> bool" where
  "all_processed xs j \<longleftrightarrow> (\<forall>y \<in> set xs. out_id y = j \<longrightarrow> out_processedAt y \<noteq> None)"

lemma marked_other: "x \<in> set xs \<Longrightarrow> out_id x \<noteq> i \<Longrightarrow> x \<in> set (marked i now xs)"
  by (force simp: marked_def set_update_rows)

lemma marked_processed: "all_processed xs j \<or> j = i \<Longrightarrow> all_processed (marked i now xs) j"
  unfolding all_processed_def marked_def by (auto elim!: in_update_rowsE)

lemma deliver_loopD:
  assumes "deliver_loop now ids m db = (db', Inr n)" and "distinct ids" and "distinct (map out_id (db_outbox db))"
  shows "grows db db'"
    and "all_processed (db_outbox db) j \<or> j \<in> set ids \<Longrightarrow> all_processed (db_outbox db') j"
    and "x \<in> set (db_outbox db) \<Longrightarrow> out_id x \<in> set ids \<Longrightarrow> out_processedAt x = None \<Longrightarrow> fanned_out db' x"
proof -
  have "grows db db' \<and> (all_processed (db_outbox db) j \<or> j \<in> set ids \<longrightarrow> all_processed (db_outbox db') j)
    \<and> (x \<in> set (db_outbox db) \<and> out_id x \<in> set ids \<and> out_processedAt x = None \<longrightarrow> fanned_out db' x)"
    using assms
  proof (induction ids arbitrary: m db)
    case (Cons i ids)
    obtain d k where d: "deliver_event i now db = Inr (d, k)" "deliver_loop now ids (m + k) d = (db', Inr n)"
      using Cons.prems(1) by (auto split: sum.splits)
    have e: "grows db d" "db_outbox d = marked i now (db_outbox db)" using deliver_eventE(1) [OF d(1)] by simp_all
    have f: "x \<in> set (db_outbox db) \<Longrightarrow> out_id x = i \<Longrightarrow> out_processedAt x = None \<Longrightarrow> fanned_out d x"
      by (rule deliver_eventE(2) [OF d(1) Cons.prems(3)])
    have ih: "grows d db' \<and> (all_processed (db_outbox d) j \<or> j \<in> set ids \<longrightarrow> all_processed (db_outbox db') j)
      \<and> (x \<in> set (db_outbox d) \<and> out_id x \<in> set ids \<and> out_processedAt x = None \<longrightarrow> fanned_out db' x)"
      using Cons.prems(2,3) e(2) by (intro Cons.IH [OF d(2)]) simp_all
    have "grows db db'" using grows_trans e(1) ih by blast
    moreover have "all_processed (db_outbox db) j \<or> j \<in> set (i # ids) \<longrightarrow> all_processed (db_outbox db') j"
      using marked_processed [of "db_outbox db" j i now] ih e(2) by auto
    moreover have "fanned_out db' x"
      if "x \<in> set (db_outbox db)" "out_id x \<in> set (i # ids)" "out_processedAt x = None"
      using that f fanned_out_grows [of d db' x] marked_other [of x "db_outbox db" i now] ih e(2) by auto
    ultimately show ?case by blast
  qed simp
  then show "grows db db'"
    and "all_processed (db_outbox db) j \<or> j \<in> set ids \<Longrightarrow> all_processed (db_outbox db') j"
    and "x \<in> set (db_outbox db) \<Longrightarrow> out_id x \<in> set ids \<Longrightarrow> out_processedAt x = None \<Longrightarrow> fanned_out db' x" by blast+
qed

text \<open>
  C14. Notifications are delivered exactly once: after a run of the outbox worker that returns,
  every event that was in its batch is processed, each of its recipients has exactly one inbox
  row for it and each of their devices exactly one push delivery, whatever earlier runs had
  already delivered.
\<close>

theorem outbox_exactly_once:
  assumes "process_outbox now db = (db', Inr n)" and "delivery_keys_ok db" and "x \<in> set (pending_events db)"
  shows "(\<forall>y \<in> set (db_outbox db'). out_id y = out_id x \<longrightarrow> out_processedAt y \<noteq> None)
    \<and> (\<forall>r \<in> set (recipients_of db x).
         count_rows (\<lambda>i. inb_eventId i = out_id x \<and> inb_recipientId i = r) (db_inbox db') = 1)
    \<and> (\<forall>t \<in> set (db_tokens db). tok_userId t \<in> set (recipients_of db x) \<longrightarrow>
         count_rows (\<lambda>p. push_eventId p = out_id x \<and> push_tokenId p = tok_id t) (db_pushes db') = 1)"
proof -
  let ?ids = "map out_id (pending_events db)"
  have keys: "distinct (map out_id (db_outbox db))" using assms(2) by (simp add: delivery_keys_ok_def)
  have sub: "set (pending_events db) \<subseteq> set (filter (\<lambda>x. out_processedAt x = None) (db_outbox db))"
    unfolding pending_events_def by (rule subset_trans [OF set_take_subset]) simp
  have "distinct (map out_id (sort_key out_createdAt (filter (\<lambda>x. out_processedAt x = None) (db_outbox db))))"
    using keys by (auto simp: distinct_map intro: inj_on_subset)
  then have d: "distinct ?ids" unfolding pending_events_def take_map [symmetric] by (rule distinct_take)
  note d = deliver_loopD [OF assms(1) [unfolded process_outbox_def] d keys]
  have x: "x \<in> set (db_outbox db)" "out_processedAt x = None" "out_id x \<in> set ?ids" using assms(3) sub by auto
  have f: "fanned_out db' x" by (rule d(3) [OF x(1,3,2)])
  have g: "grows db db'" by (rule d(1))
  then have u: "distinct (map inbox_slot (db_inbox db'))" "distinct (map push_slot (db_pushes db'))"
    using assms(2) by (auto simp: grows_def delivery_keys_ok_def)
  have r: "recipients_of db' x = recipients_of db x" "db_tokens db' = db_tokens db"
    using g by (auto simp: grows_def intro: recipients_of_cong)
  have "count_rows (\<lambda>i. inb_eventId i = out_id x \<and> inb_recipientId i = r) (db_inbox db') = 1"
    if "r \<in> set (recipients_of db x)" for r
  proof -
    have "(out_id x, r) \<in> inbox_slot ` set (db_inbox db')" using f that by (simp add: fanned_out_def r)
    then obtain i where i: "i \<in> set (db_inbox db')" "inbox_slot i = (out_id x, r)" by force
    show ?thesis by (rule count_rows_one [OF u(1) i(1)]) (use i(2) in \<open>auto simp: inbox_slot_def\<close>)
  qed
  moreover have "count_rows (\<lambda>p. push_eventId p = out_id x \<and> push_tokenId p = tok_id t) (db_pushes db') = 1"
    if "t \<in> set (db_tokens db)" "tok_userId t \<in> set (recipients_of db x)" for t
  proof -
    have "(out_id x, tok_id t) \<in> push_slot ` set (db_pushes db')" using f that by (simp add: fanned_out_def r)
    then obtain p where p: "p \<in> set (db_pushes db')" "push_slot p = (out_id x, tok_id t)" by force
    show ?thesis by (rule count_rows_one [OF u(2) p(1)]) (use p(2) in \<open>auto simp: push_slot_def\<close>)
  qed
  moreover have "all_processed (db_outbox db') (out_id x)" using d(2) x(3) by blast
  ultimately show ?thesis unfolding all_processed_def by blast
qed


text \<open>A sample outbox with one event of a booking, and devices of both parties.\<close>

definition sample_event :: outbox_row where
  "sample_event = booking_event_row sample_db ''b1'' Ev_CREATED"

definition sample_token :: "string \<Rightarrow> string \<Rightarrow> token_row" where
  "sample_token i userId =
     \<lparr>tok_id = i, tok_userId = userId, tok_installationId = i, tok_provider = FCM, tok_platform = ANDROID,
      tok_token = ''device-'' @ i, tok_updatedAt = 0\<rparr>"

definition sample_outbox_db :: db where
  "sample_outbox_db = sample_db\<lparr>db_bookings := [sample_booking ''b1'' Bk_PENDING 0 None],
     db_outbox := [sample_event], db_tokens := [sample_token ''t1'' ''B'', sample_token ''t2'' ''L'']\<rparr>"

theorem outbox_exactly_once_witness:
  "\<exists>db' n. process_outbox 7 sample_outbox_db = (db', Inr n)
     \<and> count_rows (\<lambda>i. inb_eventId i = ''i'' \<and> inb_recipientId i = ''L'') (db_inbox db') = 1
     \<and> count_rows (\<lambda>p. push_eventId p = ''i'' \<and> push_tokenId p = ''t2'') (db_pushes db') = 1"
proof -
  have "is_ok (snd (process_outbox 7 sample_outbox_db))" by code_simp
  then obtain db' n where r: "process_outbox 7 sample_outbox_db = (db', Inr n)"
    by (cases "process_outbox 7 sample_outbox_db") (auto simp: is_ok_def split: sum.splits)
  have keys: "delivery_keys_ok sample_outbox_db"
    by (simp add: delivery_keys_ok_def sample_outbox_db_def sample_db_def)
  have x: "sample_event \<in> set (pending_events sample_outbox_db)"
    by (simp add: pending_events_def sample_outbox_db_def sample_event_def booking_event_row_def OUTBOX_BATCH_SIZE_def)
  have "out_id sample_event = ''i''" "''L'' \<in> set (recipients_of sample_outbox_db sample_event)"
    "sample_token ''t2'' ''L'' \<in> set (db_tokens sample_outbox_db)"
    by code_simp+
  then show ?thesis
    using outbox_exactly_once [OF r keys x] r by (force simp: sample_token_def)
qed

section \<open>The push worker\<close>

lemma push_retry_delay_bounds: "30000 \<le> push_retry_delay n \<and> push_retry_delay n \<le> 3600000"
proof -
  have "(1::int) \<le> 2 ^ min n 10" by simp
  then show ?thesis by (simp add: push_retry_delay_def PUSH_INITIAL_RETRY_MS_def PUSH_MAX_RETRY_MS_def)
qed

lemma deliver_pushE:
  assumes "deliver_push send i now db = (db', Inr 1)"
  obtains p t d q where "p \<in> set (db_pushes db)" "push_id p = i" "push_claimable now p"
    "t \<in> set (db_tokens db)" "tok_id t = push_tokenId q" "q \<in> set (db_pushes d)" "push_id q = i"
    "d = fst (claim_push i now db)"
    "db' = (case send (tok_provider t) (tok_token t) (push_eventId q) of
        Some DELIVERED \<Rightarrow> update_push i (delivered_push now) d
      | Some INVALID_TOKEN \<Rightarrow> delete_tokens (\<lambda>u. tok_id u = tok_id t \<and> tok_token u = tok_token t) d
      | Some RETRY \<Rightarrow> update_push i (retried_push now (push_attempts q) ''PROVIDER_RETRY'') d
      | None \<Rightarrow> update_push i (retried_push now (push_attempts q) ''PROVIDER_ERROR'') d)"
proof -
  let ?claim = "\<lambda>x. push_id x = i \<and> push_claimable now x"
  obtain d k where c: "claim_push i now db = (d, k)" by (cases "claim_push i now db")
  have "k \<noteq> 0" using assms c by (auto simp: deliver_push_def split: if_splits)
  then have "count_rows ?claim (db_pushes db) \<noteq> 0" using c by (auto simp: claim_push_def Let_def)
  then have "\<exists>p \<in> set (db_pushes db). ?claim p" unfolding count_rows_zero_iff by blast
  then obtain p where p: "p \<in> set (db_pushes db)" "push_id p = i" "push_claimable now p" by blast
  obtain q where q: "List.find (\<lambda>p. push_id p = i) (db_pushes d) = Some q"
    using assms c \<open>k \<noteq> 0\<close> by (auto simp: deliver_push_def split: option.splits)
  obtain t where t: "List.find (\<lambda>t. tok_id t = push_tokenId q) (db_tokens d) = Some t"
    using assms c \<open>k \<noteq> 0\<close> q by (auto simp: deliver_push_def split: option.splits)
  have d: "db_tokens d = db_tokens db" "d = fst (claim_push i now db)"
    using c by (auto simp: claim_push_def Let_def)
  let ?answer = "send (tok_provider t) (tok_token t) (push_eventId q)"
  have answer: "db' = (case ?answer of
        Some DELIVERED \<Rightarrow> update_push i (delivered_push now) d
      | Some INVALID_TOKEN \<Rightarrow> delete_tokens (\<lambda>u. tok_id u = tok_id t \<and> tok_token u = tok_token t) d
      | Some RETRY \<Rightarrow> update_push i (retried_push now (push_attempts q) ''PROVIDER_RETRY'') d
      | None \<Rightarrow> update_push i (retried_push now (push_attempts q) ''PROVIDER_ERROR'') d)"
  proof (cases ?answer)
    case None
    then show ?thesis using assms c \<open>k \<noteq> 0\<close> q t by (simp add: deliver_push_def)
  next
    case (Some o')
    then show ?thesis using assms c \<open>k \<noteq> 0\<close> q t by (cases o') (simp_all add: deliver_push_def)
  qed
  have "t \<in> set (db_tokens db)" "tok_id t = push_tokenId q" "q \<in> set (db_pushes d)" "push_id q = i"
    using find_SomeD [OF t] find_SomeD [OF q] d(1) by simp_all
  then show thesis by (rule that [OF p _ _ _ _ d(2) answer])
qed

lemma filter_update_rows:
  "(\<And>x. x \<in> set rs \<Longrightarrow> p x \<Longrightarrow> \<not> g x \<and> \<not> g (f x)) \<Longrightarrow> filter g (update_rows p f rs) = filter g rs"
  by (induction rs) auto

lemma unique_update:
  assumes "distinct (map k rs)" and "r \<in> set rs"
  shows "update_rows (\<lambda>x. k x = k r \<and> p x) f rs = (if p r then update_rows (\<lambda>x. k x = k r) (\<lambda>_. f r) rs else rs)"
proof (cases "p r")
  case True
  have "x = r" if "x \<in> set rs" "k x = k r" for x using distinct_key_eq [OF assms(1) that(1) assms(2) that(2)] .
  then show ?thesis unfolding update_rows_def using True by (auto intro!: map_cong)
next
  case False
  have "x = r" if "x \<in> set rs" "k x = k r" for x using distinct_key_eq [OF assms(1) that(1) assms(2) that(2)] .
  then show ?thesis using False by (auto intro!: update_rows_none)
qed

lemma update_rows_twice:
  "k q = i \<Longrightarrow> update_rows (\<lambda>x. k x = i) (\<lambda>_. r) (update_rows (\<lambda>x. k x = i) (\<lambda>_. q) rs) = update_rows (\<lambda>x. k x = i) (\<lambda>_. r) rs"
  by (induction rs) auto

text \<open>
  A push is sent under a lease and retried with a bounded back-off: an attempt concerns one
  claimable delivery and its device; after it the delivery is final and never claimable again
  if it was delivered, gone with the device if the token is invalid, and otherwise claimable
  again between 30 seconds and one hour later, with one more attempt counted. No other device's
  deliveries change.
\<close>

theorem push_attempt:
  assumes "deliver_push send i now db = (db', Inr 1)" and "distinct (map push_id (db_pushes db))"
  shows "\<exists>p \<in> set (db_pushes db). \<exists>t \<in> set (db_tokens db).
    push_id p = i \<and> push_claimable now p \<and> tok_id t = push_tokenId p
    \<and> (case send (tok_provider t) (tok_token t) (push_eventId p) of
         Some DELIVERED \<Rightarrow> (\<exists>q. db_pushes db' = update_rows (\<lambda>x. push_id x = i) (\<lambda>_. q) (db_pushes db)
           \<and> push_status_of q = Push_DELIVERED \<and> (\<forall>u. \<not> push_claimable u q))
       | Some INVALID_TOKEN \<Rightarrow> db_pushes db' = filter (\<lambda>x. push_tokenId x \<noteq> tok_id t) (db_pushes db)
       | _ \<Rightarrow> (\<exists>q wait. db_pushes db' = update_rows (\<lambda>x. push_id x = i) (\<lambda>_. q) (db_pushes db)
           \<and> push_attempts q = push_attempts p + 1 \<and> 30000 \<le> wait \<and> wait \<le> 3600000
           \<and> (\<forall>u. push_claimable u q \<longleftrightarrow> now + wait \<le> u)))"
  using assms(1)
proof (rule deliver_pushE)
  fix p t d q
  assume p: "p \<in> set (db_pushes db)" "push_id p = i" "push_claimable now p"
    and t: "t \<in> set (db_tokens db)" "tok_id t = push_tokenId q" and q: "q \<in> set (db_pushes d)" "push_id q = i"
    and d: "d = fst (claim_push i now db)"
    and db': "db' = (case send (tok_provider t) (tok_token t) (push_eventId q) of
        Some DELIVERED \<Rightarrow> update_push i (delivered_push now) d
      | Some INVALID_TOKEN \<Rightarrow> delete_tokens (\<lambda>u. tok_id u = tok_id t \<and> tok_token u = tok_token t) d
      | Some RETRY \<Rightarrow> update_push i (retried_push now (push_attempts q) ''PROVIDER_RETRY'') d
      | None \<Rightarrow> update_push i (retried_push now (push_attempts q) ''PROVIDER_ERROR'') d)"
  define c where "c = p\<lparr>push_status_of := Push_PROCESSING, push_processingUntil := Some (now + PUSH_PROCESSING_LEASE_MS)\<rparr>"
  have claimed: "db_pushes d = update_rows (\<lambda>x. push_id x = i) (\<lambda>_. c) (db_pushes db)"
    using unique_update [OF assms(2) p(1), of "push_claimable now"] p(2,3)
    by (simp add: d claim_push_def Let_def c_def)
  have ci: "push_id c = i" "push_tokenId c = push_tokenId p" "push_eventId c = push_eventId p"
    "push_attempts c = push_attempts p" "push_status_of c = Push_PROCESSING"
    using p(2) by (simp_all add: c_def)
  have keys: "map push_id (db_pushes d) = map push_id (db_pushes db)"
    unfolding claimed update_rows_def by (simp add: ci(1))
  have "c \<in> set (db_pushes d)" unfolding claimed set_update_rows using p(1,2) by force
  then have "q = c" using distinct_key_eq [of push_id "db_pushes d" q c] q keys assms(2) ci(1) by simp
  have upd: "db_pushes (update_push i f d) = update_rows (\<lambda>x. push_id x = i) (\<lambda>_. f c) (db_pushes db)" for f
    using unique_update [of push_id "db_pushes d" c "\<lambda>x. push_status_of x = Push_PROCESSING" f] keys assms(2)
      \<open>c \<in> set (db_pushes d)\<close> ci(1,5) update_rows_twice [of push_id c i "f c" "db_pushes db"]
    by (simp add: update_push_def claimed)
  have gone: "db_pushes (delete_tokens (\<lambda>u. tok_id u = tok_id t \<and> tok_token u = tok_token t) d)
      = filter (\<lambda>x. push_tokenId x \<noteq> tok_id t) (db_pushes db)"
  proof -
    have "db_tokens d = db_tokens db" by (simp add: d claim_push_def Let_def)
    then have "tok_id ` {u \<in> set (db_tokens d). tok_id u = tok_id t \<and> tok_token u = tok_token t} = {tok_id t}"
      using t(1) by auto
    then have "db_pushes (delete_tokens (\<lambda>u. tok_id u = tok_id t \<and> tok_token u = tok_token t) d)
        = filter (\<lambda>x. push_tokenId x \<noteq> tok_id t) (db_pushes d)"
      by (simp add: delete_tokens_def Let_def)
    also have "\<dots> = filter (\<lambda>x. push_tokenId x \<noteq> tok_id t) (db_pushes db)"
    proof -
      have "push_tokenId x = tok_id t" if "x \<in> set (db_pushes db)" "push_id x = i" for x
        using distinct_key_eq [OF assms(2) that(1) p(1)] that(2) p(2) t(2) \<open>q = c\<close> ci(2) by simp
      then show ?thesis unfolding claimed using t(2) \<open>q = c\<close> ci(2) by (intro filter_update_rows) simp
    qed
    finally show ?thesis .
  qed
  have fin: "push_status_of (delivered_push now c) = Push_DELIVERED \<and> (\<forall>u. \<not> push_claimable u (delivered_push now c))"
    by (simp add: delivered_push_def push_claimable_def)
  have retry: "push_attempts (retried_push now n e c) = push_attempts p + 1 \<and> 30000 \<le> push_retry_delay n
      \<and> push_retry_delay n \<le> 3600000
      \<and> (\<forall>u. push_claimable u (retried_push now n e c) \<longleftrightarrow> now + push_retry_delay n \<le> u)" for n e
    using push_retry_delay_bounds [of n] ci(4) by (simp add: retried_push_def push_claimable_def)
  show ?thesis
  proof (intro bexI [OF _ p(1)] bexI [OF _ t(1)] conjI p(2,3))
    show "tok_id t = push_tokenId p" using t(2) \<open>q = c\<close> ci(2) by simp
    show "case send (tok_provider t) (tok_token t) (push_eventId p) of
         Some DELIVERED \<Rightarrow> (\<exists>q. db_pushes db' = update_rows (\<lambda>x. push_id x = i) (\<lambda>_. q) (db_pushes db)
           \<and> push_status_of q = Push_DELIVERED \<and> (\<forall>u. \<not> push_claimable u q))
       | Some INVALID_TOKEN \<Rightarrow> db_pushes db' = filter (\<lambda>x. push_tokenId x \<noteq> tok_id t) (db_pushes db)
       | _ \<Rightarrow> (\<exists>q wait. db_pushes db' = update_rows (\<lambda>x. push_id x = i) (\<lambda>_. q) (db_pushes db)
           \<and> push_attempts q = push_attempts p + 1 \<and> 30000 \<le> wait \<and> wait \<le> 3600000
           \<and> (\<forall>u. push_claimable u q \<longleftrightarrow> now + wait \<le> u))"
      using fin retry upd gone unfolding db' \<open>q = c\<close> ci(3,4)
      by (auto split: option.split push_outcome.split) blast+
  qed
qed

definition sample_push_db :: db where
  "sample_push_db = sample_outbox_db\<lparr>db_pushes :=
     [\<lparr>push_id = ''p'', push_eventId = ''i'', push_tokenId = ''t1'', push_status_of = Push_PENDING, push_attempts = 2,
       push_nextAttemptAt = 0, push_processingUntil = None, push_deliveredAt = None, push_lastErrorCode = None,
       push_createdAt = 0\<rparr>]\<rparr>"

theorem push_attempt_witness:
  "\<exists>db' q. deliver_push (\<lambda>_ _ _. Some RETRY) ''p'' 5 sample_push_db = (db', Inr 1)
     \<and> db_pushes db' = [q] \<and> push_attempts q = 3 \<and> \<not> push_claimable 29000 q \<and> push_claimable 3600005 q"
proof -
  obtain db' where r: "deliver_push (\<lambda>_ _ _. Some RETRY) ''p'' 5 sample_push_db = (db', Inr 1)"
    by (simp add: deliver_push_def claim_push_def sample_push_db_def sample_outbox_db_def sample_token_def
        push_claimable_def count_rows_def)
  have d: "distinct (map push_id (db_pushes sample_push_db))" by (simp add: sample_push_db_def)
  show ?thesis using push_attempt [OF r d] r by (auto simp: sample_push_db_def)
qed

section \<open>Devices\<close>

abbreviation token_key :: "token_row \<Rightarrow> push_provider_name \<times> string" where
  "token_key t \<equiv> (tok_provider t, tok_token t)"

abbreviation device_key :: "token_row \<Rightarrow> string \<times> string \<times> push_provider_name" where
  "device_key t \<equiv> (tok_userId t, tok_installationId t, tok_provider t)"

lemma register_transactionE:
  assumes "register_transaction userId installationId dto now db = Inr (db', r)"
    and "distinct (map token_key (db_tokens db))" "distinct (map device_key (db_tokens db))"
      "distinct (map tok_id (db_tokens db))"
  obtains us t vs where "db_tokens db' = us @ t # vs" "r = device_token_response_of t"
    "token_slot userId installationId (rt_provider dto) t" "tok_token t = rt_token dto"
    "distinct (map token_key (us @ vs))" "distinct (map device_key (us @ vs))"
    "\<forall>x \<in> set (us @ vs). \<not> token_slot userId installationId (rt_provider dto) x
       \<and> \<not> (tok_provider x = rt_provider dto \<and> tok_token x = rt_token dto)"
proof -
  let ?slot = "token_slot userId installationId (rt_provider dto)"
  define gone :: "token_row \<Rightarrow> bool" where "gone = (\<lambda>t. tok_provider t = rt_provider dto \<and> tok_token t = rt_token dto
            \<and> \<not> (tok_userId t = userId \<and> tok_installationId t = installationId))"
  define ts where "ts = filter (\<lambda>t. \<not> gone t) (db_tokens db)"
  have keys: "distinct (map token_key ts)" "distinct (map device_key ts)" "distinct (map tok_id ts)"
    unfolding ts_def using assms(2-4) by (simp_all add: distinct_map_filter)
  have mine: "?slot u" if "u \<in> set ts" "tok_provider u = rt_provider dto" "tok_token u = rt_token dto" for u
    using that by (auto simp: ts_def gone_def token_slot_def)
  show thesis
  proof (cases "List.find ?slot ts")
    case (Some t)
    then have t: "t \<in> set ts" "?slot t" by (auto dest: find_SomeD)
    define t' where "t' = t\<lparr>tok_platform := rt_platform dto, tok_token := rt_token dto, tok_updatedAt := now\<rparr>"
    obtain us vs where ts: "ts = us @ t # vs" using t(1) by (meson split_list)
    have row: "db_tokens db' = update_rows (\<lambda>x. tok_id x = tok_id t) (\<lambda>_. t') ts" "r = device_token_response_of t'"
      using assms(1) Some by (auto simp: register_transaction_def delete_tokens_def Let_def ts_def gone_def t'_def)
    have "\<forall>x \<in> set us \<union> set vs. tok_id x \<noteq> tok_id t" using keys(3) by (auto simp: ts image_iff)
    then have "update_rows (\<lambda>x. tok_id x = tok_id t) (\<lambda>_. t') ts = us @ t' # vs" by (simp add: ts update_rows_none)
    with row have "db_tokens db' = us @ t' # vs" by simp
    moreover have other: "\<not> ?slot x" if "x \<in> set (us @ vs)" for x
      using keys(2) t(2) that by (auto simp: ts token_slot_def image_iff)
    have "\<forall>x \<in> set (us @ vs). \<not> ?slot x \<and> \<not> (tok_provider x = rt_provider dto \<and> tok_token x = rt_token dto)"
      using other mine by (auto simp: ts)
    moreover have "?slot t'" "tok_token t' = rt_token dto" using t(2) by (simp_all add: t'_def token_slot_def)
    moreover have "distinct (map token_key (us @ vs))" "distinct (map device_key (us @ vs))"
      using keys(1,2) by (simp_all add: ts)
    ultimately show ?thesis by (intro that [OF _ row(2)])
  next
    case None
    then have none: "\<forall>u \<in> set ts. \<not> ?slot u" by (simp add: find_None_iff_ball)
    obtain t' where t': "db_tokens db' = ts @ [t']" "r = device_token_response_of t'"
      "?slot t'" "tok_token t' = rt_token dto"
      using assms(1) None by (auto simp: register_transaction_def delete_tokens_def Let_def ts_def gone_def token_slot_def)
    show ?thesis by (rule that [OF _ t'(2-4)]) (use t'(1) keys(1,2) none mine in auto)
  qed
qed

text \<open>
  A device belongs to one account: after a registration the token of the device is stored
  exactly once, for the user and the installation that registered it, whoever held it before,
  and the two unique constraints of the table still hold.
\<close>

theorem token_owner:
  assumes "register_token is_uuid4 userId installationId dto now db = Inr (db', r)"
    and "distinct (map (\<lambda>t. (tok_provider t, tok_token t)) (db_tokens db))"
    and "distinct (map (\<lambda>t. (tok_userId t, tok_installationId t, tok_provider t)) (db_tokens db))"
    and "distinct (map tok_id (db_tokens db))"
  shows "(\<exists>t \<in> set (db_tokens db'). token_slot userId installationId (rt_provider dto) t \<and> tok_token t = rt_token dto
      \<and> r = device_token_response_of t
      \<and> (\<forall>u \<in> set (db_tokens db'). tok_provider u = rt_provider dto \<and> tok_token u = rt_token dto \<longrightarrow> u = t))
    \<and> distinct (map (\<lambda>t. (tok_provider t, tok_token t)) (db_tokens db'))
    \<and> distinct (map (\<lambda>t. (tok_userId t, tok_installationId t, tok_provider t)) (db_tokens db'))"
proof -
  have "register_transaction userId installationId dto now db = Inr (db', r)"
    using assms(1) by (auto simp: register_token_def split: if_splits)
  from register_transactionE [OF this assms(2-4)] obtain us t vs where t: "db_tokens db' = us @ t # vs"
    "r = device_token_response_of t" "token_slot userId installationId (rt_provider dto) t" "tok_token t = rt_token dto"
    "distinct (map token_key (us @ vs))" "distinct (map device_key (us @ vs))"
    "\<forall>x \<in> set (us @ vs). \<not> token_slot userId installationId (rt_provider dto) x
       \<and> \<not> (tok_provider x = rt_provider dto \<and> tok_token x = rt_token dto)" .
  have "distinct (map token_key (db_tokens db'))" using t(3-5,7) by (auto simp: t(1) token_slot_def)
  moreover have "distinct (map device_key (db_tokens db'))" using t(3,6,7) by (auto simp: t(1) token_slot_def)
  moreover have "\<forall>u \<in> set (db_tokens db'). tok_provider u = rt_provider dto \<and> tok_token u = rt_token dto \<longrightarrow> u = t"
    using t(7) by (auto simp: t(1))
  moreover have "t \<in> set (db_tokens db')" by (simp add: t(1))
  ultimately show ?thesis using t(2-4) by blast
qed

definition sample_device :: register_token_dto where
  "sample_device = \<lparr>rt_provider = FCM, rt_platform = ANDROID, rt_token = ''device-t2''\<rparr>"

theorem token_owner_witness:
  "\<exists>db' r. register_token (\<lambda>_. True) ''C'' ''phone'' sample_device 5 sample_outbox_db = Inr (db', r)
     \<and> (\<forall>u \<in> set (db_tokens db'). tok_token u = ''device-t2'' \<and> tok_provider u = FCM \<longrightarrow> tok_userId u = ''C'')"
proof -
  obtain db' r where r: "register_token (\<lambda>_. True) ''C'' ''phone'' sample_device 5 sample_outbox_db = Inr (db', r)"
    by (simp add: register_token_def register_transaction_def sample_device_def sample_outbox_db_def sample_token_def
        delete_tokens_def Let_def token_slot_def)
  have k: "distinct (map token_key (db_tokens sample_outbox_db))" "distinct (map device_key (db_tokens sample_outbox_db))"
    "distinct (map tok_id (db_tokens sample_outbox_db))"
    by (simp_all add: sample_outbox_db_def sample_token_def)
  from token_owner [OF r k] r show ?thesis by (auto simp: sample_device_def token_slot_def)
qed

end
