(* ===== verification/Communication_Properties.thy ===== *)
theory Communication_Properties
  imports Booking_Messages Sample_Data
begin

text \<open>
  What the inbox, the chat of a booking, the blocks between users and the closure of an account
  guarantee.
\<close>

section \<open>Reading page by page\<close>

text \<open>
  C15. Paging loses and repeats nothing: a client that reads its inbox with any positive page size
  and follows the cursors gets every event of its inbox exactly once, newest first.
\<close>

theorem inbox_read_completely:
  assumes "distinct (map inb_id (inbox_rows False recipientId db))" and "0 < limit"
    and "length (inbox_rows False recipientId db) < n"
  shows "paging.read_all (inbox_page_rows False recipientId) db limit n None
    = Some (newest_first inbox_key (inbox_rows False recipientId db))"
  using assms by (intro inbox_pages.read_all_complete) simp_all

definition sample_inbox_row :: "string \<Rightarrow> timestamp \<Rightarrow> inbox_row" where
  "sample_inbox_row i t = \<lparr>inb_id = i, inb_eventId = i, inb_recipientId = ''B'', inb_bookingId = None,
     inb_supportTicketId = None, inb_itemId = None, inb_eventType = ''BOOKING_CREATED'', inb_readAt = None,
     inb_createdAt = t\<rparr>"

definition sample_inbox_db :: db where
  "sample_inbox_db = sample_db\<lparr>db_inbox := [sample_inbox_row ''x'' 1, sample_inbox_row ''y'' 3, sample_inbox_row ''z'' 3]\<rparr>"

theorem inbox_read_completely_witness:
  "paging.read_all (inbox_page_rows False ''B'') sample_inbox_db 1 5 None
     = Some (newest_first inbox_key (db_inbox sample_inbox_db))"
proof -
  have r: "inbox_rows False ''B'' sample_inbox_db = db_inbox sample_inbox_db"
    by (simp add: inbox_rows_def sample_inbox_db_def sample_inbox_row_def)
  have "distinct (map inb_id (inbox_rows False ''B'' sample_inbox_db))"
    "length (inbox_rows False ''B'' sample_inbox_db) < 5"
    unfolding r by (simp_all add: sample_inbox_db_def sample_inbox_row_def)
  from inbox_read_completely [OF this(1) _ this(2), of 1] show ?thesis by (simp add: r)
qed

section \<open>The chat\<close>

lemma send_guardsD:
  assumes "send_guards actorId b now db = Inr recipientId"
  shows "recipientId = counterparty_of actorId b" "can_write (bk_status b) (bk_expiresAt b) now"
    "\<exists>u. find_user db recipientId = Some u \<and> us_deletedAt u = None \<and> \<not> us_isBlocked u"
    "\<not> interaction_blocked db actorId recipientId"
    "count_rows (\<lambda>m. msg_bookingId m = bk_id b \<and> msg_authorId m = Some actorId \<and> now - 60000 \<le> msg_createdAt m)
       (db_messages db) < 20"
    "count_rows (\<lambda>m. msg_authorId m = Some actorId \<and> now - 60000 \<le> msg_createdAt m) (db_messages db) < 60"
  using assms
  by (auto simp: send_guards_def Let_def BOOKING_CHAT_RATE_WINDOW_MS_def BOOKING_CHAT_MAX_PER_BOOKING_WINDOW_def
      BOOKING_CHAT_MAX_PER_ACTOR_WINDOW_def not_le split: if_split_asm option.splits)

lemma send_messageE:
  assumes "send_message actorId bookingId dto now db = Inr (db', r)"
  obtains (repeated) b m where "db' = db" "find_participant_booking db actorId bookingId = Some b"
      "List.find (\<lambda>m. msg_authorId m = Some actorId \<and> msg_clientMessageId m = Some (cm_clientMessageId dto))
         (db_messages db) = Some m" "msg_bookingId m = bookingId" "msg_body m = js_trim (cm_body dto)"
      "r = to_message_response actorId b m"
  | (new) b m k where "find_participant_booking db actorId bookingId = Some b"
      "message_body_ok (js_trim (cm_body dto))" "send_guards actorId b now db = Inr (counterparty_of actorId b)"
      "m = new_message actorId b (cm_clientMessageId dto) (js_trim (cm_body dto)) db"
      "db' = db\<lparr>db_next := k, db_messages := db_messages db @ [m],
          db_outbox := db_outbox db @ [message_event_row (db\<lparr>db_next := Suc (db_next db), db_messages := db_messages db @ [m]\<rparr>)
             bookingId (counterparty_of actorId b) (msg_id m)]\<rparr>"
      "r = to_message_response actorId b m"
      "List.find (\<lambda>m. msg_authorId m = Some actorId \<and> msg_clientMessageId m = Some (cm_clientMessageId dto))
         (db_messages db) = None"
proof -
  from assms obtain b m where body: "message_body_ok (js_trim (cm_body dto))"
    and tx: "send_transaction actorId bookingId (cm_clientMessageId dto) (js_trim (cm_body dto)) now db = Inr (db', b, m)"
    and r: "r = to_message_response actorId b m"
    by (auto simp: send_message_def Let_def bind_result_Inr_iff split: if_splits)
  from tx have b: "find_participant_booking db actorId bookingId = Some b"
    by (auto simp: send_transaction_def require_chat_participant_def bind_result_Inr_iff Let_def
        split: option.splits if_splits)
  show thesis
  proof (cases "List.find (\<lambda>m. msg_authorId m = Some actorId \<and> msg_clientMessageId m = Some (cm_clientMessageId dto))
         (db_messages db)")
    case (Some x)
    then show ?thesis using tx b r
      by (auto simp: send_transaction_def require_chat_participant_def split: if_splits intro: repeated)
  next
    case None
    obtain recipientId d where g: "send_guards actorId b now db = Inr recipientId"
      and m: "m = new_message actorId b (cm_clientMessageId dto) (js_trim (cm_body dto)) db"
      and d: "insert_message m db = Inr d" "insert_outbox (message_event_row d bookingId recipientId (msg_id m)) d = Inr db'"
      using tx b None by (auto simp: send_transaction_def require_chat_participant_def bind_result_Inr_iff Let_def)
    note c = send_guardsD(1) [OF g]
    note d1 = insert_messageD [OF d(1)]
    from insert_outboxD [OF d(2)] have "db' = d\<lparr>db_next := Suc (db_next d),
       db_outbox := db_outbox d @ [message_event_row d bookingId recipientId (msg_id m)]\<rparr>" by blast
    then show ?thesis
      using g by (intro new [OF b body _ m _ r None, of "Suc (Suc (db_next db))"]) (simp_all add: c d1)
  qed
qed

text \<open>
  C16. Only the two parties write, and not too fast: a message is stored only for a participant,
  while the request is open or the rental runs, when neither side has blocked the other and the
  other account is usable; the sender then has at most 20 messages of the last minute in this
  chat and 60 in all, and the counterparty gets one event for it.
\<close>

theorem message_guarded:
  assumes "send_message actorId bookingId dto now db = Inr (db', r)" and "db' \<noteq> db"
  shows "\<exists>b m. find_participant_booking db actorId bookingId = Some b \<and> db_messages db' = db_messages db @ [m]
    \<and> msg_bookingId m = bookingId \<and> msg_authorId m = Some actorId \<and> msg_body m = js_trim (cm_body dto)
    \<and> 1 \<le> length (msg_body m) \<and> length (msg_body m) \<le> 2000
    \<and> bk_status b \<in> {Bk_PENDING, Bk_CONFIRMED, Bk_ACTIVE, Bk_RETURNED}
    \<and> \<not> interaction_blocked db actorId (counterparty_of actorId b)
    \<and> count_rows (\<lambda>m. msg_bookingId m = bookingId \<and> msg_authorId m = Some actorId \<and> now - 60000 \<le> msg_createdAt m)
        (db_messages db') \<le> 20
    \<and> count_rows (\<lambda>m. msg_authorId m = Some actorId \<and> now - 60000 \<le> msg_createdAt m) (db_messages db') \<le> 60
    \<and> (\<exists>x. db_outbox db' = db_outbox db @ [x] \<and> out_recipientId x = Some (counterparty_of actorId b))"
  using assms(1)
proof (cases rule: send_messageE)
  case (repeated b m)
  then show ?thesis using assms(2) by simp
next
  case (new b m k)
  have i: "bk_id b = bookingId" using find_participant_bookingD [OF new(1)] by simp
  note g = send_guardsD [OF new(3)]
  have "bk_status b \<in> {Bk_PENDING, Bk_CONFIRMED, Bk_ACTIVE, Bk_RETURNED}"
    using g(2) by (auto simp: can_write_def WRITABLE_STATUSES_def split: if_splits)
  moreover have "1 \<le> length (msg_body m)" "length (msg_body m) \<le> 2000"
    using new(2) by (auto simp: new(4) new_message_def message_body_ok_def BOOKING_CHAT_MAX_BODY_LENGTH_def
        Suc_le_eq not_less)
  moreover have "msg_bookingId m = bookingId" "msg_authorId m = Some actorId" "msg_body m = js_trim (cm_body dto)"
    using i by (simp_all add: new(4) new_message_def)
  moreover have "count_rows (\<lambda>m. msg_bookingId m = bookingId \<and> msg_authorId m = Some actorId \<and> now - 60000 \<le> msg_createdAt m)
        (db_messages db') \<le> 20"
    using g(5) i by (simp add: new(5))
  moreover have "count_rows (\<lambda>m. msg_authorId m = Some actorId \<and> now - 60000 \<le> msg_createdAt m) (db_messages db') \<le> 60"
    using g(6) by (simp add: new(5))
  moreover have "db_messages db' = db_messages db @ [m]"
    "\<exists>x. db_outbox db' = db_outbox db @ [x] \<and> out_recipientId x = Some (counterparty_of actorId b)"
    by (simp_all add: new(5) message_event_row_def)
  ultimately show ?thesis using new(1) g(4) by blast
qed

definition sample_chat_db :: db where
  "sample_chat_db = sample_db\<lparr>db_bookings := [sample_booking ''b1'' Bk_CONFIRMED 0 None]\<rparr>"

definition sample_message :: create_message_dto where
  "sample_message = \<lparr>cm_clientMessageId = ''c1'', cm_body = '' hello ''\<rparr>"

lemma sample_send:
  obtains db' r where "send_message ''B'' ''b1'' sample_message SAMPLE_NOW sample_chat_db = Inr (db', r)"
    "db' \<noteq> sample_chat_db"
proof -
  have "is_ok (send_message ''B'' ''b1'' sample_message SAMPLE_NOW sample_chat_db)" by code_simp
  then obtain db' r where r: "send_message ''B'' ''b1'' sample_message SAMPLE_NOW sample_chat_db = Inr (db', r)"
    by (auto simp: is_ok_def split: sum.splits)
  from r have "db' \<noteq> sample_chat_db"
    by (cases rule: send_messageE) (auto simp: sample_chat_db_def sample_db_def)
  with r show thesis by (rule that)
qed

theorem message_guarded_witness:
  "\<exists>db' r m. send_message ''B'' ''b1'' sample_message SAMPLE_NOW sample_chat_db = Inr (db', r)
     \<and> db_messages db' = [m] \<and> msg_authorId m = Some ''B''"
proof -
  obtain db' r where r: "send_message ''B'' ''b1'' sample_message SAMPLE_NOW sample_chat_db = Inr (db', r)"
    "db' \<noteq> sample_chat_db" by (rule sample_send)
  have "db_messages sample_chat_db = []" by (simp add: sample_chat_db_def sample_db_def)
  then show ?thesis using message_guarded [OF r] r(1) by auto
qed

text \<open>
  Sending is idempotent: the same message under the same client id is answered with the
  stored one and changes nothing, at any later time and even when the chat has been closed; a
  different text under that id is refused.
\<close>

theorem message_replay:
  assumes "send_message actorId bookingId dto now db = Inr (db', r)"
  shows "send_message actorId bookingId dto later db' = Inr (db', r)
    \<and> (\<forall>dto'. cm_clientMessageId dto' = cm_clientMessageId dto \<and> js_trim (cm_body dto') \<noteq> js_trim (cm_body dto) \<longrightarrow>
         \<not> is_ok (send_message actorId bookingId dto' later db'))"
proof -
  obtain b m where m: "find_participant_booking db' actorId bookingId = Some b" "message_body_ok (js_trim (cm_body dto))"
    "List.find (\<lambda>m. msg_authorId m = Some actorId \<and> msg_clientMessageId m = Some (cm_clientMessageId dto))
         (db_messages db') = Some m" "msg_bookingId m = bookingId" "msg_body m = js_trim (cm_body dto)"
    "r = to_message_response actorId b m"
    using assms(1)
  proof (cases rule: send_messageE)
    case (repeated b m)
    then show ?thesis using assms that by (auto simp: send_message_def Let_def split: if_splits)
  next
    case (new b m k)
    have "find_participant_booking db' actorId bookingId = Some b"
      using new(1) by (simp add: new(5) find_participant_booking_def)
    moreover have "bk_id b = bookingId" using find_participant_bookingD [OF new(1)] by simp
    moreover have "List.find (\<lambda>m. msg_authorId m = Some actorId \<and> msg_clientMessageId m = Some (cm_clientMessageId dto))
         (db_messages db') = Some m"
      using new(7) by (simp add: new(5) find_append) (simp add: new(4) new_message_def)
    ultimately show ?thesis using new(2,6) that by (simp add: new(4) new_message_def)
  qed
  then show ?thesis
    by (auto simp: send_message_def send_transaction_def require_chat_participant_def Let_def is_ok_def)
qed

theorem message_replay_witness:
  "\<exists>db' r. send_message ''B'' ''b1'' sample_message SAMPLE_NOW sample_chat_db = Inr (db', r)
     \<and> send_message ''B'' ''b1'' sample_message (SAMPLE_NOW + 5) db' = Inr (db', r)"
proof -
  obtain db' r where r: "send_message ''B'' ''b1'' sample_message SAMPLE_NOW sample_chat_db = Inr (db', r)"
    by (rule sample_send)
  with message_replay [OF r, of "SAMPLE_NOW + 5"] show ?thesis by blast
qed

end
