(* ===== verification/Account_Properties.thy ===== *)
theory Account_Properties
  imports Communication_Properties Users_Service Sample_Data
begin

text \<open>
  What blocking a user and closing an account guarantee.
\<close>

section \<open>Blocks\<close>

lemma create_transaction_blocked:
  assumes "create_transaction policy legal borrowerId itemId period requestId h now db = Inr (db', b)"
    and "find_bookable_item db itemId = Some item" and "interaction_blocked db borrowerId (it_ownerId item)"
  shows "db' = db"
  using assms(1)
proof (cases rule: create_transactionE)
  case (created item' deposit snapshot totalAmount)
  then show ?thesis using create_guardsD(1,6) [OF created(2)] assms(2,3) by simp
qed simp

lemma interaction_blocked_sym: "interaction_blocked db a b = interaction_blocked db b a"
  by (auto simp: interaction_blocked_def)

lemma in_filter_ids:
  assumes "distinct (map k rs)" and "x \<in> set rs"
  shows "k x \<in> set (map k (filter p rs)) \<longleftrightarrow> p x"
proof
  assume "k x \<in> set (map k (filter p rs))"
  then obtain y where "y \<in> set rs" "p y" "k y = k x" by auto
  then show "p x" using distinct_key_eq [OF assms(1) \<open>y \<in> set rs\<close> assms(2)] by simp
qed (use assms(2) in auto)

lemma block_effect:
  assumes "block_user a b requestId now db = Inr (db', r)" and "distinct (map bk_id (db_bookings db))"
  shows "db_bookings db' = map (\<lambda>c. if active_pending now c \<and> between a b c
        then close_booking Bk_CANCELLED (Some BOOKING_PARTICIPANT_BLOCKED_REASON) c else c) (db_bookings db)"
    "\<exists>hs. db_history db' = db_history db @ hs \<and> list_all2 (\<lambda>i h. is_entry h i ''PARTICIPANT'' ''BLOCK_COUNTERPARTY''
        (Some Bk_PENDING) Bk_CANCELLED) (map bk_id (filter (\<lambda>c. active_pending now c \<and> between a b c) (db_bookings db))) hs"
    "exists_row (\<lambda>x. blk_blockerId x = a \<and> blk_blockedId x = b) (db_blocks db')"
    "db_deposits db' = db_deposits db" "a \<noteq> b"
  using assms(1)
proof (rule_tac [!] block_userE, assumption)
  fix d x
  let ?ids = "map bk_id (filter (\<lambda>c. active_pending now c \<and> between a b c) (db_bookings db))"
  assume u: "upsert_block a b db = (d, x)" and c: "cancel_blocked a requestId ?ids d = Inr db'"
  note u' = upsert_block_frame [OF u] and c' = cancel_blocked_frame [OF c]
  show "db_bookings db' = map (\<lambda>c. if active_pending now c \<and> between a b c
        then close_booking Bk_CANCELLED (Some BOOKING_PARTICIPANT_BLOCKED_REASON) c else c) (db_bookings db)"
    unfolding c'(1) u'(1) update_rows_def
    by (rule map_cong [OF refl]) (simp only: in_filter_ids [OF assms(2)] active_pending_def simp_thms cong: conj_cong if_cong)
  show "\<exists>hs. db_history db' = db_history db @ hs \<and> list_all2 (\<lambda>i h. is_entry h i ''PARTICIPANT'' ''BLOCK_COUNTERPARTY''
        (Some Bk_PENDING) Bk_CANCELLED) ?ids hs"
    using c'(8) u'(2) by simp
  show "exists_row (\<lambda>x. blk_blockerId x = a \<and> blk_blockedId x = b) (db_blocks db')"
    using u'(11-13) unfolding c'(7) by auto
  show "db_deposits db' = db_deposits db" using c'(5) u'(6) by simp
qed

lemma sent_message_not_blocked:
  assumes "send_message actorId bookingId dto now db = Inr (db', r)" and "find_participant_booking db actorId bookingId = Some c"
    and "interaction_blocked db actorId (counterparty_of actorId c)"
  shows "db' = db"
  using assms(1)
proof (cases rule: send_messageE)
  case (new c' m k)
  then show ?thesis using send_guardsD(4) [OF new(3)] assms(2,3) by simp
qed

lemma counterparty_between:
  assumes "find_participant_booking db x i = Some c" and "between a b c"
  shows "{x, counterparty_of x c} = {a, b}"
  using find_participant_bookingD(3) [OF assms(1)] assms(2) by (auto simp: between_def counterparty_of_def)

text \<open>
  C17. A block separates two users: it is stored, it cancels every open request between them, with
  one entry of the history for each, and no other booking changes. In the state it leaves neither
  can make a new request for an item of the other or write a new message into a chat of theirs:
  what still succeeds is a repetition, which changes nothing.
\<close>

theorem block_separates:
  assumes "block_user a b requestId now db = Inr (db', r)" and "distinct (map bk_id (db_bookings db))"
  shows "exists_row (\<lambda>x. blk_blockerId x = a \<and> blk_blockedId x = b) (db_blocks db')
    \<and> db_bookings db' = map (\<lambda>c. if active_pending now c \<and> between a b c
        then close_booking Bk_CANCELLED (Some BOOKING_PARTICIPANT_BLOCKED_REASON) c else c) (db_bookings db)
    \<and> (\<exists>hs. db_history db' = db_history db @ hs \<and> list_all2 (\<lambda>i h. is_entry h i ''PARTICIPANT'' ''BLOCK_COUNTERPARTY''
        (Some Bk_PENDING) Bk_CANCELLED) (map bk_id (filter (\<lambda>c. active_pending now c \<and> between a b c) (db_bookings db))) hs)
    \<and> (\<forall>x y config policy h dto i today t d q item. {x, y} = {a, b} \<and> find_bookable_item db' (cb_itemId dto) = Some item
        \<and> it_ownerId item = y \<and> create_booking config policy h x dto i today t db' = Inr (d, q) \<longrightarrow> d = db')
    \<and> (\<forall>x i c dto t d q. find_participant_booking db' x i = Some c \<and> between a b c
        \<and> send_message x i dto t db' = Inr (d, q) \<longrightarrow> d = db')"
proof -
  note e = block_effect [OF assms]
  have "interaction_blocked db' a b" using e(3) unfolding interaction_blocked_def by auto
  then have blocked: "interaction_blocked db' x y" if "{x, y} = {a, b}" for x y
    using that interaction_blocked_sym [of db' a b] by (auto simp: doubleton_eq_iff)
  have none: "d' = db'" if "{x, y} = {a, b}" "find_bookable_item db' (cb_itemId dto) = Some item" "it_ownerId item = y"
    "create_booking config policy h x dto i today t db' = Inr (d', q)" for x y config policy h dto i today t d' q item
    using that(4)
  proof (rule create_bookingE)
    fix legal period bk
    assume "create_transaction policy legal x (cb_itemId dto) period i (h dto) t db' = Inr (d', bk)"
    then show "d' = db'" using create_transaction_blocked that(2,3) blocked [OF that(1)] by metis
  qed
  have silent: "d = db'" if "find_participant_booking db' x i = Some c" "between a b c" "send_message x i dto t db' = Inr (d, q)"
    for x i c dto t d q
    by (rule sent_message_not_blocked [OF that(3,1) blocked [OF counterparty_between [OF that(1,2)]]])
  show ?thesis
    using e(1-3) by (intro conjI allI impI) (assumption | elim conjE | rule none silent)+
qed

definition sample_request_db :: db where
  "sample_request_db = sample_db\<lparr>db_bookings := [sample_booking ''b1'' Bk_PENDING 0 (Some 9)]\<rparr>"

theorem block_separates_witness:
  "\<exists>db' r. block_user ''L'' ''B'' ''r'' 5 sample_request_db = Inr (db', r)
     \<and> map bk_status (db_bookings db') = [Bk_CANCELLED]
     \<and> exists_row (\<lambda>x. blk_blockerId x = ''L'' \<and> blk_blockedId x = ''B'') (db_blocks db')"
proof -
  have "is_ok (block_user ''L'' ''B'' ''r'' 5 sample_request_db)" by code_simp
  then obtain db' r where r: "block_user ''L'' ''B'' ''r'' 5 sample_request_db = Inr (db', r)"
    by (auto simp: is_ok_def split: sum.splits)
  have d: "distinct (map bk_id (db_bookings sample_request_db))" by (simp add: sample_request_db_def)
  show ?thesis using block_separates [OF r d] r
    by (simp add: sample_request_db_def sample_booking_def active_pending_def between_def close_booking_def)
qed

section \<open>Closing an account\<close>

lemma participates_users [simp]: "participates (db\<lparr>db_users := us\<rparr>) = participates db"
  by (intro ext) (simp add: participates_def find_booking_def)

lemma blockers_of_users [simp]: "has_deletion_blockers (db\<lparr>db_users := us\<rparr>) j = has_deletion_blockers db j"
  unfolding has_deletion_blockers_def participates_users by simp

lemma finalize_one_frame: "finalize_one now i db = (db', n) \<Longrightarrow> has_deletion_blockers db' j = has_deletion_blockers db j"
  by (auto simp: finalize_one_def Let_def split: if_splits)

text \<open>How a run of the finalizer changes one account.\<close>

definition finalized :: "db \<Rightarrow> timestamp \<Rightarrow> user_row \<Rightarrow> user_row" where
  "finalized db now u =
     (if closure_pending u \<and> \<not> has_deletion_blockers db (us_id u) then anonymized_user now u\<lparr>us_updatedAt := now\<rparr> else u)"

lemma finalized_simps [simp]: "us_id (finalized db now u) = us_id u"
  "finalized db now (finalized db now u) = finalized db now u"
  by (simp_all add: finalized_def anonymized_user_def closure_pending_def)

lemma finalize_one_users:
  assumes "finalize_one now i db = (db', n)"
  shows "db_users db' = map (\<lambda>u. if us_id u = i then finalized db now u else u) (db_users db)"
  using assms
  by (cases "has_deletion_blockers db i")
    (auto simp: finalize_one_def Let_def update_rows_def finalized_def intro!: map_idI [symmetric])

lemma finalize_loop_users:
  "finalize_loop now ids m db = (db', n) \<Longrightarrow>
     db_users db' = map (\<lambda>u. if us_id u \<in> set ids then finalized db now u else u) (db_users db)"
proof (induction ids arbitrary: m db)
  case (Cons i ids)
  obtain d k where d: "finalize_one now i db = (d, k)" by (cases "finalize_one now i db")
  then have "finalize_loop now ids (m + k) d = (db', n)" using Cons.prems by simp
  note ih = Cons.IH [OF this]
  have "finalized d now = finalized db now"
    using finalize_one_frame [OF d] by (auto simp: finalized_def)
  then show ?case unfolding ih finalize_one_users [OF d] by simp
qed simp

text \<open>
  C18. The finalizer anonymizes exactly the accounts that may be: after a run, a closed account
  that is not anonymized still has an unfinished booking, an open dispute, a payment or
  identity documents; an account that the run anonymized was closed, had none of these, and
  keeps no name, city, picture or phone number; every other account is unchanged.
\<close>

theorem closures_finalized:
  assumes "finalize_closures now db = (db', n)"
  shows "list_all2 (\<lambda>u v.
      (v = u \<and> (us_deletedAt u \<noteq> None \<and> us_anonymizedAt u = None \<longrightarrow> has_deletion_blockers db (us_id u)))
      \<or> (us_deletedAt u \<noteq> None \<and> us_anonymizedAt u = None \<and> \<not> has_deletion_blockers db (us_id u) \<and> us_id v = us_id u
         \<and> us_anonymizedAt v = Some now \<and> us_phone v = ''deleted:'' @ us_id u \<and> us_name v = None \<and> us_city v = None
         \<and> us_avatarUrl v = None)) (db_users db) (db_users db')"
proof -
  have "db_users db' = map (\<lambda>u. if us_id u \<in> set (map us_id (filter closure_pending (db_users db)))
      then finalized db now u else u) (db_users db)"
    by (rule finalize_loop_users) (use assms in \<open>simp add: finalize_closures_def\<close>)
  also have "\<dots> = map (finalized db now) (db_users db)"
    by (rule map_cong [OF refl]) (auto simp: finalized_def)
  finally show ?thesis
    by (auto simp: list_all2_map2 finalized_def closure_pending_def anonymized_user_def intro!: list_all2_refl)
qed

definition sample_closed_db :: db where
  "sample_closed_db = sample_db\<lparr>db_users := [sample_user ''B''\<lparr>us_deletedAt := Some 3\<rparr>]\<rparr>"

theorem closures_finalized_witness:
  "\<exists>db' n v. finalize_closures 5 sample_closed_db = (db', n) \<and> db_users db' = [v] \<and> us_anonymizedAt v = Some 5
     \<and> us_phone v = ''deleted:B''"
proof -
  obtain db' n where r: "finalize_closures 5 sample_closed_db = (db', n)" by fastforce
  have "\<not> has_deletion_blockers sample_closed_db ''B''"
    by (simp add: has_deletion_blockers_def sample_closed_db_def sample_db_def)
  then show ?thesis
    using closures_finalized [OF r] r by (auto simp: sample_closed_db_def sample_user_def list_all2_Cons1)
qed

text \<open>
  Closing an account ends its sessions at once and never erases the data of running deals:
  afterwards the account is not usable, its session version has grown, and while it takes part
  in an unfinished booking its phone and name are kept.
\<close>

theorem account_closed:
  assumes "delete_me userId now db = Inr (db', c)" and "find_user db userId = Some u"
  shows "\<not> is_ok (find_active_user db' userId)
    \<and> (\<exists>v. find_user db' userId = Some v \<and> us_sessionVersion v = us_sessionVersion u + 1 \<and> us_deletedAt v = Some now
        \<and> (exists_row (\<lambda>b. is_participant userId b \<and> unfinished b) (db_bookings db) \<longrightarrow>
             us_phone v = us_phone u \<and> us_name v = us_name u \<and> \<not> ac_anonymized c))"
proof -
  let ?f = "\<lambda>u. if has_deletion_blockers db userId then closed_user now u else anonymized_user now (closed_user now u)"
  have r: "db' = set_user userId ?f db" "c = \<lparr>ac_anonymized = (\<not> has_deletion_blockers db userId), ac_requestedAt = now,
              ac_anonymizedAt = (if has_deletion_blockers db userId then None else Some now)\<rparr>"
    using assms(1) by (auto simp: delete_me_def bind_result_Inr_iff Let_def)
  have i: "us_id (?f x) = us_id x" for x by (simp add: closed_user_def anonymized_user_def)
  have "find_user db' userId = Some (?f u)"
    using assms(2) find_SomeD [OF assms(2) [unfolded find_user_def]]
      find_update_rows [of "\<lambda>x. us_id x = userId" "\<lambda>x. us_id x = userId" ?f "db_users db"]
    by (simp only: r(1) set_user_def find_user_def i db.simps) simp
  moreover have "has_deletion_blockers db userId"
    if "exists_row (\<lambda>b. is_participant userId b \<and> unfinished b) (db_bookings db)"
    using that by (simp add: has_deletion_blockers_def)
  ultimately show ?thesis
    by (auto simp: find_active_user_def closed_user_def anonymized_user_def r(2))
qed

theorem account_closed_witness:
  "\<exists>db' c v. delete_me ''B'' 7 sample_request_db = Inr (db', c) \<and> \<not> is_ok (find_active_user db' ''B'')
     \<and> find_user db' ''B'' = Some v \<and> us_phone v = ''+7B''"
proof -
  have u: "find_user sample_request_db ''B'' = Some (sample_user ''B'')"
    by (simp add: find_user_def sample_request_db_def sample_data)
  then obtain db' c where r: "delete_me ''B'' 7 sample_request_db = Inr (db', c)"
    by (simp add: delete_me_def find_active_user_def sample_user_def Let_def)
  have "exists_row (\<lambda>b. is_participant ''B'' b \<and> unfinished b) (db_bookings sample_request_db)"
    by (simp add: sample_request_db_def sample_booking_def is_participant_def unfinished_def)
  then show ?thesis using account_closed [OF r u] r by (auto simp: sample_user_def)
qed

end
