(* ===== verification/Reviews.thy ===== *)
theory Reviews
  imports Booking_Messages
begin

text \<open>
  Reviews after a rental (\<open>reviews/reviews.service.ts\<close>). Each party of a completed booking may
  write one review within two weeks. A review stays invisible to the other side until both are
  written or the window ends; then it is public on the profile of its target.
\<close>

section \<open>Requests and responses\<close>

definition REVIEW_WINDOW_MS :: int where
  "REVIEW_WINDOW_MS = 14 * 24 * 60 * 60 * 1000"

record create_review_dto =
  cr_clientReviewId :: string
  cr_rating :: int
  cr_text :: "string option"

record participant_review =
  pv_id :: string
  pv_self :: bool
  pv_rating :: int
  pv_text :: "string option"
  pv_published :: bool
  pv_hidden :: bool
  pv_publishAt :: timestamp
  pv_createdAt :: timestamp

record public_review =
  bv_id :: string
  bv_authorRole :: actor_role
  bv_rating :: int
  bv_text :: "string option"
  bv_verifiedRental :: bool
  bv_publishedAt :: timestamp
  bv_createdAt :: timestamp

record public_review_page =
  vp_average :: "rat option"
  vp_count :: nat
  vp_items :: "public_review list"
  vp_nextCursor :: "string option"

definition to_participant_review :: "string \<Rightarrow> timestamp \<Rightarrow> review_row \<Rightarrow> participant_review" where
  "to_participant_review actorId now r =
     \<lparr>pv_id = rev_id r, pv_self = (rev_authorId r = Some actorId), pv_rating = rev_rating r, pv_text = rev_text r,
      pv_published = (rev_publishAt r \<le> now \<and> rev_hiddenAt r = None), pv_hidden = (rev_hiddenAt r \<noteq> None),
      pv_publishAt = rev_publishAt r, pv_createdAt = rev_createdAt r\<rparr>"

definition review_text_safe :: "string option \<Rightarrow> bool" where
  "review_text_safe t = (case t of None \<Rightarrow> True | Some s \<Rightarrow> \<not> list_ex is_unsafe_control s)"

section \<open>Writing\<close>

definition review_key :: "review_row \<Rightarrow> timestamp \<times> string" where
  "review_key r = (rev_createdAt r, rev_id r)"

text \<open>When the booking was completed, by its history.\<close>

definition completion_of :: "db \<Rightarrow> string \<Rightarrow> timestamp option" where
  "completion_of db bookingId =
     (case newest_first (\<lambda>h. (hist_createdAt h, hist_id h))
             (filter (\<lambda>h. hist_bookingId h = bookingId \<and> hist_newStatus h = Bk_COMPLETED) (db_history db)) of
        [] \<Rightarrow> None
      | h # _ \<Rightarrow> Some (hist_createdAt h))"

definition insert_review :: "review_row \<Rightarrow> db \<Rightarrow> db result" where
  "insert_review r db =
     (if exists_row (\<lambda>x. rev_bookingId x = rev_bookingId r \<and> rev_authorRole x = rev_authorRole r) (db_reviews db)
      then Inl (Unique_violation ''reviews.bookingId,authorRole'')
      else if rev_authorId r \<noteq> None \<and> rev_clientReviewId r \<noteq> None
         \<and> exists_row (\<lambda>x. rev_authorId x = rev_authorId r \<and> rev_clientReviewId x = rev_clientReviewId r) (db_reviews db)
      then Inl (Unique_violation ''reviews.authorId,clientReviewId'')
      else Inr (db\<lparr>db_next := Suc (db_next db), db_reviews := db_reviews db @ [r]\<rparr>))"

definition review_role :: "string \<Rightarrow> booking_row \<Rightarrow> actor_role" where
  "review_role actorId b = (if bk_borrowerId b = actorId then BORROWER else LENDER)"

definition new_review :: "string \<Rightarrow> booking_row \<Rightarrow> create_review_dto \<Rightarrow> timestamp \<Rightarrow> db \<Rightarrow> review_row" where
  "new_review actorId b dto deadline db =
     \<lparr>rev_id = fresh_id db, rev_bookingId = bk_id b, rev_authorId = Some actorId,
      rev_targetId = (if review_role actorId b = BORROWER then bk_lenderId b else bk_borrowerId b),
      rev_authorRole = review_role actorId b, rev_clientReviewId = Some (cr_clientReviewId dto),
      rev_rating = cr_rating dto, rev_text = cr_text dto, rev_publishAt = deadline, rev_hiddenAt = None,
      rev_hiddenById = None, rev_hiddenReason = None, rev_createdAt = db_now db\<rparr>"

text \<open>The checks of a first submission; the result is the end of the review window.\<close>

definition review_guards :: "string \<Rightarrow> booking_row \<Rightarrow> timestamp \<Rightarrow> db \<Rightarrow> timestamp result" where
  "review_guards actorId b now db =
     (case completion_of db (bk_id b) of
        None \<Rightarrow> Inl (Conflict ''REVIEW_COMPLETION_NOT_RECORDED'')
      | Some completedAt \<Rightarrow>
          let deadline = completedAt + REVIEW_WINDOW_MS in
          if deadline < now then Inl (Conflict ''REVIEW_WINDOW_CLOSED'')
          else if exists_row (\<lambda>r. rev_bookingId r = bk_id b \<and> rev_authorRole r = review_role actorId b) (db_reviews db)
          then Inl (Conflict ''REVIEW_ALREADY_SUBMITTED'')
          else Inr deadline)"

text \<open>The second review publishes both.\<close>

definition publish_pair :: "review_row \<Rightarrow> timestamp \<Rightarrow> db \<Rightarrow> db \<times> review_row" where
  "publish_pair created now db =
     (if \<not> exists_row (\<lambda>r. rev_bookingId r = rev_bookingId created \<and> rev_authorRole r \<noteq> rev_authorRole created)
           (db_reviews db)
      then (db, created)
      else (db\<lparr>db_reviews := update_rows (\<lambda>r. rev_bookingId r = rev_bookingId created \<and> now < rev_publishAt r)
                (\<lambda>r. r\<lparr>rev_publishAt := now\<rparr>) (db_reviews db)\<rparr>,
            created\<lparr>rev_publishAt := now\<rparr>))"

definition create_review ::
    "string \<Rightarrow> string \<Rightarrow> create_review_dto \<Rightarrow> timestamp \<Rightarrow> db \<Rightarrow> (db \<times> participant_review) result" where
  "create_review actorId bookingId dto now db =
     (if \<not> review_text_safe (cr_text dto) then Inl (Bad_request ''review-text'')
      else case find_participant_booking db actorId bookingId of
        None \<Rightarrow> Inl (Not_found ''booking'')
      | Some b \<Rightarrow>
          if bk_status b \<noteq> Bk_COMPLETED then Inl (Conflict ''REVIEW_BOOKING_NOT_COMPLETED'')
          else case List.find (\<lambda>r. rev_authorId r = Some actorId \<and> rev_clientReviewId r = Some (cr_clientReviewId dto))
                 (db_reviews db) of
            Some repeated \<Rightarrow>
              (if rev_bookingId repeated \<noteq> bookingId \<or> rev_rating repeated \<noteq> cr_rating dto \<or> rev_text repeated \<noteq> cr_text dto
               then Inl (Conflict ''IDEMPOTENCY_KEY_REUSED'')
               else Inr (db, to_participant_review actorId now repeated))
          | None \<Rightarrow>
              bind_result (review_guards actorId b now db) (\<lambda>deadline.
              let created = new_review actorId b dto deadline db in
              bind_result (insert_review created db) (\<lambda>db.
              case publish_pair created now db of
                (db, r) \<Rightarrow> Inr (db, to_participant_review actorId now r))))"

section \<open>Reading\<close>

definition visible_review :: "timestamp \<Rightarrow> review_row \<Rightarrow> bool" where
  "visible_review now r \<longleftrightarrow> rev_publishAt r \<le> now \<and> rev_hiddenAt r = None"

definition list_reviews_for_booking :: "db \<Rightarrow> string \<Rightarrow> string \<Rightarrow> timestamp \<Rightarrow> participant_review list result" where
  "list_reviews_for_booking db actorId bookingId now =
     (case find_participant_booking db actorId bookingId of
        None \<Rightarrow> Inl (Not_found ''booking'')
      | Some _ \<Rightarrow> Inr (map (to_participant_review actorId now)
          (filter (\<lambda>r. rev_authorId r = Some actorId \<or> visible_review now r)
            (oldest_first review_key (filter (\<lambda>r. rev_bookingId r = bookingId) (db_reviews db))))))"

definition public_reviews :: "string \<Rightarrow> timestamp \<Rightarrow> db \<Rightarrow> review_row list" where
  "public_reviews targetId now db = filter (\<lambda>r. rev_targetId r = targetId \<and> visible_review now r) (db_reviews db)"

definition review_page_rows ::
    "string \<Rightarrow> timestamp \<Rightarrow> db \<Rightarrow> nat \<Rightarrow> string option \<Rightarrow> (review_row list \<times> string option) option" where
  "review_page_rows targetId now db limit cursor =
     (case cursor of
        None \<Rightarrow> Some (cut_page rev_id limit (newest_first review_key (public_reviews targetId now db)))
      | Some c \<Rightarrow>
          (case List.find (\<lambda>r. rev_id r = c \<and> rev_targetId r = targetId \<and> visible_review now r) (db_reviews db) of
             None \<Rightarrow> None
           | Some r \<Rightarrow> Some (cut_page rev_id limit (newest_first review_key
               (older_than review_key (review_key r) (public_reviews targetId now db))))))"

definition to_public_review :: "review_row \<Rightarrow> public_review" where
  "to_public_review r =
     \<lparr>bv_id = rev_id r, bv_authorRole = rev_authorRole r, bv_rating = rev_rating r, bv_text = rev_text r,
      bv_verifiedRental = True, bv_publishedAt = rev_publishAt r, bv_createdAt = rev_createdAt r\<rparr>"

definition average_rating :: "review_row list \<Rightarrow> rat option" where
  "average_rating rs = (if rs = [] then None else Some (of_int (sum_list (map rev_rating rs)) / of_nat (length rs)))"

definition list_public_reviews ::
    "db \<Rightarrow> string \<Rightarrow> string option \<Rightarrow> nat \<Rightarrow> timestamp \<Rightarrow> public_review_page result" where
  "list_public_reviews db targetId cursor limit now =
     (if \<not> exists_row (\<lambda>u. us_id u = targetId \<and> us_deletedAt u = None \<and> \<not> us_isBlocked u) (db_users db)
      then Inl (Not_found ''profile'')
      else case review_page_rows targetId now db limit cursor of
        None \<Rightarrow> Inl (Not_found ''review-cursor'')
      | Some (rows, nextCursor) \<Rightarrow> Inr
          \<lparr>vp_average = average_rating (public_reviews targetId now db),
           vp_count = length (public_reviews targetId now db),
           vp_items = map to_public_review rows, vp_nextCursor = nextCursor\<rparr>)"

lemma review_next_page:
  assumes "newest_first review_key (public_reviews targetId now db) = pre @ r # rest"
    and "distinct (map rev_id (newest_first review_key (public_reviews targetId now db)))"
  shows "review_page_rows targetId now db limit (Some (rev_id r)) = Some (cut_page rev_id limit rest)"
proof -
  have id: "rev_id = snd \<circ> review_key" by (simp add: fun_eq_iff review_key_def)
  note next_rows = keyset_next_page [OF assms [unfolded public_reviews_def] id, folded public_reviews_def]
  show ?thesis by (simp add: review_page_rows_def next_rows)
qed

interpretation review_pages: paging "\<lambda>db. newest_first review_key (public_reviews targetId now db)" rev_id
  "review_page_rows targetId now" for targetId now
  by unfold_locales (simp add: review_page_rows_def, rule review_next_page)

end
