(* ===== verification/Review_Properties.thy ===== *)
theory Review_Properties
  imports Reviews Sample_Data
begin

text \<open>
  What the reviews after a rental guarantee: who may write one, that the two parties judge each
  other blindly, and that nobody writes twice.
\<close>

section \<open>Outcomes of a submission\<close>

definition review_paired :: "db \<Rightarrow> string \<Rightarrow> actor_role \<Rightarrow> bool" where
  "review_paired db bookingId role \<longleftrightarrow>
     exists_row (\<lambda>x. rev_bookingId x = bookingId \<and> rev_authorRole x \<noteq> role) (db_reviews db)"

definition with_review :: "review_row \<Rightarrow> timestamp \<Rightarrow> db \<Rightarrow> review_row list" where
  "with_review r now db =
     (if review_paired db (rev_bookingId r) (rev_authorRole r)
      then update_rows (\<lambda>x. rev_bookingId x = rev_bookingId r \<and> now < rev_publishAt x) (\<lambda>x. x\<lparr>rev_publishAt := now\<rparr>)
             (db_reviews db @ [r])
      else db_reviews db @ [r])"

lemma review_guardsD:
  assumes "review_guards actorId b now db = Inr deadline"
  shows "\<exists>c. completion_of db (bk_id b) = Some c \<and> deadline = c + REVIEW_WINDOW_MS" "now \<le> deadline"
    "\<not> exists_row (\<lambda>r. rev_bookingId r = bk_id b \<and> rev_authorRole r = review_role actorId b) (db_reviews db)"
  using assms by (auto simp: review_guards_def Let_def split: option.splits if_splits)

lemma publish_pair_rows:
  assumes "insert_review created db = Inr d" and "publish_pair created now d = (db', r)"
  shows "db_reviews db' = with_review created now db" "db_history db' = db_history db"
    "db' = db\<lparr>db_next := Suc (db_next db), db_reviews := with_review created now db\<rparr>"
proof -
  have d: "d = db\<lparr>db_next := Suc (db_next db), db_reviews := db_reviews db @ [created]\<rparr>"
    using assms(1) by (auto simp: insert_review_def split: if_splits)
  show "db' = db\<lparr>db_next := Suc (db_next db), db_reviews := with_review created now db\<rparr>"
    using assms(2) by (auto simp: d publish_pair_def with_review_def review_paired_def split: if_splits)
  then show "db_reviews db' = with_review created now db" "db_history db' = db_history db" by simp_all
qed

lemma create_reviewE:
  assumes "create_review actorId bookingId dto now db = Inr (db', r)"
  obtains (repeated) "db' = db"
  | (new) b c created where "find_participant_booking db actorId bookingId = Some b" "bk_status b = Bk_COMPLETED"
      "completion_of db bookingId = Some c" "now \<le> c + REVIEW_WINDOW_MS"
      "\<not> exists_row (\<lambda>r. rev_bookingId r = bookingId \<and> rev_authorRole r = review_role actorId b) (db_reviews db)"
      "created = new_review actorId b dto (c + REVIEW_WINDOW_MS) db" "rev_bookingId created = bookingId"
      "db' = db\<lparr>db_next := Suc (db_next db), db_reviews := with_review created now db\<rparr>"
      "review_text_safe (cr_text dto)"
proof -
  from assms obtain b where b: "find_participant_booking db actorId bookingId = Some b" "bk_status b = Bk_COMPLETED"
    "review_text_safe (cr_text dto)"
    by (auto simp: create_review_def split: option.splits if_splits)
  have i: "bk_id b = bookingId" using find_participant_bookingD [OF b(1)] by simp
  let ?f = "List.find (\<lambda>r. rev_authorId r = Some actorId \<and> rev_clientReviewId r = Some (cr_clientReviewId dto)) (db_reviews db)"
  show thesis
  proof (cases ?f)
    case (Some x)
    then show ?thesis using assms b by (intro repeated) (auto simp: create_review_def split: if_splits)
  next
    case None
    obtain deadline d where g: "review_guards actorId b now db = Inr deadline"
      and d: "insert_review (new_review actorId b dto deadline db) db = Inr d"
      and p: "(case publish_pair (new_review actorId b dto deadline db) now d of
        (db, r) \<Rightarrow> Inr (db, to_participant_review actorId now r)) = (Inr (db', r) :: (db \<times> participant_review) result)"
      using assms b None by (auto simp only: create_review_def bind_result_Inr_iff Let_def if_False option.simps
          bind_result_simps not_not simp_thms sum.inject)
    then obtain r0 where p: "publish_pair (new_review actorId b dto deadline db) now d = (db', r0)"
      by (cases "publish_pair (new_review actorId b dto deadline db) now d") simp
    note g = review_guardsD [OF g]
    from g(1) obtain c where c: "completion_of db bookingId = Some c" "deadline = c + REVIEW_WINDOW_MS" by (auto simp: i)
    show ?thesis
      using b c g(2,3) publish_pair_rows(3) [OF d p] i
      by (intro new [of b c]) (simp_all add: new_review_def)
  qed
qed

lemma in_with_reviewE:
  assumes "x \<in> set (with_review r now db)"
  obtains y where "y \<in> set (db_reviews db @ [r])" "rev_bookingId x = rev_bookingId y"
    "rev_authorRole x = rev_authorRole y" "rev_authorId x = rev_authorId y"
    "x = y \<or> rev_bookingId y = rev_bookingId r \<and> review_paired db (rev_bookingId r) (rev_authorRole r)"
proof (cases "x \<in> set (db_reviews db @ [r])")
  case True
  then show ?thesis by (rule that) simp_all
next
  case False
  then have p: "review_paired db (rev_bookingId r) (rev_authorRole r)"
    using assms unfolding with_review_def by (auto simp only: split: if_split_asm)
  then have x: "x \<in> set (update_rows (\<lambda>x. rev_bookingId x = rev_bookingId r \<and> now < rev_publishAt x)
       (\<lambda>x. x\<lparr>rev_publishAt := now\<rparr>) (db_reviews db @ [r]))"
    using assms by (simp only: with_review_def if_True)
  from x show ?thesis by (rule in_update_rowsE) (use False p in \<open>auto intro: that\<close>)
qed

lemma with_review_keys:
  "map (\<lambda>x. (rev_bookingId x, rev_authorRole x)) (with_review r now db) =
     map (\<lambda>x. (rev_bookingId x, rev_authorRole x)) (db_reviews db @ [r])"
  unfolding with_review_def
  by (cases "review_paired db (rev_bookingId r) (rev_authorRole r)")
    (simp_all only: if_True if_False, rule update_rows_key, simp)

section \<open>Who writes what\<close>

text \<open>
  C19. A review is written once, by a party, in time: a submission that changes the database is
  of a participant of a completed booking, at most 14 days after the completion that the history
  records, and the first one in that role; it is addressed to the counterparty and carries the
  rating and text as sent.
\<close>

theorem review_written:
  assumes "create_review actorId bookingId dto now db = Inr (db', r)" and "db' \<noteq> db"
  shows "\<exists>b c x. find_participant_booking db actorId bookingId = Some b \<and> bk_status b = Bk_COMPLETED
    \<and> completion_of db bookingId = Some c \<and> now \<le> c + 14 * 24 * 3600 * 1000
    \<and> length (db_reviews db') = Suc (length (db_reviews db)) \<and> x = last (db_reviews db')
    \<and> rev_bookingId x = bookingId \<and> rev_authorId x = Some actorId \<and> rev_authorRole x = review_role actorId b
    \<and> rev_targetId x = (if bk_borrowerId b = actorId then bk_lenderId b else bk_borrowerId b)
    \<and> rev_rating x = cr_rating dto \<and> rev_text x = cr_text dto \<and> rev_hiddenAt x = None
    \<and> (\<forall>y \<in> set (db_reviews db). \<not> (rev_bookingId y = bookingId \<and> rev_authorRole y = review_role actorId b))"
  using assms(1)
proof (cases rule: create_reviewE)
  case repeated
  then show ?thesis using assms(2) by simp
next
  case (new b c created)
  have l: "length (with_review created now db) = Suc (length (db_reviews db))"
    by (simp add: with_review_def)
  have "last (with_review created now db) = created \<or> last (with_review created now db) = created\<lparr>rev_publishAt := now\<rparr>"
    by (simp add: with_review_def)
  then show ?thesis
    using new l by (auto simp: REVIEW_WINDOW_MS_def new_review_def review_role_def)
qed

section \<open>Blind judgement\<close>

text \<open>
  A review of a booking that only one party has judged keeps the end of the window as its
  publication time, and each role has at most one review of a booking.
\<close>

definition reviews_sealed :: "db \<Rightarrow> bool" where
  "reviews_sealed db \<longleftrightarrow>
     distinct (map (\<lambda>x. (rev_bookingId x, rev_authorRole x)) (db_reviews db))
     \<and> (\<forall>x \<in> set (db_reviews db). review_paired db (rev_bookingId x) (rev_authorRole x)
        \<or> (\<exists>c. completion_of db (rev_bookingId x) = Some c \<and> rev_publishAt x = c + REVIEW_WINDOW_MS))"

lemma completion_of_cong: "db_history db' = db_history db \<Longrightarrow> completion_of db' = completion_of db"
  by (rule ext) (simp add: completion_of_def)

lemma review_paired_cong:
  "map (\<lambda>x. (rev_bookingId x, rev_authorRole x)) (db_reviews db') = map (\<lambda>x. (rev_bookingId x, rev_authorRole x)) rows
   \<Longrightarrow> review_paired db' i role \<longleftrightarrow> (\<exists>x \<in> set rows. rev_bookingId x = i \<and> rev_authorRole x \<noteq> role)"
proof -
  assume k: "map (\<lambda>x. (rev_bookingId x, rev_authorRole x)) (db_reviews db') = map (\<lambda>x. (rev_bookingId x, rev_authorRole x)) rows"
  have p: "(\<exists>x \<in> set rs. rev_bookingId x = i \<and> rev_authorRole x \<noteq> role)
      \<longleftrightarrow> (\<exists>k \<in> set (map (\<lambda>x. (rev_bookingId x, rev_authorRole x)) rs). fst k = i \<and> snd k \<noteq> role)" for rs
    by auto
  show ?thesis by (simp only: review_paired_def exists_row_iff p k)
qed

lemma create_review_sealed:
  assumes "reviews_sealed db" and "create_review actorId bookingId dto now db = Inr (db', r)"
  shows "reviews_sealed db'"
  using assms(2)
proof (cases rule: create_reviewE)
  case repeated
  then show ?thesis using assms(1) by simp
next
  case (new b c created)
  let ?rows = "db_reviews db @ [created]"
  have keys: "map (\<lambda>x. (rev_bookingId x, rev_authorRole x)) (db_reviews db') = map (\<lambda>x. (rev_bookingId x, rev_authorRole x)) ?rows"
    using with_review_keys [of created now db] by (simp add: new(8))
  note paired = review_paired_cong [OF keys]
  have role: "rev_authorRole created = review_role actorId b" by (simp add: new(6) new_review_def)
  have comp: "completion_of db' = completion_of db" by (rule completion_of_cong) (simp add: new(8))
  have "distinct (map (\<lambda>x. (rev_bookingId x, rev_authorRole x)) ?rows)"
    using assms(1) new(5,7) role by (auto simp: reviews_sealed_def)
  moreover have "review_paired db' (rev_bookingId x) (rev_authorRole x)
      \<or> (\<exists>c. completion_of db' (rev_bookingId x) = Some c \<and> rev_publishAt x = c + REVIEW_WINDOW_MS)"
    if "x \<in> set (db_reviews db')" for x
  proof -
    have "x \<in> set (with_review created now db)" using that by (simp add: new(8))
    then obtain y where y: "y \<in> set ?rows" "rev_bookingId x = rev_bookingId y" "rev_authorRole x = rev_authorRole y"
      "x = y \<or> rev_bookingId y = rev_bookingId created \<and> review_paired db (rev_bookingId created) (rev_authorRole created)"
      by (rule in_with_reviewE)
    show ?thesis
    proof (cases "x = y")
      case True
      have old: "review_paired db i role \<Longrightarrow> review_paired db' i role" for i role
        unfolding paired by (auto simp: review_paired_def)
      have "rev_publishAt created = c + REVIEW_WINDOW_MS" by (simp add: new(6) new_review_def)
      then show ?thesis
        using y(1) True assms(1) new(3,7) old by (auto simp: reviews_sealed_def comp)
    next
      case False
      then have f: "rev_bookingId y = rev_bookingId created" "review_paired db (rev_bookingId created) (rev_authorRole created)"
        using y(4) by auto
      then obtain z where z: "z \<in> set (db_reviews db)" "rev_bookingId z = rev_bookingId created"
        "rev_authorRole z \<noteq> rev_authorRole created" by (auto simp: review_paired_def)
      have "review_paired db' (rev_bookingId x) (rev_authorRole x)"
        unfolding paired using z f(1) y(2,3) by (cases "rev_authorRole y = rev_authorRole created") auto
      then show ?thesis ..
    qed
  qed
  ultimately show ?thesis unfolding reviews_sealed_def keys by blast
qed

text \<open>
  C20. The parties judge each other blindly: submissions keep the seal, so at any moment before the
  end of the window every review the counterparty or the public can see belongs to a booking that
  both parties have judged, and no party has two reviews of a booking.
\<close>

theorem review_double_blind:
  assumes "reviews_sealed db" and "create_review actorId bookingId dto now db = Inr (db', r)"
  shows "reviews_sealed db' \<and> distinct (map (\<lambda>x. (rev_bookingId x, rev_authorRole x)) (db_reviews db'))
    \<and> (\<forall>x \<in> set (db_reviews db'). \<forall>c later. completion_of db' (rev_bookingId x) = Some c
         \<and> later < c + 14 * 24 * 3600 * 1000 \<and> visible_review later x
         \<longrightarrow> (\<exists>y \<in> set (db_reviews db'). rev_bookingId y = rev_bookingId x \<and> rev_authorRole y \<noteq> rev_authorRole x))"
proof -
  have s: "reviews_sealed db'" using assms by (rule create_review_sealed)
  moreover have "review_paired db' (rev_bookingId x) (rev_authorRole x)"
    if "x \<in> set (db_reviews db')" "completion_of db' (rev_bookingId x) = Some c"
      "later < c + REVIEW_WINDOW_MS" "visible_review later x" for x c later
    using s that by (fastforce simp: reviews_sealed_def visible_review_def)
  ultimately show ?thesis
    unfolding REVIEW_WINDOW_MS_def by (auto simp: reviews_sealed_def review_paired_def)
qed

definition reviewed_db :: db where
  "reviewed_db = sample_db\<lparr>db_bookings := [sample_booking ''b1'' Bk_COMPLETED 0 None],
     db_history := [\<lparr>hist_id = ''h1'', hist_bookingId = ''b1'', hist_actorId = None, hist_actorType = ''SYSTEM'',
        hist_command = ''COMPLETE'', hist_oldStatus = Some Bk_RETURNED, hist_newStatus = Bk_COMPLETED,
        hist_reason = None, hist_requestId = ''q'', hist_createdAt = SAMPLE_NOW\<rparr>]\<rparr>"

definition sample_review :: create_review_dto where
  "sample_review = \<lparr>cr_clientReviewId = ''r1'', cr_rating = 5, cr_text = Some ''good''\<rparr>"

lemma sample_submission:
  obtains db' r where "create_review ''B'' ''b1'' sample_review SAMPLE_NOW reviewed_db = Inr (db', r)"
    "db' \<noteq> reviewed_db"
proof -
  have "is_ok (create_review ''B'' ''b1'' sample_review SAMPLE_NOW reviewed_db)
     \<and> (case create_review ''B'' ''b1'' sample_review SAMPLE_NOW reviewed_db of
          Inl e \<Rightarrow> False | Inr (db', r) \<Rightarrow> db_next db' = 2)" by code_simp
  then obtain db' r where r: "create_review ''B'' ''b1'' sample_review SAMPLE_NOW reviewed_db = Inr (db', r)"
    "db_next db' = 2" by (auto simp: is_ok_def split: sum.splits)
  then have "db' \<noteq> reviewed_db" by (auto simp: reviewed_db_def sample_db_def)
  with r(1) show thesis by (rule that)
qed

theorem review_written_witness:
  "\<exists>db' r. create_review ''B'' ''b1'' sample_review SAMPLE_NOW reviewed_db = Inr (db', r)
     \<and> rev_rating (last (db_reviews db')) = 5"
proof -
  obtain db' r where r: "create_review ''B'' ''b1'' sample_review SAMPLE_NOW reviewed_db = Inr (db', r)"
    "db' \<noteq> reviewed_db" by (rule sample_submission)
  have "rev_rating (last (db_reviews db')) = 5" using review_written [OF r] by (auto simp: sample_review_def)
  then show ?thesis using r(1) by blast
qed

theorem review_double_blind_witness:
  "\<exists>db' r. create_review ''B'' ''b1'' sample_review SAMPLE_NOW reviewed_db = Inr (db', r) \<and> reviews_sealed db'"
proof -
  obtain db' r where r: "create_review ''B'' ''b1'' sample_review SAMPLE_NOW reviewed_db = Inr (db', r)"
    by (rule sample_submission)
  have "reviews_sealed reviewed_db" by (simp add: reviews_sealed_def reviewed_db_def sample_db_def)
  then show ?thesis using review_double_blind [OF _ r] r by blast
qed

end
