(* ===== verification/Support.thy ===== *)
theory Support
  imports Booking_Messages Dispute_Service
begin

text \<open>
  The help desk (\<open>support/support.service.ts\<close>): tickets of users, their messages and
  attachments, and the operators who take, answer and close them. The verification of an upload
  is an argument, as for the booking evidence. \<open>createMessage\<close> reads the ticket before the
  transaction that writes, and \<open>replyAsAdmin\<close> and \<open>assignToSelf\<close> read it in a statement of their
  own before the update; the checks and the writes are separate definitions, so that another
  command can come between them. The update of \<open>closeAsAdmin\<close> repeats every condition it checked.
\<close>

section \<open>Requests and responses\<close>

record create_ticket_dto =
  ctk_bookingId :: "string option"
  ctk_bookingIssueReason :: "booking_issue option"
  ctk_subject :: string
  ctk_message :: string

record support_message_dto =
  csm_body :: string
  csm_attachmentIntentIds :: "string list"

record ticket_response =
  tr_id :: string
  tr_type :: ticket_type
  tr_bookingId :: "string option"
  tr_bookingIssueReason :: "booking_issue option"
  tr_subject :: string
  tr_message :: string
  tr_status :: ticket_status
  tr_adminResponse :: "string option"
  tr_respondedAt :: "timestamp option"
  tr_createdAt :: timestamp
  tr_updatedAt :: timestamp

record admin_ticket_response =
  atr_ticket :: ticket_response
  atr_user :: "string \<times> string option"
  atr_assignee :: "(string \<times> string option) option"

record support_message_response =
  smr_id :: string
  smr_authorRole :: support_role
  smr_body :: string
  smr_createdAt :: timestamp
  smr_attachments :: "evidence_response list"

definition to_ticket_response :: "ticket_row \<Rightarrow> ticket_response" where
  "to_ticket_response t =
     \<lparr>tr_id = tk_id t, tr_type = tk_type t, tr_bookingId = tk_bookingId t,
      tr_bookingIssueReason = tk_bookingIssueReason t, tr_subject = tk_subject t, tr_message = tk_message t,
      tr_status = tk_status t, tr_adminResponse = tk_adminResponse t, tr_respondedAt = tk_respondedAt t,
      tr_createdAt = tk_createdAt t, tr_updatedAt = tk_updatedAt t\<rparr>"

definition user_name_of :: "db \<Rightarrow> string \<Rightarrow> string \<times> string option" where
  "user_name_of db i = (i, case find_user db i of None \<Rightarrow> None | Some u \<Rightarrow> us_name u)"

definition to_admin_ticket_response :: "db \<Rightarrow> ticket_row \<Rightarrow> admin_ticket_response" where
  "to_admin_ticket_response db t =
     \<lparr>atr_ticket = to_ticket_response t, atr_user = user_name_of db (tk_userId t),
      atr_assignee = map_option (user_name_of db) (tk_assigneeId t)\<rparr>"

definition to_support_message_response :: "db \<Rightarrow> support_message_row \<Rightarrow> support_message_response" where
  "to_support_message_response db m =
     \<lparr>smr_id = sm_id m, smr_authorRole = sm_authorRole m, smr_body = sm_body m, smr_createdAt = sm_createdAt m,
      smr_attachments = map to_evidence_response
        (oldest_first (\<lambda>e. (ev_createdAt e, ev_id e))
          (filter (\<lambda>e. ev_ownerId e = sm_id m) (dk_attachments (db_desk db))))\<rparr>"

section \<open>Rows of the desk\<close>

abbreviation db_tickets :: "db \<Rightarrow> ticket_row list" where
  "db_tickets db \<equiv> dk_tickets (db_desk db)"

definition set_tickets :: "ticket_row list \<Rightarrow> db \<Rightarrow> db" where
  "set_tickets ts db = db\<lparr>db_desk := (db_desk db)\<lparr>dk_tickets := ts\<rparr>\<rparr>"

definition find_general_ticket :: "db \<Rightarrow> string \<Rightarrow> ticket_row option" where
  "find_general_ticket db ticketId = List.find (\<lambda>t. tk_id t = ticketId \<and> tk_type t = Tk_GENERAL) (db_tickets db)"

text \<open>\<open>updateMany\<close> on the tickets that satisfy a condition, which must be exactly one.\<close>

definition update_one_ticket ::
    "(ticket_row \<Rightarrow> bool) \<Rightarrow> (ticket_row \<Rightarrow> ticket_row) \<Rightarrow> string \<Rightarrow> timestamp \<Rightarrow> db \<Rightarrow> db result" where
  "update_one_ticket p f err now db =
     (if count_rows p (db_tickets db) \<noteq> 1 then Inl (Conflict err)
      else Inr (set_tickets (update_rows p (\<lambda>t. (f t)\<lparr>tk_updatedAt := now\<rparr>) (db_tickets db)) db))"

definition support_event_row :: "db \<Rightarrow> string \<Rightarrow> string \<Rightarrow> string \<Rightarrow> outbox_row" where
  "support_event_row db ticketId eventType key =
     \<lparr>out_id = fresh_id db, out_bookingId = None, out_supportTicketId = Some ticketId, out_recipientId = None,
      out_itemId = None, out_eventType = eventType, out_deduplicationKey = ''support:'' @ ticketId @ key,
      out_createdAt = db_now db, out_processedAt = None\<rparr>"

definition insert_support_message :: "string \<Rightarrow> string \<Rightarrow> support_role \<Rightarrow> string \<Rightarrow> db \<Rightarrow> db \<times> support_message_row" where
  "insert_support_message ticketId authorId role body db =
     (let m = \<lparr>sm_id = fresh_id db, sm_ticketId = ticketId, sm_authorId = authorId, sm_authorRole = role,
               sm_body = body, sm_createdAt = db_now db\<rparr>
      in (db\<lparr>db_next := Suc (db_next db), db_desk := (db_desk db)\<lparr>dk_messages := dk_messages (db_desk db) @ [m]\<rparr>\<rparr>, m))"

section \<open>Tickets of a user\<close>

text \<open>Which problem each party may report, and when.\<close>

definition issue_allowed :: "string \<Rightarrow> booking_row \<Rightarrow> booking_issue \<Rightarrow> string \<Rightarrow> bool" where
  "issue_allowed actorId b reason today =
     (let isBorrower = (bk_borrowerId b = actorId);
          startDate = iso_slice (bk_startDate b);
          endDate = iso_slice (bk_endDate b)
      in case reason of
           OWNER_NO_SHOW \<Rightarrow> isBorrower \<and> bk_status b = Bk_CONFIRMED \<and> startDate \<le> today
         | BORROWER_NO_SHOW \<Rightarrow> \<not> isBorrower \<and> bk_status b = Bk_CONFIRMED \<and> startDate \<le> today
         | ITEM_FAULTY \<Rightarrow> isBorrower \<and> bk_status b = Bk_CONFIRMED \<and> startDate \<le> today
         | EARLY_RETURN \<Rightarrow> bk_status b = Bk_ACTIVE \<and> today < endDate
         | LATE_RETURN \<Rightarrow> bk_status b = Bk_ACTIVE \<and> endDate < today
         | _ \<Rightarrow> bk_status b = Bk_ACTIVE \<or> bk_status b = Bk_RETURNED)"

definition validate_booking_issue :: "string \<Rightarrow> booking_row \<Rightarrow> booking_issue \<Rightarrow> string \<Rightarrow> unit result" where
  "validate_booking_issue actorId b reason today =
     (if issue_allowed actorId b reason today then Inr () else Inl (Conflict ''BOOKING_ISSUE_NOT_ALLOWED''))"

definition new_ticket :: "string \<Rightarrow> create_ticket_dto \<Rightarrow> timestamp \<Rightarrow> db \<Rightarrow> ticket_row" where
  "new_ticket userId dto now db =
     \<lparr>tk_id = fresh_id db, tk_userId = userId, tk_bookingId = ctk_bookingId dto,
      tk_bookingIssueReason = ctk_bookingIssueReason dto, tk_type = Tk_GENERAL, tk_subject = js_trim (ctk_subject dto),
      tk_message = js_trim (ctk_message dto), tk_status = Tk_OPEN, tk_adminResponse = None, tk_assigneeId = None,
      tk_respondedById = None, tk_respondedAt = None, tk_createdAt = db_now db, tk_updatedAt = now\<rparr>"

definition create_ticket ::
    "string \<Rightarrow> create_ticket_dto \<Rightarrow> string \<Rightarrow> timestamp \<Rightarrow> db \<Rightarrow> (db \<times> ticket_response) result" where
  "create_ticket userId dto today now db =
     (if (ctk_bookingId dto \<noteq> None) \<noteq> (ctk_bookingIssueReason dto \<noteq> None)
      then Inl (Bad_request ''bookingId-with-bookingIssueReason'')
      else bind_result
        (case (ctk_bookingId dto, ctk_bookingIssueReason dto) of
           (Some bookingId, Some reason) \<Rightarrow>
             (case find_participant_booking db userId bookingId of
                None \<Rightarrow> Inl (Not_found ''booking'')
              | Some b \<Rightarrow> validate_booking_issue userId b reason today)
         | _ \<Rightarrow> Inr ())
        (\<lambda>_. let t = new_ticket userId dto now db
             in Inr ((set_tickets (db_tickets db @ [t]) db)\<lparr>db_next := Suc (db_next db)\<rparr>, to_ticket_response t)))"

definition ticket_key :: "ticket_row \<Rightarrow> timestamp \<times> string" where
  "ticket_key t = (tk_updatedAt t, tk_id t)"

definition list_my_tickets :: "db \<Rightarrow> string \<Rightarrow> ticket_response list" where
  "list_my_tickets db userId =
     map to_ticket_response (newest_first ticket_key
       (filter (\<lambda>t. tk_userId t = userId \<and> tk_type t = Tk_GENERAL) (db_tickets db)))"

definition list_tickets_for_admin :: "db \<Rightarrow> admin_ticket_response list" where
  "list_tickets_for_admin db =
     map (to_admin_ticket_response db) (newest_first ticket_key (filter (\<lambda>t. tk_type t = Tk_GENERAL) (db_tickets db)))"

definition get_accessible_ticket :: "db \<Rightarrow> string \<Rightarrow> string \<Rightarrow> bool \<Rightarrow> ticket_row result" where
  "get_accessible_ticket db actorId ticketId allowAdmin =
     (case List.find (\<lambda>t. tk_id t = ticketId \<and> tk_type t = Tk_GENERAL \<and> (allowAdmin \<or> tk_userId t = actorId))
             (db_tickets db) of
        None \<Rightarrow> Inl (Not_found ''ticket'')
      | Some t \<Rightarrow> Inr t)"

definition list_support_messages :: "db \<Rightarrow> string \<Rightarrow> string \<Rightarrow> bool \<Rightarrow> support_message_response list result" where
  "list_support_messages db actorId ticketId allowAdmin =
     bind_result (get_accessible_ticket db actorId ticketId allowAdmin) (\<lambda>_.
       Inr (map (to_support_message_response db)
         (oldest_first (\<lambda>m. (sm_createdAt m, sm_id m))
           (filter (\<lambda>m. sm_ticketId m = ticketId) (dk_messages (db_desk db))))))"

section \<open>Messages\<close>

definition support_message_guards :: "string \<Rightarrow> string \<Rightarrow> bool \<Rightarrow> db \<Rightarrow> unit result" where
  "support_message_guards actorId ticketId allowAdmin db =
     bind_result (get_accessible_ticket db actorId ticketId allowAdmin) (\<lambda>t.
       if tk_status t = Tk_CLOSED then Inl (Conflict ''ticket-closed'')
       else if allowAdmin \<and> tk_assigneeId t \<noteq> None \<and> tk_assigneeId t \<noteq> Some actorId
       then Inl (Conflict ''ticket-assigned-to-another'')
       else Inr ())"

fun verify_all :: "(string \<Rightarrow> verified_upload result) \<Rightarrow> string list \<Rightarrow> verified_upload list result" where
  "verify_all verify [] = Inr []"
| "verify_all verify (i # is) =
     bind_result (verify i) (\<lambda>v. bind_result (verify_all verify is) (\<lambda>vs. Inr (v # vs)))"

fun consume_attachments :: "string \<Rightarrow> string \<Rightarrow> timestamp \<Rightarrow> verified_upload list \<Rightarrow> db \<Rightarrow> db result" where
  "consume_attachments actorId ticketId confirmedAt [] db = Inr db"
| "consume_attachments actorId ticketId confirmedAt (v # vs) db =
     (case consume_intent (\<lambda>i. int_id i = vu_intentId v \<and> int_actorId i = actorId \<and> int_entityId i = ticketId
             \<and> confirmedAt < int_expiresAt i) confirmedAt db of
        None \<Rightarrow> Inl (Conflict ''upload-intent-used-or-expired'')
      | Some db \<Rightarrow> consume_attachments actorId ticketId confirmedAt vs db)"

fun attach_all :: "string \<Rightarrow> verified_upload list \<Rightarrow> db \<Rightarrow> db result" where
  "attach_all messageId [] db = Inr db"
| "attach_all messageId (v # vs) db =
     (if exists_row (\<lambda>e. ev_uploadIntentId e = vu_intentId v) (dk_attachments (db_desk db))
      then Inl (Unique_violation ''support_attachments.uploadIntentId'')
      else attach_all messageId vs
        (db\<lparr>db_next := Suc (db_next db), db_desk := (db_desk db)\<lparr>dk_attachments := dk_attachments (db_desk db) @
           [\<lparr>ev_id = fresh_id db, ev_ownerId = messageId, ev_uploadIntentId = vu_intentId v,
             ev_storageKey = vu_objectKey v, ev_sha256 = vu_sha256 v, ev_createdAt = db_now db\<rparr>]\<rparr>\<rparr>))"

text \<open>What an operator's message does besides: it takes the ticket, whatever its state is by then.\<close>

definition operator_message_effects :: "string \<Rightarrow> string \<Rightarrow> string \<Rightarrow> timestamp \<Rightarrow> db \<Rightarrow> db result" where
  "operator_message_effects actorId ticketId messageId now db =
     (if count_rows (\<lambda>t. tk_id t = ticketId) (db_tickets db) = 0 then Inl (Plain_error ''P2025'')
      else
        let db = set_tickets (update_rows (\<lambda>t. tk_id t = ticketId)
              (\<lambda>t. t\<lparr>tk_assigneeId := Some actorId, tk_status := Tk_IN_PROGRESS, tk_updatedAt := now\<rparr>) (db_tickets db)) db
        in bind_result (insert_outbox (support_event_row db ticketId ''SUPPORT_MESSAGE_CREATED'' ('':message:'' @ messageId)) db)
          (\<lambda>db. Inr (write_audit (Some actorId) ''SUPPORT_MESSAGE_CREATED'' ''SupportTicket'' (Some ticketId) None db)))"

definition support_message_transaction ::
    "string \<Rightarrow> string \<Rightarrow> string \<Rightarrow> verified_upload list \<Rightarrow> bool \<Rightarrow> timestamp \<Rightarrow> db \<Rightarrow> (db \<times> support_message_response) result" where
  "support_message_transaction actorId ticketId body attachments allowAdmin now db =
     bind_result (consume_attachments actorId ticketId now attachments db) (\<lambda>db.
     case insert_support_message ticketId actorId (if allowAdmin then Sup_SUPPORT else Sup_USER) (js_trim body) db of
       (db, m) \<Rightarrow>
         bind_result (attach_all (sm_id m) attachments db) (\<lambda>db.
         let r = to_support_message_response db m in
         if allowAdmin
         then bind_result (operator_message_effects actorId ticketId (sm_id m) now db) (\<lambda>db. Inr (db, r))
         else Inr (db, r)))"

text \<open>\<open>createMessage\<close>: what comes before the transaction, and both together.\<close>

definition check_support_message ::
    "(string \<Rightarrow> verified_upload result) \<Rightarrow> string \<Rightarrow> string \<Rightarrow> support_message_dto \<Rightarrow> bool \<Rightarrow> db
      \<Rightarrow> verified_upload list result" where
  "check_support_message verify actorId ticketId dto allowAdmin db =
     bind_result (support_message_guards actorId ticketId allowAdmin db) (\<lambda>_.
     verify_all verify (csm_attachmentIntentIds dto))"

definition create_support_message ::
    "(string \<Rightarrow> verified_upload result) \<Rightarrow> string \<Rightarrow> string \<Rightarrow> support_message_dto \<Rightarrow> bool \<Rightarrow> timestamp \<Rightarrow> db
      \<Rightarrow> (db \<times> support_message_response) result" where
  "create_support_message verify actorId ticketId dto allowAdmin now db =
     bind_result (check_support_message verify actorId ticketId dto allowAdmin db) (\<lambda>attachments.
     support_message_transaction actorId ticketId (csm_body dto) attachments allowAdmin now db)"

section \<open>Operators\<close>

record admin_chat_message =
  acm_id :: string
  acm_bookingId :: string
  acm_authorRole :: message_role
  acm_body :: string
  acm_createdAt :: timestamp

text \<open>An operator reads the last 100 messages of the booking of a ticket; the access is audited.\<close>

definition list_booking_chat_for_admin ::
    "string \<Rightarrow> string \<Rightarrow> db \<Rightarrow> (db \<times> admin_chat_message list) result" where
  "list_booking_chat_for_admin adminId ticketId db =
     (case List.find (\<lambda>t. tk_id t = ticketId \<and> tk_type t = Tk_GENERAL \<and> tk_bookingId t \<noteq> None) (db_tickets db) of
        None \<Rightarrow> Inl (Not_found ''booking-ticket'')
      | Some t \<Rightarrow>
          (case tk_bookingId t of
             None \<Rightarrow> Inl (Not_found ''booking-ticket'')
           | Some bookingId \<Rightarrow>
               let newest = take 100 (newest_first message_key (filter (\<lambda>m. msg_bookingId m = bookingId) (db_messages db)))
               in Inr (write_audit (Some adminId) ''SUPPORT_BOOKING_CHAT_ACCESSED'' ''SupportTicket'' (Some ticketId) None db,
                    map (\<lambda>m. \<lparr>acm_id = msg_id m, acm_bookingId = msg_bookingId m, acm_authorRole = msg_authorRole m,
                              acm_body = msg_body m, acm_createdAt = msg_createdAt m\<rparr>) (rev newest))))"

definition admin_ticket_of :: "string \<Rightarrow> db \<Rightarrow> (db \<times> admin_ticket_response) result" where
  "admin_ticket_of ticketId db =
     (case List.find (\<lambda>t. tk_id t = ticketId) (db_tickets db) of
        None \<Rightarrow> Inl (Plain_error ''P2025'')
      | Some t \<Rightarrow> Inr (db, to_admin_ticket_response db t))"

text \<open>Whether the ticket has to be assigned, and the assignment.\<close>

definition assign_check :: "string \<Rightarrow> string \<Rightarrow> db \<Rightarrow> bool result" where
  "assign_check adminId ticketId db =
     (case find_general_ticket db ticketId of
        None \<Rightarrow> Inl (Not_found ''ticket'')
      | Some t \<Rightarrow>
          if tk_status t = Tk_CLOSED then Inl (Conflict ''ticket-closed'')
          else if tk_assigneeId t \<noteq> None \<and> tk_assigneeId t \<noteq> Some adminId then Inl (Conflict ''ticket-already-assigned'')
          else Inr (tk_assigneeId t = None))"

definition assign_write :: "string \<Rightarrow> string \<Rightarrow> timestamp \<Rightarrow> db \<Rightarrow> (db \<times> admin_ticket_response) result" where
  "assign_write adminId ticketId now db =
     bind_result (update_one_ticket (\<lambda>t. tk_id t = ticketId \<and> tk_assigneeId t = None)
         (\<lambda>t. t\<lparr>tk_assigneeId := Some adminId, tk_status := Tk_IN_PROGRESS\<rparr>) ''ticket-already-assigned'' now db) (\<lambda>db.
       admin_ticket_of ticketId
         (write_audit (Some adminId) ''SUPPORT_TICKET_ASSIGNED'' ''SupportTicket'' (Some ticketId) None db))"

definition assign_to_self :: "string \<Rightarrow> string \<Rightarrow> timestamp \<Rightarrow> db \<Rightarrow> (db \<times> admin_ticket_response) result" where
  "assign_to_self adminId ticketId now db =
     bind_result (assign_check adminId ticketId db) (\<lambda>free.
       if free then assign_write adminId ticketId now db else admin_ticket_of ticketId db)"

definition reply_check :: "string \<Rightarrow> string \<Rightarrow> db \<Rightarrow> unit result" where
  "reply_check adminId ticketId db =
     (case find_general_ticket db ticketId of
        None \<Rightarrow> Inl (Not_found ''ticket'')
      | Some t \<Rightarrow>
          if tk_status t = Tk_CLOSED \<or> (tk_adminResponse t \<noteq> None \<and> tk_adminResponse t \<noteq> Some [])
          then Inl (Conflict ''ticket-already-answered'')
          else if tk_assigneeId t \<noteq> None \<and> tk_assigneeId t \<noteq> Some adminId
          then Inl (Conflict ''ticket-assigned-to-another'')
          else Inr ())"

definition reply_write :: "string \<Rightarrow> string \<Rightarrow> string \<Rightarrow> timestamp \<Rightarrow> db \<Rightarrow> (db \<times> admin_ticket_response) result" where
  "reply_write adminId ticketId reply now db =
     bind_result (update_one_ticket (\<lambda>t. tk_id t = ticketId \<and> tk_type t = Tk_GENERAL
           \<and> tk_status t \<noteq> Tk_CLOSED \<and> tk_adminResponse t = None)
         (\<lambda>t. t\<lparr>tk_status := Tk_IN_PROGRESS, tk_adminResponse := Some (js_trim reply), tk_assigneeId := Some adminId,
                tk_respondedById := Some adminId, tk_respondedAt := Some now\<rparr>) ''ticket-already-answered'' now db) (\<lambda>db.
       let db = write_audit (Some adminId) ''SUPPORT_TICKET_REPLIED'' ''SupportTicket'' (Some ticketId) None db;
           db = fst (insert_support_message ticketId adminId Sup_SUPPORT (js_trim reply) db)
       in bind_result (insert_outbox (support_event_row db ticketId ''SUPPORT_REPLIED'' '':first-reply'') db) (\<lambda>db.
          admin_ticket_of ticketId db))"

definition reply_as_admin :: "string \<Rightarrow> string \<Rightarrow> string \<Rightarrow> timestamp \<Rightarrow> db \<Rightarrow> (db \<times> admin_ticket_response) result" where
  "reply_as_admin adminId ticketId reply now db =
     bind_result (reply_check adminId ticketId db) (\<lambda>_. reply_write adminId ticketId reply now db)"

definition close_as_admin :: "string \<Rightarrow> string \<Rightarrow> timestamp \<Rightarrow> db \<Rightarrow> (db \<times> admin_ticket_response) result" where
  "close_as_admin adminId ticketId now db =
     (case find_general_ticket db ticketId of
        None \<Rightarrow> Inl (Not_found ''ticket'')
      | Some t \<Rightarrow>
          if tk_status t = Tk_CLOSED then Inl (Conflict ''ticket-closed'')
          else if tk_assigneeId t \<noteq> None \<and> tk_assigneeId t \<noteq> Some adminId
          then Inl (Conflict ''ticket-assigned-to-another'')
          else bind_result (update_one_ticket (\<lambda>t. tk_id t = ticketId \<and> tk_type t = Tk_GENERAL
                   \<and> tk_status t \<noteq> Tk_CLOSED \<and> (tk_assigneeId t = None \<or> tk_assigneeId t = Some adminId))
                 (\<lambda>t. t\<lparr>tk_status := Tk_CLOSED, tk_assigneeId := Some adminId\<rparr>) ''ticket-closed-or-assigned'' now db) (\<lambda>db.
               let db = write_audit (Some adminId) ''SUPPORT_TICKET_CLOSED'' ''SupportTicket'' (Some ticketId) None db
               in bind_result (insert_outbox (support_event_row db ticketId ''SUPPORT_TICKET_CLOSED'' '':closed'') db) (\<lambda>db.
                  admin_ticket_of ticketId db)))"

end
