(* ===== verification/Support_Properties.thy ===== *)
theory Support_Properties
  imports Support Sample_Data
begin

text \<open>
  What the help desk guarantees: the commands on a ticket implement a small state machine, in
  which an operator who took a ticket keeps it and a closed ticket is final; and what is left of
  that when checks and writes of several commands interleave.
\<close>

section \<open>Commands on a ticket\<close>

datatype support_command =
    Assign_ticket
  | Reply_ticket string
  | Operator_message support_message_dto
  | Close_ticket
  | User_message support_message_dto

definition run_support ::
    "(string \<Rightarrow> verified_upload result) \<Rightarrow> string \<Rightarrow> string \<Rightarrow> support_command \<Rightarrow> timestamp \<Rightarrow> db \<Rightarrow> db result" where
  "run_support verify actorId ticketId c now db =
     (case c of
        Assign_ticket \<Rightarrow> map_sum id fst (assign_to_self actorId ticketId now db)
      | Reply_ticket reply \<Rightarrow> map_sum id fst (reply_as_admin actorId ticketId reply now db)
      | Operator_message dto \<Rightarrow> map_sum id fst (create_support_message verify actorId ticketId dto True now db)
      | Close_ticket \<Rightarrow> map_sum id fst (close_as_admin actorId ticketId now db)
      | User_message dto \<Rightarrow> map_sum id fst (create_support_message verify actorId ticketId dto False now db))"

text \<open>
  The abstract machine over the status and the operator of a ticket; the label is the operator
  who acts, none for the author of the ticket.
\<close>

type_synonym ticket_state = "ticket_status \<times> string option"

definition state_of :: "ticket_row \<Rightarrow> ticket_state" where
  "state_of t = (tk_status t, tk_assigneeId t)"

inductive ticket_step :: "string option \<Rightarrow> ticket_state \<Rightarrow> ticket_state \<Rightarrow> bool" where
  writes: "st \<noteq> Tk_CLOSED \<Longrightarrow> ticket_step None (st, a) (st, a)"
| keeps: "st \<noteq> Tk_CLOSED \<Longrightarrow> ticket_step (Some oper) (st, Some oper) (st, Some oper)"
| takes: "st \<noteq> Tk_CLOSED \<Longrightarrow> a = None \<or> a = Some oper \<Longrightarrow> ticket_step (Some oper) (st, a) (Tk_IN_PROGRESS, Some oper)"
| closes: "st \<noteq> Tk_CLOSED \<Longrightarrow> a = None \<or> a = Some oper \<Longrightarrow> ticket_step (Some oper) (st, a) (Tk_CLOSED, Some oper)"

inductive_cases ticket_stepE: "ticket_step label s s'"

definition acting_operator :: "string \<Rightarrow> support_command \<Rightarrow> string option" where
  "acting_operator actorId c = (case c of User_message _ \<Rightarrow> None | _ \<Rightarrow> Some actorId)"

definition ticket_messages :: "db \<Rightarrow> string \<Rightarrow> support_message_row list" where
  "ticket_messages db ticketId = filter (\<lambda>m. sm_ticketId m = ticketId) (dk_messages (db_desk db))"

definition tickets_unique :: "db \<Rightarrow> bool" where
  "tickets_unique db \<longleftrightarrow> distinct (map tk_id (db_tickets db))"

section \<open>What the parts write\<close>

lemma set_tickets_simps [simp]:
  "db_tickets (set_tickets ts db) = ts"
  "dk_messages (db_desk (set_tickets ts db)) = dk_messages (db_desk db)"
  "db_outbox (set_tickets ts db) = db_outbox db"
  "db_intents (set_tickets ts db) = db_intents db"
  by (simp_all add: set_tickets_def)

lemma write_audit_desk [simp]: "db_desk (write_audit a b c d e db) = db_desk db"
  by (simp add: write_audit_def)

lemma insert_outbox_desk: "insert_outbox x db = Inr db' \<Longrightarrow> db_desk db' = db_desk db"
  by (auto simp: insert_outbox_def split: if_splits)

lemma consume_intent_desk: "consume_intent p now db = Some db' \<Longrightarrow> db_desk db' = db_desk db"
  by (auto simp: consume_intent_def Let_def split: if_splits)

lemma consume_attachments_desk:
  "consume_attachments actorId ticketId now vs db = Inr db' \<Longrightarrow> db_desk db' = db_desk db"
  by (induction vs arbitrary: db) (auto split: option.splits dest: consume_intent_desk)

lemma attach_all_desk:
  "attach_all messageId vs db = Inr db' \<Longrightarrow>
     db_tickets db' = db_tickets db \<and> dk_messages (db_desk db') = dk_messages (db_desk db)"
proof (induction vs arbitrary: db)
  case (Cons v vs)
  then show ?case by (auto split: if_splits dest!: Cons.IH)
qed simp

lemma insert_support_message_desk:
  "db_tickets (fst (insert_support_message i a role body db)) = db_tickets db"
  "dk_messages (db_desk (fst (insert_support_message i a role body db))) =
     dk_messages (db_desk db) @ [snd (insert_support_message i a role body db)]"
  "sm_ticketId (snd (insert_support_message i a role body db)) = i"
  by (simp_all add: insert_support_message_def Let_def)

text \<open>
  The shape of every change: the ticket \<open>t\<close> becomes \<open>t'\<close>, other tickets and their messages stay.
\<close>

definition changes_ticket :: "string \<Rightarrow> ticket_row \<Rightarrow> ticket_row \<Rightarrow> db \<Rightarrow> db \<Rightarrow> bool" where
  "changes_ticket ticketId t t' db db' \<longleftrightarrow>
     find_general_ticket db ticketId = Some t \<and> find_general_ticket db' ticketId = Some t' \<and> tickets_unique db'
     \<and> (\<forall>i. i \<noteq> ticketId \<longrightarrow> find_general_ticket db' i = find_general_ticket db i \<and> ticket_messages db' i = ticket_messages db i)"

lemma changes_ticket_frame:
  assumes "changes_ticket ticketId t t' db d" and "db_tickets db' = db_tickets d"
    and "\<forall>i. i \<noteq> ticketId \<longrightarrow> ticket_messages db' i = ticket_messages d i"
  shows "changes_ticket ticketId t t' db db'"
  using assms by (simp add: changes_ticket_def find_general_ticket_def tickets_unique_def)

lemma changes_ticket_refl:
  "find_general_ticket db ticketId = Some t \<Longrightarrow> tickets_unique db \<Longrightarrow> changes_ticket ticketId t t db db"
  by (simp add: changes_ticket_def)

lemma set_tickets_changes:
  assumes "find_general_ticket db ticketId = Some t" and "tickets_unique db" and "p t"
    and "\<And>t. p t \<Longrightarrow> tk_id t = ticketId" and "\<And>t. tk_id (f t) = tk_id t" "\<And>t. tk_type (f t) = tk_type t"
  shows "changes_ticket ticketId t (f t) db (set_tickets (update_rows p f (db_tickets db)) db)"
proof -
  let ?d = "set_tickets (update_rows p f (db_tickets db)) db"
  have f: "find_general_ticket ?d i = map_option (\<lambda>t. if p t then f t else t) (find_general_ticket db i)" for i
    unfolding find_general_ticket_def set_tickets_simps using assms(5,6) by (intro find_update_rows) simp
  have "find_general_ticket ?d i = find_general_ticket db i" if "i \<noteq> ticketId" for i
  proof (cases "find_general_ticket db i")
    case (Some x)
    then have "tk_id x = i" by (auto simp: find_general_ticket_def dest: find_SomeD)
    then have "\<not> p x" using assms(4) that by blast
    then show ?thesis using Some by (simp add: f)
  qed (simp add: f)
  moreover have "tickets_unique ?d" using assms(2,5) by (simp add: tickets_unique_def update_rows_key)
  ultimately show ?thesis using assms(1,3) by (simp add: changes_ticket_def f ticket_messages_def)
qed

lemma update_one_ticket_changes:
  assumes "update_one_ticket p f err now db = Inr db'" and "find_general_ticket db ticketId = Some t"
    and "tickets_unique db" and "\<And>t. p t \<Longrightarrow> tk_id t = ticketId"
    and "\<And>t. tk_id (f t) = tk_id t" "\<And>t. tk_type (f t) = tk_type t"
  shows "changes_ticket ticketId t ((f t)\<lparr>tk_updatedAt := now\<rparr>) db db'"
proof -
  from assms(1) have c: "count_rows p (db_tickets db) = 1"
    and d: "db' = set_tickets (update_rows p (\<lambda>t. (f t)\<lparr>tk_updatedAt := now\<rparr>) (db_tickets db)) db"
    by (auto simp: update_one_ticket_def split: if_splits)
  have "\<not> (\<forall>x \<in> set (db_tickets db). \<not> p x)" using c by (metis count_rows_zero_iff zero_neq_one)
  then obtain x where x: "x \<in> set (db_tickets db)" "p x" by blast
  have t: "t \<in> set (db_tickets db)" "tk_id t = ticketId"
    using assms(2) by (auto simp: find_general_ticket_def dest: find_SomeD)
  have "x = t" using assms(3,4) x t by (auto simp: tickets_unique_def intro: distinct_key_eq)
  with x have "p t" by simp
  then show ?thesis
    unfolding d using assms set_tickets_changes [of db ticketId t p "\<lambda>t. (f t)\<lparr>tk_updatedAt := now\<rparr>"] by simp
qed

section \<open>The commands\<close>

text \<open>Each command that succeeds is a step of the machine on its ticket.\<close>

definition steps_ticket :: "string option \<Rightarrow> string \<Rightarrow> db \<Rightarrow> db \<Rightarrow> bool" where
  "steps_ticket label ticketId db db' \<longleftrightarrow>
     (\<exists>t t'. changes_ticket ticketId t t' db db' \<and> ticket_step label (state_of t) (state_of t')
        \<and> tk_userId t' = tk_userId t)"

lemma steps_ticketI:
  "changes_ticket ticketId t t' db db' \<Longrightarrow> ticket_step label (state_of t) (state_of t') \<Longrightarrow> tk_userId t' = tk_userId t
   \<Longrightarrow> steps_ticket label ticketId db db'"
  unfolding steps_ticket_def by blast

lemma admin_ticket_of_fst: "admin_ticket_of ticketId db = Inr (db', r) \<Longrightarrow> db' = db"
  by (auto simp: admin_ticket_of_def split: option.splits)

lemma assign_steps:
  assumes "assign_to_self adminId ticketId now db = Inr (db', r)" and "tickets_unique db"
  shows "steps_ticket (Some adminId) ticketId db db'"
proof -
  from assms(1) obtain t where t: "find_general_ticket db ticketId = Some t" "tk_status t \<noteq> Tk_CLOSED"
    "tk_assigneeId t = None \<or> tk_assigneeId t = Some adminId"
    by (auto simp: assign_to_self_def assign_check_def bind_result_Inr_iff split: option.splits if_splits)
  show ?thesis
  proof (cases "tk_assigneeId t")
    case None
    then obtain d where d: "update_one_ticket (\<lambda>t. tk_id t = ticketId \<and> tk_assigneeId t = None)
                 (\<lambda>t. t\<lparr>tk_assigneeId := Some adminId, tk_status := Tk_IN_PROGRESS\<rparr>) ''ticket-already-assigned'' now db = Inr d"
      and e: "db' = write_audit (Some adminId) ''SUPPORT_TICKET_ASSIGNED'' ''SupportTicket'' (Some ticketId) None d"
      using assms(1) t
      by (auto simp: assign_to_self_def assign_check_def assign_write_def bind_result_Inr_iff dest: admin_ticket_of_fst)
    note u = update_one_ticket_changes [OF d t(1) assms(2)]
    have c: "changes_ticket ticketId t (t\<lparr>tk_assigneeId := Some adminId, tk_status := Tk_IN_PROGRESS, tk_updatedAt := now\<rparr>) db db'"
      by (rule changes_ticket_frame [OF u]) (auto simp: e ticket_messages_def)
    show ?thesis
      by (rule steps_ticketI [OF c]) (use t in \<open>auto simp: state_of_def intro: ticket_step.intros\<close>)
  next
    case (Some a)
    then have "db' = db" using assms(1) t
      by (auto simp: assign_to_self_def assign_check_def bind_result_Inr_iff dest: admin_ticket_of_fst)
    then show ?thesis using t Some changes_ticket_refl [OF t(1) assms(2)]
      by (auto simp: steps_ticket_def state_of_def intro!: exI [of _ t] intro: ticket_step.intros)
  qed
qed

lemma reply_steps:
  assumes "reply_as_admin adminId ticketId reply now db = Inr (db', r)" and "tickets_unique db"
  shows "steps_ticket (Some adminId) ticketId db db'"
proof -
  from assms(1) obtain t where t: "find_general_ticket db ticketId = Some t" "tk_status t \<noteq> Tk_CLOSED"
    "tk_assigneeId t = None \<or> tk_assigneeId t = Some adminId"
    by (auto simp: reply_as_admin_def reply_check_def bind_result_Inr_iff split: option.splits if_splits)
  let ?f = "\<lambda>t. t\<lparr>tk_status := Tk_IN_PROGRESS, tk_adminResponse := Some (js_trim reply), tk_assigneeId := Some adminId,
                        tk_respondedById := Some adminId, tk_respondedAt := Some now\<rparr>"
  obtain d where d: "update_one_ticket (\<lambda>t. tk_id t = ticketId \<and> tk_type t = Tk_GENERAL
                   \<and> tk_status t \<noteq> Tk_CLOSED \<and> tk_adminResponse t = None) ?f ''ticket-already-answered'' now db = Inr d"
    and e: "\<exists>x. insert_outbox x (fst (insert_support_message ticketId adminId Sup_SUPPORT (js_trim reply)
        (write_audit (Some adminId) ''SUPPORT_TICKET_REPLIED'' ''SupportTicket'' (Some ticketId) None d))) = Inr db'"
    using assms(1) t
    by (auto simp: reply_as_admin_def reply_write_def bind_result_Inr_iff Let_def dest: admin_ticket_of_fst split: if_splits)
  note u = update_one_ticket_changes [OF d t(1) assms(2)]
  have c: "changes_ticket ticketId t ((?f t)\<lparr>tk_updatedAt := now\<rparr>) db db'"
    by (rule changes_ticket_frame [OF u])
      (use e in \<open>auto dest!: insert_outbox_desk simp: insert_support_message_desk ticket_messages_def\<close>)
  show ?thesis
    by (rule steps_ticketI [OF c]) (use t in \<open>auto simp: state_of_def intro: ticket_step.intros\<close>)
qed

lemma close_steps:
  assumes "close_as_admin adminId ticketId now db = Inr (db', r)" and "tickets_unique db"
  shows "steps_ticket (Some adminId) ticketId db db'" "\<exists>t'. find_general_ticket db' ticketId = Some t' \<and> tk_status t' = Tk_CLOSED"
proof -
  from assms(1) obtain t where t: "find_general_ticket db ticketId = Some t" "tk_status t \<noteq> Tk_CLOSED"
    "tk_assigneeId t = None \<or> tk_assigneeId t = Some adminId"
    by (auto simp: close_as_admin_def split: option.splits if_splits)
  let ?f = "\<lambda>t. t\<lparr>tk_status := Tk_CLOSED, tk_assigneeId := Some adminId\<rparr>"
  obtain d where d: "update_one_ticket (\<lambda>t. tk_id t = ticketId \<and> tk_type t = Tk_GENERAL
                   \<and> tk_status t \<noteq> Tk_CLOSED \<and> (tk_assigneeId t = None \<or> tk_assigneeId t = Some adminId))
                   ?f ''ticket-closed-or-assigned'' now db = Inr d"
    and e: "\<exists>x. insert_outbox x
        (write_audit (Some adminId) ''SUPPORT_TICKET_CLOSED'' ''SupportTicket'' (Some ticketId) None d) = Inr db'"
    using assms(1) t
    by (auto simp: close_as_admin_def bind_result_Inr_iff Let_def dest: admin_ticket_of_fst split: if_splits)
  note u = update_one_ticket_changes [OF d t(1) assms(2)]
  have c: "changes_ticket ticketId t ((?f t)\<lparr>tk_updatedAt := now\<rparr>) db db'"
    by (rule changes_ticket_frame [OF u]) (use e in \<open>auto dest!: insert_outbox_desk simp: ticket_messages_def\<close>)
  show "steps_ticket (Some adminId) ticketId db db'"
    by (rule steps_ticketI [OF c]) (use t in \<open>auto simp: state_of_def intro: ticket_step.intros\<close>)
  show "\<exists>t'. find_general_ticket db' ticketId = Some t' \<and> tk_status t' = Tk_CLOSED"
    using c by (simp add: changes_ticket_def)
qed

lemma accessible_ticket:
  assumes "get_accessible_ticket db actorId ticketId allowAdmin = Inr t" and "tickets_unique db"
  shows "find_general_ticket db ticketId = Some t" "allowAdmin \<or> tk_userId t = actorId"
proof -
  have t: "t \<in> set (db_tickets db)" "tk_id t = ticketId" "tk_type t = Tk_GENERAL" "allowAdmin \<or> tk_userId t = actorId"
    using assms(1) by (auto simp: get_accessible_ticket_def dest: find_SomeD split: option.splits)
  obtain x where x: "find_general_ticket db ticketId = Some x"
    using t by (cases "find_general_ticket db ticketId") (auto simp: find_general_ticket_def find_None_iff_ball)
  then have "x \<in> set (db_tickets db)" "tk_id x = ticketId" by (auto simp: find_general_ticket_def dest: find_SomeD)
  then have "x = t" using t assms(2) by (auto simp: tickets_unique_def intro: distinct_key_eq)
  with x show "find_general_ticket db ticketId = Some t" by simp
  show "allowAdmin \<or> tk_userId t = actorId" by (fact t)
qed

text \<open>The writing part of a message, on whatever state the transaction meets.\<close>

lemma message_transaction_desk:
  assumes "support_message_transaction actorId ticketId body attachments allowAdmin now db = Inr (db', r)"
  shows "db_tickets db' = (if allowAdmin then update_rows (\<lambda>t. tk_id t = ticketId)
      (\<lambda>t. t\<lparr>tk_assigneeId := Some actorId, tk_status := Tk_IN_PROGRESS, tk_updatedAt := now\<rparr>) (db_tickets db)
      else db_tickets db)"
    and "\<exists>m. dk_messages (db_desk db') = dk_messages (db_desk db) @ [m] \<and> sm_ticketId m = ticketId"
proof -
  define role where "role = (if allowAdmin then Sup_SUPPORT else Sup_USER)"
  obtain d1 d2 where d1: "consume_attachments actorId ticketId now attachments db = Inr d1"
    and d2: "attach_all (sm_id (snd (insert_support_message ticketId actorId role (js_trim body) d1))) attachments
      (fst (insert_support_message ticketId actorId role (js_trim body) d1)) = Inr d2"
    and eff: "if allowAdmin
      then operator_message_effects actorId ticketId (sm_id (snd (insert_support_message ticketId actorId role (js_trim body) d1)))
         now d2 = Inr db'
      else db' = d2"
    using assms(1) unfolding support_message_transaction_def role_def [symmetric]
    by (auto simp: bind_result_Inr_iff Let_def split_beta split: if_splits)
  have t2: "db_tickets d2 = db_tickets db"
    using consume_attachments_desk [OF d1] attach_all_desk [OF d2] by (simp add: insert_support_message_desk)
  have m2: "\<exists>m. dk_messages (db_desk d2) = dk_messages (db_desk db) @ [m] \<and> sm_ticketId m = ticketId"
    using consume_attachments_desk [OF d1] attach_all_desk [OF d2] by (simp add: insert_support_message_desk)
  have desk: "db_desk db' = db_desk (if allowAdmin then set_tickets (update_rows (\<lambda>t. tk_id t = ticketId)
      (\<lambda>t. t\<lparr>tk_assigneeId := Some actorId, tk_status := Tk_IN_PROGRESS, tk_updatedAt := now\<rparr>) (db_tickets d2)) d2 else d2)"
    using eff by (auto simp: operator_message_effects_def bind_result_Inr_iff Let_def dest!: insert_outbox_desk split: if_splits)
  show "db_tickets db' = (if allowAdmin then update_rows (\<lambda>t. tk_id t = ticketId)
      (\<lambda>t. t\<lparr>tk_assigneeId := Some actorId, tk_status := Tk_IN_PROGRESS, tk_updatedAt := now\<rparr>) (db_tickets db)
      else db_tickets db)"
    unfolding desk using t2 by simp
  show "\<exists>m. dk_messages (db_desk db') = dk_messages (db_desk db) @ [m] \<and> sm_ticketId m = ticketId"
    unfolding desk using m2 by simp
qed

lemma message_transactionD:
  assumes "support_message_transaction actorId ticketId body attachments allowAdmin now db = Inr (db', r)"
    and "find_general_ticket db ticketId = Some t" and "tickets_unique db"
  shows "changes_ticket ticketId t (if allowAdmin then t\<lparr>tk_assigneeId := Some actorId, tk_status := Tk_IN_PROGRESS,
      tk_updatedAt := now\<rparr> else t) db db'"
proof -
  note d = message_transaction_desk [OF assms(1)]
  let ?f = "\<lambda>t. t\<lparr>tk_assigneeId := Some actorId, tk_status := Tk_IN_PROGRESS, tk_updatedAt := now\<rparr>"
  have others: "\<forall>i. i \<noteq> ticketId \<longrightarrow> ticket_messages db' i = ticket_messages db i"
    using d(2) by (auto simp: ticket_messages_def)
  have "tk_id t = ticketId" using assms(2) by (auto simp: find_general_ticket_def dest: find_SomeD)
  then have "changes_ticket ticketId t (?f t) db (set_tickets (update_rows (\<lambda>t. tk_id t = ticketId) ?f (db_tickets db)) db)"
    using assms by (intro set_tickets_changes) simp_all
  then show ?thesis
    using changes_ticket_frame [OF changes_ticket_refl [OF assms(2,3)]] d(1) others
    by (cases allowAdmin) (auto intro: changes_ticket_frame simp: ticket_messages_def)
qed

lemma message_steps:
  assumes "create_support_message verify actorId ticketId dto allowAdmin now db = Inr (db', r)" and "tickets_unique db"
  shows "steps_ticket (if allowAdmin then Some actorId else None) ticketId db db'"
    "\<exists>t. find_general_ticket db ticketId = Some t \<and> (allowAdmin \<or> tk_userId t = actorId)"
proof -
  obtain t vs where t: "get_accessible_ticket db actorId ticketId allowAdmin = Inr t" "tk_status t \<noteq> Tk_CLOSED"
    "allowAdmin \<Longrightarrow> tk_assigneeId t = None \<or> tk_assigneeId t = Some actorId"
    and tx: "support_message_transaction actorId ticketId (csm_body dto) vs allowAdmin now db = Inr (db', r)"
    using assms(1)
    by (auto simp: create_support_message_def check_support_message_def support_message_guards_def bind_result_Inr_iff
        split: if_splits)
  note a = accessible_ticket [OF t(1) assms(2)]
  show "steps_ticket (if allowAdmin then Some actorId else None) ticketId db db'"
    by (rule steps_ticketI [OF message_transactionD [OF tx a(1) assms(2)]])
      (use t in \<open>auto simp: state_of_def intro: ticket_step.intros\<close>)
  show "\<exists>t. find_general_ticket db ticketId = Some t \<and> (allowAdmin \<or> tk_userId t = actorId)"
    using a by blast
qed

lemma run_support_steps:
  assumes "run_support verify actorId ticketId c now db = Inr db'" and "tickets_unique db"
  shows "steps_ticket (acting_operator actorId c) ticketId db db'"
proof (cases c)
  case Assign_ticket
  then obtain r where "assign_to_self actorId ticketId now db = Inr (db', r)"
    using assms(1) by (cases "assign_to_self actorId ticketId now db") (auto simp: run_support_def)
  from assign_steps [OF this assms(2)] show ?thesis by (simp add: Assign_ticket acting_operator_def)
next
  case (Reply_ticket reply)
  then obtain r where "reply_as_admin actorId ticketId reply now db = Inr (db', r)"
    using assms(1) by (cases "reply_as_admin actorId ticketId reply now db") (auto simp: run_support_def)
  from reply_steps [OF this assms(2)] show ?thesis by (simp add: Reply_ticket acting_operator_def)
next
  case (Operator_message dto)
  then obtain r where "create_support_message verify actorId ticketId dto True now db = Inr (db', r)"
    using assms(1) by (cases "create_support_message verify actorId ticketId dto True now db") (auto simp: run_support_def)
  from message_steps(1) [OF this assms(2)] show ?thesis by (simp add: Operator_message acting_operator_def)
next
  case Close_ticket
  then obtain r where "close_as_admin actorId ticketId now db = Inr (db', r)"
    using assms(1) by (cases "close_as_admin actorId ticketId now db") (auto simp: run_support_def)
  from close_steps(1) [OF this assms(2)] show ?thesis by (simp add: Close_ticket acting_operator_def)
next
  case (User_message dto)
  then obtain r where "create_support_message verify actorId ticketId dto False now db = Inr (db', r)"
    using assms(1) by (cases "create_support_message verify actorId ticketId dto False now db") (auto simp: run_support_def)
  from message_steps(1) [OF this assms(2)] show ?thesis by (simp add: User_message acting_operator_def)
qed

section \<open>Refinement of the ticket machine\<close>

text \<open>
  C21. Every command of the help desk that succeeds is a step of the ticket machine on the ticket
  it names: the ticket was not closed, an operator only acts on a ticket that is free or his own,
  which is his afterwards, and every other ticket with its messages is untouched.
\<close>

theorem support_refines:
  assumes "run_support verify actorId ticketId c now db = Inr db'" and "tickets_unique db"
  shows "tickets_unique db' \<and> (\<exists>t t'. find_general_ticket db ticketId = Some t \<and> find_general_ticket db' ticketId = Some t'
      \<and> ticket_step (acting_operator actorId c) (state_of t) (state_of t') \<and> tk_userId t' = tk_userId t
      \<and> (\<forall>i. i \<noteq> ticketId \<longrightarrow> find_general_ticket db' i = find_general_ticket db i \<and> ticket_messages db' i = ticket_messages db i))"
  using run_support_steps [OF assms] unfolding steps_ticket_def changes_ticket_def by blast

section \<open>Runs\<close>

text \<open>
  What the operators and the authors of tickets do at the same time. A command can run at once, or
  in its two parts: its checks, after which what they let through is under way, and its write,
  which meets whatever state the desk is in by then. A part that is refused changes nothing.
\<close>

datatype desk_write =
    Write_message string "verified_upload list" bool
  | Write_reply string
  | Write_assign

record under_way =
  uw_actorId :: string
  uw_ticketId :: string
  uw_write :: desk_write

datatype desk_event =
    At_once "string \<Rightarrow> verified_upload result" string string support_command timestamp
  | Check_message "string \<Rightarrow> verified_upload result" string string support_message_dto bool
  | Check_reply string string string
  | Check_assign string string
  | Write nat timestamp

record desk_state =
  ds_db :: db
  ds_under_way :: "under_way list"

definition do_write :: "under_way \<Rightarrow> timestamp \<Rightarrow> db \<Rightarrow> db result" where
  "do_write u now db =
     (case uw_write u of
        Write_message body attachments allowAdmin \<Rightarrow>
          map_sum id fst (support_message_transaction (uw_actorId u) (uw_ticketId u) body attachments allowAdmin now db)
      | Write_reply reply \<Rightarrow> map_sum id fst (reply_write (uw_actorId u) (uw_ticketId u) reply now db)
      | Write_assign \<Rightarrow> map_sum id fst (assign_write (uw_actorId u) (uw_ticketId u) now db))"

definition attempt :: "db result \<Rightarrow> db \<Rightarrow> db" where
  "attempt r db = (case r of Inl _ \<Rightarrow> db | Inr db' \<Rightarrow> db')"

definition set_off :: "string \<Rightarrow> string \<Rightarrow> desk_write result \<Rightarrow> desk_state \<Rightarrow> desk_state" where
  "set_off actorId ticketId r s =
     (case r of Inl _ \<Rightarrow> s
      | Inr x \<Rightarrow> s\<lparr>ds_under_way := ds_under_way s @ [\<lparr>uw_actorId = actorId, uw_ticketId = ticketId, uw_write = x\<rparr>]\<rparr>)"

fun desk_next :: "desk_event \<Rightarrow> desk_state \<Rightarrow> desk_state" where
  "desk_next (At_once verify actorId ticketId c now) s =
     s\<lparr>ds_db := attempt (run_support verify actorId ticketId c now (ds_db s)) (ds_db s)\<rparr>"
| "desk_next (Check_message verify actorId ticketId dto allowAdmin) s =
     set_off actorId ticketId
       (bind_result (check_support_message verify actorId ticketId dto allowAdmin (ds_db s)) (\<lambda>attachments.
          Inr (Write_message (csm_body dto) attachments allowAdmin))) s"
| "desk_next (Check_reply actorId ticketId reply) s =
     set_off actorId ticketId (bind_result (reply_check actorId ticketId (ds_db s)) (\<lambda>_. Inr (Write_reply reply))) s"
| "desk_next (Check_assign actorId ticketId) s =
     set_off actorId ticketId (bind_result (assign_check actorId ticketId (ds_db s)) (\<lambda>free.
       if free then Inr Write_assign else Inl (Conflict ''assigned-already''))) s"
| "desk_next (Write k now) s =
     (if k < length (ds_under_way s)
      then s\<lparr>ds_db := attempt (do_write (ds_under_way s ! k) now (ds_db s)) (ds_db s),
             ds_under_way := take k (ds_under_way s) @ drop (Suc k) (ds_under_way s)\<rparr>
      else s)"

definition desk_run :: "desk_event list \<Rightarrow> desk_state \<Rightarrow> desk_state" where
  "desk_run es s = fold desk_next es s"

definition desk_moves :: "desk_state \<Rightarrow> desk_state \<Rightarrow> bool" where
  "desk_moves s s' \<longleftrightarrow> (\<exists>e. s' = desk_next e s)"

text \<open>A write as a change of rows: those of its ticket only, which it gives to its operator.\<close>

definition as_operator :: "under_way \<Rightarrow> bool" where
  "as_operator u = (case uw_write u of Write_message _ _ allowAdmin \<Rightarrow> allowAdmin | _ \<Rightarrow> True)"

definition writes_ticket :: "under_way \<Rightarrow> db \<Rightarrow> db \<Rightarrow> bool" where
  "writes_ticket u db db' \<longleftrightarrow>
     (\<exists>p f. db_tickets db' = update_rows p f (db_tickets db) \<and> (\<forall>t. p t \<longrightarrow> tk_id t = uw_ticketId u \<and> as_operator u)
        \<and> (\<forall>t. tk_id (f t) = tk_id t \<and> tk_type (f t) = tk_type t \<and> tk_assigneeId (f t) = Some (uw_actorId u)))
     \<and> (\<exists>ms. dk_messages (db_desk db') = dk_messages (db_desk db) @ ms \<and> (\<forall>m \<in> set ms. sm_ticketId m = uw_ticketId u))"

lemma update_one_ticket_desk:
  assumes "update_one_ticket p f err now db = Inr db'"
  shows "db_tickets db' = update_rows p (\<lambda>t. (f t)\<lparr>tk_updatedAt := now\<rparr>) (db_tickets db)"
    "dk_messages (db_desk db') = dk_messages (db_desk db)"
  using assms by (auto simp: update_one_ticket_def split: if_splits)

lemma reply_write_desk:
  assumes "reply_write adminId ticketId reply now db = Inr (db', r)"
  obtains d m where "update_one_ticket (\<lambda>t. tk_id t = ticketId \<and> tk_type t = Tk_GENERAL
           \<and> tk_status t \<noteq> Tk_CLOSED \<and> tk_adminResponse t = None)
         (\<lambda>t. t\<lparr>tk_status := Tk_IN_PROGRESS, tk_adminResponse := Some (js_trim reply), tk_assigneeId := Some adminId,
                tk_respondedById := Some adminId, tk_respondedAt := Some now\<rparr>) ''ticket-already-answered'' now db = Inr d"
    "db_tickets db' = db_tickets d" "dk_messages (db_desk db') = dk_messages (db_desk d) @ [m]" "sm_ticketId m = ticketId"
  using assms that
  by (auto simp: reply_write_def bind_result_Inr_iff Let_def insert_support_message_desk
      dest!: admin_ticket_of_fst insert_outbox_desk)

lemma assign_write_desk:
  assumes "assign_write adminId ticketId now db = Inr (db', r)"
  obtains d where "update_one_ticket (\<lambda>t. tk_id t = ticketId \<and> tk_assigneeId t = None)
         (\<lambda>t. t\<lparr>tk_assigneeId := Some adminId, tk_status := Tk_IN_PROGRESS\<rparr>) ''ticket-already-assigned'' now db = Inr d"
    "db_desk db' = db_desk d"
  using assms that by (auto simp: assign_write_def bind_result_Inr_iff dest!: admin_ticket_of_fst)

lemma do_write_effect:
  assumes "do_write u now db = Inr db'"
  shows "writes_ticket u db db'"
proof (cases "uw_write u")
  case (Write_message body attachments allowAdmin)
  then obtain r where "support_message_transaction (uw_actorId u) (uw_ticketId u) body attachments allowAdmin now db = Inr (db', r)"
    using assms by (cases "support_message_transaction (uw_actorId u) (uw_ticketId u) body attachments allowAdmin now db")
      (auto simp: do_write_def)
  note d = message_transaction_desk [OF this]
  let ?p = "\<lambda>t. allowAdmin \<and> tk_id t = uw_ticketId u"
  have "db_tickets db' = update_rows ?p
      (\<lambda>t. t\<lparr>tk_assigneeId := Some (uw_actorId u), tk_status := Tk_IN_PROGRESS, tk_updatedAt := now\<rparr>) (db_tickets db)"
    using d(1) by (cases allowAdmin) (simp_all add: update_rows_def)
  moreover obtain m where "dk_messages (db_desk db') = dk_messages (db_desk db) @ [m]" "sm_ticketId m = uw_ticketId u"
    using d(2) by blast
  ultimately show ?thesis unfolding writes_ticket_def
    using Write_message by (intro conjI exI) (assumption | auto simp: as_operator_def)+
next
  case (Write_reply reply)
  then obtain r where "reply_write (uw_actorId u) (uw_ticketId u) reply now db = Inr (db', r)"
    using assms by (cases "reply_write (uw_actorId u) (uw_ticketId u) reply now db") (auto simp: do_write_def)
  then show ?thesis
  proof (rule reply_write_desk)
    fix d m
    assume d: "update_one_ticket (\<lambda>t. tk_id t = uw_ticketId u \<and> tk_type t = Tk_GENERAL
           \<and> tk_status t \<noteq> Tk_CLOSED \<and> tk_adminResponse t = None)
         (\<lambda>t. t\<lparr>tk_status := Tk_IN_PROGRESS, tk_adminResponse := Some (js_trim reply), tk_assigneeId := Some (uw_actorId u),
                tk_respondedById := Some (uw_actorId u), tk_respondedAt := Some now\<rparr>) ''ticket-already-answered'' now db = Inr d"
      and e: "db_tickets db' = db_tickets d" "dk_messages (db_desk db') = dk_messages (db_desk d) @ [m]" "sm_ticketId m = uw_ticketId u"
    note d' = update_one_ticket_desk [OF d]
    show ?thesis unfolding writes_ticket_def e(1) d'(1)
      using e(2,3) d'(2) Write_reply by (intro conjI exI) (rule refl | auto simp: as_operator_def)+
  qed
next
  case Write_assign
  then obtain r where "assign_write (uw_actorId u) (uw_ticketId u) now db = Inr (db', r)"
    using assms by (cases "assign_write (uw_actorId u) (uw_ticketId u) now db") (auto simp: do_write_def)
  then show ?thesis
  proof (rule assign_write_desk)
    fix d
    assume d: "update_one_ticket (\<lambda>t. tk_id t = uw_ticketId u \<and> tk_assigneeId t = None)
         (\<lambda>t. t\<lparr>tk_assigneeId := Some (uw_actorId u), tk_status := Tk_IN_PROGRESS\<rparr>) ''ticket-already-assigned'' now db = Inr d"
      and e: "db_desk db' = db_desk d"
    note d' = update_one_ticket_desk [OF d]
    show ?thesis unfolding writes_ticket_def e d'(1)
      using d'(2) Write_assign by (intro conjI exI) (rule refl | auto simp: as_operator_def)+
  qed
qed

lemma writes_ticket_unique: "writes_ticket u db db' \<Longrightarrow> tickets_unique db \<Longrightarrow> tickets_unique db'"
  by (auto simp: writes_ticket_def tickets_unique_def update_rows_key)

lemma writes_ticket_found:
  assumes "writes_ticket u db db'" and "find_general_ticket db i = Some t"
  obtains t' where "find_general_ticket db' i = Some t'"
    "t' = t \<or> i = uw_ticketId u \<and> as_operator u \<and> tk_assigneeId t' = Some (uw_actorId u)"
proof -
  obtain p f where d: "db_tickets db' = update_rows p f (db_tickets db)"
    and p: "\<And>t. p t \<Longrightarrow> tk_id t = uw_ticketId u \<and> as_operator u"
    and f: "\<And>t. tk_id (f t) = tk_id t" "\<And>t. tk_type (f t) = tk_type t" "\<And>t. tk_assigneeId (f t) = Some (uw_actorId u)"
    using assms(1) unfolding writes_ticket_def by blast
  have "find_general_ticket db' i = map_option (\<lambda>t. if p t then f t else t) (find_general_ticket db i)"
    unfolding find_general_ticket_def d using f by (intro find_update_rows) simp
  moreover have "tk_id t = i" using assms(2) by (auto simp: find_general_ticket_def dest: find_SomeD)
  ultimately show ?thesis using that [of "if p t then f t else t"] assms(2) p f(3) by auto
qed

lemma writes_ticket_messages:
  assumes "writes_ticket u db db'"
  obtains ms where "ticket_messages db' i = ticket_messages db i @ ms" "i \<noteq> uw_ticketId u \<Longrightarrow> ms = []"
proof -
  obtain ms where ms: "dk_messages (db_desk db') = dk_messages (db_desk db) @ ms" "\<forall>m \<in> set ms. sm_ticketId m = uw_ticketId u"
    using assms unfolding writes_ticket_def by blast
  show ?thesis
  proof (rule that [of "filter (\<lambda>m. sm_ticketId m = i) ms"])
    show "ticket_messages db' i = ticket_messages db i @ filter (\<lambda>m. sm_ticketId m = i) ms"
      by (simp add: ticket_messages_def ms(1))
    show "filter (\<lambda>m. sm_ticketId m = i) ms = []" if "i \<noteq> uw_ticketId u"
      using ms(2) that by (simp add: filter_empty_conv)
  qed
qed

text \<open>No command removes or changes a message.\<close>

lemma result_fstE:
  assumes "map_sum id fst r = Inr x"
  obtains y where "r = Inr (x, y)"
  using assms by (cases r) auto

lemma close_messages:
  assumes "close_as_admin adminId ticketId now db = Inr (db', r)"
  shows "dk_messages (db_desk db') = dk_messages (db_desk db)"
proof -
  obtain d x where "update_one_ticket (\<lambda>t. tk_id t = ticketId \<and> tk_type t = Tk_GENERAL
                   \<and> tk_status t \<noteq> Tk_CLOSED \<and> (tk_assigneeId t = None \<or> tk_assigneeId t = Some adminId))
                 (\<lambda>t. t\<lparr>tk_status := Tk_CLOSED, tk_assigneeId := Some adminId\<rparr>) ''ticket-closed-or-assigned'' now db = Inr d"
    and o: "insert_outbox x (write_audit (Some adminId) ''SUPPORT_TICKET_CLOSED'' ''SupportTicket'' (Some ticketId) None d) = Inr db'"
    using assms by (auto simp: close_as_admin_def bind_result_Inr_iff Let_def dest!: admin_ticket_of_fst
        split: option.splits if_splits)
  from update_one_ticket_desk(2) [OF this(1)] insert_outbox_desk [OF o] show ?thesis by simp
qed

lemma run_support_appends:
  assumes "run_support verify actorId ticketId c now db = Inr db'"
  shows "\<exists>ms. dk_messages (db_desk db') = dk_messages (db_desk db) @ ms"
proof (cases c)
  case Assign_ticket
  then obtain r where r: "assign_to_self actorId ticketId now db = Inr (db', r)"
    using assms unfolding run_support_def by (auto elim: result_fstE)
  then consider r where "assign_write actorId ticketId now db = Inr (db', r)" | "db' = db"
    unfolding assign_to_self_def bind_result_Inr_iff by (auto dest: admin_ticket_of_fst split: if_splits)
  then show ?thesis
  proof cases
    case 1
    then show ?thesis by (rule assign_write_desk) (auto dest: update_one_ticket_desk(2))
  qed simp
next
  case (Reply_ticket reply)
  then obtain r where "reply_as_admin actorId ticketId reply now db = Inr (db', r)"
    using assms unfolding run_support_def by (auto elim: result_fstE)
  then have "reply_write actorId ticketId reply now db = Inr (db', r)" unfolding reply_as_admin_def bind_result_Inr_iff by blast
  then show ?thesis by (rule reply_write_desk) (auto dest: update_one_ticket_desk(2))
next
  case (Operator_message dto)
  then obtain r where "create_support_message verify actorId ticketId dto True now db = Inr (db', r)"
    using assms unfolding run_support_def by (auto elim: result_fstE)
  then show ?thesis unfolding create_support_message_def bind_result_Inr_iff by (auto dest: message_transaction_desk(2))
next
  case Close_ticket
  then obtain r where "close_as_admin actorId ticketId now db = Inr (db', r)"
    using assms unfolding run_support_def by (auto elim: result_fstE)
  from close_messages [OF this] show ?thesis by simp
next
  case (User_message dto)
  then obtain r where "create_support_message verify actorId ticketId dto False now db = Inr (db', r)"
    using assms unfolding run_support_def by (auto elim: result_fstE)
  then show ?thesis unfolding create_support_message_def bind_result_Inr_iff by (auto dest: message_transaction_desk(2))
qed

text \<open>What a check lets through, and the five kinds of events.\<close>

definition admissible :: "under_way \<Rightarrow> db \<Rightarrow> bool" where
  "admissible u db \<longleftrightarrow> (\<exists>t. find_general_ticket db (uw_ticketId u) = Some t \<and> tk_status t \<noteq> Tk_CLOSED
     \<and> (as_operator u \<longrightarrow> tk_assigneeId t = None \<or> tk_assigneeId t = Some (uw_actorId u)))"

lemma set_off_cases:
  assumes "\<And>x. r = Inr x \<Longrightarrow> admissible \<lparr>uw_actorId = actorId, uw_ticketId = ticketId, uw_write = x\<rparr> (ds_db s)"
  obtains "set_off actorId ticketId r s = s"
  | u where "set_off actorId ticketId r s = s\<lparr>ds_under_way := ds_under_way s @ [u]\<rparr>" "admissible u (ds_db s)"
  using assms by (cases r) (auto simp: set_off_def)

lemma check_message_admissible:
  assumes "support_message_guards actorId ticketId allowAdmin db = Inr x" and "tickets_unique db"
  shows "admissible \<lparr>uw_actorId = actorId, uw_ticketId = ticketId, uw_write = Write_message body vs allowAdmin\<rparr> db"
proof -
  obtain t where t: "get_accessible_ticket db actorId ticketId allowAdmin = Inr t" "tk_status t \<noteq> Tk_CLOSED"
    "allowAdmin \<Longrightarrow> tk_assigneeId t = None \<or> tk_assigneeId t = Some actorId"
    using assms(1) by (auto simp: support_message_guards_def bind_result_Inr_iff split: if_splits)
  show ?thesis using accessible_ticket(1) [OF t(1) assms(2)] t(2,3) by (auto simp: admissible_def as_operator_def)
qed

lemma desk_nextE:
  assumes "tickets_unique (ds_db s)"
  obtains (refused) "desk_next e s = s"
  | (command) i label where "ds_under_way (desk_next e s) = ds_under_way s"
      "steps_ticket label i (ds_db s) (ds_db (desk_next e s))"
      "\<exists>ms. dk_messages (db_desk (ds_db (desk_next e s))) = dk_messages (db_desk (ds_db s)) @ ms"
  | (checked) u where "desk_next e s = s\<lparr>ds_under_way := ds_under_way s @ [u]\<rparr>" "admissible u (ds_db s)"
  | (written) u where "u \<in> set (ds_under_way s)" "set (ds_under_way (desk_next e s)) \<subseteq> set (ds_under_way s)"
      "writes_ticket u (ds_db s) (ds_db (desk_next e s))"
  | (dropped) "ds_db (desk_next e s) = ds_db s" "set (ds_under_way (desk_next e s)) \<subseteq> set (ds_under_way s)"
proof (cases e)
  case (At_once verify actorId ticketId c now)
  show ?thesis
  proof (cases "run_support verify actorId ticketId c now (ds_db s)")
    case (Inl x)
    then show ?thesis by (intro refused) (simp add: At_once attempt_def)
  next
    case (Inr db')
    then show ?thesis
      using run_support_steps [OF Inr assms] run_support_appends [OF Inr]
      by (intro command) (simp_all add: At_once attempt_def)
  qed
next
  case (Check_message verify actorId ticketId dto allowAdmin)
  let ?r = "bind_result (check_support_message verify actorId ticketId dto allowAdmin (ds_db s)) (\<lambda>attachments.
          Inr (Write_message (csm_body dto) attachments allowAdmin))"
  have "admissible \<lparr>uw_actorId = actorId, uw_ticketId = ticketId, uw_write = x\<rparr> (ds_db s)" if "?r = Inr x" for x
    using that check_message_admissible [OF _ assms]
    by (auto simp: check_support_message_def bind_result_Inr_iff)
  then show ?thesis using refused checked by (cases rule: set_off_cases [of ?r actorId ticketId s]) (auto simp: Check_message)
next
  case (Check_reply actorId ticketId reply)
  let ?r = "bind_result (reply_check actorId ticketId (ds_db s)) (\<lambda>_. Inr (Write_reply reply))"
  have "admissible \<lparr>uw_actorId = actorId, uw_ticketId = ticketId, uw_write = x\<rparr> (ds_db s)" if "?r = Inr x" for x
    using that by (auto simp: admissible_def reply_check_def bind_result_Inr_iff split: option.splits if_splits)
  then show ?thesis using refused checked by (cases rule: set_off_cases [of ?r actorId ticketId s]) (auto simp: Check_reply)
next
  case (Check_assign actorId ticketId)
  let ?r = "bind_result (assign_check actorId ticketId (ds_db s)) (\<lambda>free.
       if free then Inr Write_assign else Inl (Conflict ''assigned-already''))"
  have "admissible \<lparr>uw_actorId = actorId, uw_ticketId = ticketId, uw_write = x\<rparr> (ds_db s)" if "?r = Inr x" for x
    using that by (auto simp: admissible_def assign_check_def bind_result_Inr_iff split: option.splits if_splits)
  then show ?thesis using refused checked by (cases rule: set_off_cases [of ?r actorId ticketId s]) (auto simp: Check_assign)
next
  case (Write k now)
  show ?thesis
  proof (cases "k < length (ds_under_way s)")
    case True
    let ?u = "ds_under_way s ! k"
    have less: "set (ds_under_way (desk_next e s)) \<subseteq> set (ds_under_way s)"
      using True by (auto simp: Write dest: in_set_takeD in_set_dropD)
    show ?thesis
    proof (cases "do_write ?u now (ds_db s)")
      case (Inl x)
      then show ?thesis using less True by (intro dropped) (simp_all add: Write attempt_def)
    next
      case (Inr db')
      then show ?thesis using less True do_write_effect [OF Inr]
        by (intro written [of ?u]) (simp_all add: Write attempt_def)
    qed
  qed (simp add: Write refused)
qed

text \<open>
  The invariants: a ticket is held by its operator while nobody else's command on it is under way,
  a closed ticket is final while nothing on it is under way, and messages stay.
\<close>

definition held_ticket :: "string \<Rightarrow> string \<Rightarrow> desk_state \<Rightarrow> bool" where
  "held_ticket oper i s \<longleftrightarrow> tickets_unique (ds_db s)
     \<and> (\<exists>t. find_general_ticket (ds_db s) i = Some t \<and> tk_assigneeId t = Some oper)
     \<and> (\<forall>u \<in> set (ds_under_way s). uw_ticketId u = i \<and> as_operator u \<longrightarrow> uw_actorId u = oper)"

definition final_ticket :: "ticket_row \<Rightarrow> support_message_row list \<Rightarrow> desk_state \<Rightarrow> bool" where
  "final_ticket t ms s \<longleftrightarrow> tickets_unique (ds_db s) \<and> tk_status t = Tk_CLOSED
     \<and> find_general_ticket (ds_db s) (tk_id t) = Some t \<and> ticket_messages (ds_db s) (tk_id t) = ms
     \<and> (\<forall>u \<in> set (ds_under_way s). uw_ticketId u \<noteq> tk_id t)"

definition keeps_messages :: "string \<Rightarrow> support_message_row list \<Rightarrow> desk_state \<Rightarrow> bool" where
  "keeps_messages i ms s \<longleftrightarrow> tickets_unique (ds_db s) \<and> (\<exists>xs. ticket_messages (ds_db s) i = ms @ xs)"

interpretation held: step_invariant desk_moves "held_ticket oper i" for oper i
proof unfold_locales
  fix s s' assume "desk_moves s s'" and h: "held_ticket oper i s"
  then obtain e where n: "s' = desk_next e s" by (auto simp only: desk_moves_def)
  obtain t where t: "find_general_ticket (ds_db s) i = Some t" "tk_assigneeId t = Some oper"
    and u: "tickets_unique (ds_db s)" and own: "\<forall>u \<in> set (ds_under_way s). uw_ticketId u = i \<and> as_operator u \<longrightarrow> uw_actorId u = oper"
    using h unfolding held_ticket_def by blast
  show "held_ticket oper i s'"
    using u
  proof (cases rule: desk_nextE [of s e])
    case refused
    then show ?thesis using h n by simp
  next
    case (command j label)
    then show ?thesis using h unfolding n held_ticket_def steps_ticket_def changes_ticket_def
      by (cases "j = i") (auto simp: state_of_def elim!: ticket_stepE)
  next
    case (checked u)
    then show ?thesis using h t unfolding n held_ticket_def by (auto simp: admissible_def)
  next
    case (written w)
    from written(3) t(1) obtain t' where "find_general_ticket (ds_db s') i = Some t'"
      "t' = t \<or> i = uw_ticketId w \<and> as_operator w \<and> tk_assigneeId t' = Some (uw_actorId w)"
      unfolding n by (rule writes_ticket_found)
    moreover have "tickets_unique (ds_db s')" unfolding n by (rule writes_ticket_unique [OF written(3) u])
    ultimately show ?thesis using own written(1,2) t(2) unfolding n held_ticket_def by blast
  next
    case dropped
    then show ?thesis using h unfolding n held_ticket_def by auto
  qed
qed

interpretation final: step_invariant desk_moves "final_ticket t ms" for t ms
proof unfold_locales
  fix s s' assume "desk_moves s s'" and h: "final_ticket t ms s"
  then obtain e where n: "s' = desk_next e s" by (auto simp only: desk_moves_def)
  have u: "tickets_unique (ds_db s)" and f: "find_general_ticket (ds_db s) (tk_id t) = Some t"
    using h unfolding final_ticket_def by blast+
  show "final_ticket t ms s'"
    using u
  proof (cases rule: desk_nextE [of s e])
    case refused
    then show ?thesis using h n by simp
  next
    case (command j label)
    then show ?thesis using h unfolding n final_ticket_def steps_ticket_def changes_ticket_def
      by (cases "j = tk_id t") (auto simp: state_of_def elim!: ticket_stepE)
  next
    case (checked u)
    then show ?thesis using h f unfolding n final_ticket_def by (auto simp: admissible_def)
  next
    case (written w)
    then have "tk_id t \<noteq> uw_ticketId w" using h unfolding final_ticket_def by auto
    with written(3) f have "find_general_ticket (ds_db s') (tk_id t) = Some t"
      "ticket_messages (ds_db s') (tk_id t) = ticket_messages (ds_db s) (tk_id t)"
      unfolding n by (metis writes_ticket_found, metis writes_ticket_messages append_Nil2)
    moreover have "tickets_unique (ds_db s')" unfolding n by (rule writes_ticket_unique [OF written(3) u])
    ultimately show ?thesis using h written(2) unfolding n final_ticket_def by blast
  next
    case dropped
    then show ?thesis using h unfolding n final_ticket_def by auto
  qed
qed

interpretation messages: step_invariant desk_moves "keeps_messages i ms" for i ms
proof unfold_locales
  fix s s' assume "desk_moves s s'" and h: "keeps_messages i ms s"
  then obtain e where n: "s' = desk_next e s" by (auto simp only: desk_moves_def)
  have u: "tickets_unique (ds_db s)" using h unfolding keeps_messages_def by blast
  show "keeps_messages i ms s'"
    using u
  proof (cases rule: desk_nextE [of s e])
    case refused
    then show ?thesis using h n by simp
  next
    case (command j label)
    then show ?thesis using h unfolding n keeps_messages_def steps_ticket_def changes_ticket_def
      by (auto simp: ticket_messages_def)
  next
    case (checked u)
    then show ?thesis using h unfolding n keeps_messages_def by simp
  next
    case (written w)
    have "tickets_unique (ds_db s')" unfolding n by (rule writes_ticket_unique [OF written(3) u])
    then show ?thesis using h writes_ticket_messages [OF written(3), of i] unfolding n keeps_messages_def
      by (metis append_assoc)
  next
    case dropped
    then show ?thesis using h unfolding n keeps_messages_def by simp
  qed
qed

lemma desk_run_steps: "desk_moves\<^sup>*\<^sup>* s (desk_run es s)"
proof (induction es arbitrary: s)
  case (Cons e es)
  have "desk_moves s (desk_next e s)" unfolding desk_moves_def by blast
  then show ?case using Cons.IH [of "desk_next e s"]
    by (simp add: desk_run_def converse_rtranclp_into_rtranclp)
qed (simp add: desk_run_def)

text \<open>
  C22. Who takes a ticket keeps it, and closed means closed, when nothing that was checked before is
  still under way: from a state where no other operator's command on the ticket waits between its
  check and its write, the ticket stays with the operator it is assigned to, and from a state where
  no command on it waits a closed ticket keeps its row and its messages, whatever follows in
  whatever interleaving of checks and writes. The messages of a ticket are never lost in any
  interleaving. The conditions are needed: see \<open>closed_ticket_reopened\<close> and \<open>ticket_taken_over\<close>.
\<close>

theorem support_run_safe:
  assumes "tickets_unique (ds_db s)" and "find_general_ticket (ds_db s) ticketId = Some t"
  shows "(tk_assigneeId t = Some oper
      \<and> filter (\<lambda>u. uw_ticketId u = ticketId \<and> as_operator u \<and> uw_actorId u \<noteq> oper) (ds_under_way s) = [] \<longrightarrow>
       (\<exists>t'. find_general_ticket (ds_db (desk_run es s)) ticketId = Some t' \<and> tk_assigneeId t' = Some oper))
    \<and> (tk_status t = Tk_CLOSED \<and> filter (\<lambda>u. uw_ticketId u = ticketId) (ds_under_way s) = [] \<longrightarrow>
       find_general_ticket (ds_db (desk_run es s)) ticketId = Some t
       \<and> ticket_messages (ds_db (desk_run es s)) ticketId = ticket_messages (ds_db s) ticketId)
    \<and> (\<exists>ms. ticket_messages (ds_db (desk_run es s)) ticketId = ticket_messages (ds_db s) ticketId @ ms)"
proof -
  have i: "tk_id t = ticketId" using assms(2) by (auto simp: find_general_ticket_def dest: find_SomeD)
  have held: "held_ticket oper ticketId (desk_run es s)" if "tk_assigneeId t = Some oper"
    "filter (\<lambda>u. uw_ticketId u = ticketId \<and> as_operator u \<and> uw_actorId u \<noteq> oper) (ds_under_way s) = []"
    by (rule held.inv_steps [OF desk_run_steps]) (use that assms in \<open>auto simp: held_ticket_def filter_empty_conv\<close>)
  have final: "final_ticket t (ticket_messages (ds_db s) ticketId) (desk_run es s)" if "tk_status t = Tk_CLOSED"
    "filter (\<lambda>u. uw_ticketId u = ticketId) (ds_under_way s) = []"
    by (rule final.inv_steps [OF desk_run_steps]) (use that assms i in \<open>auto simp: final_ticket_def filter_empty_conv\<close>)
  have "keeps_messages ticketId (ticket_messages (ds_db s) ticketId) (desk_run es s)"
    by (rule messages.inv_steps [OF desk_run_steps]) (use assms in \<open>simp add: keeps_messages_def\<close>)
  then show ?thesis
    using held final unfolding held_ticket_def final_ticket_def keeps_messages_def i by blast
qed

section \<open>A sample desk\<close>

definition sample_ticket :: "ticket_status \<Rightarrow> string option \<Rightarrow> ticket_row" where
  "sample_ticket st a = \<lparr>tk_id = ''t'', tk_userId = ''B'', tk_bookingId = None, tk_bookingIssueReason = None,
     tk_type = Tk_GENERAL, tk_subject = ''Key'', tk_message = ''Where is the key'', tk_status = st,
     tk_adminResponse = None, tk_assigneeId = a, tk_respondedById = None, tk_respondedAt = None,
     tk_createdAt = 0, tk_updatedAt = 0\<rparr>"

definition sample_desk :: "ticket_status \<Rightarrow> string option \<Rightarrow> db" where
  "sample_desk st a = set_tickets [sample_ticket st a] sample_db"

definition no_uploads :: "string \<Rightarrow> verified_upload result" where
  "no_uploads i = Inl (Not_found i)"

lemma sample_desk_ticket:
  "tickets_unique (sample_desk st a)" "find_general_ticket (sample_desk st a) ''t'' = Some (sample_ticket st a)"
  by (simp_all add: tickets_unique_def sample_desk_def find_general_ticket_def sample_ticket_def)

theorem support_refines_witness:
  "\<exists>db'. run_support no_uploads ''O'' ''t'' (Reply_ticket ''In the box'') SAMPLE_NOW (sample_desk Tk_OPEN None) = Inr db'
     \<and> tickets_unique db' \<and> is_ok (run_support no_uploads ''O'' ''t'' Close_ticket SAMPLE_NOW db')"
proof -
  have "(case run_support no_uploads ''O'' ''t'' (Reply_ticket ''In the box'') SAMPLE_NOW (sample_desk Tk_OPEN None) of
      Inl e \<Rightarrow> False | Inr db' \<Rightarrow> is_ok (run_support no_uploads ''O'' ''t'' Close_ticket SAMPLE_NOW db'))"
    by code_simp
  then obtain db' where r: "run_support no_uploads ''O'' ''t'' (Reply_ticket ''In the box'') SAMPLE_NOW (sample_desk Tk_OPEN None) = Inr db'"
    "is_ok (run_support no_uploads ''O'' ''t'' Close_ticket SAMPLE_NOW db')" by (auto split: sum.splits)
  show ?thesis using support_refines [OF r(1) sample_desk_ticket(1)] r by blast
qed

definition at_desk :: "ticket_status \<Rightarrow> string option \<Rightarrow> desk_state" where
  "at_desk st a = \<lparr>ds_db = sample_desk st a, ds_under_way = []\<rparr>"

definition sample_events :: "desk_event list" where
  "sample_events =
     [Check_message no_uploads ''O'' ''t'' \<lparr>csm_body = ''On it'', csm_attachmentIntentIds = []\<rparr> True,
      Check_reply ''P'' ''t'' ''mine'', At_once no_uploads ''P'' ''t'' Close_ticket SAMPLE_NOW, Write 0 SAMPLE_NOW]"

theorem support_run_safe_witness:
  "(\<exists>t'. find_general_ticket (ds_db (desk_run sample_events (at_desk Tk_IN_PROGRESS (Some ''O'')))) ''t'' = Some t'
       \<and> tk_assigneeId t' = Some ''O'')
   \<and> find_general_ticket (ds_db (desk_run sample_events (at_desk Tk_CLOSED (Some ''O'')))) ''t''
       = Some (sample_ticket Tk_CLOSED (Some ''O''))"
proof -
  have d: "tickets_unique (ds_db (at_desk st a))" "find_general_ticket (ds_db (at_desk st a)) ''t'' = Some (sample_ticket st a)"
    "ds_under_way (at_desk st a) = []" for st a
    using sample_desk_ticket by (simp_all add: at_desk_def)
  show ?thesis
    using support_run_safe [OF d(1,2), of Tk_IN_PROGRESS "Some ''O''" "''O''" sample_events]
      support_run_safe [OF d(1,2), of Tk_CLOSED "Some ''O''" "''O''" sample_events]
    by (simp add: d(3) sample_ticket_def)
qed

section \<open>Between the check and the write\<close>

text \<open>
  \<open>createMessage\<close> checks the ticket before its transaction, and an operator's message sets the
  status without looking again. When another operator closes the ticket in between, the message
  is stored and the closed ticket is in progress again, with another operator.
\<close>

lemma closed_ticket_reopened:
  "map state_of (db_tickets (ds_db (desk_run
      [Check_message no_uploads ''O'' ''t'' \<lparr>csm_body = ''On it'', csm_attachmentIntentIds = []\<rparr> True,
       At_once no_uploads ''P'' ''t'' Close_ticket SAMPLE_NOW] (at_desk Tk_OPEN None)))) = [(Tk_CLOSED, Some ''P'')]"
  "map state_of (db_tickets (ds_db (desk_run
      [Check_message no_uploads ''O'' ''t'' \<lparr>csm_body = ''On it'', csm_attachmentIntentIds = []\<rparr> True,
       At_once no_uploads ''P'' ''t'' Close_ticket SAMPLE_NOW, Write 0 SAMPLE_NOW] (at_desk Tk_OPEN None))))
   = [(Tk_IN_PROGRESS, Some ''O'')]"
  by code_simp+

text \<open>
  The update of \<open>replyAsAdmin\<close> repeats the status but not the operator, so a reply that was checked
  while the ticket was free takes it from an operator who took it in between.
\<close>

lemma ticket_taken_over:
  "map state_of (db_tickets (ds_db (desk_run
      [Check_reply ''O'' ''t'' ''In the box'', At_once no_uploads ''P'' ''t'' Assign_ticket SAMPLE_NOW, Write 0 SAMPLE_NOW]
      (at_desk Tk_OPEN None)))) = [(Tk_IN_PROGRESS, Some ''O'')]"
  by code_simp

end
