(* ===== verification/Storage.thy ===== *)
theory Storage
  imports Paging Payment_Policy "HOL-Library.Sublist" "HOL-Library.Word"
begin

text \<open>
  The object storage as the server uses it (\<open>upload/s3-storage.service.ts\<close>): buckets of objects
  with their content type, bytes and time of the last change. The storage is a service outside the
  program; what the model keeps of it is the documented effect of its requests. Presigned URLs,
  the image library and SHA-256 are arguments, gathered in a record.
\<close>

type_synonym byte = "8 word"

record s3_object =
  so_bucket :: string
  so_key :: string
  so_bytes :: "byte list"
  so_contentType :: "string option"
  so_lastModified :: "timestamp option"

type_synonym s3_store = "s3_object list"

datatype image_variant = Var_original | Var_thumbnail | Var_preview | Var_avatar

text \<open>
  \<open>im_sanitize\<close> re-encodes a private image in its own type, \<open>im_variant\<close> is one of the WebP
  versions of a public image; either may fail to decode its input.
\<close>

record media_tools =
  im_sanitize :: "string \<Rightarrow> byte list \<Rightarrow> byte list option"
  im_variant :: "image_variant \<Rightarrow> byte list \<Rightarrow> byte list option"
  im_sha256 :: "byte list \<Rightarrow> string"
  im_downloadUrl :: "string \<Rightarrow> string \<Rightarrow> nat \<Rightarrow> string"
  im_postUrl :: "string \<Rightarrow> string \<Rightarrow> string \<Rightarrow> int \<Rightarrow> nat \<Rightarrow> string"

section \<open>Requests to the storage\<close>

definition find_object :: "s3_store \<Rightarrow> string \<Rightarrow> string \<Rightarrow> s3_object option" where
  "find_object store bucket key = List.find (\<lambda>x. so_bucket x = bucket \<and> so_key x = key) store"

record object_info =
  oi_sizeBytes :: int
  oi_contentType :: "string option"
  oi_prefix :: "byte list"

text \<open>\<open>HEAD\<close>, then the range \<open>bytes=0-11\<close> of a non-empty object.\<close>

definition inspect_uploaded_object :: "s3_store \<Rightarrow> string \<Rightarrow> string \<Rightarrow> object_info option" where
  "inspect_uploaded_object store bucket key =
     map_option (\<lambda>x. \<lparr>oi_sizeBytes = int (length (so_bytes x)), oi_contentType = so_contentType x,
                      oi_prefix = take 12 (so_bytes x)\<rparr>)
       (find_object store bucket key)"

definition get_object_buffer :: "s3_store \<Rightarrow> string \<Rightarrow> string \<Rightarrow> byte list result" where
  "get_object_buffer store bucket key =
     (case find_object store bucket key of
        None \<Rightarrow> Inl (Plain_error ''NoSuchKey'')
      | Some x \<Rightarrow> Inr (so_bytes x))"

definition delete_object :: "string \<Rightarrow> string \<Rightarrow> s3_store \<Rightarrow> s3_store" where
  "delete_object bucket key store = filter (\<lambda>x. \<not> (so_bucket x = bucket \<and> so_key x = key)) store"

definition put_object :: "string \<Rightarrow> string \<Rightarrow> byte list \<Rightarrow> string \<Rightarrow> timestamp \<Rightarrow> s3_store \<Rightarrow> s3_store" where
  "put_object bucket key bytes contentType now store =
     delete_object bucket key store @
       [\<lparr>so_bucket = bucket, so_key = key, so_bytes = bytes, so_contentType = Some contentType,
         so_lastModified = Some now\<rparr>]"

definition list_objects :: "s3_store \<Rightarrow> string \<Rightarrow> string \<Rightarrow> (string \<times> timestamp option) list" where
  "list_objects store bucket pre =
     map (\<lambda>x. (so_key x, so_lastModified x))
       (filter (\<lambda>x. so_bucket x = bucket \<and> prefix pre (so_key x) \<and> so_key x \<noteq> []) store)"

definition required_storage_config :: "config \<Rightarrow> string \<Rightarrow> string result" where
  "required_storage_config config key =
     (case config key of
        None \<Rightarrow> Inl (Internal_error key)
      | Some v \<Rightarrow> if v = [] then Inl (Internal_error key) else Inr v)"

definition private_bucket :: "config \<Rightarrow> string result" where
  "private_bucket config = required_storage_config config ''S3_BUCKET_PRIVATE''"

definition public_bucket :: "config \<Rightarrow> string result" where
  "public_bucket config = required_storage_config config ''S3_BUCKET_PUBLIC''"

text \<open>\<open>replace(/\/$/, '')\<close>.\<close>

definition strip_slash :: "string \<Rightarrow> string" where
  "strip_slash s = (if s \<noteq> [] \<and> last s = CHR ''/'' then butlast s else s)"

definition public_url :: "config \<Rightarrow> string \<Rightarrow> string \<Rightarrow> string result" where
  "public_url config bucket key =
     (case config ''S3_PUBLIC_BASE_URL'' of
        Some base \<Rightarrow>
          if base \<noteq> [] then Inr (strip_slash base @ ''/'' @ key)
          else bind_result (required_storage_config config ''S3_ENDPOINT'') (\<lambda>e.
                 Inr (strip_slash e @ ''/'' @ bucket @ ''/'' @ key))
      | None \<Rightarrow> bind_result (required_storage_config config ''S3_ENDPOINT'') (\<lambda>e.
                 Inr (strip_slash e @ ''/'' @ bucket @ ''/'' @ key)))"

section \<open>Laws\<close>

lemma find_delete_object [simp]:
  "find_object (delete_object b k store) b' k' = (if b' = b \<and> k' = k then None else find_object store b' k')"
  by (induction store) (auto simp: find_object_def delete_object_def)

lemma find_put_object [simp]:
  "find_object (put_object b k bytes ct now store) b' k' =
     (if b' = b \<and> k' = k
      then Some \<lparr>so_bucket = b, so_key = k, so_bytes = bytes, so_contentType = Some ct, so_lastModified = Some now\<rparr>
      else find_object store b' k')"
proof -
  have "find_object (delete_object b k store @ [x]) b' k' =
    (case find_object (delete_object b k store) b' k' of
       None \<Rightarrow> if so_bucket x = b' \<and> so_key x = k' then Some x else None | Some y \<Rightarrow> Some y)" for x
    unfolding find_object_def find_append by (auto split: option.splits)
  then show ?thesis by (auto simp: put_object_def split: option.splits)
qed

end
