(* ===== verification/Uploads.thy ===== *)
theory Uploads
  imports Storage Support Booking_Act
begin

text \<open>
  Files of the users (\<open>upload/upload.service.ts\<close>, \<open>upload/photo-processing.worker.ts\<close>,
  \<open>upload/upload-cleanup.service.ts\<close>). A client asks for an upload intent and posts the file to a
  quarantine key of the private bucket; the server checks the object against the intent before it
  uses it. Photos of items are re-encoded by a queue, avatars at once, and a cleanup removes what
  was never used.
\<close>

section \<open>Requests, responses and state\<close>

datatype upload_purpose =
    Up_ITEM_PHOTO | Up_AVATAR | Up_BOOKING_EVIDENCE | Up_DISPUTE_EVIDENCE | Up_SUPPORT_ATTACHMENT | Up_KYC_DOCUMENT

fun purpose_name :: "upload_purpose \<Rightarrow> string" where
  "purpose_name Up_ITEM_PHOTO = ''ITEM_PHOTO''"
| "purpose_name Up_AVATAR = ''AVATAR''"
| "purpose_name Up_BOOKING_EVIDENCE = ''BOOKING_EVIDENCE''"
| "purpose_name Up_DISPUTE_EVIDENCE = ''DISPUTE_EVIDENCE''"
| "purpose_name Up_SUPPORT_ATTACHMENT = ''SUPPORT_ATTACHMENT''"
| "purpose_name Up_KYC_DOCUMENT = ''KYC_DOCUMENT''"

record request_upload_dto =
  ru_purpose :: upload_purpose
  ru_contentType :: string
  ru_sizeBytes :: int
  ru_itemId :: "string option"
  ru_bookingId :: "string option"
  ru_disputeId :: "string option"
  ru_supportTicketId :: "string option"

record presigned_upload =
  pu_intentId :: string
  pu_uploadUrl :: string
  pu_bucket :: string
  pu_key :: string
  pu_expiresInSeconds :: nat
  pu_contentType :: string
  pu_sizeBytes :: int

record private_download =
  pd_downloadUrl :: string
  pd_expiresInSeconds :: nat

record confirm_photo_dto =
  cp_intentId :: string
  cp_sortOrder :: "int option"
  cp_isCover :: "bool option"

record photo_response =
  por_id :: string
  por_itemId :: string
  por_originalUrl :: "string option"
  por_thumbnailUrl :: "string option"
  por_previewUrl :: "string option"
  por_sortOrder :: int
  por_isCover :: bool
  por_createdAt :: timestamp

record photo_job =
  pj_itemPhotoId :: string
  pj_itemId :: string
  pj_sourceBucket :: string
  pj_sourceKey :: string

record upload_world =
  uw_db :: db
  uw_store :: s3_store
  uw_jobs :: "photo_job list"

definition MAX_UPLOAD_SIZE_BYTES :: int where
  "MAX_UPLOAD_SIZE_BYTES = 10 * 1024 * 1024"

definition PRESIGNED_UPLOAD_EXPIRES_SECONDS :: nat where
  "PRESIGNED_UPLOAD_EXPIRES_SECONDS = 15 * 60"

definition PRESIGNED_DOWNLOAD_EXPIRES_SECONDS :: nat where
  "PRESIGNED_DOWNLOAD_EXPIRES_SECONDS = 60"

definition MAX_ITEM_PHOTO_COUNT :: nat where
  "MAX_ITEM_PHOTO_COUNT = 5"

section \<open>Checks of a file\<close>

definition content_extension :: "string \<Rightarrow> string option" where
  "content_extension t =
     (if t = ''image/jpeg'' then Some ''jpg'' else if t = ''image/png'' then Some ''png''
      else if t = ''image/webp'' then Some ''webp'' else None)"

definition ensure_allowed_file :: "string \<Rightarrow> int \<Rightarrow> unit result" where
  "ensure_allowed_file contentType sizeBytes =
     (if contentType \<notin> {''image/jpeg'', ''image/png'', ''image/webp''} then Inl (Bad_request ''file-type'')
      else if sizeBytes < 1 \<or> MAX_UPLOAD_SIZE_BYTES < sizeBytes then Inl (Bad_request ''file-size'')
      else Inr ())"

definition get_extension :: "string \<Rightarrow> string result" where
  "get_extension contentType =
     (case content_extension contentType of None \<Rightarrow> Inl (Bad_request ''unsupported-type'') | Some e \<Rightarrow> Inr e)"

definition item_quarantine_prefix :: "string \<Rightarrow> string" where
  "item_quarantine_prefix itemId = ''quarantine/item-photos/'' @ itemId @ ''/''"

definition avatar_quarantine_prefix :: "string \<Rightarrow> string" where
  "avatar_quarantine_prefix userId = ''quarantine/avatars/'' @ userId @ ''/''"

definition booking_quarantine_prefix :: "string \<Rightarrow> string \<Rightarrow> string" where
  "booking_quarantine_prefix bookingId userId = ''quarantine/booking-evidence/'' @ bookingId @ ''/'' @ userId @ ''/''"

definition dispute_quarantine_prefix :: "string \<Rightarrow> string \<Rightarrow> string" where
  "dispute_quarantine_prefix disputeId userId = ''quarantine/dispute-evidence/'' @ disputeId @ ''/'' @ userId @ ''/''"

definition support_quarantine_prefix :: "string \<Rightarrow> string \<Rightarrow> string" where
  "support_quarantine_prefix ticketId actorId = ''quarantine/support-attachments/'' @ ticketId @ ''/'' @ actorId @ ''/''"

text \<open>
  The same body stands five times in the source, once per purpose: the object key is a plain file
  name with the right extension under the prefix, in the private bucket.
\<close>

definition ensure_binding :: "config \<Rightarrow> string \<Rightarrow> intent_row \<Rightarrow> unit result" where
  "ensure_binding config pre i =
     bind_result (get_extension (int_contentType i)) (\<lambda>extension.
     let fileName = drop (length pre) (int_objectKey i)
     in bind_result (private_bucket config) (\<lambda>bucket.
        if int_bucket i \<noteq> bucket \<or> \<not> prefix pre (int_objectKey i) \<or> fileName = []
           \<or> CHR ''/'' \<in> set fileName \<or> \<not> suffix (''.'' @ extension) fileName
        then Inl (Bad_request ''upload-intent-binding'') else Inr ()))"

definition ensure_booking_evidence_binding :: "config \<Rightarrow> string \<Rightarrow> intent_row \<Rightarrow> unit result" where
  "ensure_booking_evidence_binding config userId i =
     ensure_binding config (booking_quarantine_prefix (int_entityId i) userId) i"

definition ensure_dispute_evidence_binding :: "config \<Rightarrow> string \<Rightarrow> intent_row \<Rightarrow> unit result" where
  "ensure_dispute_evidence_binding config userId i =
     ensure_binding config (dispute_quarantine_prefix (int_entityId i) userId) i"

definition ensure_support_attachment_binding :: "config \<Rightarrow> string \<Rightarrow> intent_row \<Rightarrow> unit result" where
  "ensure_support_attachment_binding config actorId i =
     ensure_binding config (support_quarantine_prefix (int_entityId i) actorId) i"

definition ensure_item_photo_binding :: "config \<Rightarrow> intent_row \<Rightarrow> unit result" where
  "ensure_item_photo_binding config i = ensure_binding config (item_quarantine_prefix (int_entityId i)) i"

definition ensure_avatar_binding :: "config \<Rightarrow> intent_row \<Rightarrow> unit result" where
  "ensure_avatar_binding config i = ensure_binding config (avatar_quarantine_prefix (int_entityId i)) i"

text \<open>JPEG, PNG and WebP by their first bytes.\<close>

definition has_expected_magic_bytes :: "string \<Rightarrow> byte list \<Rightarrow> bool" where
  "has_expected_magic_bytes contentType bytes =
     (if contentType = ''image/jpeg'' then 3 \<le> length bytes \<and> take 3 bytes = [0xFF, 0xD8, 0xFF]
      else if contentType = ''image/png'' then take 8 bytes = [0x89, 0x50, 0x4E, 0x47, 0x0D, 0x0A, 0x1A, 0x0A]
      else if contentType = ''image/webp''
      then 12 \<le> length bytes \<and> take 4 bytes = [0x52, 0x49, 0x46, 0x46]
         \<and> take 4 (drop 8 bytes) = [0x57, 0x45, 0x42, 0x50]
      else False)"

definition ensure_uploaded_object :: "s3_store \<Rightarrow> intent_row \<Rightarrow> unit result" where
  "ensure_uploaded_object store i =
     (case inspect_uploaded_object store (int_bucket i) (int_objectKey i) of
        None \<Rightarrow> Inl (Bad_request ''object-not-found'')
      | Some x \<Rightarrow>
          if oi_sizeBytes x \<noteq> int_sizeBytes i \<or> oi_contentType x \<noteq> Some (int_contentType i)
          then Inl (Bad_request ''object-mismatch'')
          else if \<not> has_expected_magic_bytes (int_contentType i) (oi_prefix x)
          then Inl (Bad_request ''object-content'')
          else Inr ())"

definition sanitize_private_image ::
    "media_tools \<Rightarrow> intent_row \<Rightarrow> byte list \<Rightarrow> timestamp \<Rightarrow> s3_store \<Rightarrow> (s3_store \<times> byte list) result" where
  "sanitize_private_image tools i source now store =
     (case im_sanitize tools (int_contentType i) source of
        None \<Rightarrow> Inl (Bad_request ''image-not-decodable'')
      | Some out \<Rightarrow> Inr (put_object (int_bucket i) (int_objectKey i) out (int_contentType i) now store, out))"

section \<open>Who may attach what\<close>

definition ensure_booking_participant :: "db \<Rightarrow> string \<Rightarrow> string \<Rightarrow> unit result" where
  "ensure_booking_participant db userId bookingId =
     (if exists_row (\<lambda>b. bk_id b = bookingId \<and> (bk_borrowerId b = userId \<or> bk_lenderId b = userId)
           \<and> bk_status b \<in> {Bk_CONFIRMED, Bk_ACTIVE, Bk_RETURNED}) (db_bookings db)
      then Inr () else Inl (Not_found ''booking''))"

definition ensure_dispute_participant :: "db \<Rightarrow> string \<Rightarrow> string \<Rightarrow> unit result" where
  "ensure_dispute_participant db userId disputeId =
     (if exists_row (\<lambda>d. dis_id d = disputeId \<and> find_participant_booking db userId (dis_bookingId d) \<noteq> None)
           (db_disputes db)
      then Inr () else Inl (Not_found ''dispute''))"

definition ensure_support_ticket_access :: "db \<Rightarrow> string \<Rightarrow> string \<Rightarrow> bool \<Rightarrow> unit result" where
  "ensure_support_ticket_access db actorId ticketId allowAdmin =
     (if exists_row (\<lambda>t. tk_id t = ticketId \<and> tk_type t = Tk_GENERAL \<and> (allowAdmin \<or> tk_userId t = actorId)) (db_tickets db)
      then Inr () else Inl (Not_found ''ticket''))"

definition ensure_owned_item :: "db \<Rightarrow> string \<Rightarrow> string \<Rightarrow> unit result" where
  "ensure_owned_item db userId itemId =
     (if exists_row (\<lambda>i. it_id i = itemId \<and> it_ownerId i = userId) (db_items db)
      then Inr () else Inl (Not_found ''item''))"

definition ensure_no_unfinished_bookings :: "db \<Rightarrow> string \<Rightarrow> unit result" where
  "ensure_no_unfinished_bookings db itemId =
     (if exists_row (\<lambda>b. bk_itemId b = itemId \<and> bk_status b \<in> {Bk_PENDING, Bk_CONFIRMED, Bk_ACTIVE, Bk_RETURNED})
           (db_bookings db)
      then Inl (Conflict ''ITEM_HAS_UNFINISHED_BOOKINGS'') else Inr ())"

section \<open>Asking for an upload\<close>

definition create_presigned_upload ::
    "config \<Rightarrow> media_tools \<Rightarrow> string \<Rightarrow> request_upload_dto \<Rightarrow> string \<Rightarrow> string \<Rightarrow> timestamp \<Rightarrow> db
      \<Rightarrow> (db \<times> presigned_upload) result" where
  "create_presigned_upload config tools userId dto entityId pre now db =
     bind_result (private_bucket config) (\<lambda>bucket.
     bind_result (get_extension (ru_contentType dto)) (\<lambda>extension.
     let key = pre @ fresh_id db @ ''.'' @ extension;
         db = db\<lparr>db_next := Suc (db_next db)\<rparr>;
         i = \<lparr>int_id = fresh_id db, int_actorId = userId, int_purpose = purpose_name (ru_purpose dto),
              int_entityId = entityId, int_bucket = bucket, int_objectKey = key,
              int_contentType = ru_contentType dto, int_sizeBytes = ru_sizeBytes dto,
              int_expiresAt = now + int PRESIGNED_UPLOAD_EXPIRES_SECONDS * 1000, int_confirmedAt = None\<rparr>
     in if exists_row (\<lambda>x. int_objectKey x = key) (db_intents db)
        then Inl (Unique_violation ''upload_intents.objectKey'')
        else Inr (db\<lparr>db_next := Suc (db_next db), db_intents := db_intents db @ [i]\<rparr>,
          \<lparr>pu_intentId = int_id i,
           pu_uploadUrl = im_postUrl tools bucket key (ru_contentType dto) (ru_sizeBytes dto) PRESIGNED_UPLOAD_EXPIRES_SECONDS,
           pu_bucket = bucket, pu_key = key, pu_expiresInSeconds = PRESIGNED_UPLOAD_EXPIRES_SECONDS,
           pu_contentType = ru_contentType dto, pu_sizeBytes = ru_sizeBytes dto\<rparr>)))"

definition create_item_photo_upload ::
    "config \<Rightarrow> media_tools \<Rightarrow> string \<Rightarrow> request_upload_dto \<Rightarrow> timestamp \<Rightarrow> db \<Rightarrow> (db \<times> presigned_upload) result" where
  "create_item_photo_upload config tools userId dto now db =
     (case ru_itemId dto of
        Some itemId \<Rightarrow>
          if ru_bookingId dto \<noteq> None \<or> ru_disputeId dto \<noteq> None \<or> ru_supportTicketId dto \<noteq> None
          then Inl (Bad_request ''item-photo-needs-itemId'')
          else bind_result (ensure_owned_item db userId itemId) (\<lambda>_.
               bind_result (ensure_no_unfinished_bookings db itemId) (\<lambda>_.
               create_presigned_upload config tools userId dto itemId (item_quarantine_prefix itemId) now db))
      | None \<Rightarrow> Inl (Bad_request ''item-photo-needs-itemId''))"

definition create_avatar_upload ::
    "config \<Rightarrow> media_tools \<Rightarrow> string \<Rightarrow> request_upload_dto \<Rightarrow> timestamp \<Rightarrow> db \<Rightarrow> (db \<times> presigned_upload) result" where
  "create_avatar_upload config tools userId dto now db =
     (if ru_itemId dto \<noteq> None \<or> ru_bookingId dto \<noteq> None \<or> ru_disputeId dto \<noteq> None \<or> ru_supportTicketId dto \<noteq> None
      then Inl (Bad_request ''avatar-without-entity'')
      else create_presigned_upload config tools userId dto userId (avatar_quarantine_prefix userId) now db)"

definition create_booking_evidence_upload ::
    "config \<Rightarrow> media_tools \<Rightarrow> string \<Rightarrow> request_upload_dto \<Rightarrow> timestamp \<Rightarrow> db \<Rightarrow> (db \<times> presigned_upload) result" where
  "create_booking_evidence_upload config tools userId dto now db =
     (case ru_bookingId dto of
        Some bookingId \<Rightarrow>
          if ru_itemId dto \<noteq> None \<or> ru_disputeId dto \<noteq> None \<or> ru_supportTicketId dto \<noteq> None
          then Inl (Bad_request ''evidence-needs-bookingId'')
          else bind_result (ensure_booking_participant db userId bookingId) (\<lambda>_.
               create_presigned_upload config tools userId dto bookingId (booking_quarantine_prefix bookingId userId) now db)
      | None \<Rightarrow> Inl (Bad_request ''evidence-needs-bookingId''))"

definition create_dispute_evidence_upload ::
    "config \<Rightarrow> media_tools \<Rightarrow> string \<Rightarrow> request_upload_dto \<Rightarrow> timestamp \<Rightarrow> db \<Rightarrow> (db \<times> presigned_upload) result" where
  "create_dispute_evidence_upload config tools userId dto now db =
     (case ru_disputeId dto of
        Some disputeId \<Rightarrow>
          if ru_itemId dto \<noteq> None \<or> ru_bookingId dto \<noteq> None \<or> ru_supportTicketId dto \<noteq> None
          then Inl (Bad_request ''evidence-needs-disputeId'')
          else bind_result (ensure_dispute_participant db userId disputeId) (\<lambda>_.
               create_presigned_upload config tools userId dto disputeId (dispute_quarantine_prefix disputeId userId) now db)
      | None \<Rightarrow> Inl (Bad_request ''evidence-needs-disputeId''))"

definition create_support_attachment_upload ::
    "config \<Rightarrow> media_tools \<Rightarrow> string \<Rightarrow> request_upload_dto \<Rightarrow> bool \<Rightarrow> timestamp \<Rightarrow> db \<Rightarrow> (db \<times> presigned_upload) result" where
  "create_support_attachment_upload config tools actorId dto allowAdmin now db =
     (case ru_supportTicketId dto of
        Some ticketId \<Rightarrow>
          if ru_itemId dto \<noteq> None \<or> ru_bookingId dto \<noteq> None \<or> ru_disputeId dto \<noteq> None
          then Inl (Bad_request ''attachment-needs-supportTicketId'')
          else bind_result (ensure_support_ticket_access db actorId ticketId allowAdmin) (\<lambda>_.
               create_presigned_upload config tools actorId dto ticketId (support_quarantine_prefix ticketId actorId) now db)
      | None \<Rightarrow> Inl (Bad_request ''attachment-needs-supportTicketId''))"

definition request_upload_url ::
    "config \<Rightarrow> media_tools \<Rightarrow> string \<Rightarrow> request_upload_dto \<Rightarrow> timestamp \<Rightarrow> db \<Rightarrow> (db \<times> presigned_upload) result" where
  "request_upload_url config tools userId dto now db =
     (if ru_purpose dto = Up_KYC_DOCUMENT then Inl (Forbidden ''KYC'')
      else bind_result (ensure_allowed_file (ru_contentType dto) (ru_sizeBytes dto)) (\<lambda>_.
        case ru_purpose dto of
          Up_AVATAR \<Rightarrow> create_avatar_upload config tools userId dto now db
        | Up_BOOKING_EVIDENCE \<Rightarrow> create_booking_evidence_upload config tools userId dto now db
        | Up_DISPUTE_EVIDENCE \<Rightarrow> create_dispute_evidence_upload config tools userId dto now db
        | Up_SUPPORT_ATTACHMENT \<Rightarrow> create_support_attachment_upload config tools userId dto False now db
        | _ \<Rightarrow> create_item_photo_upload config tools userId dto now db))"

definition request_admin_support_attachment_upload ::
    "config \<Rightarrow> media_tools \<Rightarrow> string \<Rightarrow> request_upload_dto \<Rightarrow> timestamp \<Rightarrow> db \<Rightarrow> (db \<times> presigned_upload) result" where
  "request_admin_support_attachment_upload config tools adminId dto now db =
     bind_result (ensure_allowed_file (ru_contentType dto) (ru_sizeBytes dto)) (\<lambda>_.
       if ru_purpose dto \<noteq> Up_SUPPORT_ATTACHMENT then Inl (Bad_request ''operator-upload-purpose'')
       else create_support_attachment_upload config tools adminId dto True now db)"

end
