(* ===== verification/Upload_Processing.thy ===== *)
theory Upload_Processing
  imports Uploads
begin

text \<open>
  The use of an uploaded file: the verification of evidence and attachments, the confirmation of
  photos and avatars, downloads, the worker that publishes the versions of a photo, and the cleanup
  of the quarantine.
\<close>

section \<open>Evidence and attachments\<close>

definition pending_intent :: "db \<Rightarrow> string \<Rightarrow> string \<Rightarrow> string \<Rightarrow> upload_purpose \<Rightarrow> timestamp \<Rightarrow> intent_row option" where
  "pending_intent db intentId actorId entityId purpose now =
     List.find (\<lambda>i. int_id i = intentId \<and> int_actorId i = actorId \<and> int_entityId i = entityId
        \<and> int_purpose i = purpose_name purpose \<and> int_confirmedAt i = None \<and> now < int_expiresAt i) (db_intents db)"

text \<open>The common end: the object matches, is re-encoded in place, and its hash is returned.\<close>

definition verify_private_image :: "media_tools \<Rightarrow> intent_row \<Rightarrow> timestamp \<Rightarrow> s3_store \<Rightarrow> (s3_store \<times> verified_upload) result" where
  "verify_private_image tools i now store =
     bind_result (ensure_uploaded_object store i) (\<lambda>_.
     bind_result (get_object_buffer store (int_bucket i) (int_objectKey i)) (\<lambda>bytes.
     bind_result (sanitize_private_image tools i bytes now store) (\<lambda>(store, sanitized).
     Inr (store, \<lparr>vu_intentId = int_id i, vu_objectKey = int_objectKey i, vu_sha256 = im_sha256 tools sanitized\<rparr>))))"

definition verify_booking_evidence_intent ::
    "config \<Rightarrow> media_tools \<Rightarrow> db \<Rightarrow> string \<Rightarrow> string \<Rightarrow> string \<Rightarrow> timestamp \<Rightarrow> s3_store \<Rightarrow> (s3_store \<times> verified_upload) result" where
  "verify_booking_evidence_intent config tools db userId bookingId intentId now store =
     (case pending_intent db intentId userId bookingId Up_BOOKING_EVIDENCE now of
        None \<Rightarrow> Inl (Not_found ''upload-intent'')
      | Some i \<Rightarrow>
          bind_result (ensure_booking_evidence_binding config userId i) (\<lambda>_.
          bind_result (ensure_booking_participant db userId bookingId) (\<lambda>_.
          verify_private_image tools i now store)))"

definition verify_dispute_evidence_intent ::
    "config \<Rightarrow> media_tools \<Rightarrow> db \<Rightarrow> string \<Rightarrow> string \<Rightarrow> string \<Rightarrow> timestamp \<Rightarrow> s3_store \<Rightarrow> (s3_store \<times> verified_upload) result" where
  "verify_dispute_evidence_intent config tools db userId disputeId intentId now store =
     (case pending_intent db intentId userId disputeId Up_DISPUTE_EVIDENCE now of
        None \<Rightarrow> Inl (Not_found ''upload-intent'')
      | Some i \<Rightarrow>
          bind_result (ensure_dispute_evidence_binding config userId i) (\<lambda>_.
          bind_result (ensure_dispute_participant db userId disputeId) (\<lambda>_.
          verify_private_image tools i now store)))"

definition verify_support_attachment_intent ::
    "config \<Rightarrow> media_tools \<Rightarrow> db \<Rightarrow> string \<Rightarrow> string \<Rightarrow> string \<Rightarrow> bool \<Rightarrow> timestamp \<Rightarrow> s3_store
      \<Rightarrow> (s3_store \<times> verified_upload) result" where
  "verify_support_attachment_intent config tools db actorId ticketId intentId allowAdmin now store =
     (case pending_intent db intentId actorId ticketId Up_SUPPORT_ATTACHMENT now of
        None \<Rightarrow> Inl (Not_found ''upload-intent'')
      | Some i \<Rightarrow>
          bind_result (ensure_support_attachment_binding config actorId i) (\<lambda>_.
          bind_result (ensure_support_ticket_access db actorId ticketId allowAdmin) (\<lambda>_.
          verify_private_image tools i now store)))"

section \<open>Downloads of private files\<close>

definition confirmed_intent :: "db \<Rightarrow> string \<Rightarrow> intent_row option" where
  "confirmed_intent db intentId = List.find (\<lambda>i. int_id i = intentId \<and> int_confirmedAt i \<noteq> None) (db_intents db)"

definition download_of :: "media_tools \<Rightarrow> intent_row \<Rightarrow> private_download" where
  "download_of tools i =
     \<lparr>pd_downloadUrl = im_downloadUrl tools (int_bucket i) (int_objectKey i) PRESIGNED_DOWNLOAD_EXPIRES_SECONDS,
      pd_expiresInSeconds = PRESIGNED_DOWNLOAD_EXPIRES_SECONDS\<rparr>"

definition evidence_download :: "media_tools \<Rightarrow> db \<Rightarrow> (evidence_row \<Rightarrow> bool) \<Rightarrow> evidence_row list \<Rightarrow> private_download result" where
  "evidence_download tools db p es =
     (case List.find (\<lambda>e. p e \<and> confirmed_intent db (ev_uploadIntentId e) \<noteq> None) es of
        None \<Rightarrow> Inl (Not_found ''evidence'')
      | Some e \<Rightarrow>
          (case confirmed_intent db (ev_uploadIntentId e) of
             None \<Rightarrow> Inl (Not_found ''evidence'')
           | Some i \<Rightarrow> Inr (download_of tools i)))"

definition get_dispute_evidence_download ::
    "media_tools \<Rightarrow> db \<Rightarrow> string \<Rightarrow> string \<Rightarrow> string \<Rightarrow> string \<Rightarrow> private_download result" where
  "get_dispute_evidence_download tools db userId bookingId disputeId evidenceId =
     evidence_download tools db (\<lambda>e. ev_id e = evidenceId \<and> ev_ownerId e = disputeId
       \<and> exists_row (\<lambda>d. dis_id d = disputeId \<and> dis_bookingId d = bookingId) (db_disputes db)
       \<and> find_participant_booking db userId bookingId \<noteq> None) (db_disputeEvidence db)"

definition get_admin_dispute_evidence_download ::
    "media_tools \<Rightarrow> string \<Rightarrow> string \<Rightarrow> string \<Rightarrow> db \<Rightarrow> (db \<times> private_download) result" where
  "get_admin_dispute_evidence_download tools adminId disputeId evidenceId db =
     bind_result (evidence_download tools db (\<lambda>e. ev_id e = evidenceId \<and> ev_ownerId e = disputeId) (db_disputeEvidence db)) (\<lambda>d.
       Inr (write_audit (Some adminId) ''FINANCIAL_DISPUTE_EVIDENCE_DOWNLOAD_REQUESTED'' ''DisputeEvidence'' (Some evidenceId) None db, d))"

definition get_booking_evidence_download ::
    "media_tools \<Rightarrow> db \<Rightarrow> string \<Rightarrow> string \<Rightarrow> string \<Rightarrow> private_download result" where
  "get_booking_evidence_download tools db userId bookingId evidenceId =
     evidence_download tools db (\<lambda>e. ev_id e = evidenceId
       \<and> exists_row (\<lambda>a. act_id a = ev_ownerId e \<and> act_bookingId a = bookingId) (db_acts db)
       \<and> find_participant_booking db userId bookingId \<noteq> None) (db_actEvidence db)"

definition get_support_attachment_download ::
    "media_tools \<Rightarrow> string \<Rightarrow> string \<Rightarrow> string \<Rightarrow> bool \<Rightarrow> db \<Rightarrow> (db \<times> private_download) result" where
  "get_support_attachment_download tools actorId ticketId attachmentId allowAdmin db =
     bind_result (ensure_support_ticket_access db actorId ticketId allowAdmin) (\<lambda>_.
     bind_result (evidence_download tools db (\<lambda>e. ev_id e = attachmentId
         \<and> exists_row (\<lambda>m. sm_id m = ev_ownerId e \<and> sm_ticketId m = ticketId) (dk_messages (db_desk db)))
         (dk_attachments (db_desk db))) (\<lambda>d.
     Inr (if allowAdmin
          then write_audit (Some actorId) ''SUPPORT_ATTACHMENT_DOWNLOAD_REQUESTED'' ''SupportAttachment'' (Some attachmentId) None db
          else db, d)))"

definition get_private_file_download ::
    "config \<Rightarrow> media_tools \<Rightarrow> upload_world \<Rightarrow> string \<Rightarrow> string \<Rightarrow> timestamp \<Rightarrow> private_download result" where
  "get_private_file_download config tools w userId intentId now =
     (case List.find (\<lambda>i. int_id i = intentId \<and> int_actorId i = userId \<and> int_purpose i = purpose_name Up_ITEM_PHOTO
             \<and> now < int_expiresAt i) (db_intents (uw_db w)) of
        None \<Rightarrow> Inl (Not_found ''private-file'')
      | Some i \<Rightarrow>
          bind_result (ensure_item_photo_binding config i) (\<lambda>_.
          bind_result (ensure_owned_item (uw_db w) userId (int_entityId i)) (\<lambda>_.
          if inspect_uploaded_object (uw_store w) (int_bucket i) (int_objectKey i) = None
          then Inl (Not_found ''private-file'') else Inr (download_of tools i))))"

section \<open>Photos of an item\<close>

definition to_photo_response :: "photo_row \<Rightarrow> photo_response" where
  "to_photo_response p =
     \<lparr>por_id = ph_id p, por_itemId = ph_itemId p, por_originalUrl = ph_originalUrl p,
      por_thumbnailUrl = ph_thumbnailUrl p, por_previewUrl = ph_previewUrl p, por_sortOrder = ph_sortOrder p,
      por_isCover = ph_isCover p, por_createdAt = ph_createdAt p\<rparr>"

abbreviation db_photos :: "db \<Rightarrow> photo_row list" where
  "db_photos db \<equiv> ct_photos (db_catalog db)"

definition set_photos :: "photo_row list \<Rightarrow> db \<Rightarrow> db" where
  "set_photos ps db = db\<lparr>db_catalog := (db_catalog db)\<lparr>ct_photos := ps\<rparr>\<rparr>"

definition photo_of_intent :: "db \<Rightarrow> string \<Rightarrow> photo_row option" where
  "photo_of_intent db intentId = List.find (\<lambda>p. ph_uploadIntentId p = Some intentId) (db_photos db)"

text \<open>Back to moderation.\<close>

definition item_to_moderation :: "string \<Rightarrow> timestamp \<Rightarrow> db \<Rightarrow> db" where
  "item_to_moderation itemId now db =
     db\<lparr>db_items := update_rows (\<lambda>i. it_id i = itemId)
        (\<lambda>i. i\<lparr>it_status := It_PENDING, it_updatedAt := now, it_details := (it_details i)\<lparr>ld_rejectReason := None\<rparr>\<rparr>) (db_items db)\<rparr>"

definition new_photo :: "confirm_photo_dto \<Rightarrow> intent_row \<Rightarrow> nat \<Rightarrow> bool \<Rightarrow> db \<Rightarrow> photo_row" where
  "new_photo dto i photoCount isCover db =
     \<lparr>ph_id = fresh_id db, ph_itemId = int_entityId i, ph_uploadIntentId = Some (int_id i), ph_originalUrl = None,
      ph_thumbnailUrl = None, ph_previewUrl = None,
      ph_sortOrder = (case cp_sortOrder dto of None \<Rightarrow> int photoCount | Some k \<Rightarrow> k),
      ph_isCover = isCover, ph_createdAt = db_now db\<rparr>"

text \<open>
  The transaction of a confirmation; \<open>None\<close> in place of the job is the replay that another
  confirmation of the same intent got ahead of.
\<close>

definition confirm_photo_transaction ::
    "string \<Rightarrow> confirm_photo_dto \<Rightarrow> intent_row \<Rightarrow> timestamp \<Rightarrow> db \<Rightarrow> (db \<times> photo_row \<times> bool) result" where
  "confirm_photo_transaction userId dto i now db =
     (case consume_intent (\<lambda>x. int_id x = int_id i \<and> int_actorId x = userId \<and> now < int_expiresAt x) now db of
        None \<Rightarrow>
          (case photo_of_intent db (int_id i) of
             Some p \<Rightarrow> Inr (db, p, False)
           | None \<Rightarrow> Inl (Bad_request ''upload-intent-used-or-expired''))
      | Some db \<Rightarrow>
          let photoCount = count_rows (\<lambda>p. ph_itemId p = int_entityId i) (db_photos db)
          in if MAX_ITEM_PHOTO_COUNT \<le> photoCount then Inl (Bad_request ''too-many-photos'')
             else
               let isCover = (case cp_isCover dto of None \<Rightarrow> photoCount = 0 | Some c \<Rightarrow> c);
                   p = new_photo dto i photoCount isCover db;
                   others = (if isCover then update_rows (\<lambda>p. ph_itemId p = int_entityId i) (\<lambda>p. p\<lparr>ph_isCover := False\<rparr>) (db_photos db)
                             else db_photos db)
               in if photo_of_intent db (int_id i) \<noteq> None then Inl (Unique_violation ''item_photos.uploadIntentId'')
                  else Inr (item_to_moderation (int_entityId i) now
                         (set_photos (others @ [p]) (db\<lparr>db_next := Suc (db_next db)\<rparr>)), p, True))"

definition confirm_item_photo ::
    "config \<Rightarrow> string \<Rightarrow> confirm_photo_dto \<Rightarrow> timestamp \<Rightarrow> upload_world \<Rightarrow> (upload_world \<times> photo_response) result" where
  "confirm_item_photo config userId dto now w =
     (case List.find (\<lambda>i. int_id i = cp_intentId dto \<and> int_actorId i = userId \<and> int_purpose i = purpose_name Up_ITEM_PHOTO)
             (db_intents (uw_db w)) of
        None \<Rightarrow> Inl (Not_found ''upload-intent'')
      | Some i \<Rightarrow>
          bind_result (ensure_item_photo_binding config i) (\<lambda>_.
          bind_result (ensure_owned_item (uw_db w) userId (int_entityId i)) (\<lambda>_.
          if int_confirmedAt i \<noteq> None
          then (case photo_of_intent (uw_db w) (int_id i) of
                  None \<Rightarrow> Inl (Bad_request ''upload-intent-used'')
                | Some p \<Rightarrow> Inr (w, to_photo_response p))
          else
            bind_result (ensure_no_unfinished_bookings (uw_db w) (int_entityId i)) (\<lambda>_.
            if int_expiresAt i \<le> now then Inl (Bad_request ''upload-intent-expired'')
            else
              bind_result (ensure_uploaded_object (uw_store w) i) (\<lambda>_.
              bind_result (confirm_photo_transaction userId dto i now (uw_db w)) (\<lambda>(db, p, shouldQueue).
              Inr (w\<lparr>uw_db := db,
                     uw_jobs := (if shouldQueue
                       then uw_jobs w @ [\<lparr>pj_itemPhotoId = ph_id p, pj_itemId = ph_itemId p,
                                          pj_sourceBucket = int_bucket i, pj_sourceKey = int_objectKey i\<rparr>]
                       else uw_jobs w)\<rparr>, to_photo_response p)))))))"

section \<open>Avatars\<close>

definition confirm_avatar_transaction :: "string \<Rightarrow> intent_row \<Rightarrow> string \<Rightarrow> timestamp \<Rightarrow> db \<Rightarrow> db result" where
  "confirm_avatar_transaction userId i avatarUrl now db =
     (case consume_intent (\<lambda>x. int_id x = int_id i \<and> int_actorId x = userId \<and> now < int_expiresAt x) now db of
        None \<Rightarrow>
          (if exists_row (\<lambda>x. int_id x = int_id i \<and> int_actorId x = userId \<and> int_purpose x = purpose_name Up_AVATAR
                \<and> int_confirmedAt x \<noteq> None) (db_intents db)
           then Inr db else Inl (Bad_request ''upload-intent-used-or-expired''))
      | Some db \<Rightarrow>
          Inr (db\<lparr>db_users := update_rows (\<lambda>u. us_id u = userId)
                 (\<lambda>u. u\<lparr>us_avatarUrl := Some avatarUrl, us_updatedAt := now\<rparr>) (db_users db)\<rparr>))"

text \<open>A failed deletion of the source is ignored; the cleanup removes it later.\<close>

definition confirm_avatar ::
    "config \<Rightarrow> media_tools \<Rightarrow> string \<Rightarrow> string \<Rightarrow> timestamp \<Rightarrow> upload_world \<Rightarrow> (upload_world \<times> string) result" where
  "confirm_avatar config tools userId intentId now w =
     (case List.find (\<lambda>i. int_id i = intentId \<and> int_actorId i = userId \<and> int_purpose i = purpose_name Up_AVATAR)
             (db_intents (uw_db w)) of
        None \<Rightarrow> Inl (Not_found ''upload-intent'')
      | Some i \<Rightarrow>
          if int_entityId i \<noteq> userId then Inl (Not_found ''upload-intent'')
          else
            bind_result (ensure_avatar_binding config i) (\<lambda>_.
            bind_result (public_bucket config) (\<lambda>publicBucket.
            let publicKey = ''avatars/'' @ userId @ ''/'' @ int_id i @ ''.webp''
            in bind_result (public_url config publicBucket publicKey) (\<lambda>avatarUrl.
               if int_confirmedAt i \<noteq> None then Inr (w, avatarUrl)
               else if int_expiresAt i \<le> now then Inl (Bad_request ''upload-intent-expired'')
               else
                 bind_result (ensure_uploaded_object (uw_store w) i) (\<lambda>_.
                 bind_result (get_object_buffer (uw_store w) (int_bucket i) (int_objectKey i)) (\<lambda>source.
                 case im_variant tools Var_avatar source of
                   None \<Rightarrow> Inl (Plain_error ''sharp'')
                 | Some avatar \<Rightarrow>
                     bind_result (confirm_avatar_transaction userId i avatarUrl now (uw_db w)) (\<lambda>db.
                     Inr (w\<lparr>uw_db := db,
                            uw_store := delete_object (int_bucket i) (int_objectKey i)
                              (put_object publicBucket publicKey avatar ''image/webp'' now (uw_store w))\<rparr>, avatarUrl)))))))) "

section \<open>The worker\<close>

definition variant_key :: "photo_job \<Rightarrow> string \<Rightarrow> string" where
  "variant_key j variant = ''items/'' @ pj_itemId j @ ''/'' @ variant @ ''/'' @ pj_itemPhotoId j @ ''.webp''"

definition process_item_photo ::
    "config \<Rightarrow> media_tools \<Rightarrow> photo_job \<Rightarrow> timestamp \<Rightarrow> upload_world \<Rightarrow> upload_world result" where
  "process_item_photo config tools j now w =
     (if \<not> exists_row (\<lambda>p. ph_id p = pj_itemPhotoId j \<and> ph_itemId p = pj_itemId j
            \<and> exists_row (\<lambda>i. it_id i = ph_itemId p
                 \<and> exists_row (\<lambda>u. us_id u = it_ownerId i \<and> \<not> us_isBlocked u \<and> us_deletedAt u = None) (db_users (uw_db w)))
                 (db_items (uw_db w))) (db_photos (uw_db w))
      then Inr w
      else
        bind_result (get_object_buffer (uw_store w) (pj_sourceBucket j) (pj_sourceKey j)) (\<lambda>source.
        bind_result (public_bucket config) (\<lambda>bucket.
        case (im_variant tools Var_original source, im_variant tools Var_thumbnail source, im_variant tools Var_preview source) of
          (Some original, Some thumbnail, Some preview) \<Rightarrow>
            let store = put_object bucket (variant_key j ''original'') original ''image/webp'' now (uw_store w);
                store = put_object bucket (variant_key j ''thumbnail'') thumbnail ''image/webp'' now store;
                store = put_object bucket (variant_key j ''preview'') preview ''image/webp'' now store
            in bind_result (public_url config bucket (variant_key j ''original'')) (\<lambda>originalUrl.
               bind_result (public_url config bucket (variant_key j ''thumbnail'')) (\<lambda>thumbnailUrl.
               bind_result (public_url config bucket (variant_key j ''preview'')) (\<lambda>previewUrl.
               Inr (w\<lparr>uw_db := set_photos (update_rows (\<lambda>p. ph_id p = pj_itemPhotoId j)
                         (\<lambda>p. p\<lparr>ph_originalUrl := Some originalUrl, ph_thumbnailUrl := Some thumbnailUrl,
                               ph_previewUrl := Some previewUrl\<rparr>) (db_photos (uw_db w))) (uw_db w),
                      uw_store := delete_object (pj_sourceBucket j) (pj_sourceKey j) store\<rparr>))))
        | _ \<Rightarrow> Inl (Plain_error ''sharp''))))"

section \<open>The cleanup of the quarantine\<close>

definition UPLOAD_INTENT_CLEANUP_GRACE_MS :: int where
  "UPLOAD_INTENT_CLEANUP_GRACE_MS = 24 * 60 * 60 * 1000"

definition REJECTED_UPLOAD_RETENTION_MS :: int where
  "REJECTED_UPLOAD_RETENTION_MS = 7 * 24 * 60 * 60 * 1000"

definition cleaned_purposes :: "string list" where
  "cleaned_purposes = [purpose_name Up_ITEM_PHOTO, purpose_name Up_AVATAR, purpose_name Up_DISPUTE_EVIDENCE]"

definition cleanup_photo :: "db \<Rightarrow> intent_row \<Rightarrow> photo_row option" where
  "cleanup_photo db i =
     (if int_confirmedAt i \<noteq> None \<and> int_purpose i = purpose_name Up_ITEM_PHOTO then photo_of_intent db (int_id i) else None)"

text \<open>A photo row counts as published when its original URL is there and not empty.\<close>

definition published_photo :: "photo_row option \<Rightarrow> bool" where
  "published_photo p = (case p of None \<Rightarrow> False | Some p \<Rightarrow> ph_originalUrl p \<noteq> None \<and> ph_originalUrl p \<noteq> Some [])"

definition rejected_upload :: "db \<Rightarrow> timestamp \<Rightarrow> intent_row \<Rightarrow> bool" where
  "rejected_upload db now i \<longleftrightarrow> int_purpose i = purpose_name Up_ITEM_PHOTO \<and> \<not> published_photo (cleanup_photo db i)
     \<and> (case int_confirmedAt i of None \<Rightarrow> False | Some t \<Rightarrow> t \<le> now - REJECTED_UPLOAD_RETENTION_MS)"

definition expired_upload :: "db \<Rightarrow> timestamp \<Rightarrow> intent_row \<Rightarrow> bool" where
  "expired_upload db now i \<longleftrightarrow> int_expiresAt i \<le> now - UPLOAD_INTENT_CLEANUP_GRACE_MS
     \<and> (if int_purpose i = purpose_name Up_DISPUTE_EVIDENCE then int_confirmedAt i = None
        else int_confirmedAt i = None \<or> cleanup_photo db i = None \<or> published_photo (cleanup_photo db i))"

text \<open>
  One intent of the loop; \<open>fails key\<close> says that the storage refuses to delete an object, which
  leaves the rows for the next run.
\<close>

definition clean_intent ::
    "(string \<Rightarrow> bool) \<Rightarrow> string \<Rightarrow> timestamp \<Rightarrow> intent_row \<Rightarrow> upload_world \<times> nat \<Rightarrow> upload_world \<times> nat" where
  "clean_intent fails bucket now i s =
     (case s of (w, deleted) \<Rightarrow>
        if \<not> rejected_upload (uw_db w) now i \<and> \<not> expired_upload (uw_db w) now i then (w, deleted)
        else if fails (int_objectKey i) then (w, deleted)
        else
          let db = (if rejected_upload (uw_db w) now i
                    then set_photos (filter (\<lambda>p. \<not> (ph_uploadIntentId p = Some (int_id i) \<and> ph_originalUrl p = None))
                           (db_photos (uw_db w))) (uw_db w)
                    else uw_db w)
          in (w\<lparr>uw_db := db\<lparr>db_intents := filter (\<lambda>x. int_id x \<noteq> int_id i) (db_intents db)\<rparr>,
                uw_store := delete_object bucket (int_objectKey i) (uw_store w)\<rparr>, Suc deleted))"

definition clean_orphan ::
    "(string \<Rightarrow> bool) \<Rightarrow> string \<Rightarrow> string list \<Rightarrow> timestamp \<Rightarrow> string \<times> timestamp option \<Rightarrow> upload_world \<times> nat \<Rightarrow> upload_world \<times> nat" where
  "clean_orphan fails bucket known cutoff x s =
     (case (x, s) of ((key, lastModified), (w, deleted)) \<Rightarrow>
        if key \<in> set known then (w, deleted)
        else case lastModified of
          None \<Rightarrow> (w, deleted)
        | Some t \<Rightarrow>
            if cutoff < t \<or> fails key then (w, deleted)
            else (w\<lparr>uw_store := delete_object bucket key (uw_store w)\<rparr>, Suc deleted))"

definition cleanup_expired_uploads ::
    "config \<Rightarrow> (string \<Rightarrow> bool) \<Rightarrow> timestamp \<Rightarrow> upload_world \<Rightarrow> (upload_world \<times> nat) result" where
  "cleanup_expired_uploads config fails now w =
     bind_result (private_bucket config) (\<lambda>bucket.
     let listed = list_objects (uw_store w) bucket ''quarantine/'';
         intents = filter (\<lambda>i. int_purpose i \<in> set cleaned_purposes) (db_intents (uw_db w));
         known = map int_objectKey intents;
         s = fold (clean_intent fails bucket now) intents (w, 0)
     in Inr (fold (clean_orphan fails bucket known (now - UPLOAD_INTENT_CLEANUP_GRACE_MS)) listed s))"

end
