(* ===== verification/Upload_Properties.thy ===== *)
theory Upload_Properties
  imports Upload_Processing Sample_Data
begin

text \<open>
  What the handling of files guarantees: an intent admits exactly the file it was asked for, an
  item keeps at most five photos and one cover, and what the cleanup of the quarantine removes.
\<close>

section \<open>An intent and its file\<close>

definition slash_free_ids :: "db \<Rightarrow> bool" where
  "slash_free_ids db \<longleftrightarrow> CHR ''/'' \<notin> set (fresh_id db)"

lemma extension_slash_free: "content_extension t = Some e \<Longrightarrow> CHR ''/'' \<notin> set e"
  by (auto simp: content_extension_def split: if_splits)

lemma create_presigned_uploadD:
  assumes "create_presigned_upload config tools userId dto entityId pre now db = Inr (db', r)" and "slash_free_ids db"
  obtains i where "db' = db\<lparr>db_next := Suc (Suc (db_next db)), db_intents := db_intents db @ [i]\<rparr>"
    "int_id i = pu_intentId r" "int_actorId i = userId" "int_purpose i = purpose_name (ru_purpose dto)"
    "int_entityId i = entityId" "int_bucket i = pu_bucket r" "int_objectKey i = pu_key r"
    "int_contentType i = ru_contentType dto" "int_sizeBytes i = ru_sizeBytes dto"
    "int_expiresAt i = now + 900000" "int_confirmedAt i = None"
    "ensure_binding config pre i = Inr ()" "\<forall>x \<in> set (db_intents db). int_objectKey x \<noteq> pu_key r"
proof -
  from assms(1) obtain bucket e where b: "private_bucket config = Inr bucket"
    and e: "get_extension (ru_contentType dto) = Inr e"
    by (auto simp: create_presigned_upload_def bind_result_Inr_iff)
  let ?key = "pre @ fresh_id db @ ''.'' @ e"
  let ?i = "\<lparr>int_id = fresh_id (db\<lparr>db_next := Suc (db_next db)\<rparr>), int_actorId = userId,
     int_purpose = purpose_name (ru_purpose dto), int_entityId = entityId, int_bucket = bucket, int_objectKey = ?key,
     int_contentType = ru_contentType dto, int_sizeBytes = ru_sizeBytes dto,
     int_expiresAt = now + int PRESIGNED_UPLOAD_EXPIRES_SECONDS * 1000, int_confirmedAt = None\<rparr>"
  have x: "content_extension (ru_contentType dto) = Some e" using e by (auto simp: get_extension_def split: option.splits)
  have u: "\<forall>x \<in> set (db_intents db). int_objectKey x \<noteq> ?key"
    and d: "db' = db\<lparr>db_next := Suc (Suc (db_next db)), db_intents := db_intents db @ [?i]\<rparr>"
    and r: "pu_intentId r = int_id ?i" "pu_bucket r = bucket" "pu_key r = ?key"
    using assms(1) b e by (auto simp: create_presigned_upload_def Let_def split: if_splits)
  have "ensure_binding config pre ?i = Inr ()"
    using b e extension_slash_free [OF x] assms(2)
    by (auto simp: ensure_binding_def Let_def slash_free_ids_def suffix_def)
  then show thesis
    using d r u by (intro that [of ?i]) (simp_all add: PRESIGNED_UPLOAD_EXPIRES_SECONDS_def)
qed

text \<open>What the client must have posted for an intent.\<close>

definition posted :: "s3_store \<Rightarrow> presigned_upload \<Rightarrow> byte list \<Rightarrow> bool" where
  "posted store r bytes \<longleftrightarrow>
     (case find_object store (pu_bucket r) (pu_key r) of
        None \<Rightarrow> False
      | Some x \<Rightarrow> so_bytes x = bytes \<and> so_contentType x = Some (pu_contentType r) \<and> int (length bytes) = pu_sizeBytes r)
     \<and> has_expected_magic_bytes (pu_contentType r) (take 12 bytes)"

text \<open>
  C23. Upload and use fit together: after a participant asked to upload booking evidence and posted
  an image of the announced type and size, the verification within the 15 minutes of the intent
  succeeds, stores the re-encoded image under the same key and returns the hash of exactly that
  image.
\<close>

theorem evidence_upload_roundtrip:
  assumes "request_upload_url config tools userId dto now db = Inr (db', r)"
    and "ru_purpose dto = Up_BOOKING_EVIDENCE" and "ru_bookingId dto = Some bookingId"
    and "slash_free_ids db" and "\<forall>i \<in> set (db_intents db). int_id i \<noteq> pu_intentId r"
    and "posted store r bytes" and "im_sanitize tools (ru_contentType dto) bytes = Some out"
    and "later < now + 15 * 60 * 1000"
  shows "verify_booking_evidence_intent config tools db' userId bookingId (pu_intentId r) later store =
    Inr (put_object (pu_bucket r) (pu_key r) out (ru_contentType dto) later store,
         \<lparr>vu_intentId = pu_intentId r, vu_objectKey = pu_key r, vu_sha256 = im_sha256 tools out\<rparr>)"
proof -
  from assms(1-3) have p: "ensure_booking_participant db userId bookingId = Inr ()"
    and c: "create_presigned_upload config tools userId dto bookingId (booking_quarantine_prefix bookingId userId) now db
      = Inr (db', r)"
    by (auto simp: request_upload_url_def create_booking_evidence_upload_def bind_result_Inr_iff split: if_splits)
  have rt: "pu_contentType r = ru_contentType dto" "pu_sizeBytes r = ru_sizeBytes dto"
    using c by (auto simp: create_presigned_upload_def bind_result_Inr_iff Let_def split: if_splits)
  from create_presigned_uploadD [OF c assms(4)] obtain i where
    d: "db' = db\<lparr>db_next := Suc (Suc (db_next db)), db_intents := db_intents db @ [i]\<rparr>"
    and i: "int_id i = pu_intentId r" "int_actorId i = userId" "int_purpose i = purpose_name (ru_purpose dto)"
      "int_entityId i = bookingId" "int_bucket i = pu_bucket r" "int_objectKey i = pu_key r"
      "int_contentType i = ru_contentType dto" "int_sizeBytes i = ru_sizeBytes dto" "int_expiresAt i = now + 900000"
      "int_confirmedAt i = None" and b: "ensure_binding config (booking_quarantine_prefix bookingId userId) i = Inr ()"
    by blast
  have n: "List.find (\<lambda>x. int_id x = pu_intentId r \<and> q x) (db_intents db) = None" for q
    using assms(5) by (auto simp: find_None_iff_ball)
  have "pending_intent db' (pu_intentId r) userId bookingId Up_BOOKING_EVIDENCE later = Some i"
    using assms(2,8) by (simp add: pending_intent_def d find_append n i)
  moreover have "ensure_booking_participant db' userId bookingId = Inr ()"
    using p by (simp add: ensure_booking_participant_def d)
  moreover have "verify_private_image tools i later store =
    Inr (put_object (pu_bucket r) (pu_key r) out (ru_contentType dto) later store,
         \<lparr>vu_intentId = pu_intentId r, vu_objectKey = pu_key r, vu_sha256 = im_sha256 tools out\<rparr>)"
    using assms(6,7) by (auto simp: verify_private_image_def ensure_uploaded_object_def inspect_uploaded_object_def
        get_object_buffer_def sanitize_private_image_def posted_def i rt split: option.splits)
  ultimately show ?thesis
    using b by (simp add: verify_booking_evidence_intent_def ensure_booking_evidence_binding_def i)
qed

definition sample_media_tools :: media_tools where
  "sample_media_tools = \<lparr>im_sanitize = (\<lambda>_ bytes. Some (0 # bytes)), im_variant = (\<lambda>_ bytes. Some bytes),
     im_sha256 = (\<lambda>_. ''hash''), im_downloadUrl = (\<lambda>b k _. b @ k), im_postUrl = (\<lambda>b k _ _ _. b @ k)\<rparr>"

definition storage_config :: config where
  "storage_config = [''S3_BUCKET_PRIVATE'' \<mapsto> ''private'', ''S3_BUCKET_PUBLIC'' \<mapsto> ''public'',
     ''S3_ENDPOINT'' \<mapsto> ''https://s3'']"

definition evidence_request :: request_upload_dto where
  "evidence_request = \<lparr>ru_purpose = Up_BOOKING_EVIDENCE, ru_contentType = ''image/jpeg'', ru_sizeBytes = 3,
     ru_itemId = None, ru_bookingId = Some ''b1'', ru_disputeId = None, ru_supportTicketId = None\<rparr>"

definition rented_db :: db where
  "rented_db = sample_db\<lparr>db_bookings := [sample_booking ''b1'' Bk_ACTIVE 0 None], db_intents := []\<rparr>"

definition evidence_presigned :: presigned_upload where
  "evidence_presigned = \<lparr>pu_intentId = ''ii'', pu_uploadUrl = ''privatequarantine/booking-evidence/b1/B/i.jpg'',
     pu_bucket = ''private'', pu_key = ''quarantine/booking-evidence/b1/B/i.jpg'', pu_expiresInSeconds = 900,
     pu_contentType = ''image/jpeg'', pu_sizeBytes = 3\<rparr>"

definition evidence_store :: s3_store where
  "evidence_store = [\<lparr>so_bucket = ''private'', so_key = ''quarantine/booking-evidence/b1/B/i.jpg'',
     so_bytes = [0xFF, 0xD8, 0xFF], so_contentType = Some ''image/jpeg'', so_lastModified = Some SAMPLE_NOW\<rparr>]"

lemma sample_evidence_request:
  obtains db' where
    "request_upload_url storage_config sample_media_tools ''B'' evidence_request SAMPLE_NOW rented_db = Inr (db', evidence_presigned)"
proof -
  have "map_sum id snd (request_upload_url storage_config sample_media_tools ''B'' evidence_request SAMPLE_NOW rented_db)
    = Inr evidence_presigned"
    by code_simp
  then show thesis using that
    by (cases "request_upload_url storage_config sample_media_tools ''B'' evidence_request SAMPLE_NOW rented_db") auto
qed

theorem evidence_upload_roundtrip_witness:
  "\<exists>db'. request_upload_url storage_config sample_media_tools ''B'' evidence_request SAMPLE_NOW rented_db = Inr (db', evidence_presigned)
     \<and> is_ok (verify_booking_evidence_intent storage_config sample_media_tools db' ''B'' ''b1'' ''ii'' (SAMPLE_NOW + 1) evidence_store)"
proof -
  obtain db' where r: "request_upload_url storage_config sample_media_tools ''B'' evidence_request SAMPLE_NOW rented_db
    = Inr (db', evidence_presigned)" by (rule sample_evidence_request)
  have "posted evidence_store evidence_presigned [0xFF, 0xD8, 0xFF]" by code_simp
  moreover have "slash_free_ids rented_db" by (simp add: slash_free_ids_def rented_db_def fresh_id_def sample_db_def sample_supply_def)
  ultimately show ?thesis
    using r evidence_upload_roundtrip [OF r, of "''b1''" evidence_store "[0xFF, 0xD8, 0xFF]" "[0, 0xFF, 0xD8, 0xFF]" "SAMPLE_NOW + 1"]
    by (auto simp: evidence_request_def rented_db_def sample_media_tools_def evidence_presigned_def)
qed

section \<open>Photos of an item\<close>

definition photos_ok :: "db \<Rightarrow> bool" where
  "photos_ok db \<longleftrightarrow>
     (\<forall>itemId. count_rows (\<lambda>p. ph_itemId p = itemId) (db_photos db) \<le> MAX_ITEM_PHOTO_COUNT
        \<and> count_rows (\<lambda>p. ph_itemId p = itemId \<and> ph_isCover p) (db_photos db) \<le> 1)"

lemma item_to_moderation_frame [simp]:
  "db_catalog (item_to_moderation i now db) = db_catalog db" "db_intents (item_to_moderation i now db) = db_intents db"
  "db_bookings (item_to_moderation i now db) = db_bookings db"
  by (simp_all add: item_to_moderation_def)

lemma set_photos_frame [simp]:
  "db_photos (set_photos ps db) = ps" "db_intents (set_photos ps db) = db_intents db" "db_items (set_photos ps db) = db_items db"
  "db_bookings (set_photos ps db) = db_bookings db"
  by (simp_all add: set_photos_def)

lemma confirm_photo_transactionE:
  assumes "confirm_photo_transaction userId dto i now db = Inr (db', p, queued)"
  obtains (replay) "db' = db" "photo_of_intent db (int_id i) = Some p" "\<not> queued"
  | (created) hit cover d n where "p = new_photo dto i n cover d" "queued"
      "n = count_rows (\<lambda>p. ph_itemId p = int_entityId i) (db_photos db)" "n < MAX_ITEM_PHOTO_COUNT"
      "photo_of_intent db (int_id i) = None"
      "db_photos db' = (if cover then update_rows (\<lambda>p. ph_itemId p = int_entityId i) (\<lambda>p. p\<lparr>ph_isCover := False\<rparr>) (db_photos db)
         else db_photos db) @ [p]"
      "db_intents db' = update_rows hit (\<lambda>x. x\<lparr>int_confirmedAt := Some now\<rparr>) (db_intents db)"
      "hit = (\<lambda>x. (int_id x = int_id i \<and> int_actorId x = userId \<and> now < int_expiresAt x) \<and> int_confirmedAt x = None)"
      "map (\<lambda>i. (it_id i, it_ownerId i)) (db_items db') = map (\<lambda>i. (it_id i, it_ownerId i)) (db_items db)"
proof (cases "consume_intent (\<lambda>x. int_id x = int_id i \<and> int_actorId x = userId \<and> now < int_expiresAt x) now db")
  case None
  then show ?thesis using assms by (intro replay) (auto simp: confirm_photo_transaction_def split: option.splits)
next
  case (Some d)
  let ?hit = "\<lambda>x. (int_id x = int_id i \<and> int_actorId x = userId \<and> now < int_expiresAt x) \<and> int_confirmedAt x = None"
  have d: "d = db\<lparr>db_intents := update_rows ?hit (\<lambda>x. x\<lparr>int_confirmedAt := Some now\<rparr>) (db_intents db)\<rparr>"
    using Some by (auto simp: consume_intent_def Let_def split: if_splits)
  let ?n = "count_rows (\<lambda>p. ph_itemId p = int_entityId i) (db_photos db)"
  define cover where "cover = (case cp_isCover dto of None \<Rightarrow> ?n = 0 | Some c \<Rightarrow> c)"
  define qs where "qs = (if cover then update_rows (\<lambda>p. ph_itemId p = int_entityId i) (\<lambda>p. p\<lparr>ph_isCover := False\<rparr>) (db_photos db)
      else db_photos db)"
  have ps: "db_photos d = db_photos db" by (simp add: d)
  have n: "?n < MAX_ITEM_PHOTO_COUNT" and u: "photo_of_intent d (int_id i) = None"
    and r: "p = new_photo dto i ?n cover d" "queued"
    "db' = item_to_moderation (int_entityId i) now (set_photos (qs @ [new_photo dto i ?n cover d]) (d\<lparr>db_next := Suc (db_next d)\<rparr>))"
    using assms Some unfolding confirm_photo_transaction_def
    by (simp_all only: option.case Let_def ps cover_def [symmetric] qs_def [symmetric] split: if_split_asm)
      auto
  have u': "photo_of_intent db (int_id i) = None" using u by (simp add: photo_of_intent_def ps)
  show ?thesis
    by (rule created [of ?n cover d ?hit])
      (use n r u' in \<open>simp_all add: qs_def d item_to_moderation_def update_rows_def\<close>)
qed

lemma count_rows_map: "(\<And>x. x \<in> set rs \<Longrightarrow> p (f x) = q x) \<Longrightarrow> count_rows p (map f rs) = count_rows q rs"
  by (induction rs) (auto simp: count_rows_def)

lemma confirm_transaction_photos_ok:
  assumes "confirm_photo_transaction userId dto i now db = Inr (db', p, queued)" and "photos_ok db"
  shows "photos_ok db'"
  using assms(1)
proof (cases rule: confirm_photo_transactionE)
  case replay
  then show ?thesis using assms(2) by simp
next
  case (created hit cover d n)
  let ?clear = "\<lambda>p. p\<lparr>ph_isCover := False\<rparr>"
  let ?here = "\<lambda>p. ph_itemId p = int_entityId i"
  have item: "ph_itemId p = int_entityId i" "ph_isCover p = cover" by (simp_all add: created(1) new_photo_def)
  have total: "count_rows (\<lambda>p. ph_itemId p = itemId) (update_rows ?here ?clear (db_photos db))
      = count_rows (\<lambda>p. ph_itemId p = itemId) (db_photos db)" for itemId
    unfolding update_rows_def by (rule count_rows_map) simp
  have covers: "count_rows (\<lambda>p. ph_itemId p = itemId \<and> ph_isCover p) (update_rows ?here ?clear (db_photos db))
      = (if itemId = int_entityId i then 0 else count_rows (\<lambda>p. ph_itemId p = itemId \<and> ph_isCover p) (db_photos db))" for itemId
  proof (cases "itemId = int_entityId i")
    case True
    then show ?thesis by (auto simp: count_rows_zero_iff elim!: in_update_rowsE)
  next
    case False
    then show ?thesis unfolding update_rows_def by (simp, intro count_rows_map) auto
  qed
  show ?thesis
    using assms(2) created(3,4) unfolding photos_ok_def created(6)
    by (cases cover) (auto simp: total covers item)
qed

text \<open>
  C24. An item has at most five photos and one cover, and one photo per upload: a confirmation keeps
  these bounds, and confirming the same intent again, at any later time and with any options,
  answers with the same photo and changes nothing.
\<close>

theorem item_photos_bounded:
  assumes "confirm_item_photo config userId dto now w = Inr (w', r)" and "photos_ok (uw_db w)"
    and "distinct (map int_id (db_intents (uw_db w)))"
  shows "photos_ok (uw_db w')
    \<and> (cp_intentId dto' = cp_intentId dto \<longrightarrow> confirm_item_photo config userId dto' later w' = Inr (w', r))"
proof -
  let ?mine = "\<lambda>i. int_id i = cp_intentId dto \<and> int_actorId i = userId \<and> int_purpose i = purpose_name Up_ITEM_PHOTO"
  from assms(1) obtain i where i: "List.find ?mine (db_intents (uw_db w)) = Some i"
    and b: "ensure_item_photo_binding config i = Inr ()" "ensure_owned_item (uw_db w) userId (int_entityId i) = Inr ()"
    by (auto simp: confirm_item_photo_def bind_result_Inr_iff split: option.splits)
  note m = find_SomeD [OF i]
  show ?thesis
  proof (cases "int_confirmedAt i")
    case (Some t)
    then have "w' = w" using assms(1) i b by (auto simp: confirm_item_photo_def split: option.splits)
    then show ?thesis using assms(1,2) i b Some by (auto simp: confirm_item_photo_def)
  next
    case None
    obtain db' p queued where e: "now < int_expiresAt i"
      and tx: "confirm_photo_transaction userId dto i now (uw_db w) = Inr (db', p, queued)"
      and w': "uw_db w' = db'" and r: "r = to_photo_response p"
      using assms(1) i b None by (auto simp: confirm_item_photo_def bind_result_Inr_iff split: if_splits)
    have ok: "photos_ok db'" by (rule confirm_transaction_photos_ok [OF tx assms(2)])
    let ?hit = "\<lambda>x. (int_id x = int_id i \<and> int_actorId x = userId \<and> now < int_expiresAt x) \<and> int_confirmedAt x = None"
    have "count_rows ?hit (db_intents (uw_db w)) = 1"
    proof (rule count_rows_one [OF assms(3)])
      show "i \<in> set (db_intents (uw_db w))" using m by blast
      fix x assume "x \<in> set (db_intents (uw_db w))"
      then show "?hit x \<longleftrightarrow> int_id x = int_id i"
        using distinct_key_eq [OF assms(3), of x i] m None e by auto
    qed
    then have c: "consume_intent (\<lambda>x. int_id x = int_id i \<and> int_actorId x = userId \<and> now < int_expiresAt x) now (uw_db w) \<noteq> None"
      by (simp add: consume_intent_def Let_def)
    from tx show ?thesis
    proof (cases rule: confirm_photo_transactionE)
      case replay
      then show ?thesis using tx c by (auto simp: confirm_photo_transaction_def Let_def split: option.splits if_splits)
    next
      case (created hit cover d n)
      have "List.find ?mine (db_intents db') = map_option (\<lambda>r. if hit r then r\<lparr>int_confirmedAt := Some now\<rparr> else r) (Some i)"
        unfolding created(7) i [symmetric] by (rule find_update_rows) simp
      then have f: "List.find ?mine (db_intents db') = Some (i\<lparr>int_confirmedAt := Some now\<rparr>)"
        using m None e created(8) by simp
      have "ensure_owned_item db' userId (int_entityId i) = Inr ()"
      proof -
        obtain x where "x \<in> set (db_items (uw_db w))" "it_id x = int_entityId i" "it_ownerId x = userId"
          using b(2) by (auto simp: ensure_owned_item_def split: if_splits)
        then have "(int_entityId i, userId) \<in> set (map (\<lambda>i. (it_id i, it_ownerId i)) (db_items db'))"
          unfolding created(9) by (auto simp: image_iff intro!: bexI [of _ x])
        then show ?thesis by (auto simp: ensure_owned_item_def)
      qed
      moreover have "ensure_item_photo_binding config (i\<lparr>int_confirmedAt := Some now\<rparr>) = Inr ()"
        using b(1) by (simp add: ensure_item_photo_binding_def ensure_binding_def)
      moreover have "photo_of_intent db' (int_id i) = Some p"
      proof -
        have old: "List.find (\<lambda>p. ph_uploadIntentId p = Some (int_id i)) (db_photos (uw_db w)) = None"
          using created(5) by (simp add: photo_of_intent_def)
        have p: "ph_uploadIntentId p = Some (int_id i)" by (simp add: created(1) new_photo_def)
        have "List.find (\<lambda>p. ph_uploadIntentId p = Some (int_id i))
            (update_rows (\<lambda>p. ph_itemId p = int_entityId i) (\<lambda>p. p\<lparr>ph_isCover := False\<rparr>) (db_photos (uw_db w))) = None"
          using old by (subst find_update_rows) simp_all
        then show ?thesis
          using old p unfolding photo_of_intent_def created(6) find_append by (cases cover) simp_all
      qed
      ultimately have "confirm_item_photo config userId dto' later w' = Inr (w', r)" if "cp_intentId dto' = cp_intentId dto"
        unfolding confirm_item_photo_def that w' f by (simp add: r)
      then show ?thesis using ok w' by blast
    qed
  qed
qed

definition photo_intent :: intent_row where
  "photo_intent = \<lparr>int_id = ''p'', int_actorId = ''L'', int_purpose = ''ITEM_PHOTO'', int_entityId = ''I'',
     int_bucket = ''private'', int_objectKey = ''quarantine/item-photos/I/x.jpg'', int_contentType = ''image/jpeg'',
     int_sizeBytes = 3, int_expiresAt = SAMPLE_NOW + 60000, int_confirmedAt = None\<rparr>"

definition photo_world :: upload_world where
  "photo_world = \<lparr>uw_db = sample_db\<lparr>db_intents := [photo_intent]\<rparr>,
     uw_store = [\<lparr>so_bucket = ''private'', so_key = ''quarantine/item-photos/I/x.jpg'', so_bytes = [0xFF, 0xD8, 0xFF],
        so_contentType = Some ''image/jpeg'', so_lastModified = Some SAMPLE_NOW\<rparr>],
     uw_jobs = []\<rparr>"

definition photo_dto :: confirm_photo_dto where
  "photo_dto = \<lparr>cp_intentId = ''p'', cp_sortOrder = None, cp_isCover = None\<rparr>"

theorem item_photos_bounded_witness:
  "\<exists>w' r. confirm_item_photo storage_config ''L'' photo_dto SAMPLE_NOW photo_world = Inr (w', r)
     \<and> confirm_item_photo storage_config ''L'' photo_dto (SAMPLE_NOW + 600000) w' = Inr (w', r)"
proof -
  have "is_ok (confirm_item_photo storage_config ''L'' photo_dto SAMPLE_NOW photo_world)" by code_simp
  then obtain w' r where r: "confirm_item_photo storage_config ''L'' photo_dto SAMPLE_NOW photo_world = Inr (w', r)"
    by (auto simp: is_ok_def split: sum.splits)
  have "photos_ok (uw_db photo_world)" by (simp add: photos_ok_def photo_world_def sample_db_def count_rows_def)
  moreover have "distinct (map int_id (db_intents (uw_db photo_world)))" by (simp add: photo_world_def)
  ultimately show ?thesis using item_photos_bounded [OF r, of photo_dto "SAMPLE_NOW + 600000"] r by blast
qed

section \<open>The cleanup\<close>

lemma clean_intent_store:
  "find_object (uw_store (fst (clean_intent fails bucket now i (w, n)))) b k =
     (if b = bucket \<and> k = int_objectKey i \<and> \<not> fails k
         \<and> (rejected_upload (uw_db w) now i \<or> expired_upload (uw_db w) now i)
      then None else find_object (uw_store w) b k)"
  by (auto simp: clean_intent_def Let_def)

lemma clean_orphan_store:
  "find_object (uw_store (fst (clean_orphan fails bucket known cutoff (key, t) (w, n)))) b k =
     (if b = bucket \<and> k = key \<and> key \<notin> set known \<and> \<not> fails key \<and> (\<exists>m. t = Some m \<and> m \<le> cutoff)
      then None else find_object (uw_store w) b k)"
  by (auto simp: clean_orphan_def split: option.splits)

lemma clean_intents_other:
  assumes "\<And>i. i \<in> set is \<Longrightarrow> b = bucket \<Longrightarrow> int_objectKey i \<noteq> k"
  shows "find_object (uw_store (fst (fold (clean_intent fails bucket now) is s))) b k = find_object (uw_store (fst s)) b k"
  using assms
proof (induction "is" arbitrary: s)
  case (Cons i "is")
  have "find_object (uw_store (fst (clean_intent fails bucket now i (fst s, snd s)))) b k = find_object (uw_store (fst s)) b k"
    using Cons.prems [of i] by (auto simp only: clean_intent_store list.set_intros split: if_splits)
  then show ?case using Cons by simp
qed simp

lemma clean_orphans_store:
  "find_object (uw_store (fst (fold (clean_orphan fails bucket known cutoff) xs s))) b k =
     (if \<exists>t. (k, t) \<in> set xs \<and> b = bucket \<and> k \<notin> set known \<and> \<not> fails k \<and> (\<exists>m. t = Some m \<and> m \<le> cutoff)
      then None else find_object (uw_store (fst s)) b k)"
proof (induction xs arbitrary: s)
  case (Cons x xs)
  obtain key t where x: "x = (key, t)" by (cases x)
  have "find_object (uw_store (fst (clean_orphan fails bucket known cutoff (key, t) (fst s, snd s)))) b k =
     (if b = bucket \<and> k = key \<and> key \<notin> set known \<and> \<not> fails key \<and> (\<exists>m. t = Some m \<and> m \<le> cutoff)
      then None else find_object (uw_store (fst s)) b k)"
    by (rule clean_orphan_store)
  then show ?case using Cons.IH [of "clean_orphan fails bucket known cutoff x s"] by (auto simp: x)
qed simp

lemma listed_object:
  assumes "distinct (map (\<lambda>x. (so_bucket x, so_key x)) store)"
  shows "(key, t) \<in> set (list_objects store bucket pre) \<longleftrightarrow>
    prefix pre key \<and> key \<noteq> [] \<and> (\<exists>x. find_object store bucket key = Some x \<and> so_lastModified x = t)"
proof -
  have f: "find_object store bucket key = Some x \<longleftrightarrow> x \<in> set store \<and> so_bucket x = bucket \<and> so_key x = key" for x
    using find_key_distinct [OF assms, of "(bucket, key)" x] by (simp add: find_object_def)
  show ?thesis unfolding f list_objects_def by (auto simp: image_iff)
qed

text \<open>
  What the cleanup removes from the storage: an object of the private bucket under the
  quarantine prefix that no intent for a photo, an avatar or dispute evidence names disappears
  exactly when it is at least a day old and the storage deletes it; objects outside the private
  bucket, and objects outside the quarantine that no such intent names, stay as they are.
\<close>

theorem cleanup_removes:
  assumes "cleanup_expired_uploads config fails now w = Inr (w', n)" and "private_bucket config = Inr bucket"
    and "distinct (map (\<lambda>x. (so_bucket x, so_key x)) (uw_store w))"
    and "\<forall>i \<in> set (db_intents (uw_db w)). int_purpose i \<in> set cleaned_purposes \<longrightarrow> int_objectKey i \<noteq> key"
  shows "find_object (uw_store w') b key =
    (if b = bucket \<and> prefix ''quarantine/'' key \<and> \<not> fails key
        \<and> (\<exists>x m. find_object (uw_store w) b key = Some x \<and> so_lastModified x = Some m \<and> m \<le> now - 24 * 3600 * 1000)
     then None else find_object (uw_store w) b key)"
proof -
  let ?intents = "filter (\<lambda>i. int_purpose i \<in> set cleaned_purposes) (db_intents (uw_db w))"
  let ?listed = "list_objects (uw_store w) bucket ''quarantine/''"
  have k: "key \<notin> set (map int_objectKey ?intents)" using assms(4) by auto
  have listed: "(\<exists>t. (key, t) \<in> set ?listed \<and> b = bucket \<and> key \<notin> set (map int_objectKey ?intents) \<and> \<not> fails key
       \<and> (\<exists>m. t = Some m \<and> m \<le> now - UPLOAD_INTENT_CLEANUP_GRACE_MS))
     \<longleftrightarrow> b = bucket \<and> prefix ''quarantine/'' key \<and> \<not> fails key
        \<and> (\<exists>x m. find_object (uw_store w) b key = Some x \<and> so_lastModified x = Some m \<and> m \<le> now - 24 * 3600 * 1000)"
    using k by (cases "key = []") (auto simp: listed_object [OF assms(3)] UPLOAD_INTENT_CLEANUP_GRACE_MS_def)
  have "w' = fst (fold (clean_orphan fails bucket (map int_objectKey ?intents) (now - UPLOAD_INTENT_CLEANUP_GRACE_MS)) ?listed
      (fold (clean_intent fails bucket now) ?intents (w, 0)))"
    using assms(1,2) by (auto simp: cleanup_expired_uploads_def Let_def)
  then show ?thesis
    unfolding clean_orphans_store using listed k clean_intents_other [of ?intents b bucket key fails now "(w, 0)"]
    by (auto simp: clean_orphans_store)
qed

definition DAY_LATER :: timestamp where
  "DAY_LATER = SAMPLE_NOW + 25 * 3600 * 1000"

lemma cleanup_ok: "is_ok (cleanup_expired_uploads storage_config (\<lambda>_. False) now w)"
  by (simp add: cleanup_expired_uploads_def private_bucket_def required_storage_config_def storage_config_def Let_def)

theorem cleanup_removes_witness:
  "\<exists>w' n. cleanup_expired_uploads storage_config (\<lambda>_. False) DAY_LATER (photo_world\<lparr>uw_db := sample_db\<rparr>) = Inr (w', n)
     \<and> find_object (uw_store w') ''private'' ''quarantine/item-photos/I/x.jpg'' = None"
proof -
  let ?w = "photo_world\<lparr>uw_db := sample_db\<rparr>"
  obtain w' n where r: "cleanup_expired_uploads storage_config (\<lambda>_. False) DAY_LATER ?w = Inr (w', n)"
    using cleanup_ok [of DAY_LATER ?w] by (auto simp: is_ok_def split: sum.splits)
  have "private_bucket storage_config = Inr ''private''"
    by (simp add: private_bucket_def required_storage_config_def storage_config_def)
  moreover have "distinct (map (\<lambda>x. (so_bucket x, so_key x)) (uw_store ?w))" by (simp add: photo_world_def)
  moreover have "\<forall>i \<in> set (db_intents (uw_db ?w)). int_purpose i \<in> set cleaned_purposes
      \<longrightarrow> int_objectKey i \<noteq> ''quarantine/item-photos/I/x.jpg''" by (simp add: sample_db_def sample_intent_def)
  ultimately have "find_object (uw_store w') ''private'' ''quarantine/item-photos/I/x.jpg'' = None"
    by (subst cleanup_removes [OF r]) (simp_all add: photo_world_def find_object_def DAY_LATER_def)
  with r show ?thesis by blast
qed

text \<open>
  The intents of booking evidence and of support attachments are not among those whose keys the
  cleanup knows, and their objects stay in the quarantine after they were confirmed. So the object
  of a confirmed piece of evidence counts as an orphan and is deleted after a day, while its rows
  remain.
\<close>

definition evidence_world :: upload_world where
  "evidence_world = \<lparr>uw_db = rented_db\<lparr>db_intents := [\<lparr>int_id = ''ii'', int_actorId = ''B'', int_purpose = ''BOOKING_EVIDENCE'',
        int_entityId = ''b1'', int_bucket = ''private'', int_objectKey = ''quarantine/booking-evidence/b1/B/i.jpg'',
        int_contentType = ''image/jpeg'', int_sizeBytes = 3, int_expiresAt = SAMPLE_NOW + 900000,
        int_confirmedAt = Some SAMPLE_NOW\<rparr>]\<rparr>,
     uw_store = evidence_store, uw_jobs = []\<rparr>"

lemma cleanup_deletes_confirmed_evidence:
  "case cleanup_expired_uploads storage_config (\<lambda>_. False) DAY_LATER evidence_world of
     Inl e \<Rightarrow> False
   | Inr (w', n) \<Rightarrow> n = 1 \<and> uw_store w' = [] \<and> map int_id (db_intents (uw_db w')) = [''ii'']"
  by code_simp

end
