(* ===== verification/Redis.thy ===== *)
theory Redis
  imports Database
begin

text \<open>
  The key-value store with expiry that the server keeps its counters, codes and sessions in. The
  store is a service outside the program; the model has the documented effect of the commands the
  source sends. A value serialized as JSON is kept as the record it was written from; what does
  not parse is any other value.
\<close>

record refresh_session =
  ses_userId :: string
  ses_sessionId :: string
  ses_currentJti :: string
  ses_installationId :: string
  ses_createdAt :: timestamp
  ses_lastSeenAt :: timestamp

datatype redis_value =
    R_string string
  | R_count nat
  | R_set "string list"
  | R_session refresh_session
  | R_step_up string string int
  | R_admin_session string int string

text \<open>A value with the time it expires at, if any.\<close>

type_synonym redis = "string \<Rightarrow> (redis_value \<times> timestamp option) option"

definition alive :: "timestamp \<Rightarrow> timestamp option \<Rightarrow> bool" where
  "alive now e = (case e of None \<Rightarrow> True | Some t \<Rightarrow> now < t)"

definition redis_get :: "timestamp \<Rightarrow> string \<Rightarrow> redis \<Rightarrow> redis_value option" where
  "redis_get now key r =
     (case r key of None \<Rightarrow> None | Some (v, e) \<Rightarrow> if alive now e then Some v else None)"

text \<open>\<open>SET key value EX ttl\<close>.\<close>

definition redis_set :: "timestamp \<Rightarrow> string \<Rightarrow> redis_value \<Rightarrow> int \<Rightarrow> redis \<Rightarrow> redis" where
  "redis_set now key v ttl r = r(key := Some (v, Some (now + ttl * 1000)))"

definition redis_del :: "string \<Rightarrow> redis \<Rightarrow> redis" where
  "redis_del key r = r(key := None)"

definition redis_del_all :: "string list \<Rightarrow> redis \<Rightarrow> redis" where
  "redis_del_all keys r = fold redis_del keys r"

definition redis_getdel :: "timestamp \<Rightarrow> string \<Rightarrow> redis \<Rightarrow> redis \<times> redis_value option" where
  "redis_getdel now key r = (redis_del key r, redis_get now key r)"

text \<open>
  The script of \<open>incrWithExpire\<close>: the first increment starts the window, later ones keep it. The
  keys it is used with hold counters only.
\<close>

definition redis_incr :: "timestamp \<Rightarrow> string \<Rightarrow> int \<Rightarrow> redis \<Rightarrow> redis \<times> nat" where
  "redis_incr now key ttl r =
     (case redis_get now key r of
        Some (R_count n) \<Rightarrow> (r(key := Some (R_count (Suc n), case r key of Some (_, e) \<Rightarrow> e | None \<Rightarrow> None)), Suc n)
      | _ \<Rightarrow> (r(key := Some (R_count 1, Some (now + ttl * 1000))), 1))"

text \<open>\<open>INCR\<close> alone: a new counter does not expire.\<close>

definition redis_incr_plain :: "timestamp \<Rightarrow> string \<Rightarrow> redis \<Rightarrow> redis \<times> nat" where
  "redis_incr_plain now key r =
     (case redis_get now key r of
        Some (R_count n) \<Rightarrow> (r(key := Some (R_count (Suc n), case r key of Some (_, e) \<Rightarrow> e | None \<Rightarrow> None)), Suc n)
      | _ \<Rightarrow> (r(key := Some (R_count 1, None)), 1))"

text \<open>\<open>TTL\<close>, in whole seconds, to the nearest: -2 without a key, -1 without an expiry.\<close>

definition redis_ttl :: "timestamp \<Rightarrow> string \<Rightarrow> redis \<Rightarrow> int" where
  "redis_ttl now key r =
     (case r key of
        None \<Rightarrow> -2
      | Some (_, None) \<Rightarrow> -1
      | Some (_, Some e) \<Rightarrow> if now < e then (e - now + 500) div 1000 else -2)"

definition redis_members :: "timestamp \<Rightarrow> string \<Rightarrow> redis \<Rightarrow> string list" where
  "redis_members now key r = (case redis_get now key r of Some (R_set xs) \<Rightarrow> xs | _ \<Rightarrow> [])"

definition redis_sadd :: "timestamp \<Rightarrow> string \<Rightarrow> string \<Rightarrow> redis \<Rightarrow> redis" where
  "redis_sadd now key x r =
     (case redis_get now key r of
        Some (R_set xs) \<Rightarrow>
          r(key := Some (R_set (if x \<in> set xs then xs else xs @ [x]), case r key of Some (_, e) \<Rightarrow> e | None \<Rightarrow> None))
      | _ \<Rightarrow> r(key := Some (R_set [x], None)))"

text \<open>A set without members does not exist.\<close>

definition redis_srem :: "timestamp \<Rightarrow> string \<Rightarrow> string \<Rightarrow> redis \<Rightarrow> redis" where
  "redis_srem now key x r =
     (case redis_get now key r of
        Some (R_set xs) \<Rightarrow>
          (if removeAll x xs = [] then redis_del key r
           else r(key := Some (R_set (removeAll x xs), case r key of Some (_, e) \<Rightarrow> e | None \<Rightarrow> None)))
      | _ \<Rightarrow> r)"

definition redis_expire :: "timestamp \<Rightarrow> string \<Rightarrow> int \<Rightarrow> redis \<Rightarrow> redis" where
  "redis_expire now key ttl r =
     (case redis_get now key r of None \<Rightarrow> r | Some v \<Rightarrow> r(key := Some (v, Some (now + ttl * 1000))))"

section \<open>Laws\<close>

lemma redis_get_set [simp]:
  "redis_get t key (redis_set now key' v ttl r) =
     (if key = key' then (if t < now + ttl * 1000 then Some v else None) else redis_get t key r)"
  by (simp add: redis_get_def redis_set_def alive_def)

lemma redis_get_del [simp]: "redis_get t key (redis_del key' r) = (if key = key' then None else redis_get t key r)"
  by (simp add: redis_get_def redis_del_def)

lemma redis_get_del_all [simp]:
  "redis_get t key (redis_del_all keys r) = (if key \<in> set keys then None else redis_get t key r)"
  by (induction keys arbitrary: r) (simp_all add: redis_del_all_def)

lemma redis_get_incr_other [simp]:
  "key \<noteq> key' \<Longrightarrow> redis_get t key (fst (redis_incr now key' ttl r)) = redis_get t key r"
  by (auto simp: redis_incr_def redis_get_def split: option.splits redis_value.splits)

lemma redis_get_sadd_other [simp]: "key \<noteq> key' \<Longrightarrow> redis_get t key (redis_sadd now key' x r) = redis_get t key r"
  by (auto simp: redis_sadd_def redis_get_def split: option.splits redis_value.splits)

lemma redis_get_srem_other [simp]: "key \<noteq> key' \<Longrightarrow> redis_get t key (redis_srem now key' x r) = redis_get t key r"
  by (auto simp: redis_srem_def redis_get_def redis_del_def split: option.splits redis_value.splits)

lemma redis_get_expire_other [simp]: "key \<noteq> key' \<Longrightarrow> redis_get t key (redis_expire now key' ttl r) = redis_get t key r"
  by (auto simp: redis_expire_def redis_get_def split: option.splits)

text \<open>The n-th increment of a window is n, and the window ends when its first increment said.\<close>

definition counts_to :: "string \<Rightarrow> nat \<Rightarrow> timestamp \<Rightarrow> redis \<Rightarrow> bool" where
  "counts_to key n until r \<longleftrightarrow> (if n = 0 then \<forall>t. redis_get t key r = None else r key = Some (R_count n, Some until))"

lemma redis_incr_first:
  "redis_get now key r = None \<Longrightarrow> redis_incr now key ttl r = (r', n) \<Longrightarrow> n = 1 \<and> counts_to key 1 (now + ttl * 1000) r'"
  by (auto simp: redis_incr_def counts_to_def)

lemma redis_incr_next:
  "counts_to key n until r \<Longrightarrow> 0 < n \<Longrightarrow> now < until \<Longrightarrow> redis_incr now key ttl r = (r', m) \<Longrightarrow>
     m = Suc n \<and> counts_to key (Suc n) until r'"
  by (auto simp: redis_incr_def counts_to_def redis_get_def alive_def)

end
