(* ===== verification/Auth.thy ===== *)
theory Auth
  imports Redis Js_Text Payment_Policy
begin

text \<open>
  Authentication (\<open>auth/auth.service.ts\<close>, \<open>auth/auth.util.ts\<close>, \<open>auth/sms.service.ts\<close>,
  \<open>auth/guards\<close>): one-time codes by SMS with their rate limits and the block after wrong codes,
  access and refresh tokens with rotation, the sessions of a user, and the short step-up token
  for sensitive operations. The state is the database and the key-value store; a request that
  fails may still have changed the store, so every operation returns the state beside its result.
  The signature scheme, the password hash and SHA-256 are arguments, and tokens are opaque.
\<close>

section \<open>Phones and durations\<close>

definition normalize_russian_phone :: "string \<Rightarrow> string result" where
  "normalize_russian_phone phone =
     (let digits = filter is_digit phone in
      if length digits = 10 \<and> take 1 digits = ''9'' then Inr (''+7'' @ digits)
      else if length digits = 11 \<and> take 1 digits = ''8'' then Inr (''+7'' @ drop 1 digits)
      else if length digits = 11 \<and> take 1 digits = ''7'' then Inr (''+'' @ digits)
      else Inl (Bad_request ''phone''))"

definition digits_value :: "string \<Rightarrow> int" where
  "digits_value s = foldl (\<lambda>n c. 10 * n + digit_val c) 0 s"

definition unit_seconds :: "char \<Rightarrow> int option" where
  "unit_seconds c = (if c = CHR ''s'' then Some 1 else if c = CHR ''m'' then Some 60
     else if c = CHR ''h'' then Some (60 * 60) else if c = CHR ''d'' then Some (24 * 60 * 60) else None)"

definition parse_duration_to_seconds :: "string \<Rightarrow> int result" where
  "parse_duration_to_seconds value =
     (let t = js_trim value; ds = takeWhile is_digit t; rest = dropWhile is_digit t in
      if ds = [] then Inl (Plain_error ''Invalid duration'')
      else case rest of
        [] \<Rightarrow> Inr (digits_value ds)
      | [u] \<Rightarrow> (case unit_seconds u of
                  None \<Rightarrow> Inl (Plain_error ''Invalid duration'') | Some k \<Rightarrow> Inr (digits_value ds * k))
      | _ \<Rightarrow> Inl (Plain_error ''Invalid duration''))"

section \<open>Types\<close>

definition OTP_TTL_SECONDS :: int where "OTP_TTL_SECONDS = 5 * 60"
definition OTP_RATE_LIMIT :: nat where "OTP_RATE_LIMIT = 3"
definition OTP_DEVICE_RATE_LIMIT :: int where "OTP_DEVICE_RATE_LIMIT = 6"
definition OTP_IP_RATE_LIMIT :: int where "OTP_IP_RATE_LIMIT = 60"
definition OTP_GLOBAL_RATE_LIMIT :: int where "OTP_GLOBAL_RATE_LIMIT = 1000"
definition OTP_RATE_WINDOW_SECONDS :: int where "OTP_RATE_WINDOW_SECONDS = 10 * 60"
definition OTP_GLOBAL_RATE_WINDOW_SECONDS :: int where "OTP_GLOBAL_RATE_WINDOW_SECONDS = 24 * 60 * 60"
definition OTP_FAIL_LIMIT :: nat where "OTP_FAIL_LIMIT = 5"
definition OTP_BLOCK_SECONDS :: int where "OTP_BLOCK_SECONDS = 30 * 60"
definition USER_STEP_UP_TTL_SECONDS :: int where "USER_STEP_UP_TTL_SECONDS = 5 * 60"

record jwt_payload =
  jp_sub :: string
  jp_phone :: "string option"
  jp_role :: "user_role option"
  jp_tokenType :: string
  jp_sessionVersion :: int
  jp_purpose :: "string option"
  jp_jti :: "string option"
  jp_sid :: "string option"

text \<open>
  \<open>at_sign secret payload now ttl\<close> signs a token that lives \<open>ttl\<close> seconds, \<open>at_verify secret token now\<close>
  reads it back; \<open>at_hash salt code\<close> and \<open>at_compare code hash\<close> are bcrypt.
\<close>

record 'tok auth_tools =
  at_sign :: "string \<Rightarrow> jwt_payload \<Rightarrow> timestamp \<Rightarrow> int \<Rightarrow> 'tok"
  at_verify :: "string \<Rightarrow> 'tok \<Rightarrow> timestamp \<Rightarrow> jwt_payload option"
  at_hash :: "string \<Rightarrow> string \<Rightarrow> string"
  at_compare :: "string \<Rightarrow> string \<Rightarrow> bool"
  at_sha256 :: "string \<Rightarrow> string"

record auth_world =
  aw_db :: db
  aw_redis :: redis

record auth_user_response =
  aur_id :: string
  aur_phone :: string
  aur_name :: "string option"
  aur_role :: user_role
  aur_kycStatus :: "kyc_status option"
  aur_isBlocked :: bool

record 'tok auth_tokens =
  atk_accessToken :: 'tok
  atk_refreshToken :: 'tok
  atk_user :: auth_user_response

record otp_context =
  oc_installationId :: string
  oc_ipAddress :: string

record user_session =
  uss_sessionId :: string
  uss_installationId :: string
  uss_createdAt :: timestamp
  uss_lastSeenAt :: timestamp
  uss_isCurrent :: bool

type_synonym 'a outcome = "auth_world \<times> 'a result"

definition then_do :: "'a outcome \<Rightarrow> (auth_world \<Rightarrow> 'a \<Rightarrow> 'b outcome) \<Rightarrow> 'b outcome" where
  "then_do out f = (case out of (w, Inl e) \<Rightarrow> (w, Inl e) | (w, Inr x) \<Rightarrow> f w x)"

lemma then_do_simps [simp]: "then_do (w, Inl e) f = (w, Inl e)" "then_do (w, Inr x) f = f w x"
  by (simp_all add: then_do_def)

definition to_auth_user :: "user_row \<Rightarrow> auth_user_response" where
  "to_auth_user u = \<lparr>aur_id = us_id u, aur_phone = us_phone u, aur_name = us_name u, aur_role = us_role u,
     aur_kycStatus = us_kycStatus u, aur_isBlocked = us_isBlocked u\<rparr>"

definition ensure_user_can_login :: "user_row \<Rightarrow> unit result" where
  "ensure_user_can_login u =
     (if us_deletedAt u \<noteq> None then Inl (Unauthorized ''user-not-found'')
      else if us_isBlocked u then Inl (Forbidden ''user-blocked'') else Inr ())"

definition required_auth_config :: "config \<Rightarrow> string \<Rightarrow> string result" where
  "required_auth_config config name =
     (case config name of None \<Rightarrow> Inl (Plain_error name) | Some v \<Rightarrow> if v = [] then Inl (Plain_error name) else Inr v)"

definition positive_integer_config :: "config \<Rightarrow> string \<Rightarrow> int \<Rightarrow> int result" where
  "positive_integer_config config name fallback =
     (case config name of
        None \<Rightarrow> Inr fallback
      | Some raw \<Rightarrow>
          (case js_number raw of
             None \<Rightarrow> Inl (Internal_error name)
           | Some x \<Rightarrow> if \<not> is_safe_integer x \<or> x < 1 then Inl (Internal_error name) else Inr \<lfloor>x\<rfloor>))"

section \<open>Keys\<close>

definition otp_code_key :: "string \<Rightarrow> string" where "otp_code_key phone = ''auth:otp:code:'' @ phone"
definition otp_send_key :: "string \<Rightarrow> string" where "otp_send_key phone = ''auth:otp:send:'' @ phone"

definition otp_device_send_key :: "'tok auth_tools \<Rightarrow> string \<Rightarrow> string" where
  "otp_device_send_key tools installationId = ''auth:otp:send:device:'' @ at_sha256 tools installationId"

definition otp_ip_send_key :: "'tok auth_tools \<Rightarrow> string \<Rightarrow> string" where
  "otp_ip_send_key tools ipAddress = ''auth:otp:send:ip:'' @ at_sha256 tools ipAddress"

definition otp_global_send_key :: string where "otp_global_send_key = ''auth:otp:send:global''"
definition otp_fail_key :: "string \<Rightarrow> string" where "otp_fail_key phone = ''auth:otp:fail:'' @ phone"
definition otp_block_key :: "string \<Rightarrow> string" where "otp_block_key phone = ''auth:otp:block:'' @ phone"
definition refresh_token_key :: "string \<Rightarrow> string" where "refresh_token_key jti = ''auth:refresh:'' @ jti"
definition user_sessions_key :: "string \<Rightarrow> string" where "user_sessions_key userId = ''auth:sessions:'' @ userId"

definition session_key :: "string \<Rightarrow> string \<Rightarrow> string" where
  "session_key userId sessionId = ''auth:session:'' @ userId @ '':'' @ sessionId"

definition user_step_up_key :: "string \<Rightarrow> string" where "user_step_up_key jti = ''auth:user-step-up:'' @ jti"

section \<open>One-time codes\<close>

definition ensure_otp_not_blocked :: "string \<Rightarrow> timestamp \<Rightarrow> auth_world \<Rightarrow> unit result" where
  "ensure_otp_not_blocked phone now w =
     (if redis_get now (otp_block_key phone) (aw_redis w) \<noteq> None then Inl (Too_many_requests ''otp-blocked'') else Inr ())"

definition incr_with_expire :: "string \<Rightarrow> int \<Rightarrow> timestamp \<Rightarrow> auth_world \<Rightarrow> auth_world \<times> nat" where
  "incr_with_expire key ttl now w =
     (case redis_incr now key ttl (aw_redis w) of (r, n) \<Rightarrow> (w\<lparr>aw_redis := r\<rparr>, n))"

definition register_otp_failure :: "string \<Rightarrow> timestamp \<Rightarrow> auth_world \<Rightarrow> unit outcome" where
  "register_otp_failure phone now w =
     (case incr_with_expire (otp_fail_key phone) OTP_BLOCK_SECONDS now w of (w, failCount) \<Rightarrow>
        if OTP_FAIL_LIMIT \<le> failCount
        then (w\<lparr>aw_redis := redis_del_all [otp_code_key phone, otp_fail_key phone]
                (redis_set now (otp_block_key phone) (R_string ''1'') OTP_BLOCK_SECONDS (aw_redis w))\<rparr>,
              Inl (Too_many_requests ''too-many-wrong-codes''))
        else (w, Inl (Unauthorized ''wrong-code'')))"

definition consume_otp_code :: "string \<Rightarrow> string \<Rightarrow> timestamp \<Rightarrow> auth_world \<Rightarrow> auth_world \<times> bool" where
  "consume_otp_code phone expectedHash now w =
     (if redis_get now (otp_code_key phone) (aw_redis w) = Some (R_string expectedHash)
      then (w\<lparr>aw_redis := redis_del (otp_code_key phone) (aw_redis w)\<rparr>, True) else (w, False))"

definition stored_code_hash :: "string \<Rightarrow> timestamp \<Rightarrow> auth_world \<Rightarrow> string option" where
  "stored_code_hash phone now w =
     (case redis_get now (otp_code_key phone) (aw_redis w) of Some (R_string h) \<Rightarrow> Some h | _ \<Rightarrow> None)"

definition verify_and_consume_otp :: "'tok auth_tools \<Rightarrow> string \<Rightarrow> string \<Rightarrow> timestamp \<Rightarrow> auth_world \<Rightarrow> unit outcome" where
  "verify_and_consume_otp tools phone code now w =
     (case ensure_otp_not_blocked phone now w of
        Inl e \<Rightarrow> (w, Inl e)
      | Inr _ \<Rightarrow>
          (case stored_code_hash phone now w of
             None \<Rightarrow> register_otp_failure phone now w
           | Some codeHash \<Rightarrow>
               if codeHash = [] \<or> \<not> at_compare tools code codeHash then register_otp_failure phone now w
               else case consume_otp_code phone codeHash now w of (w, consumed) \<Rightarrow>
                 if \<not> consumed then (w, Inl (Unauthorized ''wrong-code''))
                 else (w\<lparr>aw_redis := redis_del (otp_fail_key phone) (aw_redis w)\<rparr>, Inr ())))"

text \<open>\<open>rnd\<close> is the number \<open>randomInt(100000, 1000000)\<close> drew, in decimal.\<close>

definition generate_otp_code :: "config \<Rightarrow> bool \<Rightarrow> string \<Rightarrow> string result" where
  "generate_otp_code config production rnd =
     (let provider = (case config ''SMS_PROVIDER'' of None \<Rightarrow> ''console'' | Some p \<Rightarrow> p);
          apiKey = config ''SMS_API_KEY''
      in case config ''DEV_SMS_OTP_CODE'' of
           Some dev \<Rightarrow>
             if \<not> production \<and> (provider = ''console'' \<or> apiKey = None \<or> apiKey = Some [] \<or> apiKey = Some ''change_me'')
             then (if length dev = 6 \<and> list_all is_digit dev then Inr dev else Inl (Internal_error ''DEV_SMS_OTP_CODE''))
             else Inr rnd
         | None \<Rightarrow> Inr rnd)"

text \<open>What came back from the SMS provider.\<close>

datatype sms_reply =
    Sms_unreachable
  | Sms_http_error
  | Sms_bad_json
  | Sms_body "string option" "string option option"

definition send_otp :: "config \<Rightarrow> bool \<Rightarrow> sms_reply \<Rightarrow> unit result" where
  "send_otp config production reply =
     (let provider = (case config ''SMS_PROVIDER'' of None \<Rightarrow> ''console'' | Some p \<Rightarrow> p);
          apiKey = config ''SMS_API_KEY''
      in if provider = ''console'' \<or> apiKey = None \<or> apiKey = Some [] \<or> apiKey = Some ''change_me''
         then (if production then Inl (Internal_error ''SMS_API_KEY'') else Inr ())
         else if provider \<noteq> ''smsru'' then Inl (Internal_error ''sms-provider'')
         else case reply of
           Sms_unreachable \<Rightarrow> Inl (Internal_error ''sms-not-sent'')
         | Sms_http_error \<Rightarrow> Inl (Internal_error ''sms-not-sent'')
         | Sms_bad_json \<Rightarrow> Inl (Internal_error ''sms-reply'')
         | Sms_body status phoneStatus \<Rightarrow>
             if status \<noteq> Some ''OK'' \<or> (case phoneStatus of None \<Rightarrow> False | Some s \<Rightarrow> s \<noteq> Some ''OK'')
             then Inl (Internal_error ''sms-not-accepted'') else Inr ())"

definition store_otp_code :: "'tok auth_tools \<Rightarrow> string \<Rightarrow> string \<Rightarrow> timestamp \<Rightarrow> auth_world \<Rightarrow> auth_world \<times> string" where
  "store_otp_code tools phone code now w =
     (let codeHash = at_hash tools (fresh_id (aw_db w)) code
      in (\<lparr>aw_db = (aw_db w)\<lparr>db_next := Suc (db_next (aw_db w))\<rparr>,
           aw_redis = redis_set now (otp_code_key phone) (R_string codeHash) OTP_TTL_SECONDS (aw_redis w)\<rparr>, codeHash))"

definition otp_rate_limits :: "'tok auth_tools \<Rightarrow> config \<Rightarrow> string \<Rightarrow> otp_context \<Rightarrow> timestamp \<Rightarrow> auth_world \<Rightarrow> unit outcome" where
  "otp_rate_limits tools config phone context now w =
     (case incr_with_expire (otp_send_key phone) OTP_RATE_WINDOW_SECONDS now w of (w, sendCount) \<Rightarrow>
      case incr_with_expire (otp_device_send_key tools (oc_installationId context)) OTP_RATE_WINDOW_SECONDS now w of (w, deviceCount) \<Rightarrow>
      case incr_with_expire (otp_ip_send_key tools (oc_ipAddress context)) OTP_RATE_WINDOW_SECONDS now w of (w, ipCount) \<Rightarrow>
        if OTP_RATE_LIMIT < sendCount then (w, Inl (Too_many_requests ''3-codes-in-10-minutes''))
        else case positive_integer_config config ''OTP_DEVICE_RATE_LIMIT'' OTP_DEVICE_RATE_LIMIT of
          Inl e \<Rightarrow> (w, Inl e)
        | Inr deviceLimit \<Rightarrow>
            if deviceLimit < int deviceCount then (w, Inl (Too_many_requests ''otp-rate''))
            else case positive_integer_config config ''OTP_IP_RATE_LIMIT'' OTP_IP_RATE_LIMIT of
              Inl e \<Rightarrow> (w, Inl e)
            | Inr ipLimit \<Rightarrow>
                if ipLimit < int ipCount then (w, Inl (Too_many_requests ''otp-rate''))
                else case incr_with_expire otp_global_send_key OTP_GLOBAL_RATE_WINDOW_SECONDS now w of (w, globalCount) \<Rightarrow>
                  case positive_integer_config config ''OTP_GLOBAL_RATE_LIMIT'' OTP_GLOBAL_RATE_LIMIT of
                    Inl e \<Rightarrow> (w, Inl e)
                  | Inr globalLimit \<Rightarrow>
                      if globalLimit < int globalCount then (w, Inl (Too_many_requests ''otp-global'')) else (w, Inr ()))"

definition request_otp ::
    "'tok auth_tools \<Rightarrow> config \<Rightarrow> bool \<Rightarrow> string \<Rightarrow> sms_reply \<Rightarrow> string \<Rightarrow> otp_context \<Rightarrow> timestamp \<Rightarrow> auth_world
      \<Rightarrow> (string \<times> int) outcome" where
  "request_otp tools config production rnd reply rawPhone context now w =
     (case normalize_russian_phone rawPhone of
        Inl e \<Rightarrow> (w, Inl e)
      | Inr phone \<Rightarrow>
          (case ensure_otp_not_blocked phone now w of
             Inl e \<Rightarrow> (w, Inl e)
           | Inr _ \<Rightarrow>
               then_do (otp_rate_limits tools config phone context now w) (\<lambda>w _.
                 case generate_otp_code config production rnd of
                   Inl e \<Rightarrow> (w, Inl e)
                 | Inr code \<Rightarrow>
                     (case store_otp_code tools phone code now w of (w, codeHash) \<Rightarrow>
                        case send_otp config production reply of
                          Inl e \<Rightarrow> (fst (consume_otp_code phone codeHash now w), Inl e)
                        | Inr _ \<Rightarrow> (w, Inr (phone, OTP_TTL_SECONDS))))))"

section \<open>Tokens and sessions\<close>

text \<open>The two secrets and the two lifetimes.\<close>

definition token_config :: "config \<Rightarrow> (string \<times> string \<times> int \<times> int) result" where
  "token_config config =
     bind_result (required_auth_config config ''JWT_ACCESS_SECRET'') (\<lambda>accessSecret.
     bind_result (required_auth_config config ''JWT_REFRESH_SECRET'') (\<lambda>refreshSecret.
     bind_result (parse_duration_to_seconds (case config ''JWT_ACCESS_EXPIRES_IN'' of None \<Rightarrow> ''15m'' | Some v \<Rightarrow> v)) (\<lambda>accessTtl.
     bind_result (parse_duration_to_seconds (case config ''JWT_REFRESH_EXPIRES_IN'' of None \<Rightarrow> ''30d'' | Some v \<Rightarrow> v)) (\<lambda>refreshTtl.
     Inr (accessSecret, refreshSecret, accessTtl, refreshTtl)))))"

definition access_payload :: "user_row \<Rightarrow> jwt_payload" where
  "access_payload user =
     \<lparr>jp_sub = us_id user, jp_phone = Some (us_phone user), jp_role = Some (us_role user), jp_tokenType = ''access'',
      jp_sessionVersion = us_sessionVersion user, jp_purpose = None, jp_jti = None, jp_sid = None\<rparr>"

definition refresh_payload :: "user_row \<Rightarrow> string \<Rightarrow> string \<Rightarrow> jwt_payload" where
  "refresh_payload user jti sid =
     (access_payload user)\<lparr>jp_tokenType := ''refresh'', jp_jti := Some jti, jp_sid := Some sid\<rparr>"

definition store_session :: "refresh_session \<Rightarrow> int \<Rightarrow> timestamp \<Rightarrow> redis \<Rightarrow> redis" where
  "store_session s ttl now r =
     redis_expire now (user_sessions_key (ses_userId s)) ttl
       (redis_sadd now (user_sessions_key (ses_userId s)) (ses_sessionId s)
         (redis_set now (session_key (ses_userId s) (ses_sessionId s)) (R_session s) ttl
           (redis_set now (refresh_token_key (ses_currentJti s)) (R_session s) ttl r)))"

definition new_session :: "user_row \<Rightarrow> string \<Rightarrow> (string \<times> timestamp) option \<Rightarrow> timestamp \<Rightarrow> db \<Rightarrow> refresh_session" where
  "new_session user installationId session now db =
     \<lparr>ses_userId = us_id user,
      ses_sessionId = (case session of Some (sid, _) \<Rightarrow> sid | None \<Rightarrow> db_supply db (Suc (db_next db))),
      ses_currentJti = fresh_id db, ses_installationId = installationId,
      ses_createdAt = (case session of Some (_, t) \<Rightarrow> t | None \<Rightarrow> now), ses_lastSeenAt = now\<rparr>"

definition issue_tokens ::
    "'tok auth_tools \<Rightarrow> config \<Rightarrow> user_row \<Rightarrow> string \<Rightarrow> (string \<times> timestamp) option \<Rightarrow> timestamp \<Rightarrow> auth_world
      \<Rightarrow> 'tok auth_tokens outcome" where
  "issue_tokens tools config user installationId session now w =
     (case token_config config of
        Inl e \<Rightarrow> (w, Inl e)
      | Inr (accessSecret, refreshSecret, accessTtl, refreshTtl) \<Rightarrow>
          let s = new_session user installationId session now (aw_db w)
          in (\<lparr>aw_db = (aw_db w)\<lparr>db_next := db_next (aw_db w) + 2\<rparr>,
               aw_redis = store_session s refreshTtl now (aw_redis w)\<rparr>,
              Inr \<lparr>atk_accessToken = at_sign tools accessSecret (access_payload user) now accessTtl,
                   atk_refreshToken = at_sign tools refreshSecret
                     (refresh_payload user (ses_currentJti s) (ses_sessionId s)) now refreshTtl,
                   atk_user = to_auth_user user\<rparr>))"

text \<open>\<open>upsert\<close> by the phone, which is unique.\<close>

definition upsert_user :: "string \<Rightarrow> timestamp \<Rightarrow> auth_world \<Rightarrow> auth_world \<times> user_row" where
  "upsert_user phone now w =
     (case List.find (\<lambda>u. us_phone u = phone) (db_users (aw_db w)) of
        Some u \<Rightarrow> (w, u)
      | None \<Rightarrow>
          let db = aw_db w;
              u = \<lparr>us_id = fresh_id db, us_phone = phone, us_name = None, us_city = None, us_avatarUrl = None,
                   us_role = Role_USER, us_kycStatus = None, us_isBlocked = False, us_sessionVersion = 0,
                   us_deletedAt = None, us_anonymizedAt = None, us_createdAt = db_now db, us_updatedAt = now\<rparr>
          in (w\<lparr>aw_db := db\<lparr>db_next := Suc (db_next db), db_users := db_users db @ [u]\<rparr>\<rparr>, u))"

definition verify_otp ::
    "'tok auth_tools \<Rightarrow> config \<Rightarrow> string \<Rightarrow> string \<Rightarrow> string \<Rightarrow> timestamp \<Rightarrow> auth_world \<Rightarrow> 'tok auth_tokens outcome" where
  "verify_otp tools config rawPhone code installationId now w =
     (case normalize_russian_phone rawPhone of
        Inl e \<Rightarrow> (w, Inl e)
      | Inr phone \<Rightarrow>
          then_do (verify_and_consume_otp tools phone code now w) (\<lambda>w _.
            case upsert_user phone now w of (w, user) \<Rightarrow>
              case ensure_user_can_login user of
                Inl e \<Rightarrow> (w, Inl e)
              | Inr _ \<Rightarrow> issue_tokens tools config user installationId None now w))"

definition parse_refresh_session :: "redis_value option \<Rightarrow> refresh_session option" where
  "parse_refresh_session v = (case v of Some (R_session s) \<Rightarrow> Some s | _ \<Rightarrow> None)"

definition blank_text :: "string option \<Rightarrow> bool" where
  "blank_text x \<longleftrightarrow> x = None \<or> x = Some []"

definition verify_refresh_token :: "'tok auth_tools \<Rightarrow> config \<Rightarrow> 'tok \<Rightarrow> timestamp \<Rightarrow> jwt_payload result" where
  "verify_refresh_token tools config token now =
     bind_result (required_auth_config config ''JWT_REFRESH_SECRET'') (\<lambda>secret.
       case at_verify tools secret token now of
         None \<Rightarrow> Inl (Unauthorized ''refresh-token'')
       | Some p \<Rightarrow>
           if jp_tokenType p \<noteq> ''refresh'' \<or> blank_text (jp_jti p) \<or> blank_text (jp_sid p) \<or> jp_sessionVersion p < 0
           then Inl (Unauthorized ''refresh-token'') else Inr p)"

definition text_of :: "string option \<Rightarrow> string" where
  "text_of x = (case x of None \<Rightarrow> [] | Some s \<Rightarrow> s)"

definition revoke_session :: "string \<Rightarrow> string \<Rightarrow> timestamp \<Rightarrow> auth_world \<Rightarrow> auth_world" where
  "revoke_session userId sessionId now w =
     (let r = aw_redis w; key = session_key userId sessionId in
      case parse_refresh_session (redis_get now key r) of
        None \<Rightarrow> w
      | Some s \<Rightarrow>
          if ses_userId s \<noteq> userId then w
          else w\<lparr>aw_redis := redis_srem now (user_sessions_key userId) sessionId
                  (redis_del key (redis_del (refresh_token_key (ses_currentJti s)) r))\<rparr>)"

definition refresh_tokens ::
    "'tok auth_tools \<Rightarrow> config \<Rightarrow> 'tok \<Rightarrow> timestamp \<Rightarrow> auth_world \<Rightarrow> 'tok auth_tokens outcome" where
  "refresh_tokens tools config token now w =
     (case verify_refresh_token tools config token now of
        Inl e \<Rightarrow> (w, Inl e)
      | Inr p \<Rightarrow>
          (case redis_getdel now (refresh_token_key (text_of (jp_jti p))) (aw_redis w) of (r, raw) \<Rightarrow>
           let w = w\<lparr>aw_redis := r\<rparr> in
           case parse_refresh_session raw of
             None \<Rightarrow> (revoke_session (jp_sub p) (text_of (jp_sid p)) now w, Inl (Unauthorized ''refresh-revoked''))
           | Some stored \<Rightarrow>
               if ses_userId stored \<noteq> jp_sub p
               then (revoke_session (jp_sub p) (text_of (jp_sid p)) now w, Inl (Unauthorized ''refresh-revoked''))
               else
                 (case find_user (aw_db w) (jp_sub p) of
                    None \<Rightarrow> (w, Inl (Unauthorized ''user-not-found''))
                  | Some user \<Rightarrow>
                      if jp_sessionVersion p \<noteq> us_sessionVersion user then (w, Inl (Unauthorized ''session-revoked''))
                      else case ensure_user_can_login user of
                        Inl e \<Rightarrow> (w, Inl e)
                      | Inr _ \<Rightarrow> issue_tokens tools config user (ses_installationId stored)
                          (Some (ses_sessionId stored, ses_createdAt stored)) now w)))"

definition logout :: "'tok auth_tools \<Rightarrow> config \<Rightarrow> 'tok \<Rightarrow> timestamp \<Rightarrow> auth_world \<Rightarrow> unit outcome" where
  "logout tools config token now w =
     (case verify_refresh_token tools config token now of
        Inl (Unauthorized _) \<Rightarrow> (w, Inr ())
      | Inl e \<Rightarrow> (w, Inl e)
      | Inr p \<Rightarrow>
          let key = refresh_token_key (text_of (jp_jti p));
              session = parse_refresh_session (redis_get now key (aw_redis w));
              r = redis_del key (aw_redis w)
          in (w\<lparr>aw_redis := (case session of
                 None \<Rightarrow> r
               | Some s \<Rightarrow> redis_srem now (user_sessions_key (ses_userId s)) (ses_sessionId s)
                   (redis_del (session_key (ses_userId s) (ses_sessionId s)) r))\<rparr>, Inr ()))"

text \<open>A member of the set without a session record is dropped from the set.\<close>

fun collect_sessions :: "string \<Rightarrow> string \<Rightarrow> timestamp \<Rightarrow> string list \<Rightarrow> redis \<Rightarrow> redis \<times> user_session list" where
  "collect_sessions userId installationId now [] r = (r, [])"
| "collect_sessions userId installationId now (i # is) r =
     (case parse_refresh_session (redis_get now (session_key userId i) r) of
        None \<Rightarrow> collect_sessions userId installationId now is (redis_srem now (user_sessions_key userId) i r)
      | Some s \<Rightarrow>
          if ses_userId s \<noteq> userId
          then collect_sessions userId installationId now is (redis_srem now (user_sessions_key userId) i r)
          else case collect_sessions userId installationId now is r of (r, rest) \<Rightarrow>
            (r, \<lparr>uss_sessionId = ses_sessionId s, uss_installationId = ses_installationId s,
                 uss_createdAt = ses_createdAt s, uss_lastSeenAt = ses_lastSeenAt s,
                 uss_isCurrent = (ses_installationId s = installationId)\<rparr> # rest))"

definition list_sessions :: "string \<Rightarrow> string \<Rightarrow> timestamp \<Rightarrow> auth_world \<Rightarrow> auth_world \<times> user_session list" where
  "list_sessions userId installationId now w =
     (case collect_sessions userId installationId now (redis_members now (user_sessions_key userId) (aw_redis w)) (aw_redis w) of
        (r, sessions) \<Rightarrow> (w\<lparr>aw_redis := r\<rparr>, sort_key (\<lambda>s. - uss_lastSeenAt s) sessions))"

definition revoke_all_sessions :: "string \<Rightarrow> timestamp \<Rightarrow> auth_world \<Rightarrow> unit outcome" where
  "revoke_all_sessions userId now w =
     (let r = aw_redis w;
          sessionIds = redis_members now (user_sessions_key userId) r;
          sessions = List.map_filter (\<lambda>i. parse_refresh_session (redis_get now (session_key userId i) r)) sessionIds;
          refreshKeys = map (\<lambda>s. refresh_token_key (ses_currentJti s)) (filter (\<lambda>s. ses_userId s = userId) sessions)
      in if find_user (aw_db w) userId = None then (w, Inl (Plain_error ''P2025''))
         else (\<lparr>aw_db = (aw_db w)\<lparr>db_users := update_rows (\<lambda>u. us_id u = userId)
                   (\<lambda>u. u\<lparr>us_sessionVersion := us_sessionVersion u + 1, us_updatedAt := now\<rparr>) (db_users (aw_db w))\<rparr>,
                aw_redis = redis_del_all (refreshKeys @ map (session_key userId) sessionIds @ [user_sessions_key userId]) r\<rparr>,
               Inr ()))"

definition get_me :: "string \<Rightarrow> auth_world \<Rightarrow> auth_user_response result" where
  "get_me userId w =
     (case find_user (aw_db w) userId of
        None \<Rightarrow> Inl (Unauthorized ''user-not-found'')
      | Some u \<Rightarrow> bind_result (ensure_user_can_login u) (\<lambda>_. Inr (to_auth_user u)))"

section \<open>Step-up confirmation\<close>

definition verify_user_step_up_otp ::
    "'tok auth_tools \<Rightarrow> config \<Rightarrow> string \<Rightarrow> string \<Rightarrow> string \<Rightarrow> string \<Rightarrow> timestamp \<Rightarrow> auth_world \<Rightarrow> ('tok \<times> int) outcome" where
  "verify_user_step_up_otp tools config userId phone code purpose now w =
     then_do (verify_and_consume_otp tools phone code now w) (\<lambda>w _.
       case find_user (aw_db w) userId of
         None \<Rightarrow> (w, Inl (Unauthorized ''user-unavailable''))
       | Some u \<Rightarrow>
           if us_phone u \<noteq> phone \<or> us_deletedAt u \<noteq> None \<or> us_isBlocked u
           then (w, Inl (Unauthorized ''user-unavailable''))
           else case required_auth_config config ''JWT_ACCESS_SECRET'' of
             Inl e \<Rightarrow> (w, Inl e)
           | Inr secret \<Rightarrow>
               let jti = fresh_id (aw_db w);
                   p = \<lparr>jp_sub = us_id u, jp_phone = None, jp_role = None, jp_tokenType = ''user-step-up'',
                        jp_sessionVersion = us_sessionVersion u, jp_purpose = Some purpose, jp_jti = Some jti, jp_sid = None\<rparr>
               in (\<lparr>aw_db = (aw_db w)\<lparr>db_next := Suc (db_next (aw_db w))\<rparr>,
                    aw_redis = redis_set now (user_step_up_key jti)
                      (R_step_up (us_id u) purpose (us_sessionVersion u)) USER_STEP_UP_TTL_SECONDS (aw_redis w)\<rparr>,
                   Inr (at_sign tools secret p now USER_STEP_UP_TTL_SECONDS, USER_STEP_UP_TTL_SECONDS)))"

definition step_up_required :: http_error where
  "step_up_required = Unauthorized ''STEP_UP_REQUIRED''"

definition consume_user_step_up_token ::
    "'tok auth_tools \<Rightarrow> config \<Rightarrow> 'tok \<Rightarrow> string \<Rightarrow> string \<Rightarrow> timestamp \<Rightarrow> auth_world \<Rightarrow> unit outcome" where
  "consume_user_step_up_token tools config token userId purpose now w =
     (case (case required_auth_config config ''JWT_ACCESS_SECRET'' of
              Inl _ \<Rightarrow> None | Inr secret \<Rightarrow> at_verify tools secret token now) of
        None \<Rightarrow> (w, Inl step_up_required)
      | Some p \<Rightarrow>
          if jp_tokenType p \<noteq> ''user-step-up'' \<or> jp_purpose p \<noteq> Some purpose \<or> jp_sub p \<noteq> userId \<or> blank_text (jp_jti p)
          then (w, Inl step_up_required)
          else case redis_getdel now (user_step_up_key (text_of (jp_jti p))) (aw_redis w) of (r, stored) \<Rightarrow>
            (w\<lparr>aw_redis := r\<rparr>,
             case find_user (aw_db w) userId of
               None \<Rightarrow> Inl step_up_required
             | Some u \<Rightarrow>
                 if us_isBlocked u \<or> us_deletedAt u \<noteq> None \<or> us_sessionVersion u \<noteq> jp_sessionVersion p
                    \<or> stored \<noteq> Some (R_step_up userId purpose (jp_sessionVersion p))
                 then Inl step_up_required else Inr ()))"

section \<open>Guards\<close>

record auth_user =
  auth_id :: string
  auth_phone :: string
  auth_role :: user_role

definition bearer_prefix :: string where
  "bearer_prefix = ''Bearer ''"

definition get_bearer_token :: "string option \<Rightarrow> string result" where
  "get_bearer_token header =
     (case header of
        None \<Rightarrow> Inl (Unauthorized ''authorization'')
      | Some h \<Rightarrow>
          if take (length bearer_prefix) h \<noteq> bearer_prefix then Inl (Unauthorized ''authorization'')
          else Inr (js_trim (drop (length bearer_prefix) h)))"

text \<open>The guard of every authenticated route, on the token it took from the header.\<close>

definition jwt_auth_guard :: "'tok auth_tools \<Rightarrow> config \<Rightarrow> 'tok \<Rightarrow> timestamp \<Rightarrow> db \<Rightarrow> auth_user result" where
  "jwt_auth_guard tools config token now db =
     (case config ''JWT_ACCESS_SECRET'' of
        None \<Rightarrow> Inl (Internal_error ''JWT_ACCESS_SECRET'')
      | Some secret \<Rightarrow>
          if secret = [] then Inl (Internal_error ''JWT_ACCESS_SECRET'')
          else case at_verify tools secret token now of
            None \<Rightarrow> Inl (Unauthorized ''access-token'')
          | Some p \<Rightarrow>
              if jp_tokenType p \<noteq> ''access'' \<or> jp_sub p = [] \<or> jp_sessionVersion p < 0
              then Inl (Unauthorized ''access-token'')
              else case find_user db (jp_sub p) of
                None \<Rightarrow> Inl (Unauthorized ''user-not-found'')
              | Some u \<Rightarrow>
                  if us_deletedAt u \<noteq> None then Inl (Unauthorized ''user-not-found'')
                  else if jp_sessionVersion p \<noteq> us_sessionVersion u then Inl (Unauthorized ''session-revoked'')
                  else if us_isBlocked u then Inl (Forbidden ''user-blocked'')
                  else Inr \<lparr>auth_id = us_id u, auth_phone = us_phone u, auth_role = us_role u\<rparr>)"

definition roles_guard :: "user_role list \<Rightarrow> auth_user option \<Rightarrow> unit result" where
  "roles_guard roles user =
     (if roles = [] then Inr ()
      else case user of
        None \<Rightarrow> Inl (Forbidden ''roles'')
      | Some u \<Rightarrow> if auth_role u \<in> set roles then Inr () else Inl (Forbidden ''roles''))"

end
