(* ===== verification/Auth_Properties.thy ===== *)
theory Auth_Properties
  imports Auth Sample_Data
begin

text \<open>
  What authentication guarantees: wrong codes lead to a block, a login yields tokens that work, a
  refresh token works once and its reuse ends the session, and revoking all sessions voids every
  token issued before. The signature scheme is an argument; \<open>jwt_laws\<close> states what a JWT library
  documents: a token reads back as the payload it was signed from until it expires, with the
  resolution of one second.
\<close>

definition jwt_laws :: "'tok auth_tools \<Rightarrow> bool" where
  "jwt_laws tools \<longleftrightarrow> (\<forall>secret p t ttl now. at_verify tools secret (at_sign tools secret p t ttl) now =
     (if now div 1000 < t div 1000 + ttl then Some p else None))"

lemma jwt_verify:
  "jwt_laws tools \<Longrightarrow> at_verify tools secret (at_sign tools secret p t ttl) now =
     (if now div 1000 < t div 1000 + ttl then Some p else None)"
  by (simp add: jwt_laws_def)

section \<open>Wrong codes\<close>

fun try_codes :: "'tok auth_tools \<Rightarrow> string \<Rightarrow> (string \<times> timestamp) list \<Rightarrow> auth_world \<Rightarrow> auth_world \<times> unit result list" where
  "try_codes tools phone [] w = (w, [])"
| "try_codes tools phone ((code, t) # cs) w =
     (case verify_and_consume_otp tools phone code t w of (w, x) \<Rightarrow>
      case try_codes tools phone cs w of (w, xs) \<Rightarrow> (w, x # xs))"

lemma try_codes_append:
  "try_codes tools phone (cs @ ds) w =
     (case try_codes tools phone cs w of (w, xs) \<Rightarrow> case try_codes tools phone ds w of (w, ys) \<Rightarrow> (w, xs @ ys))"
  by (induction cs arbitrary: w) (auto split: prod.splits)

definition unblocked :: "string \<Rightarrow> redis \<Rightarrow> bool" where
  "unblocked phone r \<longleftrightarrow> (\<forall>t. redis_get t (otp_block_key phone) r = None)"

definition wrong_code :: "'tok auth_tools \<Rightarrow> string \<Rightarrow> auth_world \<Rightarrow> string \<times> timestamp \<Rightarrow> bool" where
  "wrong_code tools phone w x \<longleftrightarrow>
     (\<forall>h. stored_code_hash phone (snd x) w = Some h \<longrightarrow> h = [] \<or> \<not> at_compare tools (fst x) h)"

lemma otp_keys_differ:
  "otp_fail_key phone \<noteq> otp_block_key phone" "otp_fail_key phone \<noteq> otp_code_key phone"
  "otp_block_key phone \<noteq> otp_code_key phone"
  by (simp_all add: otp_fail_key_def otp_block_key_def otp_code_key_def)

text \<open>A wrong code that is not the last one allowed counts, and changes nothing else.\<close>

lemma wrong_code_counts:
  assumes "unblocked phone (aw_redis w)" and "wrong_code tools phone w (code, t)"
    and "counts_to (otp_fail_key phone) n until (aw_redis w)" and "n < 4" and "0 < n \<Longrightarrow> t < until"
    and "verify_and_consume_otp tools phone code t w = (w', x)"
  shows "x = Inl (Unauthorized ''wrong-code'')" "unblocked phone (aw_redis w')"
    "counts_to (otp_fail_key phone) (Suc n) (if n = 0 then t + 1800000 else until) (aw_redis w')"
    "stored_code_hash phone t' w' = stored_code_hash phone t' w"
proof -
  obtain r m where i: "redis_incr t (otp_fail_key phone) OTP_BLOCK_SECONDS (aw_redis w) = (r, m)" by fastforce
  have "m = Suc n \<and> counts_to (otp_fail_key phone) (Suc n) (if n = 0 then t + 1800000 else until) r"
  proof (cases n)
    case 0
    then show ?thesis using redis_incr_first [OF _ i] assms(3) by (simp add: counts_to_def OTP_BLOCK_SECONDS_def)
  next
    case (Suc k)
    then show ?thesis using redis_incr_next [OF assms(3) _ _ i] assms(5) by simp
  qed
  note m = conjunct1 [OF this] conjunct2 [OF this]
  have "register_otp_failure phone t w = (w\<lparr>aw_redis := r\<rparr>, Inl (Unauthorized ''wrong-code''))"
    using assms(4) by (simp add: register_otp_failure_def incr_with_expire_def i m(1) OTP_FAIL_LIMIT_def)
  moreover have "verify_and_consume_otp tools phone code t w = register_otp_failure phone t w"
    using assms(1,2) by (auto simp: verify_and_consume_otp_def ensure_otp_not_blocked_def unblocked_def wrong_code_def
        split: option.splits)
  ultimately have w': "w' = w\<lparr>aw_redis := r\<rparr>" and x: "x = Inl (Unauthorized ''wrong-code'')" using assms(6) by auto
  have other: "key \<noteq> otp_fail_key phone \<Longrightarrow> redis_get t' key r = redis_get t' key (aw_redis w)" for key t'
    using redis_get_incr_other [of key "otp_fail_key phone" t' t OTP_BLOCK_SECONDS "aw_redis w"] by (simp add: i)
  show "x = Inl (Unauthorized ''wrong-code'')" by (fact x)
  show "unblocked phone (aw_redis w')" using assms(1) by (simp add: w' unblocked_def other otp_keys_differ [symmetric])
  show "counts_to (otp_fail_key phone) (Suc n) (if n = 0 then t + 1800000 else until) (aw_redis w')" using m(2) by (simp add: w')
  show "stored_code_hash phone t' w' = stored_code_hash phone t' w"
    by (simp add: w' stored_code_hash_def other otp_keys_differ [symmetric])
qed

text \<open>The fifth blocks.\<close>

lemma fifth_wrong_code:
  assumes "unblocked phone (aw_redis w)" and "wrong_code tools phone w (code, t)"
    and "counts_to (otp_fail_key phone) 4 until (aw_redis w)" and "t < until"
    and "verify_and_consume_otp tools phone code t w = (w', x)"
  shows "x = Inl (Too_many_requests ''too-many-wrong-codes'')"
    "later < t + 1800000 \<Longrightarrow> redis_get later (otp_block_key phone) (aw_redis w') = Some (R_string ''1'')"
proof -
  obtain r m where i: "redis_incr t (otp_fail_key phone) OTP_BLOCK_SECONDS (aw_redis w) = (r, m)" by fastforce
  have m: "m = 5" using redis_incr_next [OF assms(3) _ assms(4) i] by simp
  have "verify_and_consume_otp tools phone code t w = register_otp_failure phone t w"
    using assms(1,2) by (auto simp: verify_and_consume_otp_def ensure_otp_not_blocked_def unblocked_def wrong_code_def
        split: option.splits)
  also have "\<dots> = (w\<lparr>aw_redis := redis_del_all [otp_code_key phone, otp_fail_key phone]
      (redis_set t (otp_block_key phone) (R_string ''1'') OTP_BLOCK_SECONDS r)\<rparr>, Inl (Too_many_requests ''too-many-wrong-codes''))"
    by (simp add: register_otp_failure_def incr_with_expire_def i m OTP_FAIL_LIMIT_def)
  finally show "x = Inl (Too_many_requests ''too-many-wrong-codes'')"
    "later < t + 1800000 \<Longrightarrow> redis_get later (otp_block_key phone) (aw_redis w') = Some (R_string ''1'')"
    using assms(5) by (auto simp: OTP_BLOCK_SECONDS_def otp_keys_differ otp_keys_differ [symmetric])
qed

lemma wrong_codes_count:
  assumes "unblocked phone (aw_redis w)" and "\<forall>x \<in> set cs. wrong_code tools phone w x"
    and "counts_to (otp_fail_key phone) n until (aw_redis w)" and "0 < n" and "n + length cs \<le> 4"
    and "\<forall>x \<in> set cs. snd x < until" and "try_codes tools phone cs w = (w', xs)"
  shows "xs = replicate (length cs) (Inl (Unauthorized ''wrong-code'')) \<and> unblocked phone (aw_redis w')
    \<and> counts_to (otp_fail_key phone) (n + length cs) until (aw_redis w')
    \<and> (\<forall>t'. stored_code_hash phone t' w' = stored_code_hash phone t' w)"
  using assms
proof (induction cs arbitrary: w n xs)
  case (Cons x cs)
  obtain code t where x: "x = (code, t)" by (cases x)
  obtain w1 y where s: "verify_and_consume_otp tools phone code t w = (w1, y)" by fastforce
  obtain ys where r: "try_codes tools phone cs w1 = (w', ys)" "xs = y # ys"
    using Cons.prems(7) by (auto simp: x s split: prod.splits)
  have c: "wrong_code tools phone w (code, t)" "n < 4" "0 < n \<Longrightarrow> t < until" using Cons.prems by (simp_all add: x)
  note step = wrong_code_counts [OF Cons.prems(1) c(1) Cons.prems(3) c(2,3) s]
  have "\<forall>x \<in> set cs. wrong_code tools phone w1 x" using Cons.prems(2) by (simp add: wrong_code_def step(4))
  moreover have "counts_to (otp_fail_key phone) (Suc n) until (aw_redis w1)" using step(3) Cons.prems(4) by simp
  ultimately show ?case
    using Cons.IH [OF step(2), of "Suc n" ys] Cons.prems(5,6) r step(1,4) by simp
qed simp

text \<open>
  C25. Five wrong codes block a phone: whatever codes are tried within half an hour of the first
  wrong one, the first four are refused as wrong and the fifth blocks the phone, and for the next
  half hour every code, the right one included, and every request for a new code is refused
  without any effect.
\<close>

theorem otp_lockout:
  assumes "unblocked phone (aw_redis w)" and "counts_to (otp_fail_key phone) 0 until (aw_redis w)"
    and "length cs = 5" and "\<forall>x \<in> set cs. wrong_code tools phone w x \<and> snd x < snd (hd cs) + 30 * 60 * 1000"
    and "try_codes tools phone cs w = (w', xs)"
    and "later < snd (last cs) + 30 * 60 * 1000" and "normalize_russian_phone rawPhone = Inr phone"
  shows "xs = replicate 4 (Inl (Unauthorized ''wrong-code'')) @ [Inl (Too_many_requests ''too-many-wrong-codes'')]
    \<and> verify_and_consume_otp tools phone code later w' = (w', Inl (Too_many_requests ''otp-blocked''))
    \<and> request_otp tools config production rnd reply rawPhone context later w' = (w', Inl (Too_many_requests ''otp-blocked''))"
proof -
  obtain c0 t0 c1 c2 c3 c4 t4 where cs: "cs = (c0, t0) # [c1, c2, c3] @ [(c4, t4)]"
    using assms(3) by (auto simp: length_Suc_conv numeral_eq_Suc)
  obtain w1 x0 where s0: "verify_and_consume_otp tools phone c0 t0 w = (w1, x0)" by fastforce
  obtain w2 ys where s1: "try_codes tools phone [c1, c2, c3] w1 = (w2, ys)" by fastforce
  obtain w3 x4 where s4: "verify_and_consume_otp tools phone c4 t4 w2 = (w3, x4)" by fastforce
  have out: "w' = w3" "xs = x0 # ys @ [x4]"
    using assms(5) try_codes_append [of tools phone "[c1, c2, c3]" "[(c4, t4)]" w1] s0 s1 s4 by (simp_all add: cs)
  have wrong: "wrong_code tools phone w x" "snd x < t0 + 1800000" if "x \<in> set cs" for x using assms(4) that by (auto simp: cs)
  have "wrong_code tools phone w (c0, t0)" by (rule wrong) (simp add: cs)
  note a = wrong_code_counts [OF assms(1) this assms(2) _ _ s0, simplified]
  have "\<forall>x \<in> set [c1, c2, c3]. wrong_code tools phone w1 x"
    using wrong(1) by (simp add: wrong_code_def a(4) cs)
  note b = wrong_codes_count [OF a(2) this a(3) _ _ _ s1, simplified]
  have b: "ys = replicate 3 (Inl (Unauthorized ''wrong-code''))" "unblocked phone (aw_redis w2)"
    "counts_to (otp_fail_key phone) 4 (t0 + 1800000) (aw_redis w2)"
    "\<forall>t'. stored_code_hash phone t' w2 = stored_code_hash phone t' w1"
    using b wrong(2) by (auto simp: cs numeral_eq_Suc)
  have "wrong_code tools phone w2 (c4, t4)" using wrong(1) [of "(c4, t4)"] by (simp add: wrong_code_def a(4) b(4) cs)
  moreover have "t4 < t0 + 1800000" using wrong(2) [of "(c4, t4)"] by (simp add: cs)
  ultimately have d: "x4 = Inl (Too_many_requests ''too-many-wrong-codes'')"
    "redis_get later (otp_block_key phone) (aw_redis w3) = Some (R_string ''1'')"
    using fifth_wrong_code(1) [OF b(2) _ b(3) _ s4] fifth_wrong_code(2) [OF b(2) _ b(3) _ s4, of later] assms(6) by (simp_all add: cs)
  show ?thesis
    using out a(1) b(1) d assms(7)
    by (simp add: verify_and_consume_otp_def request_otp_def ensure_otp_not_blocked_def numeral_eq_Suc)
qed

section \<open>Tokens\<close>

lemma auth_keys_differ:
  "refresh_token_key j \<noteq> session_key u i" "refresh_token_key j \<noteq> user_sessions_key u"
  "session_key u i \<noteq> user_sessions_key u'"
  by (simp_all add: refresh_token_key_def session_key_def user_sessions_key_def)

lemma refresh_token_key_inj [simp]: "refresh_token_key i = refresh_token_key j \<longleftrightarrow> i = j"
  by (simp add: refresh_token_key_def)

lemma store_session_get:
  "redis_get t (refresh_token_key j) (store_session s ttl now r) =
     (if j = ses_currentJti s then (if t < now + ttl * 1000 then Some (R_session s) else None)
      else redis_get t (refresh_token_key j) r)"
  "redis_get t (session_key (ses_userId s) (ses_sessionId s)) (store_session s ttl now r) =
     (if t < now + ttl * 1000 then Some (R_session s) else None)"
  by (simp_all add: store_session_def auth_keys_differ auth_keys_differ [symmetric])

lemma issue_tokensE:
  assumes "issue_tokens tools config user inst session now w = (w', Inr t)"
  obtains accessSecret refreshSecret accessTtl refreshTtl s where
    "token_config config = Inr (accessSecret, refreshSecret, accessTtl, refreshTtl)"
    "s = new_session user inst session now (aw_db w)"
    "w' = \<lparr>aw_db = (aw_db w)\<lparr>db_next := db_next (aw_db w) + 2\<rparr>, aw_redis = store_session s refreshTtl now (aw_redis w)\<rparr>"
    "atk_accessToken t = at_sign tools accessSecret (access_payload user) now accessTtl"
    "atk_refreshToken t = at_sign tools refreshSecret (refresh_payload user (ses_currentJti s) (ses_sessionId s)) now refreshTtl"
  using assms by (auto simp: issue_tokens_def Let_def split: sum.splits)

lemma token_configD:
  assumes "token_config config = Inr (a, r, n, m)"
  shows "config ''JWT_ACCESS_SECRET'' = Some a" "a \<noteq> []" "required_auth_config config ''JWT_REFRESH_SECRET'' = Inr r"
  using assms by (auto simp: token_config_def bind_result_Inr_iff required_auth_config_def split: option.splits if_splits)

text \<open>Whoever refreshes had a live session record of his own, and an account in order.\<close>

lemma refresh_tokensE:
  assumes "refresh_tokens tools config token now w = (w', Inr t)"
  obtains p s u where "verify_refresh_token tools config token now = Inr p"
    "redis_get now (refresh_token_key (text_of (jp_jti p))) (aw_redis w) = Some (R_session s)" "ses_userId s = jp_sub p"
    "find_user (aw_db w) (jp_sub p) = Some u" "us_sessionVersion u = jp_sessionVersion p"
    "issue_tokens tools config u (ses_installationId s) (Some (ses_sessionId s, ses_createdAt s)) now
       (w\<lparr>aw_redis := redis_del (refresh_token_key (text_of (jp_jti p))) (aw_redis w)\<rparr>) = (w', Inr t)"
  using assms
  by (auto simp: refresh_tokens_def redis_getdel_def parse_refresh_session_def Let_def
      split: sum.splits option.splits redis_value.splits if_splits)

lemma refresh_tokensI:
  assumes "verify_refresh_token tools config token now = Inr p"
    and "redis_get now (refresh_token_key (text_of (jp_jti p))) (aw_redis w) = Some (R_session s)" "ses_userId s = jp_sub p"
    and "find_user (aw_db w) (jp_sub p) = Some u" "jp_sessionVersion p = us_sessionVersion u" "ensure_user_can_login u = Inr ()"
    and "token_config config = Inr c"
  shows "is_ok (snd (refresh_tokens tools config token now w))"
  using assms by (cases c) (simp add: refresh_tokens_def redis_getdel_def parse_refresh_session_def issue_tokens_def Let_def)

lemma refresh_without_session:
  assumes "verify_refresh_token tools config token now = Inr p"
    and "redis_get now (refresh_token_key (text_of (jp_jti p))) (aw_redis w) = None"
  shows "refresh_tokens tools config token now w =
    (revoke_session (jp_sub p) (text_of (jp_sid p)) now
       (w\<lparr>aw_redis := redis_del (refresh_token_key (text_of (jp_jti p))) (aw_redis w)\<rparr>), Inl (Unauthorized ''refresh-revoked''))"
  using assms by (simp add: refresh_tokens_def redis_getdel_def parse_refresh_session_def Let_def)

lemma revoke_session_kills:
  assumes "redis_get now (session_key userId sid) (aw_redis w) = (if alive_session then Some (R_session s) else None)"
    and "ses_userId s = userId" and "ses_sessionId s = sid"
  shows "redis_get t (refresh_token_key j) (aw_redis (revoke_session userId sid now w)) =
    (if alive_session \<and> j = ses_currentJti s then None else redis_get t (refresh_token_key j) (aw_redis w))"
  using assms by (cases alive_session) (auto simp: revoke_session_def parse_refresh_session_def Let_def auth_keys_differ)

lemma verify_refresh_token_sign:
  assumes "jwt_laws tools" and "required_auth_config config ''JWT_REFRESH_SECRET'' = Inr secret"
    and "verify_refresh_token tools config (at_sign tools secret p t ttl) now = Inr q"
  shows "q = p" "now div 1000 < t div 1000 + ttl"
  using assms by (auto simp: verify_refresh_token_def jwt_verify split: option.splits if_splits)

text \<open>
  C26. A refresh token works once, and its reuse ends the session: after a successful refresh the
  old token is refused, and that attempt revokes the session, so that the new refresh token is
  refused as well from then on.
\<close>

theorem refresh_reuse_revokes:
  assumes "jwt_laws tools" and "refresh_tokens tools config token now w = (w1, Inr t1)"
    and "verify_refresh_token tools config token now = Inr p"
    and "\<forall>s. redis_get now (refresh_token_key (text_of (jp_jti p))) (aw_redis w) = Some (R_session s)
      \<longrightarrow> Some (ses_sessionId s) = jp_sid p"
    and "fresh_id (aw_db w) \<noteq> text_of (jp_jti p)"
    and "verify_refresh_token tools config token later = Inr p"
    and "refresh_tokens tools config token later w1 = (w2, x)" and "later \<le> muchLater"
  shows "x = Inl (Unauthorized ''refresh-revoked'')
    \<and> \<not> is_ok (snd (refresh_tokens tools config (atk_refreshToken t1) muchLater w2))"
proof -
  from assms(2) obtain s u where s: "redis_get now (refresh_token_key (text_of (jp_jti p))) (aw_redis w) = Some (R_session s)"
    "ses_userId s = jp_sub p" and u: "find_user (aw_db w) (jp_sub p) = Some u"
    and i: "issue_tokens tools config u (ses_installationId s) (Some (ses_sessionId s, ses_createdAt s)) now
       (w\<lparr>aw_redis := redis_del (refresh_token_key (text_of (jp_jti p))) (aw_redis w)\<rparr>) = (w1, Inr t1)"
    using assms(3) by (auto elim: refresh_tokensE)
  from i obtain a rs n m s1 where c: "token_config config = Inr (a, rs, n, m)"
    and s1: "s1 = new_session u (ses_installationId s) (Some (ses_sessionId s, ses_createdAt s)) now (aw_db w)"
    and w1: "aw_redis w1 = store_session s1 m now (redis_del (refresh_token_key (text_of (jp_jti p))) (aw_redis w))"
    and t1: "atk_refreshToken t1 = at_sign tools rs (refresh_payload u (ses_currentJti s1) (ses_sessionId s1)) now m"
    by (auto elim: issue_tokensE)
  have id: "us_id u = jp_sub p" using u by (auto simp: find_user_def dest: find_SomeD)
  have sid: "jp_sid p = Some (ses_sessionId s)" using assms(4) s(1) by simp
  have f: "ses_userId s1 = jp_sub p" "ses_sessionId s1 = text_of (jp_sid p)" "ses_currentJti s1 = fresh_id (aw_db w)"
    using sid by (simp_all add: s1 new_session_def id text_of_def)
  let ?w1 = "w1\<lparr>aw_redis := redis_del (refresh_token_key (text_of (jp_jti p))) (aw_redis w1)\<rparr>"
  have "redis_get later (refresh_token_key (text_of (jp_jti p))) (aw_redis w1) = None"
    using assms(5) by (simp add: w1 store_session_get f)
  from refresh_without_session [OF assms(6) this] have x: "x = Inl (Unauthorized ''refresh-revoked'')"
    and w2: "w2 = revoke_session (jp_sub p) (text_of (jp_sid p)) later ?w1" using assms(7) by auto
  have "redis_get later (session_key (jp_sub p) (text_of (jp_sid p))) (aw_redis ?w1) =
     (if later < now + m * 1000 then Some (R_session s1) else None)"
    using store_session_get(2) [of later s1 m now] f by (simp add: w1 auth_keys_differ [symmetric])
  from revoke_session_kills [OF this f(1,2)]
  have "redis_get muchLater (refresh_token_key (fresh_id (aw_db w))) (aw_redis w2) = None"
    using assms(5,8) by (simp add: w2 f w1 store_session_get)
  moreover have "q = refresh_payload u (fresh_id (aw_db w)) (ses_sessionId s1)"
    if "verify_refresh_token tools config (atk_refreshToken t1) muchLater = Inr q" for q
    using verify_refresh_token_sign(1) [OF assms(1) token_configD(3) [OF c]] that by (simp add: t1 f)
  ultimately have "\<not> is_ok (snd (refresh_tokens tools config (atk_refreshToken t1) muchLater w2))"
    by (cases "verify_refresh_token tools config (atk_refreshToken t1) muchLater")
      (simp_all add: refresh_without_session refresh_payload_def text_of_def, simp add: refresh_tokens_def)
  with x show ?thesis by blast
qed

section \<open>Revoking everything\<close>

text \<open>
  Revoking all sessions voids every token of the user: whatever token was signed for him with
  the session version before the revocation, the guard of the routes refuses it as an access token
  and the refresh refuses it as a refresh token, at any time.
\<close>

theorem revoke_all_voids:
  assumes "revoke_all_sessions userId now w = (w', Inr ())" and "find_user (aw_db w) userId = Some u"
    and "\<forall>secret p. at_verify tools secret token later = Some p \<longrightarrow>
      jp_sub p = userId \<and> jp_sessionVersion p \<le> us_sessionVersion u"
  shows "\<not> is_ok (jwt_auth_guard tools config token later (aw_db w'))
    \<and> \<not> is_ok (snd (refresh_tokens tools config token later w'))"
proof -
  let ?f = "\<lambda>u. u\<lparr>us_sessionVersion := us_sessionVersion u + 1, us_updatedAt := now\<rparr>"
  have "us_id u = userId" using assms(2) by (auto simp: find_user_def dest: find_SomeD)
  moreover have "db_users (aw_db w') = update_rows (\<lambda>x. us_id x = userId) ?f (db_users (aw_db w))"
    using assms(1,2) by (auto simp: revoke_all_sessions_def Let_def)
  moreover have "List.find (\<lambda>x. us_id x = userId) (update_rows (\<lambda>x. us_id x = userId) ?f (db_users (aw_db w)))
      = map_option (\<lambda>x. if us_id x = userId then ?f x else x) (List.find (\<lambda>x. us_id x = userId) (db_users (aw_db w)))"
    by (rule find_update_rows) simp
  ultimately have u': "find_user (aw_db w') userId = Some (?f u)"
    using assms(2) by (simp add: find_user_def)
  have "\<not> is_ok (jwt_auth_guard tools config token later (aw_db w'))"
  proof
    assume "is_ok (jwt_auth_guard tools config token later (aw_db w'))"
    then obtain secret p x where "at_verify tools secret token later = Some p"
      "find_user (aw_db w') (jp_sub p) = Some x" "jp_sessionVersion p = us_sessionVersion x"
      by (auto simp: jwt_auth_guard_def split: option.splits if_splits)
    then show False using u' assms(3) by fastforce
  qed
  moreover have "\<not> is_ok (snd (refresh_tokens tools config token later w'))"
  proof
    assume "is_ok (snd (refresh_tokens tools config token later w'))"
    then obtain w2 t where "refresh_tokens tools config token later w' = (w2, Inr t)"
      by (cases "refresh_tokens tools config token later w'") (auto simp: is_ok_def split: sum.splits)
    then show False
    proof (cases rule: refresh_tokensE)
      case (1 q s x)
      have "jp_sub q = userId \<and> jp_sessionVersion q \<le> us_sessionVersion u"
        using 1(1) assms(3) by (auto simp: verify_refresh_token_def bind_result_Inr_iff split: if_splits option.splits)
      moreover have "us_sessionVersion x = us_sessionVersion u + 1" using 1(4) u' calculation by auto
      ultimately show ?thesis using 1(5) by simp
    qed
  qed
  ultimately show ?thesis ..
qed

section \<open>Logging in\<close>

lemma seconds_less:
  fixes a b n :: int
  assumes "a div 1000 < b div 1000 + n"
  shows "a < b + n * 1000"
proof -
  have "a = 1000 * (a div 1000) + a mod 1000" "b = 1000 * (b div 1000) + b mod 1000" by simp_all
  moreover have "a mod 1000 < 1000" "0 \<le> b mod 1000" by simp_all
  ultimately show ?thesis using assms by linarith
qed

lemma upsert_userD:
  assumes "upsert_user phone now w = (w', u)" and "distinct (map us_id (db_users (aw_db w)))"
    and "fresh_id (aw_db w) \<notin> us_id ` set (db_users (aw_db w))" and "\<forall>n. db_supply (aw_db w) n \<noteq> []"
    and "\<forall>u \<in> set (db_users (aw_db w)). us_id u \<noteq> [] \<and> 0 \<le> us_sessionVersion u"
  shows "us_phone u = phone" "find_user (aw_db w') (us_id u) = Some u" "us_id u \<noteq> []" "0 \<le> us_sessionVersion u"
    "db_supply (aw_db w') = db_supply (aw_db w)"
proof -
  have "u \<in> set (db_users (aw_db w')) \<and> us_phone u = phone \<and> distinct (map us_id (db_users (aw_db w')))
      \<and> us_id u \<noteq> [] \<and> 0 \<le> us_sessionVersion u \<and> db_supply (aw_db w') = db_supply (aw_db w)"
  proof (cases "List.find (\<lambda>u. us_phone u = phone) (db_users (aw_db w))")
    case (Some x)
    then have "w' = w" "u = x" using assms(1) by (simp_all add: upsert_user_def)
    then show ?thesis using find_SomeD [OF Some] assms(2,5) by simp
  next
    case None
    then show ?thesis using assms by (auto simp: upsert_user_def Let_def fresh_id_def)
  qed
  then show "us_phone u = phone" "find_user (aw_db w') (us_id u) = Some u" "us_id u \<noteq> []" "0 \<le> us_sessionVersion u"
    "db_supply (aw_db w') = db_supply (aw_db w)" by (auto simp: find_user_def intro: find_unique)
qed

text \<open>
  C27. A login works: the tokens a verified code yields are accepted, the access token by the guard
  of the routes, which finds the user with the phone of the request, and the refresh token by the
  next refresh, as long as they have not expired.
\<close>

theorem login_roundtrip:
  assumes "verify_otp tools config rawPhone code inst now w = (w', Inr t)" and "jwt_laws tools"
    and "normalize_russian_phone rawPhone = Inr phone" and "token_config config = Inr (a, rs, accessTtl, refreshTtl)"
    and "distinct (map us_id (db_users (aw_db w)))" and "fresh_id (aw_db w) \<notin> us_id ` set (db_users (aw_db w))"
    and "\<forall>n. db_supply (aw_db w) n \<noteq> []" and "\<forall>u \<in> set (db_users (aw_db w)). us_id u \<noteq> [] \<and> 0 \<le> us_sessionVersion u"
    and "later div 1000 < now div 1000 + accessTtl" and "later div 1000 < now div 1000 + refreshTtl"
  shows "(\<exists>x. jwt_auth_guard tools config (atk_accessToken t) later (aw_db w') = Inr x
        \<and> auth_id x = aur_id (atk_user t) \<and> auth_phone x = phone)
    \<and> is_ok (snd (refresh_tokens tools config (atk_refreshToken t) later w'))"
proof -
  obtain w1 where o: "verify_and_consume_otp tools phone code now w = (w1, Inr ())"
    using assms(1,3) by (cases "verify_and_consume_otp tools phone code now w") (auto simp: verify_otp_def then_do_def split: sum.splits)
  have d1: "aw_db w1 = aw_db w"
    using o by (auto simp: verify_and_consume_otp_def consume_otp_code_def register_otp_failure_def Let_def
        split: sum.splits option.splits if_splits prod.splits)
  obtain w2 u where up: "upsert_user phone now w1 = (w2, u)" by fastforce
  have can: "ensure_user_can_login u = Inr ()" and i: "issue_tokens tools config u inst None now w2 = (w', Inr t)"
    using assms(1,3) o up by (auto simp: verify_otp_def split: sum.splits)
  note u = upsert_userD [OF up, unfolded d1, OF assms(5-8)]
  obtain s where s: "s = new_session u inst None now (aw_db w2)"
    and w': "w' = \<lparr>aw_db = (aw_db w2)\<lparr>db_next := db_next (aw_db w2) + 2\<rparr>, aw_redis = store_session s refreshTtl now (aw_redis w2)\<rparr>"
    and t: "atk_accessToken t = at_sign tools a (access_payload u) now accessTtl"
      "atk_refreshToken t = at_sign tools rs (refresh_payload u (ses_currentJti s) (ses_sessionId s)) now refreshTtl"
      "atk_user t = to_auth_user u"
    using i assms(4) by (auto simp: issue_tokens_def Let_def)
  have fu: "find_user (aw_db w') = find_user (aw_db w2)" by (rule ext) (simp add: w' find_user_def)
  have ok: "us_deletedAt u = None" "\<not> us_isBlocked u" using can by (auto simp: ensure_user_can_login_def split: if_splits)
  have v: "at_verify tools a (atk_accessToken t) later = Some (access_payload u)"
    using assms(9) by (simp only: t jwt_verify [OF assms(2)] if_True)
  have "jwt_auth_guard tools config (atk_accessToken t) later (aw_db w') = Inr \<lparr>auth_id = us_id u, auth_phone = us_phone u, auth_role = us_role u\<rparr>"
  proof -
    have p: "jp_sub (access_payload u) = us_id u" "jp_tokenType (access_payload u) = ''access''"
      "jp_sessionVersion (access_payload u) = us_sessionVersion u" by (simp_all add: access_payload_def)
    show ?thesis
      using u(3,4) ok by (simp add: jwt_auth_guard_def token_configD(1,2) [OF assms(4)] v fu u(2) p)
  qed
  moreover have "is_ok (snd (refresh_tokens tools config (atk_refreshToken t) later w'))"
  proof -
    have "later < now + refreshTtl * 1000" using assms(10) by (rule seconds_less)
    then have g: "redis_get later (refresh_token_key (ses_currentJti s)) (aw_redis w') = Some (R_session s)"
      by (simp add: w' store_session_get)
    let ?p = "refresh_payload u (ses_currentJti s) (ses_sessionId s)"
    have v: "verify_refresh_token tools config (atk_refreshToken t) later = Inr ?p"
    proof -
      have "at_verify tools rs (atk_refreshToken t) later = Some ?p"
        using assms(10) by (simp only: t jwt_verify [OF assms(2)] if_True)
      moreover have "ses_currentJti s \<noteq> []" "ses_sessionId s \<noteq> []" using assms(7) u(5) by (simp_all add: s new_session_def fresh_id_def)
      ultimately show ?thesis
        using token_configD(3) [OF assms(4)] u(4)
        by (simp add: verify_refresh_token_def refresh_payload_def access_payload_def blank_text_def)
    qed
    have p: "text_of (jp_jti ?p) = ses_currentJti s" "jp_sub ?p = us_id u" "jp_sessionVersion ?p = us_sessionVersion u"
      by (simp_all add: refresh_payload_def access_payload_def text_of_def)
    have "ses_userId s = us_id u" by (simp add: s new_session_def)
    then show ?thesis using g u(2) refresh_tokensI [OF v, unfolded p, OF _ _ _ refl can assms(4)] by (simp only: fu)
  qed
  ultimately show ?thesis using u(1) by (simp add: t to_auth_user_def)
qed

section \<open>Samples\<close>

text \<open>A token that is what it was signed from, and a hash that is the code itself.\<close>

type_synonym sample_token = "string \<times> jwt_payload \<times> timestamp \<times> int"

definition sample_auth_tools :: "sample_token auth_tools" where
  "sample_auth_tools = \<lparr>at_sign = (\<lambda>secret p t ttl. (secret, p, t, ttl)),
     at_verify = (\<lambda>secret token now. case token of (s, p, t, ttl) \<Rightarrow>
        if now div 1000 < t div 1000 + ttl then (if s = secret then Some p else None) else None),
     at_hash = (\<lambda>_ code. code), at_compare = (\<lambda>code h. code = h), at_sha256 = id\<rparr>"

lemma sample_jwt_laws: "jwt_laws sample_auth_tools"
  by (simp add: jwt_laws_def sample_auth_tools_def)

definition auth_config :: config where
  "auth_config = [''JWT_ACCESS_SECRET'' \<mapsto> ''a'', ''JWT_REFRESH_SECRET'' \<mapsto> ''r'']"

definition no_redis :: redis where
  "no_redis key = None"

definition sample_ids :: "nat \<Rightarrow> string" where
  "sample_ids n = CHR ''k'' # sample_supply n"

definition auth_start :: auth_world where
  "auth_start = \<lparr>aw_db = sample_db\<lparr>db_supply := sample_ids, db_users := [(sample_user ''B'')\<lparr>us_phone := ''+79991234567''\<rparr>]\<rparr>,
     aw_redis = redis_set SAMPLE_NOW (otp_code_key ''+79991234567'') (R_string ''111111'') 300 no_redis\<rparr>"

definition five_tries :: "(string \<times> timestamp) list" where
  "five_tries = map (\<lambda>i. (''000000'', SAMPLE_NOW + i)) [0, 1, 2, 3, 4]"

theorem otp_lockout_witness:
  "\<exists>w' xs. try_codes sample_auth_tools ''+79991234567'' five_tries auth_start = (w', xs)
     \<and> verify_and_consume_otp sample_auth_tools ''+79991234567'' ''111111'' (SAMPLE_NOW + 10) w'
       = (w', Inl (Too_many_requests ''otp-blocked''))"
proof -
  obtain w' xs where r: "try_codes sample_auth_tools ''+79991234567'' five_tries auth_start = (w', xs)" by fastforce
  have "unblocked ''+79991234567'' (aw_redis auth_start)"
    "counts_to (otp_fail_key ''+79991234567'') 0 0 (aw_redis auth_start)"
    by (simp_all add: unblocked_def counts_to_def auth_start_def otp_keys_differ otp_keys_differ [symmetric] redis_get_def
        redis_set_def no_redis_def)
  moreover have "length five_tries = 5" "SAMPLE_NOW + 10 < snd (last five_tries) + 30 * 60 * 1000"
    by (simp_all add: five_tries_def)
  moreover have "\<forall>x \<in> set five_tries. wrong_code sample_auth_tools ''+79991234567'' auth_start x
      \<and> snd x < snd (hd five_tries) + 30 * 60 * 1000"
    by (simp add: five_tries_def wrong_code_def stored_code_hash_def auth_start_def sample_auth_tools_def)
  moreover have "normalize_russian_phone ''8 (999) 123-45-67'' = Inr ''+79991234567''" by code_simp
  ultimately show ?thesis using otp_lockout [OF _ _ _ _ r] r by blast
qed

lemma outcome_ok:
  assumes "is_ok (snd out)"
  obtains w x where "out = (w, Inr x)"
proof -
  obtain w r where r: "out = (w, r)" by (rule prod.exhaust)
  then show thesis using assms by (cases r) (auto intro: that)
qed

definition sample_login :: "sample_token auth_tokens outcome" where
  "sample_login = verify_otp sample_auth_tools auth_config ''89991234567'' ''111111'' ''inst'' SAMPLE_NOW auth_start"

lemma sample_login:
  obtains w t where "verify_otp sample_auth_tools auth_config ''89991234567'' ''111111'' ''inst'' SAMPLE_NOW auth_start = (w, Inr t)"
proof -
  have "is_ok (snd sample_login)" by code_simp
  then obtain w t where "sample_login = (w, Inr t)" by (rule outcome_ok)
  then show thesis by (intro that) (simp add: sample_login_def)
qed

theorem login_roundtrip_witness:
  "\<exists>w t. verify_otp sample_auth_tools auth_config ''89991234567'' ''111111'' ''inst'' SAMPLE_NOW auth_start = (w, Inr t)
     \<and> is_ok (jwt_auth_guard sample_auth_tools auth_config (atk_accessToken t) (SAMPLE_NOW + 60000) (aw_db w))"
proof -
  obtain w t where r: "verify_otp sample_auth_tools auth_config ''89991234567'' ''111111'' ''inst'' SAMPLE_NOW auth_start = (w, Inr t)"
    by (rule sample_login)
  have "normalize_russian_phone ''89991234567'' = Inr ''+79991234567''" by code_simp
  moreover have "token_config auth_config = Inr (''a'', ''r'', 900, 2592000)" by code_simp
  moreover have "distinct (map us_id (db_users (aw_db auth_start)))" "fresh_id (aw_db auth_start) \<notin> us_id ` set (db_users (aw_db auth_start))"
    "\<forall>u \<in> set (db_users (aw_db auth_start)). us_id u \<noteq> [] \<and> 0 \<le> us_sessionVersion u"
    by (simp_all add: auth_start_def sample_db_def sample_user_def fresh_id_def sample_ids_def)
  moreover have "\<forall>n. db_supply (aw_db auth_start) n \<noteq> []" by (simp add: auth_start_def sample_ids_def)
  ultimately show ?thesis
    using login_roundtrip [OF r sample_jwt_laws, of "''+79991234567''" "''a''" "''r''" 900 2592000 "SAMPLE_NOW + 60000"] r
    by (auto simp: SAMPLE_NOW_def)
qed

definition sample_payload :: jwt_payload where
  "sample_payload = refresh_payload (sample_user ''B'') ''j'' ''s''"

definition live_token :: sample_token where
  "live_token = (''r'', sample_payload, SAMPLE_NOW, 2592000)"

definition live_session :: refresh_session where
  "live_session = \<lparr>ses_userId = ''B'', ses_sessionId = ''s'', ses_currentJti = ''j'', ses_installationId = ''inst'',
     ses_createdAt = SAMPLE_NOW, ses_lastSeenAt = SAMPLE_NOW\<rparr>"

definition live_world :: auth_world where
  "live_world = \<lparr>aw_db = sample_db\<lparr>db_supply := sample_ids\<rparr>,
     aw_redis = store_session live_session 2592000 SAMPLE_NOW no_redis\<rparr>"

lemma live_token_verified:
  assumes "t div 1000 < SAMPLE_NOW div 1000 + 2592000"
  shows "verify_refresh_token sample_auth_tools auth_config live_token t = Inr sample_payload"
  using assms by (simp add: verify_refresh_token_def required_auth_config_def auth_config_def sample_auth_tools_def
      live_token_def sample_payload_def refresh_payload_def access_payload_def sample_user_def blank_text_def)

theorem refresh_reuse_revokes_witness:
  "\<exists>w1 t1 w2. refresh_tokens sample_auth_tools auth_config live_token (SAMPLE_NOW + 5000) live_world = (w1, Inr t1)
     \<and> refresh_tokens sample_auth_tools auth_config live_token (SAMPLE_NOW + 9000) w1
        = (w2, Inl (Unauthorized ''refresh-revoked''))
     \<and> \<not> is_ok (snd (refresh_tokens sample_auth_tools auth_config (atk_refreshToken t1) (SAMPLE_NOW + 9000) w2))"
proof -
  have "is_ok (snd (refresh_tokens sample_auth_tools auth_config live_token (SAMPLE_NOW + 5000) live_world))" by code_simp
  then obtain w1 t1 where r: "refresh_tokens sample_auth_tools auth_config live_token (SAMPLE_NOW + 5000) live_world = (w1, Inr t1)"
    by (rule outcome_ok)
  obtain w2 x where u: "refresh_tokens sample_auth_tools auth_config live_token (SAMPLE_NOW + 9000) w1 = (w2, x)" by fastforce
  have v: "verify_refresh_token sample_auth_tools auth_config live_token (SAMPLE_NOW + 5000) = Inr sample_payload"
    "verify_refresh_token sample_auth_tools auth_config live_token (SAMPLE_NOW + 9000) = Inr sample_payload"
    by (simp_all add: live_token_verified SAMPLE_NOW_def)
  have p: "text_of (jp_jti sample_payload) = ''j''" "jp_sid sample_payload = Some ''s''"
    by (simp_all add: sample_payload_def refresh_payload_def text_of_def)
  have b: "\<forall>s. redis_get (SAMPLE_NOW + 5000) (refresh_token_key (text_of (jp_jti sample_payload))) (aw_redis live_world)
      = Some (R_session s) \<longrightarrow> Some (ses_sessionId s) = jp_sid sample_payload"
    by (simp add: p live_world_def store_session_get live_session_def)
  have f: "fresh_id (aw_db live_world) \<noteq> text_of (jp_jti sample_payload)"
    by (simp add: p live_world_def fresh_id_def sample_ids_def)
  show ?thesis
    using refresh_reuse_revokes [OF sample_jwt_laws r v(1) b f v(2) u order_refl] r u by blast
qed

theorem revoke_all_voids_witness:
  "\<exists>w'. revoke_all_sessions ''B'' SAMPLE_NOW live_world = (w', Inr ())
     \<and> \<not> is_ok (snd (refresh_tokens sample_auth_tools auth_config live_token (SAMPLE_NOW + 5000) w'))"
proof -
  have u: "find_user (aw_db live_world) ''B'' = Some (sample_user ''B'')"
    by (simp add: live_world_def sample_db_def find_user_def sample_user_def)
  then obtain w' where r: "revoke_all_sessions ''B'' SAMPLE_NOW live_world = (w', Inr ())"
    by (simp add: revoke_all_sessions_def Let_def)
  have "\<forall>secret p. at_verify sample_auth_tools secret live_token (SAMPLE_NOW + 5000) = Some p \<longrightarrow>
      jp_sub p = ''B'' \<and> jp_sessionVersion p \<le> us_sessionVersion (sample_user ''B'')"
    by (simp add: sample_auth_tools_def live_token_def sample_payload_def refresh_payload_def access_payload_def sample_user_def
        split: if_splits)
  from revoke_all_voids [OF r u this] show ?thesis using r by blast
qed

end
