(* ===== verification/Item_Location.thy ===== *)
theory Item_Location
  imports Database
begin

text \<open>
  The public location of a listing (\<open>items/items.service.ts\<close>): a coordinate is replaced by the
  centre of a cell of a fixed grid of a tenth of a degree, and a distance by one of seven
  buckets. The arithmetic is that of doubles, in the order of the source; the database query
  of the search by distance repeats it in SQL without the final rounding to four decimals.
  The lemmas bound how far a centre lies from the coordinate and say that it depends on the
  cell alone.
\<close>

section \<open>The grid\<close>

definition SPARSE_COARSE_CELL_DEGREES :: rat where
  "SPARSE_COARSE_CELL_DEGREES = fl (1/10)"

definition half_cell :: rat where
  "half_cell = fl (SPARSE_COARSE_CELL_DEGREES / 2)"

text \<open>\<open>Math.floor((value - min) / SPARSE_COARSE_CELL_DEGREES)\<close>.\<close>

definition cell_index :: "rat \<Rightarrow> rat \<Rightarrow> int" where
  "cell_index value lo = \<lfloor>fl (js_sub value lo / SPARSE_COARSE_CELL_DEGREES)\<rfloor>"

text \<open>The centre of a cell, kept at least half a cell inside the range.\<close>

definition cell_centre :: "int \<Rightarrow> rat \<Rightarrow> rat \<Rightarrow> rat" where
  "cell_centre index lo hi =
     (let cellCenter = js_add (js_add lo (js_mul (of_int index) SPARSE_COARSE_CELL_DEGREES)) half_cell
      in min (js_sub hi half_cell) (max (js_add lo half_cell) cellCenter))"

text \<open>
  \<open>Number(x.toFixed(4))\<close>: the multiple of 1/10000 next to the exact value, the larger one in
  magnitude when two are equally near, read back as a double.
\<close>

definition fixed4 :: "rat \<Rightarrow> rat" where
  "fixed4 x =
     (let n = \<lfloor>\<bar>x\<bar> * 10000 + 1/2\<rfloor>; y = of_int n / 10000
      in fl (if x < 0 then - y else y))"

definition to_sparse_cell_center :: "rat \<Rightarrow> rat \<Rightarrow> rat \<Rightarrow> rat" where
  "to_sparse_cell_center value lo hi = fixed4 (cell_centre (cell_index value lo) lo hi)"

text \<open>The cell of a point: all that the public answers know of its coordinates.\<close>

definition location_cell :: "rat \<Rightarrow> rat \<Rightarrow> int \<times> int" where
  "location_cell latitude longitude = (cell_index latitude (-90), cell_index longitude (-180))"

text \<open>The point of the SQL query, longitude first.\<close>

definition raw_public_item_point :: "rat \<Rightarrow> rat \<Rightarrow> rat \<times> rat" where
  "raw_public_item_point latitude longitude =
     (cell_centre (cell_index longitude (-180)) (-180) 180,
      cell_centre (cell_index latitude (-90)) (-90) 90)"

section \<open>Distance buckets\<close>

datatype distance_bucket =
    UNDER_1_KM | FROM_1_TO_3_KM | FROM_3_TO_5_KM | FROM_5_TO_10_KM
  | FROM_10_TO_25_KM | FROM_25_TO_50_KM | OVER_50_KM

definition to_distance_bucket :: "rat option \<Rightarrow> distance_bucket option" where
  "to_distance_bucket distanceMeters =
     (case distanceMeters of
        None \<Rightarrow> None
      | Some d \<Rightarrow> Some
          (if d < 1000 then UNDER_1_KM
           else if d < 3000 then FROM_1_TO_3_KM
           else if d < 5000 then FROM_3_TO_5_KM
           else if d < 10000 then FROM_5_TO_10_KM
           else if d < 25000 then FROM_10_TO_25_KM
           else if d \<le> 50000 then FROM_25_TO_50_KM
           else OVER_50_KM))"

section \<open>Evaluating the rounding\<close>

text \<open>
  A number between \<open>2 ^ 52\<close> and \<open>2 ^ 53\<close> units of \<open>2 ^ (- j)\<close> is rounded to a whole number of
  these units.
\<close>

lemma fl_normal:
  assumes "2 ^ 52 \<le> x * 2 ^ j" and "x * 2 ^ j < 2 ^ 53" and "j \<le> 1074"
  shows "fl x = of_int (rne (x * 2 ^ j)) / 2 ^ j"
proof -
  define s where "s = 1074 - j"
  have js: "1074 = j + s" using assms(3) by (simp add: s_def)
  have split: "(2::rat) ^ 1074 = 2 ^ j * 2 ^ s" unfolding js by (rule power_add)
  have x: "0 \<le> x"
  proof -
    have "0 < x * 2 ^ j" using assms(1) by (rule less_le_trans [rotated]) simp
    then show ?thesis by (simp add: zero_less_mult_iff)
  qed
  have xs: "x * 2 ^ 1074 = x * 2 ^ j * 2 ^ s" by (simp only: split mult.assoc)
  define m where "m = nat \<lfloor>x * 2 ^ 1074\<rfloor>"
  have m_hi: "m < 2 ^ (53 + s)"
  proof -
    have "x * 2 ^ 1074 < 2 ^ 53 * 2 ^ s"
      unfolding xs using assms(2) by (rule mult_strict_right_mono) simp
    then have "x * 2 ^ 1074 < 2 ^ (53 + s)" by (simp only: power_add)
    then have "\<lfloor>x * 2 ^ 1074\<rfloor> < 2 ^ (53 + s)"
      by (simp only: floor_less_iff of_int_power of_int_numeral)
    then show ?thesis using x by (simp add: m_def nat_less_iff)
  qed
  have m_lo: "2 ^ (52 + s) \<le> m"
  proof -
    have "2 ^ 52 * 2 ^ s \<le> x * 2 ^ 1074"
      unfolding xs using assms(1) by (rule mult_right_mono) simp
    then have "2 ^ (52 + s) \<le> x * 2 ^ 1074" by (simp only: power_add)
    then have "2 ^ (52 + s) \<le> \<lfloor>x * 2 ^ 1074\<rfloor>"
      by (simp only: le_floor_iff of_int_power of_int_numeral)
    then show ?thesis by (simp add: m_def le_nat_iff)
  qed
  have "floorlog 2 m = 53 + s"
  proof (rule antisym)
    show "floorlog 2 m \<le> 53 + s" by (rule floorlog_le_of_less [OF m_hi])
    have "52 + s < floorlog 2 m"
      by (rule ccontr) (use m_lo floorlog_leD [of 2 m "52 + s"] in auto)
    then show "53 + s \<le> floorlog 2 m" by simp
  qed
  then have shift: "floorlog 2 (nat \<lfloor>x * 2 ^ 1074\<rfloor>) - 53 = s" by (simp add: m_def)
  have "x * 2 ^ 1074 / 2 ^ s = x * 2 ^ j" by (simp only: split) simp
  then have "fl_grid 1074 x = of_int (rne (x * 2 ^ j)) * 2 ^ s / 2 ^ 1074"
    unfolding fl_grid_def Let_def shift by (simp only:)
  also have "\<dots> = of_int (rne (x * 2 ^ j)) / 2 ^ j" by (simp only: split) simp
  finally show ?thesis using x by (simp add: fl_def)
qed

lemma rne_near:
  assumes "\<bar>x - of_int n\<bar> < 1/2"
  shows "rne x = n"
proof -
  have "\<bar>of_int (rne x) - x\<bar> \<le> 1/2" by (rule rne_error)
  with assms have "\<bar>of_int (rne x) - of_int n :: rat\<bar> < 1" by linarith
  then have "\<bar>rne x - n\<bar> < 1" by linarith
  then show ?thesis by linarith
qed

lemma sparse_cell_value: "SPARSE_COARSE_CELL_DEGREES = 7205759403792794 / 2 ^ 56"
proof -
  have "fl (1/10) = of_int (rne (1/10 * 2 ^ 56)) / 2 ^ 56"
    by (rule fl_normal) simp_all
  also have "rne (1/10 * 2 ^ 56) = 7205759403792794"
    by (rule rne_near) simp
  finally show ?thesis by (simp add: SPARSE_COARSE_CELL_DEGREES_def)
qed

lemma half_cell_value: "half_cell = 7205759403792794 / 2 ^ 57"
proof -
  have "fl (SPARSE_COARSE_CELL_DEGREES / 2) = of_int (rne (SPARSE_COARSE_CELL_DEGREES / 2 * 2 ^ 57)) / 2 ^ 57"
    by (rule fl_normal) (simp_all add: sparse_cell_value)
  also have "rne (SPARSE_COARSE_CELL_DEGREES / 2 * 2 ^ 57) = 7205759403792794"
    by (rule rne_near) (simp add: sparse_cell_value)
  finally show ?thesis by (simp add: half_cell_def)
qed

section \<open>Distance between a coordinate and its centre\<close>

text \<open>One rounding of a number below 4096 is off by less than a billionth.\<close>

lemma fl_small: "\<bar>x\<bar> < 4096 \<Longrightarrow> \<bar>fl x - x\<bar> \<le> 1 / 1000000000000"
  using fl_error_abs [of x 12] by simp

lemma cell_index_near:
  assumes "0 \<le> v - lo" and "v - lo \<le> 360"
  shows "of_int (cell_index v lo) * SPARSE_COARSE_CELL_DEGREES \<le> v - lo + 1 / 100000000000"
    and "v - lo - SPARSE_COARSE_CELL_DEGREES - 1 / 100000000000
           \<le> of_int (cell_index v lo) * SPARSE_COARSE_CELL_DEGREES"
proof -
  define c where "c = SPARSE_COARSE_CELL_DEGREES"
  have c: "c = 7205759403792794 / 2 ^ 56" by (simp add: c_def sparse_cell_value)
  define d where "d = js_sub v lo"
  define q where "q = fl (d / c)"
  have d: "\<bar>d - (v - lo)\<bar> \<le> 1 / 1000000000000"
    unfolding d_def js_sub_def by (rule fl_small) (use assms in simp)
  then have "\<bar>d\<bar> < 361" using assms by linarith
  then have dc: "\<bar>d / c\<bar> < 4096" by (simp add: c abs_less_iff)
  have q: "\<bar>q - d / c\<bar> \<le> 1 / 1000000000000" unfolding q_def by (rule fl_small [OF dc])
  have "\<bar>(q - d / c) * c\<bar> \<le> 1 / 1000000000000 * 1"
    unfolding abs_mult by (rule mult_mono [OF q]) (simp_all add: c)
  moreover have "(q - d / c) * c = q * c - d" by (simp add: c field_simps)
  ultimately have qc: "\<bar>q * c - d\<bar> \<le> 1 / 1000000000000" by simp
  have k: "cell_index v lo = \<lfloor>q\<rfloor>" by (simp add: cell_index_def q_def d_def c_def)
  have hi: "of_int \<lfloor>q\<rfloor> * c \<le> q * c" by (rule mult_right_mono) (simp_all add: c)
  have "(q - 1) * c \<le> of_int \<lfloor>q\<rfloor> * c" by (rule mult_right_mono, linarith, simp add: c)
  then have lo: "q * c - c \<le> of_int \<lfloor>q\<rfloor> * c" by (simp only: left_diff_distrib mult_1_left)
  show "of_int (cell_index v lo) * SPARSE_COARSE_CELL_DEGREES \<le> v - lo + 1 / 100000000000"
    unfolding k c_def [symmetric] using hi d qc by linarith
  show "v - lo - SPARSE_COARSE_CELL_DEGREES - 1 / 100000000000
           \<le> of_int (cell_index v lo) * SPARSE_COARSE_CELL_DEGREES"
    unfolding k c_def [symmetric] using lo d qc by linarith
qed

lemma cell_centre_near:
  assumes "lo \<le> v" "v \<le> hi" "-180 \<le> lo" "hi \<le> 180" "1 \<le> hi - lo"
  shows "\<bar>cell_centre (cell_index v lo) lo hi - v\<bar> \<le> 1/20 + 1 / 1000000000"
proof -
  define c where "c = SPARSE_COARSE_CELL_DEGREES"
  define h where "h = half_cell"
  define K where "K = of_int (cell_index v lo) * c"
  define b where "b = js_add (js_add lo (js_mul (of_int (cell_index v lo)) c)) h"
  have c: "\<bar>c - 1/10\<bar> \<le> 1 / 1000000000000" by (simp add: c_def sparse_cell_value)
  have h: "\<bar>h - 1/20\<bar> \<le> 1 / 1000000000000" by (simp add: h_def half_cell_value)
  have K: "K \<le> v - lo + 1 / 100000000000" "v - lo - c - 1 / 100000000000 \<le> K"
    using cell_index_near [of v lo] assms by (simp_all add: K_def c_def)
  have k: "\<bar>K\<bar> < 1000" using K c assms by linarith
  have p: "\<bar>js_mul (of_int (cell_index v lo)) c - K\<bar> \<le> 1 / 1000000000000"
    unfolding js_mul_def K_def by (rule fl_small) (use k K_def in simp)
  have a: "\<bar>js_add lo (js_mul (of_int (cell_index v lo)) c) - (lo + K)\<bar> \<le> 2 / 1000000000000"
    using fl_small [of "lo + js_mul (of_int (cell_index v lo)) c"] p k assms
    unfolding js_add_def by linarith
  have b: "\<bar>b - (lo + K + h)\<bar> \<le> 3 / 1000000000000"
    using fl_small [of "js_add lo (js_mul (of_int (cell_index v lo)) c) + h"] a k h assms
    unfolding b_def js_add_def [of _ h] by linarith
  have lo': "\<bar>js_add lo h - (lo + h)\<bar> \<le> 1 / 1000000000000"
    unfolding js_add_def by (rule fl_small) (use assms h in linarith)
  have hi': "\<bar>js_sub hi h - (hi - h)\<bar> \<le> 1 / 1000000000000"
    unfolding js_sub_def by (rule fl_small) (use assms h in linarith)
  have near: "\<bar>b - v\<bar> \<le> 1/20 + 1 / 1000000000"
    using b K c h by linarith
  have "cell_centre (cell_index v lo) lo hi = min (js_sub hi h) (max (js_add lo h) b)"
    by (simp add: cell_centre_def b_def h_def c_def Let_def)
  moreover have "js_add lo h < js_sub hi h" using lo' hi' h assms by linarith
  ultimately consider "cell_centre (cell_index v lo) lo hi = b"
    | "cell_centre (cell_index v lo) lo hi = js_sub hi h" "js_sub hi h \<le> b"
    | "cell_centre (cell_index v lo) lo hi = js_add lo h" "b \<le> js_add lo h"
    by (auto simp: min_def max_def split: if_splits)
  then show ?thesis
    by cases (use near lo' hi' h assms in linarith)+
qed

lemma fixed4_near:
  assumes "\<bar>x\<bar> < 1000"
  shows "\<bar>fixed4 x - x\<bar> \<le> 1/20000 + 1 / 1000000000000"
proof -
  define n where "n = \<lfloor>\<bar>x\<bar> * 10000 + 1/2\<rfloor>"
  define y where "y = (if x < 0 then - (of_int n / 10000) else of_int n / 10000 :: rat)"
  have "of_int n \<le> \<bar>x\<bar> * 10000 + 1/2" "\<bar>x\<bar> * 10000 - 1/2 \<le> of_int n"
    unfolding n_def by linarith+
  then have y: "\<bar>y - x\<bar> \<le> 1/20000" by (simp add: y_def abs_if split: if_splits)
  then have "\<bar>y\<bar> < 4096" using assms by linarith
  then have "\<bar>fl y - y\<bar> \<le> 1 / 1000000000000" by (rule fl_small)
  with y have "\<bar>fl y - x\<bar> \<le> 1/20000 + 1 / 1000000000000" by linarith
  moreover have "fixed4 x = fl y" by (simp add: fixed4_def n_def y_def Let_def)
  ultimately show ?thesis by simp
qed

lemma sparse_center_near:
  assumes "lo \<le> v" "v \<le> hi" "-180 \<le> lo" "hi \<le> 180" "1 \<le> hi - lo"
  shows "\<bar>to_sparse_cell_center v lo hi - v\<bar> \<le> 501/10000"
proof -
  have c: "\<bar>cell_centre (cell_index v lo) lo hi - v\<bar> \<le> 1/20 + 1 / 1000000000"
    by (rule cell_centre_near [OF assms])
  then have "\<bar>cell_centre (cell_index v lo) lo hi\<bar> < 1000"
    using assms by linarith
  from fixed4_near [OF this] c show ?thesis
    unfolding to_sparse_cell_center_def by linarith
qed

end
