(* ===== verification/Items.thy ===== *)
theory Items
  imports Item_Location Paging Payment_Policy
begin

text \<open>
  Listings (\<open>items/items.service.ts\<close>): what an owner does with a listing (create, change,
  hide), its two views (the owner's and the public one), the favourites, and the helpers of the
  public search; the search itself is in \<open>Item_Search\<close>. Every change of a listing sends it back to
  moderation, and a listing with an unfinished booking cannot be changed or hidden.
\<close>

section \<open>Requests\<close>

text \<open>
  A property of a partial update: not an own property of the object, an own property that is
  \<open>undefined\<close>, \<open>null\<close>, or a value.
\<close>

datatype 'a field = Absent | Undefined | Null | Given 'a

definition has_own :: "'a field \<Rightarrow> bool" where
  "has_own f \<longleftrightarrow> (case f of Absent \<Rightarrow> False | _ \<Rightarrow> True)"

definition is_null :: "'a field \<Rightarrow> bool" where
  "is_null f \<longleftrightarrow> (case f of Null \<Rightarrow> True | _ \<Rightarrow> False)"

definition is_undefined :: "'a field \<Rightarrow> bool" where
  "is_undefined f \<longleftrightarrow> (case f of Absent \<Rightarrow> True | Undefined \<Rightarrow> True | _ \<Rightarrow> False)"

text \<open>
  The value Prisma writes for a column: a property that is absent or \<open>undefined\<close> leaves it alone.
  The columns of a listing's form are not nullable, and \<open>null\<close> is rejected before this point.
\<close>

definition write_field :: "'a field \<Rightarrow> 'a \<Rightarrow> 'a" where
  "write_field f old = (case f of Given x \<Rightarrow> x | _ \<Rightarrow> old)"

record create_item_dto =
  ci_categoryId :: string
  ci_title :: string
  ci_description :: string
  ci_condition :: item_condition
  ci_completeness :: string
  ci_handoverTerms :: string
  ci_pricePerDay :: rat
  ci_depositAmount :: "rat field"
  ci_depositAmountMinor :: "rat field"
  ci_publicArea :: string
  ci_address :: string
  ci_latitude :: rat
  ci_longitude :: rat

record update_item_dto =
  up_categoryId :: "string field"
  up_title :: "string field"
  up_description :: "string field"
  up_condition :: "item_condition field"
  up_completeness :: "string field"
  up_handoverTerms :: "string field"
  up_pricePerDay :: "rat field"
  up_depositAmount :: "rat field"
  up_depositAmountMinor :: "rat field"
  up_publicArea :: "string field"
  up_address :: "string field"
  up_latitude :: "rat field"
  up_longitude :: "rat field"

definition ITEM_LISTING_RULES_VERSION :: string where
  "ITEM_LISTING_RULES_VERSION = ''2026-07-28''"

definition ITEM_LISTING_RULES_ACCEPTANCE_METHOD :: string where
  "ITEM_LISTING_RULES_ACCEPTANCE_METHOD = ''ITEM_CREATE_FORM''"

section \<open>The deposit of a listing\<close>

definition MAX_DEPOSIT_MINOR :: rat where
  "MAX_DEPOSIT_MINOR = 3000000000"

text \<open>
  The exact minor units win over the legacy amount, which may only be 0 or \<open>null\<close>; \<open>None\<close> is a
  listing without a deposit.
\<close>

definition resolve_deposit_amount ::
    "marketplace_policy \<Rightarrow> rat field \<Rightarrow> rat field \<Rightarrow> rat option result" where
  "resolve_deposit_amount policy depositAmount depositAmountMinor =
     (let hasLegacy = \<not> is_undefined depositAmount; hasMinor = \<not> is_undefined depositAmountMinor
      in if hasLegacy \<and> hasMinor then Inl (Bad_request ''one-deposit-format'')
      else if hasLegacy \<and> (case depositAmount of Given x \<Rightarrow> x \<noteq> 0 | _ \<Rightarrow> False)
      then Inl (Bad_request ''legacy-deposit'')
      else
        let minorValue = (if hasMinor then (case depositAmountMinor of Given x \<Rightarrow> Some x | _ \<Rightarrow> None) else Some 0)
        in if (case minorValue of None \<Rightarrow> False
               | Some x \<Rightarrow> \<not> is_safe_integer x \<or> x < 0 \<or> MAX_DEPOSIT_MINOR < x)
        then Inl (Bad_request ''invalid-deposit'')
        else
          let minor = (case minorValue of None \<Rightarrow> 0 | Some x \<Rightarrow> \<lfloor>x\<rfloor>)
          in bind_result (assert_deposit_allowed policy minor) (\<lambda>_.
             if (hasLegacy \<and> is_null depositAmount) \<or> (hasMinor \<and> minorValue = None) then Inr None
             else Inr (if hasLegacy \<or> hasMinor then Some (minor_to_decimal minor) else None)))"

section \<open>Rows a listing is shown with\<close>

text \<open>A category that listings may be published in.\<close>

definition is_listing_category :: "category_row \<Rightarrow> bool" where
  "is_listing_category c \<longleftrightarrow> cat_isActive c \<and> cat_isAllowedForListings c \<and> cat_listingPolicy c = Pol_ALLOWED"

definition find_category :: "db \<Rightarrow> string \<Rightarrow> category_row option" where
  "find_category db i = List.find (\<lambda>c. cat_id c = i) (ct_categories (db_catalog db))"

definition ensure_active_category :: "db \<Rightarrow> string \<Rightarrow> category_row result" where
  "ensure_active_category db categoryId =
     (case List.find (\<lambda>c. cat_id c = categoryId \<and> is_listing_category c) (ct_categories (db_catalog db)) of
        None \<Rightarrow> Inl (Not_found ''category'')
      | Some c \<Rightarrow> Inr c)"

record category_summary =
  cs_id :: string
  cs_name :: string
  cs_slug :: string
  cs_iconName :: "string option"
  cs_safetyNotice :: string

definition summarize_category :: "category_row \<Rightarrow> category_summary" where
  "summarize_category c =
     \<lparr>cs_id = cat_id c, cs_name = cat_name c, cs_slug = cat_slug c, cs_iconName = cat_iconName c,
      cs_safetyNotice = cat_safetyNotice c\<rparr>"

record owner_summary =
  os_id :: string
  os_name :: "string option"
  os_city :: "string option"
  os_avatarUrl :: "string option"

definition summarize_owner :: "user_row \<Rightarrow> owner_summary" where
  "summarize_owner u =
     \<lparr>os_id = us_id u, os_name = us_name u, os_city = us_city u, os_avatarUrl = us_avatarUrl u\<rparr>"

text \<open>\<open>orderBy: [{ isCover: 'desc' }, { sortOrder: 'asc' }, { createdAt: 'asc' }]\<close>.\<close>

definition photos_of :: "db \<Rightarrow> string \<Rightarrow> photo_row list" where
  "photos_of db itemId =
     sort_key (\<lambda>p. (\<not> ph_isCover p, ph_sortOrder p, ph_createdAt p))
       (filter (\<lambda>p. ph_itemId p = itemId) (ct_photos (db_catalog db)))"

record public_photo =
  pp_id :: string
  pp_thumbnailUrl :: "string option"
  pp_previewUrl :: "string option"
  pp_sortOrder :: int
  pp_isCover :: bool
  pp_createdAt :: timestamp

definition show_public_photo :: "photo_row \<Rightarrow> public_photo" where
  "show_public_photo p =
     \<lparr>pp_id = ph_id p, pp_thumbnailUrl = ph_thumbnailUrl p, pp_previewUrl = ph_previewUrl p,
      pp_sortOrder = ph_sortOrder p, pp_isCover = ph_isCover p, pp_createdAt = ph_createdAt p\<rparr>"

record private_photo = public_photo +
  pp_originalUrl :: "string option"

definition show_private_photo :: "photo_row \<Rightarrow> private_photo" where
  "show_private_photo p =
     \<lparr>pp_id = ph_id p, pp_thumbnailUrl = ph_thumbnailUrl p, pp_previewUrl = ph_previewUrl p,
      pp_sortOrder = ph_sortOrder p, pp_isCover = ph_isCover p, pp_createdAt = ph_createdAt p,
      pp_originalUrl = ph_originalUrl p\<rparr>"

section \<open>The two views of a listing\<close>

text \<open>
  Category and owner are rows that the foreign keys guarantee; the views keep them as options.
\<close>

record private_item =
  pv_id :: string
  pv_title :: string
  pv_description :: string
  pv_condition :: item_condition
  pv_completeness :: string
  pv_handoverTerms :: string
  pv_pricePerDay :: rat
  pv_depositAmount :: "rat option"
  pv_status :: item_status
  pv_rejectReason :: "string option"
  pv_publicArea :: string
  pv_address :: string
  pv_latitude :: rat
  pv_longitude :: rat
  pv_category :: "category_summary option"
  pv_owner :: "owner_summary option"
  pv_photos :: "private_photo list"
  pv_createdAt :: timestamp
  pv_updatedAt :: timestamp

definition to_private_item :: "db \<Rightarrow> item_row \<Rightarrow> private_item" where
  "to_private_item db item =
     (let d = it_details item
      in \<lparr>pv_id = it_id item, pv_title = it_title item, pv_description = ld_description d,
          pv_condition = ld_condition d, pv_completeness = ld_completeness d,
          pv_handoverTerms = ld_handoverTerms d, pv_pricePerDay = to_number (it_pricePerDay item),
          pv_depositAmount = map_option to_number (it_depositAmount item), pv_status = it_status item,
          pv_rejectReason = ld_rejectReason d, pv_publicArea = it_publicArea item,
          pv_address = it_address item, pv_latitude = it_latitude item, pv_longitude = it_longitude item,
          pv_category = map_option summarize_category (find_category db (ld_categoryId d)),
          pv_owner = map_option summarize_owner (find_user db (it_ownerId item)),
          pv_photos = map show_private_photo (photos_of db (it_id item)),
          pv_createdAt = ld_createdAt d, pv_updatedAt = it_updatedAt item\<rparr>)"

record public_item =
  pub_id :: string
  pub_title :: string
  pub_description :: string
  pub_condition :: item_condition
  pub_completeness :: string
  pub_handoverTerms :: string
  pub_pricePerDay :: rat
  pub_depositAmount :: "rat option"
  pub_area :: string
  pub_latitude :: rat
  pub_longitude :: rat
  pub_distanceBucket :: "distance_bucket option"
  pub_category :: "category_summary option"
  pub_owner :: "owner_summary option"
  pub_photos :: "public_photo list"
  pub_createdAt :: timestamp
  pub_updatedAt :: timestamp

definition to_public_item :: "db \<Rightarrow> rat option \<Rightarrow> item_row \<Rightarrow> public_item" where
  "to_public_item db distanceMeters item =
     (let d = it_details item
      in \<lparr>pub_id = it_id item, pub_title = it_title item, pub_description = ld_description d,
          pub_condition = ld_condition d, pub_completeness = ld_completeness d,
          pub_handoverTerms = ld_handoverTerms d, pub_pricePerDay = to_number (it_pricePerDay item),
          pub_depositAmount = map_option to_number (it_depositAmount item), pub_area = it_publicArea item,
          pub_latitude = to_sparse_cell_center (it_latitude item) (-90) 90,
          pub_longitude = to_sparse_cell_center (it_longitude item) (-180) 180,
          pub_distanceBucket = to_distance_bucket distanceMeters,
          pub_category = map_option summarize_category (find_category db (ld_categoryId d)),
          pub_owner = map_option summarize_owner (find_user db (it_ownerId item)),
          pub_photos = map show_public_photo (photos_of db (it_id item)),
          pub_createdAt = ld_createdAt d, pub_updatedAt = it_updatedAt item\<rparr>)"

section \<open>Commands of the owner\<close>

definition find_item :: "db \<Rightarrow> string \<Rightarrow> item_row option" where
  "find_item db i = List.find (\<lambda>t. it_id t = i) (db_items db)"

definition find_owned_item :: "db \<Rightarrow> string \<Rightarrow> string \<Rightarrow> item_row result" where
  "find_owned_item db ownerId i =
     (case List.find (\<lambda>t. it_id t = i \<and> it_ownerId t = ownerId) (db_items db) of
        None \<Rightarrow> Inl (Not_found ''item'')
      | Some t \<Rightarrow> Inr t)"

text \<open>\<open>listingMutationBlockingBookingStatuses\<close>.\<close>

definition blocks_listing_mutation :: "booking_row \<Rightarrow> bool" where
  "blocks_listing_mutation b \<longleftrightarrow> bk_status b \<in> {Bk_PENDING, Bk_CONFIRMED, Bk_ACTIVE, Bk_RETURNED}"

definition ensure_no_unfinished_bookings :: "db \<Rightarrow> string \<Rightarrow> unit result" where
  "ensure_no_unfinished_bookings db itemId =
     (if exists_row (\<lambda>b. bk_itemId b = itemId \<and> blocks_listing_mutation b) (db_bookings db)
      then Inl (Conflict ''ITEM_HAS_UNFINISHED_BOOKINGS'') else Inr ())"

text \<open>
  The constraints of the table: an owner uses a request id once, and the price, the deposit, the
  coordinates and the area are in range.
\<close>

definition item_checks :: "item_row \<Rightarrow> bool" where
  "item_checks t \<longleftrightarrow>
     1 \<le> it_pricePerDay t \<and> it_pricePerDay t \<le> 1000000
     \<and> (case it_depositAmount t of None \<Rightarrow> True | Some d \<Rightarrow> 0 \<le> d \<and> d \<le> 30000000)
     \<and> -90 \<le> it_latitude t \<and> it_latitude t \<le> 90 \<and> -180 \<le> it_longitude t \<and> it_longitude t \<le> 180
     \<and> 2 \<le> length (it_publicArea t) \<and> length (it_publicArea t) \<le> 120"

definition insert_item :: "item_row \<Rightarrow> db \<Rightarrow> db result" where
  "insert_item t db =
     (if ld_clientRequestId (it_details t) \<noteq> None
         \<and> exists_row (\<lambda>s. it_ownerId s = it_ownerId t
              \<and> ld_clientRequestId (it_details s) = ld_clientRequestId (it_details t)) (db_items db)
      then Inl (Unique_violation ''items.ownerId,clientRequestId'')
      else if \<not> item_checks t then Inl (Check_violation ''items'')
      else Inr (db\<lparr>db_next := Suc (db_next db), db_items := db_items db @ [t]\<rparr>))"

definition new_item ::
    "db \<Rightarrow> string \<Rightarrow> create_item_dto \<Rightarrow> rat option \<Rightarrow> category_row \<Rightarrow> string \<Rightarrow> string \<Rightarrow> timestamp \<Rightarrow> item_row" where
  "new_item db ownerId dto depositAmount category clientRequestId requestHash now =
     \<lparr>it_id = fresh_id db, it_ownerId = ownerId, it_title = ci_title dto, it_pricePerDay = ci_pricePerDay dto,
      it_depositAmount = depositAmount, it_status = It_PENDING, it_publicArea = ci_publicArea dto,
      it_address = ci_address dto, it_latitude = ci_latitude dto, it_longitude = ci_longitude dto,
      it_listingRulesVersion = Some ITEM_LISTING_RULES_VERSION, it_updatedAt = now,
      it_details =
        \<lparr>ld_clientRequestId = Some clientRequestId, ld_clientRequestHash = Some requestHash,
         ld_categoryId = ci_categoryId dto, ld_description = ci_description dto,
         ld_condition = ci_condition dto, ld_completeness = ci_completeness dto,
         ld_handoverTerms = ci_handoverTerms dto, ld_rejectReason = None,
         ld_listingRulesAcceptedAt = Some now,
         ld_listingRulesAcceptanceMethod = Some ITEM_LISTING_RULES_ACCEPTANCE_METHOD,
         ld_safetyNoticeSnapshot = Some (cat_safetyNotice category), ld_createdAt = db_now db\<rparr>\<rparr>"

text \<open>
  \<open>create\<close>: a request id that is taken answers with the listing it made, when the request is the
  same. The hash is \<open>hashIdempotentPayload\<close>, SHA-256 of the JSON of the request.
\<close>

definition create_item ::
    "marketplace_policy \<Rightarrow> (create_item_dto \<Rightarrow> string) \<Rightarrow> string \<Rightarrow> create_item_dto \<Rightarrow> string \<Rightarrow> timestamp
      \<Rightarrow> db \<Rightarrow> (db \<times> private_item) result" where
  "create_item policy hash ownerId dto clientRequestId now db =
     bind_result (resolve_deposit_amount policy (ci_depositAmount dto) (ci_depositAmountMinor dto)) (\<lambda>depositAmount.
     bind_result (ensure_active_category db (ci_categoryId dto)) (\<lambda>category.
     let item = new_item db ownerId dto depositAmount category clientRequestId (hash dto) now
     in case insert_item item db of
          Inr db' \<Rightarrow> Inr (db', to_private_item db' item)
        | Inl (Unique_violation c) \<Rightarrow>
            (case List.find (\<lambda>t. it_ownerId t = ownerId
                \<and> ld_clientRequestId (it_details t) = Some clientRequestId) (db_items db) of
               None \<Rightarrow> Inl (Conflict ''IDEMPOTENCY_KEY_REUSED'')
             | Some existing \<Rightarrow>
                 if ld_clientRequestHash (it_details existing) \<noteq> Some (hash dto)
                 then Inl (Conflict ''IDEMPOTENCY_KEY_REUSED'')
                 else Inr (db, to_private_item db existing))
        | Inl e \<Rightarrow> Inl e))"

definition reject_null_required_update_fields :: "update_item_dto \<Rightarrow> unit result" where
  "reject_null_required_update_fields dto =
     (if is_null (up_categoryId dto) \<or> is_null (up_title dto) \<or> is_null (up_description dto)
         \<or> is_null (up_condition dto) \<or> is_null (up_completeness dto) \<or> is_null (up_handoverTerms dto)
         \<or> is_null (up_pricePerDay dto) \<or> is_null (up_publicArea dto) \<or> is_null (up_address dto)
         \<or> is_null (up_latitude dto) \<or> is_null (up_longitude dto)
      then Inl (Bad_request ''null-required-field'') else Inr ())"

text \<open>
  The update data: the columns of the form that the request names, and the resolved deposit
  where it gives one. \<open>Object.keys(data).length\<close> counts the properties that were set.
\<close>

record update_data =
  ud_dto :: update_item_dto
  ud_deposit :: "rat option option"

definition has_update_keys :: "update_data \<Rightarrow> bool" where
  "has_update_keys u \<longleftrightarrow>
     (let dto = ud_dto u
      in has_own (up_categoryId dto) \<or> has_own (up_title dto) \<or> has_own (up_description dto)
         \<or> has_own (up_condition dto) \<or> has_own (up_completeness dto) \<or> has_own (up_handoverTerms dto)
         \<or> has_own (up_pricePerDay dto) \<or> ud_deposit u \<noteq> None \<or> has_own (up_publicArea dto)
         \<or> has_own (up_address dto) \<or> has_own (up_latitude dto) \<or> has_own (up_longitude dto))"

definition build_update_data :: "marketplace_policy \<Rightarrow> update_item_dto \<Rightarrow> db \<Rightarrow> update_data result" where
  "build_update_data policy dto db =
     bind_result (reject_null_required_update_fields dto) (\<lambda>_.
     bind_result (case up_categoryId dto of
          Absent \<Rightarrow> Inr ()
        | Given c \<Rightarrow> map_sum id (\<lambda>_. ()) (ensure_active_category db c)
        | _ \<Rightarrow> Inl (Bad_request ''category-required'')) (\<lambda>_.
     bind_result (if \<not> is_undefined (up_depositAmount dto) \<or> \<not> is_undefined (up_depositAmountMinor dto)
                  then map_sum id Some (resolve_deposit_amount policy (up_depositAmount dto) (up_depositAmountMinor dto))
                  else Inr None) (\<lambda>deposit.
     Inr \<lparr>ud_dto = dto, ud_deposit = deposit\<rparr>)))"

definition apply_update :: "update_data \<Rightarrow> timestamp \<Rightarrow> item_row \<Rightarrow> item_row" where
  "apply_update u now t =
     (let dto = ud_dto u; d = it_details t
      in t\<lparr>it_title := write_field (up_title dto) (it_title t),
           it_pricePerDay := write_field (up_pricePerDay dto) (it_pricePerDay t),
           it_depositAmount := (case ud_deposit u of None \<Rightarrow> it_depositAmount t | Some x \<Rightarrow> x),
           it_status := It_PENDING,
           it_publicArea := write_field (up_publicArea dto) (it_publicArea t),
           it_address := write_field (up_address dto) (it_address t),
           it_latitude := write_field (up_latitude dto) (it_latitude t),
           it_longitude := write_field (up_longitude dto) (it_longitude t),
           it_updatedAt := now,
           it_details := d\<lparr>ld_categoryId := write_field (up_categoryId dto) (ld_categoryId d),
             ld_description := write_field (up_description dto) (ld_description d),
             ld_condition := write_field (up_condition dto) (ld_condition d),
             ld_completeness := write_field (up_completeness dto) (ld_completeness d),
             ld_handoverTerms := write_field (up_handoverTerms dto) (ld_handoverTerms d),
             ld_rejectReason := None\<rparr>\<rparr>)"

text \<open>\<open>prisma.item.update({ where: { id } })\<close>, whose result has to keep the constraints.\<close>

definition update_item_row :: "string \<Rightarrow> (item_row \<Rightarrow> item_row) \<Rightarrow> db \<Rightarrow> (db \<times> private_item) result" where
  "update_item_row i f db =
     (case find_item db i of
        None \<Rightarrow> Inl (Not_found ''P2025'')
      | Some t \<Rightarrow>
          if \<not> item_checks (f t) then Inl (Check_violation ''items'')
          else
            let db' = db\<lparr>db_items := update_rows (\<lambda>s. it_id s = i) f (db_items db)\<rparr>
            in Inr (db', to_private_item db' (f t)))"

definition update_own ::
    "marketplace_policy \<Rightarrow> string \<Rightarrow> string \<Rightarrow> update_item_dto \<Rightarrow> timestamp \<Rightarrow> db \<Rightarrow> (db \<times> private_item) result" where
  "update_own policy ownerId i dto now db =
     bind_result (find_owned_item db ownerId i) (\<lambda>currentItem.
     bind_result (build_update_data policy dto db) (\<lambda>d.
     if \<not> has_update_keys d then Inr (db, to_private_item db currentItem)
     else bind_result (ensure_no_unfinished_bookings db i) (\<lambda>_.
          update_item_row i (apply_update d now) db)))"

definition hide_item :: "timestamp \<Rightarrow> item_row \<Rightarrow> item_row" where
  "hide_item now t =
     t\<lparr>it_status := It_HIDDEN, it_updatedAt := now, it_details := (it_details t)\<lparr>ld_rejectReason := None\<rparr>\<rparr>"

definition hide_own :: "string \<Rightarrow> string \<Rightarrow> timestamp \<Rightarrow> db \<Rightarrow> (db \<times> private_item) result" where
  "hide_own ownerId i now db =
     bind_result (find_owned_item db ownerId i) (\<lambda>currentItem.
     if it_status currentItem = It_HIDDEN then Inr (db, to_private_item db currentItem)
     else bind_result (ensure_no_unfinished_bookings db i) (\<lambda>_.
          update_item_row i (hide_item now) db))"

definition item_key :: "item_row \<Rightarrow> timestamp \<times> string" where
  "item_key t = (ld_createdAt (it_details t), it_id t)"

definition list_own :: "string \<Rightarrow> db \<Rightarrow> private_item list" where
  "list_own ownerId db =
     map (to_private_item db) (newest_first item_key (filter (\<lambda>t. it_ownerId t = ownerId) (db_items db)))"

section \<open>Published listings and favourites\<close>

text \<open>The condition that every public query repeats.\<close>

definition is_published :: "db \<Rightarrow> item_row \<Rightarrow> bool" where
  "is_published db t \<longleftrightarrow>
     it_status t = It_APPROVED
     \<and> (case find_category db (ld_categoryId (it_details t)) of None \<Rightarrow> False | Some c \<Rightarrow> is_listing_category c)
     \<and> (case find_user db (it_ownerId t) of None \<Rightarrow> False | Some u \<Rightarrow> \<not> us_isBlocked u \<and> us_deletedAt u = None)"

definition get_public_by_id :: "string \<Rightarrow> db \<Rightarrow> public_item result" where
  "get_public_by_id i db =
     (case List.find (\<lambda>t. it_id t = i \<and> is_published db t) (db_items db) of
        None \<Rightarrow> Inl (Not_found ''item'')
      | Some t \<Rightarrow> Inr (to_public_item db None t))"

definition favorite_key :: "favorite_row \<Rightarrow> timestamp \<times> string" where
  "favorite_key f = (fav_createdAt f, fav_itemId f)"

text \<open>The condition on the related listing joins the two tables; the relation is required.\<close>

definition list_favorites :: "string \<Rightarrow> db \<Rightarrow> public_item list" where
  "list_favorites userId db =
     concat (map (\<lambda>f. case find_item db (fav_itemId f) of None \<Rightarrow> [] | Some t \<Rightarrow> [to_public_item db None t])
       (newest_first favorite_key
         (filter (\<lambda>f. fav_userId f = userId
              \<and> (case find_item db (fav_itemId f) of None \<Rightarrow> False | Some t \<Rightarrow> is_published db t))
           (ct_favorites (db_catalog db)))))"

definition set_favorites :: "favorite_row list \<Rightarrow> db \<Rightarrow> db" where
  "set_favorites fs db = db\<lparr>db_catalog := (db_catalog db)\<lparr>ct_favorites := fs\<rparr>\<rparr>"

definition add_favorite :: "string \<Rightarrow> string \<Rightarrow> db \<Rightarrow> (db \<times> string) result" where
  "add_favorite userId itemId db =
     bind_result (get_public_by_id itemId db) (\<lambda>_.
     Inr (if exists_row (\<lambda>f. fav_userId f = userId \<and> fav_itemId f = itemId) (ct_favorites (db_catalog db))
          then db
          else set_favorites (ct_favorites (db_catalog db)
                 @ [\<lparr>fav_userId = userId, fav_itemId = itemId, fav_createdAt = db_now db\<rparr>]) db, itemId))"

definition remove_favorite :: "string \<Rightarrow> string \<Rightarrow> db \<Rightarrow> db \<times> string" where
  "remove_favorite userId itemId db =
     (set_favorites (filter (\<lambda>f. \<not> (fav_userId f = userId \<and> fav_itemId f = itemId))
        (ct_favorites (db_catalog db))) db, itemId)"

end
