(* ===== verification/Item_Search.thy ===== *)
theory Item_Search
  imports Items
begin

text \<open>
  The public search (\<open>items/items.service.ts\<close>, \<open>listPublic\<close>): the checks of the query, the list
  by the query builder of Prisma and the list by distance, which is an SQL query for the ids
  followed by a query for the rows. The SQL functions of PostGIS (\<open>ST_Distance\<close>, \<open>ST_DWithin\<close>)
  and the case-insensitive \<open>contains\<close> of Prisma are arguments (\<open>search_env\<close>); the pattern match
  \<open>ILIKE\<close> of PostgreSQL, whose patterns the source builds itself, is written out.
\<close>

section \<open>Queries\<close>

datatype item_list_sort = NEWEST | DISTANCE | PRICE_ASC | PRICE_DESC

record list_items_query =
  lq_search :: "string option"
  lq_categoryId :: "string option"
  lq_area :: "string option"
  lq_minPrice :: "rat option"
  lq_maxPrice :: "rat option"
  lq_availableFrom :: "string option"
  lq_availableTo :: "string option"
  lq_latitude :: "rat option"
  lq_longitude :: "rat option"
  lq_radiusKm :: "rat option"
  lq_sort :: "item_list_sort option"
  lq_limit :: "rat option"
  lq_offset :: "rat option"

definition empty_query :: list_items_query where
  "empty_query =
     \<lparr>lq_search = None, lq_categoryId = None, lq_area = None, lq_minPrice = None, lq_maxPrice = None,
      lq_availableFrom = None, lq_availableTo = None, lq_latitude = None, lq_longitude = None,
      lq_radiusKm = None, lq_sort = None, lq_limit = None, lq_offset = None\<rparr>"

record availability_filter =
  av_from :: timestamp
  av_to :: timestamp

record geo_filter =
  geo_latitude :: rat
  geo_longitude :: rat
  geo_radiusMeters :: rat

definition MAX_RADIUS_KM :: rat where
  "MAX_RADIUS_KM = 50"

definition DEFAULT_LIMIT :: rat where
  "DEFAULT_LIMIT = 20"

definition MAX_LIMIT :: rat where
  "MAX_LIMIT = 50"

definition ensure_price_range :: "list_items_query \<Rightarrow> unit result" where
  "ensure_price_range q =
     (case (lq_minPrice q, lq_maxPrice q) of
        (Some lo, Some hi) \<Rightarrow> if hi < lo then Inl (Bad_request ''price-range'') else Inr ()
      | _ \<Rightarrow> Inr ())"

text \<open>\<open>/^\d{4}-\d{2}-\d{2}$/\<close>.\<close>

fun is_date_pattern :: "string \<Rightarrow> bool" where
  "is_date_pattern [y1, y2, y3, y4, s1, m1, m2, s2, d1, d2] \<longleftrightarrow>
     list_all is_digit [y1, y2, y3, y4, m1, m2, d1, d2] \<and> s1 = CHR ''-'' \<and> s2 = CHR ''-''"
| "is_date_pattern _ \<longleftrightarrow> False"

definition parse_date_only :: "string \<Rightarrow> string \<Rightarrow> timestamp result" where
  "parse_date_only v fieldName =
     (if \<not> is_date_pattern v then Inl (Bad_request fieldName)
      else case js_parse_date v of
        None \<Rightarrow> Inl (Bad_request fieldName)
      | Some t \<Rightarrow> if iso_slice t \<noteq> v then Inl (Bad_request fieldName) else Inr t)"

definition get_availability_filter :: "list_items_query \<Rightarrow> availability_filter option result" where
  "get_availability_filter q =
     (if (lq_availableFrom q = None) \<noteq> (lq_availableTo q = None)
      then Inl (Bad_request ''availability-dates'')
      else case (lq_availableFrom q, lq_availableTo q) of
        (Some f, Some t) \<Rightarrow>
          if f = [] \<or> t = [] then Inr None
          else
            bind_result (parse_date_only f ''availableFrom'') (\<lambda>from_date.
            bind_result (parse_date_only t ''availableTo'') (\<lambda>to_date.
            if to_date < from_date then Inl (Bad_request ''availability-order'')
            else Inr (Some \<lparr>av_from = from_date, av_to = to_date\<rparr>)))
      | _ \<Rightarrow> Inr None)"

definition get_geo_filter :: "list_items_query \<Rightarrow> geo_filter option result" where
  "get_geo_filter q =
     (case (lq_latitude q, lq_longitude q) of
        (Some lat, Some lon) \<Rightarrow>
          let radiusKm = (case lq_radiusKm q of None \<Rightarrow> MAX_RADIUS_KM | Some r \<Rightarrow> r)
          in if radiusKm \<le> 0 \<or> MAX_RADIUS_KM < radiusKm then Inl (Bad_request ''radius'')
             else Inr (Some \<lparr>geo_latitude = lat, geo_longitude = lon, geo_radiusMeters = js_mul radiusKm 1000\<rparr>)
      | (None, None) \<Rightarrow>
          if lq_radiusKm q \<noteq> None then Inl (Bad_request ''radius-without-coordinates'')
          else if lq_sort q = Some DISTANCE then Inl (Bad_request ''distance-without-coordinates'')
          else Inr None
      | _ \<Rightarrow> Inl (Bad_request ''half-coordinates''))"

definition get_limit :: "rat option \<Rightarrow> nat result" where
  "get_limit l =
     (let v = (case l of None \<Rightarrow> DEFAULT_LIMIT | Some x \<Rightarrow> x)
      in if \<not> is_integer v \<or> v < 1 \<or> MAX_LIMIT < v then Inl (Bad_request ''limit'') else Inr (nat \<lfloor>v\<rfloor>))"

definition get_offset :: "rat option \<Rightarrow> nat result" where
  "get_offset l =
     (let v = (case l of None \<Rightarrow> 0 | Some x \<Rightarrow> x)
      in if \<not> is_integer v \<or> v < 0 then Inl (Bad_request ''offset'') else Inr (nat \<lfloor>v\<rfloor>))"

section \<open>Matching a search text\<close>

text \<open>\<open>ILIKE\<close> compares letters without their case.\<close>

definition lower_char :: "char \<Rightarrow> char" where
  "lower_char c =
     (let n = (of_char c :: nat) in if 65 \<le> n \<and> n \<le> 90 then char_of (n + 32) else c)"

definition lower :: "string \<Rightarrow> string" where
  "lower s = map lower_char s"

text \<open>
  \<open>text ILIKE pattern ESCAPE '\'\<close>: a percent sign matches any text, an underscore any character,
  and a character after a backslash itself. A pattern that ends in the escape character
  is an error of PostgreSQL; it matches nothing here.
\<close>

fun ilike :: "string \<Rightarrow> string \<Rightarrow> bool" where
  "ilike [] t \<longleftrightarrow> t = []"
| "ilike (p # ps) t \<longleftrightarrow>
     (if p = CHR ''%'' then
        ilike ps t \<or> (case t of [] \<Rightarrow> False | c # cs \<Rightarrow> ilike (p # ps) cs)
      else if p = CHR 0x5C then
        (case ps of [] \<Rightarrow> False
         | x # xs \<Rightarrow> (case t of [] \<Rightarrow> False | c # cs \<Rightarrow> lower_char c = lower_char x \<and> ilike xs cs))
      else
        (case t of [] \<Rightarrow> False
         | c # cs \<Rightarrow> (p = CHR ''_'' \<or> lower_char c = lower_char p) \<and> ilike ps cs))"

text \<open>\<open>escapeLikePattern\<close>: three replacements in a row, the backslash first.\<close>

definition replace_all_char :: "char \<Rightarrow> string \<Rightarrow> string \<Rightarrow> string" where
  "replace_all_char c r s = concat (map (\<lambda>x. if x = c then r else [x]) s)"

definition escape_like_pattern :: "string \<Rightarrow> string" where
  "escape_like_pattern v =
     replace_all_char (CHR ''_'') [CHR 0x5C, CHR ''_'']
       (replace_all_char (CHR ''%'') [CHR 0x5C, CHR ''%'']
         (replace_all_char (CHR 0x5C) [CHR 0x5C, CHR 0x5C] v))"

definition like_pattern :: "string \<Rightarrow> string" where
  "like_pattern search = ''%'' @ escape_like_pattern search @ ''%''"

section \<open>The condition of the search\<close>

record search_env =
  se_contains :: "string \<Rightarrow> string \<Rightarrow> bool"
  se_distance :: "rat \<times> rat \<Rightarrow> rat \<times> rat \<Rightarrow> rat"
  se_within :: "rat \<times> rat \<Rightarrow> rat \<times> rat \<Rightarrow> rat \<Rightarrow> bool"

text \<open>A filter that is absent or the empty string is falsy and filters nothing.\<close>

definition matches_text :: "string option \<Rightarrow> string \<Rightarrow> bool" where
  "matches_text f v \<longleftrightarrow> (case f of None \<Rightarrow> True | Some x \<Rightarrow> x = [] \<or> v = x)"

text \<open>\<open>activeBookingStatuses\<close>.\<close>

definition holds_dates :: "booking_row \<Rightarrow> bool" where
  "holds_dates b \<longleftrightarrow> bk_status b \<in> {Bk_PENDING, Bk_CONFIRMED, Bk_ACTIVE}"

definition is_free :: "db \<Rightarrow> availability_filter option \<Rightarrow> string \<Rightarrow> bool" where
  "is_free db availability itemId \<longleftrightarrow>
     (case availability of
        None \<Rightarrow> True
      | Some a \<Rightarrow> \<not> exists_row (\<lambda>b. holds_dates b \<and> booking_overlaps itemId (av_from a) (av_to a) b) (db_bookings db))"

definition in_price_range :: "list_items_query \<Rightarrow> rat \<Rightarrow> bool" where
  "in_price_range q price \<longleftrightarrow>
     (case lq_minPrice q of None \<Rightarrow> True | Some lo \<Rightarrow> lo \<le> price)
     \<and> (case lq_maxPrice q of None \<Rightarrow> True | Some hi \<Rightarrow> price \<le> hi)"

definition search_text :: "list_items_query \<Rightarrow> string" where
  "search_text q = (case lq_search q of None \<Rightarrow> [] | Some s \<Rightarrow> js_trim s)"

text \<open>\<open>buildPublicWhere\<close>.\<close>

definition public_where ::
    "search_env \<Rightarrow> db \<Rightarrow> list_items_query \<Rightarrow> availability_filter option \<Rightarrow> item_row \<Rightarrow> bool" where
  "public_where env db q availability t \<longleftrightarrow>
     is_published db t
     \<and> matches_text (lq_categoryId q) (ld_categoryId (it_details t))
     \<and> matches_text (lq_area q) (it_publicArea t)
     \<and> (search_text q = [] \<or> se_contains env (search_text q) (it_title t)
          \<or> se_contains env (search_text q) (ld_description (it_details t)))
     \<and> in_price_range q (it_pricePerDay t)
     \<and> is_free db availability (it_id t)"

text \<open>\<open>buildRawPublicConditions\<close>.\<close>

definition raw_public_conditions ::
    "db \<Rightarrow> list_items_query \<Rightarrow> availability_filter option \<Rightarrow> item_row \<Rightarrow> bool" where
  "raw_public_conditions db q availability t \<longleftrightarrow>
     is_published db t
     \<and> matches_text (lq_categoryId q) (ld_categoryId (it_details t))
     \<and> matches_text (lq_area q) (it_publicArea t)
     \<and> (search_text q = [] \<or> ilike (like_pattern (search_text q)) (it_title t)
          \<or> ilike (like_pattern (search_text q)) (ld_description (it_details t)))
     \<and> in_price_range q (it_pricePerDay t)
     \<and> is_free db availability (it_id t)"

section \<open>The lists\<close>

text \<open>
  The orders: by price or distance, and within equal keys the newest first. The sort by
  distance is rejected before, in the list without coordinates.
\<close>

definition sort_items :: "item_list_sort option \<Rightarrow> item_row list \<Rightarrow> item_row list" where
  "sort_items s items =
     (let newest = newest_first item_key items
      in case s of
           Some PRICE_ASC \<Rightarrow> sort_key it_pricePerDay newest
         | Some PRICE_DESC \<Rightarrow> sort_key (\<lambda>t. - it_pricePerDay t) newest
         | _ \<Rightarrow> newest)"

definition build_order_by :: "item_list_sort option \<Rightarrow> unit result" where
  "build_order_by s = (if s = Some DISTANCE then Inl (Bad_request ''distance-without-coordinates'') else Inr ())"

definition sort_items_raw ::
    "item_list_sort option \<Rightarrow> (item_row \<Rightarrow> rat) \<Rightarrow> item_row list \<Rightarrow> item_row list" where
  "sort_items_raw s distance items =
     (if s = Some DISTANCE then sort_key distance (newest_first item_key items) else sort_items s items)"

text \<open>The distance of a listing is that of its public point.\<close>

definition public_distance :: "search_env \<Rightarrow> geo_filter \<Rightarrow> item_row \<Rightarrow> rat" where
  "public_distance env geo t =
     se_distance env (raw_public_item_point (it_latitude t) (it_longitude t)) (geo_longitude geo, geo_latitude geo)"

definition public_within :: "search_env \<Rightarrow> geo_filter \<Rightarrow> item_row \<Rightarrow> bool" where
  "public_within env geo t \<longleftrightarrow>
     se_within env (raw_public_item_point (it_latitude t) (it_longitude t)) (geo_longitude geo, geo_latitude geo)
       (geo_radiusMeters geo)"

definition geo_rows ::
    "search_env \<Rightarrow> list_items_query \<Rightarrow> geo_filter \<Rightarrow> availability_filter option \<Rightarrow> nat \<Rightarrow> nat \<Rightarrow> db
      \<Rightarrow> (string \<times> rat) list" where
  "geo_rows env q geo availability limit offset db =
     map (\<lambda>t. (it_id t, public_distance env geo t))
       (take limit (drop offset (sort_items_raw (lq_sort q) (public_distance env geo)
         (filter (\<lambda>t. raw_public_conditions db q availability t \<and> public_within env geo t) (db_items db)))))"

text \<open>The second query, and the map of its rows by id, keep the order of the first.\<close>

definition list_public_by_geo ::
    "search_env \<Rightarrow> list_items_query \<Rightarrow> geo_filter \<Rightarrow> availability_filter option \<Rightarrow> nat \<Rightarrow> nat \<Rightarrow> db
      \<Rightarrow> public_item list" where
  "list_public_by_geo env q geo availability limit offset db =
     (let rows = geo_rows env q geo availability limit offset db;
          items = filter (\<lambda>t. public_where env db q availability t \<and> it_id t \<in> set (map fst rows)) (db_items db)
      in if rows = [] then []
         else concat (map (\<lambda>(i, distance). case List.find (\<lambda>t. it_id t = i) (rev items) of
                None \<Rightarrow> [] | Some t \<Rightarrow> [to_public_item db (Some distance) t]) rows))"

definition list_public :: "search_env \<Rightarrow> list_items_query \<Rightarrow> db \<Rightarrow> public_item list result" where
  "list_public env q db =
     bind_result (ensure_price_range q) (\<lambda>_.
     bind_result (get_availability_filter q) (\<lambda>availability.
     bind_result (get_geo_filter q) (\<lambda>geo.
     bind_result (get_limit (lq_limit q)) (\<lambda>limit.
     bind_result (get_offset (lq_offset q)) (\<lambda>offset.
     case geo of
       Some g \<Rightarrow> Inr (list_public_by_geo env q g availability limit offset db)
     | None \<Rightarrow>
         bind_result (build_order_by (lq_sort q)) (\<lambda>_.
         Inr (map (to_public_item db None)
           (take limit (drop offset (sort_items (lq_sort q)
             (filter (public_where env db q availability) (db_items db))))))))))))"

definition list_public_areas :: "search_env \<Rightarrow> db \<Rightarrow> string list" where
  "list_public_areas env db =
     sort (remdups (map it_publicArea (filter (public_where env db empty_query None) (db_items db))))"

end
