(* ===== verification/Row_Agreement.thy ===== *)
theory Row_Agreement
  imports Paging
begin

text \<open>
  Two lists of rows agree on a projection when the projections of their elements are equal one by
  one. What a service computes from the projection alone is then equal for both: the lemmas here
  carry an agreement through the operations of the queries. They are what the privacy results
  on public answers and on the export of a user's data rest on.
\<close>

lemma agree_list_all2: "map f xs = map f' ys \<longleftrightarrow> list_all2 (\<lambda>x y. f x = f' y) xs ys"
  by (auto simp: list_all2_conv_all_nth list_eq_iff_nth_eq)

lemma agree_map:
  assumes "map f xs = map f' ys" and "\<And>x y. f x = f' y \<Longrightarrow> g x = h y"
  shows "map g xs = map h ys"
  using assms(1) unfolding agree_list_all2
  by (induction rule: list_all2_induct) (auto dest: assms(2))

lemma agree_map_in:
  assumes "map f xs = map f' ys" and "\<And>x y. x \<in> set xs \<Longrightarrow> y \<in> set ys \<Longrightarrow> f x = f' y \<Longrightarrow> g x = h y"
  shows "map g xs = map h ys"
  using assms by (auto simp: list_eq_iff_nth_eq)

lemma agree_image:
  assumes "map f xs = map f' ys" and "\<And>x y. f x = f' y \<Longrightarrow> g x = h y"
  shows "g ` set xs = h ` set ys"
proof -
  have "map g xs = map h ys" by (rule agree_map [OF assms])
  then have "set (map g xs) = set (map h ys)" by simp
  then show ?thesis by simp
qed

lemma agree_filter:
  assumes "map f xs = map f' ys" and "\<And>x y. f x = f' y \<Longrightarrow> P x = Q y"
  shows "map f (filter P xs) = map f' (filter Q ys)"
  using assms(1) unfolding agree_list_all2
  by (induction rule: list_all2_induct) (auto dest: assms(2))

lemma agree_insort:
  assumes "f x = f' y" and "map f xs = map f' ys" and "\<And>x y. f x = f' y \<Longrightarrow> k x = l y"
  shows "map f (insort_key k x xs) = map f' (insort_key l y ys)"
  using assms(2) unfolding agree_list_all2
  by (induction rule: list_all2_induct) (use assms(1) in \<open>auto dest: assms(3) simp: assms(3) [OF assms(1)]\<close>)

lemma agree_sort:
  assumes "map f xs = map f' ys" and "\<And>x y. f x = f' y \<Longrightarrow> k x = l y"
  shows "map f (sort_key k xs) = map f' (sort_key l ys)"
  using assms(1) [unfolded agree_list_all2]
proof (induction rule: list_all2_induct)
  case (Cons x xs y ys)
  have "map f (insort_key k x (sort_key k xs)) = map f' (insort_key l y (sort_key l ys))"
    by (rule agree_insort [where f = f and f' = f' and k = k and l = l, OF Cons.hyps(1) Cons.IH assms(2)])
  then show ?case by (simp only: sort_key_simps)
qed simp

lemma agree_find:
  assumes "map f xs = map f' ys" and "\<And>x y. f x = f' y \<Longrightarrow> P x = Q y"
  shows "map_option f (List.find P xs) = map_option f' (List.find Q ys)"
  using assms(1) unfolding agree_list_all2
  by (induction rule: list_all2_induct) (auto dest: assms(2))

lemma agree_exists:
  assumes "map f xs = map f' ys" and "\<And>x y. f x = f' y \<Longrightarrow> P x = Q y"
  shows "exists_row P xs = exists_row Q ys"
  using assms(1) unfolding agree_list_all2
  by (induction rule: list_all2_induct) (auto dest: assms(2))

lemma agree_take: "map f xs = map f' ys \<Longrightarrow> map f (take n xs) = map f' (take n ys)"
  by (metis take_map)

lemma agree_drop: "map f xs = map f' ys \<Longrightarrow> map f (drop n xs) = map f' (drop n ys)"
  by (metis drop_map)

lemma agree_newest:
  assumes "map f xs = map f' ys" and "\<And>x y. f x = f' y \<Longrightarrow> k x = l y"
  shows "map f (newest_first k xs) = map f' (newest_first l ys)"
  using agree_sort [OF assms] by (simp add: newest_first_def flip: rev_map)

lemma agree_oldest:
  assumes "map f xs = map f' ys" and "\<And>x y. f x = f' y \<Longrightarrow> k x = l y"
  shows "map f (oldest_first k xs) = map f' (oldest_first l ys)"
  unfolding oldest_first_def by (rule agree_sort [OF assms])

lemma option_agree:
  assumes "map_option f x = map_option f' y" and "\<And>a b. f a = f' b \<Longrightarrow> g a = h b"
  shows "(case x of None \<Rightarrow> n | Some a \<Rightarrow> g a) = (case y of None \<Rightarrow> n | Some b \<Rightarrow> h b)"
  using assms by (cases x; cases y) auto

lemma option_map_agree:
  assumes "map_option f x = map_option f' y" and "\<And>a b. f a = f' b \<Longrightarrow> g a = h b"
  shows "map_option g x = map_option h y"
  using assms by (cases x; cases y) auto

text \<open>Rows of one parent, out of the rows of all parents of a set.\<close>

lemma filter_part:
  assumes "j \<in> S"
  shows "filter (\<lambda>x. i x = j) (filter (\<lambda>x. i x \<in> S \<and> P x) xs) = filter (\<lambda>x. i x = j \<and> P x) xs"
  by (rule trans [OF filter_filter]) (rule filter_cong, use assms in auto)

lemma find_part:
  assumes "j \<in> S"
  shows "List.find (\<lambda>x. i x = j) (filter (\<lambda>x. i x \<in> S) xs) = List.find (\<lambda>x. i x = j) xs"
  using assms by (induction xs) auto

lemma agree_part:
  assumes "map f (filter (\<lambda>x. i x \<in> S) xs) = map f' (filter (\<lambda>x. i x \<in> S) ys)" and "j \<in> S"
    and "\<And>x y. f x = f' y \<Longrightarrow> i x = i y"
  shows "map f (filter (\<lambda>x. i x = j) xs) = map f' (filter (\<lambda>x. i x = j) ys)"
proof -
  have "map f (filter (\<lambda>x. i x = j) (filter (\<lambda>x. i x \<in> S) xs)) = map f' (filter (\<lambda>x. i x = j) (filter (\<lambda>x. i x \<in> S) ys))"
    by (rule agree_filter [OF assms(1)]) (simp add: assms(3))
  then show ?thesis using filter_part [OF assms(2), of i "\<lambda>_. True"] by simp
qed

end
