(* ===== verification/Item_Properties.thy ===== *)
theory Item_Properties
  imports Item_Search Row_Agreement Sample_Data
begin

text \<open>
  What the listings promise: owners cannot publish or change what moderation has approved, the
  public answers depend on the coarse cell of a listing and on nothing of its owner's private
  data, the search by distance is the public search within the radius, and the pattern of the
  SQL query finds exactly the texts that contain the search.
\<close>

section \<open>Search patterns\<close>

definition escape_char :: "char \<Rightarrow> string" where
  "escape_char c = (if c \<in> {CHR 0x5C, CHR ''%'', CHR ''_''} then [CHR 0x5C, c] else [c])"

lemma escape_like_pattern_chars: "escape_like_pattern s = concat (map escape_char s)"
proof (induction s)
  case (Cons c s)
  have "escape_like_pattern (c # s) = escape_char c @ escape_like_pattern s"
    by (simp add: escape_like_pattern_def replace_all_char_def escape_char_def)
  then show ?case using Cons.IH by simp
qed (simp add: escape_like_pattern_def replace_all_char_def)

declare ilike.simps(2) [simp del]

lemma ilike_any [simp]: "ilike ''%'' t"
  by (induction t) (simp_all add: ilike.simps(2))

lemma ilike_percent: "ilike (CHR ''%'' # ps) t \<longleftrightarrow> (\<exists>u w. t = u @ w \<and> ilike ps w)"
proof (induction t)
  case (Cons c cs)
  have "ilike (CHR ''%'' # ps) (c # cs) \<longleftrightarrow> ilike ps (c # cs) \<or> (\<exists>u w. cs = u @ w \<and> ilike ps w)"
    using Cons.IH by (subst ilike.simps(2)) simp
  also have "\<dots> \<longleftrightarrow> (\<exists>u w. c # cs = u @ w \<and> ilike ps w)"
    by (metis append_Cons append_Nil list.sel(3) neq_Nil_conv tl_append2)
  finally show ?case .
qed (simp add: ilike.simps(2))

lemma ilike_escaped_char:
  "ilike (escape_char x @ ps) t \<longleftrightarrow> (\<exists>c cs. t = c # cs \<and> lower_char c = lower_char x \<and> ilike ps cs)"
  by (cases t) (auto simp: escape_char_def ilike.simps(2))

lemma ilike_escaped:
  "ilike (concat (map escape_char s) @ ''%'') t \<longleftrightarrow> (\<exists>v w. t = v @ w \<and> lower v = lower s)"
proof (induction s arbitrary: t)
  case Nil
  then show ?case by (simp add: lower_def)
next
  case (Cons x s)
  have "ilike (concat (map escape_char (x # s)) @ ''%'') t
      \<longleftrightarrow> (\<exists>c cs. t = c # cs \<and> lower_char c = lower_char x \<and> (\<exists>v w. cs = v @ w \<and> lower v = lower s))"
    using Cons.IH by (simp add: ilike_escaped_char)
  also have "\<dots> \<longleftrightarrow> (\<exists>v w. t = v @ w \<and> lower v = lower (x # s))"
  proof
    assume "\<exists>c cs. t = c # cs \<and> lower_char c = lower_char x \<and> (\<exists>v w. cs = v @ w \<and> lower v = lower s)"
    then obtain c v w where v: "t = c # v @ w" "lower_char c = lower_char x" "lower v = lower s" by blast
    then have "t = (c # v) @ w \<and> lower (c # v) = lower (x # s)" by (simp add: lower_def)
    then show "\<exists>v w. t = v @ w \<and> lower v = lower (x # s)" by blast
  next
    assume "\<exists>v w. t = v @ w \<and> lower v = lower (x # s)"
    then obtain v w where v: "t = v @ w" "lower v = lower (x # s)" by blast
    then obtain c v' where "v = c # v'" by (cases v) (simp_all add: lower_def)
    with v show "\<exists>c cs. t = c # cs \<and> lower_char c = lower_char x \<and> (\<exists>v w. cs = v @ w \<and> lower v = lower s)"
      by (auto simp: lower_def)
  qed
  finally show ?case .
qed

lemma ilike_like_pattern:
  "ilike (like_pattern search) t \<longleftrightarrow> (\<exists>u v w. t = u @ v @ w \<and> lower v = lower search)"
proof -
  have "ilike (like_pattern search) t
      \<longleftrightarrow> (\<exists>u w. t = u @ w \<and> ilike (concat (map escape_char search) @ ''%'') w)"
    unfolding like_pattern_def escape_like_pattern_chars by (simp add: ilike_percent)
  also have "\<dots> \<longleftrightarrow> (\<exists>u v w. t = u @ v @ w \<and> lower v = lower search)"
    unfolding ilike_escaped by blast
  finally show ?thesis .
qed

text \<open>
  What the query builder documents of a case-insensitive \<open>contains\<close>: the text holds the search
  somewhere, up to the case of letters.
\<close>

definition contains_law :: "search_env \<Rightarrow> bool" where
  "contains_law env \<longleftrightarrow>
     (\<forall>search t. se_contains env search t \<longleftrightarrow> (\<exists>u v w. t = u @ v @ w \<and> lower v = lower search))"

lemma raw_conditions_public_where:
  "contains_law env \<Longrightarrow> raw_public_conditions db q av t = public_where env db q av t"
  by (simp add: raw_public_conditions_def public_where_def contains_law_def ilike_like_pattern)

section \<open>What the public answers depend on\<close>

text \<open>
  A listing without the columns the public may not see, and the cell of its coordinates; the
  columns of a user, a photo and a booking that a public answer can depend on.
\<close>

definition conceal_item :: "item_row \<Rightarrow> item_row" where
  "conceal_item t =
     t\<lparr>it_address := [], it_latitude := 0, it_longitude := 0, it_listingRulesVersion := None,
       it_details := (it_details t)\<lparr>ld_clientRequestId := None, ld_clientRequestHash := None, ld_rejectReason := None,
         ld_listingRulesAcceptedAt := None, ld_listingRulesAcceptanceMethod := None,
         ld_safetyNoticeSnapshot := None\<rparr>\<rparr>"

definition item_facts :: "item_row \<Rightarrow> item_row \<times> (int \<times> int)" where
  "item_facts t = (conceal_item t, location_cell (it_latitude t) (it_longitude t))"

definition user_facts :: "user_row \<Rightarrow> owner_summary \<times> bool \<times> timestamp option" where
  "user_facts u = (summarize_owner u, us_isBlocked u, us_deletedAt u)"

definition photo_facts :: "photo_row \<Rightarrow> photo_row" where
  "photo_facts p = p\<lparr>ph_originalUrl := None, ph_uploadIntentId := None\<rparr>"

definition booking_facts :: "booking_row \<Rightarrow> string \<times> timestamp \<times> timestamp \<times> bool" where
  "booking_facts b = (bk_itemId b, bk_startDate b, bk_endDate b, holds_dates b)"

definition public_state ::
    "db \<Rightarrow> (item_row \<times> (int \<times> int)) list \<times> (owner_summary \<times> bool \<times> timestamp option) list \<times> photo_row list
      \<times> category_row list \<times> favorite_row list \<times> (string \<times> timestamp \<times> timestamp \<times> bool) list" where
  "public_state db =
     (map item_facts (db_items db), map user_facts (db_users db), map photo_facts (ct_photos (db_catalog db)),
      ct_categories (db_catalog db), ct_favorites (db_catalog db), map booking_facts (db_bookings db))"

lemma item_factsD:
  assumes "item_facts s = item_facts t"
  shows "it_id s = it_id t" "it_ownerId s = it_ownerId t" "it_title s = it_title t"
    "it_pricePerDay s = it_pricePerDay t" "it_depositAmount s = it_depositAmount t"
    "it_status s = it_status t" "it_publicArea s = it_publicArea t" "it_updatedAt s = it_updatedAt t"
    "ld_categoryId (it_details s) = ld_categoryId (it_details t)"
    "ld_description (it_details s) = ld_description (it_details t)"
    "ld_condition (it_details s) = ld_condition (it_details t)"
    "ld_completeness (it_details s) = ld_completeness (it_details t)"
    "ld_handoverTerms (it_details s) = ld_handoverTerms (it_details t)"
    "ld_createdAt (it_details s) = ld_createdAt (it_details t)"
    "cell_index (it_latitude s) (- 90) = cell_index (it_latitude t) (- 90)"
    "cell_index (it_longitude s) (- 180) = cell_index (it_longitude t) (- 180)"
  using assms
  by (cases s; cases t; cases "it_details s"; cases "it_details t";
      simp add: item_facts_def conceal_item_def location_cell_def)+

lemma user_factsD:
  assumes "user_facts u = user_facts v"
  shows "us_id u = us_id v" "us_isBlocked u = us_isBlocked v" "us_deletedAt u = us_deletedAt v"
    "summarize_owner u = summarize_owner v"
  using assms by (simp_all add: user_facts_def summarize_owner_def)

lemma photo_factsD:
  assumes "photo_facts p = photo_facts q"
  shows "ph_itemId p = ph_itemId q" "ph_isCover p = ph_isCover q" "ph_sortOrder p = ph_sortOrder q"
    "ph_createdAt p = ph_createdAt q" "show_public_photo p = show_public_photo q"
  using assms by (cases p; cases q; simp add: photo_facts_def show_public_photo_def)+

lemma booking_factsD:
  assumes "booking_facts b = booking_facts c"
  shows "holds_dates b = holds_dates c" "booking_overlaps i s e b = booking_overlaps i s e c"
  using assms by (simp_all add: booking_facts_def booking_overlaps_def)

section \<open>Two databases that look alike to the public\<close>

lemma photo_facts_key:
  assumes "photo_facts p = photo_facts q"
  shows "(\<not> ph_isCover p, ph_sortOrder p, ph_createdAt p) = (\<not> ph_isCover q, ph_sortOrder q, ph_createdAt q)"
  by (simp add: photo_factsD [OF assms])

lemma item_facts_key:
  assumes "item_facts s = item_facts t"
  shows "item_key s = item_key t" "- it_pricePerDay s = - it_pricePerDay t"
  by (simp_all add: item_key_def item_factsD [OF assms])

lemma user_facts_open:
  assumes "user_facts u = user_facts v"
  shows "(\<not> us_isBlocked u \<and> us_deletedAt u = None) = (\<not> us_isBlocked v \<and> us_deletedAt v = None)"
  by (simp add: user_factsD [OF assms])

lemma booking_facts_overlap:
  assumes "booking_facts b = booking_facts c"
  shows "(holds_dates b \<and> booking_overlaps i s e b) = (holds_dates c \<and> booking_overlaps i s e c)"
  by (simp add: booking_factsD [OF assms])

lemma public_stateD:
  assumes "public_state db = public_state db'"
  shows "map item_facts (db_items db) = map item_facts (db_items db')"
    and "map user_facts (db_users db) = map user_facts (db_users db')"
    and "map photo_facts (ct_photos (db_catalog db)) = map photo_facts (ct_photos (db_catalog db'))"
    and "ct_categories (db_catalog db) = ct_categories (db_catalog db')"
    and "ct_favorites (db_catalog db) = ct_favorites (db_catalog db')"
    and "map booking_facts (db_bookings db) = map booking_facts (db_bookings db')"
  using assms by (simp_all add: public_state_def)

lemma alike_category: "public_state db = public_state db' \<Longrightarrow> find_category db i = find_category db' i"
  by (simp add: find_category_def public_stateD(4) [of db db'])

lemma alike_user:
  assumes "public_state db = public_state db'"
  shows "map_option user_facts (find_user db i) = map_option user_facts (find_user db' i)"
  unfolding find_user_def by (rule agree_find [OF public_stateD(2) [OF assms]]) (rule arg_cong [OF user_factsD(1)])

lemma alike_owner:
  assumes "public_state db = public_state db'"
  shows "map_option summarize_owner (find_user db i) = map_option summarize_owner (find_user db' i)"
proof -
  have "(case find_user db i of None \<Rightarrow> None | Some u \<Rightarrow> Some (summarize_owner u))
      = (case find_user db' i of None \<Rightarrow> None | Some u \<Rightarrow> Some (summarize_owner u))"
    by (rule option_agree [OF alike_user [OF assms]]) (rule arg_cong [OF user_factsD(4)])
  then show ?thesis by (simp only: map_option_case)
qed

lemma alike_published:
  assumes "public_state db = public_state db'" and facts: "item_facts s = item_facts t"
  shows "is_published db s = is_published db' t"
proof -
  have "(case find_user db (it_ownerId t) of None \<Rightarrow> False | Some u \<Rightarrow> \<not> us_isBlocked u \<and> us_deletedAt u = None)
      = (case find_user db' (it_ownerId t) of None \<Rightarrow> False | Some u \<Rightarrow> \<not> us_isBlocked u \<and> us_deletedAt u = None)"
    by (rule option_agree [OF alike_user [OF assms(1)] user_facts_open])
  then show ?thesis
    unfolding is_published_def item_factsD(2,6,9) [OF facts] alike_category [OF assms(1)] by (rule arg_cong)
qed

lemma alike_free:
  assumes "public_state db = public_state db'"
  shows "is_free db availability i = is_free db' availability i"
proof (cases availability)
  case (Some a)
  show ?thesis
    unfolding is_free_def Some option.simps
    by (rule arg_cong [OF agree_exists [OF public_stateD(6) [OF assms] booking_facts_overlap]])
qed (simp add: is_free_def)

lemma alike_where:
  assumes "public_state db = public_state db'" and facts: "item_facts s = item_facts t"
  shows "public_where env db q av s = public_where env db' q av t"
    and "raw_public_conditions db q av s = raw_public_conditions db' q av t"
  unfolding public_where_def raw_public_conditions_def alike_published [OF assms] item_factsD [OF facts]
    alike_free [OF assms(1)] by (rule refl)+

lemma alike_photos_of:
  assumes "public_state db = public_state db'"
  shows "map show_public_photo (photos_of db i) = map show_public_photo (photos_of db' i)"
  unfolding photos_of_def
  by (rule agree_map [OF agree_sort [OF agree_filter [OF public_stateD(3) [OF assms]] photo_facts_key] photo_factsD(5)])
    (rule arg_cong [OF photo_factsD(1)])

lemma alike_public_item:
  assumes "public_state db = public_state db'" and facts: "item_facts s = item_facts t"
  shows "to_public_item db d s = to_public_item db' d t"
  unfolding to_public_item_def Let_def to_sparse_cell_center_def item_factsD [OF facts] alike_category [OF assms(1)]
    alike_owner [OF assms(1)] alike_photos_of [OF assms(1)] by (rule refl)

lemma alike_distance:
  assumes "item_facts s = item_facts t"
  shows "public_distance env geo s = public_distance env geo t" "public_within env geo s = public_within env geo t"
  by (simp_all only: public_distance_def public_within_def raw_public_item_point_def item_factsD(15,16) [OF assms])

lemma alike_sorted:
  assumes "map item_facts xs = map item_facts ys"
  shows "map item_facts (sort_items s xs) = map item_facts (sort_items s ys)"
proof -
  note newest = agree_newest [OF assms item_facts_key(1)]
  show ?thesis
    using newest agree_sort [OF newest item_factsD(4)] agree_sort [OF newest item_facts_key(2)]
    by (cases s rule: option.exhaust [case_names None Some])
      (simp_all add: sort_items_def Let_def split: item_list_sort.split)
qed

lemma alike_sorted_raw:
  assumes "map item_facts xs = map item_facts ys"
  shows "map item_facts (sort_items_raw s (public_distance env geo) xs)
    = map item_facts (sort_items_raw s (public_distance env geo) ys)"
  using agree_sort [OF agree_newest [OF assms item_facts_key(1)] alike_distance(1)] alike_sorted [OF assms]
  by (simp add: sort_items_raw_def)

lemma alike_geo_rows:
  assumes A: "public_state db = public_state db'"
  shows "geo_rows env q geo av limit offset db = geo_rows env q geo av limit offset db'"
proof -
  have row: "(it_id s, public_distance env geo s) = (it_id t, public_distance env geo t)"
    if "item_facts s = item_facts t" for s t
    by (simp only: item_factsD(1) [OF that] alike_distance [OF that])
  have cond: "(raw_public_conditions db q av s \<and> public_within env geo s)
      = (raw_public_conditions db' q av t \<and> public_within env geo t)" if "item_facts s = item_facts t" for s t
    by (simp only: alike_where(2) [OF A that] alike_distance [OF that])
  show ?thesis
    unfolding geo_rows_def
    by (rule agree_map [OF agree_take [OF agree_drop [OF alike_sorted_raw
          [OF agree_filter [OF public_stateD(1) [OF A] cond]]]] row])
qed

lemma alike_by_geo:
  assumes A: "public_state db = public_state db'"
  shows "list_public_by_geo env q geo av limit offset db = list_public_by_geo env q geo av limit offset db'"
proof -
  define ids where "ids = set (map fst (geo_rows env q geo av limit offset db'))"
  let ?items = "\<lambda>d. filter (\<lambda>t. public_where env d q av t \<and> it_id t \<in> ids) (db_items d)"
  have cond: "(public_where env db q av s \<and> it_id s \<in> ids) = (public_where env db' q av t \<and> it_id t \<in> ids)"
    if "item_facts s = item_facts t" for s t
    by (simp only: alike_where(1) [OF A that] item_factsD(1) [OF that])
  have "map item_facts (rev (?items db)) = map item_facts (rev (?items db'))"
    unfolding rev_map [symmetric] by (rule arg_cong [OF agree_filter [OF public_stateD(1) [OF A] cond]])
  then have found: "map_option item_facts (List.find (\<lambda>t. it_id t = i) (rev (?items db)))
      = map_option item_facts (List.find (\<lambda>t. it_id t = i) (rev (?items db')))" for i
    by (rule agree_find) (rule arg_cong [OF item_factsD(1)])
  have shown: "[to_public_item db (Some d) s] = [to_public_item db' (Some d) t]" if "item_facts s = item_facts t" for s t d
    by (simp only: alike_public_item [OF A that])
  have "(case List.find (\<lambda>t. it_id t = i) (rev (?items db)) of None \<Rightarrow> [] | Some t \<Rightarrow> [to_public_item db (Some d) t])
      = (case List.find (\<lambda>t. it_id t = i) (rev (?items db')) of None \<Rightarrow> [] | Some t \<Rightarrow> [to_public_item db' (Some d) t])" for i d
    by (rule option_agree [OF found shown])
  then show ?thesis
    by (simp only: list_public_by_geo_def alike_geo_rows [OF A] ids_def Let_def)
qed

lemma alike_list:
  assumes A: "public_state db = public_state db'"
  shows "list_public env q db = list_public env q db'"
proof -
  have "map (to_public_item db None) (take limit (drop offset (sort_items (lq_sort q)
          (filter (public_where env db q av) (db_items db)))))
      = map (to_public_item db' None) (take limit (drop offset (sort_items (lq_sort q)
          (filter (public_where env db' q av) (db_items db')))))" for limit offset av
    by (rule agree_map [OF agree_take [OF agree_drop [OF alike_sorted
          [OF agree_filter [OF public_stateD(1) [OF A] alike_where(1) [OF A]]]]] alike_public_item [OF A]])
  then show ?thesis by (simp only: list_public_def alike_by_geo [OF A])
qed

lemma alike_get:
  assumes A: "public_state db = public_state db'"
  shows "get_public_by_id i db = get_public_by_id i db'"
proof -
  have cond: "(it_id s = i \<and> is_published db s) = (it_id t = i \<and> is_published db' t)"
    if "item_facts s = item_facts t" for s t
    by (simp only: alike_published [OF A that] item_factsD(1) [OF that])
  have shown: "Inr (to_public_item db None s) = Inr (to_public_item db' None t)" if "item_facts s = item_facts t" for s t
    by (simp only: alike_public_item [OF A that])
  show ?thesis
    unfolding get_public_by_id_def by (rule option_agree [OF agree_find [OF public_stateD(1) [OF A] cond] shown])
qed

lemma alike_areas:
  assumes A: "public_state db = public_state db'"
  shows "list_public_areas env db = list_public_areas env db'"
  unfolding list_public_areas_def
  by (rule arg_cong [OF agree_map [OF agree_filter [OF public_stateD(1) [OF A] alike_where(1) [OF A]] item_factsD(7)]])

lemma alike_list_favorites:
  assumes A: "public_state db = public_state db'"
  shows "list_favorites u db = list_favorites u db'"
proof -
  have item: "map_option item_facts (find_item db i) = map_option item_facts (find_item db' i)" for i
    unfolding find_item_def
    by (rule agree_find [OF public_stateD(1) [OF A]]) (rule arg_cong [OF item_factsD(1)])
  have pub: "(case find_item db i of None \<Rightarrow> False | Some t \<Rightarrow> is_published db t)
      = (case find_item db' i of None \<Rightarrow> False | Some t \<Rightarrow> is_published db' t)" for i
    by (rule option_agree [OF item alike_published [OF A]])
  have shown: "[to_public_item db None s] = [to_public_item db' None t]" if "item_facts s = item_facts t" for s t
    by (simp only: alike_public_item [OF A that])
  have "(case find_item db i of None \<Rightarrow> [] | Some t \<Rightarrow> [to_public_item db None t])
      = (case find_item db' i of None \<Rightarrow> [] | Some t \<Rightarrow> [to_public_item db' None t])" for i
    by (rule option_agree [OF item shown])
  with pub show ?thesis by (simp only: list_favorites_def public_stateD(5) [OF A])
qed

text \<open>
  C28. Private data stay private: two databases that agree on the published columns, on the
  coarse cell of every listing and on the dates that bookings hold give every visitor the same
  answers, whatever the addresses, the exact coordinates, the original photos, the phones, the
  reasons of a rejection, and the parties and prices of bookings are.
\<close>

theorem public_answers_private:
  assumes "public_state db = public_state db'"
  shows "list_public env q db = list_public env q db' \<and> get_public_by_id i db = get_public_by_id i db'
    \<and> list_public_areas env db = list_public_areas env db' \<and> list_favorites u db = list_favorites u db'"
  using alike_list [OF assms] alike_get [OF assms] alike_areas [OF assms] alike_list_favorites [OF assms] by blast

section \<open>The search by distance\<close>

lemma set_sort_items [simp]: "set (sort_items s items) = set items"
  by (auto simp: sort_items_def Let_def split: option.splits item_list_sort.splits)

lemma set_sort_items_raw [simp]: "set (sort_items_raw s d items) = set items"
  by (simp add: sort_items_raw_def)

lemma distinct_sort_items:
  "distinct (map it_id items) \<Longrightarrow> distinct (map it_id (sort_items_raw s d items))"
  by (simp add: sort_items_raw_def sort_items_def Let_def distinct_map split: option.splits item_list_sort.splits)
    (simp add: newest_first_def)

lemma by_geo_rows:
  assumes distinct: "distinct (map it_id (db_items db))"
    and sel: "set sel \<subseteq> set (db_items db)" "\<And>t. t \<in> set sel \<Longrightarrow> public_where env db q av t"
    and rows: "rows = map (\<lambda>t. (it_id t, d t)) sel"
  shows "concat (map (\<lambda>(i, distance). case List.find (\<lambda>t. it_id t = i)
        (rev (filter (\<lambda>t. public_where env db q av t \<and> it_id t \<in> set (map fst rows)) (db_items db))) of
      None \<Rightarrow> [] | Some t \<Rightarrow> [to_public_item db (Some distance) t]) rows)
    = map (\<lambda>t. to_public_item db (Some (d t)) t) sel"
proof -
  let ?items = "filter (\<lambda>t. public_where env db q av t \<and> it_id t \<in> set (map fst rows)) (db_items db)"
  have dist: "distinct (map it_id (rev ?items))"
    using distinct by (simp add: distinct_map inj_on_def flip: rev_map)
  have "List.find (\<lambda>s. it_id s = it_id t) (rev ?items) = Some t" if "t \<in> set sel" for t
    by (rule find_unique [OF dist]) (use that sel rows in auto)
  then have "map (\<lambda>(i, distance). case List.find (\<lambda>t. it_id t = i) (rev ?items) of
      None \<Rightarrow> [] | Some t \<Rightarrow> [to_public_item db (Some distance) t]) rows
    = map (\<lambda>t. [to_public_item db (Some (d t)) t]) sel"
    unfolding rows by (simp cong: map_cong)
  then show ?thesis by (simp only: concat_map_singleton)
qed

lemma by_geo_exact:
  assumes "distinct (map it_id (db_items db))" and "contains_law env"
  shows "list_public_by_geo env q geo av limit offset db
    = map (\<lambda>t. to_public_item db (Some (public_distance env geo t)) t)
        (take limit (drop offset (sort_items_raw (lq_sort q) (public_distance env geo)
          (filter (\<lambda>t. public_where env db q av t \<and> public_within env geo t) (db_items db)))))"
proof -
  define sel where "sel = take limit (drop offset (sort_items_raw (lq_sort q) (public_distance env geo)
      (filter (\<lambda>t. public_where env db q av t \<and> public_within env geo t) (db_items db))))"
  have "set sel \<subseteq> set (filter (\<lambda>t. public_where env db q av t \<and> public_within env geo t) (db_items db))"
    unfolding sel_def by (metis set_take_subset set_drop_subset set_sort_items_raw order_trans)
  then have sel: "set sel \<subseteq> set (db_items db)" "\<And>t. t \<in> set sel \<Longrightarrow> public_where env db q av t" by auto
  have rows: "geo_rows env q geo av limit offset db = map (\<lambda>t. (it_id t, public_distance env geo t)) sel"
    by (simp add: geo_rows_def sel_def raw_conditions_public_where [OF assms(2)])
  show ?thesis
  proof (cases "sel = []")
    case True
    then show ?thesis by (simp add: list_public_by_geo_def Let_def rows sel_def [symmetric])
  next
    case False
    then show ?thesis
      using by_geo_rows [OF assms(1) sel refl, of "public_distance env geo"]
      by (simp only: list_public_by_geo_def Let_def rows sel_def [symmetric] map_is_Nil_conv if_False)
  qed
qed

text \<open>
  C29. The search by distance answers exactly the page of the public search that the radius around
  the public points leaves, each with the bucket of its distance, in the requested order; a page
  has one to fifty places. The two queries and their join neither lose nor add a listing.
\<close>

theorem search_by_distance_exact:
  assumes "distinct (map it_id (db_items db))" and "contains_law env"
    and "ensure_price_range q = Inr ()" and "get_availability_filter q = Inr av"
    and "get_geo_filter q = Inr (Some geo)" and "get_limit (lq_limit q) = Inr limit"
    and "get_offset (lq_offset q) = Inr offset"
  shows "list_public env q db = Inr (map (\<lambda>t. to_public_item db (Some (public_distance env geo t)) t)
        (take limit (drop offset (sort_items_raw (lq_sort q) (public_distance env geo)
          (filter (\<lambda>t. public_where env db q av t \<and> public_within env geo t) (db_items db))))))
    \<and> 1 \<le> limit \<and> limit \<le> 50"
proof -
  have "1 \<le> limit \<and> limit \<le> 50"
    using assms(6) by (auto simp: get_limit_def Let_def MAX_LIMIT_def le_nat_iff nat_le_iff floor_le_iff le_floor_iff
        split: if_splits)
  moreover have "list_public env q db = Inr (list_public_by_geo env q geo av limit offset db)"
    unfolding list_public_def assms(3-7) by simp
  ultimately show ?thesis using by_geo_exact [OF assms(1,2), of q geo av limit offset] by simp
qed

section \<open>Owners and moderation\<close>

text \<open>The commands of owners, as steps of the database.\<close>

inductive owner_step :: "marketplace_policy \<Rightarrow> (create_item_dto \<Rightarrow> string) \<Rightarrow> db \<Rightarrow> db \<Rightarrow> bool"
  for policy hash where
  create: "create_item policy hash ownerId dto k now db = Inr (db', r) \<Longrightarrow> owner_step policy hash db db'"
| update: "update_own policy ownerId i dto now db = Inr (db', r) \<Longrightarrow> owner_step policy hash db db'"
| hide: "hide_own ownerId i now db = Inr (db', r) \<Longrightarrow> owner_step policy hash db db'"

text \<open>
  A later state keeps the approved listings of an earlier one apart, and those that an
  unfinished booking binds untouched.
\<close>

definition moderated :: "db \<Rightarrow> db \<Rightarrow> bool" where
  "moderated db db' \<longleftrightarrow>
     db_bookings db' = db_bookings db
     \<and> (\<forall>t \<in> set (db_items db'). it_status t = It_APPROVED \<longrightarrow> t \<in> set (db_items db))
     \<and> (\<forall>t \<in> set (db_items db). (\<exists>b \<in> set (db_bookings db). bk_itemId b = it_id t \<and> blocks_listing_mutation b)
          \<longrightarrow> t \<in> set (db_items db'))"

lemma moderated_refl: "moderated db db"
  by (simp add: moderated_def)

lemma moderated_trans: "moderated db db' \<Longrightarrow> moderated db' db'' \<Longrightarrow> moderated db db''"
  unfolding moderated_def by metis

lemma insert_item_InrD:
  assumes "insert_item t db = Inr db'"
  shows "db_items db' = db_items db @ [t]" "db_bookings db' = db_bookings db"
  using assms by (auto simp: insert_item_def split: if_splits)

lemma create_moderated:
  assumes "create_item policy hash ownerId dto k now db = Inr (db', r)"
  shows "moderated db db'"
proof -
  obtain deposit category where
    c: "(let item = new_item db ownerId dto deposit category k (hash dto) now
         in case insert_item item db of
              Inr db' \<Rightarrow> Inr (db', to_private_item db' item)
            | Inl (Unique_violation c) \<Rightarrow>
                (case List.find (\<lambda>t. it_ownerId t = ownerId
                    \<and> ld_clientRequestId (it_details t) = Some k) (db_items db) of
                   None \<Rightarrow> Inl (Conflict ''IDEMPOTENCY_KEY_REUSED'')
                 | Some existing \<Rightarrow>
                     if ld_clientRequestHash (it_details existing) \<noteq> Some (hash dto)
                     then Inl (Conflict ''IDEMPOTENCY_KEY_REUSED'')
                     else Inr (db, to_private_item db existing))
            | Inl e \<Rightarrow> Inl e) = Inr (db', r)"
    using assms unfolding create_item_def bind_result_Inr_iff by blast
  define item where "item = new_item db ownerId dto deposit category k (hash dto) now"
  have pending: "it_status item = It_PENDING" by (simp add: item_def new_item_def)
  show ?thesis
  proof (cases "insert_item item db")
    case (Inr d)
    then have "db' = d" using c by (simp add: item_def [symmetric] Let_def)
    with insert_item_InrD [OF Inr] pending show ?thesis by (auto simp: moderated_def)
  next
    case (Inl e)
    then have "db' = db"
      using c by (auto simp: item_def [symmetric] Let_def split: http_error.splits option.splits if_splits)
    then show ?thesis by (simp add: moderated_refl)
  qed
qed

text \<open>Rewriting the rows of one listing without a binding booking, to a status other than approved.\<close>

lemma update_item_row_moderated:
  assumes free: "ensure_no_unfinished_bookings db i = Inr ()"
    and upd: "update_item_row i f db = Inr (db', r)"
    and status: "\<And>t. it_status (f t) \<noteq> It_APPROVED"
  shows "moderated db db'"
proof -
  have db': "db_items db' = update_rows (\<lambda>s. it_id s = i) f (db_items db)" "db_bookings db' = db_bookings db"
    using upd by (auto simp: update_item_row_def Let_def split: option.splits if_splits)
  have unbound: "\<not> (bk_itemId b = i \<and> blocks_listing_mutation b)" if "b \<in> set (db_bookings db)" for b
    using free that by (auto simp: ensure_no_unfinished_bookings_def split: if_splits)
  have "t \<in> set (db_items db)" if "t \<in> set (db_items db')" "it_status t = It_APPROVED" for t
    using that(1) unfolding db' by (rule in_update_rowsE) (use that(2) status in auto)
  moreover have "t \<in> set (db_items db')"
    if "t \<in> set (db_items db)" "b \<in> set (db_bookings db)" "bk_itemId b = it_id t" "blocks_listing_mutation b" for t b
  proof -
    have "it_id t \<noteq> i" using unbound [OF that(2)] that(3,4) by auto
    with that(1) show ?thesis unfolding db' set_update_rows by (force simp: image_iff)
  qed
  ultimately show ?thesis using db'(2) by (auto simp: moderated_def)
qed

lemma update_moderated:
  assumes "update_own policy ownerId i dto now db = Inr (db', r)"
  shows "moderated db db'"
proof -
  obtain t d where td: "(if \<not> has_update_keys d then Inr (db, to_private_item db t)
      else bind_result (ensure_no_unfinished_bookings db i) (\<lambda>_. update_item_row i (apply_update d now) db)) = Inr (db', r)"
    using assms unfolding update_own_def bind_result_Inr_iff by blast
  show ?thesis
  proof (cases "has_update_keys d")
    case True
    then have "ensure_no_unfinished_bookings db i = Inr ()" "update_item_row i (apply_update d now) db = Inr (db', r)"
      using td by (auto simp: bind_result_Inr_iff)
    moreover have "it_status (apply_update d now s) \<noteq> It_APPROVED" for s
      by (simp add: apply_update_def Let_def)
    ultimately show ?thesis by (rule update_item_row_moderated)
  qed (use td in \<open>simp add: moderated_refl\<close>)
qed

lemma hide_moderated:
  assumes "hide_own ownerId i now db = Inr (db', r)"
  shows "moderated db db'"
proof -
  obtain t where t: "(if it_status t = It_HIDDEN then Inr (db, to_private_item db t)
      else bind_result (ensure_no_unfinished_bookings db i) (\<lambda>_. update_item_row i (hide_item now) db)) = Inr (db', r)"
    using assms unfolding hide_own_def bind_result_Inr_iff by blast
  show ?thesis
  proof (cases "it_status t = It_HIDDEN")
    case False
    then have "ensure_no_unfinished_bookings db i = Inr ()" "update_item_row i (hide_item now) db = Inr (db', r)"
      using t by (auto simp: bind_result_Inr_iff)
    moreover have "it_status (hide_item now s) \<noteq> It_APPROVED" for s
      by (simp add: hide_item_def)
    ultimately show ?thesis by (rule update_item_row_moderated)
  qed (use t in \<open>simp add: moderated_refl\<close>)
qed

lemma owner_step_moderated: "owner_step policy hash db db' \<Longrightarrow> moderated db db'"
  by (induction rule: owner_step.induct) (blast intro: create_moderated update_moderated hide_moderated)+

interpretation owners: step_invariant "owner_step policy hash" "moderated start" for policy hash start
  by unfold_locales (blast intro: moderated_trans owner_step_moderated)

text \<open>
  C30. Owners publish nothing: whatever an owner or several owners create, change and hide, in any
  order, every approved listing afterwards is an approved listing from before, unchanged in every
  column, and a listing that an unfinished booking binds is left exactly as it was.
\<close>

theorem owners_publish_nothing:
  assumes "(owner_step policy hash)\<^sup>*\<^sup>* db db'"
  shows "(\<forall>t \<in> set (db_items db'). it_status t = It_APPROVED \<longrightarrow> t \<in> set (db_items db))
    \<and> (\<forall>t \<in> set (db_items db). \<forall>b \<in> set (db_bookings db).
         bk_itemId b = it_id t \<and> blocks_listing_mutation b \<longrightarrow> t \<in> set (db_items db'))"
  using owners.inv_steps [OF assms moderated_refl] unfolding moderated_def by blast

section \<open>The public location\<close>

text \<open>
  The location the public sees is the centre of a cell, less than 0.0502 degrees from the
  listing in each direction, and the same for all listings of a cell.
\<close>

theorem public_location_coarse:
  assumes "item_checks t"
  shows "\<bar>pub_latitude (to_public_item db d t) - it_latitude t\<bar> \<le> 501/10000
    \<and> \<bar>pub_longitude (to_public_item db d t) - it_longitude t\<bar> \<le> 501/10000
    \<and> (\<forall>s. location_cell (it_latitude s) (it_longitude s) = location_cell (it_latitude t) (it_longitude t) \<longrightarrow>
         pub_latitude (to_public_item db d s) = pub_latitude (to_public_item db d t)
         \<and> pub_longitude (to_public_item db d s) = pub_longitude (to_public_item db d t))"
  using assms sparse_center_near [of "-90" "it_latitude t" 90] sparse_center_near [of "-180" "it_longitude t" 180]
  by (simp add: item_checks_def to_public_item_def Let_def location_cell_def to_sparse_cell_center_def)

section \<open>A small market\<close>

definition sample_category :: category_row where
  "sample_category =
     \<lparr>cat_id = ''tools'', cat_name = ''Tools'', cat_slug = ''tools'', cat_iconName = None, cat_sortOrder = 0,
      cat_isActive = True, cat_isAllowedForListings = True, cat_listingPolicy = Pol_ALLOWED,
      cat_safetyNotice = ''care'', cat_createdAt = 0, cat_updatedAt = 0\<rparr>"

definition market_db :: db where
  "market_db = sample_db\<lparr>db_catalog := \<lparr>ct_categories = [sample_category], ct_favorites = [], ct_photos = []\<rparr>\<rparr>"

text \<open>The same market, with another address, other coordinates in the cell and another phone.\<close>

definition hidden_item :: item_row where
  "hidden_item = sample_item\<lparr>it_address := ''Street 2, flat 7'', it_latitude := 3521 / 64\<rparr>"

definition hidden_db :: db where
  "hidden_db = market_db\<lparr>db_items := [hidden_item],
     db_users := update_rows (\<lambda>u. us_id u = ''L'') (\<lambda>u. u\<lparr>us_phone := ''+70000000000''\<rparr>) (db_users market_db)\<rparr>"

text \<open>A database without PostGIS: distances on the grid, in metres per degree.\<close>

definition sample_env :: search_env where
  "sample_env =
     \<lparr>se_contains = (\<lambda>search t. ilike (like_pattern search) t),
      se_distance = (\<lambda>(x, y) (x', y'). 100000 * (\<bar>x - x'\<bar> + \<bar>y - y'\<bar>)),
      se_within = (\<lambda>(x, y) (x', y') r. 100000 * (\<bar>x - x'\<bar> + \<bar>y - y'\<bar>) \<le> r)\<rparr>"

lemma sample_contains_law: "contains_law sample_env"
  by (simp add: contains_law_def sample_env_def ilike_like_pattern)

lemma sample_cells: "cell_index 55 (- 90) = 1450" "cell_index (3521 / 64) (- 90) = 1450"
proof -
  have "fl (145 / SPARSE_COARSE_CELL_DEGREES) = of_int (rne (145 / SPARSE_COARSE_CELL_DEGREES * 2 ^ 42)) / 2 ^ 42"
    by (rule fl_normal) (simp_all add: sparse_cell_value)
  also have "rne (145 / SPARSE_COARSE_CELL_DEGREES * 2 ^ 42) = 6377167441100800"
    by (rule rne_near) (simp add: sparse_cell_value)
  finally show "cell_index 55 (- 90) = 1450"
    using fl_of_int [of 145] by (simp add: cell_index_def js_sub_def)
next
  have diff: "3521 / 64 - - 90 = (9281 / 64 :: rat)" by simp
  have "fl (9281 / 64) = of_int (rne (9281 / 64 * 2 ^ 45)) / 2 ^ 45"
    by (rule fl_normal) simp_all
  also have "rne (9281 / 64 * 2 ^ 45) = 5102283708694528"
    by (rule rne_near) simp
  finally have a: "fl (9281 / 64) = 9281 / 64" by simp
  have "fl (9281 / 64 / SPARSE_COARSE_CELL_DEGREES)
      = of_int (rne (9281 / 64 / SPARSE_COARSE_CELL_DEGREES * 2 ^ 42)) / 2 ^ 42"
    by (rule fl_normal) (simp_all add: sparse_cell_value)
  also have "rne (9281 / 64 / SPARSE_COARSE_CELL_DEGREES * 2 ^ 42) = 6377854635868160"
    by (rule rne_near) (simp add: sparse_cell_value)
  finally have b: "fl (9281 / 64 / SPARSE_COARSE_CELL_DEGREES) = 46405 / 32" by simp
  show "cell_index (3521 / 64) (- 90) = 1450"
    unfolding cell_index_def js_sub_def diff a b by (simp add: floor_eq_iff)
qed

lemma market_alike: "public_state hidden_db = public_state market_db"
  by (simp add: public_state_def hidden_db_def market_db_def hidden_item_def sample_data item_facts_def
      conceal_item_def location_cell_def sample_cells user_facts_def summarize_owner_def)

theorem public_answers_private_witness:
  "list_public sample_env empty_query hidden_db = list_public sample_env empty_query market_db
    \<and> db_items hidden_db \<noteq> db_items market_db"
  using public_answers_private [OF market_alike]
  by (simp add: hidden_db_def market_db_def hidden_item_def sample_data)

definition near_query :: list_items_query where
  "near_query = empty_query\<lparr>lq_search := Some ''drill'', lq_latitude := Some 55, lq_longitude := Some 37,
     lq_sort := Some DISTANCE\<rparr>"

lemma near_query_filters:
  "ensure_price_range near_query = Inr ()" "get_availability_filter near_query = Inr None"
  "get_geo_filter near_query = Inr (Some \<lparr>geo_latitude = 55, geo_longitude = 37, geo_radiusMeters = 50000\<rparr>)"
  "get_limit (lq_limit near_query) = Inr 20" "get_offset (lq_offset near_query) = Inr 0"
  using fl_of_int [of 50000]
  by (simp_all add: near_query_def empty_query_def ensure_price_range_def get_availability_filter_def
      get_geo_filter_def get_limit_def get_offset_def MAX_RADIUS_KM_def js_mul_def DEFAULT_LIMIT_def MAX_LIMIT_def
      Let_def is_integer_def)

theorem search_by_distance_exact_witness:
  "\<exists>xs. list_public sample_env near_query market_db = Inr xs
     \<and> xs = map (\<lambda>t. to_public_item market_db (Some (public_distance sample_env
           \<lparr>geo_latitude = 55, geo_longitude = 37, geo_radiusMeters = 50000\<rparr> t)) t)
        (take 20 (drop 0 (sort_items_raw (Some DISTANCE) (public_distance sample_env
           \<lparr>geo_latitude = 55, geo_longitude = 37, geo_radiusMeters = 50000\<rparr>)
          (filter (\<lambda>t. public_where sample_env market_db near_query None t \<and> public_within sample_env
             \<lparr>geo_latitude = 55, geo_longitude = 37, geo_radiusMeters = 50000\<rparr> t) (db_items market_db)))))"
proof -
  have "distinct (map it_id (db_items market_db))" by (simp add: market_db_def sample_data)
  from search_by_distance_exact [OF this sample_contains_law near_query_filters] show ?thesis
    by (simp add: near_query_def)
qed

definition drill_dto :: create_item_dto where
  "drill_dto =
     \<lparr>ci_categoryId = ''tools'', ci_title = ''Saw'', ci_description = ''A good saw'', ci_condition = Cond_GOOD,
      ci_completeness = ''full'', ci_handoverTerms = ''by hand'', ci_pricePerDay = 300, ci_depositAmount = Absent,
      ci_depositAmountMinor = Absent, ci_publicArea = ''Center'', ci_address = ''Street 3'', ci_latitude = 55,
      ci_longitude = 37\<rparr>"

lemma sample_listing:
  "\<exists>db' r. create_item pay_on_handover_policy ci_title ''L'' drill_dto ''req'' 5 market_db = Inr (db', r)
     \<and> length (db_items db') = 2 \<and> db_bookings db' = []"
  by (simp add: create_item_def drill_dto_def resolve_deposit_amount_def is_undefined_def Let_def
      is_safe_integer_def is_integer_def MAX_DEPOSIT_MINOR_def max_safe_def assert_deposit_allowed_def
      pay_on_handover_policy_def ensure_active_category_def market_db_def sample_category_def
      is_listing_category_def insert_item_def new_item_def sample_data sample_details_def item_checks_def)

theorem owners_publish_nothing_witness:
  "\<exists>db' :: db. length (db_items db') = 2
     \<and> (\<forall>t \<in> set (db_items db'). it_status t = It_APPROVED \<longrightarrow> t \<in> set (db_items market_db))"
proof -
  obtain db' r where c: "create_item pay_on_handover_policy ci_title ''L'' drill_dto ''req'' 5 market_db = Inr (db', r)"
    "length (db_items db') = 2"
    using sample_listing by blast
  have "(owner_step pay_on_handover_policy ci_title)\<^sup>*\<^sup>* market_db db'"
    by (rule r_into_rtranclp) (rule owner_step.create [OF c(1)])
  from owners_publish_nothing [OF this] c(2) show ?thesis by (intro exI [of _ db'] conjI) simp_all
qed

theorem public_location_coarse_witness:
  "\<bar>pub_latitude (to_public_item market_db None sample_item) - 55\<bar> \<le> 501/10000"
proof -
  have "item_checks sample_item" by (simp add: item_checks_def sample_data)
  moreover have "it_latitude sample_item = 55" by (simp add: sample_item_def)
  ultimately show ?thesis using public_location_coarse [of sample_item market_db None] by metis
qed

end
