(* ===== verification/Moderation.thy ===== *)
theory Moderation
  imports Items Deposit_Service
begin

text \<open>
  Moderation (\<open>admin/admin.service.ts\<close>): the operators' lists of users and of waiting listings, the
  block of a user, and the approval or rejection of a listing. Each decision writes the audit log,
  and a decision on a listing sends its owner an event.
\<close>

definition ADMIN_LIST_LIMIT :: nat where
  "ADMIN_LIST_LIMIT = 100"

record admin_user =
  au_id :: string
  au_phone :: string
  au_name :: "string option"
  au_city :: "string option"
  au_avatarUrl :: "string option"
  au_role :: user_role
  au_kycStatus :: "kyc_status option"
  au_isBlocked :: bool
  au_deletedAt :: "timestamp option"
  au_createdAt :: timestamp
  au_updatedAt :: timestamp

definition to_admin_user :: "user_row \<Rightarrow> admin_user" where
  "to_admin_user u =
     \<lparr>au_id = us_id u, au_phone = us_phone u, au_name = us_name u, au_city = us_city u,
      au_avatarUrl = us_avatarUrl u, au_role = us_role u, au_kycStatus = us_kycStatus u,
      au_isBlocked = us_isBlocked u, au_deletedAt = us_deletedAt u, au_createdAt = us_createdAt u,
      au_updatedAt = us_updatedAt u\<rparr>"

record admin_category =
  ac_id :: string
  ac_name :: string
  ac_slug :: string
  ac_iconName :: "string option"

record admin_owner =
  ao_id :: string
  ao_name :: "string option"
  ao_isBlocked :: bool
  ao_deletedAt :: "timestamp option"

record admin_item =
  ai_id :: string
  ai_title :: string
  ai_description :: string
  ai_condition :: item_condition
  ai_completeness :: string
  ai_handoverTerms :: string
  ai_pricePerDay :: rat
  ai_depositAmount :: "rat option"
  ai_status :: item_status
  ai_rejectReason :: "string option"
  ai_publicArea :: string
  ai_category :: "admin_category option"
  ai_owner :: "admin_owner option"
  ai_photos :: "private_photo list"
  ai_createdAt :: timestamp
  ai_updatedAt :: timestamp

definition to_admin_item :: "db \<Rightarrow> item_row \<Rightarrow> admin_item" where
  "to_admin_item db item =
     (let d = it_details item
      in \<lparr>ai_id = it_id item, ai_title = it_title item, ai_description = ld_description d,
          ai_condition = ld_condition d, ai_completeness = ld_completeness d,
          ai_handoverTerms = ld_handoverTerms d, ai_pricePerDay = to_number (it_pricePerDay item),
          ai_depositAmount = map_option to_number (it_depositAmount item), ai_status = it_status item,
          ai_rejectReason = ld_rejectReason d, ai_publicArea = it_publicArea item,
          ai_category = map_option (\<lambda>c. \<lparr>ac_id = cat_id c, ac_name = cat_name c, ac_slug = cat_slug c,
            ac_iconName = cat_iconName c\<rparr>) (find_category db (ld_categoryId d)),
          ai_owner = map_option (\<lambda>u. \<lparr>ao_id = us_id u, ao_name = us_name u, ao_isBlocked = us_isBlocked u,
            ao_deletedAt = us_deletedAt u\<rparr>) (find_user db (it_ownerId item)),
          ai_photos = map show_private_photo (photos_of db (it_id item)),
          ai_createdAt = ld_createdAt d, ai_updatedAt = it_updatedAt item\<rparr>)"

section \<open>Lists\<close>

definition list_users :: "db \<Rightarrow> admin_user list" where
  "list_users db = map to_admin_user (take ADMIN_LIST_LIMIT (sort_key (\<lambda>u. - us_createdAt u) (db_users db)))"

definition get_user :: "string \<Rightarrow> db \<Rightarrow> admin_user result" where
  "get_user i db =
     (case find_user db i of None \<Rightarrow> Inl (Not_found ''user'') | Some u \<Rightarrow> Inr (to_admin_user u))"

definition list_pending_items :: "db \<Rightarrow> admin_item list" where
  "list_pending_items db =
     map (to_admin_item db) (take ADMIN_LIST_LIMIT (sort_key (\<lambda>t. ld_createdAt (it_details t))
       (filter (\<lambda>t. it_status t = It_PENDING) (db_items db))))"

section \<open>Blocking a user\<close>

definition has_unfinished_booking :: "db \<Rightarrow> string \<Rightarrow> bool" where
  "has_unfinished_booking db userId \<longleftrightarrow>
     exists_row (\<lambda>b. is_participant userId b \<and> blocks_listing_mutation b) (db_bookings db)"

definition is_blockable :: "string \<Rightarrow> user_row \<Rightarrow> bool" where
  "is_blockable userId u \<longleftrightarrow> us_id u = userId \<and> \<not> us_isBlocked u \<and> us_deletedAt u = None"

text \<open>A block also ends every session of the user, whose version goes up.\<close>

definition blocked_user :: "timestamp \<Rightarrow> user_row \<Rightarrow> user_row" where
  "blocked_user now u =
     u\<lparr>us_isBlocked := True, us_sessionVersion := us_sessionVersion u + 1, us_updatedAt := now\<rparr>"

definition set_blocked :: "string \<Rightarrow> timestamp \<Rightarrow> db \<Rightarrow> db" where
  "set_blocked userId now db = db\<lparr>db_users := update_rows (is_blockable userId) (blocked_user now) (db_users db)\<rparr>"

definition admin_block_user ::
    "string \<Rightarrow> string \<Rightarrow> string \<Rightarrow> timestamp \<Rightarrow> db \<Rightarrow> (db \<times> admin_user) result" where
  "admin_block_user adminId userId reason now db =
     (if adminId = userId then Inl (Conflict ''self-block'')
      else if has_unfinished_booking db userId then Inl (Conflict ''USER_HAS_UNFINISHED_BOOKINGS'')
      else
        let count = count_rows (is_blockable userId) (db_users db); db1 = set_blocked userId now db
        in case find_user db1 userId of
             None \<Rightarrow> Inl (Not_found ''user'')
           | Some u \<Rightarrow>
               if us_deletedAt u \<noteq> None then Inl (Not_found ''user'')
               else if count \<noteq> 1 then Inl (Conflict ''already-blocked'')
               else Inr (write_audit (Some adminId) ''USER_BLOCKED'' ''User'' (Some userId) (Some reason) db1,
                         to_admin_user u))"

section \<open>Decisions on a listing\<close>

datatype moderation_action = ITEM_APPROVED | ITEM_REJECTED

fun moderation_name :: "moderation_action \<Rightarrow> string" where
  "moderation_name ITEM_APPROVED = ''ITEM_APPROVED''"
| "moderation_name ITEM_REJECTED = ''ITEM_REJECTED''"

definition find_moderatable_item :: "db \<Rightarrow> string \<Rightarrow> item_row result" where
  "find_moderatable_item db itemId =
     (case find_item db itemId of
        None \<Rightarrow> Inl (Not_found ''item'')
      | Some t \<Rightarrow> if it_status t \<noteq> It_PENDING then Inl (Conflict ''not-pending'') else Inr t)"

definition moderation_key :: "item_row \<Rightarrow> moderation_action \<Rightarrow> string" where
  "moderation_key t action =
     ''item:'' @ it_id t @ '':'' @ moderation_name action @ '':'' @ iso_timestamp (it_updatedAt t)"

definition enqueue_item_moderation :: "item_row \<Rightarrow> moderation_action \<Rightarrow> db \<Rightarrow> db result" where
  "enqueue_item_moderation t action db =
     insert_outbox \<lparr>out_id = fresh_id db, out_bookingId = None, out_supportTicketId = None,
       out_recipientId = Some (it_ownerId t), out_itemId = Some (it_id t), out_eventType = moderation_name action,
       out_deduplicationKey = moderation_key t action, out_createdAt = db_now db, out_processedAt = None\<rparr> db"

definition decided_item :: "item_status \<Rightarrow> string option \<Rightarrow> timestamp \<Rightarrow> item_row \<Rightarrow> item_row" where
  "decided_item status reason now t =
     t\<lparr>it_status := status, it_updatedAt := now, it_details := (it_details t)\<lparr>ld_rejectReason := reason\<rparr>\<rparr>"

text \<open>The common body of \<open>approveItem\<close> and \<open>rejectItem\<close>.\<close>

definition moderate_item ::
    "moderation_action \<Rightarrow> string \<Rightarrow> string \<Rightarrow> string option \<Rightarrow> timestamp \<Rightarrow> db \<Rightarrow> (db \<times> admin_item) result" where
  "moderate_item action adminId itemId reason now db =
     bind_result (find_moderatable_item db itemId) (\<lambda>t.
     let f = decided_item (case action of ITEM_APPROVED \<Rightarrow> It_APPROVED | ITEM_REJECTED \<Rightarrow> It_REJECTED) reason now
     in if \<not> item_checks (f t) then Inl (Check_violation ''items'')
        else
          let db1 = db\<lparr>db_items := update_rows (\<lambda>s. it_id s = itemId) f (db_items db)\<rparr>;
              db2 = write_audit (Some adminId) (moderation_name action) ''Item'' (Some itemId) reason db1
          in bind_result (enqueue_item_moderation (f t) action db2) (\<lambda>db3. Inr (db3, to_admin_item db3 (f t))))"

definition approve_item :: "string \<Rightarrow> string \<Rightarrow> timestamp \<Rightarrow> db \<Rightarrow> (db \<times> admin_item) result" where
  "approve_item adminId itemId now db = moderate_item ITEM_APPROVED adminId itemId None now db"

definition reject_item :: "string \<Rightarrow> string \<Rightarrow> string \<Rightarrow> timestamp \<Rightarrow> db \<Rightarrow> (db \<times> admin_item) result" where
  "reject_item adminId itemId reason now db = moderate_item ITEM_REJECTED adminId itemId (Some reason) now db"

end
