(* ===== verification/Reports.thy ===== *)
theory Reports
  imports Moderation Redis
begin

text \<open>
  Reports of users (\<open>reports/reports.service.ts\<close>): a user reports a listing, another user, one of
  his bookings, a message of it or a review; an operator dismisses the report or acts on it, by
  hiding the listing or the review or by blocking the user. Creating a report also counts in
  the key-value store, outside the transaction; the command returns both stores.
\<close>

definition REPORT_RATE_LIMIT :: nat where
  "REPORT_RATE_LIMIT = 5"

definition REPORT_RATE_WINDOW_SECONDS :: int where
  "REPORT_RATE_WINDOW_SECONDS = 3600"

definition DUPLICATE_WINDOW_MS :: int where
  "DUPLICATE_WINDOW_MS = 86400000"

fun reasons_by_target :: "report_target \<Rightarrow> report_reason list" where
  "reasons_by_target Tgt_ITEM =
     [PROHIBITED_CATEGORY, MISLEADING_LISTING, UNSAFE_ITEM, SUSPECTED_FRAUD, Reason_OTHER]"
| "reasons_by_target Tgt_USER =
     [HARASSMENT, IMPERSONATION, PRIVACY_VIOLATION, SUSPECTED_FRAUD, Reason_OTHER]"
| "reasons_by_target Tgt_BOOKING =
     [NO_SHOW, UNSAFE_HANDOVER, ITEM_NOT_AS_DESCRIBED, HARASSMENT, SUSPECTED_FRAUD, Reason_OTHER]"
| "reasons_by_target Tgt_MESSAGE = [HARASSMENT, PRIVACY_VIOLATION, SUSPECTED_FRAUD, Reason_OTHER]"
| "reasons_by_target Tgt_REVIEW = [HARASSMENT, PRIVACY_VIOLATION, SUSPECTED_FRAUD, Reason_OTHER]"

record create_report_dto =
  cr_targetType :: report_target
  cr_targetId :: string
  cr_reason :: report_reason
  cr_description :: string

datatype report_decision = DISMISS | HIDE_LISTING | HIDE_REVIEW | BLOCK_USER

fun decision_name :: "report_decision \<Rightarrow> string" where
  "decision_name DISMISS = ''DISMISS''"
| "decision_name HIDE_LISTING = ''HIDE_LISTING''"
| "decision_name HIDE_REVIEW = ''HIDE_REVIEW''"
| "decision_name BLOCK_USER = ''BLOCK_USER''"

section \<open>Creating a report\<close>

definition validate_reason :: "create_report_dto \<Rightarrow> unit result" where
  "validate_reason dto =
     (if cr_reason dto \<notin> set (reasons_by_target (cr_targetType dto)) then Inl (Bad_request ''reason-for-target'')
      else if cr_reason dto = Reason_OTHER \<and> length (js_trim (cr_description dto)) < 50
      then Inl (Bad_request ''other-needs-description'')
      else Inr ())"

text \<open>
  What a user may report: not his own listing or account, his own bookings, messages of others in
  them (system messages have no author, which SQL does not count as another one), and published
  reviews that are not his.
\<close>

definition can_report :: "db \<Rightarrow> string \<Rightarrow> timestamp \<Rightarrow> report_target \<Rightarrow> string \<Rightarrow> bool" where
  "can_report db reporterId now targetType targetId =
     (case targetType of
        Tgt_ITEM \<Rightarrow> exists_row (\<lambda>t. it_id t = targetId \<and> it_ownerId t \<noteq> reporterId) (db_items db)
      | Tgt_USER \<Rightarrow> exists_row (\<lambda>u. us_id u = targetId \<and> us_id u \<noteq> reporterId \<and> us_deletedAt u = None) (db_users db)
      | Tgt_BOOKING \<Rightarrow> exists_row (\<lambda>b. bk_id b = targetId \<and> is_participant reporterId b) (db_bookings db)
      | Tgt_MESSAGE \<Rightarrow>
          exists_row (\<lambda>m. msg_id m = targetId \<and> msg_authorId m \<noteq> None \<and> msg_authorId m \<noteq> Some reporterId
            \<and> (case find_booking db (msg_bookingId m) of None \<Rightarrow> False | Some b \<Rightarrow> is_participant reporterId b))
            (db_messages db)
      | Tgt_REVIEW \<Rightarrow>
          exists_row (\<lambda>r. rev_id r = targetId \<and> rev_publishAt r \<le> now \<and> rev_hiddenAt r = None
            \<and> rev_authorId r \<noteq> Some reporterId) (db_reviews db))"

definition ensure_target_access :: "db \<Rightarrow> string \<Rightarrow> timestamp \<Rightarrow> create_report_dto \<Rightarrow> unit result" where
  "ensure_target_access db reporterId now dto =
     (if can_report db reporterId now (cr_targetType dto) (cr_targetId dto) then Inr ()
      else Inl (Not_found ''report-target''))"

definition report_rate_key :: "string \<Rightarrow> string" where
  "report_rate_key reporterId = ''report:rate:'' @ reporterId"

definition consume_report_limit :: "string \<Rightarrow> timestamp \<Rightarrow> redis \<Rightarrow> redis \<times> unit result" where
  "consume_report_limit reporterId now r =
     (case redis_incr now (report_rate_key reporterId) REPORT_RATE_WINDOW_SECONDS r of
        (r', count) \<Rightarrow> (r', if REPORT_RATE_LIMIT < count then Inl (Too_many_requests ''reports'') else Inr ()))"

definition db_reports :: "db \<Rightarrow> report_row list" where
  "db_reports db = dk_reports (db_desk db)"

definition set_reports :: "report_row list \<Rightarrow> db \<Rightarrow> db" where
  "set_reports rs db = db\<lparr>db_desk := (db_desk db)\<lparr>dk_reports := rs\<rparr>\<rparr>"

definition is_duplicate_report :: "string \<Rightarrow> timestamp \<Rightarrow> create_report_dto \<Rightarrow> report_row \<Rightarrow> bool" where
  "is_duplicate_report reporterId now dto r \<longleftrightarrow>
     rp_reporterId r = reporterId \<and> rp_targetType r = cr_targetType dto \<and> rp_targetId r = cr_targetId dto
     \<and> rp_reason r = cr_reason dto \<and> now - DUPLICATE_WINDOW_MS \<le> rp_createdAt r"

definition new_report :: "db \<Rightarrow> string \<Rightarrow> create_report_dto \<Rightarrow> timestamp \<Rightarrow> report_row" where
  "new_report db reporterId dto now =
     \<lparr>rp_id = fresh_id db, rp_reporterId = reporterId, rp_targetType = cr_targetType dto,
      rp_targetId = cr_targetId dto, rp_reason = cr_reason dto, rp_description = js_trim (cr_description dto),
      rp_status = Rep_OPEN, rp_reviewedById = None, rp_reviewedAt = None, rp_decision = None,
      rp_createdAt = db_now db, rp_updatedAt = now\<rparr>"

text \<open>The columns of the answer, \<open>REPORT_SELECT\<close>.\<close>

record report_response =
  rr_id :: string
  rr_targetType :: report_target
  rr_targetId :: string
  rr_reason :: report_reason
  rr_description :: string
  rr_status :: report_status
  rr_createdAt :: timestamp

definition to_report_response :: "report_row \<Rightarrow> report_response" where
  "to_report_response r =
     \<lparr>rr_id = rp_id r, rr_targetType = rp_targetType r, rr_targetId = rp_targetId r, rr_reason = rp_reason r,
      rr_description = rp_description r, rr_status = rp_status r, rr_createdAt = rp_createdAt r\<rparr>"

definition insert_report :: "string \<Rightarrow> create_report_dto \<Rightarrow> timestamp \<Rightarrow> db \<Rightarrow> (db \<times> report_row) result" where
  "insert_report reporterId dto now db =
     (if exists_row (is_duplicate_report reporterId now dto) (db_reports db) then Inl (Conflict ''duplicate-report'')
      else
        let r = new_report db reporterId dto now
        in Inr (set_reports (db_reports db @ [r]) (db\<lparr>db_next := Suc (db_next db)\<rparr>), r))"

definition create_report ::
    "string \<Rightarrow> create_report_dto \<Rightarrow> timestamp \<Rightarrow> redis \<times> db \<Rightarrow> (redis \<times> db) \<times> report_response result" where
  "create_report reporterId dto now w =
     (case w of (r, db) \<Rightarrow>
        case bind_result (validate_reason dto) (\<lambda>_. ensure_target_access db reporterId now dto) of
          Inl e \<Rightarrow> (w, Inl e)
        | Inr _ \<Rightarrow>
            (case consume_report_limit reporterId now r of
               (r', Inl e) \<Rightarrow> ((r', db), Inl e)
             | (r', Inr _) \<Rightarrow>
                 (case insert_report reporterId dto now db of
                    Inl e \<Rightarrow> ((r', db), Inl e)
                  | Inr (db', row) \<Rightarrow> ((r', db'), Inr (to_report_response row)))))"

section \<open>What an operator sees\<close>

fun item_status_name :: "item_status \<Rightarrow> string" where
  "item_status_name It_PENDING = ''PENDING''"
| "item_status_name It_APPROVED = ''APPROVED''"
| "item_status_name It_REJECTED = ''REJECTED''"
| "item_status_name It_HIDDEN = ''HIDDEN''"

fun booking_status_name :: "booking_status \<Rightarrow> string" where
  "booking_status_name Bk_PENDING = ''PENDING''"
| "booking_status_name Bk_CONFIRMED = ''CONFIRMED''"
| "booking_status_name Bk_ACTIVE = ''ACTIVE''"
| "booking_status_name Bk_RETURNED = ''RETURNED''"
| "booking_status_name Bk_COMPLETED = ''COMPLETED''"
| "booking_status_name Bk_CANCELLED = ''CANCELLED''"

fun message_role_name :: "message_role \<Rightarrow> string" where
  "message_role_name Msg_BORROWER = ''BORROWER''"
| "message_role_name Msg_LENDER = ''LENDER''"
| "message_role_name Msg_SYSTEM = ''SYSTEM''"

fun actor_role_name :: "actor_role \<Rightarrow> string" where
  "actor_role_name BORROWER = ''BORROWER''"
| "actor_role_name LENDER = ''LENDER''"

text \<open>\<open>rating.toString()\<close>; a rating is a digit from 1 to 5.\<close>

definition rating_text :: "int \<Rightarrow> string" where
  "rating_text n = [digit_char n]"

definition unavailable_target :: "string \<Rightarrow> (string \<times> json) list" where
  "unavailable_target targetId = [(''id'', JStr targetId), (''unavailable'', JBool True)]"

definition load_target_context ::
    "timestamp \<Rightarrow> db \<Rightarrow> report_target \<Rightarrow> string \<Rightarrow> (string \<times> json) list" where
  "load_target_context now db targetType targetId =
     (case targetType of
        Tgt_ITEM \<Rightarrow>
          (case find_item db targetId of
             None \<Rightarrow> unavailable_target targetId
           | Some t \<Rightarrow>
               [(''id'', JStr (it_id t)), (''title'', JStr (it_title t)),
                (''status'', JStr (item_status_name (it_status t))), (''ownerId'', JStr (it_ownerId t)),
                (''ownerName'', case find_user db (it_ownerId t) of None \<Rightarrow> JNull | Some u \<Rightarrow> json_of_str (us_name u))])
      | Tgt_USER \<Rightarrow>
          (case find_user db targetId of
             None \<Rightarrow> unavailable_target targetId
           | Some u \<Rightarrow>
               [(''id'', JStr (us_id u)), (''name'', json_of_str (us_name u)), (''isBlocked'', JBool (us_isBlocked u))])
      | Tgt_MESSAGE \<Rightarrow>
          (case List.find (\<lambda>m. msg_id m = targetId) (db_messages db) of
             None \<Rightarrow> unavailable_target targetId
           | Some m \<Rightarrow>
               [(''id'', JStr (msg_id m)), (''bookingId'', JStr (msg_bookingId m)),
                (''authorRole'', JStr (message_role_name (msg_authorRole m))),
                (''createdAt'', JStr (iso_timestamp (msg_createdAt m)))])
      | Tgt_REVIEW \<Rightarrow>
          (case List.find (\<lambda>r. rev_id r = targetId) (db_reviews db) of
             None \<Rightarrow> unavailable_target targetId
           | Some r \<Rightarrow>
               [(''id'', JStr (rev_id r)), (''authorRole'', JStr (actor_role_name (rev_authorRole r))),
                (''rating'', JStr (rating_text (rev_rating r))), (''published'', JBool (rev_publishAt r \<le> now)),
                (''hidden'', JBool (rev_hiddenAt r \<noteq> None))])
      | Tgt_BOOKING \<Rightarrow>
          (case find_booking db targetId of
             None \<Rightarrow> unavailable_target targetId
           | Some b \<Rightarrow>
               [(''id'', JStr (bk_id b)), (''status'', JStr (booking_status_name (bk_status b))),
                (''itemTitle'', case find_item db (bk_itemId b) of None \<Rightarrow> JNull | Some t \<Rightarrow> JStr (it_title t))]))"

record admin_report = report_response +
  ar_decision :: "string option"
  ar_updatedAt :: timestamp
  ar_reporterId :: string
  ar_reporterName :: "string option"
  ar_target :: "(string \<times> json) list"

definition to_admin_report :: "timestamp \<Rightarrow> db \<Rightarrow> report_row \<Rightarrow> admin_report" where
  "to_admin_report now db r =
     \<lparr>rr_id = rp_id r, rr_targetType = rp_targetType r, rr_targetId = rp_targetId r, rr_reason = rp_reason r,
      rr_description = rp_description r, rr_status = rp_status r, rr_createdAt = rp_createdAt r,
      ar_decision = rp_decision r, ar_updatedAt = rp_updatedAt r, ar_reporterId = rp_reporterId r,
      ar_reporterName = Option.bind (find_user db (rp_reporterId r)) us_name,
      ar_target = load_target_context now db (rp_targetType r) (rp_targetId r)\<rparr>"

definition report_key :: "report_row \<Rightarrow> timestamp \<times> string" where
  "report_key r = (rp_createdAt r, rp_id r)"

definition list_open_reports :: "timestamp \<Rightarrow> db \<Rightarrow> admin_report list" where
  "list_open_reports now db =
     map (to_admin_report now db) (oldest_first report_key (filter (\<lambda>r. rp_status r = Rep_OPEN) (db_reports db)))"

definition find_report :: "db \<Rightarrow> string \<Rightarrow> report_row option" where
  "find_report db i = List.find (\<lambda>r. rp_id r = i) (db_reports db)"

text \<open>The reported text itself is shown only with a row in the audit log, and without its author.\<close>

record reported_message =
  rm_id :: string
  rm_bookingId :: string
  rm_authorRole :: message_role
  rm_body :: string
  rm_createdAt :: timestamp

record reported_review =
  rv_id :: string
  rv_authorRole :: actor_role
  rv_rating :: int
  rv_text :: "string option"
  rv_publishedAt :: timestamp
  rv_createdAt :: timestamp

definition get_reported_message :: "string \<Rightarrow> string \<Rightarrow> db \<Rightarrow> (db \<times> reported_message) result" where
  "get_reported_message adminId reportId db =
     (case List.find (\<lambda>r. rp_id r = reportId \<and> rp_targetType r = Tgt_MESSAGE) (db_reports db) of
        None \<Rightarrow> Inl (Not_found ''report'')
      | Some r \<Rightarrow>
          (case List.find (\<lambda>m. msg_id m = rp_targetId r) (db_messages db) of
             None \<Rightarrow> Inl (Not_found ''message'')
           | Some m \<Rightarrow>
               Inr (write_audit (Some adminId) ''REPORTED_BOOKING_MESSAGE_ACCESSED'' ''BookingMessage''
                      (Some (msg_id m)) None db,
                    \<lparr>rm_id = msg_id m, rm_bookingId = msg_bookingId m, rm_authorRole = msg_authorRole m,
                     rm_body = msg_body m, rm_createdAt = msg_createdAt m\<rparr>)))"

definition get_reported_review :: "string \<Rightarrow> string \<Rightarrow> db \<Rightarrow> (db \<times> reported_review) result" where
  "get_reported_review adminId reportId db =
     (case List.find (\<lambda>r. rp_id r = reportId \<and> rp_targetType r = Tgt_REVIEW) (db_reports db) of
        None \<Rightarrow> Inl (Not_found ''report'')
      | Some r \<Rightarrow>
          (case List.find (\<lambda>v. rev_id v = rp_targetId r) (db_reviews db) of
             None \<Rightarrow> Inl (Not_found ''review'')
           | Some v \<Rightarrow>
               Inr (write_audit (Some adminId) ''REPORTED_REVIEW_ACCESSED'' ''Review'' (Some (rev_id v)) None db,
                    \<lparr>rv_id = rev_id v, rv_authorRole = rev_authorRole v, rv_rating = rev_rating v, rv_text = rev_text v,
                     rv_publishedAt = rev_publishAt v, rv_createdAt = rev_createdAt v\<rparr>)))"

section \<open>Deciding a report\<close>

definition hide_listing :: "string \<Rightarrow> timestamp \<Rightarrow> db \<Rightarrow> db result" where
  "hide_listing itemId now db =
     (if count_rows (\<lambda>t. it_id t = itemId) (db_items db) \<noteq> 1 then Inl (Not_found ''item'')
      else Inr (db\<lparr>db_items := update_rows (\<lambda>t. it_id t = itemId)
             (\<lambda>t. t\<lparr>it_status := It_HIDDEN, it_updatedAt := now\<rparr>) (db_items db)\<rparr>))"

definition is_shown_review :: "string \<Rightarrow> timestamp \<Rightarrow> review_row \<Rightarrow> bool" where
  "is_shown_review i now r \<longleftrightarrow> rev_id r = i \<and> rev_hiddenAt r = None \<and> rev_publishAt r \<le> now"

definition hide_review :: "string \<Rightarrow> string \<Rightarrow> string \<Rightarrow> timestamp \<Rightarrow> db \<Rightarrow> db result" where
  "hide_review reviewId adminId reason now db =
     (if count_rows (is_shown_review reviewId now) (db_reviews db) \<noteq> 1 then Inl (Not_found ''review'')
      else Inr (db\<lparr>db_reviews := update_rows (is_shown_review reviewId now)
             (\<lambda>r. r\<lparr>rev_hiddenAt := Some now, rev_hiddenById := Some adminId, rev_hiddenReason := Some (js_trim reason)\<rparr>)
             (db_reviews db)\<rparr>))"

definition target_user :: "report_row \<Rightarrow> db \<Rightarrow> string result" where
  "target_user report db =
     (case rp_targetType report of
        Tgt_USER \<Rightarrow> Inr (rp_targetId report)
      | Tgt_MESSAGE \<Rightarrow>
          (case List.find (\<lambda>m. msg_id m = rp_targetId report) (db_messages db) of
             None \<Rightarrow> Inl (Not_found ''message-author'')
           | Some m \<Rightarrow> (case msg_authorId m of None \<Rightarrow> Inl (Not_found ''message-author'') | Some a \<Rightarrow> Inr a))
      | _ \<Rightarrow> Inl (Bad_request ''block-needs-user''))"

definition apply_decision ::
    "report_row \<Rightarrow> report_decision \<Rightarrow> string \<Rightarrow> string \<Rightarrow> timestamp \<Rightarrow> db \<Rightarrow> db result" where
  "apply_decision report decision reason adminId now db =
     (case decision of
        DISMISS \<Rightarrow> Inr db
      | HIDE_LISTING \<Rightarrow>
          if rp_targetType report \<noteq> Tgt_ITEM then Inl (Bad_request ''hide-listing-needs-item'')
          else hide_listing (rp_targetId report) now db
      | HIDE_REVIEW \<Rightarrow>
          if rp_targetType report \<noteq> Tgt_REVIEW then Inl (Bad_request ''hide-review-needs-review'')
          else hide_review (rp_targetId report) adminId reason now db
      | BLOCK_USER \<Rightarrow>
          bind_result (target_user report db) (\<lambda>userId.
          if has_unfinished_booking db userId then Inl (Conflict ''unfinished-bookings'')
          else if count_rows (is_blockable userId) (db_users db) \<noteq> 1 then Inl (Conflict ''user-unavailable'')
          else Inr (set_blocked userId now db)))"

definition report_event ::
    "string option \<Rightarrow> string option \<Rightarrow> string option \<Rightarrow> string \<Rightarrow> string \<Rightarrow> db \<Rightarrow> db result" where
  "report_event recipientId itemId bookingId eventType key db =
     insert_outbox \<lparr>out_id = fresh_id db, out_bookingId = bookingId, out_supportTicketId = None,
       out_recipientId = recipientId, out_itemId = itemId, out_eventType = eventType,
       out_deduplicationKey = key, out_createdAt = db_now db, out_processedAt = None\<rparr> db"

text \<open>The event for the owner of the listing or the author of the review.\<close>

definition notify_decision :: "report_row \<Rightarrow> report_decision \<Rightarrow> db \<Rightarrow> db result" where
  "notify_decision report decision db =
     (case decision of
        HIDE_LISTING \<Rightarrow>
          (case find_item db (rp_targetId report) of
             None \<Rightarrow> Inl (Not_found ''P2025'')
           | Some t \<Rightarrow> report_event (Some (it_ownerId t)) (Some (it_id t)) None ''ITEM_HIDDEN_BY_REPORT_REVIEW''
               (''report:'' @ rp_id report @ '':item-hidden'') db)
      | HIDE_REVIEW \<Rightarrow>
          (case List.find (\<lambda>v. rev_id v = rp_targetId report) (db_reviews db) of
             None \<Rightarrow> Inl (Not_found ''P2025'')
           | Some v \<Rightarrow>
               (case rev_authorId v of
                  None \<Rightarrow> Inr db
                | Some a \<Rightarrow> report_event (Some a) None (Some (rev_bookingId v)) ''REVIEW_HIDDEN_BY_REPORT_REVIEW''
                    (''report:'' @ rp_id report @ '':review-hidden'') db))
      | _ \<Rightarrow> Inr db)"

definition decided_status :: "report_decision \<Rightarrow> report_status" where
  "decided_status decision = (if decision = DISMISS then Rep_DISMISSED else Rep_ACTIONED)"

definition decided_report :: "report_decision \<Rightarrow> string \<Rightarrow> timestamp \<Rightarrow> report_row \<Rightarrow> report_row" where
  "decided_report decision adminId now r =
     r\<lparr>rp_status := decided_status decision, rp_decision := Some (decision_name decision),
       rp_reviewedById := Some adminId, rp_reviewedAt := Some now, rp_updatedAt := now\<rparr>"

definition decide_report ::
    "string \<Rightarrow> string \<Rightarrow> report_decision \<Rightarrow> string \<Rightarrow> timestamp \<Rightarrow> db \<Rightarrow> (db \<times> admin_report) result" where
  "decide_report adminId reportId decision reason now db =
     (case find_report db reportId of
        None \<Rightarrow> Inl (Not_found ''report'')
      | Some current \<Rightarrow>
          if rp_status current \<noteq> Rep_OPEN then Inl (Conflict ''report-decided'')
          else
            bind_result (apply_decision current decision reason adminId now db) (\<lambda>db1.
            let db2 = set_reports (update_rows (\<lambda>r. rp_id r = reportId) (decided_report decision adminId now)
                        (db_reports db1)) db1;
                db3 = write_audit (Some adminId) ''REPORT_DECIDED'' ''UserReport'' (Some reportId)
                        (Some (js_trim reason)) db2
            in bind_result (notify_decision current decision db3) (\<lambda>db4.
               Inr (db4, to_admin_report now db4 (decided_report decision adminId now current)))))"

end
