(* ===== verification/Categories.thy ===== *)
theory Categories
  imports Items Deposit_Service
begin

text \<open>
  The categories of listings (\<open>categories/categories.service.ts\<close>): the public list, and the
  commands of the operators, each with a row of the audit log. A new category is restricted; the
  commands here can rename, reorder and disable it, never open it for listings.
\<close>

record create_category_dto =
  cc_name :: string
  cc_slug :: string
  cc_iconName :: "string option"
  cc_sortOrder :: "int option"
  cc_isActive :: "bool option"

record update_category_dto =
  uc_name :: "string field"
  uc_slug :: "string field"
  uc_iconName :: "string field"
  uc_sortOrder :: "int field"

text \<open>\<open>orderBy: [{ sortOrder: 'asc' }, { name: 'asc' }]\<close>. The response is the row.\<close>

definition list_active_categories :: "db \<Rightarrow> category_row list" where
  "list_active_categories db =
     sort_key (\<lambda>c. (cat_sortOrder c, cat_name c)) (filter is_listing_category (ct_categories (db_catalog db)))"

definition get_category_by_slug :: "string \<Rightarrow> db \<Rightarrow> category_row result" where
  "get_category_by_slug slug db =
     (case List.find (\<lambda>c. cat_slug c = slug \<and> is_listing_category c) (ct_categories (db_catalog db)) of
        None \<Rightarrow> Inl (Not_found ''category'') | Some c \<Rightarrow> Inr c)"

definition set_categories :: "category_row list \<Rightarrow> db \<Rightarrow> db" where
  "set_categories cs db = db\<lparr>db_catalog := (db_catalog db)\<lparr>ct_categories := cs\<rparr>\<rparr>"

text \<open>Names and slugs are unique.\<close>

definition name_taken :: "category_row \<Rightarrow> category_row list \<Rightarrow> bool" where
  "name_taken c cs \<longleftrightarrow>
     exists_row (\<lambda>d. cat_id d \<noteq> cat_id c \<and> (cat_name d = cat_name c \<or> cat_slug d = cat_slug c)) cs"

definition new_category :: "db \<Rightarrow> create_category_dto \<Rightarrow> timestamp \<Rightarrow> category_row" where
  "new_category db dto now =
     \<lparr>cat_id = fresh_id db, cat_name = cc_name dto, cat_slug = cc_slug dto, cat_iconName = cc_iconName dto,
      cat_sortOrder = (case cc_sortOrder dto of None \<Rightarrow> 0 | Some n \<Rightarrow> n),
      cat_isActive = (case cc_isActive dto of None \<Rightarrow> True | Some b \<Rightarrow> b),
      cat_isAllowedForListings = False, cat_listingPolicy = Pol_RESTRICTED,
      cat_safetyNotice = ''category-needs-review'', cat_createdAt = db_now db, cat_updatedAt = now\<rparr>"

definition create_category ::
    "string \<Rightarrow> create_category_dto \<Rightarrow> timestamp \<Rightarrow> db \<Rightarrow> (db \<times> category_row) result" where
  "create_category adminId dto now db =
     (let c = new_category db dto now
      in if name_taken c (ct_categories (db_catalog db)) then Inl (Conflict ''category-exists'')
         else
           let db1 = set_categories (ct_categories (db_catalog db) @ [c]) (db\<lparr>db_next := Suc (db_next db)\<rparr>)
           in Inr (write_audit (Some adminId) ''CATEGORY_CREATED'' ''Category'' (Some (cat_id c)) None db1, c))"

definition reject_null_category_fields :: "update_category_dto \<Rightarrow> unit result" where
  "reject_null_category_fields dto =
     (if is_null (uc_name dto) \<or> is_null (uc_slug dto) \<or> is_null (uc_sortOrder dto)
      then Inl (Bad_request ''null-required-field'') else Inr ())"

definition has_category_keys :: "update_category_dto \<Rightarrow> bool" where
  "has_category_keys dto \<longleftrightarrow>
     has_own (uc_name dto) \<or> has_own (uc_slug dto) \<or> has_own (uc_iconName dto) \<or> has_own (uc_sortOrder dto)"

text \<open>\<open>data.iconName = dto.iconName ?? null\<close>: an own property without a value clears the icon.\<close>

definition apply_category_update :: "update_category_dto \<Rightarrow> timestamp \<Rightarrow> category_row \<Rightarrow> category_row" where
  "apply_category_update dto now c =
     c\<lparr>cat_name := write_field (uc_name dto) (cat_name c),
       cat_slug := write_field (uc_slug dto) (cat_slug c),
       cat_iconName := (case uc_iconName dto of Absent \<Rightarrow> cat_iconName c | Given i \<Rightarrow> Some i | _ \<Rightarrow> None),
       cat_sortOrder := write_field (uc_sortOrder dto) (cat_sortOrder c),
       cat_updatedAt := now\<rparr>"

definition find_category_or_fail :: "db \<Rightarrow> string \<Rightarrow> category_row result" where
  "find_category_or_fail db i =
     (case find_category db i of None \<Rightarrow> Inl (Not_found ''category'') | Some c \<Rightarrow> Inr c)"

definition update_category ::
    "string \<Rightarrow> string \<Rightarrow> update_category_dto \<Rightarrow> timestamp \<Rightarrow> db \<Rightarrow> (db \<times> category_row) result" where
  "update_category adminId i dto now db =
     bind_result (reject_null_category_fields dto) (\<lambda>_.
     bind_result (find_category_or_fail db i) (\<lambda>current.
     if \<not> has_category_keys dto then Inr (db, current)
     else
       let c = apply_category_update dto now current
       in if name_taken c (ct_categories (db_catalog db)) then Inl (Conflict ''category-exists'')
          else
            let db1 = set_categories (update_rows (\<lambda>d. cat_id d = i) (apply_category_update dto now)
                        (ct_categories (db_catalog db))) db
            in Inr (write_audit (Some adminId) ''CATEGORY_UPDATED'' ''Category'' (Some i) None db1, c)))"

definition disable_category :: "string \<Rightarrow> string \<Rightarrow> timestamp \<Rightarrow> db \<Rightarrow> (db \<times> category_row) result" where
  "disable_category adminId i now db =
     bind_result (find_category_or_fail db i) (\<lambda>current.
     let off = (\<lambda>c. c\<lparr>cat_isActive := False, cat_updatedAt := now\<rparr>);
         db1 = set_categories (update_rows (\<lambda>d. cat_id d = i) off (ct_categories (db_catalog db))) db
     in Inr (write_audit (Some adminId) ''CATEGORY_DISABLED'' ''Category'' (Some i) None db1, off current))"

section \<open>What the commands cannot do\<close>

lemma create_category_restricted:
  assumes "create_category adminId dto now db = Inr (db', c)"
  shows "\<not> is_listing_category c" "ct_categories (db_catalog db') = ct_categories (db_catalog db) @ [c]"
    "db_items db' = db_items db"
  using assms by (auto simp: create_category_def Let_def new_category_def is_listing_category_def set_categories_def
      write_audit_def split: if_splits)

text \<open>
  A category is opened for listings by none of the commands: whoever is a listing category
  afterwards was one before.
\<close>

lemma category_commands_open_nothing:
  assumes "create_category adminId cdto now db = Inr (db', r) \<or> update_category adminId i udto now db = Inr (db', r)
    \<or> disable_category adminId i now db = Inr (db', r)"
    and "c \<in> set (ct_categories (db_catalog db'))" and "is_listing_category c"
  shows "\<exists>d \<in> set (ct_categories (db_catalog db)). cat_id d = cat_id c \<and> is_listing_category d"
proof -
  have keep: "is_listing_category (apply_category_update udto now d) = is_listing_category d"
    "cat_id (apply_category_update udto now d) = cat_id d" for d
    by (simp_all add: apply_category_update_def is_listing_category_def)
  show ?thesis
    using assms(1)
  proof (elim disjE)
    assume "create_category adminId cdto now db = Inr (db', r)"
    from create_category_restricted [OF this] assms(2,3) show ?thesis by auto
  next
    assume "update_category adminId i udto now db = Inr (db', r)"
    then have "db' = db \<or> ct_categories (db_catalog db') = update_rows (\<lambda>d. cat_id d = i) (apply_category_update udto now)
        (ct_categories (db_catalog db))"
      by (auto simp: update_category_def bind_result_Inr_iff Let_def write_audit_def set_categories_def split: if_splits)
    then consider "c \<in> set (ct_categories (db_catalog db))"
      | d where "d \<in> set (ct_categories (db_catalog db))" "c = apply_category_update udto now d"
      using assms(2) by (auto simp: set_update_rows split: if_splits)
    then show ?thesis
    proof cases
      case 1
      then show ?thesis using assms(3) by blast
    next
      case (2 d)
      then show ?thesis using assms(3) keep [of d] by auto
    qed
  next
    assume "disable_category adminId i now db = Inr (db', r)"
    then have "ct_categories (db_catalog db') = update_rows (\<lambda>d. cat_id d = i)
        (\<lambda>c. c\<lparr>cat_isActive := False, cat_updatedAt := now\<rparr>) (ct_categories (db_catalog db))"
      by (auto simp: disable_category_def bind_result_Inr_iff Let_def write_audit_def set_categories_def)
    then show ?thesis using assms(2,3) by (auto simp: set_update_rows is_listing_category_def split: if_splits)
  qed
qed

end
