(* ===== verification/Moderation_Properties.thy ===== *)
theory Moderation_Properties
  imports Item_Properties Reports Categories Auth
begin

text \<open>
  What moderation promises: a listing is public only after an approval that the audit log names,
  a decision on a report is final, a blocked user is out at once, and reports are limited.
\<close>

section \<open>The audit log only grows\<close>

lemma write_audit_items [simp]:
  "db_items (write_audit a b c d e db) = db_items db"
  "db_users (write_audit a b c d e db) = db_users db"
  "db_reviews (write_audit a b c d e db) = db_reviews db"
  "db_desk (write_audit a b c d e db) = db_desk db"
  "db_bookings (write_audit a b c d e db) = db_bookings db"
  by (simp_all add: write_audit_def)

lemma write_audit_row:
  "db_audit (write_audit a b c d e db) = db_audit db @ [\<lparr>aud_adminId = a, aud_action = b, aud_entityType = c,
     aud_entityId = d, aud_reason = e\<rparr>]"
  by (simp add: write_audit_def)

lemma set_reports_frame [simp]:
  "db_items (set_reports rs db) = db_items db" "db_audit (set_reports rs db) = db_audit db"
  "db_users (set_reports rs db) = db_users db" "db_reports (set_reports rs db) = rs"
  "db_reviews (set_reports rs db) = db_reviews db"
  by (simp_all add: set_reports_def db_reports_def)

lemma set_blocked_frame [simp]:
  "db_items (set_blocked i now db) = db_items db" "db_audit (set_blocked i now db) = db_audit db"
  "db_desk (set_blocked i now db) = db_desk db" "db_reviews (set_blocked i now db) = db_reviews db"
  by (simp_all add: set_blocked_def)

lemma moderate_item_InrD:
  assumes "moderate_item action adminId itemId reason now db = Inr (db', r)"
  shows "db_items db' = update_rows (\<lambda>s. it_id s = itemId)
      (decided_item (case action of ITEM_APPROVED \<Rightarrow> It_APPROVED | ITEM_REJECTED \<Rightarrow> It_REJECTED) reason now) (db_items db)"
    and "db_audit db' = db_audit db @ [\<lparr>aud_adminId = Some adminId, aud_action = moderation_name action,
           aud_entityType = ''Item'', aud_entityId = Some itemId, aud_reason = reason\<rparr>]"
  using assms by (auto simp: moderate_item_def bind_result_Inr_iff Let_def enqueue_item_moderation_def write_audit_row
      insert_outbox_def split: if_splits)

lemma apply_decision_InrD:
  assumes "apply_decision report decision reason adminId now db = Inr db'"
  shows "db_items db' = db_items db \<or> (\<exists>i. db_items db' = update_rows (\<lambda>t. it_id t = i)
      (\<lambda>t. t\<lparr>it_status := It_HIDDEN, it_updatedAt := now\<rparr>) (db_items db))"
    and "db_audit db' = db_audit db" and "db_desk db' = db_desk db"
  using assms by (auto simp: apply_decision_def hide_listing_def hide_review_def bind_result_Inr_iff
      split: report_decision.splits if_splits)

lemma notify_decision_InrD:
  assumes "notify_decision report decision db = Inr db'"
  shows "db_items db' = db_items db" "db_audit db' = db_audit db" "db_desk db' = db_desk db"
    "db_users db' = db_users db" "db_reviews db' = db_reviews db"
  using assms by (auto simp: notify_decision_def report_event_def insert_outbox_def
      split: report_decision.splits option.splits if_splits)

lemma decide_report_InrD:
  assumes "decide_report adminId reportId decision reason now db = Inr (db', r)"
  obtains (decided) current db1 where "find_report db reportId = Some current" "rp_status current = Rep_OPEN"
    "apply_decision current decision reason adminId now db = Inr db1"
    "db_items db' = db_items db1" "db_users db' = db_users db1" "db_reviews db' = db_reviews db1"
    "db_reports db' = update_rows (\<lambda>r. rp_id r = reportId) (decided_report decision adminId now) (db_reports db)"
    "db_audit db' = db_audit db @ [\<lparr>aud_adminId = Some adminId, aud_action = ''REPORT_DECIDED'',
       aud_entityType = ''UserReport'', aud_entityId = Some reportId, aud_reason = Some (js_trim reason)\<rparr>]"
proof -
  obtain current where c: "find_report db reportId = Some current" "rp_status current = Rep_OPEN"
    using assms by (auto simp: decide_report_def split: option.splits if_splits)
  then obtain db1 db4 where d: "apply_decision current decision reason adminId now db = Inr db1"
    "notify_decision current decision (write_audit (Some adminId) ''REPORT_DECIDED'' ''UserReport'' (Some reportId)
        (Some (js_trim reason)) (set_reports (update_rows (\<lambda>r. rp_id r = reportId) (decided_report decision adminId now)
          (db_reports db1)) db1)) = Inr db4" "db' = db4"
    using assms by (auto simp: decide_report_def bind_result_Inr_iff Let_def)
  have "db_reports db1 = db_reports db" using apply_decision_InrD(3) [OF d(1)] by (simp add: db_reports_def)
  with decided [OF c d(1)] notify_decision_InrD [OF d(2)] apply_decision_InrD(2) [OF d(1)] d(3) show ?thesis
    by (simp add: write_audit_row db_reports_def set_reports_def)
qed

section \<open>From approval to publication\<close>

text \<open>The commands that touch listings and what they are published under.\<close>

inductive catalog_step :: "marketplace_policy \<Rightarrow> (create_item_dto \<Rightarrow> string) \<Rightarrow> db \<Rightarrow> db \<Rightarrow> bool"
  for policy hash where
  owner: "owner_step policy hash db db' \<Longrightarrow> catalog_step policy hash db db'"
| approve: "approve_item adminId itemId now db = Inr (db', r) \<Longrightarrow> catalog_step policy hash db db'"
| reject: "reject_item adminId itemId reason now db = Inr (db', r) \<Longrightarrow> catalog_step policy hash db db'"
| report: "decide_report adminId reportId decision reason now db = Inr (db', s) \<Longrightarrow> catalog_step policy hash db db'"
| block: "admin_block_user adminId userId reason now db = Inr (db', u) \<Longrightarrow> catalog_step policy hash db db'"
| category: "update_category adminId i dto now db = Inr (db', c) \<Longrightarrow> catalog_step policy hash db db'"
| disable: "disable_category adminId i now db = Inr (db', c) \<Longrightarrow> catalog_step policy hash db db'"

definition approval_logged :: "db \<Rightarrow> item_row \<Rightarrow> bool" where
  "approval_logged db t \<longleftrightarrow>
     (\<exists>a \<in> set (db_audit db). aud_action a = ''ITEM_APPROVED'' \<and> aud_entityId a = Some (it_id t) \<and> aud_adminId a \<noteq> None)"

definition vouched :: "db \<Rightarrow> db \<Rightarrow> bool" where
  "vouched start db \<longleftrightarrow>
     (\<forall>t \<in> set (db_items db). it_status t = It_APPROVED \<longrightarrow> t \<in> set (db_items start) \<or> approval_logged db t)"

lemma owner_step_audit:
  assumes "owner_step policy hash db db'"
  shows "db_audit db' = db_audit db"
  using assms
proof cases
  case (create ownerId dto k now r)
  then show ?thesis
    by (auto simp: create_item_def bind_result_Inr_iff Let_def insert_item_def split: if_splits option.splits)
next
  case (update ownerId i dto now r)
  then show ?thesis
    by (auto simp: update_own_def bind_result_Inr_iff update_item_row_def Let_def split: if_splits option.splits)
next
  case (hide ownerId i now r)
  then show ?thesis
    by (auto simp: hide_own_def bind_result_Inr_iff update_item_row_def Let_def split: if_splits option.splits)
qed

text \<open>A step that keeps or withdraws listings and extends the audit log keeps the vouching.\<close>

lemma vouched_keep:
  assumes v: "vouched start db" and log: "set (db_audit db) \<subseteq> set (db_audit db')"
    and items: "\<And>t. t \<in> set (db_items db') \<Longrightarrow> it_status t = It_APPROVED \<Longrightarrow> t \<in> set (db_items db)"
  shows "vouched start db'"
  using v items log unfolding vouched_def approval_logged_def by (meson subset_iff)

lemma withdrawn_items:
  assumes "db_items db' = update_rows p f (db_items db)" and "\<And>t. it_status (f t) \<noteq> It_APPROVED"
  shows "t \<in> set (db_items db') \<Longrightarrow> it_status t = It_APPROVED \<Longrightarrow> t \<in> set (db_items db)"
  using assms by (auto simp: set_update_rows split: if_splits)

lemma approve_vouched:
  assumes v: "vouched start db" and ok: "approve_item adminId itemId now db = Inr (db', r)"
  shows "vouched start db'"
proof -
  have m: "moderate_item ITEM_APPROVED adminId itemId None now db = Inr (db', r)"
    using ok by (simp add: approve_item_def)
  note eff = moderate_item_InrD [OF m]
  have logged: "approval_logged db' t" if "it_id t = itemId" for t
    unfolding approval_logged_def eff(2) using that by auto
  show ?thesis
    unfolding vouched_def
  proof (intro ballI impI)
    fix t assume t: "t \<in> set (db_items db')" "it_status t = It_APPROVED"
    show "t \<in> set (db_items start) \<or> approval_logged db' t"
    proof (cases "it_id t = itemId")
      case False
      then have "t \<in> set (db_items db)"
        using t(1) unfolding eff(1) by (auto simp: set_update_rows decided_item_def split: if_splits)
      then have "t \<in> set (db_items start) \<or> approval_logged db t" using v t(2) by (simp add: vouched_def)
      then show ?thesis unfolding approval_logged_def eff(2) by auto
    qed (simp add: logged)
  qed
qed

lemma catalog_step_vouched:
  assumes "catalog_step policy hash db db'" and v: "vouched start db"
  shows "vouched start db'"
  using assms(1)
proof cases
  case owner
  then have "moderated db db'" "db_audit db' = db_audit db" by (rule owner_step_moderated, rule owner_step_audit)
  then show ?thesis by (intro vouched_keep [OF v]) (auto simp: moderated_def)
next
  case (approve adminId itemId now r)
  then show ?thesis by (rule approve_vouched [OF v])
next
  case (reject adminId itemId reason now r)
  then have m: "moderate_item ITEM_REJECTED adminId itemId (Some reason) now db = Inr (db', r)"
    by (simp add: reject_item_def)
  note eff = moderate_item_InrD [OF m]
  show ?thesis
    by (rule vouched_keep [OF v _ withdrawn_items [OF eff(1)]]) (auto simp: eff(2) decided_item_def)
next
  case (report adminId reportId decision reason now s)
  then show ?thesis
  proof (rule decide_report_InrD)
    fix current db1
    assume a: "apply_decision current decision reason adminId now db = Inr db1" "db_items db' = db_items db1"
      and log: "db_audit db' = db_audit db @ [\<lparr>aud_adminId = Some adminId, aud_action = ''REPORT_DECIDED'',
         aud_entityType = ''UserReport'', aud_entityId = Some reportId, aud_reason = Some (js_trim reason)\<rparr>]"
    have "t \<in> set (db_items db)" if "t \<in> set (db_items db')" "it_status t = It_APPROVED" for t
      using apply_decision_InrD(1) [OF a(1)] that unfolding a(2)
      by (elim disjE exE) (auto intro: withdrawn_items)
    then show ?thesis by (intro vouched_keep [OF v]) (auto simp: log)
  qed
next
  case (block adminId userId reason now u)
  then have "db_items db' = db_items db" "set (db_audit db) \<subseteq> set (db_audit db')"
    by (auto simp: admin_block_user_def Let_def write_audit_row split: if_splits option.splits)
  then show ?thesis by (intro vouched_keep [OF v]) auto
next
  case (category adminId i dto now c)
  then have "db_items db' = db_items db" "set (db_audit db) \<subseteq> set (db_audit db')"
    by (auto simp: update_category_def bind_result_Inr_iff Let_def write_audit_row set_categories_def split: if_splits)
  then show ?thesis by (intro vouched_keep [OF v]) auto
next
  case (disable adminId i now c)
  then have "db_items db' = db_items db" "set (db_audit db) \<subseteq> set (db_audit db')"
    by (auto simp: disable_category_def bind_result_Inr_iff Let_def write_audit_row set_categories_def)
  then show ?thesis by (intro vouched_keep [OF v]) auto
qed

interpretation catalog: step_invariant "catalog_step policy hash" "vouched start" for policy hash start
  by unfold_locales (rule catalog_step_vouched)

text \<open>
  C31. Nothing is public without an approval: whatever owners and operators do to the listings, in
  any order, a listing that is approved afterwards and was not there in the same form before has
  an approval by a named operator in the audit log.
\<close>

theorem published_was_approved:
  assumes "(catalog_step policy hash)\<^sup>*\<^sup>* start db" and "t \<in> set (db_items db)" and "it_status t = It_APPROVED"
  shows "t \<in> set (db_items start) \<or> (\<exists>a \<in> set (db_audit db). aud_action a = ''ITEM_APPROVED''
     \<and> aud_entityId a = Some (it_id t) \<and> aud_adminId a \<noteq> None)"
proof -
  have "vouched start start" by (simp add: vouched_def)
  from catalog.inv_steps [OF assms(1) this] assms(2,3) show ?thesis
    by (simp add: vouched_def approval_logged_def)
qed

section \<open>Reports\<close>

text \<open>
  A report is accepted only for a reason that fits its target, of something the reporter may
  see and does not own, as his first such report in 24 hours and within five attempts an hour;
  exactly that report is then stored, open. A refused report stores nothing.
\<close>

theorem report_accepted:
  assumes "create_report reporterId dto now (r, db) = ((r', db'), result)"
  shows "(\<forall>answer. result = Inr answer \<longrightarrow>
      cr_reason dto \<in> set (reasons_by_target (cr_targetType dto))
      \<and> can_report db reporterId now (cr_targetType dto) (cr_targetId dto)
      \<and> (\<forall>x \<in> set (db_reports db). \<not> is_duplicate_report reporterId now dto x)
      \<and> (\<forall>n until. counts_to (report_rate_key reporterId) n until r \<and> 0 < n \<and> now < until \<longrightarrow> n < 5)
      \<and> (\<exists>row. db_reports db' = db_reports db @ [row] \<and> rp_status row = Rep_OPEN \<and> rp_reporterId row = reporterId
            \<and> answer = to_report_response row))
    \<and> (\<forall>e. result = Inl e \<longrightarrow> db' = db)"
proof (intro conjI allI impI)
  fix e assume "result = Inl e"
  then show "db' = db"
    using assms by (auto simp: create_report_def split: sum.splits prod.splits)
next
  fix answer assume ok: "result = Inr answer"
  then obtain row where g: "validate_reason dto = Inr ()" "ensure_target_access db reporterId now dto = Inr ()"
    "consume_report_limit reporterId now r = (r', Inr ())" "insert_report reporterId dto now db = Inr (db', row)" "answer = to_report_response row"
    using assms by (auto simp: create_report_def bind_result_def split: sum.splits prod.splits)
  show "cr_reason dto \<in> set (reasons_by_target (cr_targetType dto))"
    using g(1) by (auto simp: validate_reason_def split: if_splits)
  show "can_report db reporterId now (cr_targetType dto) (cr_targetId dto)"
    using g(2) by (auto simp: ensure_target_access_def split: if_splits)
  show "\<forall>x \<in> set (db_reports db). \<not> is_duplicate_report reporterId now dto x"
    using g(4) by (auto simp: insert_report_def split: if_splits)
  have "db_reports db' = db_reports db @ [row] \<and> rp_status row = Rep_OPEN \<and> rp_reporterId row = reporterId"
    using g(4) by (auto simp: insert_report_def Let_def new_report_def split: if_splits)
  with g(5) show "\<exists>row. db_reports db' = db_reports db @ [row] \<and> rp_status row = Rep_OPEN \<and> rp_reporterId row = reporterId
      \<and> answer = to_report_response row" by blast
  fix n until
  assume c: "counts_to (report_rate_key reporterId) n until r \<and> 0 < n \<and> now < until"
  obtain r1 m where i: "redis_incr now (report_rate_key reporterId) REPORT_RATE_WINDOW_SECONDS r = (r1, m)" by fastforce
  with g(3) have "m \<le> 5" by (auto simp: consume_report_limit_def REPORT_RATE_LIMIT_def split: if_splits)
  moreover have "m = Suc n" using redis_incr_next [OF _ _ _ i] c by blast
  ultimately show "n < 5" by simp
qed

text \<open>
  C32. A decision on a report is final: it is taken on an open report only, records the operator
  and the action, leaves every other report alone, and no operator can decide the report again.
\<close>

theorem report_decision_final:
  assumes "decide_report adminId reportId decision reason now db = Inr (db', s)"
  shows "\<exists>current. find_report db reportId = Some current \<and> rp_status current = Rep_OPEN
    \<and> find_report db' reportId = Some (decided_report decision adminId now current)
    \<and> (\<forall>i. i \<noteq> reportId \<longrightarrow> find_report db' i = find_report db i)
    \<and> (\<forall>adminId2 decision2 reason2 now2.
         decide_report adminId2 reportId decision2 reason2 now2 db' = Inl (Conflict ''report-decided''))"
  using assms
proof (rule decide_report_InrD)
  fix current db1
  assume c: "find_report db reportId = Some current" "rp_status current = Rep_OPEN"
    and rows: "db_reports db' = update_rows (\<lambda>r. rp_id r = reportId) (decided_report decision adminId now) (db_reports db)"
  have found: "find_report db' i = map_option (\<lambda>r. if rp_id r = reportId then decided_report decision adminId now r else r)
      (find_report db i)" for i
    unfolding find_report_def rows by (rule find_update_rows) (simp add: decided_report_def)
  have "rp_id current = reportId" using c(1) by (auto simp: find_report_def dest: find_SomeD)
  then have now: "find_report db' reportId = Some (decided_report decision adminId now current)"
    by (simp add: found c(1))
  have others: "find_report db' i = find_report db i" if "i \<noteq> reportId" for i
  proof -
    have "rp_id r = i" if "find_report db i = Some r" for r
      using that by (auto simp: find_report_def dest: find_SomeD)
    with that found [of i] show ?thesis by (cases "find_report db i") auto
  qed
  have "rp_status (decided_report decision adminId now current) \<noteq> Rep_OPEN"
    by (simp add: decided_report_def decided_status_def)
  then have "decide_report a reportId d x n db' = Inl (Conflict ''report-decided'')" for a d x n
    by (simp add: decide_report_def now)
  with c now others show ?thesis by blast
qed

section \<open>Blocked users\<close>

lemma set_blocked_out:
  assumes "find_user (set_blocked userId now db) userId = Some u"
  shows "us_isBlocked u \<or> us_deletedAt u \<noteq> None"
proof -
  have u: "u \<in> set (update_rows (is_blockable userId) (blocked_user now) (db_users db))" "us_id u = userId"
    using find_SomeD [OF assms [unfolded find_user_def]] by (simp_all add: set_blocked_def)
  from u(1) show ?thesis
  proof (rule in_update_rowsE)
    fix v assume "u = blocked_user now v"
    then show ?thesis by (simp add: blocked_user_def)
  next
    assume "\<not> is_blockable userId u"
    then show ?thesis using u(2) by (simp add: is_blockable_def)
  qed
qed

lemma guard_admits:
  assumes "jwt_auth_guard tools config token t db = Inr a"
  obtains (admitted) u where "find_user db (auth_id a) = Some u" "us_deletedAt u = None" "\<not> us_isBlocked u"
proof -
  obtain secret p where p: "config ''JWT_ACCESS_SECRET'' = Some secret" "at_verify tools secret token t = Some p"
    using assms by (auto simp: jwt_auth_guard_def split: option.splits if_splits)
  then obtain u where "find_user db (jp_sub p) = Some u"
    using assms by (auto simp: jwt_auth_guard_def split: option.splits if_splits)
  with p assms have u: "find_user db (jp_sub p) = Some u" "us_deletedAt u = None" "\<not> us_isBlocked u" "auth_id a = us_id u"
    by (auto simp: jwt_auth_guard_def split: if_splits)
  moreover have "us_id u = jp_sub p" using u(1) by (auto simp: find_user_def dest: find_SomeD)
  ultimately show ?thesis using admitted by metis
qed

text \<open>
  C33. A blocked user is out at once: after an operator has blocked him, directly or by a report on
  him, the guard of the API accepts no access token of his, whatever its session version, and he
  has no unfinished booking.
\<close>

theorem blocked_user_is_out:
  assumes "admin_block_user adminId userId reason now db = Inr (db', r)
    \<or> (\<exists>report. find_report db reportId = Some report \<and> target_user report db = Inr userId
         \<and> decide_report adminId reportId BLOCK_USER reason now db = Inr (db', s))"
  shows "(\<forall>tools config token t a. jwt_auth_guard tools config token t db' = Inr a \<longrightarrow> auth_id a \<noteq> userId)
    \<and> \<not> has_unfinished_booking db userId"
proof -
  have users: "db_users db' = db_users (set_blocked userId now db) \<and> \<not> has_unfinished_booking db userId"
    using assms
  proof (elim disjE exE conjE)
    assume "admin_block_user adminId userId reason now db = Inr (db', r)"
    then show ?thesis by (auto simp: admin_block_user_def Let_def split: if_splits option.splits)
  next
    fix report
    assume r: "find_report db reportId = Some report" "target_user report db = Inr userId"
      and d: "decide_report adminId reportId BLOCK_USER reason now db = Inr (db', s)"
    from d show ?thesis
    proof (rule decide_report_InrD)
      fix current db1
      assume "find_report db reportId = Some current" "apply_decision current BLOCK_USER reason adminId now db = Inr db1"
        "db_users db' = db_users db1"
      with r show ?thesis by (auto simp: apply_decision_def split: if_splits)
    qed
  qed
  then have "find_user db' userId = find_user (set_blocked userId now db) userId" by (simp add: find_user_def)
  then have out: "us_isBlocked u \<or> us_deletedAt u \<noteq> None" if "find_user db' userId = Some u" for u
    using set_blocked_out that by metis
  have "auth_id a \<noteq> userId" if ok: "jwt_auth_guard tools config token t db' = Inr a" for tools config token t a
    using ok
  proof (rule guard_admits)
    fix u assume "find_user db' (auth_id a) = Some u" "us_deletedAt u = None" "\<not> us_isBlocked u"
    then show "auth_id a \<noteq> userId" using out by auto
  qed
  with users show ?thesis by blast
qed

section \<open>A moderated market\<close>

definition waiting_db :: db where
  "waiting_db = market_db\<lparr>db_items := [sample_item\<lparr>it_status := It_PENDING\<rparr>]\<rparr>"

lemma sample_approval:
  "\<exists>db r. approve_item ''A'' ''I'' 7 waiting_db = Inr (db, r)
     \<and> (\<exists>t \<in> set (db_items db). it_id t = ''I'' \<and> it_status t = It_APPROVED \<and> it_updatedAt t = 7)"
  by (simp add: approve_item_def moderate_item_def find_moderatable_item_def find_item_def waiting_db_def market_db_def
      sample_data decided_item_def item_checks_def Let_def enqueue_item_moderation_def insert_outbox_def write_audit_def)

theorem published_was_approved_witness:
  "\<exists>db. (\<exists>t \<in> set (db_items db). it_id t = ''I'' \<and> it_status t = It_APPROVED) \<and> (\<exists>a \<in> set (db_audit (db :: db)).
     aud_action a = ''ITEM_APPROVED'' \<and> aud_entityId a = Some ''I'')"
proof -
  obtain db r t where a: "approve_item ''A'' ''I'' 7 waiting_db = Inr (db, r)" "t \<in> set (db_items db)"
    "it_id t = ''I''" "it_status t = It_APPROVED"
    using sample_approval by blast
  have "(catalog_step pay_on_handover_policy ci_title)\<^sup>*\<^sup>* waiting_db db"
    by (rule r_into_rtranclp) (rule catalog_step.approve [OF a(1)])
  from published_was_approved [OF this a(2,4)] a
  have "\<exists>x \<in> set (db_audit db). aud_action x = ''ITEM_APPROVED'' \<and> aud_entityId x = Some ''I''"
    by (auto simp: waiting_db_def)
  with a show ?thesis by blast
qed

definition saw_report :: create_report_dto where
  "saw_report = \<lparr>cr_targetType = Tgt_ITEM, cr_targetId = ''I'', cr_reason = UNSAFE_ITEM,
     cr_description = ''The guard of the saw is missing''\<rparr>"

lemma sample_report:
  "\<exists>r' db' row. create_report ''B'' saw_report 9 (\<lambda>_. None, market_db) = ((r', db'), Inr row)"
  by (simp add: create_report_def validate_reason_def ensure_target_access_def can_report_def saw_report_def
      market_db_def sample_data consume_report_limit_def redis_incr_def redis_get_def REPORT_RATE_LIMIT_def
      insert_report_def db_reports_def Let_def)

theorem report_accepted_witness:
  "\<exists>r' db' answer row. create_report ''B'' saw_report 9 (\<lambda>_. None, market_db) = ((r', db'), Inr answer)
     \<and> db_reports db' = db_reports market_db @ [row] \<and> rp_status row = Rep_OPEN"
proof -
  obtain r' db' row where c: "create_report ''B'' saw_report 9 (\<lambda>_. None, market_db) = ((r', db'), Inr row)"
    using sample_report by blast
  from report_accepted [OF c] c show ?thesis by blast
qed

definition reported_db :: db where
  "reported_db = set_reports [\<lparr>rp_id = ''P'', rp_reporterId = ''B'', rp_targetType = Tgt_USER, rp_targetId = ''L'',
     rp_reason = SUSPECTED_FRAUD, rp_description = ''asks for money outside'', rp_status = Rep_OPEN,
     rp_reviewedById = None, rp_reviewedAt = None, rp_decision = None, rp_createdAt = 0, rp_updatedAt = 0\<rparr>] market_db"

lemma sample_decision:
  "\<exists>db' s. decide_report ''A'' ''P'' BLOCK_USER ''fraud confirmed'' 9 reported_db = Inr (db', s)"
  by (simp add: decide_report_def find_report_def reported_db_def apply_decision_def target_user_def
      has_unfinished_booking_def market_db_def sample_data count_rows_def is_blockable_def notify_decision_def
      set_reports_def db_reports_def Let_def)

theorem report_decision_final_witness:
  "\<exists>db' s. decide_report ''A'' ''P'' BLOCK_USER ''fraud confirmed'' 9 reported_db = Inr (db', s)
     \<and> decide_report ''B'' ''P'' DISMISS ''not so bad'' 10 db' = Inl (Conflict ''report-decided'')"
proof -
  obtain db' s where d: "decide_report ''A'' ''P'' BLOCK_USER ''fraud confirmed'' 9 reported_db = Inr (db', s)"
    using sample_decision by blast
  moreover have "decide_report ''B'' ''P'' DISMISS ''not so bad'' 10 db' = Inl (Conflict ''report-decided'')"
    using report_decision_final [OF d] by (elim exE conjE) (erule allE)+
  ultimately show ?thesis by (intro exI conjI)
qed

lemma sample_block: "\<exists>db' r. admin_block_user ''A'' ''L'' ''fraud'' 9 market_db = Inr (db', r)"
  by (simp add: admin_block_user_def has_unfinished_booking_def market_db_def sample_data count_rows_def
      is_blockable_def set_blocked_def find_user_def blocked_user_def Let_def)

theorem blocked_user_is_out_witness:
  "\<exists>db' r. admin_block_user ''A'' ''L'' ''fraud'' 9 market_db = Inr (db', r)
     \<and> (\<forall>tools config token t a. jwt_auth_guard tools config token t db' = Inr a \<longrightarrow> auth_id a \<noteq> ''L'')"
proof -
  obtain db' r where b: "admin_block_user ''A'' ''L'' ''fraud'' 9 market_db = Inr (db', r)"
    using sample_block by blast
  show ?thesis
    by (intro exI conjI) (rule b, rule conjunct1 [OF blocked_user_is_out [OF disjI1 [OF b]]])
qed

text \<open>
  An approval names the listing only, not the version the operator has read: the owner can change a
  waiting listing between the reading and the approval, and what he wrote last is published.
\<close>

lemma approval_of_unseen_edit:
  "\<exists>db1 r1 db2 r2. (\<forall>i \<in> set (list_pending_items waiting_db). ai_title i = ''Drill'')
     \<and> update_own pay_on_handover_policy ''L'' ''I''
          \<lparr>up_categoryId = Absent, up_title = Given ''Rifle'', up_description = Absent, up_condition = Absent,
           up_completeness = Absent, up_handoverTerms = Absent, up_pricePerDay = Absent, up_depositAmount = Absent,
           up_depositAmountMinor = Absent, up_publicArea = Absent, up_address = Absent, up_latitude = Absent,
           up_longitude = Absent\<rparr> 5 waiting_db = Inr (db1, r1)
     \<and> approve_item ''A'' ''I'' 7 db1 = Inr (db2, r2)
     \<and> (\<exists>t \<in> set (db_items db2). it_title t = ''Rifle'' \<and> it_status t = It_APPROVED)"
  by (simp add: list_pending_items_def ADMIN_LIST_LIMIT_def to_admin_item_def update_own_def find_owned_item_def
      build_update_data_def reject_null_required_update_fields_def is_null_def is_undefined_def has_update_keys_def
      has_own_def ensure_no_unfinished_bookings_def update_item_row_def apply_update_def write_field_def
      approve_item_def moderate_item_def find_moderatable_item_def find_item_def waiting_db_def market_db_def
      sample_data decided_item_def item_checks_def Let_def enqueue_item_moderation_def insert_outbox_def write_audit_def)

end
