(* ===== verification/Platform.thy ===== *)
theory Platform
  imports Payment_Policy
begin

text \<open>
  What several programs use of the platform: splitting a string, reading environment variables
  and parsing URLs. The URL parser and \<open>decodeURIComponent\<close> are arguments.
\<close>

text \<open>\<open>value.split(c)\<close>.\<close>

fun split_at :: "char \<Rightarrow> string \<Rightarrow> string list" where
  "split_at c [] = [[]]"
| "split_at c (x # xs) =
     (if x = c then [] # split_at c xs
      else case split_at c xs of [] \<Rightarrow> [[x]] | p # ps \<Rightarrow> (x # p) # ps)"

text \<open>\<open>toUpperCase\<close> of a Latin letter.\<close>

definition upper_char :: "char \<Rightarrow> char" where
  "upper_char c = (let n = (of_char c :: nat) in if 97 \<le> n \<and> n \<le> 122 then char_of (n - 32) else c)"

record url_parts =
  url_href :: string
  url_protocol :: string
  url_host :: string
  url_origin :: string
  url_hostname :: string
  url_port :: string
  url_username :: string
  url_password :: string
  url_pathname :: string
  url_sslmode :: "string option"

text \<open>The parser of the platform; \<open>None\<close> is its \<open>TypeError\<close>, as for \<open>decodeURIComponent\<close>.\<close>

record url_tools =
  ut_parse :: "string \<Rightarrow> url_parts option"
  ut_decode :: "string \<Rightarrow> string option"

definition required_env :: "config \<Rightarrow> string \<Rightarrow> string result" where
  "required_env env name =
     (case env name of
        None \<Rightarrow> Inl (Plain_error name)
      | Some v \<Rightarrow> if js_trim v = [] then Inl (Plain_error name) else Inr (js_trim v))"

definition parse_url :: "url_tools \<Rightarrow> string \<Rightarrow> url_parts result" where
  "parse_url urls v = (case ut_parse urls v of None \<Rightarrow> Inl (Plain_error ''Invalid URL'') | Some u \<Rightarrow> Inr u)"

definition decode_uri :: "url_tools \<Rightarrow> string \<Rightarrow> string result" where
  "decode_uri urls v = (case ut_decode urls v of None \<Rightarrow> Inl (Plain_error ''URI malformed'') | Some s \<Rightarrow> Inr s)"

definition validate_https_url :: "url_tools \<Rightarrow> string \<Rightarrow> string \<Rightarrow> string result" where
  "validate_https_url urls name v =
     bind_result (parse_url urls v) (\<lambda>u.
     if url_protocol u \<noteq> ''https:'' \<or> url_username u \<noteq> [] \<or> url_password u \<noteq> [] then Inl (Plain_error name)
     else Inr (url_href u))"

end
