(* ===== verification/Admin_Totp.thy ===== *)
theory Admin_Totp
  imports Booking_Period Platform "HOL-Library.Word"
begin

text \<open>
  One-time codes of the operators (\<open>admin/admin-totp.ts\<close>): the Base32 text of a secret, the code of a
  time step by HMAC-SHA-1 with dynamic truncation, and its verification. The bit operators of
  JavaScript work on 32-bit integers and the accumulators of the two Base32 loops are never
  masked, so they overflow on every secret of more than four bytes; here they are 32-bit words.
  HMAC-SHA-1 is an argument. The main result is that decoding inverts encoding for every byte
  sequence, overflow included.
\<close>

unbundle bit_operations_syntax

type_synonym byte = "8 word"

definition BASE32_ALPHABET :: string where
  "BASE32_ALPHABET = ''ABCDEFGHIJKLMNOPQRSTUVWXYZ234567''"

definition TOTP_PERIOD_SECONDS :: int where
  "TOTP_PERIOD_SECONDS = 30"

section \<open>Base32\<close>

text \<open>\<open>BASE32_ALPHABET[(accumulator >>> bits) & 31]\<close>, as an index and as a character.\<close>

definition quintet :: "32 word \<Rightarrow> nat \<Rightarrow> nat" where
  "quintet accumulator bits = unat (drop_bit bits accumulator AND 31)"

definition base32_char :: "nat \<Rightarrow> char" where
  "base32_char n = BASE32_ALPHABET ! n"

text \<open>The inner loop of \<open>encodeBase32\<close>: the characters it appends and the bits it leaves.\<close>

fun emit_quintets :: "32 word \<Rightarrow> nat \<Rightarrow> nat list \<times> nat" where
  "emit_quintets accumulator bits =
     (if 5 \<le> bits then
        (case emit_quintets accumulator (bits - 5) of (qs, rest) \<Rightarrow> (quintet accumulator (bits - 5) # qs, rest))
      else ([], bits))"

declare emit_quintets.simps [simp del]

fun encode_quintets :: "32 word \<Rightarrow> nat \<Rightarrow> byte list \<Rightarrow> nat list" where
  "encode_quintets accumulator bits [] =
     (if 0 < bits then [unat (push_bit (5 - bits) accumulator AND 31)] else [])"
| "encode_quintets accumulator bits (b # bs) =
     (let acc = push_bit 8 accumulator OR ucast b
      in case emit_quintets acc (bits + 8) of (qs, rest) \<Rightarrow> qs @ encode_quintets acc rest bs)"

definition encode_base32 :: "byte list \<Rightarrow> string" where
  "encode_base32 bytes = map base32_char (encode_quintets 0 0 bytes)"

text \<open>\<open>value.toUpperCase().replace(/=+$/g, '')\<close>.\<close>

definition normalize_base32 :: "string \<Rightarrow> string" where
  "normalize_base32 v = rev (dropWhile (\<lambda>c. c = CHR ''='') (rev (map upper_char v)))"

text \<open>\<open>indexOf\<close>; \<open>None\<close> stands for \<open>-1\<close>.\<close>

fun index_of :: "char \<Rightarrow> string \<Rightarrow> nat option" where
  "index_of c [] = None"
| "index_of c (x # xs) = (if x = c then Some 0 else map_option Suc (index_of c xs))"

fun decode_quintets :: "32 word \<Rightarrow> nat \<Rightarrow> nat list \<Rightarrow> byte list" where
  "decode_quintets accumulator bits [] = []"
| "decode_quintets accumulator bits (q # qs) =
     (let acc = push_bit 5 accumulator OR of_nat q; n = bits + 5
      in if 8 \<le> n then ucast (drop_bit (n - 8) acc AND 0xFF) # decode_quintets acc (n - 8) qs
         else decode_quintets acc n qs)"

text \<open>\<open>None\<close> is the error of an invalid secret.\<close>

definition decode_base32 :: "string \<Rightarrow> byte list option" where
  "decode_base32 v = map_option (decode_quintets 0 0)
     (those (map (\<lambda>c. index_of c BASE32_ALPHABET) (normalize_base32 v)))"

section \<open>Codes\<close>

text \<open>\<open>writeBigUInt64BE\<close>: the time step as eight bytes, the highest first.\<close>

definition counter_bytes :: "int \<Rightarrow> byte list" where
  "counter_bytes timeStep = map (\<lambda>i. word_of_int (timeStep div 256 ^ (7 - i))) [0..<8]"

text \<open>
  Dynamic truncation: four bytes from the offset in the last byte, without the sign bit, modulo a
  million, as six digits. A digest of SHA-1 has twenty bytes.
\<close>

definition truncate_digest :: "byte list \<Rightarrow> int" where
  "truncate_digest digest =
     (let start = unat (last digest AND 0x0F);
          at_byte = (\<lambda>i. ucast (digest ! (start + i)) :: 32 word)
      in uint (push_bit 24 (at_byte 0 AND 0x7F) OR push_bit 16 (at_byte 1) OR push_bit 8 (at_byte 2) OR at_byte 3)
           mod 1000000)"

text \<open>\<open>generateTotpCode\<close>; \<open>None\<close> is the error of an invalid secret.\<close>

definition generate_totp_code :: "(byte list \<Rightarrow> byte list \<Rightarrow> byte list) \<Rightarrow> string \<Rightarrow> int \<Rightarrow> string option" where
  "generate_totp_code hmac secret epochSeconds =
     (case decode_base32 secret of
        None \<Rightarrow> None
      | Some key \<Rightarrow> Some (pad6 (truncate_digest (hmac key (counter_bytes (epochSeconds div TOTP_PERIOD_SECONDS))))))"

definition is_six_digits :: "string \<Rightarrow> bool" where
  "is_six_digits t \<longleftrightarrow> length t = 6 \<and> list_all is_digit t"

text \<open>
  The loop over the offsets -1, 0 and 1. The outer \<open>None\<close> is the error, the inner one \<open>{ valid:
  false }\<close>, and a value the time step of the code.
\<close>

fun try_steps ::
    "(byte list \<Rightarrow> byte list \<Rightarrow> byte list) \<Rightarrow> string \<Rightarrow> string \<Rightarrow> int option \<Rightarrow> int list \<Rightarrow> int option option" where
  "try_steps hmac secret token after [] = Some None"
| "try_steps hmac secret token after (timeStep # steps) =
     (if timeStep < 0 \<or> (case after of None \<Rightarrow> False | Some a \<Rightarrow> timeStep \<le> a)
      then try_steps hmac secret token after steps
      else case generate_totp_code hmac secret (timeStep * TOTP_PERIOD_SECONDS) of
        None \<Rightarrow> None
      | Some expected \<Rightarrow>
          if expected = token then Some (Some timeStep) else try_steps hmac secret token after steps)"

definition verify_totp_code ::
    "(byte list \<Rightarrow> byte list \<Rightarrow> byte list) \<Rightarrow> string \<Rightarrow> string \<Rightarrow> int option \<Rightarrow> int \<Rightarrow> int option option" where
  "verify_totp_code hmac secret token after epochSeconds =
     (if \<not> is_six_digits token then Some None
      else
        let current = epochSeconds div TOTP_PERIOD_SECONDS
        in try_steps hmac secret token after [current - 1, current, current + 1])"

section \<open>Bits of a stream\<close>

text \<open>The low \<open>n\<close> bits of a word, the highest first.\<close>

definition low_bits :: "nat \<Rightarrow> 'a::len word \<Rightarrow> bool list" where
  "low_bits n w = map (\<lambda>i. bit w (n - 1 - i)) [0..<n]"

lemma length_low_bits [simp]: "length (low_bits n w) = n"
  by (simp add: low_bits_def)

lemma nth_low_bits: "i < n \<Longrightarrow> low_bits n w ! i = bit w (n - 1 - i)"
  by (simp add: low_bits_def)

lemma low_bits_split:
  assumes "\<And>i. i < m \<Longrightarrow> bit w (n + i) = bit u i" and "\<And>i. i < n \<Longrightarrow> bit w i = bit v i"
  shows "low_bits (m + n) w = low_bits m u @ low_bits n v"
proof (rule nth_equalityI)
  fix i assume "i < length (low_bits (m + n) w)"
  then have i: "i < m + n" by simp
  show "low_bits (m + n) w ! i = (low_bits m u @ low_bits n v) ! i"
  proof (cases "i < m")
    case True
    then have "m + n - 1 - i = n + (m - 1 - i)" by simp
    then show ?thesis using True i assms(1) [of "m - 1 - i"] by (simp add: nth_append nth_low_bits)
  next
    case False
    then have "m + n - 1 - i = n - 1 - (i - m)" "n - 1 - (i - m) < n" using i by auto
    then show ?thesis using False i assms(2) [of "n - 1 - (i - m)"] by (simp add: nth_append nth_low_bits)
  qed
qed simp

lemma low_bits_inj:
  assumes "low_bits LENGTH('a) v = low_bits LENGTH('a) (w :: 'a::len word)"
  shows "v = w"
proof (rule bit_word_eqI)
  fix n assume n: "n < LENGTH('a)"
  have "low_bits LENGTH('a) v ! (LENGTH('a) - 1 - n) = low_bits LENGTH('a) w ! (LENGTH('a) - 1 - n)"
    using assms by simp
  then show "bit v n = bit w n" using n by (simp add: nth_low_bits)
qed

lemma mask_words: "(31 :: 32 word) = mask 5" "(0xFF :: 32 word) = mask 8"
  by (simp_all add: mask_eq_exp_minus_1)

lemma push_or_bits:
  assumes "n + k \<le> 32" and "\<And>i. bit u i \<Longrightarrow> i < k"
  shows "low_bits (n + k) (push_bit k acc OR u :: 32 word) = low_bits n acc @ low_bits k u"
proof (rule low_bits_split)
  fix i assume "i < n"
  then show "bit (push_bit k acc OR u) (k + i) = bit acc i"
    using assms by (auto simp: bit_simps)
next
  fix i assume "i < k"
  then show "bit (push_bit k acc OR u) i = bit u i" by (auto simp: bit_simps)
qed

text \<open>The five bits of a quintet.\<close>

definition quintet_bits :: "nat \<Rightarrow> bool list" where
  "quintet_bits q = low_bits 5 (of_nat q :: 32 word)"

lemma quintet_less: "quintet acc n < 32"
proof -
  have "unat (drop_bit n acc AND 31) \<le> unat (31 :: 32 word)"
    by (rule word_le_nat_alt [THEN iffD1]) (rule word_and_le1)
  then show ?thesis by (simp add: quintet_def)
qed

lemma word_eqI_low5:
  assumes "q < 32"
  shows "of_nat q = (take_bit 5 (of_nat q) :: 32 word)"
proof -
  have "take_bit 5 q = q" using assms by (simp add: take_bit_nat_eq_self)
  then show ?thesis by (metis take_bit_of_nat)
qed

lemma quintet_bits_low:
  assumes "q < 32" and b: "bit (of_nat q :: 32 word) i"
  shows "i < 5"
proof -
  have "of_nat q = (take_bit 5 (of_nat q) :: 32 word)"
    by (rule word_eqI_low5 [OF assms(1)])
  with b show ?thesis by (metis bit_take_bit_iff)
qed

lemma of_nat_quintet: "of_nat (quintet acc n) = take_bit 5 (drop_bit n acc)"
  by (simp add: quintet_def mask_words take_bit_eq_mask [symmetric])

lemma low_bits_quintet: "low_bits (5 + n) acc = quintet_bits (quintet acc n) @ low_bits n acc"
  unfolding quintet_bits_def of_nat_quintet by (rule low_bits_split) (auto simp: bit_simps add.commute)

lemma emit_quintets_bits:
  "emit_quintets acc bits = (qs, rest) \<Longrightarrow>
     low_bits bits acc = concat (map quintet_bits qs) @ low_bits rest acc \<and> rest < 5 \<and> (\<forall>q \<in> set qs. q < 32)"
proof (induction acc bits arbitrary: qs rest rule: emit_quintets.induct)
  case (1 acc bits)
  show ?case
  proof (cases "5 \<le> bits")
    case True
    obtain qs' where e: "emit_quintets acc (bits - 5) = (qs', rest)" "qs = quintet acc (bits - 5) # qs'"
      using "1.prems" True by (subst (asm) emit_quintets.simps) (auto split: prod.splits)
    have "low_bits bits acc = quintet_bits (quintet acc (bits - 5)) @ low_bits (bits - 5) acc"
      using low_bits_quintet [of "bits - 5" acc] True by simp
    with "1.IH" [OF True e(1)] e(2) show ?thesis by (simp add: quintet_less)
  next
    case False
    then show ?thesis using "1.prems" by (subst (asm) emit_quintets.simps) auto
  qed
qed

text \<open>The stream of the characters is the stream of the bytes, padded by less than one character.\<close>

lemma low_bits_0 [simp]: "low_bits 0 w = []"
  by (simp add: low_bits_def)

lemma encode_quintets_bits:
  "bits < 5 \<Longrightarrow> \<exists>pad. concat (map quintet_bits (encode_quintets acc bits bs))
      = low_bits bits acc @ concat (map (low_bits 8) bs) @ pad \<and> length pad < 5
    \<and> (\<forall>q \<in> set (encode_quintets acc bits bs). q < 32)"
proof (induction bs arbitrary: acc bits)
  case Nil
  show ?case
  proof (cases "0 < bits")
    case True
    define q where "q = unat (push_bit (5 - bits) acc AND 31)"
    have q: "of_nat q = take_bit 5 (push_bit (5 - bits) acc)"
      by (simp add: q_def mask_words take_bit_eq_mask [symmetric])
    have "q < 32"
      using quintet_less [of "push_bit (5 - bits) acc" 0] by (simp add: q_def quintet_def)
    have "low_bits (bits + (5 - bits)) (of_nat q :: 32 word) = low_bits bits acc @ low_bits (5 - bits) (0 :: 32 word)"
      unfolding q by (rule low_bits_split) (use Nil.prems in \<open>auto simp: bit_simps\<close>)
    then have "quintet_bits q = low_bits bits acc @ low_bits (5 - bits) (0 :: 32 word)"
      using Nil.prems by (simp add: quintet_bits_def)
    with \<open>q < 32\<close> show ?thesis
      using True by (intro exI [of _ "low_bits (5 - bits) (0 :: 32 word)"]) (simp add: q_def)
  qed (simp add: Nil)
next
  case (Cons b bs)
  define acc' where "acc' = push_bit 8 acc OR ucast b"
  obtain qs rest where e: "emit_quintets acc' (bits + 8) = (qs, rest)" by fastforce
  note em = emit_quintets_bits [OF e]
  have "low_bits 8 (ucast b :: 32 word) = low_bits 8 b"
    by (rule nth_equalityI) (auto simp: nth_low_bits bit_simps)
  then have "low_bits (bits + 8) acc' = low_bits bits acc @ low_bits 8 b"
    unfolding acc'_def using Cons.prems by (subst push_or_bits) (auto simp: bit_simps dest: bit_imp_le_length)
  with em have stream: "concat (map quintet_bits qs) @ low_bits rest acc' = low_bits bits acc @ low_bits 8 b" by simp
  obtain pad where "concat (map quintet_bits (encode_quintets acc' rest bs))
      = low_bits rest acc' @ concat (map (low_bits 8) bs) @ pad" "length pad < 5"
      "\<forall>q \<in> set (encode_quintets acc' rest bs). q < 32"
    using Cons.IH [of rest acc'] em by blast
  moreover have "encode_quintets acc bits (b # bs) = qs @ encode_quintets acc' rest bs"
    by (simp add: acc'_def [symmetric] e Let_def)
  ultimately show ?case
    using em stream by (intro exI [of _ pad]) (auto simp flip: append_assoc)
qed

text \<open>Decoding reads whole bytes off the stream and leaves less than one.\<close>

lemma decode_quintets_bits:
  "bits < 8 \<Longrightarrow> \<forall>q \<in> set qs. q < 32 \<Longrightarrow>
    \<exists>rest. low_bits bits acc @ concat (map quintet_bits qs) = concat (map (low_bits 8) (decode_quintets acc bits qs)) @ rest
      \<and> length rest < 8"
proof (induction qs arbitrary: acc bits)
  case (Cons q qs)
  define acc' where "acc' = push_bit 5 acc OR of_nat q"
  have stream: "low_bits (bits + 5) acc' = low_bits bits acc @ quintet_bits q"
    unfolding acc'_def quintet_bits_def using Cons.prems by (intro push_or_bits) (auto dest: quintet_bits_low)
  show ?case
  proof (cases "8 \<le> bits + 5")
    case True
    define byte :: byte where "byte = ucast (drop_bit (bits - 3) acc' AND 0xFF)"
    have "low_bits (8 + (bits - 3)) acc' = low_bits 8 byte @ low_bits (bits - 3) acc'"
      unfolding byte_def by (rule low_bits_split) (auto simp: bit_simps mask_words add.commute)
    then have split: "low_bits bits acc @ quintet_bits q = low_bits 8 byte @ low_bits (bits - 3) acc'"
      using True stream by (simp add: add.commute)
    obtain rest where "low_bits (bits - 3) acc' @ concat (map quintet_bits qs)
        = concat (map (low_bits 8) (decode_quintets acc' (bits - 3) qs)) @ rest" "length rest < 8"
      using Cons.IH [of "bits - 3" acc'] Cons.prems by (auto simp: less_imp_diff_less)
    moreover have "low_bits bits acc @ quintet_bits q @ concat (map quintet_bits qs)
        = low_bits 8 byte @ low_bits (bits - 3) acc' @ concat (map quintet_bits qs)"
      using split by (metis append_assoc)
    ultimately show ?thesis
      using True by (intro exI [of _ rest]) (simp add: Let_def acc'_def [symmetric] byte_def [symmetric])
  next
    case False
    then have "bits + 5 < 8" by simp
    with Cons.IH [of "bits + 5" acc'] Cons.prems stream False show ?thesis
      by (simp add: Let_def acc'_def [symmetric] flip: append_assoc)
  qed
qed simp

lemma concat_low_bits_inj:
  "concat (map (low_bits 8) (xs :: byte list)) = concat (map (low_bits 8) ys) \<Longrightarrow> xs = ys"
proof (induction xs arbitrary: ys)
  case Nil
  then have "length (concat (map (low_bits 8) ys)) = 0" by simp
  then show ?case by (cases ys) simp_all
next
  case (Cons x xs)
  then have "length (concat (map (low_bits 8) ys)) \<noteq> 0" by (metis append_is_Nil_conv concat.simps(2) length_0_conv
        length_low_bits list.simps(9) zero_neq_numeral)
  then obtain y ys' where ys: "ys = y # ys'" by (cases ys) simp_all
  with Cons.prems have "low_bits 8 x = low_bits 8 y" "concat (map (low_bits 8) xs) = concat (map (low_bits 8) ys')"
    by (simp_all add: append_eq_append_conv)
  with Cons.IH ys low_bits_inj [of x y] show ?case by simp
qed

lemma decode_encode_quintets: "decode_quintets 0 0 (encode_quintets 0 0 bytes) = bytes"
proof -
  let ?qs = "encode_quintets 0 0 bytes"
  obtain pad where pad: "concat (map quintet_bits ?qs) = concat (map (low_bits 8) bytes) @ pad" "length pad < 5"
    and small: "\<forall>q \<in> set ?qs. q < 32"
    using encode_quintets_bits [of 0 0 bytes] by auto
  obtain rest where rest: "concat (map quintet_bits ?qs) = concat (map (low_bits 8) (decode_quintets 0 0 ?qs)) @ rest"
    "length rest < 8"
    using decode_quintets_bits [of 0 ?qs 0] small by auto
  have len: "length (concat (map (low_bits 8) xs)) = 8 * length xs" for xs :: "byte list"
    by (induction xs) simp_all
  from pad rest have eq: "concat (map (low_bits 8) (decode_quintets 0 0 ?qs)) @ rest = concat (map (low_bits 8) bytes) @ pad"
    by simp
  then have "8 * length (decode_quintets 0 0 ?qs) + length rest = 8 * length bytes + length pad"
    using len by (metis length_append)
  then have "length (decode_quintets 0 0 ?qs) = length bytes" using pad(2) rest(2) by linarith
  with eq have "concat (map (low_bits 8) (decode_quintets 0 0 ?qs)) = concat (map (low_bits 8) bytes)"
    by (simp add: append_eq_append_conv len)
  then show ?thesis by (rule concat_low_bits_inj)
qed

section \<open>The alphabet\<close>

lemma index_of_alphabet:
  assumes "n < 32"
  shows "index_of (base32_char n) BASE32_ALPHABET = Some n" and "base32_char n \<noteq> CHR ''=''"
    and "upper_char (base32_char n) = base32_char n"
proof -
  have "\<forall>n \<in> set [0..<32]. index_of (base32_char n) BASE32_ALPHABET = Some n
      \<and> base32_char n \<noteq> CHR ''='' \<and> upper_char (base32_char n) = base32_char n"
    by code_simp
  with assms show "index_of (base32_char n) BASE32_ALPHABET = Some n" "base32_char n \<noteq> CHR ''=''"
    "upper_char (base32_char n) = base32_char n"
    by simp_all
qed

lemma normalize_encoded:
  "\<forall>q \<in> set qs. q < 32 \<Longrightarrow> normalize_base32 (map base32_char qs) = map base32_char qs"
proof -
  assume qs: "\<forall>q \<in> set qs. q < 32"
  then have "map upper_char (map base32_char qs) = map base32_char qs"
    by (simp add: index_of_alphabet)
  moreover have "dropWhile (\<lambda>c. c = CHR ''='') (rev (map base32_char qs)) = rev (map base32_char qs)"
    using qs index_of_alphabet(2) by (cases "qs = []") (simp_all add: dropWhile_eq_self_iff hd_rev last_map)
  ultimately show ?thesis by (simp only: normalize_base32_def rev_rev_ident)
qed

lemma those_Some: "those (map (\<lambda>x. Some (f x)) xs) = Some (map f xs)"
  by (induction xs) simp_all

text \<open>
  C36. The Base32 text of a secret decodes to the same bytes, for every length, although the
  accumulators of both loops overflow.
\<close>

theorem base32_roundtrip: "decode_base32 (encode_base32 bytes) = Some bytes"
proof -
  let ?qs = "encode_quintets 0 0 bytes"
  have small: "\<forall>q \<in> set ?qs. q < 32" using encode_quintets_bits [of 0 0 bytes] by auto
  then have "map ((\<lambda>c. index_of c BASE32_ALPHABET) \<circ> base32_char) ?qs = map (\<lambda>q. Some (id q)) ?qs"
    using index_of_alphabet by (auto simp: comp_def)
  then have "those (map (\<lambda>c. index_of c BASE32_ALPHABET) (map base32_char ?qs)) = Some ?qs"
    by (simp only: map_map those_Some) simp
  then show ?thesis
    by (simp add: decode_base32_def encode_base32_def normalize_encoded [OF small] decode_encode_quintets)
qed

section \<open>What a verification accepts\<close>

lemma try_steps_Some:
  "try_steps hmac secret token after steps = Some (Some s) \<Longrightarrow>
     s \<in> set steps \<and> 0 \<le> s \<and> (\<forall>a. after = Some a \<longrightarrow> a < s)
     \<and> generate_totp_code hmac secret (s * TOTP_PERIOD_SECONDS) = Some token"
  by (induction steps) (auto split: if_splits option.splits)

lemma verify_totp_accepts:
  assumes "verify_totp_code hmac secret token after now = Some (Some s)"
  shows "\<bar>s - now div 30\<bar> \<le> 1" "0 \<le> s" "\<And>a. after = Some a \<Longrightarrow> a < s"
    "generate_totp_code hmac secret (s * TOTP_PERIOD_SECONDS) = Some token"
proof -
  have "try_steps hmac secret token after [now div 30 - 1, now div 30, now div 30 + 1] = Some (Some s)"
    using assms by (simp only: verify_totp_code_def Let_def TOTP_PERIOD_SECONDS_def split: if_split_asm) simp
  from try_steps_Some [OF this] show "\<bar>s - now div 30\<bar> \<le> 1" "0 \<le> s" "\<And>a. after = Some a \<Longrightarrow> a < s"
    "generate_totp_code hmac secret (s * TOTP_PERIOD_SECONDS) = Some token"
    by auto
qed

lemma try_steps_fresh:
  assumes "generate_totp_code hmac secret (s * TOTP_PERIOD_SECONDS) = Some token" and "s \<in> set steps" and "0 \<le> s"
    and "\<forall>a. after = Some a \<longrightarrow> a < s"
  shows "\<exists>u. try_steps hmac secret token after steps = Some (Some u)"
  using assms(2)
proof (induction steps)
  case (Cons x steps)
  have "generate_totp_code hmac secret (x * TOTP_PERIOD_SECONDS) \<noteq> None"
    using assms(1) by (auto simp: generate_totp_code_def split: option.splits)
  with Cons assms show ?case by (auto split: option.splits)
qed simp

text \<open>The code that an authenticator shows now is accepted, unless its step has been used.\<close>

lemma fresh_code_accepted:
  assumes "generate_totp_code hmac secret now = Some token" and "is_six_digits token" and "0 \<le> now"
    and "\<forall>a. after = Some a \<longrightarrow> a < now div 30"
  shows "\<exists>s. verify_totp_code hmac secret token after now = Some (Some s)"
proof -
  have "generate_totp_code hmac secret (now div TOTP_PERIOD_SECONDS * TOTP_PERIOD_SECONDS) = Some token"
    using assms(1) by (auto simp: generate_totp_code_def TOTP_PERIOD_SECONDS_def split: option.splits)
  then have "\<exists>u. try_steps hmac secret token after [now div TOTP_PERIOD_SECONDS - 1, now div TOTP_PERIOD_SECONDS,
      now div TOTP_PERIOD_SECONDS + 1] = Some (Some u)"
    by (rule try_steps_fresh) (use assms in \<open>simp_all add: TOTP_PERIOD_SECONDS_def\<close>)
  then show ?thesis using assms(2) by (simp only: verify_totp_code_def Let_def not_not if_False not_True_eq_False)
qed

end
