(* ===== verification/Admin_Mfa.thy ===== *)
theory Admin_Mfa
  imports Admin_Totp Auth Deposit_Service Platform
begin

text \<open>
  The second factor and the sessions of operators (\<open>admin/admin-mfa.service.ts\<close>,
  \<open>admin/admin-session.service.ts\<close>, \<open>admin/admin-session.guard.ts\<close>): setting up a TOTP secret, the
  step-up by a code or a recovery code, and the short cookie sessions that admit to the
  operators' API. HMAC, SHA-256, AES-GCM, the base64 codecs and random values are arguments.
\<close>

section \<open>State\<close>

datatype admin_capability = Cap_MODERATION | Cap_SUPPORT | Cap_KYC_REVIEW | Cap_FINANCE | Cap_DISPUTE

record mfa_credential =
  mfa_userId :: string
  mfa_totpSecretEncrypted :: string
  mfa_lastTotpStep :: int

record recovery_code =
  rc_userId :: string
  rc_codeHash :: string
  rc_usedAt :: "timestamp option"

text \<open>The column \<open>adminCapabilities\<close> of the users is a table of its own here.\<close>

record admin_world =
  mw_db :: db
  mw_redis :: redis
  mw_credentials :: "mfa_credential list"
  mw_recovery :: "recovery_code list"
  mw_capabilities :: "string \<Rightarrow> admin_capability list"

type_synonym 'a admin_outcome = "admin_world \<times> 'a result"

record admin_tools =
  mt_hmac :: "byte list \<Rightarrow> byte list \<Rightarrow> byte list"
  mt_sha256 :: "string \<Rightarrow> string"
  mt_cipher :: "string \<Rightarrow> string \<Rightarrow> string \<Rightarrow> string \<times> string"
  mt_decipher :: "string \<Rightarrow> string \<Rightarrow> string \<Rightarrow> string \<Rightarrow> string option"
  mt_base64url :: "string \<Rightarrow> string"
  mt_unbase64url :: "string \<Rightarrow> string"
  mt_unbase64 :: "string \<Rightarrow> string"

definition MFA_SETUP_TTL_SECONDS :: int where "MFA_SETUP_TTL_SECONDS = 600"
definition MFA_ATTEMPT_TTL_SECONDS :: int where "MFA_ATTEMPT_TTL_SECONDS = 300"
definition MAX_MFA_ATTEMPTS :: nat where "MAX_MFA_ATTEMPTS = 5"
definition RECOVERY_CODE_COUNT :: nat where "RECOVERY_CODE_COUNT = 10"

definition setup_key :: "string \<Rightarrow> string" where
  "setup_key userId = ''auth:admin-mfa-setup:'' @ userId"

definition attempt_key :: "string \<Rightarrow> string" where
  "attempt_key userId = ''auth:admin-mfa-attempt:'' @ userId"

section \<open>The encrypted secret\<close>

definition mfa_config_error :: http_error where
  "mfa_config_error = Internal_error ''ADMIN_MFA_ENCRYPTION_KEY''"

definition encryption_key :: "admin_tools \<Rightarrow> config \<Rightarrow> string result" where
  "encryption_key tools config =
     (case config ''ADMIN_MFA_ENCRYPTION_KEY'' of
        None \<Rightarrow> Inl mfa_config_error
      | Some v \<Rightarrow>
          if v = [] \<or> take 9 v = ''change_me'' then Inl mfa_config_error
          else if length (mt_unbase64 tools v) \<noteq> 32 then Inl mfa_config_error
          else Inr (mt_unbase64 tools v))"

definition encrypt_secret :: "admin_tools \<Rightarrow> config \<Rightarrow> string \<Rightarrow> string \<Rightarrow> string result" where
  "encrypt_secret tools config iv v =
     bind_result (encryption_key tools config) (\<lambda>key.
     case mt_cipher tools key iv v of (tag, text) \<Rightarrow>
       Inr (''v1'' @ ''.'' @ mt_base64url tools iv @ ''.'' @ mt_base64url tools tag @ ''.'' @ mt_base64url tools text))"

text \<open>
  The first four parts count; a part that is missing or empty is falsy. An error of the key is
  raised inside the \<open>try\<close> and reported as the other failure.
\<close>

definition decrypt_secret :: "admin_tools \<Rightarrow> config \<Rightarrow> string \<Rightarrow> string result" where
  "decrypt_secret tools config v =
     (case split_at (CHR ''.'') v of
        version # iv # tag # text # _ \<Rightarrow>
          if version \<noteq> ''v1'' \<or> iv = [] \<or> tag = [] \<or> text = [] then Inl (Internal_error ''mfa-corrupt'')
          else (case encryption_key tools config of
             Inl _ \<Rightarrow> Inl (Internal_error ''mfa-decrypt'')
           | Inr key \<Rightarrow>
               (case mt_decipher tools key (mt_unbase64url tools iv) (mt_unbase64url tools tag) (mt_unbase64url tools text) of
                  None \<Rightarrow> Inl (Internal_error ''mfa-decrypt'')
                | Some s \<Rightarrow> Inr s))
      | _ \<Rightarrow> Inl (Internal_error ''mfa-corrupt''))"

section \<open>Setting up the second factor\<close>

definition find_credential :: "string \<Rightarrow> admin_world \<Rightarrow> mfa_credential option" where
  "find_credential userId w = List.find (\<lambda>c. mfa_userId c = userId) (mw_credentials w)"

definition audit_admin :: "string \<Rightarrow> string \<Rightarrow> admin_world \<Rightarrow> admin_world" where
  "audit_admin userId action w =
     w\<lparr>mw_db := write_audit (Some userId) action ''User'' (Some userId) None (mw_db w)\<rparr>"

text \<open>The secret is 20 random bytes in Base32; the answer shows it once.\<close>

definition begin_totp_setup ::
    "admin_tools \<Rightarrow> config \<Rightarrow> byte list \<Rightarrow> string \<Rightarrow> string \<Rightarrow> timestamp \<Rightarrow> admin_world \<Rightarrow> string admin_outcome" where
  "begin_totp_setup tools config random iv userId now w =
     (if find_credential userId w \<noteq> None then (w, Inl (Conflict ''totp-enabled''))
      else
        let secret = encode_base32 random
        in case encrypt_secret tools config iv secret of
             Inl e \<Rightarrow> (w, Inl e)
           | Inr enc \<Rightarrow>
               (audit_admin userId ''ADMIN_MFA_SETUP_STARTED''
                  (w\<lparr>mw_redis := redis_set now (setup_key userId) (R_string enc) MFA_SETUP_TTL_SECONDS (mw_redis w)\<rparr>),
                Inr secret))"

text \<open>A recovery code: ten random bytes in hexadecimal, upper case, in groups of four.\<close>

definition hex_digit :: "nat \<Rightarrow> char" where
  "hex_digit n = ''0123456789ABCDEF'' ! n"

fun groups_of_four :: "string \<Rightarrow> string" where
  "groups_of_four (a # b # c # d # e # rest) = a # b # c # d # CHR ''-'' # groups_of_four (e # rest)"
| "groups_of_four s = s"

definition recovery_code_text :: "byte list \<Rightarrow> string" where
  "recovery_code_text bytes =
     groups_of_four (concat (map (\<lambda>b. [hex_digit (unat b div 16), hex_digit (unat b mod 16)]) bytes))"

definition hash_recovery_code :: "admin_tools \<Rightarrow> string \<Rightarrow> string" where
  "hash_recovery_code tools code = mt_sha256 tools (map upper_char code)"

text \<open>
  The transaction of the confirmation: one credential per user, unique hashes of the recovery
  codes; a violation of either is reported as an enabled second factor.
\<close>

definition store_credential ::
    "admin_tools \<Rightarrow> string \<Rightarrow> string \<Rightarrow> int \<Rightarrow> string list \<Rightarrow> admin_world \<Rightarrow> admin_world result" where
  "store_credential tools userId enc step codes w =
     (let hashes = map (hash_recovery_code tools) codes
      in if find_credential userId w \<noteq> None \<or> \<not> distinct hashes
           \<or> exists_row (\<lambda>c. rc_codeHash c \<in> set hashes) (mw_recovery w)
         then Inl (Conflict ''totp-enabled'')
         else Inr (audit_admin userId ''ADMIN_MFA_ENABLED''
           (w\<lparr>mw_credentials := mw_credentials w
                @ [\<lparr>mfa_userId = userId, mfa_totpSecretEncrypted = enc, mfa_lastTotpStep = step\<rparr>],
              mw_recovery := mw_recovery w
                @ map (\<lambda>h. \<lparr>rc_userId = userId, rc_codeHash = h, rc_usedAt = None\<rparr>) hashes\<rparr>)))"

definition js_seconds :: "timestamp \<Rightarrow> int" where
  "js_seconds now = now div 1000"

definition confirm_totp_setup ::
    "admin_tools \<Rightarrow> config \<Rightarrow> byte list list \<Rightarrow> string \<Rightarrow> string \<Rightarrow> string \<Rightarrow> timestamp \<Rightarrow> admin_world
      \<Rightarrow> string list admin_outcome" where
  "confirm_totp_setup tools config randoms iv userId code now w =
     (case redis_get now (setup_key userId) (mw_redis w) of
        Some (R_string enc) \<Rightarrow>
          if enc = [] then (w, Inl (Unauthorized ''totp-setup-expired''))
          else (case decrypt_secret tools config enc of
             Inl e \<Rightarrow> (w, Inl e)
           | Inr secret \<Rightarrow>
               (case verify_totp_code (mt_hmac tools) secret code None (js_seconds now) of
                  None \<Rightarrow> (w, Inl (Plain_error ''totp-secret''))
                | Some None \<Rightarrow> (w, Inl (Unauthorized ''totp-code''))
                | Some (Some step) \<Rightarrow>
                    (let codes = map recovery_code_text randoms
                     in case bind_result (encrypt_secret tools config iv secret)
                            (\<lambda>enc'. store_credential tools userId enc' step codes w) of
                          Inl e \<Rightarrow> (w, Inl e)
                        | Inr w' \<Rightarrow> (w'\<lparr>mw_redis := redis_del (setup_key userId) (mw_redis w')\<rparr>, Inr codes))))
      | _ \<Rightarrow> (w, Inl (Unauthorized ''totp-setup-expired'')))"

section \<open>The step-up\<close>

definition register_attempt :: "string \<Rightarrow> timestamp \<Rightarrow> admin_world \<Rightarrow> unit admin_outcome" where
  "register_attempt userId now w =
     (case redis_incr_plain now (attempt_key userId) (mw_redis w) of
        (r, attempts) \<Rightarrow>
          (w\<lparr>mw_redis := if attempts = 1 then redis_expire now (attempt_key userId) MFA_ATTEMPT_TTL_SECONDS r else r\<rparr>,
           if MAX_MFA_ATTEMPTS < attempts then Inl (Too_many_requests ''mfa-attempts'') else Inr ()))"

text \<open>The update repeats the condition on the last step, so that two requests cannot share a code.\<close>

definition advance_step :: "string \<Rightarrow> int \<Rightarrow> admin_world \<Rightarrow> unit admin_outcome" where
  "advance_step userId step w =
     (let p = (\<lambda>c. mfa_userId c = userId \<and> mfa_lastTotpStep c < step)
      in if count_rows p (mw_credentials w) \<noteq> 1 then (w, Inl (Unauthorized ''mfa-code-used''))
         else (w\<lparr>mw_credentials := update_rows p (\<lambda>c. c\<lparr>mfa_lastTotpStep := step\<rparr>) (mw_credentials w)\<rparr>, Inr ()))"

definition verify_totp ::
    "admin_tools \<Rightarrow> config \<Rightarrow> string \<Rightarrow> string \<Rightarrow> timestamp \<Rightarrow> admin_world \<Rightarrow> unit admin_outcome" where
  "verify_totp tools config userId code now w =
     (case find_credential userId w of
        None \<Rightarrow> (w, Inl (Unauthorized ''totp-not-enabled''))
      | Some c \<Rightarrow>
          (case decrypt_secret tools config (mfa_totpSecretEncrypted c) of
             Inl e \<Rightarrow> (w, Inl e)
           | Inr secret \<Rightarrow>
               (case verify_totp_code (mt_hmac tools) secret code (Some (mfa_lastTotpStep c)) (js_seconds now) of
                  None \<Rightarrow> (w, Inl (Plain_error ''totp-secret''))
                | Some None \<Rightarrow> (w, Inl (Unauthorized ''mfa-code''))
                | Some (Some step) \<Rightarrow> advance_step userId step w)))"

definition consume_recovery_code ::
    "admin_tools \<Rightarrow> string \<Rightarrow> string \<Rightarrow> timestamp \<Rightarrow> admin_world \<Rightarrow> unit admin_outcome" where
  "consume_recovery_code tools userId code now w =
     (let p = (\<lambda>c. rc_userId c = userId \<and> rc_codeHash c = hash_recovery_code tools code \<and> rc_usedAt c = None)
      in if count_rows p (mw_recovery w) \<noteq> 1 then (w, Inl (Unauthorized ''recovery-code''))
         else (audit_admin userId ''ADMIN_RECOVERY_CODE_USED''
                 (w\<lparr>mw_recovery := update_rows p (\<lambda>c. c\<lparr>rc_usedAt := Some now\<rparr>) (mw_recovery w)\<rparr>), Inr ()))"

definition verify_step_up ::
    "admin_tools \<Rightarrow> config \<Rightarrow> string \<Rightarrow> string \<Rightarrow> timestamp \<Rightarrow> admin_world \<Rightarrow> unit admin_outcome" where
  "verify_step_up tools config userId rawCode now w =
     (case register_attempt userId now w of
        (w1, Inl e) \<Rightarrow> (w1, Inl e)
      | (w1, Inr _) \<Rightarrow>
          (let code = map upper_char rawCode
           in case (if is_six_digits code then verify_totp tools config userId code now w1
                    else consume_recovery_code tools userId code now w1) of
                (w2, Inl e) \<Rightarrow> (w2, Inl e)
              | (w2, Inr _) \<Rightarrow> (w2\<lparr>mw_redis := redis_del (attempt_key userId) (mw_redis w2)\<rparr>, Inr ())))"

end
