(* ===== verification/Admin_Session.thy ===== *)
theory Admin_Session
  imports Admin_Mfa
begin

text \<open>
  Sessions of operators (\<open>admin/admin-session.service.ts\<close>, \<open>admin/admin-session.guard.ts\<close>): a step-up
  opens a session of at most 15 minutes under a random id, bound to the account's session
  version and to a CSRF token of which only the hash is stored; the guard checks cookie, token,
  account and capabilities on every request.
\<close>

definition MAX_ADMIN_SESSION_SECONDS :: int where "MAX_ADMIN_SESSION_SECONDS = 900"

definition ADMIN_SESSION_COOKIE :: string where
  "ADMIN_SESSION_COOKIE = ''__Host-sosedi_admin''"

definition admin_session_key :: "string \<Rightarrow> string" where
  "admin_session_key sessionId = ''auth:admin-session:'' @ sessionId"

record admin_auth_user =
  aau_id :: string
  aau_phone :: string
  aau_capabilities :: "admin_capability list"
  aau_sessionVersion :: int

record admin_session_response =
  asr_sessionId :: string
  asr_csrfToken :: string
  asr_expiresInSeconds :: int

text \<open>The account that an operator's session needs.\<close>

definition is_active_admin :: "user_row \<Rightarrow> bool" where
  "is_active_admin u \<longleftrightarrow> us_role u = Role_ADMIN \<and> \<not> us_isBlocked u \<and> us_deletedAt u = None"

definition get_admin_session_ttl :: "config \<Rightarrow> int result" where
  "get_admin_session_ttl config =
     bind_result (parse_duration_to_seconds (case config ''ADMIN_SESSION_EXPIRES_IN'' of None \<Rightarrow> ''5m'' | Some v \<Rightarrow> v)) (\<lambda>seconds.
     if seconds < 1 \<or> MAX_ADMIN_SESSION_SECONDS < seconds then Inl (Internal_error ''ADMIN_SESSION_EXPIRES_IN'')
     else Inr seconds)"

definition step_up ::
    "admin_tools \<Rightarrow> config \<Rightarrow> string \<Rightarrow> string \<Rightarrow> string \<Rightarrow> string \<Rightarrow> timestamp \<Rightarrow> admin_world
      \<Rightarrow> admin_session_response admin_outcome" where
  "step_up tools config sessionId csrfToken userId code now w =
     (case find_user (mw_db w) userId of
        None \<Rightarrow> (w, Inl (Unauthorized ''admin-revoked''))
      | Some user \<Rightarrow>
          if \<not> is_active_admin user then (w, Inl (Unauthorized ''admin-revoked''))
          else (case get_admin_session_ttl config of
             Inl e \<Rightarrow> (w, Inl e)
           | Inr ttl \<Rightarrow>
               (case verify_step_up tools config userId code now w of
                  (w1, Inl e) \<Rightarrow> (w1, Inl e)
                | (w1, Inr _) \<Rightarrow>
                    (let w2 = audit_admin userId ''ADMIN_STEP_UP_SUCCEEDED'' w1;
                         stored = R_admin_session (us_id user) (us_sessionVersion user) (mt_sha256 tools csrfToken)
                     in (w2\<lparr>mw_redis := redis_set now (admin_session_key sessionId) stored ttl (mw_redis w2)\<rparr>,
                         Inr \<lparr>asr_sessionId = sessionId, asr_csrfToken = csrfToken, asr_expiresInSeconds = ttl\<rparr>)))))"

text \<open>
  The stored session, or an error. A value that does not have the form of a session is deleted.
\<close>

definition get_stored_session :: "string \<Rightarrow> timestamp \<Rightarrow> admin_world \<Rightarrow> (string \<times> int \<times> string) admin_outcome" where
  "get_stored_session sessionId now w =
     (case redis_get now (admin_session_key sessionId) (mw_redis w) of
        None \<Rightarrow> (w, Inl (Unauthorized ''admin-session''))
      | Some (R_admin_session userId version csrfHash) \<Rightarrow> (w, Inr (userId, version, csrfHash))
      | Some _ \<Rightarrow> (w\<lparr>mw_redis := redis_del (admin_session_key sessionId) (mw_redis w)\<rparr>,
                   Inl (Unauthorized ''admin-session'')))"

definition authenticate ::
    "admin_tools \<Rightarrow> string \<Rightarrow> string option \<Rightarrow> timestamp \<Rightarrow> admin_world \<Rightarrow> admin_auth_user admin_outcome" where
  "authenticate tools sessionId csrfToken now w =
     (case get_stored_session sessionId now w of
        (w1, Inl e) \<Rightarrow> (w1, Inl e)
      | (w1, Inr (userId, version, csrfHash)) \<Rightarrow>
          if (case csrfToken of None \<Rightarrow> False | Some t \<Rightarrow> mt_sha256 tools t \<noteq> csrfHash)
          then (w1, Inl (Forbidden ''csrf''))
          else
            let revoked = (w1\<lparr>mw_redis := redis_del (admin_session_key sessionId) (mw_redis w1)\<rparr>,
                           Inl (Unauthorized ''admin-session-revoked''))
            in case find_user (mw_db w1) userId of
                 None \<Rightarrow> revoked
               | Some u \<Rightarrow>
                   if \<not> is_active_admin u \<or> version \<noteq> us_sessionVersion u then revoked
                   else (w1, Inr \<lparr>aau_id = us_id u, aau_phone = us_phone u,
                          aau_capabilities = mw_capabilities w1 (us_id u), aau_sessionVersion = us_sessionVersion u\<rparr>))"

definition revoke_admin_session :: "string \<Rightarrow> string \<Rightarrow> admin_world \<Rightarrow> admin_world" where
  "revoke_admin_session sessionId adminId w =
     audit_admin adminId ''ADMIN_SESSION_REVOKED''
       (w\<lparr>mw_redis := redis_del (admin_session_key sessionId) (mw_redis w)\<rparr>)"

definition remaining_seconds :: "string \<Rightarrow> timestamp \<Rightarrow> admin_world \<Rightarrow> int result" where
  "remaining_seconds sessionId now w =
     (let seconds = redis_ttl now (admin_session_key sessionId) (mw_redis w)
      in if seconds < 1 then Inl (Unauthorized ''admin-session-expired'') else Inr seconds)"

section \<open>The guard\<close>

text \<open>\<open>getCookie\<close>: the first part with the name decides; an empty value is none.\<close>

fun find_cookie :: "string \<Rightarrow> string list \<Rightarrow> string option" where
  "find_cookie name [] = None"
| "find_cookie name (part # parts) =
     (let key = takeWhile (\<lambda>c. c \<noteq> CHR ''='') part; rest = dropWhile (\<lambda>c. c \<noteq> CHR ''='') part
      in if rest = [] \<or> js_trim key \<noteq> name then find_cookie name parts
         else if js_trim (tl rest) = [] then None else Some (js_trim (tl rest)))"

definition get_cookie :: "string option \<Rightarrow> string \<Rightarrow> string option" where
  "get_cookie header name = (case header of None \<Rightarrow> None | Some h \<Rightarrow> find_cookie name (split_at (CHR '';'') h))"

record admin_request =
  arq_method :: string
  arq_cookie :: "string option"
  arq_csrf :: "string option"

definition is_safe_method :: "string \<Rightarrow> bool" where
  "is_safe_method m \<longleftrightarrow> map upper_char m \<in> {''GET'', ''HEAD'', ''OPTIONS''}"

definition get_csrf_token :: "admin_request \<Rightarrow> string option result" where
  "get_csrf_token req =
     (if is_safe_method (arq_method req) then Inr None
      else case arq_csrf req of
        None \<Rightarrow> Inl (Forbidden ''csrf-required'')
      | Some v \<Rightarrow> if v = [] then Inl (Forbidden ''csrf-required'') else Inr (Some v))"

text \<open>
  \<open>required\<close> are the capabilities a handler demands together, \<open>required_any\<close> those of which one is
  enough; a handler without the decorator demands nothing.
\<close>

definition admin_session_guard ::
    "admin_tools \<Rightarrow> admin_capability list \<Rightarrow> admin_capability list \<Rightarrow> admin_request \<Rightarrow> timestamp \<Rightarrow> admin_world
      \<Rightarrow> admin_auth_user admin_outcome" where
  "admin_session_guard tools required required_any req now w =
     (case get_cookie (arq_cookie req) ADMIN_SESSION_COOKIE of
        None \<Rightarrow> (w, Inl (Unauthorized ''admin-session-required''))
      | Some sessionId \<Rightarrow>
          (case get_csrf_token req of
             Inl e \<Rightarrow> (w, Inl e)
           | Inr csrf \<Rightarrow>
               (case authenticate tools sessionId csrf now w of
                  (w1, Inl e) \<Rightarrow> (w1, Inl e)
                | (w1, Inr user) \<Rightarrow>
                    if list_ex (\<lambda>c. c \<notin> set (aau_capabilities user)) required
                    then (w1, Inl (Forbidden ''capabilities''))
                    else if required_any \<noteq> [] \<and> \<not> list_ex (\<lambda>c. c \<in> set (aau_capabilities user)) required_any
                    then (w1, Inl (Forbidden ''capabilities''))
                    else (w1, Inr user))))"

end
