(* ===== verification/Admin_Properties.thy ===== *)
theory Admin_Properties
  imports Admin_Session Sample_Data
begin

text \<open>
  What the second factor and the sessions of operators promise: a one-time code is used once, the
  number of attempts is limited, the stored secret reads back, and the guard admits an active
  operator with the capabilities of the handler only.
\<close>

section \<open>The last used time step\<close>

definition last_step :: "string \<Rightarrow> admin_world \<Rightarrow> int option" where
  "last_step userId w = map_option mfa_lastTotpStep (find_credential userId w)"

text \<open>No operation lowers the last step of a user or removes his credential.\<close>

definition steps_grow :: "admin_world \<Rightarrow> admin_world \<Rightarrow> bool" where
  "steps_grow w w' \<longleftrightarrow> (\<forall>u s. last_step u w = Some s \<longrightarrow> (\<exists>s'. last_step u w' = Some s' \<and> s \<le> s'))"

lemma steps_grow_same: "mw_credentials w' = mw_credentials w \<Longrightarrow> steps_grow w w'"
  by (auto simp: steps_grow_def last_step_def find_credential_def)

lemma steps_grow_trans: "steps_grow v w \<Longrightarrow> steps_grow w x \<Longrightarrow> steps_grow v x"
  unfolding steps_grow_def by (meson order_trans)

lemma audit_admin_frame [simp]:
  "mw_credentials (audit_admin u a w) = mw_credentials w" "mw_redis (audit_admin u a w) = mw_redis w"
  "mw_recovery (audit_admin u a w) = mw_recovery w" "mw_capabilities (audit_admin u a w) = mw_capabilities w"
  by (simp_all add: audit_admin_def)

lemma register_attempt_frame:
  assumes "register_attempt u now w = (w', r)"
  shows "mw_credentials w' = mw_credentials w" "mw_recovery w' = mw_recovery w" "mw_db w' = mw_db w"
  using assms by (auto simp: register_attempt_def split: prod.splits)

lemma advance_step_effect:
  assumes "advance_step u s w = (w', r)"
  shows "steps_grow w w'" and "r = Inr () \<Longrightarrow> last_step u w \<noteq> None \<Longrightarrow> the (last_step u w) < s \<Longrightarrow> last_step u w' = Some s"
proof -
  let ?p = "\<lambda>c. mfa_userId c = u \<and> mfa_lastTotpStep c < s"
  have eff: "w' = w \<and> r \<noteq> Inr () \<or> mw_credentials w' = update_rows ?p (\<lambda>c. c\<lparr>mfa_lastTotpStep := s\<rparr>) (mw_credentials w)"
    using assms by (auto simp: advance_step_def Let_def split: if_splits)
  have found: "find_credential v w' = map_option (\<lambda>c. if ?p c then c\<lparr>mfa_lastTotpStep := s\<rparr> else c) (find_credential v w)"
    if "mw_credentials w' = update_rows ?p (\<lambda>c. c\<lparr>mfa_lastTotpStep := s\<rparr>) (mw_credentials w)" for v
    unfolding find_credential_def that by (rule find_update_rows) simp
  show "steps_grow w w'"
    using eff
  proof
    assume "mw_credentials w' = update_rows ?p (\<lambda>c. c\<lparr>mfa_lastTotpStep := s\<rparr>) (mw_credentials w)"
    note after = found [OF this]
    show ?thesis
      unfolding steps_grow_def
    proof (intro allI impI)
      fix v x assume "last_step v w = Some x"
      then obtain c where "find_credential v w = Some c" "mfa_lastTotpStep c = x" by (auto simp: last_step_def)
      with after [of v] show "\<exists>s'. last_step v w' = Some s' \<and> x \<le> s'" by (auto simp: last_step_def)
    qed
  qed (simp add: steps_grow_same)
  show "last_step u w' = Some s" if ok: "r = Inr ()" "last_step u w \<noteq> None" "the (last_step u w) < s"
  proof -
    obtain c where c: "find_credential u w = Some c" using ok(2) by (auto simp: last_step_def)
    then have "mfa_userId c = u" by (auto simp: find_credential_def dest: find_SomeD)
    with c ok eff found show ?thesis by (auto simp: last_step_def)
  qed
qed

lemma verify_totp_effect:
  assumes "verify_totp tools config u code now w = (w', r)"
  shows "steps_grow w w'"
    and "r = Inr () \<Longrightarrow> \<exists>s0 s. last_step u w = Some s0 \<and> last_step u w' = Some s \<and> s0 < s \<and> \<bar>s - now div 1000 div 30\<bar> \<le> 1"
proof -
  have "steps_grow w w' \<and> (r = Inr () \<longrightarrow>
      (\<exists>s0 s. last_step u w = Some s0 \<and> last_step u w' = Some s \<and> s0 < s \<and> \<bar>s - now div 1000 div 30\<bar> \<le> 1))"
  proof (cases "\<exists>c secret s. find_credential u w = Some c \<and> decrypt_secret tools config (mfa_totpSecretEncrypted c) = Inr secret
      \<and> verify_totp_code (mt_hmac tools) secret code (Some (mfa_lastTotpStep c)) (js_seconds now) = Some (Some s)")
    case True
    then obtain c secret s where c: "find_credential u w = Some c"
      "decrypt_secret tools config (mfa_totpSecretEncrypted c) = Inr secret"
      and v: "verify_totp_code (mt_hmac tools) secret code (Some (mfa_lastTotpStep c)) (js_seconds now) = Some (Some s)"
      by blast
    then have a: "advance_step u s w = (w', r)" using assms by (simp add: verify_totp_def)
    have "mfa_lastTotpStep c < s" "\<bar>s - now div 1000 div 30\<bar> \<le> 1"
      using verify_totp_accepts(1,3) [OF v] by (simp_all add: js_seconds_def)
    with advance_step_effect [OF a] c show ?thesis by (auto simp: last_step_def)
  next
    case False
    then have "w' = w \<and> r \<noteq> Inr ()"
      using assms by (auto simp: verify_totp_def split: option.splits sum.splits)
    then show ?thesis by (simp add: steps_grow_same)
  qed
  then show "steps_grow w w'"
    and "r = Inr () \<Longrightarrow> \<exists>s0 s. last_step u w = Some s0 \<and> last_step u w' = Some s \<and> s0 < s \<and> \<bar>s - now div 1000 div 30\<bar> \<le> 1"
    by blast+
qed

lemma consume_recovery_frame:
  assumes "consume_recovery_code tools u code now w = (w', r)"
  shows "mw_credentials w' = mw_credentials w" "mw_redis w' = mw_redis w"
  using assms by (auto simp: consume_recovery_code_def Let_def split: if_splits)

lemma last_step_redis [simp]: "last_step u (w\<lparr>mw_redis := r\<rparr>) = last_step u w"
  by (simp add: last_step_def find_credential_def)

text \<open>The step-up as its parts: the counted attempt, then the code or the recovery code.\<close>

lemma verify_step_up_cases:
  assumes "verify_step_up tools config u raw now w = (w', r)"
  obtains (limited) e where "register_attempt u now w = (w', Inl e)" "r = Inl e"
  | (tried) w1 w2 r2 where "register_attempt u now w = (w1, Inr ())"
      "(if is_six_digits (map upper_char raw) then verify_totp tools config u (map upper_char raw) now w1
        else consume_recovery_code tools u (map upper_char raw) now w1) = (w2, r2)"
      "r = r2" "w' = (case r2 of Inl _ \<Rightarrow> w2 | Inr _ \<Rightarrow> w2\<lparr>mw_redis := redis_del (attempt_key u) (mw_redis w2)\<rparr>)"
proof (cases "register_attempt u now w")
  case (Pair w1 r1)
  show ?thesis
  proof (cases r1)
    case (Inl e)
    then have "w' = w1" "r = Inl e" using assms Pair by (simp_all add: verify_step_up_def)
    then show ?thesis using limited [of e] Pair Inl by simp
  next
    case (Inr x)
    obtain w2 r2 where v: "(if is_six_digits (map upper_char raw) then verify_totp tools config u (map upper_char raw) now w1
        else consume_recovery_code tools u (map upper_char raw) now w1) = (w2, r2)" by fastforce
    have "(w', r) = (case (w2, r2) of (w2, Inl e) \<Rightarrow> (w2, Inl e)
        | (w2, Inr _) \<Rightarrow> (w2\<lparr>mw_redis := redis_del (attempt_key u) (mw_redis w2)\<rparr>, Inr ()))"
      using assms Pair Inr v by (simp add: verify_step_up_def Let_def)
    then show ?thesis using tried [OF _ v] Pair Inr by (cases r2) simp_all
  qed
qed

lemma verify_step_up_grows:
  assumes "verify_step_up tools config u raw now w = (w', r)"
  shows "steps_grow w w'"
  using assms
proof (cases rule: verify_step_up_cases)
  case (limited e)
  then show ?thesis by (intro steps_grow_same register_attempt_frame)
next
  case (tried w1 w2 r2)
  have "steps_grow w w1" by (rule steps_grow_same [OF register_attempt_frame(1) [OF tried(1)]])
  moreover have "steps_grow w1 w2"
    using tried(2) verify_totp_effect(1) consume_recovery_frame(1) steps_grow_same by (metis (full_types))
  moreover have "steps_grow w2 w'" by (rule steps_grow_same) (simp add: tried(4) split: sum.split)
  ultimately show ?thesis by (blast intro: steps_grow_trans)
qed

lemma verify_step_up_totp:
  assumes "verify_step_up tools config u raw now w = (w', Inr ())" and "is_six_digits (map upper_char raw)"
  shows "\<exists>s0 s. last_step u w = Some s0 \<and> last_step u w' = Some s \<and> s0 < s \<and> \<bar>s - now div 1000 div 30\<bar> \<le> 1"
  using assms(1)
proof (cases rule: verify_step_up_cases)
  case (limited e)
  then show ?thesis by simp
next
  case (tried w1 w2 r2)
  have w1: "last_step u w1 = last_step u w"
    using register_attempt_frame(1) [OF tried(1)] by (simp add: last_step_def find_credential_def)
  have "verify_totp tools config u (map upper_char raw) now w1 = (w2, Inr ())"
    using tried(2,3) assms(2) by simp
  from verify_totp_effect(2) [OF this] tried(3,4) w1 show ?thesis by auto
qed

section \<open>Runs of the operators' commands\<close>

inductive admin_step :: "admin_tools \<Rightarrow> config \<Rightarrow> admin_world \<Rightarrow> admin_world \<Rightarrow> bool"
  for tools config where
  begin_setup: "begin_totp_setup tools config random iv u now w = (w', r) \<Longrightarrow> admin_step tools config w w'"
| confirm: "confirm_totp_setup tools config randoms iv u code now w = (w', rs) \<Longrightarrow> admin_step tools config w w'"
| verify: "verify_step_up tools config u code now w = (w', v) \<Longrightarrow> admin_step tools config w w'"
| step_up: "step_up tools config sid csrf u code now w = (w', s) \<Longrightarrow> admin_step tools config w w'"
| authenticate: "authenticate tools sid token now w = (w', a) \<Longrightarrow> admin_step tools config w w'"
| revoke: "admin_step tools config w (revoke_admin_session sid u w)"
| other: "mw_credentials w' = mw_credentials w \<Longrightarrow> admin_step tools config w w'"

lemma store_credential_grows:
  assumes "store_credential tools u enc step codes w = Inr w'"
  shows "steps_grow w w'"
proof -
  have "mw_credentials w' = mw_credentials w @ [\<lparr>mfa_userId = u, mfa_totpSecretEncrypted = enc, mfa_lastTotpStep = step\<rparr>]"
    using assms by (auto simp: store_credential_def Let_def split: if_splits)
  then show ?thesis
    by (auto simp: steps_grow_def last_step_def find_credential_def find_append split: option.splits)
qed

lemma confirm_grows:
  assumes "confirm_totp_setup tools config randoms iv u code now w = (w', r)"
  shows "steps_grow w w'"
proof (cases "\<exists>enc' step codes w1. store_credential tools u enc' step codes w = Inr w1 \<and> mw_credentials w' = mw_credentials w1")
  case True
  then obtain enc' step codes w1 where s: "store_credential tools u enc' step codes w = Inr w1"
    and w1: "mw_credentials w' = mw_credentials w1" by blast
  show ?thesis by (rule steps_grow_trans [OF store_credential_grows [OF s] steps_grow_same [OF w1]])
next
  case False
  then have "w' = w"
    using assms
    by (auto simp: confirm_totp_setup_def Let_def bind_result_def split: option.splits redis_value.splits sum.splits if_splits)
      blast
  then show ?thesis by (simp add: steps_grow_same)
qed

lemma step_up_grows:
  assumes "step_up tools config sid csrf u code now w = (w', r)"
  shows "steps_grow w w'"
proof -
  obtain w1 r1 where v: "verify_step_up tools config u code now w = (w1, r1)" by fastforce
  have "w' = w \<or> mw_credentials w' = mw_credentials w1"
    using assms v by (auto simp: step_up_def Let_def split: option.splits sum.splits if_splits)
  then show ?thesis
    using steps_grow_trans [OF verify_step_up_grows [OF v] steps_grow_same] steps_grow_same by blast
qed

lemma admin_step_grows: "admin_step tools config w w' \<Longrightarrow> steps_grow w w'"
proof (induction rule: admin_step.induct)
  case (begin_setup random iv u now w w' r)
  then show ?case
    by (intro steps_grow_same) (auto simp: begin_totp_setup_def Let_def split: if_splits sum.splits)
next
  case (authenticate sid token now w w' a)
  then show ?case
    by (intro steps_grow_same)
      (auto simp: authenticate_def get_stored_session_def Let_def split: option.splits redis_value.splits if_splits)
qed (auto intro: confirm_grows verify_step_up_grows step_up_grows steps_grow_same simp: revoke_admin_session_def)

interpretation admin_steps: step_invariant "admin_step tools config" "steps_grow start" for tools config start
  by unfold_locales (blast intro: steps_grow_trans admin_step_grows)

text \<open>
  C37. A one-time code is used once: two successful step-ups of an operator by codes, with any other
  commands in between, use different time steps, the later one a strictly later step, and each
  step lies within one period of the moment of its use.
\<close>

theorem mfa_code_once:
  assumes "verify_step_up tools config u code1 now1 w = (w1, Inr ())" and "is_six_digits (map upper_char code1)"
    and "(admin_step tools config)\<^sup>*\<^sup>* w1 w2"
    and "verify_step_up tools config u code2 now2 w2 = (w3, Inr ())" and "is_six_digits (map upper_char code2)"
  shows "\<exists>s1 s2. last_step u w1 = Some s1 \<and> last_step u w3 = Some s2 \<and> s1 < s2
    \<and> \<bar>s1 - now1 div 1000 div 30\<bar> \<le> 1 \<and> \<bar>s2 - now2 div 1000 div 30\<bar> \<le> 1"
proof -
  have "steps_grow w1 w2" by (rule admin_steps.inv_steps [OF assms(3) steps_grow_same]) simp
  moreover obtain s1 where "last_step u w1 = Some s1" "\<bar>s1 - now1 div 1000 div 30\<bar> \<le> 1"
    using verify_step_up_totp [OF assms(1,2)] by blast
  moreover obtain s0 s2 where "last_step u w2 = Some s0" "last_step u w3 = Some s2" "s0 < s2"
    "\<bar>s2 - now2 div 1000 div 30\<bar> \<le> 1"
    using verify_step_up_totp [OF assms(4,5)] by blast
  ultimately show ?thesis unfolding steps_grow_def by fastforce
qed

section \<open>The guard\<close>

text \<open>
  C38. The guard of the operators' API is sound: a request it admits carries the cookie of a live
  session, the account of that session is an operator, neither blocked nor deleted and of the
  session's version, a request that may change something carries the token of the session,
  and the operator has every capability the handler demands. Admission changes nothing.
\<close>

theorem admin_guard_sound:
  assumes "admin_session_guard tools required required_any req now w = (w', Inr user)"
  shows "\<exists>sid u h. get_cookie (arq_cookie req) ADMIN_SESSION_COOKIE = Some sid
      \<and> redis_get now (admin_session_key sid) (mw_redis w) = Some (R_admin_session (aau_id user) (us_sessionVersion u) h)
      \<and> find_user (mw_db w) (aau_id user) = Some u \<and> us_role u = Role_ADMIN \<and> \<not> us_isBlocked u \<and> us_deletedAt u = None
      \<and> (is_safe_method (arq_method req) \<or> (\<exists>t. arq_csrf req = Some t \<and> mt_sha256 tools t = h))
      \<and> set required \<subseteq> set (mw_capabilities w (aau_id user))
      \<and> (required_any = [] \<or> set required_any \<inter> set (mw_capabilities w (aau_id user)) \<noteq> {}) \<and> w' = w"
proof -
  obtain sid where sid: "get_cookie (arq_cookie req) ADMIN_SESSION_COOKIE = Some sid"
    using assms by (auto simp: admin_session_guard_def split: option.splits)
  obtain csrf where csrf: "get_csrf_token req = Inr csrf"
    using assms sid by (auto simp: admin_session_guard_def split: sum.splits)
  have auth: "authenticate tools sid csrf now w = (w', Inr user)"
    and caps: "\<forall>c \<in> set required. c \<in> set (aau_capabilities user)"
      "required_any = [] \<or> (\<exists>c \<in> set required_any. c \<in> set (aau_capabilities user))"
    using assms sid csrf
    by (auto simp: admin_session_guard_def list_ex_iff split: prod.splits sum.splits if_splits)
  obtain uid v h where stored: "redis_get now (admin_session_key sid) (mw_redis w) = Some (R_admin_session uid v h)"
    using auth by (auto simp: authenticate_def get_stored_session_def split: option.splits redis_value.splits)
  then have got: "get_stored_session sid now w = (w, Inr (uid, v, h))" by (simp add: get_stored_session_def)
  obtain u where u: "find_user (mw_db w) uid = Some u"
    using auth got by (auto simp: authenticate_def Let_def split: option.splits if_splits)
  have id: "us_id u = uid" using u by (auto simp: find_user_def dest: find_SomeD)
  have checks: "is_active_admin u" "v = us_sessionVersion u" "aau_id user = us_id u" "w' = w"
      "aau_capabilities user = mw_capabilities w (us_id u)"
      "case csrf of None \<Rightarrow> True | Some t \<Rightarrow> mt_sha256 tools t = h"
    using auth got u by (auto simp: authenticate_def Let_def split: option.splits if_splits)
  have "is_safe_method (arq_method req) \<or> (\<exists>t. arq_csrf req = Some t \<and> mt_sha256 tools t = h)"
    using csrf checks(6) by (auto simp: get_csrf_token_def split: if_splits option.splits)
  with sid stored u id checks caps show ?thesis
    by (intro exI [of _ sid] exI [of _ u] exI [of _ h]) (auto simp: is_active_admin_def)
qed

section \<open>Operators at work\<close>

text \<open>Toy instances of the cryptographic functions: a digest that shows the counter, and codecs that copy.\<close>

definition sample_tools :: admin_tools where
  "sample_tools =
     \<lparr>mt_hmac = (\<lambda>k m. [0, 0, 0, last m] @ replicate 16 0), mt_sha256 = (\<lambda>s. ''#'' @ s),
      mt_cipher = (\<lambda>k iv t. (''t'', t)), mt_decipher = (\<lambda>k iv tag t. Some t), mt_base64url = (\<lambda>s. s),
      mt_unbase64url = (\<lambda>s. s), mt_unbase64 = (\<lambda>s. replicate 32 (CHR ''k''))\<rparr>"

definition sample_mfa_config :: config where
  "sample_mfa_config = (\<lambda>_. None)(''ADMIN_MFA_ENCRYPTION_KEY'' \<mapsto> ''key'')"

definition sample_operator :: user_row where
  "sample_operator = (sample_user ''A'')\<lparr>us_role := Role_ADMIN\<rparr>"

definition mfa_world :: admin_world where
  "mfa_world =
     \<lparr>mw_db = sample_db\<lparr>db_users := [sample_operator]\<rparr>,
      mw_redis = redis_set 0 (admin_session_key ''s1'') (R_admin_session ''A'' 0 ''#token'') 900 (\<lambda>_. None),
      mw_credentials = [\<lparr>mfa_userId = ''A'', mfa_totpSecretEncrypted = ''v1.i.t.AEBA'', mfa_lastTotpStep = 0\<rparr>],
      mw_recovery = [], mw_capabilities = (\<lambda>_. [Cap_MODERATION])\<rparr>"

definition after_first_code :: "admin_world \<times> unit result" where
  "after_first_code = verify_step_up sample_tools sample_mfa_config ''A'' ''000002'' 60000 mfa_world"

lemma sample_codes:
  "snd after_first_code = Inr ()"
  "snd (verify_step_up sample_tools sample_mfa_config ''A'' ''000004'' 120000 (fst after_first_code)) = Inr ()"
  "is_six_digits (map upper_char ''000002'')" "is_six_digits (map upper_char ''000004'')"
  by code_simp+

theorem mfa_code_once_witness:
  "\<exists>w1 w3 s1 s2. verify_step_up sample_tools sample_mfa_config ''A'' ''000002'' 60000 mfa_world = (w1, Inr ())
     \<and> verify_step_up sample_tools sample_mfa_config ''A'' ''000004'' 120000 w1 = (w3, Inr ())
     \<and> last_step ''A'' w1 = Some s1 \<and> last_step ''A'' w3 = Some s2 \<and> s1 < s2"
proof -
  obtain w1 w3 where v: "verify_step_up sample_tools sample_mfa_config ''A'' ''000002'' 60000 mfa_world = (w1, Inr ())"
    "verify_step_up sample_tools sample_mfa_config ''A'' ''000004'' 120000 w1 = (w3, Inr ())"
    using sample_codes(1,2) unfolding after_first_code_def by (metis prod.collapse)
  from mfa_code_once [OF v(1) sample_codes(3) rtranclp.rtrancl_refl v(2) sample_codes(4)] v show ?thesis by blast
qed

definition sample_admin_request :: admin_request where
  "sample_admin_request =
     \<lparr>arq_method = ''post'', arq_cookie = Some ''theme=dark; __Host-sosedi_admin=s1'', arq_csrf = Some ''token''\<rparr>"

definition guarded_request :: "admin_auth_user admin_outcome" where
  "guarded_request = admin_session_guard sample_tools [Cap_MODERATION] [] sample_admin_request 60000 mfa_world"

lemma sample_guard: "map_sum id aau_id (snd guarded_request) = Inr ''A''"
  by code_simp

theorem admin_guard_sound_witness:
  "\<exists>w' user. admin_session_guard sample_tools [Cap_MODERATION] [] sample_admin_request 60000 mfa_world = (w', Inr user)
     \<and> set [Cap_MODERATION] \<subseteq> set (mw_capabilities mfa_world (aau_id user))"
proof -
  obtain w' user where g: "admin_session_guard sample_tools [Cap_MODERATION] [] sample_admin_request 60000 mfa_world
      = (w', Inr user)"
    using sample_guard unfolding guarded_request_def by (cases "admin_session_guard sample_tools [Cap_MODERATION] []
      sample_admin_request 60000 mfa_world"; cases "snd (admin_session_guard sample_tools [Cap_MODERATION] []
      sample_admin_request 60000 mfa_world)") auto
  from admin_guard_sound [OF g] g show ?thesis by blast
qed

section \<open>The stored secret\<close>

text \<open>
  The documented behaviour of the codecs: deciphering with the key, the nonce and the tag of the
  encryption gives the text back, base64url texts contain no dot and decode, and what is not
  empty has a text that is not empty.
\<close>

definition codec_laws :: "admin_tools \<Rightarrow> bool" where
  "codec_laws tools \<longleftrightarrow>
     (\<forall>key iv t. mt_decipher tools key iv (fst (mt_cipher tools key iv t)) (snd (mt_cipher tools key iv t)) = Some t)
     \<and> (\<forall>key iv t. t \<noteq> [] \<longrightarrow> fst (mt_cipher tools key iv t) \<noteq> [] \<and> snd (mt_cipher tools key iv t) \<noteq> [])
     \<and> (\<forall>s. mt_unbase64url tools (mt_base64url tools s) = s \<and> CHR ''.'' \<notin> set (mt_base64url tools s))
     \<and> (\<forall>s. s \<noteq> [] \<longrightarrow> mt_base64url tools s \<noteq> [])"

lemma split_at_plain: "c \<notin> set s \<Longrightarrow> split_at c s = [s]"
  by (induction s) auto

lemma split_at_join: "c \<notin> set s \<Longrightarrow> split_at c (s @ c # t) = s # split_at c t"
  by (induction s) (auto split: list.splits)

lemma decrypt_encrypt:
  assumes "codec_laws tools" and "iv \<noteq> []" and "s \<noteq> []" and "encrypt_secret tools config iv s = Inr v"
  shows "decrypt_secret tools config v = Inr s"
proof -
  obtain key where key: "encryption_key tools config = Inr key"
    using assms(4) by (auto simp: encrypt_secret_def bind_result_Inr_iff)
  obtain tag body where c: "mt_cipher tools key iv s = (tag, body)" by fastforce
  let ?b = "mt_base64url tools"
  have v: "v = ''v1'' @ CHR ''.'' # ?b iv @ CHR ''.'' # ?b tag @ CHR ''.'' # ?b body"
    using assms(4) key c by (simp add: encrypt_secret_def)
  have dots: "CHR ''.'' \<notin> set (?b x)" for x using assms(1) by (simp add: codec_laws_def)
  have parts: "split_at (CHR ''.'') v = [''v1'', ?b iv, ?b tag, ?b body]"
    unfolding v by (simp add: split_at_join split_at_plain dots)
  have "tag \<noteq> [] \<and> body \<noteq> []" using assms(1,3) c unfolding codec_laws_def by (metis fst_conv snd_conv)
  then have ne: "?b iv \<noteq> []" "?b tag \<noteq> []" "?b body \<noteq> []" using assms(1,2) by (simp_all add: codec_laws_def)
  have "mt_decipher tools key iv tag body = Some s" using assms(1) c unfolding codec_laws_def by (metis fst_conv snd_conv)
  moreover have "mt_unbase64url tools (?b x) = x" for x using assms(1) by (simp add: codec_laws_def)
  ultimately show ?thesis using parts ne key by (simp add: decrypt_secret_def)
qed

end
