(* ===== verification/Data_Export.thy ===== *)
theory Data_Export
  imports Support Reviews Items
begin

text \<open>
  The export of a user's data (\<open>users/user-data-export.service.ts\<close>): one document with his
  profile, listings, bookings, events, support tickets, reports, blocks and favourites, and the
  acceptances, payments and files that the rows of the first sections yield. Everything is read
  in one repeatable-read transaction. Other people appear by their role only. The columns that
  the tables of this development leave out are arguments, in \<open>export_env\<close>.
\<close>

section \<open>The document\<close>

definition USER_DATA_EXPORT_SCHEMA_VERSION :: string where
  "USER_DATA_EXPORT_SCHEMA_VERSION = ''2026-08-30.1''"

definition USER_DATA_RETENTION_POLICY_VERSION :: string where
  "USER_DATA_RETENTION_POLICY_VERSION = ''ADR-0002/2026-07-27''"

record export_env =
  xe_bookingUpdatedAt :: "string \<Rightarrow> timestamp"
  xe_paymentCreatedAt :: "string \<Rightarrow> timestamp"
  xe_paymentUpdatedAt :: "string \<Rightarrow> timestamp"

datatype export_actor = BY_SELF | BY_COUNTERPARTY | BY_SYSTEM | BY_SUPPORT

record export_profile =
  xp_id :: string
  xp_phone :: string
  xp_name :: "string option"
  xp_city :: "string option"
  xp_avatarPresent :: bool
  xp_role :: user_role
  xp_kycStatus :: "kyc_status option"
  xp_createdAt :: string
  xp_updatedAt :: string

record export_photo =
  xph_id :: string
  xph_sortOrder :: int
  xph_isCover :: bool
  xph_createdAt :: string

record export_listing =
  xl_id :: string
  xl_title :: string
  xl_description :: string
  xl_condition :: item_condition
  xl_completeness :: string
  xl_handoverTerms :: string
  xl_pricePerDay :: rat
  xl_depositAmount :: "rat option"
  xl_status :: item_status
  xl_moderationReason :: "string option"
  xl_category :: "(string \<times> string) option"
  xl_publicArea :: string
  xl_address :: string
  xl_latitude :: rat
  xl_longitude :: rat
  xl_safetyNotice :: "string option"
  xl_photos :: "export_photo list"
  xl_createdAt :: string
  xl_updatedAt :: string

record export_terms =
  xt_itemTitle :: string
  xt_pricePerDay :: rat
  xt_days :: rat
  xt_rentalSubtotal :: rat
  xt_depositAmount :: "rat option"
  xt_platformFee :: rat
  xt_ownerPayout :: rat
  xt_total :: rat
  xt_currency :: string
  xt_paymentScenario :: string
  xt_handoverArea :: string
  xt_listingVersion :: string
  xt_offerVersion :: "string option"
  xt_cancellationPolicyVersion :: "string option"

record export_transition =
  xtr_actor :: export_actor
  xtr_actorType :: string
  xtr_command :: string
  xtr_oldStatus :: "booking_status option"
  xtr_newStatus :: booking_status
  xtr_reason :: "string option"
  xtr_createdAt :: string

record export_act =
  xa_id :: string
  xa_author :: export_actor
  xa_stage :: act_stage
  xa_createdAt :: string
  xa_confirmedBy :: "export_actor option"
  xa_confirmedAt :: "string option"
  xa_evidenceCount :: nat

record export_message =
  xm_id :: string
  xm_author :: export_actor
  xm_body :: string
  xm_createdAt :: string

record export_review =
  xr_id :: string
  xr_author :: export_actor
  xr_rating :: int
  xr_text :: "string option"
  xr_published :: bool
  xr_hidden :: bool
  xr_publishAt :: string
  xr_createdAt :: string

record export_booking =
  xb_id :: string
  xb_actorRole :: actor_role
  xb_startDate :: string
  xb_endDate :: string
  xb_totalAmount :: rat
  xb_currency :: string
  xb_status :: booking_status
  xb_expiresAt :: "string option"
  xb_cancellationReason :: "string option"
  xb_terms :: "export_terms option"
  xb_transitions :: "export_transition list"
  xb_acts :: "export_act list"
  xb_messages :: "export_message list"
  xb_reviews :: "export_review list"
  xb_createdAt :: string
  xb_updatedAt :: string

record export_event =
  xi_id :: string
  xi_eventType :: string
  xi_readAt :: "string option"
  xi_createdAt :: string

record export_support_message =
  xsm_id :: string
  xsm_author :: export_actor
  xsm_authorRole :: support_role
  xsm_body :: string
  xsm_createdAt :: string
  xsm_attachmentCount :: nat

record export_ticket =
  xk_id :: string
  xk_type :: ticket_type
  xk_subject :: string
  xk_initialMessage :: string
  xk_status :: ticket_status
  xk_bookingIssueReason :: "booking_issue option"
  xk_response :: "string option"
  xk_respondedAt :: "string option"
  xk_messages :: "export_support_message list"
  xk_createdAt :: string
  xk_updatedAt :: string

record export_report =
  xrp_id :: string
  xrp_targetType :: report_target
  xrp_reason :: report_reason
  xrp_description :: string
  xrp_status :: report_status
  xrp_decision :: "string option"
  xrp_reviewedAt :: "string option"
  xrp_createdAt :: string
  xrp_updatedAt :: string

text \<open>An acceptance is of the listing rules or of the terms of a booking.\<close>

datatype document_acceptance =
    Listing_acceptance (da_itemId: string) (da_version: string) (da_at: string) (da_method: string)
  | Booking_acceptance (da_bookingId: string) (da_offerVersion: string) (da_policyVersion: string)
      (da_acceptedAt: string) (da_bookingMethod: string)

record financial_entry =
  fe_bookingId :: string
  fe_amount :: rat
  fe_currency :: string
  fe_status :: payment_status
  fe_createdAt :: string
  fe_updatedAt :: string

datatype file_category = ITEM_PHOTO | BOOKING_EVIDENCE | SUPPORT_ATTACHMENT

record file_entry =
  fi_category :: file_category
  fi_fileId :: string
  fi_entityId :: string
  fi_sha256 :: "string option"
  fi_createdAt :: string

record export_block =
  xbl_id :: string
  xbl_target :: string
  xbl_createdAt :: string

record user_data_export =
  ude_schemaVersion :: string
  ude_generatedAt :: string
  ude_retentionPolicyVersion :: string
  ude_profile :: export_profile
  ude_listings :: "export_listing list"
  ude_bookings :: "export_booking list"
  ude_inbox :: "export_event list"
  ude_support :: "export_ticket list"
  ude_reports :: "export_report list"
  ude_blocks :: "export_block list"
  ude_favorites :: "(string \<times> string) list"
  ude_documentAcceptances :: "document_acceptance list"
  ude_financialHistory :: "financial_entry list"
  ude_fileManifest :: "file_entry list"

section \<open>The rows of the export\<close>

text \<open>The queries: rows of the user in the order of their creation, the id deciding ties.\<close>

definition export_user :: "db \<Rightarrow> string \<Rightarrow> user_row option" where
  "export_user db userId =
     List.find (\<lambda>u. us_id u = userId \<and> us_deletedAt u = None \<and> \<not> us_isBlocked u) (db_users db)"

definition export_items :: "db \<Rightarrow> string \<Rightarrow> item_row list" where
  "export_items db userId = oldest_first item_key (filter (\<lambda>t. it_ownerId t = userId) (db_items db))"

definition export_bookings :: "db \<Rightarrow> string \<Rightarrow> booking_row list" where
  "export_bookings db userId =
     oldest_first (\<lambda>b. (bk_createdAt b, bk_id b)) (filter (is_participant userId) (db_bookings db))"

definition export_tickets :: "db \<Rightarrow> string \<Rightarrow> ticket_row list" where
  "export_tickets db userId =
     oldest_first (\<lambda>t. (tk_createdAt t, tk_id t)) (filter (\<lambda>t. tk_userId t = userId) (dk_tickets (db_desk db)))"

definition export_photos :: "db \<Rightarrow> string \<Rightarrow> photo_row list" where
  "export_photos db itemId =
     sort_key (\<lambda>p. (ph_sortOrder p, ph_id p)) (filter (\<lambda>p. ph_itemId p = itemId) (ct_photos (db_catalog db)))"

definition evidence_of :: "evidence_row list \<Rightarrow> string \<Rightarrow> evidence_row list" where
  "evidence_of rows i = oldest_first (\<lambda>e. (ev_createdAt e, ev_id e)) (filter (\<lambda>e. ev_ownerId e = i) rows)"

definition export_acts :: "db \<Rightarrow> string \<Rightarrow> act_row list" where
  "export_acts db bookingId =
     oldest_first (\<lambda>a. (act_createdAt a, act_id a)) (filter (\<lambda>a. act_bookingId a = bookingId) (db_acts db))"

definition export_history :: "db \<Rightarrow> string \<Rightarrow> history_row list" where
  "export_history db bookingId =
     oldest_first (\<lambda>h. (hist_createdAt h, hist_id h)) (filter (\<lambda>h. hist_bookingId h = bookingId) (db_history db))"

definition export_chat :: "db \<Rightarrow> string \<Rightarrow> message_row list" where
  "export_chat db bookingId =
     oldest_first (\<lambda>m. (msg_createdAt m, msg_id m)) (filter (\<lambda>m. msg_bookingId m = bookingId) (db_messages db))"

definition export_review_rows :: "db \<Rightarrow> string \<Rightarrow> review_row list" where
  "export_review_rows db bookingId =
     oldest_first (\<lambda>r. (rev_createdAt r, rev_id r)) (filter (\<lambda>r. rev_bookingId r = bookingId) (db_reviews db))"

definition export_ticket_messages :: "db \<Rightarrow> string \<Rightarrow> support_message_row list" where
  "export_ticket_messages db ticketId =
     oldest_first (\<lambda>m. (sm_createdAt m, sm_id m)) (filter (\<lambda>m. sm_ticketId m = ticketId) (dk_messages (db_desk db)))"

section \<open>Listings\<close>

definition to_export_profile :: "user_row \<Rightarrow> export_profile" where
  "to_export_profile u =
     \<lparr>xp_id = us_id u, xp_phone = us_phone u, xp_name = us_name u, xp_city = us_city u,
      xp_avatarPresent = (us_avatarUrl u \<noteq> None), xp_role = us_role u, xp_kycStatus = us_kycStatus u,
      xp_createdAt = iso_timestamp (us_createdAt u), xp_updatedAt = iso_timestamp (us_updatedAt u)\<rparr>"

definition to_export_photo :: "photo_row \<Rightarrow> export_photo" where
  "to_export_photo p =
     \<lparr>xph_id = ph_id p, xph_sortOrder = ph_sortOrder p, xph_isCover = ph_isCover p,
      xph_createdAt = iso_timestamp (ph_createdAt p)\<rparr>"

definition to_export_listing :: "db \<Rightarrow> item_row \<Rightarrow> export_listing" where
  "to_export_listing db t =
     (let d = it_details t
      in \<lparr>xl_id = it_id t, xl_title = it_title t, xl_description = ld_description d,
          xl_condition = ld_condition d, xl_completeness = ld_completeness d,
          xl_handoverTerms = ld_handoverTerms d, xl_pricePerDay = to_number (it_pricePerDay t),
          xl_depositAmount = map_option to_number (it_depositAmount t), xl_status = it_status t,
          xl_moderationReason = ld_rejectReason d,
          xl_category = map_option (\<lambda>c. (cat_name c, cat_slug c)) (find_category db (ld_categoryId d)),
          xl_publicArea = it_publicArea t, xl_address = it_address t, xl_latitude = it_latitude t,
          xl_longitude = it_longitude t, xl_safetyNotice = ld_safetyNoticeSnapshot d,
          xl_photos = map to_export_photo (export_photos db (it_id t)),
          xl_createdAt = iso_timestamp (ld_createdAt d), xl_updatedAt = iso_timestamp (it_updatedAt t)\<rparr>)"

text \<open>The rules a listing was accepted under, where all three columns are set and not empty.\<close>

definition listing_acceptances :: "item_row \<Rightarrow> document_acceptance list" where
  "listing_acceptances t =
     (case (it_listingRulesVersion t, ld_listingRulesAcceptedAt (it_details t),
            ld_listingRulesAcceptanceMethod (it_details t)) of
        (Some version, Some acceptedAt, Some method) \<Rightarrow>
          if version = [] \<or> method = [] then []
          else [Listing_acceptance (it_id t) version (iso_timestamp acceptedAt) method]
      | _ \<Rightarrow> [])"

definition listing_files :: "db \<Rightarrow> item_row \<Rightarrow> file_entry list" where
  "listing_files db t =
     map (\<lambda>p. \<lparr>fi_category = ITEM_PHOTO, fi_fileId = ph_id p, fi_entityId = it_id t, fi_sha256 = None,
        fi_createdAt = iso_timestamp (ph_createdAt p)\<rparr>) (export_photos db (it_id t))"

section \<open>Bookings\<close>

definition booking_terms_of :: "booking_row \<Rightarrow> booking_terms_snapshot option" where
  "booking_terms_of b = read_booking_terms_snapshot (case bk_termsSnapshot b of None \<Rightarrow> JNull | Some j \<Rightarrow> j)"

definition to_export_terms :: "booking_terms_snapshot \<Rightarrow> export_terms" where
  "to_export_terms s =
     \<lparr>xt_itemTitle = sn_itemTitle s, xt_pricePerDay = sn_pricePerDay s, xt_days = sn_days s,
      xt_rentalSubtotal = sn_rentalSubtotal s, xt_depositAmount = sn_depositAmount s,
      xt_platformFee = sn_platformFee s, xt_ownerPayout = sn_ownerPayout s, xt_total = sn_total s,
      xt_currency = ''RUB'', xt_paymentScenario = scenario_name (sn_paymentScenario s),
      xt_handoverArea = ho_area (sn_handover s), xt_listingVersion = sn_listingVersion s,
      xt_offerVersion = sn_offerVersion s, xt_cancellationPolicyVersion = sn_cancellationPolicyVersion s\<rparr>"

text \<open>\<open>id === userId ? 'SELF' : 'COUNTERPARTY'\<close>; an id that is \<open>null\<close> is not the user's.\<close>

definition actor_of :: "string \<Rightarrow> string option \<Rightarrow> export_actor" where
  "actor_of userId i = (if i = Some userId then BY_SELF else BY_COUNTERPARTY)"

definition to_export_transition :: "string \<Rightarrow> history_row \<Rightarrow> export_transition" where
  "to_export_transition userId h =
     \<lparr>xtr_actor = (if hist_actorId h = None then BY_SYSTEM else actor_of userId (hist_actorId h)),
      xtr_actorType = hist_actorType h, xtr_command = hist_command h, xtr_oldStatus = hist_oldStatus h,
      xtr_newStatus = hist_newStatus h, xtr_reason = hist_reason h,
      xtr_createdAt = iso_timestamp (hist_createdAt h)\<rparr>"

definition to_export_act :: "db \<Rightarrow> string \<Rightarrow> act_row \<Rightarrow> export_act" where
  "to_export_act db userId a =
     \<lparr>xa_id = act_id a, xa_author = actor_of userId (Some (act_authorId a)), xa_stage = act_stage_of a,
      xa_createdAt = iso_timestamp (act_createdAt a),
      xa_confirmedBy = (case act_confirmedById a of None \<Rightarrow> None | Some i \<Rightarrow> Some (actor_of userId (Some i))),
      xa_confirmedAt = map_option iso_timestamp (act_confirmedAt a),
      xa_evidenceCount = length (evidence_of (db_actEvidence db) (act_id a))\<rparr>"

definition to_export_message :: "string \<Rightarrow> message_row \<Rightarrow> export_message" where
  "to_export_message userId m =
     \<lparr>xm_id = msg_id m,
      xm_author = (if msg_authorRole m = Msg_SYSTEM then BY_SYSTEM else actor_of userId (msg_authorId m)),
      xm_body = msg_body m, xm_createdAt = iso_timestamp (msg_createdAt m)\<rparr>"

definition exported_review :: "string \<Rightarrow> timestamp \<Rightarrow> review_row \<Rightarrow> bool" where
  "exported_review userId now r \<longleftrightarrow> rev_authorId r = Some userId \<or> rev_publishAt r \<le> now"

definition to_export_review :: "string \<Rightarrow> timestamp \<Rightarrow> review_row \<Rightarrow> export_review" where
  "to_export_review userId now r =
     \<lparr>xr_id = rev_id r, xr_author = actor_of userId (rev_authorId r), xr_rating = rev_rating r,
      xr_text = rev_text r, xr_published = (rev_publishAt r \<le> now), xr_hidden = (rev_hiddenAt r \<noteq> None),
      xr_publishAt = iso_timestamp (rev_publishAt r), xr_createdAt = iso_timestamp (rev_createdAt r)\<rparr>"

definition to_export_booking :: "export_env \<Rightarrow> db \<Rightarrow> string \<Rightarrow> timestamp \<Rightarrow> booking_row \<Rightarrow> export_booking" where
  "to_export_booking env db userId now b =
     \<lparr>xb_id = bk_id b, xb_actorRole = (if bk_borrowerId b = userId then BORROWER else LENDER),
      xb_startDate = iso_timestamp (bk_startDate b), xb_endDate = iso_timestamp (bk_endDate b),
      xb_totalAmount = to_number (bk_totalAmount b), xb_currency = ''RUB'', xb_status = bk_status b,
      xb_expiresAt = map_option iso_timestamp (bk_expiresAt b), xb_cancellationReason = bk_cancellationReason b,
      xb_terms = map_option to_export_terms (booking_terms_of b),
      xb_transitions = map (to_export_transition userId) (export_history db (bk_id b)),
      xb_acts = map (to_export_act db userId) (export_acts db (bk_id b)),
      xb_messages = map (to_export_message userId) (export_chat db (bk_id b)),
      xb_reviews = map (to_export_review userId now)
        (filter (exported_review userId now) (export_review_rows db (bk_id b))),
      xb_createdAt = iso_timestamp (bk_createdAt b), xb_updatedAt = iso_timestamp (xe_bookingUpdatedAt env (bk_id b))\<rparr>"

text \<open>The terms that the user himself accepted; the snapshot has one method of acceptance.\<close>

definition booking_acceptances :: "string \<Rightarrow> booking_row \<Rightarrow> document_acceptance list" where
  "booking_acceptances userId b =
     (case Option.bind (booking_terms_of b) sn_acceptance of
        None \<Rightarrow> []
      | Some a \<Rightarrow>
          if ac_actorId a = userId
          then [Booking_acceptance (bk_id b) (ac_offerVersion a) (ac_cancellationPolicyVersion a)
                  (ac_acceptedAt a) ''BOOKING_SUBMIT_CHECKBOX'']
          else [])"

definition booking_payments :: "export_env \<Rightarrow> db \<Rightarrow> booking_row \<Rightarrow> financial_entry list" where
  "booking_payments env db b =
     (case payment_of db (bk_id b) of
        None \<Rightarrow> []
      | Some p \<Rightarrow>
          [\<lparr>fe_bookingId = bk_id b, fe_amount = to_number (pay_amount p), fe_currency = ''RUB'',
            fe_status = pay_status p, fe_createdAt = iso_timestamp (xe_paymentCreatedAt env (pay_id p)),
            fe_updatedAt = iso_timestamp (xe_paymentUpdatedAt env (pay_id p))\<rparr>])"

definition evidence_file :: "file_category \<Rightarrow> string \<Rightarrow> evidence_row \<Rightarrow> file_entry" where
  "evidence_file category entityId e =
     \<lparr>fi_category = category, fi_fileId = ev_id e, fi_entityId = entityId, fi_sha256 = Some (ev_sha256 e),
      fi_createdAt = iso_timestamp (ev_createdAt e)\<rparr>"

definition booking_files :: "db \<Rightarrow> string \<Rightarrow> booking_row \<Rightarrow> file_entry list" where
  "booking_files db userId b =
     concat (map (\<lambda>a. if act_authorId a \<noteq> userId then []
         else map (evidence_file BOOKING_EVIDENCE (bk_id b)) (evidence_of (db_actEvidence db) (act_id a)))
       (export_acts db (bk_id b)))"

section \<open>Support, reports and the rest\<close>

definition to_export_support_message :: "db \<Rightarrow> string \<Rightarrow> support_message_row \<Rightarrow> export_support_message" where
  "to_export_support_message db userId m =
     \<lparr>xsm_id = sm_id m, xsm_author = (if sm_authorId m = userId then BY_SELF else BY_SUPPORT),
      xsm_authorRole = sm_authorRole m, xsm_body = sm_body m, xsm_createdAt = iso_timestamp (sm_createdAt m),
      xsm_attachmentCount = length (evidence_of (dk_attachments (db_desk db)) (sm_id m))\<rparr>"

definition to_export_ticket :: "db \<Rightarrow> string \<Rightarrow> ticket_row \<Rightarrow> export_ticket" where
  "to_export_ticket db userId t =
     \<lparr>xk_id = tk_id t, xk_type = tk_type t, xk_subject = tk_subject t, xk_initialMessage = tk_message t,
      xk_status = tk_status t, xk_bookingIssueReason = tk_bookingIssueReason t, xk_response = tk_adminResponse t,
      xk_respondedAt = map_option iso_timestamp (tk_respondedAt t),
      xk_messages = map (to_export_support_message db userId) (export_ticket_messages db (tk_id t)),
      xk_createdAt = iso_timestamp (tk_createdAt t), xk_updatedAt = iso_timestamp (tk_updatedAt t)\<rparr>"

definition ticket_files :: "db \<Rightarrow> string \<Rightarrow> ticket_row \<Rightarrow> file_entry list" where
  "ticket_files db userId t =
     concat (map (\<lambda>m. if sm_authorId m \<noteq> userId then []
         else map (evidence_file SUPPORT_ATTACHMENT (tk_id t)) (evidence_of (dk_attachments (db_desk db)) (sm_id m)))
       (export_ticket_messages db (tk_id t)))"

definition export_inbox :: "db \<Rightarrow> string \<Rightarrow> export_event list" where
  "export_inbox db userId =
     map (\<lambda>e. \<lparr>xi_id = inb_id e, xi_eventType = inb_eventType e,
         xi_readAt = map_option iso_timestamp (inb_readAt e), xi_createdAt = iso_timestamp (inb_createdAt e)\<rparr>)
       (oldest_first (\<lambda>e. (inb_createdAt e, inb_id e)) (filter (\<lambda>e. inb_recipientId e = userId) (db_inbox db)))"

definition export_reports :: "db \<Rightarrow> string \<Rightarrow> export_report list" where
  "export_reports db userId =
     map (\<lambda>r. \<lparr>xrp_id = rp_id r, xrp_targetType = rp_targetType r, xrp_reason = rp_reason r,
         xrp_description = rp_description r, xrp_status = rp_status r, xrp_decision = rp_decision r,
         xrp_reviewedAt = map_option iso_timestamp (rp_reviewedAt r),
         xrp_createdAt = iso_timestamp (rp_createdAt r), xrp_updatedAt = iso_timestamp (rp_updatedAt r)\<rparr>)
       (oldest_first (\<lambda>r. (rp_createdAt r, rp_id r))
         (filter (\<lambda>r. rp_reporterId r = userId) (dk_reports (db_desk db))))"

definition export_blocks :: "db \<Rightarrow> string \<Rightarrow> export_block list" where
  "export_blocks db userId =
     map (\<lambda>b. \<lparr>xbl_id = blk_id b, xbl_target = ''WITHHELD_THIRD_PARTY'', xbl_createdAt = iso_timestamp (blk_createdAt b)\<rparr>)
       (oldest_first (\<lambda>b. (blk_createdAt b, blk_id b)) (filter (\<lambda>b. blk_blockerId b = userId) (db_blocks db)))"

definition export_favorites :: "db \<Rightarrow> string \<Rightarrow> (string \<times> string) list" where
  "export_favorites db userId =
     map (\<lambda>f. (fav_itemId f, iso_timestamp (fav_createdAt f)))
       (oldest_first favorite_key (filter (\<lambda>f. fav_userId f = userId) (ct_favorites (db_catalog db))))"

section \<open>The export\<close>

text \<open>
  \<open>create\<close>. The three collected lists are filled while the listings, the bookings and the tickets
  are mapped, in this order.
\<close>

definition create_data_export :: "export_env \<Rightarrow> string \<Rightarrow> timestamp \<Rightarrow> db \<Rightarrow> user_data_export result" where
  "create_data_export env userId now db =
     (case export_user db userId of
        None \<Rightarrow> Inl (Not_found ''user'')
      | Some u \<Rightarrow>
          (let items = export_items db userId; bookings = export_bookings db userId; tickets = export_tickets db userId
           in Inr \<lparr>ude_schemaVersion = USER_DATA_EXPORT_SCHEMA_VERSION, ude_generatedAt = iso_timestamp now,
               ude_retentionPolicyVersion = USER_DATA_RETENTION_POLICY_VERSION,
               ude_profile = to_export_profile u,
               ude_listings = map (to_export_listing db) items,
               ude_bookings = map (to_export_booking env db userId now) bookings,
               ude_inbox = export_inbox db userId,
               ude_support = map (to_export_ticket db userId) tickets,
               ude_reports = export_reports db userId,
               ude_blocks = export_blocks db userId,
               ude_favorites = export_favorites db userId,
               ude_documentAcceptances = concat (map listing_acceptances items)
                 @ concat (map (booking_acceptances userId) bookings),
               ude_financialHistory = concat (map (booking_payments env db) bookings),
               ude_fileManifest = concat (map (listing_files db) items)
                 @ concat (map (booking_files db userId) bookings) @ concat (map (ticket_files db userId) tickets)\<rparr>))"

end
