(* ===== verification/Data_Export_Properties.thy ===== *)
theory Data_Export_Properties
  imports Data_Export Row_Agreement Sample_Data "HOL-Library.Multiset"
begin

text \<open>
  What the export of a user's data discloses. The state the document depends on is written out:
  the user's own rows, and of the rows that he shares with others what is left when other
  people's identities, contacts, places, files and sealed reviews are struck out.
\<close>

section \<open>What the document may depend on\<close>

definition own_bookings :: "string \<Rightarrow> db \<Rightarrow> string set" where
  "own_bookings u db = bk_id ` set (filter (is_participant u) (db_bookings db))"

definition own_tickets :: "string \<Rightarrow> db \<Rightarrow> string set" where
  "own_tickets u db = tk_id ` set (filter (\<lambda>t. tk_userId t = u) (dk_tickets (db_desk db)))"

definition own_items :: "string \<Rightarrow> db \<Rightarrow> string set" where
  "own_items u db = it_id ` set (filter (\<lambda>t. it_ownerId t = u) (db_items db))"

definition own_acts :: "string \<Rightarrow> db \<Rightarrow> string set" where
  "own_acts u db = act_id ` set (filter (\<lambda>a. act_bookingId a \<in> own_bookings u db \<and> act_authorId a = u) (db_acts db))"

definition own_support_messages :: "string \<Rightarrow> db \<Rightarrow> string set" where
  "own_support_messages u db =
     sm_id ` set (filter (\<lambda>m. sm_ticketId m \<in> own_tickets u db \<and> sm_authorId m = u) (dk_messages (db_desk db)))"

text \<open>A person is the user himself or somebody else.\<close>

definition masked :: "string \<Rightarrow> string option \<Rightarrow> bool option" where
  "masked u i = map_option (\<lambda>x. x = u) i"

definition booking_shown :: "string \<Rightarrow> booking_row \<Rightarrow> _" where
  "booking_shown u b = (bk_id b, bk_borrowerId b = u, (bk_startDate b, bk_endDate b), bk_totalAmount b, bk_status b,
     bk_expiresAt b, bk_cancellationReason b, bk_createdAt b, map_option to_export_terms (booking_terms_of b),
     filter (\<lambda>a. ac_actorId a = u) (case Option.bind (booking_terms_of b) sn_acceptance of None \<Rightarrow> [] | Some a \<Rightarrow> [a]))"

definition history_shown :: "string \<Rightarrow> history_row \<Rightarrow> _" where
  "history_shown u h = (hist_id h, hist_bookingId h, masked u (hist_actorId h), hist_actorType h, hist_command h,
     (hist_oldStatus h, hist_newStatus h), hist_reason h, hist_createdAt h)"

definition evidence_shown :: "evidence_row \<Rightarrow> _" where
  "evidence_shown e = (ev_id e, ev_ownerId e, ev_sha256 e, ev_createdAt e)"

definition act_shown :: "string \<Rightarrow> evidence_row list \<Rightarrow> act_row \<Rightarrow> _" where
  "act_shown u evidence a = (act_id a, act_bookingId a, act_authorId a = u, act_stage_of a, act_createdAt a,
     masked u (act_confirmedById a), act_confirmedAt a, count_rows (\<lambda>e. ev_ownerId e = act_id a) evidence)"

definition message_shown :: "string \<Rightarrow> message_row \<Rightarrow> _" where
  "message_shown u m = (msg_id m, msg_bookingId m, msg_authorRole m = Msg_SYSTEM, msg_authorId m = Some u, msg_body m,
     msg_createdAt m)"

definition review_shown :: "string \<Rightarrow> review_row \<Rightarrow> _" where
  "review_shown u r = (rev_id r, rev_bookingId r, rev_authorId r = Some u, rev_rating r, rev_text r, rev_publishAt r,
     rev_hiddenAt r = None, rev_createdAt r)"

definition payment_shown :: "payment_row \<Rightarrow> _" where
  "payment_shown p = (pay_id p, pay_bookingId p, pay_amount p, pay_status p)"

definition photo_shown :: "photo_row \<Rightarrow> _" where
  "photo_shown p = (ph_id p, ph_itemId p, ph_sortOrder p, ph_isCover p, ph_createdAt p)"

definition ticket_shown :: "ticket_row \<Rightarrow> _" where
  "ticket_shown t = (tk_id t, tk_type t, tk_subject t, tk_message t, tk_status t, tk_bookingIssueReason t,
     tk_adminResponse t, tk_respondedAt t, (tk_createdAt t, tk_updatedAt t))"

definition support_message_shown :: "string \<Rightarrow> evidence_row list \<Rightarrow> support_message_row \<Rightarrow> _" where
  "support_message_shown u attachments m = (sm_id m, sm_ticketId m, sm_authorId m = u, sm_authorRole m, sm_body m,
     sm_createdAt m, count_rows (\<lambda>e. ev_ownerId e = sm_id m) attachments)"

definition report_shown :: "report_row \<Rightarrow> _" where
  "report_shown r = (rp_id r, rp_targetType r, rp_reason r, rp_description r, rp_status r, rp_decision r,
     rp_reviewedAt r, rp_createdAt r, rp_updatedAt r)"

definition event_shown :: "inbox_row \<Rightarrow> _" where
  "event_shown e = (inb_id e, inb_eventType e, inb_readAt e, inb_createdAt e)"

definition block_shown :: "block_row \<Rightarrow> _" where
  "block_shown b = (blk_id b, blk_createdAt b)"

text \<open>The export of \<open>u\<close> at the time \<open>now\<close> may depend on this part of the database only.\<close>

definition own_state :: "string \<Rightarrow> timestamp \<Rightarrow> db \<Rightarrow> _" where
  "own_state u now db =
     (map_option to_export_profile (export_user db u),
      filter (\<lambda>t. it_ownerId t = u) (db_items db),
      map (\<lambda>c. (cat_id c, cat_name c, cat_slug c)) (ct_categories (db_catalog db)),
      map photo_shown (filter (\<lambda>p. ph_itemId p \<in> own_items u db) (ct_photos (db_catalog db))),
      map (booking_shown u) (filter (is_participant u) (db_bookings db)),
      map (history_shown u) (filter (\<lambda>h. hist_bookingId h \<in> own_bookings u db) (db_history db)),
      map (act_shown u (db_actEvidence db)) (filter (\<lambda>a. act_bookingId a \<in> own_bookings u db) (db_acts db)),
      map evidence_shown (filter (\<lambda>e. ev_ownerId e \<in> own_acts u db) (db_actEvidence db)),
      map (message_shown u) (filter (\<lambda>m. msg_bookingId m \<in> own_bookings u db) (db_messages db)),
      map (review_shown u) (filter (\<lambda>r. rev_bookingId r \<in> own_bookings u db \<and> exported_review u now r) (db_reviews db)),
      map payment_shown (filter (\<lambda>p. pay_bookingId p \<in> own_bookings u db) (db_payments db)),
      map ticket_shown (filter (\<lambda>t. tk_userId t = u) (dk_tickets (db_desk db))),
      map (support_message_shown u (dk_attachments (db_desk db)))
        (filter (\<lambda>m. sm_ticketId m \<in> own_tickets u db) (dk_messages (db_desk db))),
      map evidence_shown (filter (\<lambda>e. ev_ownerId e \<in> own_support_messages u db) (dk_attachments (db_desk db))),
      map report_shown (filter (\<lambda>r. rp_reporterId r = u) (dk_reports (db_desk db))),
      map event_shown (filter (\<lambda>e. inb_recipientId e = u) (db_inbox db)),
      map block_shown (filter (\<lambda>b. blk_blockerId b = u) (db_blocks db)),
      filter (\<lambda>f. fav_userId f = u) (ct_favorites (db_catalog db)))"

lemma own_stateD:
  assumes "own_state u now db = own_state u now db'"
  shows "map_option to_export_profile (export_user db u) = map_option to_export_profile (export_user db' u)"
    and "filter (\<lambda>t. it_ownerId t = u) (db_items db) = filter (\<lambda>t. it_ownerId t = u) (db_items db')"
    and "map (\<lambda>c. (cat_id c, cat_name c, cat_slug c)) (ct_categories (db_catalog db))
      = map (\<lambda>c. (cat_id c, cat_name c, cat_slug c)) (ct_categories (db_catalog db'))"
    and "map photo_shown (filter (\<lambda>p. ph_itemId p \<in> own_items u db) (ct_photos (db_catalog db)))
      = map photo_shown (filter (\<lambda>p. ph_itemId p \<in> own_items u db') (ct_photos (db_catalog db')))"
    and "map (booking_shown u) (filter (is_participant u) (db_bookings db))
      = map (booking_shown u) (filter (is_participant u) (db_bookings db'))"
    and "map (history_shown u) (filter (\<lambda>h. hist_bookingId h \<in> own_bookings u db) (db_history db))
      = map (history_shown u) (filter (\<lambda>h. hist_bookingId h \<in> own_bookings u db') (db_history db'))"
    and "map (act_shown u (db_actEvidence db)) (filter (\<lambda>a. act_bookingId a \<in> own_bookings u db) (db_acts db))
      = map (act_shown u (db_actEvidence db')) (filter (\<lambda>a. act_bookingId a \<in> own_bookings u db') (db_acts db'))"
    and "map evidence_shown (filter (\<lambda>e. ev_ownerId e \<in> own_acts u db) (db_actEvidence db))
      = map evidence_shown (filter (\<lambda>e. ev_ownerId e \<in> own_acts u db') (db_actEvidence db'))"
    and "map (message_shown u) (filter (\<lambda>m. msg_bookingId m \<in> own_bookings u db) (db_messages db))
      = map (message_shown u) (filter (\<lambda>m. msg_bookingId m \<in> own_bookings u db') (db_messages db'))"
    and "map (review_shown u) (filter (\<lambda>r. rev_bookingId r \<in> own_bookings u db \<and> exported_review u now r) (db_reviews db))
      = map (review_shown u) (filter (\<lambda>r. rev_bookingId r \<in> own_bookings u db' \<and> exported_review u now r) (db_reviews db'))"
    and "map payment_shown (filter (\<lambda>p. pay_bookingId p \<in> own_bookings u db) (db_payments db))
      = map payment_shown (filter (\<lambda>p. pay_bookingId p \<in> own_bookings u db') (db_payments db'))"
    and "map ticket_shown (filter (\<lambda>t. tk_userId t = u) (dk_tickets (db_desk db)))
      = map ticket_shown (filter (\<lambda>t. tk_userId t = u) (dk_tickets (db_desk db')))"
    and "map (support_message_shown u (dk_attachments (db_desk db)))
        (filter (\<lambda>m. sm_ticketId m \<in> own_tickets u db) (dk_messages (db_desk db)))
      = map (support_message_shown u (dk_attachments (db_desk db')))
        (filter (\<lambda>m. sm_ticketId m \<in> own_tickets u db') (dk_messages (db_desk db')))"
    and "map evidence_shown (filter (\<lambda>e. ev_ownerId e \<in> own_support_messages u db) (dk_attachments (db_desk db)))
      = map evidence_shown (filter (\<lambda>e. ev_ownerId e \<in> own_support_messages u db') (dk_attachments (db_desk db')))"
    and "map report_shown (filter (\<lambda>r. rp_reporterId r = u) (dk_reports (db_desk db)))
      = map report_shown (filter (\<lambda>r. rp_reporterId r = u) (dk_reports (db_desk db')))"
    and "map event_shown (filter (\<lambda>e. inb_recipientId e = u) (db_inbox db))
      = map event_shown (filter (\<lambda>e. inb_recipientId e = u) (db_inbox db'))"
    and "map block_shown (filter (\<lambda>b. blk_blockerId b = u) (db_blocks db))
      = map block_shown (filter (\<lambda>b. blk_blockerId b = u) (db_blocks db'))"
    and "filter (\<lambda>f. fav_userId f = u) (ct_favorites (db_catalog db)) = filter (\<lambda>f. fav_userId f = u) (ct_favorites (db_catalog db'))"
  using assms by (simp_all only: own_state_def prod.inject)

section \<open>The document depends on the own state alone\<close>

lemma own_bookings_same:
  assumes "own_state u now db = own_state u now db'"
  shows "own_bookings u db = own_bookings u db'"
  unfolding own_bookings_def by (rule agree_image [OF own_stateD(5) [OF assms]]) (simp add: booking_shown_def)

lemma own_items_same:
  assumes "own_state u now db = own_state u now db'"
  shows "own_items u db = own_items u db'"
  unfolding own_items_def own_stateD(2) [OF assms] ..

lemma own_tickets_same:
  assumes "own_state u now db = own_state u now db'"
  shows "own_tickets u db = own_tickets u db'"
  unfolding own_tickets_def by (rule agree_image [OF own_stateD(12) [OF assms]]) (simp add: ticket_shown_def)

lemma own_acts_same:
  assumes "own_state u now db = own_state u now db'"
  shows "own_acts u db = own_acts u db'"
proof -
  have "map (act_shown u (db_actEvidence db))
        (filter (\<lambda>a. act_authorId a = u) (filter (\<lambda>a. act_bookingId a \<in> own_bookings u db) (db_acts db)))
    = map (act_shown u (db_actEvidence db'))
        (filter (\<lambda>a. act_authorId a = u) (filter (\<lambda>a. act_bookingId a \<in> own_bookings u db') (db_acts db')))"
    by (rule agree_filter [OF own_stateD(7) [OF assms]]) (simp add: act_shown_def)
  from agree_image [OF this, of act_id act_id] show ?thesis
    by (simp add: own_acts_def act_shown_def)
qed

lemma own_support_messages_same:
  assumes "own_state u now db = own_state u now db'"
  shows "own_support_messages u db = own_support_messages u db'"
proof -
  have "map (support_message_shown u (dk_attachments (db_desk db)))
        (filter (\<lambda>m. sm_authorId m = u) (filter (\<lambda>m. sm_ticketId m \<in> own_tickets u db) (dk_messages (db_desk db))))
    = map (support_message_shown u (dk_attachments (db_desk db')))
        (filter (\<lambda>m. sm_authorId m = u) (filter (\<lambda>m. sm_ticketId m \<in> own_tickets u db') (dk_messages (db_desk db'))))"
    by (rule agree_filter [OF own_stateD(13) [OF assms]]) (simp add: support_message_shown_def)
  from agree_image [OF this, of sm_id sm_id] show ?thesis
    by (simp add: own_support_messages_def support_message_shown_def)
qed

lemma photos_same:
  assumes "own_state u now db = own_state u now db'" and "i \<in> own_items u db"
  shows "map photo_shown (export_photos db i) = map photo_shown (export_photos db' i)"
  unfolding export_photos_def
  by (rule agree_sort, rule agree_part [OF own_stateD(4) [OF assms(1), folded own_items_same [OF assms(1)]] assms(2)])
    (simp_all add: photo_shown_def)

lemma listing_same:
  assumes A: "own_state u now db = own_state u now db'" and "it_id t \<in> own_items u db"
  shows "to_export_listing db t = to_export_listing db' t" and "listing_files db t = listing_files db' t"
proof -
  note photos = photos_same [OF assms]
  have "map_option (\<lambda>c. (cat_name c, cat_slug c)) (find_category db i)
      = map_option (\<lambda>c. (cat_name c, cat_slug c)) (find_category db' i)" for i
    unfolding find_category_def by (rule option_map_agree, rule agree_find [OF own_stateD(3) [OF A]]) auto
  moreover have "map to_export_photo (export_photos db (it_id t)) = map to_export_photo (export_photos db' (it_id t))"
    by (rule agree_map [OF photos]) (simp add: photo_shown_def to_export_photo_def)
  ultimately show "to_export_listing db t = to_export_listing db' t" by (simp add: to_export_listing_def)
  show "listing_files db t = listing_files db' t"
    unfolding listing_files_def by (rule agree_map [OF photos]) (simp add: photo_shown_def)
qed

lemma history_same:
  assumes A: "own_state u now db = own_state u now db'" and "i \<in> own_bookings u db"
  shows "map (to_export_transition u) (export_history db i) = map (to_export_transition u) (export_history db' i)"
proof (rule agree_map)
  show "map (history_shown u) (export_history db i) = map (history_shown u) (export_history db' i)"
    unfolding export_history_def
    by (rule agree_oldest, rule agree_part [OF own_stateD(6) [OF A, folded own_bookings_same [OF A]] assms(2)])
      (simp_all add: history_shown_def)
  show "to_export_transition u x = to_export_transition u y" if "history_shown u x = history_shown u y" for x y
    using that by (cases "hist_actorId x"; cases "hist_actorId y")
      (auto simp: history_shown_def to_export_transition_def masked_def actor_of_def)
qed

lemma chat_same:
  assumes A: "own_state u now db = own_state u now db'" and "i \<in> own_bookings u db"
  shows "map (to_export_message u) (export_chat db i) = map (to_export_message u) (export_chat db' i)"
proof (rule agree_map)
  show "map (message_shown u) (export_chat db i) = map (message_shown u) (export_chat db' i)"
    unfolding export_chat_def
    by (rule agree_oldest, rule agree_part [OF own_stateD(9) [OF A, folded own_bookings_same [OF A]] assms(2)])
      (simp_all add: message_shown_def)
  show "to_export_message u x = to_export_message u y" if "message_shown u x = message_shown u y" for x y
    using that by (auto simp: message_shown_def to_export_message_def actor_of_def)
qed

lemma reviews_same:
  assumes A: "own_state u now db = own_state u now db'" and "i \<in> own_bookings u db"
  shows "map (to_export_review u now) (filter (exported_review u now) (export_review_rows db i))
    = map (to_export_review u now) (filter (exported_review u now) (export_review_rows db' i))"
proof (rule agree_map)
  have part: "filter (exported_review u now) (export_review_rows d i)
      = oldest_first (\<lambda>r. (rev_createdAt r, rev_id r)) (filter (\<lambda>r. rev_bookingId r = i)
          (filter (\<lambda>r. rev_bookingId r \<in> own_bookings u db \<and> exported_review u now r) (db_reviews d)))" for d
    unfolding filter_part [OF assms(2)] export_review_rows_def oldest_first_def filter_sort filter_filter ..
  show "map (review_shown u) (filter (exported_review u now) (export_review_rows db i))
      = map (review_shown u) (filter (exported_review u now) (export_review_rows db' i))"
    unfolding part
    by (rule agree_oldest, rule agree_filter [OF own_stateD(10) [OF A, folded own_bookings_same [OF A]]])
      (simp_all add: review_shown_def)
  show "to_export_review u now x = to_export_review u now y" if "review_shown u x = review_shown u y" for x y
    using that by (auto simp: review_shown_def to_export_review_def actor_of_def)
qed

lemma acts_same:
  assumes A: "own_state u now db = own_state u now db'" and "i \<in> own_bookings u db"
  shows "map (act_shown u (db_actEvidence db)) (export_acts db i) = map (act_shown u (db_actEvidence db')) (export_acts db' i)"
  unfolding export_acts_def
  by (rule agree_oldest, rule agree_part [OF own_stateD(7) [OF A, folded own_bookings_same [OF A]] assms(2)])
    (simp_all add: act_shown_def)

lemma length_evidence_of: "length (evidence_of rows i) = count_rows (\<lambda>e. ev_ownerId e = i) rows"
  by (simp add: evidence_of_def oldest_first_def count_rows_def)

lemma evidence_files_same:
  assumes "map evidence_shown (filter (\<lambda>e. ev_ownerId e \<in> S) rows) = map evidence_shown (filter (\<lambda>e. ev_ownerId e \<in> S) rows')"
    and "i \<in> S"
  shows "map (evidence_file c j) (evidence_of rows i) = map (evidence_file c j) (evidence_of rows' i)"
proof (rule agree_map)
  show "map evidence_shown (evidence_of rows i) = map evidence_shown (evidence_of rows' i)"
    unfolding evidence_of_def
    by (rule agree_oldest, rule agree_part [OF assms]) (simp_all add: evidence_shown_def)
qed (simp add: evidence_shown_def evidence_file_def)

lemma act_parts_same:
  assumes A: "own_state u now db = own_state u now db'" and "i \<in> own_bookings u db"
  shows "map (to_export_act db u) (export_acts db i) = map (to_export_act db' u) (export_acts db' i)"
    and "bk_id b = i \<Longrightarrow> bk_id b' = i \<Longrightarrow> booking_files db u b = booking_files db' u b'"
proof -
  note acts = acts_same [OF assms]
  show "map (to_export_act db u) (export_acts db i) = map (to_export_act db' u) (export_acts db' i)"
  proof (rule agree_map [OF acts])
    show "to_export_act db u x = to_export_act db' u y"
      if "act_shown u (db_actEvidence db) x = act_shown u (db_actEvidence db') y" for x y
      using that by (cases "act_confirmedById x"; cases "act_confirmedById y")
        (auto simp: act_shown_def to_export_act_def actor_of_def masked_def length_evidence_of)
  qed
  note files = evidence_files_same [OF own_stateD(8) [OF A, folded own_acts_same [OF A]]]
  have "map (\<lambda>a. if act_authorId a \<noteq> u then [] else map (evidence_file BOOKING_EVIDENCE i) (evidence_of (db_actEvidence db) (act_id a)))
        (export_acts db i)
    = map (\<lambda>a. if act_authorId a \<noteq> u then [] else map (evidence_file BOOKING_EVIDENCE i) (evidence_of (db_actEvidence db') (act_id a)))
        (export_acts db' i)"
  proof (rule agree_map_in [OF acts])
    fix x y
    assume x: "x \<in> set (export_acts db i)" and e: "act_shown u (db_actEvidence db) x = act_shown u (db_actEvidence db') y"
    have "act_id x \<in> own_acts u db" if "act_authorId x = u"
      using x that assms(2) by (auto simp: own_acts_def export_acts_def)
    then show "(if act_authorId x \<noteq> u then [] else map (evidence_file BOOKING_EVIDENCE i) (evidence_of (db_actEvidence db) (act_id x)))
      = (if act_authorId y \<noteq> u then [] else map (evidence_file BOOKING_EVIDENCE i) (evidence_of (db_actEvidence db') (act_id y)))"
      using e files by (auto simp: act_shown_def)
  qed
  then show "booking_files db u b = booking_files db' u b'" if "bk_id b = i" "bk_id b' = i"
    using that by (simp only: booking_files_def)
qed

lemma payments_same:
  assumes A: "own_state u now db = own_state u now db'" and "bk_id b \<in> own_bookings u db" and "bk_id b' = bk_id b"
  shows "booking_payments env db b = booking_payments env db' b'"
  unfolding booking_payments_def assms(3)
proof (rule option_agree)
  have "payment_of d (bk_id b) = List.find (\<lambda>p. pay_bookingId p = bk_id b)
      (filter (\<lambda>p. pay_bookingId p \<in> own_bookings u db) (db_payments d))" for d
    unfolding find_part [OF assms(2)] payment_of_def ..
  then show "map_option payment_shown (payment_of db (bk_id b)) = map_option payment_shown (payment_of db' (bk_id b))"
    using agree_find [OF own_stateD(11) [OF A, folded own_bookings_same [OF A]],
        of "\<lambda>p. pay_bookingId p = bk_id b" "\<lambda>p. pay_bookingId p = bk_id b"]
    by (simp add: payment_shown_def)
qed (simp add: payment_shown_def)

lemma booking_acceptances_shown:
  "booking_acceptances u b = map (\<lambda>a. Booking_acceptance (bk_id b) (ac_offerVersion a) (ac_cancellationPolicyVersion a)
       (ac_acceptedAt a) ''BOOKING_SUBMIT_CHECKBOX'')
     (filter (\<lambda>a. ac_actorId a = u) (case Option.bind (booking_terms_of b) sn_acceptance of None \<Rightarrow> [] | Some a \<Rightarrow> [a]))"
  by (auto simp: booking_acceptances_def split: option.splits)

lemma booking_same:
  assumes A: "own_state u now db = own_state u now db'" and "bk_id b \<in> own_bookings u db"
    and b: "booking_shown u b = booking_shown u b'"
  shows "to_export_booking env db u now b = to_export_booking env db' u now b'"
    and "booking_acceptances u b = booking_acceptances u b'"
proof -
  have i: "bk_id b' = bk_id b" using b by (simp add: booking_shown_def)
  note parts = history_same [OF A assms(2)] chat_same [OF A assms(2)] reviews_same [OF A assms(2)]
    act_parts_same(1) [OF A assms(2)]
  show "to_export_booking env db u now b = to_export_booking env db' u now b'"
    using b unfolding to_export_booking_def i parts by (simp add: booking_shown_def)
  show "booking_acceptances u b = booking_acceptances u b'"
    using b unfolding booking_acceptances_shown i by (simp only: booking_shown_def prod.inject)
qed

lemma bookings_same:
  assumes A: "own_state u now db = own_state u now db'"
  shows "map (to_export_booking env db u now) (export_bookings db u) = map (to_export_booking env db' u now) (export_bookings db' u)"
    and "map (booking_acceptances u) (export_bookings db u) = map (booking_acceptances u) (export_bookings db' u)"
    and "map (booking_payments env db) (export_bookings db u) = map (booking_payments env db') (export_bookings db' u)"
    and "map (booking_files db u) (export_bookings db u) = map (booking_files db' u) (export_bookings db' u)"
proof -
  have rows: "map (booking_shown u) (export_bookings db u) = map (booking_shown u) (export_bookings db' u)"
    unfolding export_bookings_def by (rule agree_oldest [OF own_stateD(5) [OF A]]) (simp add: booking_shown_def)
  have own: "bk_id x \<in> own_bookings u db" if "x \<in> set (export_bookings db u)" for x
    using that by (auto simp: export_bookings_def own_bookings_def)
  have ids: "bk_id y = bk_id x" if "booking_shown u x = booking_shown u y" for x y
    using that by (simp add: booking_shown_def)
  note same = agree_map_in [OF rows]
  show "map (to_export_booking env db u now) (export_bookings db u) = map (to_export_booking env db' u now) (export_bookings db' u)"
    by (rule same) (rule booking_same(1) [OF A own])
  show "map (booking_acceptances u) (export_bookings db u) = map (booking_acceptances u) (export_bookings db' u)"
    by (rule same) (rule booking_same(2) [OF A own])
  show "map (booking_payments env db) (export_bookings db u) = map (booking_payments env db') (export_bookings db' u)"
    by (rule same) (rule payments_same [OF A own ids])
  show "map (booking_files db u) (export_bookings db u) = map (booking_files db' u) (export_bookings db' u)"
    by (rule same) (rule act_parts_same(2) [OF A own refl ids])
qed

lemma ticket_parts_same:
  assumes A: "own_state u now db = own_state u now db'" and "i \<in> own_tickets u db"
  shows "map (to_export_support_message db u) (export_ticket_messages db i)
      = map (to_export_support_message db' u) (export_ticket_messages db' i)"
    and "tk_id t = i \<Longrightarrow> tk_id t' = i \<Longrightarrow> ticket_files db u t = ticket_files db' u t'"
proof -
  let ?shown = "\<lambda>d. support_message_shown u (dk_attachments (db_desk d))"
  have rows: "map (?shown db) (export_ticket_messages db i) = map (?shown db') (export_ticket_messages db' i)"
    unfolding export_ticket_messages_def
    by (rule agree_oldest, rule agree_part [OF own_stateD(13) [OF A, folded own_tickets_same [OF A]] assms(2)])
      (simp_all add: support_message_shown_def)
  show "map (to_export_support_message db u) (export_ticket_messages db i)
      = map (to_export_support_message db' u) (export_ticket_messages db' i)"
    by (rule agree_map [OF rows])
      (auto simp: support_message_shown_def to_export_support_message_def length_evidence_of)
  note files = evidence_files_same [OF own_stateD(14) [OF A, folded own_support_messages_same [OF A]]]
  let ?files = "\<lambda>d m. if sm_authorId m \<noteq> u then []
    else map (evidence_file SUPPORT_ATTACHMENT i) (evidence_of (dk_attachments (db_desk d)) (sm_id m))"
  have "map (?files db) (export_ticket_messages db i) = map (?files db') (export_ticket_messages db' i)"
  proof (rule agree_map_in [OF rows])
    fix x y
    assume x: "x \<in> set (export_ticket_messages db i)" and e: "?shown db x = ?shown db' y"
    have "sm_id x \<in> own_support_messages u db" if "sm_authorId x = u"
      using x that assms(2) by (auto simp: own_support_messages_def export_ticket_messages_def)
    then show "?files db x = ?files db' y" using e files by (auto simp: support_message_shown_def)
  qed
  then show "ticket_files db u t = ticket_files db' u t'" if "tk_id t = i" "tk_id t' = i"
    using that by (simp only: ticket_files_def)
qed

lemma tickets_same:
  assumes A: "own_state u now db = own_state u now db'"
  shows "map (to_export_ticket db u) (export_tickets db u) = map (to_export_ticket db' u) (export_tickets db' u)"
    and "map (ticket_files db u) (export_tickets db u) = map (ticket_files db' u) (export_tickets db' u)"
proof -
  have rows: "map ticket_shown (export_tickets db u) = map ticket_shown (export_tickets db' u)"
    unfolding export_tickets_def by (rule agree_oldest [OF own_stateD(12) [OF A]]) (simp add: ticket_shown_def)
  have own: "tk_id x \<in> own_tickets u db" if "x \<in> set (export_tickets db u)" for x
    using that by (auto simp: export_tickets_def own_tickets_def)
  show "map (to_export_ticket db u) (export_tickets db u) = map (to_export_ticket db' u) (export_tickets db' u)"
  proof (rule agree_map_in [OF rows])
    fix x y
    assume x: "x \<in> set (export_tickets db u)" and e: "ticket_shown x = ticket_shown y"
    have i: "tk_id y = tk_id x" using e by (simp add: ticket_shown_def)
    show "to_export_ticket db u x = to_export_ticket db' u y"
      using e unfolding to_export_ticket_def i ticket_parts_same(1) [OF A own [OF x]] by (simp add: ticket_shown_def)
  qed
  show "map (ticket_files db u) (export_tickets db u) = map (ticket_files db' u) (export_tickets db' u)"
    by (rule agree_map_in [OF rows]) (rule ticket_parts_same(2) [OF A own refl], assumption, simp add: ticket_shown_def)
qed

lemma lists_same:
  assumes A: "own_state u now db = own_state u now db'"
  shows "export_inbox db u = export_inbox db' u" and "export_reports db u = export_reports db' u"
    and "export_blocks db u = export_blocks db' u" and "export_favorites db u = export_favorites db' u"
proof -
  show "export_inbox db u = export_inbox db' u"
    unfolding export_inbox_def
    by (rule agree_map, rule agree_oldest [OF own_stateD(16) [OF A]]) (simp_all add: event_shown_def)
  show "export_reports db u = export_reports db' u"
    unfolding export_reports_def
    by (rule agree_map, rule agree_oldest [OF own_stateD(15) [OF A]]) (simp_all add: report_shown_def)
  show "export_blocks db u = export_blocks db' u"
    unfolding export_blocks_def
    by (rule agree_map, rule agree_oldest [OF own_stateD(17) [OF A]]) (simp_all add: block_shown_def)
  show "export_favorites db u = export_favorites db' u"
    unfolding export_favorites_def own_stateD(18) [OF A] ..
qed

lemma listings_same:
  assumes A: "own_state u now db = own_state u now db'"
  shows "export_items db u = export_items db' u"
    and "map (to_export_listing db) (export_items db' u) = map (to_export_listing db') (export_items db' u)"
    and "map (listing_files db) (export_items db' u) = map (listing_files db') (export_items db' u)"
proof -
  show "export_items db u = export_items db' u" unfolding export_items_def own_stateD(2) [OF A] ..
  have own: "it_id x \<in> own_items u db" if "x \<in> set (export_items db' u)" for x
    using that unfolding own_items_same [OF A] by (auto simp: export_items_def own_items_def)
  show "map (to_export_listing db) (export_items db' u) = map (to_export_listing db') (export_items db' u)"
    by (rule map_cong [OF refl]) (rule listing_same(1) [OF A own])
  show "map (listing_files db) (export_items db' u) = map (listing_files db') (export_items db' u)"
    by (rule map_cong [OF refl]) (rule listing_same(2) [OF A own])
qed

text \<open>
  C34. The export of a user's data discloses nobody else: two databases that agree on the user's own
  state give the same document, whatever the identities, names, phones and addresses of other
  people, their reviews that are still sealed, their files, the operators behind tickets and
  reports, and the rows of bookings he has no part in are.
\<close>

theorem export_private:
  assumes "own_state u now db = own_state u now db'"
  shows "create_data_export env u now db = create_data_export env u now db'"
  unfolding create_data_export_def Let_def listings_same [OF assms] bookings_same [OF assms] tickets_same [OF assms]
    lists_same [OF assms]
  by (rule option_agree [OF own_stateD(1) [OF assms]]) simp

section \<open>The document is complete\<close>

text \<open>
  Every row of the user is in the document, in the order of creation, and no row of somebody else;
  a review of another author is there only once it is published, and a file of a booking or a
  ticket only when the user himself added it.
\<close>

theorem export_complete:
  assumes "create_data_export env u now db = Inr e"
  shows "mset (map xl_id (ude_listings e)) = mset (map it_id (filter (\<lambda>t. it_ownerId t = u) (db_items db)))"
    and "mset (map xb_id (ude_bookings e)) = mset (map bk_id (filter (is_participant u) (db_bookings db)))"
    and "mset (map xk_id (ude_support e)) = mset (map tk_id (filter (\<lambda>t. tk_userId t = u) (dk_tickets (db_desk db))))"
    and "\<forall>b \<in> set (ude_bookings e). \<forall>r \<in> set (xb_reviews b). xr_author r = BY_SELF \<or> xr_published r"
    and "\<forall>f \<in> set (ude_fileManifest e). fi_category f = BOOKING_EVIDENCE \<longrightarrow>
      (\<exists>a \<in> set (db_acts db). \<exists>x \<in> set (db_actEvidence db).
         act_authorId a = u \<and> act_bookingId a = fi_entityId f \<and> ev_ownerId x = act_id a \<and> fi_fileId f = ev_id x)"
    and "\<exists>v \<in> set (db_users db). us_id v = u \<and> us_deletedAt v = None \<and> \<not> us_isBlocked v"
proof -
  obtain v where v: "export_user db u = Some v" and e: "ude_listings e = map (to_export_listing db) (export_items db u)"
    "ude_bookings e = map (to_export_booking env db u now) (export_bookings db u)"
    "ude_support e = map (to_export_ticket db u) (export_tickets db u)"
    "ude_fileManifest e = concat (map (listing_files db) (export_items db u))
       @ concat (map (booking_files db u) (export_bookings db u)) @ concat (map (ticket_files db u) (export_tickets db u))"
    using assms by (auto simp: create_data_export_def Let_def split: option.splits)
  show "mset (map xl_id (ude_listings e)) = mset (map it_id (filter (\<lambda>t. it_ownerId t = u) (db_items db)))"
    by (simp add: e(1) comp_def to_export_listing_def Let_def export_items_def oldest_first_def)
  show "mset (map xb_id (ude_bookings e)) = mset (map bk_id (filter (is_participant u) (db_bookings db)))"
    by (simp add: e(2) comp_def to_export_booking_def export_bookings_def oldest_first_def)
  show "mset (map xk_id (ude_support e)) = mset (map tk_id (filter (\<lambda>t. tk_userId t = u) (dk_tickets (db_desk db))))"
    by (simp add: e(3) comp_def to_export_ticket_def export_tickets_def oldest_first_def)
  show "\<forall>b \<in> set (ude_bookings e). \<forall>r \<in> set (xb_reviews b). xr_author r = BY_SELF \<or> xr_published r"
    by (auto simp: e(2) to_export_booking_def to_export_review_def exported_review_def actor_of_def)
  show "\<forall>f \<in> set (ude_fileManifest e). fi_category f = BOOKING_EVIDENCE \<longrightarrow>
      (\<exists>a \<in> set (db_acts db). \<exists>x \<in> set (db_actEvidence db).
         act_authorId a = u \<and> act_bookingId a = fi_entityId f \<and> ev_ownerId x = act_id a \<and> fi_fileId f = ev_id x)"
    by (auto simp: e(4) listing_files_def booking_files_def ticket_files_def evidence_file_def export_acts_def
        evidence_of_def split: if_splits) blast
  show "\<exists>v \<in> set (db_users db). us_id v = u \<and> us_deletedAt v = None \<and> \<not> us_isBlocked v"
    using v by (auto simp: export_user_def dest: find_SomeD)
qed

section \<open>A run\<close>

text \<open>
  A completed booking of \<open>B\<close> with a message of the lender and his review, which is sealed at the
  time of the export; the stranger's variant changes the lender's name and phone, the address of
  his listing, and the sealed review.
\<close>

definition sealed_review :: "string \<Rightarrow> int \<Rightarrow> review_row" where
  "sealed_review t n =
     \<lparr>rev_id = ''r'', rev_bookingId = ''i'', rev_authorId = Some ''L'', rev_targetId = ''B'', rev_authorRole = LENDER,
      rev_clientReviewId = None, rev_rating = n, rev_text = Some t, rev_publishAt = SAMPLE_NOW + 9, rev_hiddenAt = None,
      rev_hiddenById = None, rev_hiddenReason = None, rev_createdAt = SAMPLE_NOW\<rparr>"

definition lender_message :: message_row where
  "lender_message =
     \<lparr>msg_id = ''m'', msg_bookingId = ''i'', msg_authorId = Some ''L'', msg_authorRole = Msg_LENDER,
      msg_clientMessageId = None, msg_body = ''See you'', msg_createdAt = SAMPLE_NOW\<rparr>"

definition shared_db :: db where
  "shared_db = sample_db\<lparr>db_bookings := [sample_booking ''i'' Bk_COMPLETED 0 None],
     db_messages := [lender_message], db_reviews := [sealed_review ''Careful'' 5]\<rparr>"

definition other_db :: db where
  "other_db = shared_db\<lparr>db_users := [(sample_user ''L'')\<lparr>us_name := Some ''Boris'', us_phone := ''+79990001122''\<rparr>, sample_user ''B''],
     db_items := [sample_item\<lparr>it_address := ''Street 2''\<rparr>], db_reviews := [sealed_review ''Rude'' 1]\<rparr>"

definition epoch_env :: export_env where
  "epoch_env = \<lparr>xe_bookingUpdatedAt = (\<lambda>_. 0), xe_paymentCreatedAt = (\<lambda>_. 0), xe_paymentUpdatedAt = (\<lambda>_. 0)\<rparr>"

lemma shared_own_state: "own_state ''B'' SAMPLE_NOW shared_db = own_state ''B'' SAMPLE_NOW other_db"
  by (simp add: own_state_def shared_db_def other_db_def sample_data lender_message_def sealed_review_def
      export_user_def own_bookings_def own_items_def own_tickets_def own_acts_def own_support_messages_def
      exported_review_def is_participant_def)

theorem export_private_witness:
  "shared_db \<noteq> other_db \<and> (\<exists>e. create_data_export epoch_env ''B'' SAMPLE_NOW shared_db = Inr e
     \<and> create_data_export epoch_env ''B'' SAMPLE_NOW other_db = Inr e)"
proof
  show "shared_db \<noteq> other_db" by (simp add: shared_db_def other_db_def sample_data)
  have "\<exists>e. create_data_export epoch_env ''B'' SAMPLE_NOW shared_db = Inr e"
    by (simp add: create_data_export_def export_user_def shared_db_def sample_data Let_def)
  then show "\<exists>e. create_data_export epoch_env ''B'' SAMPLE_NOW shared_db = Inr e
     \<and> create_data_export epoch_env ''B'' SAMPLE_NOW other_db = Inr e"
    using export_private [OF shared_own_state] by metis
qed

end
