(* ===== verification/Backup.thy ===== *)
theory Backup
  imports Storage Item_Search Platform
begin

text \<open>
  The encrypted backup of the database (\<open>operations/postgres-backup.ts\<close>,
  \<open>operations/postgres-backup-crypto.ts\<close>): a dump is encrypted, uploaded to two independent
  storages, verified in both, and only then old backups are removed and the success is
  published. The dump program, AES-GCM, SHA-256, base64 and the URL parser of the platform are
  arguments; so is which request to a storage fails.
\<close>

section \<open>The container of an encrypted dump\<close>

record backup_tools =
  bt_unbase64 :: "string \<Rightarrow> byte list"
  bt_base64 :: "byte list \<Rightarrow> string"
  bt_seal :: "byte list \<Rightarrow> byte list \<Rightarrow> byte list \<Rightarrow> byte list \<times> byte list"
  bt_open :: "byte list \<Rightarrow> byte list \<Rightarrow> byte list \<Rightarrow> byte list \<Rightarrow> byte list option"
  bt_sha256 :: "byte list \<Rightarrow> string"

definition bytes_of :: "string \<Rightarrow> byte list" where
  "bytes_of s = map (\<lambda>c. of_nat (of_char c)) s"

definition MAGIC :: "byte list" where
  "MAGIC = bytes_of ''SOSPG001''"

definition IV_BYTES :: nat where "IV_BYTES = 12"
definition TAG_BYTES :: nat where "TAG_BYTES = 16"

definition HEADER_BYTES :: nat where
  "HEADER_BYTES = length MAGIC + IV_BYTES"

definition parse_backup_key :: "backup_tools \<Rightarrow> string \<Rightarrow> byte list result" where
  "parse_backup_key tools rawKey =
     (let key = bt_unbase64 tools rawKey
      in if length key \<noteq> 32 \<or> bt_base64 tools key \<noteq> rawKey
         then Inl (Plain_error ''BACKUP_ENCRYPTION_KEY_BASE64'') else Inr key)"

text \<open>Magic number, nonce, ciphertext, authentication tag.\<close>

definition encrypt_backup_file :: "backup_tools \<Rightarrow> byte list \<Rightarrow> byte list \<Rightarrow> byte list \<Rightarrow> byte list result" where
  "encrypt_backup_file tools iv input key =
     (if length key \<noteq> 32 then Inl (Plain_error ''encryption-key'')
      else case bt_seal tools key iv input of (ciphertext, tag) \<Rightarrow> Inr (MAGIC @ iv @ ciphertext @ tag))"

definition decrypt_backup_file :: "backup_tools \<Rightarrow> byte list \<Rightarrow> byte list \<Rightarrow> byte list result" where
  "decrypt_backup_file tools input key =
     (if length key \<noteq> 32 then Inl (Plain_error ''decryption-key'')
      else if length input \<le> HEADER_BYTES + TAG_BYTES then Inl (Plain_error ''truncated'')
      else
        let header = take HEADER_BYTES input; tag = drop (length input - TAG_BYTES) input
        in if take (length MAGIC) header \<noteq> MAGIC then Inl (Plain_error ''format'')
           else case bt_open tools key (drop (length MAGIC) header)
                  (drop HEADER_BYTES (take (length input - TAG_BYTES) input)) tag of
                  None \<Rightarrow> Inl (Plain_error ''authentication'')
                | Some output \<Rightarrow> Inr output)"

section \<open>Configuration\<close>

record database_target =
  dt_host :: string
  dt_port :: string
  dt_username :: string
  dt_password :: string
  dt_database :: string
  dt_sslMode :: string

definition is_postgres_url :: "url_parts \<Rightarrow> bool" where
  "is_postgres_url u \<longleftrightarrow> url_protocol u = ''postgresql:'' \<or> url_protocol u = ''postgres:''"

text \<open>\<open>url.pathname.replace(/^\//, '')\<close>.\<close>

definition path_without_slash :: "url_parts \<Rightarrow> string" where
  "path_without_slash u =
     (if url_pathname u \<noteq> [] \<and> hd (url_pathname u) = CHR ''/'' then tl (url_pathname u) else url_pathname u)"

definition database_process_environment :: "url_tools \<Rightarrow> string \<Rightarrow> database_target result" where
  "database_process_environment urls databaseUrl =
     bind_result (parse_url urls databaseUrl) (\<lambda>u.
     if \<not> is_postgres_url u then Inl (Plain_error ''DATABASE_URL must use PostgreSQL'')
     else
       bind_result (decode_uri urls (url_username u)) (\<lambda>username.
       bind_result (decode_uri urls (url_password u)) (\<lambda>password.
       bind_result (decode_uri urls (path_without_slash u)) (\<lambda>database.
       Inr \<lparr>dt_host = url_hostname u, dt_port = (if url_port u = [] then ''5432'' else url_port u),
            dt_username = username, dt_password = password, dt_database = database,
            dt_sslMode = (case url_sslmode u of None \<Rightarrow> ''require'' | Some m \<Rightarrow> m)\<rparr>))))"

text \<open>\<open>path.basename\<close> of POSIX: the part after the last slash, trailing slashes ignored.\<close>

definition posix_basename :: "string \<Rightarrow> string" where
  "posix_basename path =
     rev (takeWhile (\<lambda>c. c \<noteq> CHR ''/'') (dropWhile (\<lambda>c. c = CHR ''/'') (rev path)))"

definition validate_backup_metrics_path :: "string \<Rightarrow> string result" where
  "validate_backup_metrics_path path =
     (if take 1 path \<noteq> ''/'' \<or> posix_basename path \<noteq> ''sosedi_backup.prom''
      then Inl (Plain_error ''BACKUP_METRICS_FILE'') else Inr path)"

datatype destination_name = Primary | Secondary

record backup_destination =
  bd_name :: destination_name
  bd_endpoint :: string
  bd_bucket :: string

definition env_prefix :: "destination_name \<Rightarrow> string" where
  "env_prefix d = (case d of Primary \<Rightarrow> ''BACKUP_PRIMARY'' | Secondary \<Rightarrow> ''BACKUP_SECONDARY'')"

definition destination :: "url_tools \<Rightarrow> config \<Rightarrow> destination_name \<Rightarrow> backup_destination result" where
  "destination urls env d =
     (let pre = env_prefix d
      in bind_result (required_env env (pre @ ''_S3_ENDPOINT'')) (\<lambda>raw.
         bind_result (validate_https_url urls (pre @ ''_S3_ENDPOINT'') raw) (\<lambda>endpoint.
         bind_result (required_env env (pre @ ''_S3_REGION'')) (\<lambda>_.
         bind_result (required_env env (pre @ ''_S3_BUCKET'')) (\<lambda>bucket.
         bind_result (required_env env (pre @ ''_S3_ACCESS_KEY_ID'')) (\<lambda>_.
         bind_result (required_env env (pre @ ''_S3_SECRET_ACCESS_KEY'')) (\<lambda>_.
         Inr \<lparr>bd_name = d, bd_endpoint = endpoint, bd_bucket = bucket\<rparr>)))))))"

definition ensure_independent :: "url_tools \<Rightarrow> backup_destination \<Rightarrow> backup_destination \<Rightarrow> unit result" where
  "ensure_independent urls p s =
     bind_result (parse_url urls (bd_endpoint p)) (\<lambda>u.
     bind_result (parse_url urls (bd_endpoint s)) (\<lambda>v.
     if url_host u = url_host v then Inl (Plain_error ''same-provider'') else Inr ()))"

section \<open>The two storages\<close>

text \<open>
  An object of a backup bucket with its metadata, whose names the storage returns in lower case.
  Each destination has a bucket of its own; the third part of the state is the metrics file.
\<close>

record backup_object =
  bo_key :: string
  bo_bytes :: "byte list"
  bo_metadata :: "(string \<times> string) list"
  bo_lastModified :: "timestamp option"

record backup_world =
  bw_buckets :: "destination_name \<Rightarrow> backup_object list"
  bw_metric :: "int option"

text \<open>
  Which requests succeed. The answer to \<open>DeleteObjects\<close> can also succeed and name keys that were not
  deleted; the code does not look at them.
\<close>

record backup_faults =
  bf_put :: "destination_name \<Rightarrow> bool"
  bf_head :: "destination_name \<Rightarrow> bool"
  bf_list :: "destination_name \<Rightarrow> bool"
  bf_delete :: "destination_name \<Rightarrow> bool"
  bf_refuses :: "destination_name \<Rightarrow> string \<Rightarrow> bool"
  bf_metric :: bool

type_synonym 'a backup_outcome = "backup_world \<times> 'a result"

definition set_bucket :: "destination_name \<Rightarrow> backup_object list \<Rightarrow> backup_world \<Rightarrow> backup_world" where
  "set_bucket d xs w = w\<lparr>bw_buckets := (bw_buckets w)(d := xs)\<rparr>"

definition put_backup ::
    "backup_faults \<Rightarrow> destination_name \<Rightarrow> string \<Rightarrow> byte list \<Rightarrow> (string \<times> string) list \<Rightarrow> timestamp
      \<Rightarrow> backup_world \<Rightarrow> unit backup_outcome" where
  "put_backup faults d key bytes metadata now w =
     (if \<not> bf_put faults d then (w, Inl (Plain_error ''PutObject''))
      else (set_bucket d (filter (\<lambda>x. bo_key x \<noteq> key) (bw_buckets w d)
              @ [\<lparr>bo_key = key, bo_bytes = bytes, bo_metadata = map (map_prod lower id) metadata,
                  bo_lastModified = Some now\<rparr>]) w, Inr ()))"

definition find_backup :: "backup_world \<Rightarrow> destination_name \<Rightarrow> string \<Rightarrow> backup_object option" where
  "find_backup w d key = List.find (\<lambda>x. bo_key x = key) (bw_buckets w d)"

text \<open>\<open>assertStoredBackup\<close>: size and checksum of what the storage reports.\<close>

definition assert_stored_backup ::
    "int option \<Rightarrow> (string \<times> string) list \<Rightarrow> int \<Rightarrow> string \<Rightarrow> unit result" where
  "assert_stored_backup storedSize metadata expectedSize expectedDigest =
     (let storedDigest = map_option snd (List.find (\<lambda>(k, _). lower k = ''encryptedsha256'') metadata)
      in if storedSize \<noteq> Some expectedSize \<or> storedDigest \<noteq> Some expectedDigest
         then Inl (Plain_error ''verification'') else Inr ())"

definition verify_backup ::
    "backup_faults \<Rightarrow> destination_name \<Rightarrow> string \<Rightarrow> int \<Rightarrow> string \<Rightarrow> backup_world \<Rightarrow> unit result" where
  "verify_backup faults d key sizeBytes digest w =
     (if \<not> bf_head faults d then Inl (Plain_error ''HeadObject'')
      else case find_backup w d key of
        None \<Rightarrow> Inl (Plain_error ''NotFound'')
      | Some x \<Rightarrow> assert_stored_backup (Some (int (length (bo_bytes x)))) (bo_metadata x) sizeBytes digest)"

section \<open>Retention\<close>

definition RETENTION_DAYS :: int where "RETENTION_DAYS = 35"

definition BACKUP_PREFIX :: string where "BACKUP_PREFIX = ''postgresql/''"

definition is_expired_backup :: "timestamp \<Rightarrow> backup_object \<Rightarrow> bool" where
  "is_expired_backup cutoff x \<longleftrightarrow>
     bo_key x \<noteq> [] \<and> (case bo_lastModified x of None \<Rightarrow> False | Some t \<Rightarrow> t < cutoff)"

text \<open>
  One answer of \<open>ListObjectsV2\<close>: the first keys with the prefix after the continuation token, in
  the order of keys; the token of the next page is the last key when more follow. A page of the
  storage has at least one place.
\<close>

definition listed_after :: "string option \<Rightarrow> backup_object list \<Rightarrow> backup_object list" where
  "listed_after token xs =
     sort_key bo_key (filter (\<lambda>x. prefix BACKUP_PREFIX (bo_key x)
       \<and> (case token of None \<Rightarrow> True | Some k \<Rightarrow> k < bo_key x)) xs)"

definition list_page :: "nat \<Rightarrow> string option \<Rightarrow> backup_object list \<Rightarrow> backup_object list \<times> string option" where
  "list_page n token xs =
     (let rows = listed_after token xs; page = take (Suc n) rows
      in (page, if Suc n < length rows then Some (bo_key (last page)) else None))"

definition delete_backups :: "string set \<Rightarrow> backup_object list \<Rightarrow> backup_object list" where
  "delete_backups keys xs = filter (\<lambda>x. bo_key x \<notin> keys) xs"

lemma in_listed_after:
  "x \<in> set (listed_after token xs) \<longleftrightarrow> x \<in> set xs \<and> prefix BACKUP_PREFIX (bo_key x)
     \<and> (case token of None \<Rightarrow> True | Some k \<Rightarrow> k < bo_key x)"
  by (auto simp: listed_after_def)

lemma length_listed_after:
  "length (listed_after token xs) = length (filter (\<lambda>x. prefix BACKUP_PREFIX (bo_key x)
     \<and> (case token of None \<Rightarrow> True | Some k \<Rightarrow> k < bo_key x)) xs)"
  by (simp add: listed_after_def)

lemma listed_after_less:
  assumes "Suc n < length (listed_after token xs)"
  shows "length (listed_after (Some (bo_key (last (take (Suc n) (listed_after token xs))))) (delete_backups keys xs))
    < length (listed_after token xs)"
proof -
  let ?rows = "listed_after token xs"
  let ?k = "bo_key (last (take (Suc n) ?rows))"
  have ne: "take (Suc n) ?rows \<noteq> []" using assms by auto
  then have last: "last (take (Suc n) ?rows) \<in> set ?rows" by (meson in_set_takeD last_in_set)
  note last = this [unfolded in_listed_after]
  have "length (listed_after (Some ?k) (delete_backups keys xs))
      \<le> length (filter (\<lambda>x. prefix BACKUP_PREFIX (bo_key x) \<and> ?k < bo_key x) xs)"
    unfolding length_listed_after delete_backups_def filter_filter option.case
    by (rule order_trans [OF _ length_filter_le [of "\<lambda>x. bo_key x \<notin> keys"]]) (simp add: conj_ac)
  also have "filter (\<lambda>x. prefix BACKUP_PREFIX (bo_key x) \<and> ?k < bo_key x) xs
      = filter (\<lambda>x. ?k < bo_key x) (filter (\<lambda>x. prefix BACKUP_PREFIX (bo_key x)
          \<and> (case token of None \<Rightarrow> True | Some k \<Rightarrow> k < bo_key x)) xs)"
    unfolding filter_filter by (rule filter_cong) (use last in \<open>auto split: option.splits\<close>)
  also have "length \<dots> < length (listed_after token xs)"
    unfolding length_listed_after
    by (rule length_filter_less [of "last (take (Suc n) ?rows)"]) (use last in auto)
  finally show ?thesis .
qed

text \<open>The \<open>do\<close> loop of \<open>applyRetention\<close>: list a page, delete what has expired on it, go on.\<close>

function retention_loop ::
    "backup_faults \<Rightarrow> destination_name \<Rightarrow> nat \<Rightarrow> timestamp \<Rightarrow> string option \<Rightarrow> backup_object list
      \<Rightarrow> backup_object list \<times> unit result" where
  "retention_loop faults d n cutoff token xs =
     (if \<not> bf_list faults d then (xs, Inl (Plain_error ''ListObjectsV2''))
      else case list_page n token xs of (page, next_token) \<Rightarrow>
        let expired = filter (is_expired_backup cutoff) page
        in if expired \<noteq> [] \<and> \<not> bf_delete faults d then (xs, Inl (Plain_error ''DeleteObjects''))
           else
             let ys = delete_backups (bo_key ` set (filter (\<lambda>x. \<not> bf_refuses faults d (bo_key x)) expired)) xs
             in case next_token of None \<Rightarrow> (ys, Inr ()) | Some k \<Rightarrow> retention_loop faults d n cutoff (Some k) ys)"
  by pat_completeness auto

termination
  by (relation "measure (\<lambda>(faults, d, n, cutoff, token, xs). length (listed_after token xs))")
    (auto simp: list_page_def Let_def listed_after_less split: if_splits)

declare retention_loop.simps [simp del]

definition apply_retention ::
    "backup_faults \<Rightarrow> nat \<Rightarrow> destination_name \<Rightarrow> timestamp \<Rightarrow> backup_world \<Rightarrow> unit backup_outcome" where
  "apply_retention faults n d now w =
     (let cutoff = now - RETENTION_DAYS * 24 * 60 * 60 * 1000
      in case retention_loop faults d n cutoff None (bw_buckets w d) of (xs, r) \<Rightarrow> (set_bucket d xs w, r))"

section \<open>The run\<close>

text \<open>\<open>publishBackupSuccessMetric\<close>: the file holds the second of the completion.\<close>

definition publish_backup_success ::
    "backup_faults \<Rightarrow> string \<Rightarrow> timestamp \<Rightarrow> backup_world \<Rightarrow> unit backup_outcome" where
  "publish_backup_success faults path completedAt w =
     (case validate_backup_metrics_path path of
        Inl e \<Rightarrow> (w, Inl e)
      | Inr _ \<Rightarrow>
          if completedAt div 1000 \<le> 0 then (w, Inl (Plain_error ''timestamp''))
          else if \<not> bf_metric faults then (w, Inl (Plain_error ''metrics-file''))
          else (w\<lparr>bw_metric := Some (completedAt div 1000)\<rparr>, Inr ()))"

definition then_outcome :: "'a backup_outcome \<Rightarrow> (backup_world \<Rightarrow> 'b backup_outcome) \<Rightarrow> 'b backup_outcome" where
  "then_outcome o1 f = (case o1 of (w, Inl e) \<Rightarrow> (w, Inl e) | (w, Inr _) \<Rightarrow> f w)"

definition backup_key_at :: "timestamp \<Rightarrow> string" where
  "backup_key_at createdAt =
     BACKUP_PREFIX @ map (\<lambda>c. if c = CHR '':'' then CHR ''-'' else c) (iso_timestamp createdAt) @ ''.dump.enc''"

record backup_settings =
  bs_database :: database_target
  bs_key :: "byte list"
  bs_metricsPath :: string
  bs_primary :: backup_destination
  bs_secondary :: backup_destination

definition read_backup_settings :: "backup_tools \<Rightarrow> url_tools \<Rightarrow> config \<Rightarrow> backup_settings result" where
  "read_backup_settings tools urls env =
     bind_result (required_env env ''DATABASE_URL'') (\<lambda>databaseUrl.
     bind_result (database_process_environment urls databaseUrl) (\<lambda>database.
     bind_result (required_env env ''BACKUP_ENCRYPTION_KEY_BASE64'') (\<lambda>rawKey.
     bind_result (parse_backup_key tools rawKey) (\<lambda>key.
     bind_result (required_env env ''BACKUP_METRICS_FILE'') (\<lambda>rawPath.
     bind_result (validate_backup_metrics_path rawPath) (\<lambda>path.
     bind_result (destination urls env Primary) (\<lambda>p.
     bind_result (destination urls env Secondary) (\<lambda>s.
     bind_result (ensure_independent urls p s) (\<lambda>_.
     Inr \<lparr>bs_database = database, bs_key = key, bs_metricsPath = path, bs_primary = p, bs_secondary = s\<rparr>)))))))))"

text \<open>The uploads and their verification, the primary before the secondary.\<close>

definition upload_copies ::
    "backup_tools \<Rightarrow> backup_faults \<Rightarrow> byte list \<Rightarrow> timestamp \<Rightarrow> backup_world \<Rightarrow> unit backup_outcome" where
  "upload_copies tools faults encrypted createdAt w =
     (let key = backup_key_at createdAt;
          digest = bt_sha256 tools encrypted;
          metadata = [(''createdAt'', iso_timestamp createdAt), (''encryptedSha256'', digest),
                      (''format'', ''pg-custom+a256gcm-v1'')];
          put = (\<lambda>d. put_backup faults d key encrypted metadata createdAt);
          check = (\<lambda>d w. (w, verify_backup faults d key (int (length encrypted)) digest w))
      in then_outcome (put Primary w) (\<lambda>w1. then_outcome (put Secondary w1) (\<lambda>w2.
         then_outcome (check Primary w2) (check Secondary))))"

text \<open>Retention in both storages, then the metric.\<close>

definition finish_backup ::
    "backup_faults \<Rightarrow> nat \<Rightarrow> string \<Rightarrow> timestamp \<Rightarrow> timestamp \<Rightarrow> backup_world \<Rightarrow> unit backup_outcome" where
  "finish_backup faults n metricsPath createdAt completedAt w =
     then_outcome (apply_retention faults n Primary createdAt w) (\<lambda>w1.
     then_outcome (apply_retention faults n Secondary createdAt w1)
       (publish_backup_success faults metricsPath completedAt))"

definition run_backup ::
    "backup_tools \<Rightarrow> url_tools \<Rightarrow> config \<Rightarrow> (database_target \<Rightarrow> byte list result) \<Rightarrow> byte list \<Rightarrow> backup_faults \<Rightarrow> nat
      \<Rightarrow> timestamp \<Rightarrow> timestamp \<Rightarrow> backup_world \<Rightarrow> string backup_outcome" where
  "run_backup tools urls env pg_dump iv faults n createdAt completedAt w =
     (case read_backup_settings tools urls env of
        Inl e \<Rightarrow> (w, Inl e)
      | Inr s \<Rightarrow>
          (case bind_result (pg_dump (bs_database s)) (\<lambda>dump. encrypt_backup_file tools iv dump (bs_key s)) of
             Inl e \<Rightarrow> (w, Inl e)
           | Inr encrypted \<Rightarrow>
               then_outcome (upload_copies tools faults encrypted createdAt w) (\<lambda>w1.
               then_outcome (finish_backup faults n (bs_metricsPath s) createdAt completedAt w1) (\<lambda>w2.
               (w2, Inr (backup_key_at createdAt))))))"

end
