(* ===== verification/Http_Setup.thy ===== *)
theory Http_Setup
  imports Platform Item_Search "HOL-Library.Sublist"
begin

text \<open>
  The configuration of the HTTP server and what stands in front of every handler
  (\<open>app.setup.ts\<close>): the checks of the settings at start, the demand for HTTPS, the gate for old
  clients; the readiness answer (\<open>app.service.ts\<close>); and what becomes of an exception
  (\<open>common/filters/http-exception.filter.ts\<close>). \<open>isIP\<close> and the URL parser are arguments.
\<close>

section \<open>Versions\<close>

text \<open>The parts as numbers; \<open>None\<close> is \<open>Infinity\<close>, which a run of more than 308 digits gives.\<close>

record parsed_version =
  pv_raw :: string
  pv_parts :: "rat option list"

definition is_suffix_char :: "char \<Rightarrow> bool" where
  "is_suffix_char c \<longleftrightarrow> (let n = (of_char c :: nat) in
     (48 \<le> n \<and> n \<le> 57) \<or> (65 \<le> n \<and> n \<le> 90) \<or> (97 \<le> n \<and> n \<le> 122) \<or> c = CHR ''.'' \<or> c = CHR ''-'')"

definition is_version_suffix :: "string \<Rightarrow> bool" where
  "is_version_suffix s \<longleftrightarrow>
     s = [] \<or> (hd s \<in> {CHR ''-'', CHR ''+''} \<and> tl s \<noteq> [] \<and> list_all is_suffix_char (tl s))"

text \<open>One or more digits, and what must follow them, for the three numbers.\<close>

definition take_number :: "string \<Rightarrow> (string \<times> string) option" where
  "take_number s = (if takeWhile is_digit s = [] then None else Some (takeWhile is_digit s, dropWhile is_digit s))"

definition take_dot :: "string \<Rightarrow> string option" where
  "take_dot s = (if s \<noteq> [] \<and> hd s = CHR ''.'' then Some (tl s) else None)"

definition try_parse_version :: "string \<Rightarrow> parsed_version option" where
  "try_parse_version v =
     (let s = js_trim v
      in Option.bind (take_number s) (\<lambda>(a, s1). Option.bind (take_dot s1) (\<lambda>s2.
         Option.bind (take_number s2) (\<lambda>(b, s3). Option.bind (take_dot s3) (\<lambda>s4.
         Option.bind (take_number s4) (\<lambda>(c, s5).
         if is_version_suffix s5
         then Some \<lparr>pv_raw = s, pv_parts = [js_number a, js_number b, js_number c]\<rparr> else None))))))"

definition parse_version :: "string \<Rightarrow> string \<Rightarrow> parsed_version result" where
  "parse_version name v = (case try_parse_version v of None \<Rightarrow> Inl (Plain_error name) | Some p \<Rightarrow> Inr p)"

text \<open>A difference of two parts, as far as the code looks at it: its sign, which rounding keeps.\<close>

datatype js_difference = Negative | Zero | Positive | Not_a_number

fun part_difference :: "rat option \<Rightarrow> rat option \<Rightarrow> js_difference" where
  "part_difference (Some a) (Some b) = (if a < b then Negative else if a = b then Zero else Positive)"
| "part_difference (Some a) None = Negative"
| "part_difference None (Some b) = Positive"
| "part_difference None None = Not_a_number"

fun compare_parts :: "rat option list \<Rightarrow> rat option list \<Rightarrow> js_difference" where
  "compare_parts (a # as) (b # bs) =
     (if part_difference a b = Zero then compare_parts as bs else part_difference a b)"
| "compare_parts _ _ = Zero"

definition compare_versions :: "parsed_version \<Rightarrow> parsed_version \<Rightarrow> js_difference" where
  "compare_versions l r = compare_parts (pv_parts l) (pv_parts r)"

text \<open>\<open>difference >= 0\<close>, false of \<open>NaN\<close>.\<close>

definition is_at_least :: "parsed_version \<Rightarrow> parsed_version \<Rightarrow> bool" where
  "is_at_least l r \<longleftrightarrow> compare_versions l r \<in> {Zero, Positive}"

section \<open>Requests and gates\<close>

text \<open>The part of a request that the gates read; names of headers are in lower case.\<close>

record http_request =
  hq_path :: string
  hq_secure :: bool
  hq_header :: "string \<Rightarrow> string option"

datatype gate_answer =
    Pass "(string \<times> string) list"
  | Reject string "(string \<times> string) list"

definition https_gate :: "string \<Rightarrow> http_request \<Rightarrow> gate_answer" where
  "https_gate nodeEnv req =
     (if nodeEnv \<noteq> ''production'' then Pass []
      else if hq_secure req then Pass [] else Reject ''HTTPS_REQUIRED'' [])"

record compatibility_options =
  co_minimumVersion :: parsed_version
  co_androidUpdateUrl :: string
  co_iosUpdateUrl :: string

definition select_update_url :: "string option \<Rightarrow> compatibility_options \<Rightarrow> string" where
  "select_update_url platform opts =
     (if platform = Some ''ios'' then co_iosUpdateUrl opts
      else if platform = Some ''android'' then co_androidUpdateUrl opts else [])"

definition compatibility_gate :: "compatibility_options \<Rightarrow> http_request \<Rightarrow> gate_answer" where
  "compatibility_gate opts req =
     (if \<not> prefix ''/api/v1/'' (hq_path req) then Pass []
      else
        let headers = [(''X-Api-Version'', ''1''), (''X-Min-Mobile-Version'', pv_raw (co_minimumVersion opts))];
            requested = hq_header req ''x-api-version'';
            mobile = hq_header req ''x-mobile-version''
        in if \<not> blank requested \<and> requested \<noteq> Some ''1'' then Reject ''API_VERSION_UNSUPPORTED'' headers
           else if blank mobile then Pass headers
           else if (case try_parse_version (the mobile) of
                      None \<Rightarrow> False | Some v \<Rightarrow> is_at_least v (co_minimumVersion opts)) then Pass headers
           else
             let updateUrl = select_update_url (hq_header req ''x-mobile-platform'') opts
             in Reject ''MOBILE_UPDATE_REQUIRED''
                  (if updateUrl \<noteq> [] then headers @ [(''X-Mobile-Update-Url'', updateUrl)] else headers))"

section \<open>Settings\<close>

definition validate_update_url :: "url_tools \<Rightarrow> string \<Rightarrow> string \<Rightarrow> string result" where
  "validate_update_url urls name v =
     (if v = [] then Inr v
      else case ut_parse urls v of
        None \<Rightarrow> Inl (Plain_error name)
      | Some u \<Rightarrow>
          if url_protocol u \<noteq> ''https:'' \<or> url_username u \<noteq> [] \<or> url_password u \<noteq> []
          then Inl (Plain_error name) else Inr (url_href u))"

text \<open>\<open>is_ip\<close> is \<open>net.isIP\<close>: 4, 6, or 0 for a string that is no address.\<close>

definition validate_ip_or_cidr :: "(string \<Rightarrow> nat) \<Rightarrow> string \<Rightarrow> unit result" where
  "validate_ip_or_cidr is_ip entry =
     (let parts = split_at (CHR ''/'') entry; version = is_ip (hd parts)
      in if version = 0 \<or> 2 < length parts then Inl (Plain_error ''TRUSTED_PROXY_IPS'')
         else if length parts = 1 then Inr ()
         else case js_number (parts ! 1) of
           None \<Rightarrow> Inl (Plain_error ''TRUSTED_PROXY_IPS'')
         | Some n \<Rightarrow>
             if \<not> is_integer n \<or> n < 1 \<or> (if version = 4 then 32 else 128) < n
             then Inl (Plain_error ''TRUSTED_PROXY_IPS'') else Inr ())"

fun check_all :: "('a \<Rightarrow> unit result) \<Rightarrow> 'a list \<Rightarrow> unit result" where
  "check_all f [] = Inr ()"
| "check_all f (x # xs) = bind_result (f x) (\<lambda>_. check_all f xs)"

definition parse_trusted_proxy_ips :: "(string \<Rightarrow> nat) \<Rightarrow> string \<Rightarrow> string list result" where
  "parse_trusted_proxy_ips is_ip raw =
     (if js_trim raw = [] then Inr []
      else
        let entries = map js_trim (split_at (CHR '','') raw)
        in if list_ex (\<lambda>e. e = []) entries then Inl (Plain_error ''TRUSTED_PROXY_IPS'')
           else bind_result (check_all (validate_ip_or_cidr is_ip) entries) (\<lambda>_. Inr entries))"

definition validate_origin :: "url_tools \<Rightarrow> string \<Rightarrow> unit result" where
  "validate_origin urls origin =
     (case ut_parse urls origin of
        None \<Rightarrow> Inl (Plain_error ''CORS_ALLOWED_ORIGINS'')
      | Some u \<Rightarrow>
          if url_origin u \<noteq> origin \<or> url_protocol u \<notin> {''http:'', ''https:''} \<or> url_username u \<noteq> [] \<or> url_password u \<noteq> []
          then Inl (Plain_error ''CORS_ALLOWED_ORIGINS'') else Inr ())"

text \<open>\<open>[...new Set(origins)]\<close>: each origin at its first place.\<close>

definition first_occurrences :: "'a list \<Rightarrow> 'a list" where
  "first_occurrences xs = rev (remdups (rev xs))"

definition parse_allowed_origins :: "url_tools \<Rightarrow> string \<Rightarrow> string list result" where
  "parse_allowed_origins urls raw =
     (if js_trim raw = [] then Inr []
      else
        let origins = map js_trim (split_at (CHR '','') raw)
        in if list_ex (\<lambda>e. e = []) origins then Inl (Plain_error ''CORS_ALLOWED_ORIGINS'')
           else bind_result (check_all (validate_origin urls) origins) (\<lambda>_. Inr (first_occurrences origins)))"

definition cors_origins :: "url_tools \<Rightarrow> string \<Rightarrow> string \<Rightarrow> string list result" where
  "cors_origins urls raw nodeEnv =
     bind_result (parse_allowed_origins urls raw) (\<lambda>origins.
     if nodeEnv = ''production'' \<and> origins = [] then Inl (Plain_error ''CORS_ALLOWED_ORIGINS'') else Inr origins)"

text \<open>\<open>/^[1-9]\d*(b|kb|mb)$/i\<close>.\<close>

definition validate_body_limit :: "string \<Rightarrow> unit result" where
  "validate_body_limit v =
     (if v \<noteq> [] \<and> is_digit (hd v) \<and> hd v \<noteq> CHR ''0'' \<and> lower (dropWhile is_digit v) \<in> {''b'', ''kb'', ''mb''}
      then Inr () else Inl (Plain_error ''HTTP_BODY_LIMIT''))"

record app_setup_options =
  ao_trustedProxyIps :: "string option"
  ao_nodeEnv :: "string option"
  ao_corsAllowedOrigins :: "string option"
  ao_bodyLimit :: "string option"
  ao_minSupportedMobileVersion :: "string option"
  ao_androidUpdateUrl :: "string option"
  ao_iosUpdateUrl :: "string option"

text \<open>\<open>options.x ?? process.env.X ?? fallback\<close>.\<close>

definition setting :: "string option \<Rightarrow> config \<Rightarrow> string \<Rightarrow> string \<Rightarrow> string" where
  "setting opt env name fallback =
     (case opt of Some v \<Rightarrow> v | None \<Rightarrow> (case env name of Some v \<Rightarrow> v | None \<Rightarrow> fallback))"

record app_settings =
  as_nodeEnv :: string
  as_trustedProxies :: "string list"
  as_allowedOrigins :: "string list"
  as_compatibility :: compatibility_options
  as_bodyLimit :: string

definition configure_compatibility ::
    "url_tools \<Rightarrow> app_setup_options \<Rightarrow> config \<Rightarrow> compatibility_options result" where
  "configure_compatibility urls opts env =
     bind_result (parse_version ''MIN_SUPPORTED_MOBILE_VERSION''
       (setting (ao_minSupportedMobileVersion opts) env ''MIN_SUPPORTED_MOBILE_VERSION'' ''1.0.0'')) (\<lambda>minimum.
     bind_result (validate_update_url urls ''ANDROID_UPDATE_URL''
       (setting (ao_androidUpdateUrl opts) env ''ANDROID_UPDATE_URL'' [])) (\<lambda>android.
     bind_result (validate_update_url urls ''IOS_UPDATE_URL'' (setting (ao_iosUpdateUrl opts) env ''IOS_UPDATE_URL'' [])) (\<lambda>ios.
     Inr \<lparr>co_minimumVersion = minimum, co_androidUpdateUrl = android, co_iosUpdateUrl = ios\<rparr>)))"

definition configure_app ::
    "url_tools \<Rightarrow> (string \<Rightarrow> nat) \<Rightarrow> app_setup_options \<Rightarrow> config \<Rightarrow> app_settings result" where
  "configure_app urls is_ip opts env =
     (let nodeEnv = setting (ao_nodeEnv opts) env ''NODE_ENV'' ''development''
      in bind_result (parse_trusted_proxy_ips is_ip (setting (ao_trustedProxyIps opts) env ''TRUSTED_PROXY_IPS'' [])) (\<lambda>proxies.
         bind_result (cors_origins urls (setting (ao_corsAllowedOrigins opts) env ''CORS_ALLOWED_ORIGINS'' []) nodeEnv) (\<lambda>origins.
         bind_result (configure_compatibility urls opts env) (\<lambda>compatibility.
         let bodyLimit = setting (ao_bodyLimit opts) env ''HTTP_BODY_LIMIT'' ''256kb''
         in bind_result (validate_body_limit bodyLimit) (\<lambda>_.
         Inr \<lparr>as_nodeEnv = nodeEnv, as_trustedProxies = proxies, as_allowedOrigins = origins,
              as_compatibility = compatibility, as_bodyLimit = bodyLimit\<rparr>)))))"

text \<open>The gates of a configured server, in the order they were installed.\<close>

definition admit_request :: "app_settings \<Rightarrow> http_request \<Rightarrow> gate_answer" where
  "admit_request s req =
     (case https_gate (as_nodeEnv s) req of
        Reject code headers \<Rightarrow> Reject code headers
      | Pass _ \<Rightarrow> compatibility_gate (as_compatibility s) req)"

section \<open>Timeouts\<close>

definition parse_timeout :: "string \<Rightarrow> string option \<Rightarrow> int \<Rightarrow> int result" where
  "parse_timeout name raw fallback =
     (if blank raw then Inr fallback
      else case js_number (the raw) of
        None \<Rightarrow> Inl (Plain_error name)
      | Some v \<Rightarrow> if \<not> is_integer v \<or> v \<le> 0 then Inl (Plain_error name) else Inr \<lfloor>v\<rfloor>)"

record http_timeouts =
  ht_request :: int
  ht_headers :: int
  ht_keepAlive :: int

record http_timeout_options =
  hto_request :: "int option"
  hto_headers :: "int option"
  hto_keepAlive :: "int option"

definition timeout_of :: "int option \<Rightarrow> config \<Rightarrow> string \<Rightarrow> int \<Rightarrow> int result" where
  "timeout_of opt env name fallback =
     (case opt of Some v \<Rightarrow> Inr v | None \<Rightarrow> parse_timeout name (env name) fallback)"

definition configure_http_server :: "http_timeout_options \<Rightarrow> config \<Rightarrow> http_timeouts result" where
  "configure_http_server opts env =
     bind_result (timeout_of (hto_request opts) env ''HTTP_REQUEST_TIMEOUT_MS'' 30000) (\<lambda>request.
     bind_result (timeout_of (hto_headers opts) env ''HTTP_HEADERS_TIMEOUT_MS'' 15000) (\<lambda>headers.
     bind_result (timeout_of (hto_keepAlive opts) env ''HTTP_KEEP_ALIVE_TIMEOUT_MS'' 5000) (\<lambda>keepAlive.
     if request < headers then Inl (Plain_error ''HTTP_HEADERS_TIMEOUT_MS'')
     else Inr \<lparr>ht_request = request, ht_headers = headers, ht_keepAlive = keepAlive\<rparr>)))"

section \<open>Readiness\<close>

definition LATEST_REQUIRED_MIGRATION :: string where
  "LATEST_REQUIRED_MIGRATION = ''20260904000300_widen_financial_dispute_description''"

definition DEFAULT_MAX_CLOCK_SKEW_MS :: int where "DEFAULT_MAX_CLOCK_SKEW_MS = 5000"
definition READINESS_TIMEOUT_MS :: int where "READINESS_TIMEOUT_MS = 2000"

definition max_clock_skew :: "config \<Rightarrow> int result" where
  "max_clock_skew env =
     (case env ''MAX_CLOCK_SKEW_MS'' of
        None \<Rightarrow> Inr DEFAULT_MAX_CLOCK_SKEW_MS
      | Some raw \<Rightarrow>
          (case js_number raw of
             None \<Rightarrow> Inl (Plain_error ''MAX_CLOCK_SKEW_MS'')
           | Some v \<Rightarrow> if \<not> is_integer v \<or> v < 1000 \<or> 60000 < v then Inl (Plain_error ''MAX_CLOCK_SKEW_MS'')
                       else Inr \<lfloor>v\<rfloor>))"

record migration_row =
  mig_name :: string
  mig_finishedAt :: "timestamp option"
  mig_rolledBackAt :: "timestamp option"

definition migration_ready :: "migration_row list \<Rightarrow> bool" where
  "migration_ready rows \<longleftrightarrow>
     list_ex (\<lambda>m. mig_name m = LATEST_REQUIRED_MIGRATION \<and> mig_finishedAt m \<noteq> None \<and> mig_rolledBackAt m = None) rows
     \<and> \<not> list_ex (\<lambda>m. mig_finishedAt m = None \<and> mig_rolledBackAt m = None) rows"

text \<open>
  What the two requests of a probe meet: the rows of the migrations and the clock of the database,
  or nothing when the query failed; the clock of the server before and after; how long both
  requests took, and whether Redis answered.
\<close>

record readiness_probe =
  rp_migrations :: "migration_row list option"
  rp_databaseTime :: timestamp
  rp_queryStartedAt :: timestamp
  rp_queryFinishedAt :: timestamp
  rp_databaseMs :: int
  rp_pong :: bool
  rp_redisMs :: int

definition check_database_and_migrations :: "int \<Rightarrow> readiness_probe \<Rightarrow> unit result" where
  "check_database_and_migrations maxSkew p =
     (case rp_migrations p of
        None \<Rightarrow> Inl (Plain_error ''query'')
      | Some rows \<Rightarrow>
          if \<not> migration_ready rows then Inl (Plain_error ''Migration readiness failed'')
          else if rp_databaseTime p < rp_queryStartedAt p - maxSkew \<or> rp_queryFinishedAt p + maxSkew < rp_databaseTime p
          then Inl (Plain_error ''Clock readiness failed'')
          else Inr ())"

definition with_timeout :: "int \<Rightarrow> 'a result \<Rightarrow> 'a result" where
  "with_timeout ms r = (if READINESS_TIMEOUT_MS \<le> ms then Inl (Plain_error ''Readiness check timed out'') else r)"

definition get_readiness :: "int \<Rightarrow> readiness_probe \<Rightarrow> unit result" where
  "get_readiness maxSkew p =
     (case bind_result (with_timeout (rp_databaseMs p) (check_database_and_migrations maxSkew p)) (\<lambda>_.
           with_timeout (rp_redisMs p) (if rp_pong p then Inr () else Inl (Plain_error ''ping''))) of
        Inl _ \<Rightarrow> Inl (Service_unavailable ''NOT_READY'')
      | Inr _ \<Rightarrow> Inr ())"

section \<open>Exceptions\<close>

text \<open>
  What a handler throws: an HTTP exception with its status and its response, a text or an object;
  another error, whose fields \<open>status\<close> and \<open>statusCode\<close> hold a number or nothing numeric; or
  anything else.
\<close>

datatype message_field = One_message string | Messages "string list"

record error_body =
  eb_code :: "string option"
  eb_error :: "string option"
  eb_message :: "message_field option"

datatype exception_body = Body_text string | Body_object error_body

datatype thrown =
    Http_exception int exception_body string
  | Other_error "rat option" "rat option" string
  | Not_an_error

record api_error =
  ae_code :: string
  ae_message :: string

definition get_transport_status :: "thrown \<Rightarrow> int" where
  "get_transport_status e =
     (case e of
        Other_error status statusCode _ \<Rightarrow>
          (case (if status \<noteq> None then status else statusCode) of
             None \<Rightarrow> 500
           | Some s \<Rightarrow> if is_integer s \<and> 400 \<le> s \<and> s < 500 then \<lfloor>s\<rfloor> else 500)
      | _ \<Rightarrow> 500)"

text \<open>\<open>replace(/\s+/g, '_')\<close>.\<close>

function spaces_to_underscore :: "string \<Rightarrow> string" where
  "spaces_to_underscore [] = []"
| "spaces_to_underscore (c # cs) =
     (if is_js_space c then CHR ''_'' # spaces_to_underscore (dropWhile is_js_space cs)
      else c # spaces_to_underscore cs)"
  by pat_completeness auto

termination
  by (relation "measure length") (auto simp: le_imp_less_Suc length_dropWhile_le)

text \<open>\<open>HttpStatus\<close> of the framework, from the number to the name, is an argument.\<close>

definition get_code_by_status :: "(int \<Rightarrow> string option) \<Rightarrow> int \<Rightarrow> string option \<Rightarrow> string" where
  "get_code_by_status status_name status fallback =
     (if status = 400 then ''VALIDATION_ERROR''
      else if \<not> blank fallback then spaces_to_underscore (map upper_char (the fallback))
      else case status_name status of None \<Rightarrow> ''HTTP_ERROR'' | Some n \<Rightarrow> n)"

fun join_messages :: "string list \<Rightarrow> string" where
  "join_messages [] = []"
| "join_messages [m] = m"
| "join_messages (m # ms) = m @ ''; '' @ join_messages ms"

definition get_error :: "(int \<Rightarrow> string option) \<Rightarrow> thrown \<Rightarrow> int \<Rightarrow> api_error" where
  "get_error status_name e status =
     (case e of
        Http_exception _ (Body_text t) _ \<Rightarrow>
          \<lparr>ae_code = get_code_by_status status_name status None, ae_message = t\<rparr>
      | Http_exception _ (Body_object b) own \<Rightarrow>
          \<lparr>ae_code = (case eb_code b of Some c \<Rightarrow> c | None \<Rightarrow> get_code_by_status status_name status (eb_error b)),
           ae_message = (case eb_message b of None \<Rightarrow> own | Some (One_message m) \<Rightarrow> m | Some (Messages ms) \<Rightarrow> join_messages ms)\<rparr>
      | _ \<Rightarrow>
          if status = 413 then \<lparr>ae_code = ''PAYLOAD_TOO_LARGE'', ae_message = ''body-too-large''\<rparr>
          else \<lparr>ae_code = ''INTERNAL_SERVER_ERROR'', ae_message = ''internal-error''\<rparr>)"

definition catch_exception :: "(int \<Rightarrow> string option) \<Rightarrow> thrown \<Rightarrow> int \<times> api_error" where
  "catch_exception status_name e =
     (let status = (case e of Http_exception s _ _ \<Rightarrow> s | _ \<Rightarrow> get_transport_status e)
      in (status, get_error status_name e status))"

section \<open>Who asks\<close>

definition get_client_ip :: "string option \<Rightarrow> string option \<Rightarrow> string" where
  "get_client_ip ip remoteAddress =
     (case ip of Some a \<Rightarrow> a | None \<Rightarrow> (case remoteAddress of Some a \<Rightarrow> a | None \<Rightarrow> ''unknown''))"

text \<open>\<open>/^[A-Za-z0-9._-]{8,100}$/\<close>; otherwise a new identifier.\<close>

definition get_request_id :: "string option \<Rightarrow> string \<Rightarrow> string" where
  "get_request_id header uuid =
     (case header of
        None \<Rightarrow> uuid
      | Some v \<Rightarrow> if 8 \<le> length v \<and> length v \<le> 100 \<and> list_all (\<lambda>c. is_suffix_char c \<or> c = CHR ''_'') v then v else uuid)"

end
