(* ===== verification/Restore.thy ===== *)
theory Restore
  imports Backup Http_Setup
begin

text \<open>
  Restoring from backups: the drill that restores an encrypted dump into an isolated, empty
  database (\<open>operations/postgres-restore.ts\<close>), and the drill that restores one object of the
  storage into an isolated bucket (\<open>operations/s3-restore-sample.ts\<close>). The PostgreSQL programs are
  arguments; the commands that were run are part of the outcome.
\<close>

section \<open>The database drill\<close>

datatype restore_command =
    List_dump "byte list"
  | Query_tables database_target
  | Restore_into database_target "byte list"
  | Query_migration database_target

record restore_tools =
  rt_list :: "byte list \<Rightarrow> unit result"
  rt_tables :: "database_target \<Rightarrow> string result"
  rt_restore :: "database_target \<Rightarrow> byte list \<Rightarrow> unit result"
  rt_migration :: "database_target \<Rightarrow> string result"

definition parse_target :: "url_tools \<Rightarrow> string \<Rightarrow> database_target result" where
  "parse_target urls databaseUrl =
     bind_result (parse_url urls databaseUrl) (\<lambda>u.
     if \<not> is_postgres_url u then Inl (Plain_error ''RESTORE_DATABASE_URL must use PostgreSQL'')
     else
       bind_result (decode_uri urls (path_without_slash u)) (\<lambda>database.
       if url_hostname u = [] \<or> url_username u = [] \<or> database = [] then Inl (Plain_error ''RESTORE_DATABASE_URL is incomplete'')
       else
         bind_result (decode_uri urls (url_username u)) (\<lambda>username.
         bind_result (decode_uri urls (url_password u)) (\<lambda>password.
         Inr \<lparr>dt_host = url_hostname u, dt_port = (if url_port u = [] then ''5432'' else url_port u),
              dt_username = username, dt_password = password, dt_database = database,
              dt_sslMode = (case url_sslmode u of None \<Rightarrow> ''require'' | Some m \<Rightarrow> m)\<rparr>))))"

definition target_id :: "database_target \<Rightarrow> string" where
  "target_id t = dt_host t @ '':'' @ dt_port t @ ''/'' @ dt_database t"

definition assert_isolated_target :: "database_target \<Rightarrow> string \<Rightarrow> unit result" where
  "assert_isolated_target t confirmation =
     (if \<not> prefix ''sosedi_restore_'' (dt_database t) then Inl (Plain_error ''sosedi_restore_'')
      else if confirmation \<noteq> target_id t then Inl (Plain_error ''RESTORE_CONFIRM_TARGET'')
      else Inr ())"

definition assert_restore_target_is_empty :: "string \<Rightarrow> unit result" where
  "assert_restore_target_is_empty existingTable =
     (if js_trim existingTable \<noteq> [] then Inl (Plain_error ''restore-target-not-empty'') else Inr ())"

text \<open>The steps on the decrypted dump, with the commands that were run.\<close>

definition restore_dump :: "restore_tools \<Rightarrow> database_target \<Rightarrow> byte list \<Rightarrow> restore_command list \<times> unit result" where
  "restore_dump tools t dump =
     (case rt_list tools dump of
        Inl e \<Rightarrow> ([List_dump dump], Inl e)
      | Inr _ \<Rightarrow>
          (case bind_result (rt_tables tools t) assert_restore_target_is_empty of
             Inl e \<Rightarrow> ([List_dump dump, Query_tables t], Inl e)
           | Inr _ \<Rightarrow>
               (case rt_restore tools t dump of
                  Inl e \<Rightarrow> ([List_dump dump, Query_tables t, Restore_into t dump], Inl e)
                | Inr _ \<Rightarrow>
                    ([List_dump dump, Query_tables t, Restore_into t dump, Query_migration t],
                     bind_result (rt_migration tools t) (\<lambda>m.
                     if js_trim m \<noteq> LATEST_REQUIRED_MIGRATION then Inl (Plain_error ''required-migration'')
                     else Inr ())))))"

definition run_restore ::
    "backup_tools \<Rightarrow> url_tools \<Rightarrow> restore_tools \<Rightarrow> config \<Rightarrow> (string \<Rightarrow> byte list result) \<Rightarrow> restore_command list \<times> unit result" where
  "run_restore btools urls tools env read_file =
     (case bind_result (required_env env ''RESTORE_BACKUP_FILE'') (\<lambda>backupPath.
           bind_result (required_env env ''RESTORE_DATABASE_URL'') (\<lambda>databaseUrl.
           bind_result (parse_target urls databaseUrl) (\<lambda>t.
           bind_result (required_env env ''RESTORE_CONFIRM_TARGET'') (\<lambda>confirmation.
           bind_result (assert_isolated_target t confirmation) (\<lambda>_.
           bind_result (required_env env ''BACKUP_ENCRYPTION_KEY_BASE64'') (\<lambda>rawKey.
           bind_result (parse_backup_key btools rawKey) (\<lambda>key.
           bind_result (read_file backupPath) (\<lambda>encrypted.
           bind_result (decrypt_backup_file btools encrypted key) (\<lambda>dump. Inr (t, dump)))))))))) of
        Inl e \<Rightarrow> ([], Inl e)
      | Inr (t, dump) \<Rightarrow> restore_dump tools t dump)"

section \<open>The object drill\<close>

definition MAX_SAMPLE_BYTES :: int where
  "MAX_SAMPLE_BYTES = 20 * 1024 * 1024"

record sample_input =
  si_sourceBucket :: string
  si_sourceKey :: string
  si_sourceVersionId :: "string option"
  si_expectedSha256 :: string
  si_targetBucket :: string
  si_targetPrefix :: string
  si_targetConfirmation :: string

text \<open>The answer to \<open>GetObject\<close>.\<close>

record s3_response =
  sr_body :: "byte list option"
  sr_contentLength :: "int option"
  sr_contentType :: "string option"

record sample_result =
  sres_sha256 :: string
  sres_sizeBytes :: nat
  sres_sourceKeySha256 :: string
  sres_targetKey :: string

definition is_alnum :: "char \<Rightarrow> bool" where
  "is_alnum c \<longleftrightarrow> (let n = (of_char c :: nat) in (48 \<le> n \<and> n \<le> 57) \<or> (65 \<le> n \<and> n \<le> 90) \<or> (97 \<le> n \<and> n \<le> 122))"

text \<open>\<open>/^[A-Za-z0-9][A-Za-z0-9.-]{1,61}[A-Za-z0-9]$/\<close>.\<close>

definition valid_bucket :: "string \<Rightarrow> bool" where
  "valid_bucket v \<longleftrightarrow>
     3 \<le> length v \<and> length v \<le> 63 \<and> is_alnum (hd v) \<and> is_alnum (last v)
     \<and> list_all (\<lambda>c. is_alnum c \<or> c \<in> {CHR ''.'', CHR ''-''}) v"

text \<open>\<open>/^sosedi-restore-sample\/[A-Za-z0-9][A-Za-z0-9._-]{0,63}$/\<close>.\<close>

definition is_isolated_prefix :: "string \<Rightarrow> bool" where
  "is_isolated_prefix v \<longleftrightarrow>
     prefix ''sosedi-restore-sample/'' v
     \<and> (let rest = drop 22 v
        in 1 \<le> length rest \<and> length rest \<le> 64 \<and> is_alnum (hd rest)
           \<and> list_all (\<lambda>c. is_alnum c \<or> c \<in> {CHR ''.'', CHR ''_'', CHR ''-''}) rest)"

definition is_hex64 :: "string \<Rightarrow> bool" where
  "is_hex64 v \<longleftrightarrow> length v = 64
     \<and> list_all (\<lambda>c. let n = (of_char c :: nat) in (48 \<le> n \<and> n \<le> 57) \<or> (97 \<le> n \<and> n \<le> 102)) v"

definition validate_sample_input :: "sample_input \<Rightarrow> unit result" where
  "validate_sample_input i =
     (if \<not> valid_bucket (si_sourceBucket i) \<or> si_sourceKey i = [] \<or> \<not> valid_bucket (si_targetBucket i)
         \<or> \<not> is_isolated_prefix (si_targetPrefix i)
         \<or> si_targetConfirmation i \<noteq> si_targetBucket i @ ''/'' @ si_targetPrefix i
      then Inl (Plain_error ''isolated-target-required'')
      else if si_targetBucket i = si_sourceBucket i then Inl (Plain_error ''distinct-bucket'')
      else if \<not> is_hex64 (si_expectedSha256 i) then Inl (Plain_error ''expected-sha256'')
      else Inr ())"

definition bounded_body :: "s3_response \<Rightarrow> byte list result" where
  "bounded_body r =
     (case sr_body r of
        None \<Rightarrow> Inl (Plain_error ''no-body'')
      | Some bytes \<Rightarrow>
          (case sr_contentLength r of
             None \<Rightarrow> Inl (Plain_error ''ContentLength'')
           | Some n \<Rightarrow>
               if n \<le> 0 \<or> MAX_SAMPLE_BYTES < n then Inl (Plain_error ''ContentLength'')
               else if int (length bytes) \<noteq> n then Inl (Plain_error ''body-size'')
               else Inr bytes))"

text \<open>\<open>/^[A-Za-z0-9.+-]+\/[A-Za-z0-9.+-]+$/\<close>.\<close>

definition is_type_char :: "char \<Rightarrow> bool" where
  "is_type_char c \<longleftrightarrow> is_alnum c \<or> c \<in> {CHR ''.'', CHR ''+'', CHR ''-''}"

definition safe_content_type :: "string option \<Rightarrow> string" where
  "safe_content_type v =
     (case v of
        None \<Rightarrow> ''application/octet-stream''
      | Some t \<Rightarrow>
          (let a = takeWhile is_type_char t; rest = dropWhile is_type_char t
           in if a \<noteq> [] \<and> rest \<noteq> [] \<and> hd rest = CHR ''/'' \<and> tl rest \<noteq> [] \<and> list_all is_type_char (tl rest)
              then t else ''application/octet-stream''))"

text \<open>
  The two storages: the answers of the source, and the target with its requests, whose answer to a
  read may differ from what was written.
\<close>

record s3_sample_env =
  se_source :: "string \<Rightarrow> string \<Rightarrow> string option \<Rightarrow> s3_response result"
  se_put :: bool
  se_readBack :: "s3_object \<Rightarrow> s3_response result"

definition restore_s3_sample ::
    "backup_tools \<Rightarrow> s3_sample_env \<Rightarrow> sample_input \<Rightarrow> timestamp \<Rightarrow> s3_store \<Rightarrow> s3_store \<times> sample_result result" where
  "restore_s3_sample tools env i now store =
     (case bind_result (validate_sample_input i) (\<lambda>_.
           bind_result (se_source env (si_sourceBucket i) (si_sourceKey i) (si_sourceVersionId i)) (\<lambda>source.
           bind_result (bounded_body source) (\<lambda>bytes.
           if bt_sha256 tools bytes \<noteq> si_expectedSha256 i then Inl (Plain_error ''source-checksum'')
           else Inr (source, bytes)))) of
        Inl e \<Rightarrow> (store, Inl e)
      | Inr (source, bytes) \<Rightarrow>
          (let sha = bt_sha256 tools bytes; targetKey = si_targetPrefix i @ ''/'' @ take 16 sha @ ''.sample''
           in if \<not> se_put env then (store, Inl (Plain_error ''PutObject''))
              else
                let store' = put_object (si_targetBucket i) targetKey bytes (safe_content_type (sr_contentType source)) now store
                in case find_object store' (si_targetBucket i) targetKey of
                     None \<Rightarrow> (store', Inl (Plain_error ''NoSuchKey''))
                   | Some x \<Rightarrow>
                       (store',
                        bind_result (se_readBack env x) (\<lambda>restored.
                        bind_result (bounded_body restored) (\<lambda>restoredBytes.
                        if bt_sha256 tools restoredBytes \<noteq> sha then Inl (Plain_error ''restored-checksum'')
                        else Inr \<lparr>sres_sha256 = sha, sres_sizeBytes = length bytes,
                               sres_sourceKeySha256 = bt_sha256 tools (bytes_of (si_sourceKey i)),
                               sres_targetKey = targetKey\<rparr>)))))"

section \<open>The program of the object drill\<close>

definition optional_env :: "config \<Rightarrow> string \<Rightarrow> string option" where
  "optional_env env name =
     (case env name of None \<Rightarrow> None | Some v \<Rightarrow> if js_trim v = [] then None else Some (js_trim v))"

definition require_distinct_restore_identities :: "string \<Rightarrow> string \<Rightarrow> unit result" where
  "require_distinct_restore_identities sourceAccessKeyId targetAccessKeyId =
     (if sourceAccessKeyId = targetAccessKeyId then Inl (Plain_error ''distinct-identities'') else Inr ())"

record s3_client_config =
  sc_endpoint :: string
  sc_region :: string
  sc_accessKeyId :: string
  sc_secretAccessKey :: string

definition s3_client :: "url_tools \<Rightarrow> config \<Rightarrow> string \<Rightarrow> string \<Rightarrow> s3_client_config result" where
  "s3_client urls env side accessKeyId =
     (let name = (\<lambda>part. ''S3_RESTORE_'' @ side @ part)
      in bind_result (required_env env (name ''_ENDPOINT'')) (\<lambda>raw.
         bind_result (validate_https_url urls (name ''_ENDPOINT'') raw) (\<lambda>endpoint.
         bind_result (required_env env (name ''_REGION'')) (\<lambda>region.
         bind_result (required_env env (name ''_SECRET_ACCESS_KEY'')) (\<lambda>secret.
         Inr \<lparr>sc_endpoint = endpoint, sc_region = region, sc_accessKeyId = accessKeyId,
              sc_secretAccessKey = secret\<rparr>)))))"

definition sample_input_of :: "config \<Rightarrow> sample_input result" where
  "sample_input_of env =
     bind_result (required_env env ''S3_RESTORE_SOURCE_BUCKET'') (\<lambda>sourceBucket.
     bind_result (required_env env ''S3_RESTORE_SOURCE_KEY'') (\<lambda>sourceKey.
     bind_result (required_env env ''S3_RESTORE_EXPECTED_SHA256'') (\<lambda>expected.
     bind_result (required_env env ''S3_RESTORE_TARGET_BUCKET'') (\<lambda>targetBucket.
     bind_result (required_env env ''S3_RESTORE_TARGET_PREFIX'') (\<lambda>targetPrefix.
     bind_result (required_env env ''S3_RESTORE_CONFIRM_TARGET'') (\<lambda>confirmation.
     Inr \<lparr>si_sourceBucket = sourceBucket, si_sourceKey = sourceKey,
          si_sourceVersionId = optional_env env ''S3_RESTORE_SOURCE_VERSION_ID'', si_expectedSha256 = expected,
          si_targetBucket = targetBucket, si_targetPrefix = targetPrefix, si_targetConfirmation = confirmation\<rparr>))))))"

text \<open>The storages answer to the clients that were made for them.\<close>

definition run_s3_restore_sample ::
    "backup_tools \<Rightarrow> url_tools \<Rightarrow> (s3_client_config \<Rightarrow> s3_client_config \<Rightarrow> s3_sample_env) \<Rightarrow> config \<Rightarrow> timestamp
      \<Rightarrow> s3_store \<Rightarrow> s3_store \<times> sample_result result" where
  "run_s3_restore_sample tools urls clients env now store =
     (case bind_result (required_env env ''S3_RESTORE_SOURCE_ACCESS_KEY_ID'') (\<lambda>sourceId.
           bind_result (required_env env ''S3_RESTORE_TARGET_ACCESS_KEY_ID'') (\<lambda>targetId.
           bind_result (require_distinct_restore_identities sourceId targetId) (\<lambda>_.
           bind_result (s3_client urls env ''SOURCE'' sourceId) (\<lambda>source.
           bind_result (s3_client urls env ''TARGET'' targetId) (\<lambda>target.
           bind_result (sample_input_of env) (\<lambda>input. Inr (source, target, input))))))) of
        Inl e \<Rightarrow> (store, Inl e)
      | Inr (source, target, input) \<Rightarrow> restore_s3_sample tools (clients source target) input now store)"

end
