(* ===== verification/Operations_Properties.thy ===== *)
theory Operations_Properties
  imports Restore
begin

text \<open>
  What the backup and the drills promise: a dump can be read back, a backup run never removes a
  recent backup and removes an old one only after both new copies were verified, and a drill
  writes to an isolated and empty target only.
\<close>

section \<open>The container\<close>

text \<open>
  The documented behaviour of AES-256-GCM: a tag of sixteen bytes, a ciphertext as long as the
  text, and decryption with the same key and nonce gives the text back.
\<close>

definition gcm_laws :: "backup_tools \<Rightarrow> bool" where
  "gcm_laws tools \<longleftrightarrow>
     (\<forall>key iv p. length (fst (bt_seal tools key iv p)) = length p \<and> length (snd (bt_seal tools key iv p)) = 16
        \<and> bt_open tools key iv (fst (bt_seal tools key iv p)) (snd (bt_seal tools key iv p)) = Some p)"

lemma decrypt_encrypt_backup:
  assumes "gcm_laws tools" and "length iv = 12" and "dump \<noteq> []"
    and "encrypt_backup_file tools iv dump key = Inr encrypted"
  shows "decrypt_backup_file tools encrypted key = Inr dump"
proof -
  obtain c t where seal: "bt_seal tools key iv dump = (c, t)" by fastforce
  have key: "length key = 32" and e: "encrypted = MAGIC @ iv @ c @ t"
    using assms(4) seal by (auto simp: encrypt_backup_file_def split: if_splits)
  have laws: "length c = length dump" "length t = 16" "bt_open tools key iv c t = Some dump"
    using assms(1) seal unfolding gcm_laws_def by (metis fst_conv snd_conv)+
  have m: "length MAGIC = 8" by (simp add: MAGIC_def bytes_of_def)
  have "length encrypted = 36 + length dump" by (simp add: e m laws assms(2))
  moreover have "drop (length encrypted - 16) encrypted = t" "take (length encrypted - 16) encrypted = MAGIC @ iv @ c"
    by (simp_all add: e laws(2))
  moreover have "take 20 encrypted = MAGIC @ iv" by (simp add: e m assms(2))
  moreover have "drop 20 (MAGIC @ iv @ c) = c" by (simp add: m assms(2))
  ultimately show ?thesis
    using key laws(3) assms(3) by (simp add: decrypt_backup_file_def HEADER_BYTES_def IV_BYTES_def TAG_BYTES_def m Let_def)
qed

section \<open>Retention\<close>

definition removable :: "timestamp \<Rightarrow> backup_object \<Rightarrow> bool" where
  "removable cutoff x \<longleftrightarrow> prefix BACKUP_PREFIX (bo_key x) \<and> is_expired_backup cutoff x"

lemma delete_expired:
  assumes "distinct (map bo_key xs)" and "\<And>x. x \<in> set es \<Longrightarrow> x \<in> set xs \<and> removable cutoff x"
  shows "set (delete_backups (bo_key ` set es) xs) = set xs - set es"
    and "distinct (map bo_key (delete_backups (bo_key ` set es) xs))"
    and "x \<in> set xs \<Longrightarrow> \<not> removable cutoff x \<Longrightarrow> x \<in> set (delete_backups (bo_key ` set es) xs)"
proof -
  show s: "set (delete_backups (bo_key ` set es) xs) = set xs - set es"
    using assms(2) distinct_key_eq [OF assms(1)] by (auto simp: delete_backups_def)
  show "distinct (map bo_key (delete_backups (bo_key ` set es) xs))"
    using assms(1) by (simp add: delete_backups_def distinct_map_filter)
  show "x \<in> set (delete_backups (bo_key ` set es) xs)" if "x \<in> set xs" "\<not> removable cutoff x"
    using s that assms(2) by auto
qed

lemma page_rows:
  assumes "list_page n token xs = (page, next_token)" and "x \<in> set page"
  shows "x \<in> set xs \<and> prefix BACKUP_PREFIX (bo_key x)"
  using assms in_set_takeD [of x "Suc n" "listed_after token xs"] by (auto simp: list_page_def Let_def in_listed_after)

lemma page_covers:
  assumes "list_page n token xs = (page, next_token)" and "x \<in> set (listed_after token xs)" and "distinct (map bo_key xs)"
  shows "x \<in> set page \<or> (\<exists>k. next_token = Some k \<and> k < bo_key x)"
proof (cases "Suc n < length (listed_after token xs)")
  case False
  then show ?thesis using assms(1,2) by (auto simp: list_page_def Let_def)
next
  case True
  let ?rows = "listed_after token xs"
  have page: "page = take (Suc n) ?rows" "next_token = Some (bo_key (last page))"
    using assms(1) True by (auto simp: list_page_def Let_def)
  show ?thesis
  proof (cases "x \<in> set page")
    case False
    then have x: "x \<in> set (drop (Suc n) ?rows)"
      using assms(2) page(1) by (metis UnE append_take_drop_id set_append)
    have "sorted (map bo_key (take (Suc n) ?rows @ drop (Suc n) ?rows))"
      by (simp only: append_take_drop_id) (simp add: listed_after_def)
    then have sorted: "\<forall>y \<in> set page. \<forall>z \<in> set (drop (Suc n) ?rows). bo_key y \<le> bo_key z"
      by (simp only: map_append sorted_append page(1)) auto
    have "page \<noteq> []" using True page(1) by auto
    then have last: "last page \<in> set page" by simp
    with sorted x have le: "bo_key (last page) \<le> bo_key x" by blast
    have "last page \<in> set ?rows" using last page(1) in_set_takeD by metis
    then have "last page \<in> set xs" "x \<in> set xs" using assms(2) by (simp_all add: in_listed_after)
    then have "bo_key (last page) \<noteq> bo_key x"
      using distinct_key_eq [OF assms(3)] False last by metis
    with le page(2) show ?thesis by auto
  qed simp
qed

lemma retention_loop_safe:
  assumes "retention_loop faults d n cutoff token xs = (ys, r)" and "distinct (map bo_key xs)"
  shows "set ys \<subseteq> set xs \<and> distinct (map bo_key ys) \<and> (\<forall>x \<in> set xs. \<not> removable cutoff x \<longrightarrow> x \<in> set ys)
    \<and> (r = Inr () \<longrightarrow> (\<forall>x \<in> set ys. x \<in> set (listed_after token xs) \<longrightarrow> \<not> removable cutoff x \<or> bf_refuses faults d (bo_key x)))"
  using assms
proof (induction faults d n cutoff token xs arbitrary: ys r rule: retention_loop.induct)
  case (1 faults d n cutoff token xs)
  obtain page next_token where p: "list_page n token xs = (page, next_token)" by fastforce
  let ?all = "filter (is_expired_backup cutoff) page"
  let ?es = "filter (\<lambda>x. \<not> bf_refuses faults d (bo_key x)) ?all"
  let ?zs = "delete_backups (bo_key ` set ?es) xs"
  have es: "x \<in> set xs \<and> removable cutoff x" if "x \<in> set ?es" for x
    using that page_rows [OF p] by (auto simp: removable_def)
  note del = delete_expired [where es = ?es and cutoff = cutoff, OF "1.prems"(2) es]
  show ?case
  proof (cases "\<not> bf_list faults d \<or> (?all \<noteq> [] \<and> \<not> bf_delete faults d)")
    case True
    then have "ys = xs \<and> r \<noteq> Inr ()"
      using "1.prems"(1) p by (subst (asm) retention_loop.simps) (auto simp: Let_def split: if_splits)
    then show ?thesis using "1.prems"(2) by auto
  next
    case go: False
    have gone: "x \<notin> set ?zs" if "x \<in> set page" "removable cutoff x" "\<not> bf_refuses faults d (bo_key x)" for x
      using that del(1) by (auto simp: removable_def)
    show ?thesis
    proof (cases next_token)
      case None
      have "ys = ?zs \<and> r = Inr ()"
        using "1.prems"(1) p go None by (subst (asm) retention_loop.simps) (auto simp: Let_def split: if_splits)
      moreover have "x \<in> set page" if "x \<in> set (listed_after token xs)" for x
        using page_covers [OF p that "1.prems"(2)] None by simp
      ultimately show ?thesis using del gone by blast
    next
      case (Some k)
      have loop: "retention_loop faults d n cutoff (Some k) ?zs = (ys, r)"
        using "1.prems"(1) p go Some by (subst (asm) retention_loop.simps) (auto simp: Let_def split: if_splits)
      have IH: "set ys \<subseteq> set ?zs \<and> distinct (map bo_key ys) \<and> (\<forall>x \<in> set ?zs. \<not> removable cutoff x \<longrightarrow> x \<in> set ys)
        \<and> (r = Inr () \<longrightarrow> (\<forall>x \<in> set ys. x \<in> set (listed_after (Some k) ?zs)
            \<longrightarrow> \<not> removable cutoff x \<or> bf_refuses faults d (bo_key x)))"
        by (rule "1.IH" [OF _ p [symmetric] refl _ refl Some loop del(2)]) (use go in auto)
      have "\<not> removable cutoff x \<or> bf_refuses faults d (bo_key x)" if ok: "r = Inr ()" and x: "x \<in> set ys" "x \<in> set (listed_after token xs)" for x
      proof -
        have z: "x \<in> set ?zs" using IH x(1) by blast
        from page_covers [OF p x(2) "1.prems"(2)] show ?thesis
        proof
          assume "x \<in> set page"
          then show ?thesis using gone z by blast
        next
          assume "\<exists>k'. next_token = Some k' \<and> k' < bo_key x"
          then have "x \<in> set (listed_after (Some k) ?zs)"
            using z x(2) Some by (simp add: in_listed_after)
          then show ?thesis using IH ok x(1) by blast
        qed
      qed
      with IH del show ?thesis by blast
    qed
  qed
qed

section \<open>A run of the backup\<close>

definition unique_keys :: "backup_world \<Rightarrow> bool" where
  "unique_keys w \<longleftrightarrow> (\<forall>d. distinct (map bo_key (bw_buckets w d)))"

text \<open>Every other backup that \<open>p\<close> does not condemn is still there.\<close>

definition kept :: "string \<Rightarrow> (backup_object \<Rightarrow> bool) \<Rightarrow> backup_world \<Rightarrow> backup_world \<Rightarrow> bool" where
  "kept key p w w' \<longleftrightarrow>
     (\<forall>d. \<forall>x \<in> set (bw_buckets w d). bo_key x \<noteq> key \<and> \<not> p x \<longrightarrow> x \<in> set (bw_buckets w' d))"

definition has_copies :: "string \<Rightarrow> byte list \<Rightarrow> timestamp \<Rightarrow> destination_name set \<Rightarrow> backup_world \<Rightarrow> bool" where
  "has_copies key bytes t ds w \<longleftrightarrow>
     (\<forall>d \<in> ds. \<exists>x \<in> set (bw_buckets w d). bo_key x = key \<and> bo_bytes x = bytes \<and> bo_lastModified x = Some t)"

lemma kept_refl [simp]: "kept key p w w"
  by (simp add: kept_def)

lemma kept_trans: "kept key p w1 w2 \<Longrightarrow> kept key p w2 w3 \<Longrightarrow> kept key p w1 w3"
  by (auto simp: kept_def)

lemma kept_weaken: "kept key (\<lambda>_. False) w1 w2 \<Longrightarrow> kept key p w1 w2"
  by (auto simp: kept_def)

lemma put_backup_effect:
  assumes "put_backup faults d key bytes md now w = (w', r)" and "unique_keys w"
  shows "kept key (\<lambda>_. False) w w' \<and> unique_keys w' \<and> bw_metric w' = bw_metric w
    \<and> (has_copies key bytes now ds w \<longrightarrow> has_copies key bytes now ds w')
    \<and> (r = Inr () \<longrightarrow> has_copies key bytes now {d} w')"
proof (cases "bf_put faults d")
  case True
  then have w': "w' = set_bucket d (filter (\<lambda>x. bo_key x \<noteq> key) (bw_buckets w d)
      @ [\<lparr>bo_key = key, bo_bytes = bytes, bo_metadata = map (map_prod lower id) md, bo_lastModified = Some now\<rparr>]) w"
    using assms(1) by (simp add: put_backup_def)
  show ?thesis
    using assms(2) unfolding w' by (auto simp: kept_def unique_keys_def has_copies_def set_bucket_def distinct_map_filter)
next
  case False
  then show ?thesis using assms by (auto simp: put_backup_def)
qed

lemma apply_retention_effect:
  assumes "apply_retention faults n d now w = (w', r)" and "unique_keys w"
  defines "p \<equiv> removable (now - RETENTION_DAYS * 24 * 60 * 60 * 1000)"
  shows "kept key p w w' \<and> unique_keys w' \<and> bw_metric w' = bw_metric w
    \<and> (has_copies key bytes now ds w \<longrightarrow> has_copies key bytes now ds w')
    \<and> (\<forall>e. set (bw_buckets w' e) \<subseteq> set (bw_buckets w e))
    \<and> (r = Inr () \<longrightarrow> (\<forall>x \<in> set (bw_buckets w' d). \<not> p x \<or> bf_refuses faults d (bo_key x)))"
proof -
  let ?cutoff = "now - RETENTION_DAYS * 24 * 60 * 60 * 1000"
  obtain ys where loop: "retention_loop faults d n ?cutoff None (bw_buckets w d) = (ys, r)" and w': "w' = set_bucket d ys w"
    using assms(1) by (auto simp: apply_retention_def Let_def split: prod.splits)
  have u: "distinct (map bo_key (bw_buckets w d))" using assms(2) by (simp add: unique_keys_def)
  note safe = retention_loop_safe [OF loop u, folded p_def]
  have new: "\<not> p x" if "bo_lastModified x = Some now" for x
    using that by (simp add: p_def removable_def is_expired_backup_def RETENTION_DAYS_def)
  have "\<forall>x \<in> set ys. \<not> p x \<or> bf_refuses faults d (bo_key x)" if "r = Inr ()"
    using safe that by (auto simp: in_listed_after p_def removable_def)
  moreover have "kept key p w w'" using safe by (simp add: kept_def w' set_bucket_def)
  moreover have "unique_keys w'" using safe assms(2) by (simp add: unique_keys_def w' set_bucket_def)
  moreover have "has_copies key bytes now ds w'" if copies: "has_copies key bytes now ds w"
    unfolding has_copies_def
  proof
    fix e assume "e \<in> ds"
    then obtain x where "x \<in> set (bw_buckets w e)" "bo_key x = key \<and> bo_bytes x = bytes \<and> bo_lastModified x = Some now"
      using copies by (auto simp: has_copies_def)
    then show "\<exists>x \<in> set (bw_buckets w' e). bo_key x = key \<and> bo_bytes x = bytes \<and> bo_lastModified x = Some now"
      using safe new by (intro bexI [of _ x]) (auto simp: w' set_bucket_def)
  qed
  moreover have "\<forall>e. set (bw_buckets w' e) \<subseteq> set (bw_buckets w e)" using safe by (simp add: w' set_bucket_def)
  ultimately show ?thesis by (simp add: w' set_bucket_def)
qed

lemma both_copies:
  "has_copies key bytes t {Primary} w \<Longrightarrow> has_copies key bytes t {Secondary} w \<Longrightarrow> has_copies key bytes t UNIV w"
  unfolding has_copies_def
proof
  fix d
  assume p: "\<forall>d \<in> {Primary}. \<exists>x \<in> set (bw_buckets w d). bo_key x = key \<and> bo_bytes x = bytes \<and> bo_lastModified x = Some t"
    and q: "\<forall>d \<in> {Secondary}. \<exists>x \<in> set (bw_buckets w d). bo_key x = key \<and> bo_bytes x = bytes \<and> bo_lastModified x = Some t"
  show "\<exists>x \<in> set (bw_buckets w d). bo_key x = key \<and> bo_bytes x = bytes \<and> bo_lastModified x = Some t"
    using p q by (cases d) simp_all
qed

lemma upload_copies_effect:
  assumes "upload_copies tools faults encrypted createdAt w = (w', r)" and "unique_keys w"
  shows "kept (backup_key_at createdAt) (\<lambda>_. False) w w' \<and> unique_keys w' \<and> bw_metric w' = bw_metric w
    \<and> (r = Inr () \<longrightarrow> has_copies (backup_key_at createdAt) encrypted createdAt UNIV w')"
proof -
  let ?key = "backup_key_at createdAt"
  let ?md = "[(''createdAt'', iso_timestamp createdAt), (''encryptedSha256'', bt_sha256 tools encrypted),
    (''format'', ''pg-custom+a256gcm-v1'')]"
  obtain w1 r1 where p: "put_backup faults Primary ?key encrypted ?md createdAt w = (w1, r1)" by fastforce
  note e1 = put_backup_effect [OF p assms(2)]
  show ?thesis
  proof (cases r1)
    case (Inl e)
    then have "w' = w1 \<and> r = Inl e" using assms(1) p by (simp add: upload_copies_def Let_def then_outcome_def)
    then show ?thesis using e1 by blast
  next
    case (Inr x)
    obtain w2 r2 where q: "put_backup faults Secondary ?key encrypted ?md createdAt w1 = (w2, r2)" by fastforce
    have e2: "kept ?key (\<lambda>_. False) w1 w2 \<and> unique_keys w2 \<and> bw_metric w2 = bw_metric w1
      \<and> (has_copies ?key encrypted createdAt {Primary} w1 \<longrightarrow> has_copies ?key encrypted createdAt {Primary} w2)
      \<and> (r2 = Inr () \<longrightarrow> has_copies ?key encrypted createdAt {Secondary} w2)"
      by (rule put_backup_effect [OF q]) (use e1 in blast)
    have w': "w' = w2 \<and> (r = Inr () \<longrightarrow> r2 = Inr ())"
      using assms(1) p q Inr by (auto simp: upload_copies_def Let_def then_outcome_def split: sum.splits)
    have "has_copies ?key encrypted createdAt UNIV w2" if ok: "r = Inr ()"
    proof (rule both_copies)
      have "has_copies ?key encrypted createdAt {Primary} w1" using e1 Inr by simp
      then show "has_copies ?key encrypted createdAt {Primary} w2" using e2 by blast
      show "has_copies ?key encrypted createdAt {Secondary} w2" using e2 w' ok by blast
    qed
    moreover have "kept ?key (\<lambda>_. False) w w2" using e1 e2 kept_trans by blast
    ultimately show ?thesis using e1 e2 w' by simp
  qed
qed

lemma finish_backup_effect:
  assumes "finish_backup faults n path createdAt completedAt w = (w', r)" and "unique_keys w"
  defines "old \<equiv> removable (createdAt - RETENTION_DAYS * 24 * 60 * 60 * 1000)"
  shows "kept key old w w' \<and> (has_copies key bytes createdAt UNIV w \<longrightarrow> has_copies key bytes createdAt UNIV w')
    \<and> (r = Inr () \<longrightarrow> bw_metric w' = Some (completedAt div 1000) \<and> (\<forall>d. \<forall>x \<in> set (bw_buckets w' d). \<not> old x \<or> bf_refuses faults d (bo_key x)))"
proof -
  obtain w1 r1 where p: "apply_retention faults n Primary createdAt w = (w1, r1)" by fastforce
  note e1 = apply_retention_effect [OF p assms(2), folded old_def, of key bytes UNIV]
  show ?thesis
  proof (cases r1)
    case (Inl e)
    then have "w' = w1 \<and> r = Inl e" using assms(1) p by (simp add: finish_backup_def then_outcome_def)
    then show ?thesis using e1 by blast
  next
    case (Inr x)
    obtain w2 r2 where q: "apply_retention faults n Secondary createdAt w1 = (w2, r2)" by fastforce
    have "unique_keys w1" using e1 by blast
    note e2 = apply_retention_effect [OF q this, folded old_def, of key bytes UNIV]
    have w': "bw_buckets w' = bw_buckets w2"
      "r = Inr () \<longrightarrow> r2 = Inr () \<and> bw_metric w' = Some (completedAt div 1000)"
      using assms(1) p q Inr
      by (auto simp: finish_backup_def then_outcome_def publish_backup_success_def split: sum.splits if_splits)
    have "\<not> old x \<or> bf_refuses faults d (bo_key x)" if ok: "r = Inr ()" and x: "x \<in> set (bw_buckets w2 d)" for d x
    proof (cases d)
      case Primary
      then have "x \<in> set (bw_buckets w1 Primary)" using e2 x by blast
      then show ?thesis using e1 Inr Primary by simp
    next
      case Secondary
      then show ?thesis using e2 x w' ok by blast
    qed
    then have "r = Inr () \<longrightarrow> (\<forall>d. \<forall>x \<in> set (bw_buckets w' d). \<not> old x \<or> bf_refuses faults d (bo_key x))" by (simp add: w'(1))
    moreover have "kept key old w w2" using e1 e2 kept_trans by blast
    then have "kept key old w w'" by (simp add: kept_def w'(1))
    moreover have "has_copies key bytes createdAt UNIV w2" if "has_copies key bytes createdAt UNIV w"
      using e1 e2 that by blast
    then have "has_copies key bytes createdAt UNIV w \<longrightarrow> has_copies key bytes createdAt UNIV w'"
      by (simp add: has_copies_def w'(1))
    ultimately show ?thesis using w'(2) by blast
  qed
qed

text \<open>
  C35. A backup run never costs a backup: whatever request fails, every other backup younger than 35
  days stays in both storages; an older one is removed, and a success is published, only when
  both storages hold the new copy; and a successful run leaves the new copy in both, from which
  the dump can be decrypted, no backup past the retention but those a storage refused to delete, and the metric of its completion.
\<close>

theorem backup_safe:
  assumes "run_backup tools urls env pg_dump iv faults n createdAt completedAt w = (w', r)" and "unique_keys w"
    and "gcm_laws tools" and "length iv = 12"
  defines "key \<equiv> backup_key_at createdAt" and "old \<equiv> removable (createdAt - RETENTION_DAYS * 24 * 60 * 60 * 1000)"
  shows "kept key old w w'
    \<and> (kept key (\<lambda>_. False) w w' \<and> bw_metric w' = bw_metric w
       \<or> (\<exists>s dump copy. read_backup_settings tools urls env = Inr s \<and> pg_dump (bs_database s) = Inr dump
            \<and> has_copies key copy createdAt UNIV w'
            \<and> (dump \<noteq> [] \<longrightarrow> decrypt_backup_file tools copy (bs_key s) = Inr dump)))
    \<and> (\<forall>k. r = Inr k \<longrightarrow> k = key \<and> bw_metric w' = Some (completedAt div 1000)
         \<and> (\<forall>d. \<forall>x \<in> set (bw_buckets w' d). \<not> old x \<or> bf_refuses faults d (bo_key x))
         \<and> (\<exists>copy. has_copies key copy createdAt UNIV w'))"
proof (cases "\<exists>s dump copy. read_backup_settings tools urls env = Inr s \<and> pg_dump (bs_database s) = Inr dump
    \<and> encrypt_backup_file tools iv dump (bs_key s) = Inr copy")
  case False
  then have "w' = w \<and> (\<exists>e. r = Inl e)"
    using assms(1) by (auto simp: run_backup_def bind_result_def split: sum.splits)
  then show ?thesis by auto
next
  case True
  then obtain s dump copy where c: "read_backup_settings tools urls env = Inr s" "pg_dump (bs_database s) = Inr dump"
    "encrypt_backup_file tools iv dump (bs_key s) = Inr copy" by blast
  obtain w1 r1 where p: "upload_copies tools faults copy createdAt w = (w1, r1)" by fastforce
  note up = upload_copies_effect [OF p assms(2), folded key_def]
  show ?thesis
  proof (cases r1)
    case (Inl e)
    then have "w' = w1 \<and> r = Inl e" using assms(1) c p by (simp add: run_backup_def then_outcome_def)
    then show ?thesis using up kept_weaken by simp
  next
    case (Inr x)
    obtain w2 r2 where q: "finish_backup faults n (bs_metricsPath s) createdAt completedAt w1 = (w2, r2)" by fastforce
    have "unique_keys w1" using up by blast
    note fin = finish_backup_effect [OF q this, folded old_def, of key copy]
    have w': "w' = w2 \<and> (\<forall>k. r = Inr k \<longrightarrow> r2 = Inr () \<and> k = key)"
      using assms(1) c p q Inr by (auto simp: run_backup_def then_outcome_def key_def split: sum.splits)
    have copies: "has_copies key copy createdAt UNIV w'" using up fin Inr w' by simp
    moreover have "dump \<noteq> [] \<longrightarrow> decrypt_backup_file tools copy (bs_key s) = Inr dump"
      using decrypt_encrypt_backup [OF assms(3,4) _ c(3)] by blast
    moreover have "kept key old w w'"
      using up fin w' kept_trans [OF kept_weaken] by blast
    ultimately show ?thesis using fin w' c(1,2) by blast
  qed
qed

section \<open>A sample run\<close>

text \<open>
  Two storages with an expired and a recent backup each; a cipher that appends sixteen zero bytes
  has the laws of the real one.
\<close>

definition sample_backup_tools :: backup_tools where
  "sample_backup_tools = \<lparr>bt_unbase64 = (\<lambda>_. replicate 32 0), bt_base64 = (\<lambda>_. ''key''),
     bt_seal = (\<lambda>_ _ p. (p, replicate 16 0)), bt_open = (\<lambda>_ _ c _. Some c), bt_sha256 = (\<lambda>_. ''digest'')\<rparr>"

definition sample_url :: "string \<Rightarrow> string \<Rightarrow> url_parts" where
  "sample_url protocol host = \<lparr>url_href = protocol @ ''//'' @ host, url_protocol = protocol, url_host = host,
     url_origin = protocol @ ''//'' @ host,
     url_hostname = host, url_port = [], url_username = [], url_password = [], url_pathname = ''/db'', url_sslmode = None\<rparr>"

definition sample_urls :: url_tools where
  "sample_urls = \<lparr>ut_parse = (\<lambda>v. Some (if prefix ''postgres:'' v then sample_url ''postgres:'' (drop 11 v)
     else sample_url ''https:'' (drop 8 v))), ut_decode = Some\<rparr>"

definition sample_backup_env :: config where
  "sample_backup_env = map_of
     [(''DATABASE_URL'', ''postgres://db''), (''BACKUP_ENCRYPTION_KEY_BASE64'', ''key''),
      (''BACKUP_METRICS_FILE'', ''/var/sosedi_backup.prom''),
      (''BACKUP_PRIMARY_S3_ENDPOINT'', ''https://one''), (''BACKUP_PRIMARY_S3_REGION'', ''r''),
      (''BACKUP_PRIMARY_S3_BUCKET'', ''b1''), (''BACKUP_PRIMARY_S3_ACCESS_KEY_ID'', ''a''),
      (''BACKUP_PRIMARY_S3_SECRET_ACCESS_KEY'', ''s''),
      (''BACKUP_SECONDARY_S3_ENDPOINT'', ''https://two''), (''BACKUP_SECONDARY_S3_REGION'', ''r''),
      (''BACKUP_SECONDARY_S3_BUCKET'', ''b2''), (''BACKUP_SECONDARY_S3_ACCESS_KEY_ID'', ''a''),
      (''BACKUP_SECONDARY_S3_SECRET_ACCESS_KEY'', ''s'')]"

definition sample_backups :: backup_world where
  "sample_backups = \<lparr>bw_buckets = (\<lambda>_.
     [\<lparr>bo_key = ''postgresql/1'', bo_bytes = [1], bo_metadata = [], bo_lastModified = Some 1000\<rparr>,
      \<lparr>bo_key = ''postgresql/2'', bo_bytes = [2], bo_metadata = [], bo_lastModified = Some 9999999000\<rparr>]), bw_metric = None\<rparr>"

definition sample_faults :: backup_faults where
  "sample_faults = \<lparr>bf_put = (\<lambda>_. True), bf_head = (\<lambda>_. True), bf_list = (\<lambda>_. True), bf_delete = (\<lambda>_. True),
     bf_refuses = (\<lambda>_ _. False), bf_metric = True\<rparr>"

definition sample_backup_run :: "string backup_outcome" where
  "sample_backup_run = run_backup sample_backup_tools sample_urls sample_backup_env (\<lambda>_. Inr [7]) (replicate 12 0)
     sample_faults 0 10000000000 10000005000 sample_backups"

lemma sample_backup_answer: "snd sample_backup_run = Inr (backup_key_at 10000000000)"
  by code_simp

theorem backup_safe_witness:
  "snd sample_backup_run = Inr (backup_key_at 10000000000)
   \<and> bw_metric (fst sample_backup_run) = Some 10000005
   \<and> filter (removable (10000000000 - RETENTION_DAYS * 24 * 60 * 60 * 1000)) (bw_buckets (fst sample_backup_run) Secondary) = []
   \<and> (\<exists>copy. has_copies (backup_key_at 10000000000) copy 10000000000 UNIV (fst sample_backup_run))"
proof -
  have "run_backup sample_backup_tools sample_urls sample_backup_env (\<lambda>_. Inr [7]) (replicate 12 0)
     sample_faults 0 10000000000 10000005000 sample_backups = (fst sample_backup_run, snd sample_backup_run)"
    by (simp add: sample_backup_run_def)
  moreover have "unique_keys sample_backups" by (simp add: unique_keys_def sample_backups_def)
  moreover have "gcm_laws sample_backup_tools" by (simp add: gcm_laws_def sample_backup_tools_def)
  moreover have "length (replicate 12 (0 :: byte)) = 12" by simp
  ultimately have "\<forall>k. snd sample_backup_run = Inr k \<longrightarrow> k = backup_key_at 10000000000
      \<and> bw_metric (fst sample_backup_run) = Some (10000005000 div 1000)
      \<and> (\<forall>d. \<forall>x \<in> set (bw_buckets (fst sample_backup_run) d).
           \<not> removable (10000000000 - RETENTION_DAYS * 24 * 60 * 60 * 1000) x \<or> bf_refuses sample_faults d (bo_key x))
      \<and> (\<exists>copy. has_copies (backup_key_at 10000000000) copy 10000000000 UNIV (fst sample_backup_run))"
    by (rule backup_safe [THEN conjunct2, THEN conjunct2])
  then show ?thesis by (simp add: sample_backup_answer sample_faults_def filter_empty_conv)
qed

section \<open>The drills\<close>

text \<open>
  Nothing is written to a database before its name, the confirmation of the operator and the
  absence of tables have been checked, and what is written is the authenticated dump.
\<close>

theorem restore_isolated:
  assumes "run_restore btools urls tools env read_file = (cs, r)" and "Restore_into t dump \<in> set cs"
  shows "prefix ''sosedi_restore_'' (dt_database t) \<and> required_env env ''RESTORE_CONFIRM_TARGET'' = Inr (target_id t)
    \<and> (\<exists>tables. rt_tables tools t = Inr tables \<and> js_trim tables = []) \<and> rt_list tools dump = Inr ()
    \<and> (\<exists>file encrypted key. read_file file = Inr encrypted \<and> decrypt_backup_file btools encrypted key = Inr dump)"
  using assms
  by (auto simp: run_restore_def restore_dump_def bind_result_Inr_iff assert_isolated_target_def assert_restore_target_is_empty_def
    split: sum.splits prod.splits if_splits) blast+

text \<open>
  The object drill changes nothing but one object of the confirmed bucket, which is not the
  source's, and a success means that what was read back has the expected checksum.
\<close>

theorem sample_drill_isolated:
  assumes "restore_s3_sample tools env i now store = (store', r)"
  shows "(store' = store
      \<or> si_targetBucket i \<noteq> si_sourceBucket i \<and> is_isolated_prefix (si_targetPrefix i)
        \<and> si_targetConfirmation i = si_targetBucket i @ ''/'' @ si_targetPrefix i
        \<and> (\<exists>bytes type. bt_sha256 tools bytes = si_expectedSha256 i \<and> int (length bytes) \<le> MAX_SAMPLE_BYTES
             \<and> store' = put_object (si_targetBucket i)
                 (si_targetPrefix i @ ''/'' @ take 16 (si_expectedSha256 i) @ ''.sample'') bytes type now store))
    \<and> (\<forall>x. r = Inr x \<longrightarrow> sres_sha256 x = si_expectedSha256 i
          \<and> (\<exists>y restored. se_readBack env y = Inr restored \<and> map_option (bt_sha256 tools) (sr_body restored) = Some (si_expectedSha256 i)))"
  using assms
  by (auto simp: restore_s3_sample_def validate_sample_input_def bounded_body_def bind_result_Inr_iff Let_def
    split: sum.splits prod.splits if_splits option.splits) force+

text \<open>The program starts the drill with two different identities only.\<close>

lemma sample_program_identities:
  assumes "run_s3_restore_sample tools urls clients env now store = (store', Inr x)"
  shows "\<exists>source target input. sc_accessKeyId source \<noteq> sc_accessKeyId target \<and> sample_input_of env = Inr input
    \<and> restore_s3_sample tools (clients source target) input now store = (store', Inr x)"
  using assms
  by (auto simp: run_s3_restore_sample_def require_distinct_restore_identities_def s3_client_def Let_def
    bind_result_Inr_iff split: sum.splits prod.splits if_splits) (metis s3_client_config.select_convs(3))

end
