(* ===== verification/Http_Properties.thy ===== *)
theory Http_Properties
  imports Http_Setup
begin

text \<open>What the configured server lets through, says of itself, and tells of its exceptions.\<close>

section \<open>Versions\<close>

lemma compare_parts_Positive:
  "compare_parts [Some a, Some b, Some c] [Some d, Some e, Some f] \<in> {Zero, Positive}
     \<longleftrightarrow> d < a \<or> a = d \<and> (e < b \<or> b = e \<and> f \<le> c)"
  by auto

lemma js_number_infinity_rejected: "compare_parts (None # as) (None # bs) \<notin> {Zero, Positive}"
  by simp

lemma parts_three: "try_parse_version v = Some p \<Longrightarrow> length (pv_parts p) = 3"
  by (auto simp: try_parse_version_def Let_def bind_eq_Some_conv split: if_splits)

lemma configured_minimum:
  assumes "configure_app urls is_ip opts env = Inr s"
  shows "try_parse_version (setting (ao_minSupportedMobileVersion opts) env ''MIN_SUPPORTED_MOBILE_VERSION'' ''1.0.0'')
      = Some (co_minimumVersion (as_compatibility s))"
  using assms
  by (auto simp: configure_app_def configure_compatibility_def Let_def bind_result_Inr_iff parse_version_def
    split: option.splits)

lemma configured_env:
  "configure_app urls is_ip opts env = Inr s \<Longrightarrow> as_nodeEnv s = setting (ao_nodeEnv opts) env ''NODE_ENV'' ''development''"
  by (auto simp: configure_app_def Let_def bind_result_Inr_iff)

section \<open>The gates\<close>

text \<open>
  A configured server hands a request for the API to a handler only when it came over HTTPS in
  production, names the version 1 of the API or none, and comes from a client that does not name
  its version or whose version is at least the configured minimum, the three numbers compared in
  their order.
\<close>

theorem gates_sound:
  assumes "configure_app urls is_ip opts env = Inr s" and "admit_request s req = Pass headers"
    and "prefix ''/api/v1/'' (hq_path req)"
    and "pv_parts (co_minimumVersion (as_compatibility s)) = [Some d, Some e, Some f]"
  shows "(setting (ao_nodeEnv opts) env ''NODE_ENV'' ''development'' = ''production'' \<longrightarrow> hq_secure req)
    \<and> (blank (hq_header req ''x-api-version'') \<or> hq_header req ''x-api-version'' = Some ''1'')
    \<and> (\<forall>v. hq_header req ''x-mobile-version'' = Some v \<and> v \<noteq> [] \<longrightarrow>
         (\<exists>p a b c. try_parse_version v = Some p \<and> pv_parts p = [a, b, c]
           \<and> (\<forall>x y z. a = Some x \<and> b = Some y \<and> c = Some z \<longrightarrow> d < x \<or> x = d \<and> (e < y \<or> y = e \<and> f \<le> z))))"
proof -
  have secure: "as_nodeEnv s = ''production'' \<longrightarrow> hq_secure req"
    and gate: "compatibility_gate (as_compatibility s) req = Pass headers"
    using assms(2) by (auto simp: admit_request_def https_gate_def split: gate_answer.splits if_splits)
  have "blank (hq_header req ''x-api-version'') \<or> hq_header req ''x-api-version'' = Some ''1''"
    using gate assms(3) by (auto simp: compatibility_gate_def Let_def split: if_splits)
  moreover have "\<exists>p a b c. try_parse_version v = Some p \<and> pv_parts p = [a, b, c]
      \<and> (\<forall>x y z. a = Some x \<and> b = Some y \<and> c = Some z \<longrightarrow> d < x \<or> x = d \<and> (e < y \<or> y = e \<and> f \<le> z))"
    if mobile: "hq_header req ''x-mobile-version'' = Some v" "v \<noteq> []" for v
  proof -
    obtain p where p: "try_parse_version v = Some p" "is_at_least p (co_minimumVersion (as_compatibility s))"
      using gate assms(3) mobile
      by (auto simp: compatibility_gate_def Let_def blank_def split: if_splits option.splits)
    obtain a b c where parts: "pv_parts p = [a, b, c]"
      using parts_three [OF p(1)] by (auto simp: length_Suc_conv eval_nat_numeral)
    have "d < x \<or> x = d \<and> (e < y \<or> y = e \<and> f \<le> z)" if "a = Some x" "b = Some y" "c = Some z" for x y z
      using p(2) that unfolding is_at_least_def compare_versions_def parts assms(4)
      by (auto split: if_splits)
    with p(1) parts show ?thesis by blast
  qed
  ultimately show ?thesis using secure configured_env [OF assms(1)] by simp
qed

section \<open>Settings\<close>

lemma check_all_Inr: "check_all f xs = Inr () \<longleftrightarrow> (\<forall>x \<in> set xs. f x = Inr ())"
  by (induction xs) (auto simp: bind_result_Inr_iff)

lemma first_occurrences_simps [simp]:
  "set (first_occurrences xs) = set xs" "distinct (first_occurrences xs)" "first_occurrences [] = []"
  by (simp_all add: first_occurrences_def)

text \<open>
  The origins a server accepts credentials from are distinct web origins written in their own
  form, and in production there is at least one: the wildcard is never configured.
\<close>

theorem configured_origins:
  assumes "configure_app urls is_ip opts env = Inr s" and "\<And>u. ut_parse urls ''*'' \<noteq> Some u"
  shows "distinct (as_allowedOrigins s) \<and> ''*'' \<notin> set (as_allowedOrigins s)
    \<and> (\<forall>origin \<in> set (as_allowedOrigins s). \<exists>u. ut_parse urls origin = Some u \<and> url_origin u = origin
         \<and> url_protocol u \<in> {''http:'', ''https:''} \<and> url_username u = [] \<and> url_password u = [])
    \<and> (as_nodeEnv s = ''production'' \<longrightarrow> as_allowedOrigins s \<noteq> [])"
proof -
  obtain raw where "cors_origins urls raw (as_nodeEnv s) = Inr (as_allowedOrigins s)"
    using assms(1) by (auto simp: configure_app_def Let_def bind_result_Inr_iff)
  then have parsed: "parse_allowed_origins urls raw = Inr (as_allowedOrigins s)"
    and some: "as_nodeEnv s = ''production'' \<longrightarrow> as_allowedOrigins s \<noteq> []"
    by (auto simp: cors_origins_def bind_result_Inr_iff split: if_splits)
  have "distinct (as_allowedOrigins s) \<and> (\<forall>origin \<in> set (as_allowedOrigins s). validate_origin urls origin = Inr ())"
  proof (cases "js_trim raw = []")
    case False
    then have "as_allowedOrigins s = first_occurrences (map js_trim (split_at (CHR '','') raw))"
      "\<forall>x \<in> set (map js_trim (split_at (CHR '','') raw)). validate_origin urls x = Inr ()"
      using parsed by (auto simp: parse_allowed_origins_def Let_def bind_result_Inr_iff check_all_Inr split: if_splits)
    then show ?thesis by simp
  qed (use parsed in \<open>simp add: parse_allowed_origins_def\<close>)
  moreover have "\<exists>u. ut_parse urls origin = Some u \<and> url_origin u = origin \<and> url_protocol u \<in> {''http:'', ''https:''}
      \<and> url_username u = [] \<and> url_password u = []" if "validate_origin urls origin = Inr ()" for origin
    using that by (auto simp: validate_origin_def split: option.splits if_splits)
  ultimately show ?thesis using some assms(2) by metis
qed

text \<open>Timeouts from the environment are positive, and the headers never have longer than the request.\<close>

theorem timeouts_ordered:
  assumes "configure_http_server \<lparr>hto_request = None, hto_headers = None, hto_keepAlive = None\<rparr> env = Inr t"
  shows "0 < ht_headers t \<and> ht_headers t \<le> ht_request t \<and> 0 < ht_keepAlive t"
proof -
  have pos: "0 < v" if "parse_timeout name raw fallback = Inr v" "0 < fallback" for name raw fallback v
  proof -
    have "v = fallback \<or> (\<exists>x. is_integer x \<and> 0 < x \<and> v = \<lfloor>x\<rfloor>)"
      using that(1) by (auto simp: parse_timeout_def split: if_splits option.splits)
    then show ?thesis using that(2) by (auto simp: is_integer_def)
  qed
  obtain a b c where v: "parse_timeout ''HTTP_REQUEST_TIMEOUT_MS'' (env ''HTTP_REQUEST_TIMEOUT_MS'') 30000 = Inr a"
    "parse_timeout ''HTTP_HEADERS_TIMEOUT_MS'' (env ''HTTP_HEADERS_TIMEOUT_MS'') 15000 = Inr b"
    "parse_timeout ''HTTP_KEEP_ALIVE_TIMEOUT_MS'' (env ''HTTP_KEEP_ALIVE_TIMEOUT_MS'') 5000 = Inr c"
    "b \<le> a" "t = \<lparr>ht_request = a, ht_headers = b, ht_keepAlive = c\<rparr>"
    using assms by (auto simp: configure_http_server_def timeout_of_def bind_result_Inr_iff split: if_splits)
  show ?thesis using pos [OF v(2)] pos [OF v(3)] v(4,5) by simp
qed

section \<open>Readiness\<close>

text \<open>
  Ready means: both requests were answered in time, the last migration the code needs is applied
  and no other hangs half-applied, and the database's clock is within the skew of the server's.
\<close>

theorem ready_iff:
  "get_readiness maxSkew p = Inr ()
    \<longleftrightarrow> rp_databaseMs p < READINESS_TIMEOUT_MS \<and> rp_redisMs p < READINESS_TIMEOUT_MS \<and> rp_pong p
      \<and> (\<exists>rows. rp_migrations p = Some rows
           \<and> (\<exists>m \<in> set rows. mig_name m = LATEST_REQUIRED_MIGRATION \<and> mig_finishedAt m \<noteq> None \<and> mig_rolledBackAt m = None)
           \<and> (\<forall>m \<in> set rows. mig_finishedAt m \<noteq> None \<or> mig_rolledBackAt m \<noteq> None))
      \<and> rp_queryStartedAt p - maxSkew \<le> rp_databaseTime p \<and> rp_databaseTime p \<le> rp_queryFinishedAt p + maxSkew"
proof -
  have check: "check_database_and_migrations maxSkew p = Inr () \<longleftrightarrow>
      (\<exists>rows. rp_migrations p = Some rows \<and> migration_ready rows)
      \<and> rp_queryStartedAt p - maxSkew \<le> rp_databaseTime p \<and> rp_databaseTime p \<le> rp_queryFinishedAt p + maxSkew"
    by (auto simp: check_database_and_migrations_def split: option.splits)
  have timeout: "with_timeout ms r = Inr () \<longleftrightarrow> ms < READINESS_TIMEOUT_MS \<and> r = Inr ()" for ms r
    by (auto simp: with_timeout_def)
  have "get_readiness maxSkew p = Inr () \<longleftrightarrow>
      with_timeout (rp_databaseMs p) (check_database_and_migrations maxSkew p) = Inr ()
      \<and> with_timeout (rp_redisMs p) (if rp_pong p then Inr () else Inl (Plain_error ''ping'')) = Inr ()"
    by (auto simp: get_readiness_def bind_result_def split: sum.splits)
  then show ?thesis
    by (auto simp: check timeout migration_ready_def list_ex_iff split: if_splits)
qed

section \<open>Exceptions\<close>

text \<open>
  An exception that is not an answer of the program discloses nothing: the client sees one of two
  fixed texts with a status from 400 to 499 or 500, whatever the error says of itself.
\<close>

theorem internal_errors_opaque:
  assumes "\<And>s b m. e \<noteq> Http_exception s b m"
  shows "(fst (catch_exception names e) = 500 \<or> 400 \<le> fst (catch_exception names e) \<and> fst (catch_exception names e) < 500)
    \<and> ae_code (snd (catch_exception names e)) \<in> {''PAYLOAD_TOO_LARGE'', ''INTERNAL_SERVER_ERROR''}
    \<and> (\<forall>a b m m'. e = Other_error a b m \<longrightarrow> catch_exception names (Other_error a b m') = catch_exception names e)"
proof (cases e)
  case (Other_error a b m)
  have "400 \<le> \<lfloor>s\<rfloor> \<and> \<lfloor>s\<rfloor> < 500" if "400 \<le> s" "s < 500" for s :: rat
    using that by (simp add: le_floor_iff floor_less_iff)
  then have status: "get_transport_status e = 500 \<or> 400 \<le> get_transport_status e \<and> get_transport_status e < 500"
    by (auto simp: Other_error get_transport_status_def split: option.splits)
  have fst: "fst (catch_exception names e) = get_transport_status e"
    by (simp add: Other_error catch_exception_def Let_def)
  have code: "ae_code (snd (catch_exception names e)) \<in> {''PAYLOAD_TOO_LARGE'', ''INTERNAL_SERVER_ERROR''}"
    by (simp add: Other_error catch_exception_def get_error_def Let_def)
  have same: "catch_exception names (Other_error x y m1) = catch_exception names (Other_error x y m2)" for x y m1 m2
    by (simp add: catch_exception_def get_error_def get_transport_status_def Let_def)
  have "\<forall>a b m m'. e = Other_error a b m \<longrightarrow> catch_exception names (Other_error a b m') = catch_exception names e"
    using same by blast
  with status code show ?thesis unfolding fst by blast
qed (use assms in \<open>auto simp: catch_exception_def get_error_def get_transport_status_def Let_def\<close>)

end
