(* ===== verification/Metrics.thy ===== *)
theory Metrics
  imports Platform Database "HOL-Library.List_Lexorder" "HOL-Library.Char_ord"
begin

text \<open>
  The counters of the server and their publication (\<open>observability/metrics.service.ts\<close>,
  \<open>metrics.middleware.ts\<close>). The answers of PostgreSQL, Redis and the queue to the statistics
  requests are arguments; a published text is a list of samples (name, labels, number).
\<close>

definition HTTP_DURATION_BUCKETS :: "rat list" where
  "HTTP_DURATION_BUCKETS = [5/100, 1/10, 25/100, 5/10, 1, 25/10, 5]"

definition METRICS_TOKEN_MIN_LENGTH :: nat where "METRICS_TOKEN_MIN_LENGTH = 32"

datatype operation =
    Sms_send | Otp_global_limit | Upload_processing | Payment_checkout | Payment_webhook | Payout | Refund
  | Receipt | Backup_operation

definition OPERATIONS :: "operation list" where
  "OPERATIONS = [Sms_send, Otp_global_limit, Upload_processing, Payment_checkout, Payment_webhook, Payout, Refund,
     Receipt, Backup_operation]"

fun operation_name :: "operation \<Rightarrow> string" where
  "operation_name Sms_send = ''sms_send''"
| "operation_name Otp_global_limit = ''otp_global_limit''"
| "operation_name Upload_processing = ''upload_processing''"
| "operation_name Payment_checkout = ''payment_checkout''"
| "operation_name Payment_webhook = ''payment_webhook''"
| "operation_name Payout = ''payout''"
| "operation_name Refund = ''refund''"
| "operation_name Receipt = ''receipt''"
| "operation_name Backup_operation = ''backup''"

section \<open>Counters\<close>

text \<open>
  The maps are lists in the order of insertion. \<open>ms_startedAt\<close> is in seconds; the sum of the
  durations is kept exactly, without the rounding of the additions.
\<close>

record metrics_state =
  ms_token :: string
  ms_startedAt :: rat
  ms_httpRequests :: "((string \<times> int) \<times> nat) list"
  ms_durationBuckets :: "nat list"
  ms_operations :: "((operation \<times> bool) \<times> nat) list"
  ms_durationCount :: nat
  ms_durationSum :: rat
  ms_stalledJobs :: nat

definition new_metrics :: "config \<Rightarrow> rat \<Rightarrow> metrics_state result" where
  "new_metrics env startedAt =
     (let token = (case env ''METRICS_TOKEN'' of None \<Rightarrow> [] | Some t \<Rightarrow> t)
      in if env ''NODE_ENV'' = Some ''production'' \<and> length token < METRICS_TOKEN_MIN_LENGTH
         then Inl (Plain_error ''METRICS_TOKEN'')
         else Inr \<lparr>ms_token = token, ms_startedAt = startedAt, ms_httpRequests = [],
                ms_durationBuckets = map (\<lambda>_. 0) HTTP_DURATION_BUCKETS, ms_operations = [],
                ms_durationCount = 0, ms_durationSum = 0, ms_stalledJobs = 0\<rparr>)"

definition is_metrics_authorized :: "metrics_state \<Rightarrow> string option \<Rightarrow> bool" where
  "is_metrics_authorized s authorization \<longleftrightarrow>
     \<not> (length (ms_token s) < METRICS_TOKEN_MIN_LENGTH \<or> blank authorization)
     \<and> authorization = Some (''Bearer '' @ ms_token s)"

text \<open>\<open>map.set(key, (map.get(key) ?? 0) + 1)\<close>.\<close>

fun increment :: "'k \<Rightarrow> ('k \<times> nat) list \<Rightarrow> ('k \<times> nat) list" where
  "increment k [] = [(k, 1)]"
| "increment k ((j, n) # xs) = (if j = k then (j, n + 1) # xs else (j, n) # increment k xs)"

definition counter_of :: "'k \<Rightarrow> ('k \<times> nat) list \<Rightarrow> nat" where
  "counter_of k xs = (case map_of xs k of None \<Rightarrow> 0 | Some n \<Rightarrow> n)"

definition record_http_request :: "string \<Rightarrow> int \<Rightarrow> rat \<Rightarrow> metrics_state \<Rightarrow> metrics_state" where
  "record_http_request verb statusCode durationSeconds s =
     s\<lparr>ms_httpRequests := increment (map upper_char verb, statusCode) (ms_httpRequests s),
       ms_durationCount := ms_durationCount s + 1,
       ms_durationSum := ms_durationSum s + durationSeconds,
       ms_durationBuckets := map2 (\<lambda>upperBound n. if durationSeconds \<le> upperBound then n + 1 else n)
         HTTP_DURATION_BUCKETS (ms_durationBuckets s)\<rparr>"

definition record_operation :: "operation \<Rightarrow> bool \<Rightarrow> metrics_state \<Rightarrow> metrics_state" where
  "record_operation operation success s =
     s\<lparr>ms_operations := increment (operation, success) (ms_operations s)\<rparr>"

definition record_stalled :: "metrics_state \<Rightarrow> metrics_state" where
  "record_stalled s = s\<lparr>ms_stalledJobs := ms_stalledJobs s + 1\<rparr>"

text \<open>The middleware records a finished response; times are in nanoseconds.\<close>

definition finish_request :: "int \<Rightarrow> int \<Rightarrow> string \<Rightarrow> int \<Rightarrow> metrics_state \<Rightarrow> metrics_state" where
  "finish_request startedAt finishedAt verb statusCode s =
     record_http_request verb statusCode (of_int (finishedAt - startedAt) / 1000000000) s"

section \<open>Statistics\<close>

definition age_seconds :: "timestamp \<Rightarrow> timestamp option \<Rightarrow> int" where
  "age_seconds now oldest = (case oldest of None \<Rightarrow> 0 | Some t \<Rightarrow> max 0 ((now - t) div 1000))"

definition min_option :: "int list \<Rightarrow> int option" where
  "min_option xs = (if xs = [] then None else Some (Min (set xs)))"

definition get_outbox_stats :: "timestamp \<Rightarrow> db \<Rightarrow> nat \<times> int" where
  "get_outbox_stats now db =
     (let pending = filter (\<lambda>x. out_processedAt x = None) (db_outbox db)
      in (length pending, age_seconds now (min_option (map out_createdAt pending))))"

definition PUSH_STATUSES :: "push_status list" where
  "PUSH_STATUSES = [Push_PENDING, Push_PROCESSING, Push_RETRY, Push_DELIVERED]"

fun push_status_name :: "push_status \<Rightarrow> string" where
  "push_status_name Push_PENDING = ''PENDING''"
| "push_status_name Push_PROCESSING = ''PROCESSING''"
| "push_status_name Push_RETRY = ''RETRY''"
| "push_status_name Push_DELIVERED = ''DELIVERED''"

definition get_push_stats :: "timestamp \<Rightarrow> db \<Rightarrow> (push_status \<times> nat) list \<times> int" where
  "get_push_stats now db =
     (map (\<lambda>st. (st, count_rows (\<lambda>x. push_status_of x = st) (db_pushes db))) PUSH_STATUSES,
      age_seconds now (min_option (map push_createdAt
        (filter (\<lambda>x. push_status_of x \<in> {Push_PENDING, Push_PROCESSING, Push_RETRY}) (db_pushes db)))))"

text \<open>A number that is \<open>NaN\<close> or infinite is published as 0.\<close>

definition read_redis_number :: "string \<Rightarrow> string \<Rightarrow> rat" where
  "read_redis_number info name =
     (case List.find (\<lambda>line. take (length name + 1) line = name @ '':'') (split_at (CHR ''\<newline>'') info) of
        None \<Rightarrow> 0
      | Some line \<Rightarrow> (case js_number (js_trim (drop (length name + 1) line)) of None \<Rightarrow> 0 | Some v \<Rightarrow> v))"

record queue_counts =
  qc_wait :: nat
  qc_active :: nat
  qc_failed :: nat
  qc_delayed :: nat

record database_stats =
  dst_connections :: int
  dst_maxConnections :: int
  dst_databaseBytes :: int

section \<open>Publication\<close>

type_synonym sample = "string \<times> (string \<times> string) list \<times> rat"

text \<open>The entries are sorted as texts, the key before the number.\<close>

definition http_samples :: "metrics_state \<Rightarrow> (int \<Rightarrow> string) \<Rightarrow> sample list" where
  "http_samples s show_int =
     map (\<lambda>((verb, status), n). (''sosedi_http_requests_total'', [(''method'', verb), (''status'', show_int status)], of_nat n))
       (sort_key (\<lambda>((verb, status), n). verb @ '':'' @ show_int status @ '','' @ show_int (int n)) (ms_httpRequests s))"

definition duration_samples :: "metrics_state \<Rightarrow> (rat \<Rightarrow> string) \<Rightarrow> sample list" where
  "duration_samples s show_rat =
     map2 (\<lambda>le n. (''sosedi_http_request_duration_seconds_bucket'', [(''le'', show_rat le)], of_nat n))
       HTTP_DURATION_BUCKETS (ms_durationBuckets s)
     @ [(''sosedi_http_request_duration_seconds_bucket'', [(''le'', ''+Inf'')], of_nat (ms_durationCount s)),
        (''sosedi_http_request_duration_seconds_sum'', [], ms_durationSum s),
        (''sosedi_http_request_duration_seconds_count'', [], of_nat (ms_durationCount s))]"

definition queue_samples :: "metrics_state \<Rightarrow> queue_counts \<Rightarrow> sample list" where
  "queue_samples s queue =
     (let jobs = (\<lambda>state n. (''sosedi_bullmq_jobs'', [(''queue'', ''photo-processing''), (''state'', state)], of_nat n))
      in [jobs ''waiting'' (qc_wait queue), jobs ''active'' (qc_active queue), jobs ''failed'' (qc_failed queue),
          jobs ''delayed'' (qc_delayed queue),
          (''sosedi_bullmq_stalled_total'', [(''queue'', ''photo-processing'')], of_nat (ms_stalledJobs s))])"

definition operation_samples :: "metrics_state \<Rightarrow> sample list" where
  "operation_samples s =
     concat (map (\<lambda>op. map (\<lambda>success.
       (''sosedi_operation_total'',
        [(''operation'', operation_name op), (''result'', if success then ''success'' else ''failure'')],
        of_nat (counter_of (op, success) (ms_operations s)))) [True, False]) OPERATIONS)"

definition render_metrics ::
    "(int \<Rightarrow> string) \<Rightarrow> (rat \<Rightarrow> string) \<Rightarrow> database_stats \<Rightarrow> string \<Rightarrow> queue_counts \<Rightarrow> timestamp \<Rightarrow> db
      \<Rightarrow> metrics_state \<Rightarrow> sample list" where
  "render_metrics show_int show_rat database redisInfo queue now db s =
     (case (get_outbox_stats now db, get_push_stats now db) of ((pending, outboxAge), (counts, pushAge)) \<Rightarrow>
        [(''sosedi_process_start_time_seconds'', [], ms_startedAt s)]
        @ http_samples s show_int
        @ duration_samples s show_rat
        @ [(''sosedi_database_connections'', [], of_int (dst_connections database)),
           (''sosedi_database_max_connections'', [], of_int (dst_maxConnections database)),
           (''sosedi_database_size_bytes'', [], of_int (dst_databaseBytes database)),
           (''sosedi_redis_memory_bytes'', [(''kind'', ''used'')], read_redis_number redisInfo ''used_memory''),
           (''sosedi_redis_memory_bytes'', [(''kind'', ''max'')], read_redis_number redisInfo ''maxmemory'')]
        @ queue_samples s queue
        @ [(''sosedi_outbox_pending'', [], of_nat pending),
           (''sosedi_outbox_oldest_pending_age_seconds'', [], of_int outboxAge)]
        @ map (\<lambda>(st, n). (''sosedi_push_deliveries'', [(''status'', push_status_name st)], of_nat n)) counts
        @ [(''sosedi_push_delivery_oldest_pending_age_seconds'', [], of_int pushAge)]
        @ operation_samples s)"

section \<open>What the counters count\<close>

lemma counter_increment: "counter_of k (increment j xs) = counter_of k xs + (if j = k then 1 else 0)"
  by (induction j xs rule: increment.induct) (auto simp: counter_of_def)

definition record_all :: "(string \<times> int \<times> rat) list \<Rightarrow> metrics_state \<Rightarrow> metrics_state" where
  "record_all rs s = fold (\<lambda>(verb, status, seconds). record_http_request verb status seconds) rs s"

lemma record_all_simps [simp]:
  "record_all [] s = s"
  "record_all ((v, st, d) # rs) s = record_all rs (record_http_request v st d s)"
  by (simp_all add: record_all_def)

definition requests_within :: "(string \<times> int \<times> rat) list \<Rightarrow> rat \<Rightarrow> nat" where
  "requests_within rs bound = length (filter (\<lambda>(_, _, d). d \<le> bound) rs)"

lemma record_all_buckets:
  assumes "length (ms_durationBuckets s) = 7"
  shows "ms_durationBuckets (record_all rs s)
      = map2 (\<lambda>bound n. n + requests_within rs bound) HTTP_DURATION_BUCKETS (ms_durationBuckets s)"
  using assms
proof (induction rs arbitrary: s)
  case Nil
  then show ?case by (intro nth_equalityI) (simp_all add: requests_within_def HTTP_DURATION_BUCKETS_def)
next
  case (Cons r rs)
  obtain v st d where r: "r = (v, st, d)" by (cases r)
  have "length (ms_durationBuckets (record_http_request v st d s)) = 7"
    using Cons.prems by (simp add: record_http_request_def HTTP_DURATION_BUCKETS_def)
  note IH = Cons.IH [OF this]
  show ?case
    unfolding r record_all_simps IH
    using Cons.prems by (intro nth_equalityI) (simp_all add: record_http_request_def requests_within_def HTTP_DURATION_BUCKETS_def)
qed

text \<open>
  The published histogram is a histogram: after any requests the bucket of a bound counts the
  requests that took at most as long, so the buckets grow with their bounds up to the number
  of all requests, and each pair of method and status is counted by its own counter.
\<close>

theorem histogram_counts:
  assumes "new_metrics env t = Inr s0"
  shows "ms_durationBuckets (record_all rs s0) = map (requests_within rs) HTTP_DURATION_BUCKETS
    \<and> ms_durationCount (record_all rs s0) = length rs
    \<and> counter_of (verb, status) (ms_httpRequests (record_all rs s0))
        = length (filter (\<lambda>(v, st, _). map upper_char v = verb \<and> st = status) rs)"
proof -
  have s0: "ms_durationBuckets s0 = replicate 7 0" "ms_durationCount s0 = 0" "ms_httpRequests s0 = []"
    using assms by (auto simp: new_metrics_def Let_def HTTP_DURATION_BUCKETS_def eval_nat_numeral split: if_splits)
  have "ms_durationBuckets (record_all rs s0) = map (requests_within rs) HTTP_DURATION_BUCKETS"
    by (subst record_all_buckets) (simp_all add: s0 HTTP_DURATION_BUCKETS_def eval_nat_numeral)
  moreover have "ms_durationCount (record_all rs s) = ms_durationCount s + length rs" for s
    by (induction rs arbitrary: s) (auto simp: record_http_request_def)
  moreover have "counter_of (verb, status) (ms_httpRequests (record_all rs s))
      = counter_of (verb, status) (ms_httpRequests s)
        + length (filter (\<lambda>(v, st, _). map upper_char v = verb \<and> st = status) rs)" for s
    by (induction rs arbitrary: s) (auto simp: record_http_request_def counter_increment split: if_splits)
  ultimately show ?thesis by (simp add: s0 counter_of_def)
qed

lemma requests_within_mono: "a \<le> b \<Longrightarrow> requests_within rs a \<le> requests_within rs b"
  by (induction rs) (auto simp: requests_within_def)

text \<open>Without a token of at least 32 characters the metrics are closed to everybody.\<close>

lemma metrics_closed_without_token:
  "is_metrics_authorized s authorization \<Longrightarrow> 32 \<le> length (ms_token s) \<and> authorization = Some (''Bearer '' @ ms_token s)"
  by (auto simp: is_metrics_authorized_def METRICS_TOKEN_MIN_LENGTH_def)

end
