(* ===== verification/First_Admin.thy ===== *)
theory First_Admin
  imports Admin_Mfa
begin

text \<open>
  The first operator, made by an offline program (\<open>admin/first-admin-bootstrap.ts\<close>,
  \<open>scripts/bootstrap-first-admin.ts\<close>). The advisory lock serializes the transactions, which run one
  after the other here anyway.
\<close>

fun bootstrap_capability :: "string \<Rightarrow> admin_capability option" where
  "bootstrap_capability s =
     (if s = ''MODERATION'' then Some Cap_MODERATION
      else if s = ''SUPPORT'' then Some Cap_SUPPORT
      else if s = ''DISPUTE'' then Some Cap_DISPUTE
      else if s = ''FINANCE'' then Some Cap_FINANCE
      else None)"

fun capability_name :: "admin_capability \<Rightarrow> string" where
  "capability_name Cap_MODERATION = ''MODERATION''"
| "capability_name Cap_SUPPORT = ''SUPPORT''"
| "capability_name Cap_KYC_REVIEW = ''KYC_REVIEW''"
| "capability_name Cap_FINANCE = ''FINANCE''"
| "capability_name Cap_DISPUTE = ''DISPUTE''"

text \<open>Each name once, at its first place.\<close>

definition parse_bootstrap_capabilities :: "string \<Rightarrow> admin_capability list result" where
  "parse_bootstrap_capabilities v =
     (let names = rev (remdups (rev (map js_trim (split_at (CHR '','') v))))
      in if names = [] \<or> list_ex (\<lambda>s. bootstrap_capability s = None) names
         then Inl (Plain_error ''ADMIN_BOOTSTRAP_CAPABILITIES'')
         else Inr (map (the \<circ> bootstrap_capability) names))"

text \<open>\<open>capabilities.join(',')\<close>.\<close>

fun join_names :: "string list \<Rightarrow> string" where
  "join_names [] = []"
| "join_names [s] = s"
| "join_names (s # ss) = s @ '','' @ join_names ss"

definition promote :: "timestamp \<Rightarrow> user_row \<Rightarrow> user_row" where
  "promote now u =
     u\<lparr>us_role := Role_ADMIN, us_sessionVersion := us_sessionVersion u + 1, us_updatedAt := now\<rparr>"

definition new_admin :: "string \<Rightarrow> timestamp \<Rightarrow> db \<Rightarrow> user_row" where
  "new_admin phone now db =
     \<lparr>us_id = fresh_id db, us_phone = phone, us_name = None, us_city = None, us_avatarUrl = None,
      us_role = Role_ADMIN, us_kycStatus = None, us_isBlocked = False, us_sessionVersion = 0,
      us_deletedAt = None, us_anonymizedAt = None, us_createdAt = db_now db, us_updatedAt = now\<rparr>"

definition bootstrap_first_admin ::
    "string \<Rightarrow> admin_capability list \<Rightarrow> timestamp \<Rightarrow> admin_world
      \<Rightarrow> (admin_world \<times> string \<times> admin_capability list) result" where
  "bootstrap_first_admin rawPhone input now w =
     bind_result (normalize_russian_phone rawPhone) (\<lambda>phone.
     bind_result (parse_bootstrap_capabilities (join_names (map capability_name input))) (\<lambda>capabilities.
     let db = mw_db w; existing = List.find (\<lambda>u. us_phone u = phone) (db_users db)
     in if exists_row (\<lambda>u. us_role u = Role_ADMIN) (db_users db) then Inl (Plain_error ''admin-exists'')
        else if (case existing of None \<Rightarrow> False | Some u \<Rightarrow> us_isBlocked u \<or> us_deletedAt u \<noteq> None)
        then Inl (Plain_error ''blocked-or-deleted'')
        else
          let (adminId, db1) =
                (case existing of
                   Some u \<Rightarrow> (us_id u, db\<lparr>db_users := update_rows (\<lambda>x. us_id x = us_id u) (promote now) (db_users db)\<rparr>)
                 | None \<Rightarrow> (fresh_id db, db\<lparr>db_next := Suc (db_next db), db_users := db_users db @ [new_admin phone now db]\<rparr>))
          in Inr (w\<lparr>mw_db := write_audit (Some adminId) ''FIRST_ADMIN_BOOTSTRAPPED'' ''User'' (Some adminId) None db1,
                    mw_capabilities := (mw_capabilities w)(adminId := capabilities)\<rparr>, adminId, capabilities)))"

definition bootstrap_program ::
    "config \<Rightarrow> timestamp \<Rightarrow> admin_world \<Rightarrow> (admin_world \<times> string \<times> admin_capability list) result" where
  "bootstrap_program env now w =
     (if env ''ADMIN_BOOTSTRAP_CONFIRM'' \<noteq> Some ''CREATE_FIRST_ADMIN'' then Inl (Plain_error ''ADMIN_BOOTSTRAP_CONFIRM'')
      else if blank (env ''ADMIN_BOOTSTRAP_PHONE'') \<or> blank (env ''ADMIN_BOOTSTRAP_CAPABILITIES'')
      then Inl (Plain_error ''ADMIN_BOOTSTRAP_PHONE'')
      else bind_result (parse_bootstrap_capabilities (the (env ''ADMIN_BOOTSTRAP_CAPABILITIES''))) (\<lambda>capabilities.
           bootstrap_first_admin (the (env ''ADMIN_BOOTSTRAP_PHONE'')) capabilities now w))"

section \<open>Once and for a live account\<close>

definition has_admin :: "admin_world \<Rightarrow> bool" where
  "has_admin w \<longleftrightarrow> (\<exists>u \<in> set (db_users (mw_db w)). us_role u = Role_ADMIN)"

lemma bootstrap_refused: "has_admin w \<Longrightarrow> \<exists>e. bootstrap_first_admin phone caps now w = Inl e"
  by (auto simp: bootstrap_first_admin_def has_admin_def bind_result_def Let_def split: sum.splits)

lemma find_bootstrap:
  assumes "bootstrap_first_admin rawPhone input now w = Inr (w', adminId, capabilities)"
  obtains phone where "normalize_russian_phone rawPhone = Inr phone" "\<not> has_admin w"
    and "parse_bootstrap_capabilities (join_names (map capability_name input)) = Inr capabilities"
    and "(\<exists>u. List.find (\<lambda>u. us_phone u = phone) (db_users (mw_db w)) = Some u \<and> adminId = us_id u \<and> \<not> us_isBlocked u
            \<and> us_deletedAt u = None
            \<and> db_users (mw_db w') = update_rows (\<lambda>x. us_id x = us_id u) (promote now) (db_users (mw_db w)))
         \<or> (adminId = fresh_id (mw_db w) \<and> db_users (mw_db w') = db_users (mw_db w) @ [new_admin phone now (mw_db w)])"
    and "\<exists>x \<in> set (db_audit (mw_db w')). aud_adminId x = Some adminId \<and> aud_action x = ''FIRST_ADMIN_BOOTSTRAPPED''"
    and "mw_capabilities w' = (mw_capabilities w)(adminId := capabilities)"
  using assms
  by (auto simp: bootstrap_first_admin_def has_admin_def bind_result_Inr_iff Let_def write_audit_def
    split: if_splits option.splits)

text \<open>
  The bootstrap makes exactly the one account of the phone an operator, a live one, with some of
  the four capabilities it may give, signs it in the audit log, and can never be done again.
\<close>

theorem first_admin_once:
  assumes "bootstrap_first_admin rawPhone input now w = Inr (w', adminId, capabilities)"
  shows "\<not> has_admin w
    \<and> (\<exists>u \<in> set (db_users (mw_db w')). us_id u = adminId \<and> us_role u = Role_ADMIN \<and> \<not> us_isBlocked u
         \<and> us_deletedAt u = None \<and> Inr (us_phone u) = normalize_russian_phone rawPhone)
    \<and> (\<forall>u \<in> set (db_users (mw_db w')). us_id u \<noteq> adminId \<longrightarrow> us_role u \<noteq> Role_ADMIN \<and> u \<in> set (db_users (mw_db w)))
    \<and> mw_capabilities w' adminId = capabilities \<and> Cap_KYC_REVIEW \<notin> set capabilities
    \<and> (\<exists>x \<in> set (db_audit (mw_db w')). aud_adminId x = Some adminId \<and> aud_action x = ''FIRST_ADMIN_BOOTSTRAPPED'')
    \<and> (\<forall>phone caps later. \<exists>e. bootstrap_first_admin phone caps later w' = Inl e)"
proof (rule find_bootstrap [OF assms])
  fix phone
  assume b: "normalize_russian_phone rawPhone = Inr phone" "\<not> has_admin w"
    "parse_bootstrap_capabilities (join_names (map capability_name input)) = Inr capabilities"
    "mw_capabilities w' = (mw_capabilities w)(adminId := capabilities)"
    "\<exists>x \<in> set (db_audit (mw_db w')). aud_adminId x = Some adminId \<and> aud_action x = ''FIRST_ADMIN_BOOTSTRAPPED''"
    and how: "(\<exists>u. List.find (\<lambda>u. us_phone u = phone) (db_users (mw_db w)) = Some u \<and> adminId = us_id u \<and> \<not> us_isBlocked u
            \<and> us_deletedAt u = None
            \<and> db_users (mw_db w') = update_rows (\<lambda>x. us_id x = us_id u) (promote now) (db_users (mw_db w)))
         \<or> (adminId = fresh_id (mw_db w) \<and> db_users (mw_db w') = db_users (mw_db w) @ [new_admin phone now (mw_db w)])"
  have made: "\<exists>u \<in> set (db_users (mw_db w')). us_id u = adminId \<and> us_role u = Role_ADMIN \<and> \<not> us_isBlocked u
      \<and> us_deletedAt u = None \<and> us_phone u = phone"
    using how
  proof
    assume "\<exists>u. List.find (\<lambda>u. us_phone u = phone) (db_users (mw_db w)) = Some u \<and> adminId = us_id u \<and> \<not> us_isBlocked u
            \<and> us_deletedAt u = None
            \<and> db_users (mw_db w') = update_rows (\<lambda>x. us_id x = us_id u) (promote now) (db_users (mw_db w))"
    then obtain u where u: "List.find (\<lambda>u. us_phone u = phone) (db_users (mw_db w)) = Some u" "adminId = us_id u"
      "\<not> us_isBlocked u" "us_deletedAt u = None"
      "db_users (mw_db w') = update_rows (\<lambda>x. us_id x = us_id u) (promote now) (db_users (mw_db w))" by blast
    note found = find_SomeD [OF u(1)]
    show ?thesis
      by (rule bexI [of _ "promote now u"]) (use u(2-5) found in \<open>auto simp: promote_def set_update_rows\<close>)
  qed (simp add: new_admin_def)
  have others: "us_role x \<noteq> Role_ADMIN \<and> x \<in> set (db_users (mw_db w))" if "x \<in> set (db_users (mw_db w'))" "us_id x \<noteq> adminId" for x
    using how that b(2) by (auto simp: has_admin_def set_update_rows promote_def new_admin_def)
  have "Cap_KYC_REVIEW \<notin> set capabilities"
    using b(3) by (auto simp: parse_bootstrap_capabilities_def Let_def list_ex_iff split: if_splits) blast
  moreover have "has_admin w'" using made by (auto simp: has_admin_def)
  then have "\<forall>phone caps later. \<exists>e. bootstrap_first_admin phone caps later w' = Inl e" using bootstrap_refused by blast
  moreover have "mw_capabilities w' adminId = capabilities" by (simp add: b(4))
  moreover have "\<exists>u \<in> set (db_users (mw_db w')). us_id u = adminId \<and> us_role u = Role_ADMIN \<and> \<not> us_isBlocked u
      \<and> us_deletedAt u = None \<and> Inr (us_phone u) = normalize_russian_phone rawPhone" using made by (simp add: b(1))
  ultimately show ?thesis using b(2,5) others by simp
qed

end
