(* ===== verification/Js_Regexp.thy ===== *)
theory Js_Regexp
  imports Js_Text
begin

text \<open>
  Regular expressions as JavaScript matches them: alternatives from left to right, greedy
  repetition, backtracking, word boundaries, one capturing group, and \<open>replace\<close> with the flag
  \<open>g\<close>. The matches of an expression at a place are listed in the order in which the matcher
  would try them, so its answer is the first one.
\<close>

datatype regexp =
    Epsilon
  | One "char \<Rightarrow> bool"
  | Seq regexp regexp
  | Alt regexp regexp
  | Star regexp
  | Boundary
  | Group regexp

text \<open>A place in the text: the character before it, the rest, and what the group has captured.\<close>

type_synonym place = "char option \<times> string \<times> string option"

definition rest_of :: "place \<Rightarrow> string" where
  "rest_of p = fst (snd p)"

lemma rest_of_simps [simp]: "rest_of (c, s, g) = s"
  by (simp add: rest_of_def)

definition is_word_char :: "char \<Rightarrow> bool" where
  "is_word_char c \<longleftrightarrow> (let n = (of_char c :: nat) in
     (48 \<le> n \<and> n \<le> 57) \<or> (65 \<le> n \<and> n \<le> 90) \<or> (97 \<le> n \<and> n \<le> 122) \<or> n = 95)"

definition at_boundary :: "char option \<Rightarrow> string \<Rightarrow> bool" where
  "at_boundary prior s \<longleftrightarrow>
     (case prior of None \<Rightarrow> False | Some c \<Rightarrow> is_word_char c) \<noteq> (s \<noteq> [] \<and> is_word_char (hd s))"

text \<open>As many rounds as characters are left are enough, since a round that reads nothing ends the loop.\<close>

fun star_matches :: "nat \<Rightarrow> (place \<Rightarrow> place list) \<Rightarrow> place \<Rightarrow> place list" where
  "star_matches 0 f p = [p]"
| "star_matches (Suc n) f p =
     concat (map (star_matches n f) (filter (\<lambda>q. length (rest_of q) < length (rest_of p)) (f p))) @ [p]"

fun matches :: "regexp \<Rightarrow> place \<Rightarrow> place list" where
  "matches Epsilon p = [p]"
| "matches (One f) (prior, s, g) = (case s of [] \<Rightarrow> [] | c # cs \<Rightarrow> if f c then [(Some c, cs, g)] else [])"
| "matches (Seq a b) p = concat (map (matches b) (matches a p))"
| "matches (Alt a b) p = matches a p @ matches b p"
| "matches (Star a) p = star_matches (length (rest_of p)) (matches a) p"
| "matches Boundary (prior, s, g) = (if at_boundary prior s then [(prior, s, g)] else [])"
| "matches (Group a) (prior, s, g) =
     map (\<lambda>(prior', s', _). (prior', s', Some (take (length s - length s') s))) (matches a (prior, s, g))"

definition first_match :: "regexp \<Rightarrow> char option \<Rightarrow> string \<Rightarrow> place option" where
  "first_match r prior s = (case matches r (prior, s, None) of [] \<Rightarrow> None | p # _ \<Rightarrow> Some p)"

text \<open>
  \<open>s.replace(/r/g, f)\<close> for expressions that never match the empty text; \<open>f\<close> gets the captured
  group. The character before the place stays visible to \<open>\b\<close>.
\<close>

function replace_from :: "regexp \<Rightarrow> (string option \<Rightarrow> string) \<Rightarrow> char option \<Rightarrow> string \<Rightarrow> string" where
  "replace_from r f prior [] = []"
| "replace_from r f prior (c # cs) =
     (case first_match r prior (c # cs) of
        None \<Rightarrow> c # replace_from r f (Some c) cs
      | Some (prior', s', g) \<Rightarrow>
          if length s' < length (c # cs) then f g @ replace_from r f prior' s'
          else c # replace_from r f (Some c) cs)"
  by pat_completeness auto

termination
  by (relation "measure (\<lambda>(r, f, prior, s). length s)") auto

definition replace_all :: "regexp \<Rightarrow> (string option \<Rightarrow> string) \<Rightarrow> string \<Rightarrow> string" where
  "replace_all r f s = replace_from r f None s"

section \<open>Building expressions\<close>

definition literal :: "string \<Rightarrow> regexp" where
  "literal s = foldr (\<lambda>c. Seq (One (\<lambda>d. d = c))) s Epsilon"

definition lower_ascii :: "char \<Rightarrow> char" where
  "lower_ascii c = (let n = (of_char c :: nat) in if 65 \<le> n \<and> n \<le> 90 then char_of (n + 32) else c)"

text \<open>With the flag \<open>i\<close>; the letters of the expressions are Latin.\<close>

definition literal_i :: "string \<Rightarrow> regexp" where
  "literal_i s = foldr (\<lambda>c. Seq (One (\<lambda>d. lower_ascii d = lower_ascii c))) s Epsilon"

definition opt :: "regexp \<Rightarrow> regexp" where
  "opt r = Alt r Epsilon"

definition one_or_more :: "regexp \<Rightarrow> regexp" where
  "one_or_more r = Seq r (Star r)"

fun exactly :: "nat \<Rightarrow> regexp \<Rightarrow> regexp" where
  "exactly 0 r = Epsilon"
| "exactly (Suc n) r = Seq r (exactly n r)"

text \<open>\<open>r{0,n}\<close>.\<close>

fun at_most :: "nat \<Rightarrow> regexp \<Rightarrow> regexp" where
  "at_most 0 r = Epsilon"
| "at_most (Suc n) r = opt (Seq r (at_most n r))"

definition in_order :: "regexp list \<Rightarrow> regexp" where
  "in_order rs = foldr Seq rs Epsilon"

definition alternatives :: "regexp list \<Rightarrow> regexp" where
  "alternatives rs = (case rs of [] \<Rightarrow> Epsilon | r # rest \<Rightarrow> foldl Alt r rest)"

section \<open>What a match is\<close>

text \<open>Every match reads a prefix of the rest, so that replacing keeps the text around it.\<close>

lemma matches_suffix: "q \<in> set (matches r p) \<Longrightarrow> \<exists>used. rest_of p = used @ rest_of q"
proof (induction r arbitrary: p q)
  case (Star a)
  have "q \<in> set (star_matches n (matches a) p) \<Longrightarrow> \<exists>used. rest_of p = used @ rest_of q" for n
  proof (induction n arbitrary: p)
    case (Suc n)
    then consider "q = p" | x where "x \<in> set (matches a p)" "q \<in> set (star_matches n (matches a) x)" by auto
    then show ?case
    proof cases
      case (2 x)
      from Star.IH [OF 2(1)] Suc.IH [OF 2(2)] show ?thesis by auto
    qed simp
  qed simp
  then show ?case using Star.prems by simp
next
  case (Seq a b)
  then obtain x where x: "x \<in> set (matches a p)" "q \<in> set (matches b x)" by auto
  from Seq.IH(1) [OF x(1)] Seq.IH(2) [OF x(2)] show ?case by auto
next
  case (One f)
  then show ?case by (cases p) (auto split: list.splits if_splits)
next
  case Boundary
  then show ?case by (cases p) (auto split: if_splits)
next
  case (Group a)
  then show ?case by (cases p) (force split: prod.splits)
qed auto

end
