(* ===== verification/Log_Redaction.thy ===== *)
theory Log_Redaction
  imports Js_Regexp Booking_Expiry "HOL-Library.AList"
begin

text \<open>
  What is removed from the log (\<open>common/logging/sensitive-data-redactor.ts\<close>). Values are a graph, for
  objects may refer to each other in a cycle: an object is a place of a heap, and the set of
  visited objects is threaded through the traversal as the code does with its \<open>WeakSet\<close>. The
  characters of the model are those of Latin-1, so the Russian word among the labels of a one-time
  code cannot occur in a text and is left out of the expression.
\<close>

section \<open>Texts\<close>

definition REDACTED :: string where "REDACTED = ''[REDACTED]''"

definition is_latin_alnum :: "char \<Rightarrow> bool" where
  "is_latin_alnum c \<longleftrightarrow> is_word_char c \<and> c \<noteq> CHR ''_''"

text \<open>\<open>/https?:\/\/[^\s,;]*(?:x-amz-|x-goog-|signature=)[^\s,;]*/gi\<close>.\<close>

definition URL_PATTERN :: regexp where
  "URL_PATTERN =
     (let unbroken = Star (One (\<lambda>c. \<not> (is_js_space c \<or> c = CHR '','' \<or> c = CHR '';'')))
      in in_order [literal_i ''http'', opt (literal_i ''s''), literal ''://'', unbroken,
           alternatives [literal_i ''x-amz-'', literal_i ''x-goog-'', literal_i ''signature=''], unbroken])"

text \<open>\<open>/\bBearer\s+[A-Za-z0-9._~+/=-]+/gi\<close>.\<close>

definition BEARER_PATTERN :: regexp where
  "BEARER_PATTERN = in_order [Boundary, literal_i ''Bearer'', one_or_more (One is_js_space),
     one_or_more (One (\<lambda>c. is_latin_alnum c \<or> c \<in> set ''._~+/=-''))]"

text \<open>\<open>/\beyJ[A-Za-z0-9_-]*\.[A-Za-z0-9_-]+\.[A-Za-z0-9_-]+\b/g\<close>.\<close>

definition JWT_PATTERN :: regexp where
  "JWT_PATTERN =
     (let part = One (\<lambda>c. is_word_char c \<or> c = CHR ''-'')
      in in_order [Boundary, literal ''eyJ'', Star part, literal ''.'', one_or_more part, literal ''.'', one_or_more part, Boundary])"

text \<open>\<open>/\b(cookie|set-cookie)\s*:\s*[^,\r\n]*/gi\<close>.\<close>

definition COOKIE_PATTERN :: regexp where
  "COOKIE_PATTERN = in_order [Boundary, Group (alternatives [literal_i ''cookie'', literal_i ''set-cookie'']),
     Star (One is_js_space), literal '':'', Star (One is_js_space),
     Star (One (\<lambda>c. c \<noteq> CHR '','' \<and> (of_char c :: nat) \<noteq> 13 \<and> (of_char c :: nat) \<noteq> 10))]"

text \<open>\<open>/(?:\+7|8)[\s(-]*\d{3}[\s)-]*\d{3}[\s-]*\d{2}[\s-]*\d{2}\b/g\<close>.\<close>

definition PHONE_PATTERN :: regexp where
  "PHONE_PATTERN =
     (let gap = (\<lambda>extra. Star (One (\<lambda>c. is_js_space c \<or> c = CHR ''-'' \<or> c \<in> set extra)))
      in in_order [alternatives [literal ''+7'', literal ''8''], gap ''('', exactly 3 (One is_digit), gap '')'',
           exactly 3 (One is_digit), gap [], exactly 2 (One is_digit), gap [], exactly 2 (One is_digit), Boundary])"

text \<open>\<open>/\b(otp|...)(\s*[:=]\s*|\s+)\d{4,8}\b/gi\<close>.\<close>

definition OTP_PATTERN :: regexp where
  "OTP_PATTERN = in_order [Boundary, Group (literal_i ''otp''),
     alternatives [in_order [Star (One is_js_space), One (\<lambda>c. c \<in> {CHR '':'', CHR ''=''}), Star (One is_js_space)],
                   one_or_more (One is_js_space)],
     exactly 4 (One is_digit), at_most 4 (One is_digit), Boundary]"

definition labelled :: "string option \<Rightarrow> string" where
  "labelled g = (case g of None \<Rightarrow> [] | Some label \<Rightarrow> label) @ '': '' @ REDACTED"

definition redact_sensitive_text :: "string \<Rightarrow> string" where
  "redact_sensitive_text s =
     replace_all OTP_PATTERN labelled
     (replace_all PHONE_PATTERN (\<lambda>_. REDACTED)
     (replace_all COOKIE_PATTERN labelled
     (replace_all JWT_PATTERN (\<lambda>_. REDACTED)
     (replace_all BEARER_PATTERN (\<lambda>_. ''Bearer '' @ REDACTED)
     (replace_all URL_PATTERN (\<lambda>_. ''[REDACTED_URL]'') s)))))"

section \<open>Keys\<close>

definition SENSITIVE_KEYS :: "string list" where
  "SENSITIVE_KEYS =
     [''authorization'', ''proxyauthorization'', ''accesstoken'', ''refreshtoken'', ''admintoken'', ''token'', ''jwt'',
      ''cookie'', ''cookies'', ''setcookie'', ''xcsrftoken'', ''phone'', ''phonenumber'', ''mobile'', ''address'',
      ''pickupaddress'', ''dropoffaddress'', ''exactaddress'', ''coordinates'', ''exactcoordinates'', ''kyc'',
      ''kycdocument'', ''kycpayload'', ''passport'', ''passportnumber'', ''selfie'', ''paymentpayload'', ''paymentdata'',
      ''paymentdetails'', ''providerpayload'', ''cardnumber'', ''pan'', ''cvv'', ''cvc'', ''presignedurl'', ''uploadurl'',
      ''downloadurl'', ''secret'', ''clientsecret'', ''apikey'', ''otp'', ''otpcode'', ''verificationcode'', ''password'']"

definition ends_with :: "string \<Rightarrow> string \<Rightarrow> bool" where
  "ends_with s e \<longleftrightarrow> length e \<le> length s \<and> drop (length s - length e) s = e"

definition normalized_key :: "string \<Rightarrow> string" where
  "normalized_key key = filter is_latin_alnum (map lower_ascii key)"

definition is_sensitive_key :: "string \<Rightarrow> bool" where
  "is_sensitive_key key \<longleftrightarrow>
     (let n = normalized_key key in n \<in> set SENSITIVE_KEYS \<or> ends_with n ''token'' \<or> ends_with n ''secret'')"

section \<open>Values\<close>

text \<open>\<open>V_code\<close> is a symbol or a function, as its text; \<open>V_ref\<close> an object.\<close>

datatype js_value =
    V_string string
  | V_number rat
  | V_bigint int
  | V_bool bool
  | V_null
  | V_undefined
  | V_code string
  | V_ref nat

datatype js_object =
    O_error string string "string option"
  | O_date timestamp
  | O_array "js_value list"
  | O_map "(string \<times> js_value) list"
  | O_set "js_value list"
  | O_plain "(string \<times> js_value) list"

type_synonym heap = "js_object list"

text \<open>The result holds no references: strings, other primitive values, arrays and objects.\<close>

datatype redacted =
    R_string string
  | R_primitive js_value
  | R_array "redacted list"
  | R_object "(string \<times> redacted) list"

type_synonym 'a traversal = "(nat list \<times> 'a) option"

fun redact_list :: "(nat list \<Rightarrow> js_value \<Rightarrow> redacted traversal) \<Rightarrow> nat list \<Rightarrow> js_value list \<Rightarrow> redacted list traversal" where
  "redact_list f seen [] = Some (seen, [])"
| "redact_list f seen (v # vs) =
     Option.bind (f seen v) (\<lambda>(seen1, r). Option.bind (redact_list f seen1 vs) (\<lambda>(seen2, rs). Some (seen2, r # rs)))"

fun redact_entries ::
    "(nat list \<Rightarrow> js_value \<Rightarrow> redacted traversal) \<Rightarrow> nat list \<Rightarrow> (string \<times> js_value) list
      \<Rightarrow> (string \<times> redacted) list traversal" where
  "redact_entries f seen [] = Some (seen, [])"
| "redact_entries f seen ((key, v) # es) =
     Option.bind (if is_sensitive_key key then Some (seen, R_string REDACTED) else f seen v) (\<lambda>(seen1, r).
     Option.bind (redact_entries f seen1 es) (\<lambda>(seen2, rs). Some (seen2, (key, r) # rs)))"

text \<open>\<open>Object.fromEntries\<close>: of entries with the same key the last one counts.\<close>

definition from_entries :: "(string \<times> redacted) list \<Rightarrow> redacted" where
  "from_entries es = R_object (fold (\<lambda>(k, v). AList.update k v) es [])"

definition redacted_error :: "string \<Rightarrow> string \<Rightarrow> string option \<Rightarrow> redacted" where
  "redacted_error name message stack =
     R_object [(''name'', R_string name), (''message'', R_string (redact_sensitive_text message)),
       (''stack'', if blank stack then R_primitive V_undefined else R_string (redact_sensitive_text (the stack)))]"

definition redact_object ::
    "(nat list \<Rightarrow> js_value \<Rightarrow> redacted traversal) \<Rightarrow> nat list \<Rightarrow> js_object \<Rightarrow> redacted traversal" where
  "redact_object f seen x =
     (case x of
        O_error name message stack \<Rightarrow> Some (seen, redacted_error name message stack)
      | O_date t \<Rightarrow> Some (seen, R_string (iso_timestamp t))
      | O_array vs \<Rightarrow> map_option (map_prod id R_array) (redact_list f seen vs)
      | O_map es \<Rightarrow> map_option (map_prod id from_entries) (redact_entries f seen es)
      | O_set vs \<Rightarrow> map_option (map_prod id R_array) (redact_list f seen vs)
      | O_plain es \<Rightarrow> map_option (map_prod id from_entries) (redact_entries f seen es))"

definition redact_primitive :: "js_value \<Rightarrow> redacted" where
  "redact_primitive v =
     (case v of V_string s \<Rightarrow> R_string (redact_sensitive_text s) | V_code s \<Rightarrow> R_string s | _ \<Rightarrow> R_primitive v)"

text \<open>
  \<open>redactValue\<close>. Fuel is spent on objects that are visited for the first time; \<open>None\<close> is a
  traversal that has run out of it.
\<close>

fun redact_value :: "nat \<Rightarrow> heap \<Rightarrow> nat list \<Rightarrow> js_value \<Rightarrow> redacted traversal" where
  "redact_value 0 h seen v =
     (case v of
        V_ref i \<Rightarrow> if i \<in> set seen then Some (seen, R_string ''[Circular]'') else None
      | _ \<Rightarrow> Some (seen, redact_primitive v))"
| "redact_value (Suc n) h seen v =
     (case v of
        V_ref i \<Rightarrow>
          if i \<in> set seen then Some (seen, R_string ''[Circular]'')
          else redact_object (redact_value n h) (i # seen) (h ! i)
      | _ \<Rightarrow> Some (seen, redact_primitive v))"

definition redact_sensitive_data :: "heap \<Rightarrow> js_value \<Rightarrow> redacted option" where
  "redact_sensitive_data h v = map_option snd (redact_value (length h) h [] v)"

text \<open>\<open>RedactingLogger\<close> cleans the message and each parameter on its own.\<close>

definition redact_log :: "heap \<Rightarrow> js_value \<Rightarrow> js_value list \<Rightarrow> redacted option list" where
  "redact_log h message params = redact_sensitive_data h message # map (redact_sensitive_data h) params"

section \<open>The traversal ends\<close>

fun values_of :: "js_object \<Rightarrow> js_value list" where
  "values_of (O_error _ _ _) = []"
| "values_of (O_date _) = []"
| "values_of (O_array vs) = vs"
| "values_of (O_map es) = map snd es"
| "values_of (O_set vs) = vs"
| "values_of (O_plain es) = map snd es"

text \<open>References lead to objects of the heap.\<close>

definition in_heap :: "heap \<Rightarrow> js_value \<Rightarrow> bool" where
  "in_heap h v \<longleftrightarrow> (\<forall>i. v = V_ref i \<longrightarrow> i < length h)"

definition closed_heap :: "heap \<Rightarrow> bool" where
  "closed_heap h \<longleftrightarrow> (\<forall>x \<in> set h. \<forall>v \<in> set (values_of x). in_heap h v)"

definition unseen :: "heap \<Rightarrow> nat list \<Rightarrow> nat" where
  "unseen h seen = card ({..<length h} - set seen)"

lemma unseen_mono: "set seen \<subseteq> set seen' \<Longrightarrow> unseen h seen' \<le> unseen h seen"
  unfolding unseen_def by (rule card_mono) auto

lemma unseen_insert: "i < length h \<Longrightarrow> i \<notin> set seen \<Longrightarrow> unseen h (i # seen) < unseen h seen"
  unfolding unseen_def by (rule psubset_card_mono) auto

definition defined_at :: "heap \<Rightarrow> nat \<Rightarrow> (nat list \<Rightarrow> js_value \<Rightarrow> redacted traversal) \<Rightarrow> js_value \<Rightarrow> bool" where
  "defined_at h n f v \<longleftrightarrow>
     (\<forall>seen. unseen h seen \<le> n \<longrightarrow> (\<exists>seen' r. f seen v = Some (seen', r) \<and> set seen \<subseteq> set seen'))"

lemma redact_list_defined:
  assumes "\<forall>v \<in> set vs. defined_at h n f v" and "unseen h seen \<le> n"
  shows "\<exists>seen' rs. redact_list f seen vs = Some (seen', rs) \<and> set seen \<subseteq> set seen'"
  using assms
proof (induction vs arbitrary: seen)
  case (Cons v vs)
  obtain seen1 r where v: "f seen v = Some (seen1, r)" "set seen \<subseteq> set seen1"
    using Cons.prems unfolding defined_at_def by (meson list.set_intros(1))
  have "unseen h seen1 \<le> n" using unseen_mono [OF v(2)] Cons.prems(2) by (rule order_trans)
  with Cons.IH [of seen1] Cons.prems(1) v show ?case by fastforce
qed simp

lemma redact_entries_defined:
  assumes "\<forall>v \<in> set (map snd es). defined_at h n f v" and "unseen h seen \<le> n"
  shows "\<exists>seen' rs. redact_entries f seen es = Some (seen', rs) \<and> set seen \<subseteq> set seen'"
  using assms
proof (induction es arbitrary: seen)
  case (Cons e es)
  obtain key v where e: "e = (key, v)" by (cases e)
  obtain seen1 r where v: "(if is_sensitive_key key then Some (seen, R_string REDACTED) else f seen v) = Some (seen1, r)"
      "set seen \<subseteq> set seen1"
    using Cons.prems unfolding defined_at_def e by (cases "is_sensitive_key key") auto
  have "unseen h seen1 \<le> n" using unseen_mono [OF v(2)] Cons.prems(2) by (rule order_trans)
  with Cons.IH [of seen1] Cons.prems(1) v show ?case by (fastforce simp: e)
qed simp

lemma redact_object_defined:
  assumes "\<forall>v \<in> set (values_of x). defined_at h n f v" and "unseen h seen \<le> n"
  shows "\<exists>seen' r. redact_object f seen x = Some (seen', r) \<and> set seen \<subseteq> set seen'"
  using assms redact_list_defined [of _ h n f seen] redact_entries_defined [of _ h n f seen]
  by (cases x) (fastforce simp: redact_object_def)+

lemma redact_value_defined:
  assumes "closed_heap h" and "in_heap h v"
  shows "defined_at h n (redact_value n h) v"
  using assms(2)
proof (induction n arbitrary: v)
  case 0
  have "i \<in> set seen" if "v = V_ref i" "unseen h seen = 0" for i seen
    using that "0.prems" by (simp add: in_heap_def unseen_def) blast
  then show ?case by (cases v) (auto simp: defined_at_def)
next
  case (Suc n)
  show ?case
  proof (cases v)
    case (V_ref i)
    have i: "i < length h" using Suc.prems V_ref by (simp add: in_heap_def)
    have "\<forall>v \<in> set (values_of (h ! i)). defined_at h n (redact_value n h) v"
      using assms(1) Suc.IH nth_mem [OF i] unfolding closed_heap_def by blast
    note object = redact_object_defined [OF this]
    show ?thesis
      unfolding defined_at_def
    proof (intro allI impI)
      fix seen assume n: "unseen h seen \<le> Suc n"
      show "\<exists>seen' r. redact_value (Suc n) h seen v = Some (seen', r) \<and> set seen \<subseteq> set seen'"
      proof (cases "i \<in> set seen")
        case False
        then have "unseen h (i # seen) \<le> n" using unseen_insert [OF i False] n by linarith
        from object [OF this] show ?thesis using V_ref False by auto
      qed (simp add: V_ref)
    qed
  qed (auto simp: defined_at_def)
qed

text \<open>
  Redaction ends on every finite graph of objects, cyclic ones included: the number of objects is
  enough fuel.
\<close>

theorem redaction_terminates:
  assumes "closed_heap h" and "in_heap h v"
  shows "\<exists>r. redact_sensitive_data h v = Some r"
proof -
  have "unseen h [] \<le> length h" by (simp add: unseen_def)
  then show ?thesis
    using redact_value_defined [OF assms, of "length h"] unfolding defined_at_def redact_sensitive_data_def by fastforce
qed

section \<open>Nothing under a sensitive key\<close>

definition visible_in :: "nat set \<Rightarrow> js_value \<Rightarrow> bool" where
  "visible_in P v \<longleftrightarrow> (\<forall>i. v = V_ref i \<longrightarrow> i \<in> P)"

definition alike_entries :: "nat set \<Rightarrow> (string \<times> js_value) list \<Rightarrow> (string \<times> js_value) list \<Rightarrow> bool" where
  "alike_entries P = list_all2 (\<lambda>(k, v) (l, w). k = l \<and> (is_sensitive_key k \<or> v = w \<and> visible_in P v))"

text \<open>Two objects that differ under sensitive keys only.\<close>

fun alike_objects :: "nat set \<Rightarrow> js_object \<Rightarrow> js_object \<Rightarrow> bool" where
  "alike_objects P (O_map es) (O_map fs) = alike_entries P es fs"
| "alike_objects P (O_plain es) (O_plain fs) = alike_entries P es fs"
| "alike_objects P x y = (x = y \<and> (\<forall>v \<in> set (values_of x). visible_in P v))"

definition same_on :: "nat set \<Rightarrow> (nat list \<Rightarrow> js_value \<Rightarrow> redacted traversal) \<Rightarrow> (nat list \<Rightarrow> js_value \<Rightarrow> redacted traversal) \<Rightarrow> bool" where
  "same_on P f g \<longleftrightarrow> (\<forall>seen v. visible_in P v \<longrightarrow> f seen v = g seen v)"

lemma redact_list_alike:
  assumes "same_on P f g" and "\<forall>v \<in> set vs. visible_in P v"
  shows "redact_list f seen vs = redact_list g seen vs"
  using assms(2)
proof (induction vs arbitrary: seen)
  case (Cons v vs)
  have "f seen v = g seen v" using assms(1) Cons.prems by (simp add: same_on_def)
  moreover have "redact_list f seen1 vs = redact_list g seen1 vs" for seen1 using Cons by simp
  ultimately show ?case by simp
qed simp

lemma redact_entries_alike:
  assumes "same_on P f g" and "alike_entries P es fs"
  shows "redact_entries f seen es = redact_entries g seen fs"
  using assms(2) unfolding alike_entries_def
proof (induction es fs arbitrary: seen rule: list_all2_induct)
  case (Cons e es e' fs)
  obtain k v w where e: "e = (k, v)" "e' = (k, w)" "is_sensitive_key k \<or> v = w \<and> visible_in P v"
    using Cons.hyps(1) by (cases e; cases e') auto
  have "(if is_sensitive_key k then Some (seen, R_string REDACTED) else f seen v)
      = (if is_sensitive_key k then Some (seen, R_string REDACTED) else g seen w)"
    using assms(1) e(3) by (auto simp: same_on_def)
  then show ?case by (simp add: e(1,2) Cons.IH)
qed simp

lemma redact_object_alike:
  assumes "same_on P f g" and "alike_objects P x y"
  shows "redact_object f seen x = redact_object g seen y"
  using assms redact_list_alike [OF assms(1)] redact_entries_alike [OF assms(1)]
  by (cases "(P, x, y)" rule: alike_objects.cases) (auto simp: redact_object_def)

text \<open>
  Two heaps whose visible objects differ under sensitive keys only give the same log: nothing that
  is stored under such a key, no object that only such keys lead to, reaches it.
\<close>

theorem redaction_confidential:
  assumes "\<And>i. i \<in> P \<Longrightarrow> alike_objects P (h1 ! i) (h2 ! i)" and "length h1 = length h2" and "visible_in P v"
  shows "redact_sensitive_data h1 v = redact_sensitive_data h2 v"
proof -
  have "same_on P (redact_value n h1) (redact_value n h2)" for n
  proof (induction n)
    case 0
    then show ?case by (auto simp: same_on_def split: js_value.splits)
  next
    case (Suc n)
    have "redact_object (redact_value n h1) seen (h1 ! i) = redact_object (redact_value n h2) seen (h2 ! i)"
      if "i \<in> P" for i seen using redact_object_alike [OF Suc assms(1) [OF that]] .
    then show ?case by (auto simp: same_on_def visible_in_def split: js_value.splits)
  qed
  then show ?thesis using assms(2,3) by (simp add: redact_sensitive_data_def same_on_def)
qed

section \<open>A sample\<close>

text \<open>An object that refers to itself, to an error and, under \<open>coordinates\<close>, to a place.\<close>

definition sample_heap :: "rat \<Rightarrow> heap" where
  "sample_heap latitude =
     [O_plain [(''eventId'', V_string ''event-1''), (''self'', V_ref 0), (''error'', V_ref 1), (''Exact-Coordinates'', V_ref 2),
               (''refreshToken'', V_string ''abc'')],
      O_error ''Error'' ''OTP: 4321'' None,
      O_plain [(''lat'', V_number latitude)]]"

lemma sample_redaction:
  "redact_sensitive_data (sample_heap 55) (V_ref 0) = Some (R_object
     [(''eventId'', R_string ''event-1''), (''self'', R_string ''[Circular]''),
      (''error'', R_object [(''name'', R_string ''Error''),
         (''message'', R_string ''OTP: [REDACTED]''), (''stack'', R_primitive V_undefined)]),
      (''Exact-Coordinates'', R_string ''[REDACTED]''), (''refreshToken'', R_string ''[REDACTED]'')])"
  by code_simp

theorem redaction_confidential_witness:
  "redact_sensitive_data (sample_heap 55) (V_ref 0) = redact_sensitive_data (sample_heap 60) (V_ref 0)"
proof (rule redaction_confidential [where P = "{0, 1}"])
  have "is_sensitive_key ''Exact-Coordinates''" by code_simp
  then show "alike_objects {0, 1} (sample_heap 55 ! i) (sample_heap 60 ! i)" if "i \<in> {0, 1}" for i
    using that by (auto simp: sample_heap_def alike_entries_def visible_in_def)
qed (simp_all add: sample_heap_def visible_in_def)

end
