(* ===== verification/Operator_Client.thy ===== *)
theory Operator_Client
  imports Admin_Session Js_Text
begin

text \<open>
  The client of the operators' console (\<open>operator/src/api.ts\<close>) in a browser: the requests its
  commands send, with cookie, CSRF token and identifiers, and how it reads the answers; the
  cookies the session controller sets (\<open>admin/admin-session.controller.ts\<close>); and the capabilities
  that the handlers of the commands demand of an operator (the decorators of the controllers).
\<close>

section \<open>The browser\<close>

record cookie =
  ck_name :: string
  ck_value :: string
  ck_httpOnly :: bool
  ck_expiresAt :: timestamp

record browser =
  web_cookies :: "cookie list"
  web_storage :: "string \<Rightarrow> string option"

definition show_cookie :: "cookie \<Rightarrow> string" where
  "show_cookie c = ck_name c @ ''='' @ ck_value c"

fun join_cookies :: "cookie list \<Rightarrow> string" where
  "join_cookies [] = []"
| "join_cookies [c] = show_cookie c"
| "join_cookies (c # cs) = show_cookie c @ ''; '' @ join_cookies cs"

definition live_cookies :: "timestamp \<Rightarrow> browser \<Rightarrow> cookie list" where
  "live_cookies now b = filter (\<lambda>c. now < ck_expiresAt c) (web_cookies b)"

text \<open>What scripts see, and what is sent along with a request.\<close>

definition document_cookie :: "timestamp \<Rightarrow> browser \<Rightarrow> string" where
  "document_cookie now b = join_cookies (filter (\<lambda>c. \<not> ck_httpOnly c) (live_cookies now b))"

definition cookie_header :: "timestamp \<Rightarrow> browser \<Rightarrow> string option" where
  "cookie_header now b = (if live_cookies now b = [] then None else Some (join_cookies (live_cookies now b)))"

definition set_cookie :: "cookie \<Rightarrow> browser \<Rightarrow> browser" where
  "set_cookie c b = b\<lparr>web_cookies := filter (\<lambda>x. ck_name x \<noteq> ck_name c) (web_cookies b) @ [c]\<rparr>"

definition clear_cookie :: "string \<Rightarrow> browser \<Rightarrow> browser" where
  "clear_cookie name b = b\<lparr>web_cookies := filter (\<lambda>x. ck_name x \<noteq> name) (web_cookies b)\<rparr>"

section \<open>The session cookies\<close>

definition ADMIN_CSRF_COOKIE :: string where
  "ADMIN_CSRF_COOKIE = ''__Host-sosedi_admin_csrf''"

definition step_up_cookies :: "admin_session_response \<Rightarrow> timestamp \<Rightarrow> browser \<Rightarrow> browser" where
  "step_up_cookies s now b =
     (let expires = now + asr_expiresInSeconds s * 1000
      in set_cookie \<lparr>ck_name = ADMIN_CSRF_COOKIE, ck_value = asr_csrfToken s, ck_httpOnly = False, ck_expiresAt = expires\<rparr>
          (set_cookie \<lparr>ck_name = ADMIN_SESSION_COOKIE, ck_value = asr_sessionId s, ck_httpOnly = True, ck_expiresAt = expires\<rparr> b))"

definition revoke_cookies :: "browser \<Rightarrow> browser" where
  "revoke_cookies b = clear_cookie ADMIN_CSRF_COOKIE (clear_cookie ADMIN_SESSION_COOKIE b)"

section \<open>Requests\<close>

text \<open>Names of headers are compared without case and kept in lower case.\<close>

record console_request =
  crq_method :: string
  crq_path :: string
  crq_headers :: "(string \<times> string) list"
  crq_body :: "json option"

definition set_header :: "string \<Rightarrow> string \<Rightarrow> (string \<times> string) list \<Rightarrow> (string \<times> string) list" where
  "set_header name v hs = filter (\<lambda>(n, _). n \<noteq> name) hs @ [(name, v)]"

text \<open>\<open>readCookie\<close>.\<close>

definition read_cookie :: "string \<Rightarrow> string \<Rightarrow> string option" where
  "read_cookie doc name =
     (let pre = name @ ''=''
      in map_option (drop (length pre))
           (List.find (\<lambda>part. take (length pre) part = pre) (map js_trim (split_at (CHR '';'') doc))))"

record call_init =
  ci_method :: "string option"
  ci_headers :: "(string \<times> string) list"
  ci_body :: "json option"

definition call_request ::
    "string \<Rightarrow> call_init \<Rightarrow> string option \<Rightarrow> string \<Rightarrow> timestamp \<Rightarrow> browser \<Rightarrow> console_request" where
  "call_request path init accessToken uuid now b =
     (let verb = (case ci_method init of None \<Rightarrow> ''GET'' | Some m \<Rightarrow> m);
          h1 = (if ci_body init \<noteq> None then set_header ''content-type'' ''application/json'' (ci_headers init)
                else ci_headers init);
          h2 = (if \<not> blank accessToken then set_header ''authorization'' (''Bearer '' @ the accessToken) h1 else h1);
          csrf = read_cookie (document_cookie now b) ADMIN_CSRF_COOKIE;
          h3 = (if \<not> blank csrf \<and> verb \<notin> {''GET'', ''HEAD''} then set_header ''x-csrf-token'' (the csrf) h2 else h2)
      in \<lparr>crq_method = verb, crq_path = ''/api/v1'' @ path, crq_headers = set_header ''x-request-id'' uuid h3,
          crq_body = ci_body init\<rparr>)"

text \<open>\<open>installationId\<close> with the identifier that would be created.\<close>

definition installation_id :: "string \<Rightarrow> browser \<Rightarrow> browser \<times> string" where
  "installation_id uuid b =
     (let key = ''sosedi_operator_installation''
      in if blank (web_storage b key) then (b\<lparr>web_storage := (web_storage b)(key \<mapsto> uuid)\<rparr>, uuid)
         else (b, the (web_storage b key)))"

text \<open>
  An answer of the server with its envelope. A \<open>null\<close> in \<open>data\<close> is \<open>None\<close>; an error of the client
  carries the message and the status.
\<close>

record 'a envelope =
  env_ok :: bool
  env_status :: int
  env_success :: bool
  env_data :: "'a option"
  env_error :: "string option"

type_synonym 'a console_result = "(string \<times> int) + 'a"

definition read_answer :: "'a envelope \<Rightarrow> 'a console_result" where
  "read_answer e =
     (if \<not> env_ok e \<or> \<not> env_success e then
        Inl (case env_error e of None \<Rightarrow> ''request-failed'' | Some m \<Rightarrow> m, env_status e)
      else case env_data e of
        None \<Rightarrow> Inl (case env_error e of None \<Rightarrow> ''request-failed'' | Some m \<Rightarrow> m, env_status e)
      | Some d \<Rightarrow> Inr d)"

section \<open>Commands\<close>

datatype console_command =
    Request_otp string
  | Verify_otp string string
  | Step_up string string
  | Session
  | Logout
  | Users
  | Block_user string string
  | Support_tickets
  | Support_messages string
  | Create_support_message string string "string list"
  | Presign_attachment string string string int
  | Support_attachment_url string string
  | Assign_support_ticket string
  | Reply_to_support_ticket string string
  | Close_support_ticket string
  | Items
  | Approve string
  | Reject_item string string
  | Reports
  | Reported_review_context string
  | Decide_report string string string
  | Disputes
  | Dispute_evidence_url string string
  | Resolve_dispute string int int string
  | Retry_deposit_operation string

definition get_init :: call_init where
  "get_init = \<lparr>ci_method = None, ci_headers = [], ci_body = None\<rparr>"

definition send_init :: "string \<Rightarrow> (string \<times> json) list \<Rightarrow> call_init" where
  "send_init verb kvs = \<lparr>ci_method = Some verb, ci_headers = [], ci_body = Some (JObj kvs)\<rparr>"

definition bare_init :: "string \<Rightarrow> call_init" where
  "bare_init verb = \<lparr>ci_method = Some verb, ci_headers = [], ci_body = None\<rparr>"

definition with_header :: "string \<Rightarrow> string \<Rightarrow> call_init \<Rightarrow> call_init" where
  "with_header name v init = init\<lparr>ci_headers := ci_headers init @ [(name, v)]\<rparr>"

text \<open>Path, options and access token of a command; the identifiers are the installation and a fresh key.\<close>

fun command_call :: "console_command \<Rightarrow> string \<Rightarrow> string \<Rightarrow> string \<times> call_init \<times> string option" where
  "command_call (Request_otp phone) inst key =
     (''/auth/otp/request'', with_header ''x-installation-id'' inst (send_init ''POST'' [(''phone'', JStr phone)]), None)"
| "command_call (Verify_otp phone code) inst key =
     (''/auth/otp/verify'',
      with_header ''x-installation-id'' inst (send_init ''POST'' [(''phone'', JStr phone), (''code'', JStr code)]), None)"
| "command_call (Step_up token code) inst key =
     (''/admin/session/step-up'', send_init ''POST'' [(''code'', JStr code)], Some token)"
| "command_call Session inst key = (''/admin/session'', get_init, None)"
| "command_call Logout inst key = (''/admin/session'', bare_init ''DELETE'', None)"
| "command_call Users inst key = (''/admin/users'', get_init, None)"
| "command_call (Block_user i reason) inst key =
     (''/admin/users/'' @ i @ ''/block'', send_init ''PATCH'' [(''reason'', JStr reason)], None)"
| "command_call Support_tickets inst key = (''/admin/support/tickets'', get_init, None)"
| "command_call (Support_messages i) inst key = (''/admin/support/tickets/'' @ i @ ''/messages'', get_init, None)"
| "command_call (Create_support_message i body intents) inst key =
     (''/admin/support/tickets/'' @ i @ ''/messages'',
      send_init ''POST'' [(''body'', JStr body), (''attachmentIntentIds'', JArr (map JStr intents))], None)"
| "command_call (Presign_attachment i fileName contentType sizeBytes) inst key =
     (''/admin/support/tickets/'' @ i @ ''/attachments/presigned-url'',
      send_init ''POST'' [(''fileName'', JStr fileName), (''contentType'', JStr contentType),
        (''sizeBytes'', JNum (of_int sizeBytes))], None)"
| "command_call (Support_attachment_url i a) inst key =
     (''/admin/support/tickets/'' @ i @ ''/attachments/'' @ a @ ''/download-url'', get_init, None)"
| "command_call (Assign_support_ticket i) inst key =
     (''/admin/support/tickets/'' @ i @ ''/assign-self'', bare_init ''PATCH'', None)"
| "command_call (Reply_to_support_ticket i m) inst key =
     (''/admin/support/tickets/'' @ i @ ''/reply'', send_init ''PATCH'' [(''message'', JStr m)], None)"
| "command_call (Close_support_ticket i) inst key =
     (''/admin/support/tickets/'' @ i @ ''/close'', bare_init ''PATCH'', None)"
| "command_call Items inst key = (''/admin/items/pending'', get_init, None)"
| "command_call (Approve i) inst key = (''/admin/items/'' @ i @ ''/approve'', bare_init ''PATCH'', None)"
| "command_call (Reject_item i reason) inst key =
     (''/admin/items/'' @ i @ ''/reject'', send_init ''PATCH'' [(''reason'', JStr reason)], None)"
| "command_call Reports inst key = (''/admin/reports'', get_init, None)"
| "command_call (Reported_review_context i) inst key = (''/admin/reports/'' @ i @ ''/review-context'', get_init, None)"
| "command_call (Decide_report i d reason) inst key =
     (''/admin/reports/'' @ i @ ''/decision'', send_init ''PATCH'' [(''decision'', JStr d), (''reason'', JStr reason)], None)"
| "command_call Disputes inst key = (''/admin/disputes'', get_init, None)"
| "command_call (Dispute_evidence_url d e) inst key =
     (''/admin/disputes/'' @ d @ ''/evidence/'' @ e @ ''/download-url'', get_init, None)"
| "command_call (Resolve_dispute d refund release reason) inst key =
     (''/admin/disputes/'' @ d @ ''/resolve'',
      with_header ''idempotency-key'' key (send_init ''POST'' [(''refundToBorrowerMinor'', JNum (of_int refund)),
        (''releaseToLenderMinor'', JNum (of_int release)), (''reason'', JStr reason)]), None)"
| "command_call (Retry_deposit_operation i) inst key =
     (''/admin/deposit-operations/'' @ i @ ''/retry'', with_header ''idempotency-key'' key (bare_init ''POST''), None)"

text \<open>The request a command sends; only the two requests of the login ask for the installation.\<close>

definition send_command ::
    "console_command \<Rightarrow> string \<Rightarrow> string \<Rightarrow> string \<Rightarrow> timestamp \<Rightarrow> browser \<Rightarrow> browser \<times> console_request" where
  "send_command c newInstallation key uuid now b =
     (case (case c of Request_otp _ \<Rightarrow> installation_id newInstallation b
                    | Verify_otp _ _ \<Rightarrow> installation_id newInstallation b
                    | _ \<Rightarrow> (b, [])) of
        (b1, inst) \<Rightarrow> (case command_call c inst key of
          (path, init, token) \<Rightarrow> (b1, call_request path init token uuid now b1)))"

section \<open>Attachments\<close>

record upload_file =
  uf_name :: string
  uf_type :: string
  uf_size :: int

record console_upload =
  pu_intentId :: string
  pu_uploadUrl :: string
  pu_fields :: "(string \<times> string) list"

text \<open>
  \<open>uploadSupportAttachments\<close>, one file after the other, the first failure ends it. \<open>presign\<close> answers
  the first request of a file, \<open>upload\<close> the second: \<open>None\<close>, or the status of a refusal.
\<close>

fun upload_support_attachments ::
    "(upload_file \<Rightarrow> console_upload console_result) \<Rightarrow> (console_upload \<Rightarrow> upload_file \<Rightarrow> int option)
      \<Rightarrow> upload_file list \<Rightarrow> string list console_result" where
  "upload_support_attachments presign upload [] = Inr []"
| "upload_support_attachments presign upload (f # fs) =
     (case presign f of
        Inl e \<Rightarrow> Inl e
      | Inr u \<Rightarrow>
          (case upload u f of
             Some status \<Rightarrow> Inl (''upload-failed'', status)
           | None \<Rightarrow>
               (case upload_support_attachments presign upload fs of
                  Inl e \<Rightarrow> Inl e
                | Inr ids \<Rightarrow> Inr (pu_intentId u # ids))))"

section \<open>The handlers of the commands\<close>

text \<open>
  What the decorators of a handler demand behind the guard of the operators' API: the capabilities
  demanded together, and those of which one is enough. Without a value the command's handler is
  not one of the controller, or not behind that guard.
\<close>

type_synonym demands = "admin_capability list \<times> admin_capability list"

definition session_demands :: "console_command \<Rightarrow> demands option" where
  "session_demands c = (case c of Session \<Rightarrow> Some ([], []) | Logout \<Rightarrow> Some ([], []) | _ \<Rightarrow> None)"

definition admin_demands :: "console_command \<Rightarrow> demands option" where
  "admin_demands c =
     (case c of
        Users \<Rightarrow> Some ([Cap_MODERATION], [])
      | Block_user _ _ \<Rightarrow> Some ([Cap_MODERATION], [])
      | Items \<Rightarrow> Some ([Cap_MODERATION], [])
      | Approve _ \<Rightarrow> Some ([Cap_MODERATION], [])
      | Reject_item _ _ \<Rightarrow> Some ([Cap_MODERATION], [])
      | _ \<Rightarrow> None)"

definition admin_support_demands :: "console_command \<Rightarrow> demands option" where
  "admin_support_demands c =
     (case c of
        Support_tickets \<Rightarrow> Some ([Cap_SUPPORT], [])
      | Support_messages _ \<Rightarrow> Some ([Cap_SUPPORT], [])
      | Create_support_message _ _ _ \<Rightarrow> Some ([Cap_SUPPORT], [])
      | Presign_attachment _ _ _ _ \<Rightarrow> Some ([Cap_SUPPORT], [])
      | Support_attachment_url _ _ \<Rightarrow> Some ([Cap_SUPPORT], [])
      | Assign_support_ticket _ \<Rightarrow> Some ([Cap_SUPPORT], [])
      | Reply_to_support_ticket _ _ \<Rightarrow> Some ([Cap_SUPPORT], [])
      | Close_support_ticket _ \<Rightarrow> Some ([Cap_SUPPORT], [])
      | _ \<Rightarrow> None)"

definition admin_reports_demands :: "console_command \<Rightarrow> demands option" where
  "admin_reports_demands c =
     (case c of
        Reports \<Rightarrow> Some ([Cap_MODERATION], [])
      | Reported_review_context _ \<Rightarrow> Some ([Cap_MODERATION], [])
      | Decide_report _ _ _ \<Rightarrow> Some ([Cap_MODERATION], [])
      | _ \<Rightarrow> None)"

definition admin_dispute_demands :: "console_command \<Rightarrow> demands option" where
  "admin_dispute_demands c =
     (case c of
        Disputes \<Rightarrow> Some ([], [Cap_SUPPORT, Cap_DISPUTE])
      | Dispute_evidence_url _ _ \<Rightarrow> Some ([], [Cap_SUPPORT, Cap_DISPUTE])
      | Resolve_dispute _ _ _ _ \<Rightarrow> Some ([Cap_DISPUTE, Cap_FINANCE], [])
      | Retry_deposit_operation _ \<Rightarrow> Some ([Cap_DISPUTE, Cap_FINANCE], [])
      | _ \<Rightarrow> None)"

definition handler_demands :: "console_command \<Rightarrow> demands option" where
  "handler_demands c =
     List.find (\<lambda>_. True) (List.map_filter (\<lambda>f. f c)
       [session_demands, admin_demands, admin_support_demands, admin_reports_demands, admin_dispute_demands])"

text \<open>The demands as the guard compares them with the capabilities of an operator.\<close>

definition satisfies :: "admin_capability list \<Rightarrow> demands \<Rightarrow> bool" where
  "satisfies caps d \<longleftrightarrow>
     list_all (\<lambda>c. c \<in> set caps) (fst d) \<and> (snd d = [] \<or> list_ex (\<lambda>c. c \<in> set caps) (snd d))"

text \<open>Every command but the three of the login goes to a handler behind the guard.\<close>

lemma handler_demands_none:
  "handler_demands c = None \<longleftrightarrow> (\<exists>p. c = Request_otp p) \<or> (\<exists>p d. c = Verify_otp p d) \<or> (\<exists>t d. c = Step_up t d)"
  by (cases c) (simp_all add: handler_demands_def session_demands_def admin_demands_def admin_support_demands_def
    admin_reports_demands_def admin_dispute_demands_def List.map_filter_simps)

section \<open>What the server sees\<close>

definition received :: "console_request \<Rightarrow> timestamp \<Rightarrow> browser \<Rightarrow> admin_request" where
  "received req now b =
     \<lparr>arq_method = crq_method req, arq_cookie = cookie_header now b, arq_csrf = map_of (crq_headers req) ''x-csrf-token''\<rparr>"

end
