(* ===== verification/Operator_Properties.thy ===== *)
theory Operator_Properties
  imports Operator_Client Admin_Properties
begin

text \<open>
  The console against the server: after a successful step-up every command of the console passes
  the guard of the operators' API until the session expires.
\<close>

section \<open>Cookies there and back\<close>

text \<open>Names and values as the server makes them: no separators and no spaces.\<close>

definition plain_text :: "string \<Rightarrow> bool" where
  "plain_text s \<longleftrightarrow> (\<forall>c \<in> set s. c \<noteq> CHR '';'' \<and> \<not> is_js_space c)"

definition plain_cookie :: "cookie \<Rightarrow> bool" where
  "plain_cookie c \<longleftrightarrow> ck_name c \<noteq> [] \<and> plain_text (ck_name c) \<and> CHR ''='' \<notin> set (ck_name c) \<and> plain_text (ck_value c)"

lemma split_at_append: "c \<notin> set a \<Longrightarrow> split_at c (a @ c # b) = a # split_at c b"
  by (induction a) auto

lemma split_at_free: "c \<notin> set a \<Longrightarrow> split_at c a = [a]"
  by (induction a) auto

lemma dropWhile_none: "\<forall>c \<in> set s. \<not> p c \<Longrightarrow> dropWhile p s = s"
  by (cases s) auto

lemma js_trim_plain: "\<forall>c \<in> set s. \<not> is_js_space c \<Longrightarrow> js_trim s = s"
  by (simp add: js_trim_def dropWhile_none)

lemma js_trim_space: "js_trim (CHR '' '' # s) = js_trim s"
  by (simp add: js_trim_def is_js_space_def)

lemma plain_show:
  assumes "plain_cookie c"
  shows "CHR '';'' \<notin> set (show_cookie c)" and "js_trim (show_cookie c) = show_cookie c"
proof -
  have "\<forall>x \<in> set (show_cookie c). x \<noteq> CHR '';'' \<and> \<not> is_js_space x"
    using assms by (auto simp: plain_cookie_def plain_text_def show_cookie_def is_js_space_def)
  then show "CHR '';'' \<notin> set (show_cookie c)" "js_trim (show_cookie c) = show_cookie c"
    by (auto intro: js_trim_plain)
qed

lemma split_cookies:
  assumes "\<forall>x \<in> set (c # cs). plain_cookie x"
  shows "split_at (CHR '';'') (join_cookies (c # cs)) = show_cookie c # map (\<lambda>x. CHR '' '' # show_cookie x) cs"
  using assms
proof (induction cs arbitrary: c)
  case Nil
  then show ?case using plain_show by (simp add: split_at_free)
next
  case (Cons d ds)
  have "CHR '';'' \<notin> set (show_cookie c)" using Cons.prems plain_show by simp
  then have "split_at (CHR '';'') (join_cookies (c # d # ds))
      = show_cookie c # split_at (CHR '';'') (CHR '' '' # join_cookies (d # ds))"
    by (simp add: split_at_append)
  also have "split_at (CHR '';'') (CHR '' '' # join_cookies (d # ds))
      = (CHR '' '' # show_cookie d) # map (\<lambda>x. CHR '' '' # show_cookie x) ds"
    using Cons.IH [of d] Cons.prems by simp
  finally show ?case by simp
qed

lemma trimmed_parts:
  assumes "\<forall>x \<in> set cs. plain_cookie x" and "cs \<noteq> []"
  shows "map js_trim (split_at (CHR '';'') (join_cookies cs)) = map show_cookie cs"
proof -
  obtain c ds where cs: "cs = c # ds" using assms(2) by (cases cs) auto
  show ?thesis using assms(1) plain_show(2) unfolding cs
    by (subst split_cookies) (simp_all add: js_trim_space)
qed

text \<open>Both readers find the cookie of a name.\<close>

definition cookie_value :: "string \<Rightarrow> cookie list \<Rightarrow> string option" where
  "cookie_value name cs = map_option ck_value (List.find (\<lambda>c. ck_name c = name) cs)"

lemma prefix_of_cookie:
  assumes "plain_cookie c" and "CHR ''='' \<notin> set name"
  shows "take (length (name @ ''='')) (show_cookie c) = name @ ''='' \<longleftrightarrow> ck_name c = name"
proof
  assume "take (length (name @ ''='')) (show_cookie c) = name @ ''=''"
  then obtain rest where "ck_name c @ ''='' @ ck_value c = name @ ''='' @ rest"
    unfolding show_cookie_def by (metis append.assoc append_take_drop_id)
  then show "ck_name c = name"
    using assms by (auto simp: plain_cookie_def append_eq_append_conv2 append_eq_Cons_conv Cons_eq_append_conv)
qed (simp add: show_cookie_def)

lemma read_cookie_join:
  assumes "\<forall>x \<in> set cs. plain_cookie x" and "CHR ''='' \<notin> set name"
  shows "read_cookie (join_cookies cs) name = cookie_value name cs"
proof (cases "cs = []")
  case True
  then show ?thesis by (simp add: read_cookie_def cookie_value_def js_trim_def)
next
  case False
  have "List.find (\<lambda>part. take (length (name @ ''='')) part = name @ ''='') (map show_cookie cs)
      = map_option show_cookie (List.find (\<lambda>c. ck_name c = name) cs)"
    using assms(1) prefix_of_cookie [OF _ assms(2)] by (induction cs) auto
  moreover have "drop (length (name @ ''='')) (show_cookie c) = ck_value c" if "ck_name c = name" for c
    using that by (auto simp: show_cookie_def)
  ultimately show ?thesis
    using trimmed_parts [OF assms(1) False]
    by (cases "List.find (\<lambda>c. ck_name c = name) cs") (auto simp: read_cookie_def cookie_value_def Let_def dest: find_SomeD)
qed

lemma find_cookie_shown:
  assumes "plain_cookie c" and "js_trim part = show_cookie c" and "part \<in> {show_cookie c, CHR '' '' # show_cookie c}"
  shows "find_cookie name (part # parts) =
    (if ck_name c \<noteq> name then find_cookie name parts else if ck_value c = [] then None else Some (ck_value c))"
proof -
  have n: "\<forall>x \<in> set (ck_name c). x \<noteq> CHR ''=''" "js_trim (ck_name c) = ck_name c" "js_trim (ck_value c) = ck_value c"
    using assms(1) by (auto simp: plain_cookie_def plain_text_def intro!: js_trim_plain)
  have "takeWhile (\<lambda>x. x \<noteq> CHR ''='') (show_cookie c) = ck_name c"
    "dropWhile (\<lambda>x. x \<noteq> CHR ''='') (show_cookie c) = CHR ''='' # ck_value c"
    using n(1) by (simp_all add: show_cookie_def takeWhile_append2 dropWhile_append2)
  then have "js_trim (takeWhile (\<lambda>x. x \<noteq> CHR ''='') part) = ck_name c"
    and rest: "dropWhile (\<lambda>x. x \<noteq> CHR ''='') part = CHR ''='' # ck_value c"
    using assms(3) n(2) js_trim_space by auto
  then show ?thesis using n(3) by (simp only: find_cookie.simps Let_def list.sel list.distinct simp_thms if_False)
qed

lemma get_cookie_join:
  assumes "\<forall>x \<in> set cs. plain_cookie x" and "cs \<noteq> []"
  shows "get_cookie (Some (join_cookies cs)) name =
    (case cookie_value name cs of None \<Rightarrow> None | Some v \<Rightarrow> if v = [] then None else Some v)"
proof -
  have spaced: "find_cookie name (map (\<lambda>x. CHR '' '' # show_cookie x) ds) =
      (case cookie_value name ds of None \<Rightarrow> None | Some v \<Rightarrow> if v = [] then None else Some v)"
    if "\<forall>x \<in> set ds. plain_cookie x" for ds
    using that
  proof (induction ds)
    case (Cons d ds)
    have "find_cookie name ((CHR '' '' # show_cookie d) # map (\<lambda>x. CHR '' '' # show_cookie x) ds) =
      (if ck_name d \<noteq> name then find_cookie name (map (\<lambda>x. CHR '' '' # show_cookie x) ds)
       else if ck_value d = [] then None else Some (ck_value d))"
      by (rule find_cookie_shown) (use Cons.prems plain_show in \<open>auto simp: js_trim_space\<close>)
    with Cons show ?case by (simp add: cookie_value_def)
  qed (simp add: cookie_value_def)
  obtain c ds where cs: "cs = c # ds" using assms(2) by (cases cs) auto
  have "find_cookie name (show_cookie c # map (\<lambda>x. CHR '' '' # show_cookie x) ds) =
      (if ck_name c \<noteq> name then find_cookie name (map (\<lambda>x. CHR '' '' # show_cookie x) ds)
       else if ck_value c = [] then None else Some (ck_value c))"
    by (rule find_cookie_shown) (use assms(1) plain_show in \<open>auto simp: cs\<close>)
  with spaced [of ds] assms(1) show ?thesis
    unfolding get_cookie_def cs using split_cookies [of c ds] by (simp add: cs cookie_value_def)
qed

section \<open>The session opens the API to the console\<close>

lemma map_of_set_header: "map_of (set_header n v hs) m = (if m = n then Some v else map_of hs m)"
  by (induction hs) (auto simp: set_header_def)

lemma find_last: "\<forall>x \<in> set xs. \<not> p x \<Longrightarrow> p c \<Longrightarrow> List.find p (xs @ [c]) = Some c"
  by (induction xs) auto

lemma find_prefix: "List.find p xs = Some c \<Longrightarrow> List.find p (xs @ ys) = Some c"
  by (induction xs) auto

lemma cookie_names: "ADMIN_CSRF_COOKIE \<noteq> ADMIN_SESSION_COOKIE" "CHR ''='' \<notin> set ADMIN_CSRF_COOKIE"
    "plain_text ADMIN_CSRF_COOKIE" "plain_text ADMIN_SESSION_COOKIE" "CHR ''='' \<notin> set ADMIN_SESSION_COOKIE"
    "ADMIN_CSRF_COOKIE \<noteq> []" "ADMIN_SESSION_COOKIE \<noteq> []"
  by (simp_all add: ADMIN_CSRF_COOKIE_def ADMIN_SESSION_COOKIE_def plain_text_def is_js_space_def)

lemma step_up_cookie_values:
  assumes "t < now + asr_expiresInSeconds s * 1000"
  shows "cookie_value ADMIN_SESSION_COOKIE (live_cookies t (step_up_cookies s now b)) = Some (asr_sessionId s)"
    and "cookie_value ADMIN_CSRF_COOKIE (filter (\<lambda>c. \<not> ck_httpOnly c) (live_cookies t (step_up_cookies s now b))) = Some (asr_csrfToken s)"
    and "live_cookies t (step_up_cookies s now b) \<noteq> []"
proof -
  let ?e = "now + asr_expiresInSeconds s * 1000"
  let ?session = "\<lparr>ck_name = ADMIN_SESSION_COOKIE, ck_value = asr_sessionId s, ck_httpOnly = True, ck_expiresAt = ?e\<rparr>"
  let ?csrf = "\<lparr>ck_name = ADMIN_CSRF_COOKIE, ck_value = asr_csrfToken s, ck_httpOnly = False, ck_expiresAt = ?e\<rparr>"
  let ?others = "filter (\<lambda>c. ck_name c \<noteq> ADMIN_CSRF_COOKIE \<and> ck_name c \<noteq> ADMIN_SESSION_COOKIE \<and> t < ck_expiresAt c) (web_cookies b)"
  have live: "live_cookies t (step_up_cookies s now b) = (?others @ [?session]) @ [?csrf]"
    using assms(1) cookie_names(1)
    by (auto simp: live_cookies_def step_up_cookies_def set_cookie_def Let_def conj_ac)
  then show "live_cookies t (step_up_cookies s now b) \<noteq> []" by simp
  have "List.find (\<lambda>c. ck_name c = ADMIN_SESSION_COOKIE) (?others @ [?session]) = Some ?session"
    by (rule find_last) auto
  then have "List.find (\<lambda>c. ck_name c = ADMIN_SESSION_COOKIE) ((?others @ [?session]) @ ys) = Some ?session" for ys
    by (rule find_prefix)
  then show "cookie_value ADMIN_SESSION_COOKIE (live_cookies t (step_up_cookies s now b)) = Some (asr_sessionId s)"
    by (simp add: cookie_value_def live)
  have "List.find (\<lambda>c. ck_name c = ADMIN_CSRF_COOKIE) (filter (\<lambda>c. \<not> ck_httpOnly c) ?others @ [?csrf]) = Some ?csrf"
    by (rule find_last) auto
  then show "cookie_value ADMIN_CSRF_COOKIE (filter (\<lambda>c. \<not> ck_httpOnly c) (live_cookies t (step_up_cookies s now b))) = Some (asr_csrfToken s)"
    by (simp add: cookie_value_def live)
qed

text \<open>Every request of the console carries the token unless it only reads.\<close>

lemma call_carries_token:
  assumes "read_cookie (document_cookie t b) ADMIN_CSRF_COOKIE = Some csrf" and "csrf \<noteq> []"
  shows "get_csrf_token (received (call_request path init token uuid t b) t b') \<in> {Inr None, Inr (Some csrf)}"
proof -
  let ?r = "call_request path init token uuid t b"
  have "crq_method ?r \<in> {''GET'', ''HEAD''} \<or> map_of (crq_headers ?r) ''x-csrf-token'' = Some csrf"
    using assms by (auto simp: call_request_def Let_def map_of_set_header blank_def)
  moreover have "is_safe_method m" if "m \<in> {''GET'', ''HEAD''}" for m
    using that by (auto simp: is_safe_method_def upper_char_def)
  ultimately show ?thesis using assms(2) by (auto simp: get_csrf_token_def received_def)
qed

lemma verify_step_up_keeps:
  assumes "verify_step_up tools config u code now w = (w1, r)"
  shows "db_users (mw_db w1) = db_users (mw_db w) \<and> mw_capabilities w1 = mw_capabilities w"
  using assms
  by (auto simp: verify_step_up_def register_attempt_def verify_totp_def advance_step_def consume_recovery_code_def
    audit_admin_def write_audit_def Let_def split: prod.splits sum.splits option.splits if_splits)

lemma step_up_session:
  assumes "step_up tools config sid csrf uid code now w = (w', Inr s)" and "t < now + asr_expiresInSeconds s * 1000"
  shows "asr_sessionId s = sid \<and> asr_csrfToken s = csrf
    \<and> (\<exists>u. find_user (mw_db w') uid = Some u \<and> us_id u = uid \<and> is_active_admin u
         \<and> redis_get t (admin_session_key sid) (mw_redis w') = Some (R_admin_session uid (us_sessionVersion u) (mt_sha256 tools csrf)))
    \<and> mw_capabilities w' = mw_capabilities w"
proof -
  obtain u where u: "find_user (mw_db w) uid = Some u" "is_active_admin u"
    using assms(1) by (auto simp: step_up_def split: option.splits if_splits)
  obtain ttl where ttl: "get_admin_session_ttl config = Inr ttl"
    using assms(1) u by (auto simp: step_up_def split: sum.splits)
  obtain w1 where w1: "verify_step_up tools config uid code now w = (w1, Inr ())"
    using assms(1) u ttl by (auto simp: step_up_def split: prod.splits sum.splits)
  have id: "us_id u = uid" using u(1) by (auto simp: find_user_def dest: find_SomeD)
  note keeps = verify_step_up_keeps [OF w1]
  have w': "w' = (audit_admin uid ''ADMIN_STEP_UP_SUCCEEDED'' w1)\<lparr>mw_redis := redis_set now (admin_session_key sid)
      (R_admin_session uid (us_sessionVersion u) (mt_sha256 tools csrf)) ttl
      (mw_redis (audit_admin uid ''ADMIN_STEP_UP_SUCCEEDED'' w1))\<rparr>"
    "s = \<lparr>asr_sessionId = sid, asr_csrfToken = csrf, asr_expiresInSeconds = ttl\<rparr>"
    using assms(1) u ttl w1 id by (auto simp: step_up_def Let_def)
  have "find_user (mw_db w') uid = Some u"
    using u(1) keeps by (simp add: w'(1) find_user_def audit_admin_def write_audit_def)
  moreover have "mw_capabilities w' = mw_capabilities w" using keeps by (simp add: w'(1) audit_admin_def)
  ultimately show ?thesis using u(2) id assms(2) by (simp add: w')
qed

text \<open>
  C39. The console and the server agree on the session. After a step-up, until the session expires
  and in every state of the server in which the operator's account is as it was and the session is
  still stored, a command of the console whose handler is behind the guard of the operators' API
  is admitted as that operator exactly when he has the capabilities that the handler demands, and
  is forbidden otherwise, reading or changing, among any other cookies of the browser. The guard
  changes nothing.
\<close>

theorem console_admitted:
  assumes "step_up tools config sid csrf uid code now w = (w', Inr s)" and "t < now + asr_expiresInSeconds s * 1000"
    and "find_user (mw_db later) uid = find_user (mw_db w') uid"
    and "redis_get t (admin_session_key sid) (mw_redis later) = redis_get t (admin_session_key sid) (mw_redis w')"
    and "plain_text sid" and "sid \<noteq> []" and "plain_text csrf" and "csrf \<noteq> []"
    and "\<forall>x \<in> set (web_cookies b). plain_cookie x"
    and "handler_demands c = Some d"
    and "send_command c inst key uuid t (step_up_cookies s now b) = (b1, req)"
  shows "\<exists>user. aau_id user = uid \<and> admin_session_guard tools (fst d) (snd d) (received req t b1) t later =
    (later, if satisfies (mw_capabilities later uid) d then Inr user else Inl (Forbidden ''capabilities''))"
proof -
  from step_up_session [OF assms(1,2)] obtain u where s: "asr_sessionId s = sid" "asr_csrfToken s = csrf"
    and u: "find_user (mw_db later) uid = Some u" "us_id u = uid" "is_active_admin u"
    and stored: "redis_get t (admin_session_key sid) (mw_redis later) = Some (R_admin_session uid (us_sessionVersion u) (mt_sha256 tools csrf))"
    using assms(3,4) by auto
  let ?b = "step_up_cookies s now b"
  obtain path init token where req: "req = call_request path init token uuid t b1" "web_cookies b1 = web_cookies ?b"
    using assms(11) by (auto simp: send_command_def installation_id_def Let_def split: prod.splits console_command.splits if_splits)
  then have same: "live_cookies t b1 = live_cookies t ?b" by (simp add: live_cookies_def)
  have plain: "\<forall>x \<in> set (live_cookies t ?b). plain_cookie x"
    using assms(5,7,9) cookie_names s
    by (auto simp: live_cookies_def step_up_cookies_def set_cookie_def plain_cookie_def Let_def)
  note jar = step_up_cookie_values [OF assms(2), of b]
  have session: "get_cookie (cookie_header t b1) ADMIN_SESSION_COOKIE = Some sid"
    using get_cookie_join [OF plain jar(3)] jar assms(6) s by (simp add: cookie_header_def same)
  have "read_cookie (document_cookie t b1) ADMIN_CSRF_COOKIE = Some csrf"
    unfolding document_cookie_def same
    by (subst read_cookie_join) (use plain cookie_names(2) jar(2) s in auto)
  then have csrf: "get_csrf_token (received req t b1) \<in> {Inr None, Inr (Some csrf)}"
    unfolding req(1) by (rule call_carries_token [OF _ assms(8)])
  let ?user = "\<lparr>aau_id = uid, aau_phone = us_phone u, aau_capabilities = mw_capabilities later uid,
      aau_sessionVersion = us_sessionVersion u\<rparr>"
  have auth: "authenticate tools sid token' t later = (later, Inr ?user)"
    if "token' = None \<or> token' = Some csrf" for token'
    using that u stored by (auto simp: authenticate_def get_stored_session_def)
  have refused: "\<not> satisfies caps d \<longleftrightarrow> list_ex (\<lambda>c. c \<notin> set caps) (fst d)
      \<or> (snd d \<noteq> [] \<and> \<not> list_ex (\<lambda>c. c \<in> set caps) (snd d))" for caps
    by (auto simp: satisfies_def list_ex_iff list_all_iff)
  obtain token' where token': "get_csrf_token (received req t b1) = Inr token'" "token' = None \<or> token' = Some csrf"
    using csrf by auto
  have "get_cookie (arq_cookie (received req t b1)) ADMIN_SESSION_COOKIE = Some sid"
    using session by (simp add: received_def)
  then have "admin_session_guard tools (fst d) (snd d) (received req t b1) t later =
    (later, if satisfies (mw_capabilities later uid) d then Inr ?user else Inl (Forbidden ''capabilities''))"
    using token'(1) auth [OF token'(2)] refused [of "mw_capabilities later uid"]
    by (cases "satisfies (mw_capabilities later uid) d") (auto simp: admin_session_guard_def)
  then show ?thesis by (intro exI [of _ ?user]) simp
qed

section \<open>An operator at the console\<close>

definition sample_browser :: browser where
  "sample_browser = \<lparr>web_cookies = [\<lparr>ck_name = ''theme'', ck_value = ''dark'', ck_httpOnly = False, ck_expiresAt = 999999999\<rparr>],
     web_storage = (\<lambda>_. None)\<rparr>"

definition sample_session :: "admin_session_response admin_outcome" where
  "sample_session = step_up sample_tools sample_mfa_config ''sid'' ''tok'' ''A'' ''000002'' 60000 mfa_world"

definition sample_session_response :: admin_session_response where
  "sample_session_response = \<lparr>asr_sessionId = ''sid'', asr_csrfToken = ''tok'', asr_expiresInSeconds = 300\<rparr>"

lemma sample_session_answer: "snd sample_session = Inr sample_session_response"
  by code_simp

definition sample_call :: "browser \<times> console_request" where
  "sample_call = send_command (Block_user ''B'' ''spam'') ''i'' ''k'' ''u'' 100000 (step_up_cookies sample_session_response 60000 sample_browser)"

text \<open>A moderator may block a user, and not any more after his capability was taken away.\<close>

definition sample_demands :: demands where
  "sample_demands = ([Cap_MODERATION], [])"

definition sample_later :: "admin_capability list \<Rightarrow> admin_world" where
  "sample_later caps = (fst sample_session)\<lparr>mw_capabilities := \<lambda>_. caps\<rparr>"

theorem console_admitted_witness:
  "(\<exists>user. aau_id user = ''A'' \<and> admin_session_guard sample_tools [Cap_MODERATION] []
     (received (snd sample_call) 100000 (fst sample_call)) 100000 (sample_later [Cap_MODERATION])
   = (sample_later [Cap_MODERATION], Inr user))
   \<and> admin_session_guard sample_tools [Cap_MODERATION] []
     (received (snd sample_call) 100000 (fst sample_call)) 100000 (sample_later [Cap_SUPPORT])
   = (sample_later [Cap_SUPPORT], Inl (Forbidden ''capabilities''))"
proof -
  have guard: "\<exists>user. aau_id user = ''A'' \<and> admin_session_guard sample_tools (fst sample_demands) (snd sample_demands)
     (received (snd sample_call) 100000 (fst sample_call)) 100000 (sample_later caps)
   = (sample_later caps, if satisfies (mw_capabilities (sample_later caps) ''A'') sample_demands
      then Inr user else Inl (Forbidden ''capabilities''))" for caps
  proof (rule console_admitted)
    show "step_up sample_tools sample_mfa_config ''sid'' ''tok'' ''A'' ''000002'' 60000 mfa_world
        = (fst sample_session, Inr sample_session_response)"
      using sample_session_answer unfolding sample_session_def by (metis prod.collapse)
    show "send_command (Block_user ''B'' ''spam'') ''i'' ''k'' ''u'' 100000 (step_up_cookies sample_session_response 60000 sample_browser)
        = (fst sample_call, snd sample_call)"
      by (simp add: sample_call_def)
    show "handler_demands (Block_user ''B'' ''spam'') = Some sample_demands"
      by (simp add: sample_demands_def handler_demands_def session_demands_def admin_demands_def
          admin_support_demands_def admin_reports_demands_def admin_dispute_demands_def List.map_filter_simps)
  qed (simp_all add: sample_session_response_def plain_text_def is_js_space_def sample_browser_def plain_cookie_def sample_later_def)
  show ?thesis
    using guard [of "[Cap_MODERATION]"] guard [of "[Cap_SUPPORT]"] by (simp add: satisfies_def sample_later_def sample_demands_def)
qed

end
