(* ===== verification/Operator_Console.thy ===== *)
theory Operator_Console
  imports Operator_Client Database
begin

text \<open>
  The operators' console (\<open>operator/src/App.tsx\<close>): its login flow, what it keeps in memory and when it
  forgets it, the commands its buttons send after which checks, the order of the help-desk queue
  and the amounts of a decision. The answers of the server are arguments; an event is handled as
  a whole before the next one. Rendering and wording are left out.
\<close>

section \<open>State\<close>

datatype auth_step = Loading | Enter_phone | Enter_otp | Enter_mfa | Ready

datatype console_page = Support_page | Disputes_page | Users_page | Moderation_page | Reports_page

record operator_session =
  os_userId :: string
  os_capabilities :: "string list"
  os_expiresInSeconds :: int

record console_ticket =
  ct_id :: string
  ct_status :: ticket_status
  ct_bookingIssueReason :: "booking_issue option"
  ct_createdAt :: timestamp
  ct_assigneeId :: "string option"

text \<open>Answers that are only rendered are kept as they came.\<close>

record console_state =
  cs_step :: auth_step
  cs_page :: "console_page option"
  cs_phone :: string
  cs_code :: string
  cs_accessToken :: "string option"
  cs_users :: "json list"
  cs_items :: "json list"
  cs_tickets :: "console_ticket list"
  cs_openTicketId :: "string option"
  cs_supportMessages :: "string \<Rightarrow> json list option"
  cs_supportFiles :: "string \<Rightarrow> upload_file list"
  cs_reports :: "json list"
  cs_disputes :: "json list"
  cs_reviewContexts :: "string \<Rightarrow> json option"
  cs_error :: string
  cs_session :: "operator_session option"

definition console_start :: console_state where
  "console_start =
     \<lparr>cs_step = Loading, cs_page = None, cs_phone = [], cs_code = [], cs_accessToken = None, cs_users = [], cs_items = [],
      cs_tickets = [], cs_openTicketId = None, cs_supportMessages = (\<lambda>_. None), cs_supportFiles = (\<lambda>_. []),
      cs_reports = [], cs_disputes = [], cs_reviewContexts = (\<lambda>_. None), cs_error = [], cs_session = None\<rparr>"

text \<open>What a call can throw: an answer of the server, an aborted request, or another error.\<close>

datatype client_error = Api_error string int | Aborted | Other_failure string

type_synonym 'a answer = "client_error + 'a"

fun message :: "client_error \<Rightarrow> string" where
  "message (Api_error m _) = m"
| "message Aborted = []"
| "message (Other_failure m) = m"

definition initial_page :: "operator_session \<Rightarrow> console_page option" where
  "initial_page s =
     (if ''SUPPORT'' \<in> set (os_capabilities s) then Some Support_page
      else if ''DISPUTE'' \<in> set (os_capabilities s) then Some Disputes_page
      else if ''MODERATION'' \<in> set (os_capabilities s) then Some Moderation_page
      else None)"

definition reset_to_login :: "console_state \<Rightarrow> console_state" where
  "reset_to_login s =
     s\<lparr>cs_accessToken := None, cs_session := None, cs_page := None, cs_users := [], cs_items := [], cs_tickets := [],
       cs_openTicketId := None, cs_supportMessages := (\<lambda>_. None), cs_supportFiles := (\<lambda>_. []), cs_reports := [],
       cs_disputes := [], cs_reviewContexts := (\<lambda>_. None), cs_phone := [], cs_code := [], cs_error := [],
       cs_step := Enter_phone\<rparr>"

text \<open>The handler that every call after the login shares.\<close>

definition fail :: "client_error \<Rightarrow> console_state \<Rightarrow> console_state" where
  "fail e s = (case e of Api_error m status \<Rightarrow> if status = 401 then reset_to_login s else s\<lparr>cs_error := m\<rparr>
                       | _ \<Rightarrow> s\<lparr>cs_error := message e\<rparr>)"

section \<open>Login\<close>

definition on_start :: "operator_session answer \<Rightarrow> console_state \<Rightarrow> console_state" where
  "on_start ans s =
     (case ans of
        Inr session \<Rightarrow> s\<lparr>cs_session := Some session, cs_page := initial_page session, cs_step := Ready\<rparr>
      | Inl _ \<Rightarrow> s\<lparr>cs_step := Enter_phone\<rparr>)"

text \<open>The calls of the login form, each with its answer.\<close>

record login_api =
  la_requestOtp :: "unit answer"
  la_verifyOtp :: "string answer"
  la_stepUp :: "unit answer"
  la_session :: "operator_session answer"

definition submit :: "login_api \<Rightarrow> console_state \<Rightarrow> console_state" where
  "submit api s =
     (let s0 = s\<lparr>cs_error := []\<rparr>
      in case cs_step s of
           Enter_phone \<Rightarrow>
             (case la_requestOtp api of Inl e \<Rightarrow> s0\<lparr>cs_error := message e\<rparr> | Inr _ \<Rightarrow> s0\<lparr>cs_step := Enter_otp\<rparr>)
         | Enter_otp \<Rightarrow>
             (case la_verifyOtp api of
                Inl e \<Rightarrow> s0\<lparr>cs_error := message e\<rparr>
              | Inr token \<Rightarrow> s0\<lparr>cs_accessToken := Some token, cs_code := [], cs_step := Enter_mfa\<rparr>)
         | Enter_mfa \<Rightarrow>
             if blank (cs_accessToken s) then s0
             else (case la_stepUp api of
                Inl e \<Rightarrow> s0\<lparr>cs_error := message e\<rparr>
              | Inr _ \<Rightarrow>
                  (case la_session api of
                     Inl e \<Rightarrow> s0\<lparr>cs_error := message e\<rparr>
                   | Inr session \<Rightarrow> s0\<lparr>cs_session := Some session, cs_page := initial_page session,
                        cs_accessToken := None, cs_code := [], cs_step := Ready\<rparr>))
         | _ \<Rightarrow> s0)"

text \<open>The session is closed on the server first, and forgotten whether that succeeds or not.\<close>

definition console_logout :: "console_state \<Rightarrow> console_state" where
  "console_logout s = reset_to_login s"

definition IDLE_TIMEOUT_MS :: int where "IDLE_TIMEOUT_MS = 5 * 60 * 1000"

text \<open>
  When the idle timer that was started at \<open>t\<close> fires, given the moments of later activity: an activity
  before the timer fires restarts it. The console logs out then or when the session expires.
\<close>

fun idle_logout_at :: "timestamp \<Rightarrow> timestamp list \<Rightarrow> timestamp" where
  "idle_logout_at t [] = t + IDLE_TIMEOUT_MS"
| "idle_logout_at t (a # as) = (if a < t + IDLE_TIMEOUT_MS then idle_logout_at a as else t + IDLE_TIMEOUT_MS)"

definition logout_at :: "timestamp \<Rightarrow> operator_session \<Rightarrow> timestamp list \<Rightarrow> timestamp" where
  "logout_at readyAt session activity =
     min (idle_logout_at readyAt activity) (readyAt + os_expiresInSeconds session * 1000)"

section \<open>Loading\<close>

record load_api =
  lo_tickets :: "console_ticket list answer"
  lo_disputes :: "json list answer"
  lo_users :: "json list answer"
  lo_reports :: "json list answer"
  lo_items :: "json list answer"

definition on_answer :: "'a answer \<Rightarrow> ('a \<Rightarrow> console_state \<Rightarrow> console_state) \<Rightarrow> console_state \<Rightarrow> console_state" where
  "on_answer ans f s = (case ans of Inl e \<Rightarrow> fail e s | Inr x \<Rightarrow> f x s)"

definition load :: "load_api \<Rightarrow> console_page \<Rightarrow> console_state \<Rightarrow> console_state" where
  "load api target s =
     (let s0 = s\<lparr>cs_error := []\<rparr>
      in case target of
           Support_page \<Rightarrow> on_answer (lo_tickets api) (\<lambda>x s. s\<lparr>cs_tickets := x\<rparr>) s0
         | Disputes_page \<Rightarrow> on_answer (lo_disputes api) (\<lambda>x s. s\<lparr>cs_disputes := x\<rparr>) s0
         | Users_page \<Rightarrow> on_answer (lo_users api) (\<lambda>x s. s\<lparr>cs_users := x\<rparr>) s0
         | Reports_page \<Rightarrow> on_answer (lo_reports api) (\<lambda>x s. s\<lparr>cs_reports := x, cs_reviewContexts := (\<lambda>_. None)\<rparr>) s0
         | Moderation_page \<Rightarrow> on_answer (lo_items api) (\<lambda>x s. s\<lparr>cs_items := x\<rparr>) s0)"

text \<open>An action of a button: the call, then the page again; \<open>action\<close> may change the state as it goes.\<close>

definition act :: "load_api \<Rightarrow> console_page \<Rightarrow> (console_state \<Rightarrow> console_state \<times> unit answer) \<Rightarrow> console_state \<Rightarrow> console_state" where
  "act api reloadPage action s =
     (case action (s\<lparr>cs_error := []\<rparr>) of
        (s1, Inl e) \<Rightarrow> fail e s1
      | (s1, Inr _) \<Rightarrow> load api reloadPage s1)"

section \<open>Buttons\<close>

text \<open>What a button does with the answer to its prompt: nothing, a complaint, or a command.\<close>

datatype intent = Nothing | Complain string | Send console_command

definition decide_report_intent :: "string \<Rightarrow> string \<Rightarrow> string option \<Rightarrow> intent" where
  "decide_report_intent reportId decision prompt =
     (if blank prompt then Nothing else Send (Decide_report reportId decision (the prompt)))"

definition block_user_intent :: "string \<Rightarrow> string option \<Rightarrow> intent" where
  "block_user_intent userId prompt =
     (if blank prompt then Nothing
      else
        let normalized = js_trim (the prompt)
        in if length normalized < 5 \<or> 500 < length normalized then Complain ''block-reason''
           else Send (Block_user userId normalized))"

definition reject_item_intent :: "string \<Rightarrow> string option \<Rightarrow> intent" where
  "reject_item_intent itemId prompt = (if blank prompt then Nothing else Send (Reject_item itemId (the prompt)))"

definition close_ticket_intent :: "string \<Rightarrow> bool \<Rightarrow> intent" where
  "close_ticket_intent ticketId confirmed = (if confirmed then Send (Close_support_ticket ticketId) else Nothing)"

definition can_current_operator_act :: "console_ticket \<Rightarrow> operator_session option \<Rightarrow> bool" where
  "can_current_operator_act ticket session \<longleftrightarrow>
     (case ct_assigneeId ticket of None \<Rightarrow> True | Some a \<Rightarrow> map_option os_userId session = Some a)"

definition can_resolve_financial :: "operator_session option \<Rightarrow> bool" where
  "can_resolve_financial session \<longleftrightarrow>
     (case session of None \<Rightarrow> False | Some s \<Rightarrow> ''DISPUTE'' \<in> set (os_capabilities s) \<and> ''FINANCE'' \<in> set (os_capabilities s))"

definition toggle_support_thread :: "string \<Rightarrow> json list answer \<Rightarrow> console_state \<Rightarrow> console_state" where
  "toggle_support_thread ticketId ans s =
     (if cs_openTicketId s = Some ticketId then s\<lparr>cs_openTicketId := None\<rparr>
      else
        let s1 = s\<lparr>cs_openTicketId := Some ticketId\<rparr>
        in if cs_supportMessages s ticketId \<noteq> None then s1
           else case ans of
             Inr ms \<Rightarrow> s1\<lparr>cs_error := [], cs_supportMessages := (cs_supportMessages s1)(ticketId \<mapsto> ms)\<rparr>
           | Inl e \<Rightarrow> fail e (s1\<lparr>cs_error := [], cs_openTicketId := None\<rparr>))"

definition load_review_context :: "string \<Rightarrow> json answer \<Rightarrow> console_state \<Rightarrow> console_state" where
  "load_review_context reportId ans s =
     on_answer ans (\<lambda>x s. s\<lparr>cs_reviewContexts := (cs_reviewContexts s)(reportId \<mapsto> x)\<rparr>) (s\<lparr>cs_error := []\<rparr>)"

definition is_allowed_file :: "upload_file \<Rightarrow> bool" where
  "is_allowed_file f \<longleftrightarrow>
     uf_type f \<in> {''image/jpeg'', ''image/png'', ''image/webp''} \<and> 0 < uf_size f \<and> uf_size f \<le> 10 * 1024 * 1024"

definition select_support_files :: "string \<Rightarrow> upload_file list \<Rightarrow> console_state \<Rightarrow> console_state" where
  "select_support_files ticketId files s =
     (let allowed = take 3 (filter is_allowed_file files)
      in s\<lparr>cs_supportFiles := (cs_supportFiles s)(ticketId := allowed),
           cs_error := (if length allowed \<noteq> length files then ''files-refused'' else [])\<rparr>)"

text \<open>The answer to a ticket: upload, message, forget the files, read the thread again.\<close>

record reply_api =
  ra_upload :: "upload_file list \<Rightarrow> string list answer"
  ra_create :: "console_command \<Rightarrow> unit answer"
  ra_messages :: "json list answer"

definition reply_to_support :: "load_api \<Rightarrow> reply_api \<Rightarrow> string \<Rightarrow> string option \<Rightarrow> console_state \<Rightarrow> console_state" where
  "reply_to_support lapi api ticketId prompt s =
     (if blank prompt then s
      else act lapi Support_page (\<lambda>s.
        case ra_upload api (cs_supportFiles s ticketId) of
          Inl e \<Rightarrow> (s, Inl e)
        | Inr intents \<Rightarrow>
            (case ra_create api (Create_support_message ticketId (the prompt) intents) of
               Inl e \<Rightarrow> (s, Inl e)
             | Inr _ \<Rightarrow>
                 let s1 = s\<lparr>cs_supportFiles := (cs_supportFiles s)(ticketId := [])\<rparr>
                 in (case ra_messages api of
                       Inl e \<Rightarrow> (s1, Inl e)
                     | Inr ms \<Rightarrow>
                         (s1\<lparr>cs_supportMessages := (cs_supportMessages s1)(ticketId \<mapsto> ms), cs_openTicketId := Some ticketId\<rparr>,
                          Inr ())))) s)"

text \<open>A link of the server is opened only when it is HTTPS; the result is the address to open.\<close>

definition open_attachment :: "url_tools \<Rightarrow> string answer \<Rightarrow> console_state \<Rightarrow> console_state \<times> string option" where
  "open_attachment urls ans s =
     (let s0 = s\<lparr>cs_error := []\<rparr>
      in case ans of
           Inl e \<Rightarrow> (fail e s0, None)
         | Inr link \<Rightarrow>
             (case ut_parse urls link of
                None \<Rightarrow> (s0\<lparr>cs_error := ''Invalid URL''\<rparr>, None)
              | Some u \<Rightarrow>
                  if url_protocol u \<noteq> ''https:'' then (s0\<lparr>cs_error := ''unsafe-link''\<rparr>, None)
                  else (s0, Some (url_href u))))"

section \<open>The queue\<close>

text \<open>\<open>Date.now()\<close> is read once for the whole sort.\<close>

datatype ticket_class = Class_closed | Class_progress | Class_overdue | Class_high | Class_new

definition is_high_priority :: "booking_issue option \<Rightarrow> bool" where
  "is_high_priority r \<longleftrightarrow>
     r \<in> {Some OWNER_NO_SHOW, Some BORROWER_NO_SHOW, Some ITEM_FAULTY, Some Issue_ITEM_DAMAGED, Some Issue_ITEM_LOST}"

definition sla_hours :: "console_ticket \<Rightarrow> int" where
  "sla_hours t = (if is_high_priority (ct_bookingIssueReason t) then 4 else 24)"

definition ticket_priority :: "timestamp \<Rightarrow> console_ticket \<Rightarrow> ticket_class \<times> nat" where
  "ticket_priority now t =
     (if ct_status t = Tk_CLOSED then (Class_closed, 0)
      else if ct_status t = Tk_IN_PROGRESS then (Class_progress, 1)
      else if sla_hours t * 3600000 \<le> now - ct_createdAt t then (Class_overdue, 3)
      else if is_high_priority (ct_bookingIssueReason t) then (Class_high, 2) else (Class_new, 1))"

text \<open>A stable sort by the rank, the higher first, and then by the age, the older first.\<close>

definition sort_tickets :: "timestamp \<Rightarrow> console_ticket list \<Rightarrow> console_ticket list" where
  "sort_tickets now ts = sort_key (\<lambda>t. 3 - snd (ticket_priority now t)) (sort_key ct_createdAt ts)"

section \<open>Amounts\<close>

text \<open>\<open>/^(\d+)(?:[.,](\d{1,2}))?$/\<close>, in big integers.\<close>

definition parse_rubles_to_minor :: "string \<Rightarrow> (string + int)" where
  "parse_rubles_to_minor v =
     (let s = js_trim v; whole = takeWhile is_digit s; rest = dropWhile is_digit s;
          fraction = (if rest = [] then [] else tl rest)
      in if whole = [] \<or> (rest \<noteq> [] \<and> \<not> (hd rest \<in> {CHR ''.'', CHR '',''} \<and> fraction \<noteq> [] \<and> length fraction \<le> 2
               \<and> list_all is_digit fraction))
         then Inl ''amount''
         else
           let minor = digits_value whole * 100 + digits_value (fraction @ replicate (2 - length fraction) (CHR ''0''))
           in if max_safe < minor then Inl ''amount-too-large'' else Inr minor)"

text \<open>The decimal digits of a number; \<open>minor / 100n\<close> and the rest with two digits.\<close>

fun decimal_digits :: "nat \<Rightarrow> string" where
  "decimal_digits n = (if n < 10 then [digit_char (int n)] else decimal_digits (n div 10) @ [digit_char (int (n mod 10))])"

declare decimal_digits.simps [simp del]

definition format_minor_rub :: "nat \<Rightarrow> string" where
  "format_minor_rub minor = decimal_digits (minor div 100) @ '','' @ pad2 (int (minor mod 100))"

text \<open>The form of a decision: two amounts and a reason.\<close>

definition resolve_dispute_intent :: "string \<Rightarrow> int \<Rightarrow> string \<Rightarrow> string \<Rightarrow> string \<Rightarrow> intent" where
  "resolve_dispute_intent disputeId depositAmountMinor refund release rawReason =
     (case parse_rubles_to_minor refund of
        Inl e \<Rightarrow> Complain e
      | Inr refundMinor \<Rightarrow>
          (case parse_rubles_to_minor release of
             Inl e \<Rightarrow> Complain e
           | Inr releaseMinor \<Rightarrow>
               (let reason = js_trim rawReason
                in if refundMinor + releaseMinor \<noteq> depositAmountMinor then Complain ''split''
                   else if length reason < 10 \<or> 1000 < length reason then Complain ''reason''
                   else Send (Resolve_dispute disputeId refundMinor releaseMinor reason))))"

end
