(* ===== verification/Console_Properties.thy ===== *)
theory Console_Properties
  imports Operator_Console "HOL-Library.Multiset"
begin

text \<open>
  What the console promises: amounts read back, a decision divides the deposit exactly, the queue
  is ordered, and nothing of an operator's work stays on the screen after the session.
\<close>

section \<open>Amounts\<close>

lemma digits_value_append: "digits_value (s @ t) = digits_value s * 10 ^ length t + digits_value t"
proof -
  have "foldl (\<lambda>n c. 10 * n + digit_val c) m t = m * 10 ^ length t + foldl (\<lambda>n c. 10 * n + digit_val c) 0 t" for m t
  proof (induction t arbitrary: m)
    case (Cons c cs)
    show ?case
      using Cons.IH [of "10 * m + digit_val c"] Cons.IH [of "digit_val c"] by (simp add: algebra_simps)
  qed simp
  then show ?thesis unfolding digits_value_def foldl_append .
qed

lemma decimal_digits_value:
  "digits_value (decimal_digits n) = int n" "list_all is_digit (decimal_digits n)" "decimal_digits n \<noteq> []"
proof (induction n rule: decimal_digits.induct)
  case (1 n)
  {
    case 1
    show ?case
    proof (cases "n < 10")
      case False
      then have "digits_value (decimal_digits n) = int (n div 10) * 10 + int (n mod 10)"
        using "1.IH"(1) by (subst decimal_digits.simps) (simp add: digits_value_append, simp add: digits_value_def)
      also have "\<dots> = int n" by presburger
      finally show ?thesis .
    qed (simp add: decimal_digits.simps digits_value_def)
  next
    case 2
    show ?case using "1.IH"(2) by (subst decimal_digits.simps) auto
  next
    case 3
    show ?case by (subst decimal_digits.simps) simp
  }
qed

lemma pad2_value:
  assumes "0 \<le> n" and "n < 100"
  shows "digits_value (pad2 n) = n" and "list_all is_digit (pad2 n)" and "length (pad2 n) = 2"
proof -
  have "n div 10 mod 10 = n div 10" using assms by simp
  moreover have "0 \<le> n div 10" "n div 10 \<le> 9" using assms by auto
  ultimately show "digits_value (pad2 n) = n" "list_all is_digit (pad2 n)" "length (pad2 n) = 2"
    using assms by (auto simp: pad2_def digits_value_def)
qed

lemma digit_not_space: "is_digit c \<Longrightarrow> \<not> is_js_space c"
  by (auto simp: is_digit_def digit_val_def is_js_space_def)

lemma js_trim_id:
  assumes "s \<noteq> []" and "\<not> is_js_space (hd s)" and "\<not> is_js_space (last s)"
  shows "js_trim s = s"
proof -
  have "dropWhile is_js_space s = s" using assms(1,2) by (cases s) auto
  moreover have "dropWhile is_js_space (rev s) = rev s" using assms(1,3) by (cases s rule: rev_cases) auto
  ultimately show ?thesis by (simp add: js_trim_def)
qed

text \<open>
  An amount that the console shows reads back as the same number of kopecks, up to the largest
  safe integer; larger ones are refused.
\<close>

theorem rubles_roundtrip:
  "parse_rubles_to_minor (format_minor_rub n) = (if int n \<le> max_safe then Inr (int n) else Inl ''amount-too-large'')"
proof -
  let ?w = "decimal_digits (n div 100)" and ?f = "pad2 (int (n mod 100))"
  have w: "list_all is_digit ?w" "?w \<noteq> []" "digits_value ?w = int (n div 100)" by (simp_all add: decimal_digits_value)
  have f: "list_all is_digit ?f" "length ?f = 2" "digits_value ?f = int (n mod 100)" "?f \<noteq> []"
    using pad2_value [of "int (n mod 100)"] by (auto simp: pad2_def)
  have comma: "\<not> is_digit CHR '',''" by (simp add: is_digit_def digit_val_def)
  have "\<not> is_js_space (hd ?w)" "\<not> is_js_space (last ?f)"
    using w f digit_not_space by (auto simp: list_all_iff)
  then have "js_trim (format_minor_rub n) = ?w @ CHR '','' # ?f"
    unfolding format_minor_rub_def using w(2) f(4) by (intro trans [OF js_trim_id]) auto
  moreover have "takeWhile is_digit (?w @ CHR '','' # ?f) = ?w" "dropWhile is_digit (?w @ CHR '','' # ?f) = CHR '','' # ?f"
    using w(1) comma by (simp_all add: list_all_iff takeWhile_append dropWhile_append3)
  moreover have "?f \<noteq> [] \<and> length ?f \<le> 2 \<and> list_all is_digit ?f" using f by simp
  moreover have "int (n div 100) * 100 + int (n mod 100) = int n" by presburger
  ultimately show ?thesis
    unfolding parse_rubles_to_minor_def Let_def using w(2,3) f(2,3) by (simp del: of_nat_mod of_nat_div)
qed

lemma digits_value_nonneg: "list_all is_digit s \<Longrightarrow> 0 \<le> digits_value s"
proof -
  have "0 \<le> m \<Longrightarrow> list_all is_digit s \<Longrightarrow> 0 \<le> foldl (\<lambda>n c. 10 * n + digit_val c) m s" for m s
    by (induction s arbitrary: m) (auto simp: is_digit_def)
  then show "list_all is_digit s \<Longrightarrow> 0 \<le> digits_value s" by (simp add: digits_value_def)
qed

lemma parsed_amount_bounds: "parse_rubles_to_minor s = Inr n \<Longrightarrow> 0 \<le> n \<and> n \<le> max_safe"
proof -
  have zeros: "list_all is_digit (f @ replicate k (CHR ''0''))" if "list_all is_digit f" for f k
    using that by (auto simp: list_all_iff is_digit_def digit_val_def)
  have zero: "list_all is_digit (replicate k (CHR ''0''))" for k using zeros [of "[]"] by simp
  have "list_all is_digit (takeWhile is_digit t)" for t by (auto simp: list_all_iff dest: set_takeWhileD)
  then show "parse_rubles_to_minor s = Inr n \<Longrightarrow> 0 \<le> n \<and> n \<le> max_safe"
    by (auto simp: parse_rubles_to_minor_def Let_def intro!: add_nonneg_nonneg digits_value_nonneg zeros zero split: if_splits)
qed

text \<open>
  The console sends a decision on a dispute only if its two parts are amounts of kopecks that a
  number holds exactly and add up to the deposit, with a reason of 10 to 1000 characters.
\<close>

theorem decision_divides_deposit:
  assumes "resolve_dispute_intent d deposit refund release rawReason = Send c"
  shows "\<exists>a b reason. c = Resolve_dispute d a b reason \<and> 0 \<le> a \<and> 0 \<le> b \<and> a \<le> max_safe \<and> b \<le> max_safe
    \<and> a + b = deposit \<and> 10 \<le> length reason \<and> length reason \<le> 1000"
  using assms parsed_amount_bounds
  by (auto simp: resolve_dispute_intent_def Let_def split: sum.splits if_splits)

section \<open>The queue\<close>

lemma sorted_wrt_sort_key:
  assumes "sorted_wrt R xs"
  shows "sorted_wrt (\<lambda>x y. f x < f y \<or> f x = f y \<and> R x y) (sort_key f xs)"
  using assms
proof (induction xs)
  case (Cons x xs)
  have ins: "sorted_wrt (\<lambda>x y. f x < f y \<or> f x = f y \<and> R x y) (insort_key f x ys)"
    if "sorted_wrt (\<lambda>x y. f x < f y \<or> f x = f y \<and> R x y) ys" "\<forall>y \<in> set ys. R x y" for ys
    using that
  proof (induction ys)
    case (Cons y ys)
    show ?case
    proof (cases "f x \<le> f y")
      case True
      then show ?thesis using Cons.prems by (auto simp: less_le)
    next
      case False
      then have "f y < f x" by simp
      then show ?thesis using Cons by (auto simp: set_insort_key)
    qed
  qed simp
  show ?case using Cons ins [of "sort_key f xs"] by simp
qed simp

text \<open>The queue holds the same tickets, the more urgent before the others and the older first among equals.\<close>

theorem queue_sorted:
  "mset (sort_tickets now ts) = mset ts
   \<and> sorted_wrt (\<lambda>x y. snd (ticket_priority now y) < snd (ticket_priority now x)
        \<or> snd (ticket_priority now y) = snd (ticket_priority now x) \<and> ct_createdAt x \<le> ct_createdAt y) (sort_tickets now ts)"
proof -
  have "sorted_wrt (\<lambda>x y. ct_createdAt x \<le> ct_createdAt y) (sort_key ct_createdAt ts)"
    using sorted_sort_key [of ct_createdAt ts] by (simp add: sorted_map)
  note sorted = sorted_wrt_sort_key [OF this, of "\<lambda>t. 3 - snd (ticket_priority now t)"]
  have "snd (ticket_priority now t) \<le> 3" for t by (simp add: ticket_priority_def)
  then have "3 - snd (ticket_priority now x) < 3 - snd (ticket_priority now y) \<longleftrightarrow> snd (ticket_priority now y) < snd (ticket_priority now x)"
    "3 - snd (ticket_priority now x) = 3 - snd (ticket_priority now y) \<longleftrightarrow> snd (ticket_priority now y) = snd (ticket_priority now x)" for x y
    by (metis diff_less_mono2 diff_le_mono2 leD leI less_le_trans order_refl diff_diff_cancel)+
  then show ?thesis using sorted by (simp add: sort_tickets_def)
qed

section \<open>Nothing stays\<close>

text \<open>Without a session the console holds no data of the API.\<close>

definition blank_console :: "console_state \<Rightarrow> bool" where
  "blank_console s \<longleftrightarrow> cs_session s = None \<and> cs_users s = [] \<and> cs_items s = [] \<and> cs_tickets s = [] \<and> cs_reports s = []
     \<and> cs_disputes s = [] \<and> cs_supportMessages s = (\<lambda>_. None) \<and> cs_supportFiles s = (\<lambda>_. []) \<and> cs_reviewContexts s = (\<lambda>_. None)"

text \<open>
  The events of the screen that has a session, and those of the login. Forgetting a session aborts
  the requests that are under way, whose handlers then see the abort in any later state.
\<close>

inductive console_step :: "console_state \<Rightarrow> console_state \<Rightarrow> bool" where
  start: "cs_step s = Loading \<Longrightarrow> console_step s (on_start ans s)"
| login: "cs_step s \<noteq> Ready \<Longrightarrow> console_step s (submit api s)"
| reload: "cs_step s = Ready \<Longrightarrow> console_step s (load lapi target s)"
| button: "cs_step s = Ready \<Longrightarrow> console_step s (act lapi target (\<lambda>s. (s, ans')) s)"
| thread: "cs_step s = Ready \<Longrightarrow> console_step s (toggle_support_thread i ms s)"
| review: "cs_step s = Ready \<Longrightarrow> console_step s (load_review_context i ctx s)"
| files: "cs_step s = Ready \<Longrightarrow> console_step s (select_support_files i fs s)"
| reply: "cs_step s = Ready \<Longrightarrow> console_step s (reply_to_support lapi rapi i prompt s)"
| attachment: "cs_step s = Ready \<Longrightarrow> console_step s (fst (open_attachment urls link s))"
| logout: "cs_step s = Ready \<Longrightarrow> console_step s (console_logout s)"
| aborted: "console_step s (fail Aborted s)"

definition console_ok :: "console_state \<Rightarrow> bool" where
  "console_ok s \<longleftrightarrow> (if cs_step s = Ready then cs_session s \<noteq> None else blank_console s)
     \<and> (cs_accessToken s \<noteq> None \<longrightarrow> cs_step s = Enter_mfa)"

lemma reset_ok [simp]: "console_ok (reset_to_login s)"
  by (simp add: console_ok_def blank_console_def reset_to_login_def)

lemma fail_ok [simp]: "console_ok s \<Longrightarrow> console_ok (fail e s)"
  by (auto simp: fail_def console_ok_def blank_console_def reset_to_login_def split: client_error.splits)

lemma ok_ready [simp]: "cs_step s = Ready \<Longrightarrow> console_ok s \<longleftrightarrow> cs_session s \<noteq> None \<and> cs_accessToken s = None"
  by (simp add: console_ok_def)

lemma load_ok: "console_ok s \<Longrightarrow> cs_step s = Ready \<Longrightarrow> console_ok (load api target s)"
  by (cases target) (auto simp: load_def Let_def on_answer_def split: sum.splits)

lemma act_ok:
  assumes "\<And>s1 r. action (s\<lparr>cs_error := []\<rparr>) = (s1, r) \<Longrightarrow> console_ok s1 \<and> cs_step s1 = Ready"
  shows "console_ok (act api target action s)"
  using assms by (auto simp: act_def load_ok split: prod.splits sum.splits)

lemma reply_ok:
  assumes "console_ok s" and "cs_step s = Ready"
  shows "console_ok (reply_to_support lapi rapi i prompt s)"
proof (cases "blank prompt")
  case True
  then show ?thesis using assms by (simp add: reply_to_support_def)
next
  case False
  show ?thesis
    unfolding reply_to_support_def if_not_P [OF False]
    by (rule act_ok) (use assms in \<open>auto simp: Let_def split: sum.splits\<close>)
qed

lemma console_step_ok: "console_step s s' \<Longrightarrow> console_ok s \<Longrightarrow> console_ok s'"
proof (induction rule: console_step.induct)
  case (start s ans)
  then show ?case by (auto simp: on_start_def console_ok_def blank_console_def split: sum.splits)
next
  case (login s api)
  then show ?case
    by (auto simp: submit_def console_ok_def blank_console_def Let_def split: auth_step.splits sum.splits)
next
  case (button s lapi target ans')
  then show ?case by (intro act_ok) auto
next
  case (thread s i ms)
  then show ?case
    by (auto simp: toggle_support_thread_def console_ok_def fail_def blank_console_def reset_to_login_def Let_def
      split: sum.splits client_error.splits)
next
  case (attachment s urls link)
  then show ?case by (auto simp: open_attachment_def Let_def split: sum.splits option.splits)
qed (auto simp: load_ok reply_ok console_logout_def load_review_context_def on_answer_def select_support_files_def Let_def
  split: sum.splits)

interpretation console: step_invariant console_step console_ok
  by unfold_locales (rule console_step_ok)

text \<open>
  C40. The console forgets: in every state it can reach without a session, after a logout, an expired
  session or any answer 401, it holds no user, listing, ticket, thread, chosen file, report,
  review or dispute; and the access token of the login is held between the two factors only.
\<close>

theorem console_forgets:
  assumes "console_step\<^sup>*\<^sup>* console_start s"
  shows "(cs_step s \<noteq> Ready \<longrightarrow> blank_console s) \<and> (cs_step s = Ready \<longrightarrow> cs_session s \<noteq> None)
    \<and> (cs_accessToken s \<noteq> None \<longrightarrow> cs_step s = Enter_mfa)"
proof -
  have "console_ok console_start" by (simp add: console_ok_def blank_console_def console_start_def)
  then have "console_ok s" using console.inv_steps [OF assms] by blast
  then show ?thesis by (simp add: console_ok_def split: if_splits)
qed

text \<open>
  The console never shows its pages longer than the session lasts, nor longer than five minutes
  after the last activity that it has seen.
\<close>

theorem idle_logout:
  "logout_at t session activity \<le> t + os_expiresInSeconds session * 1000
   \<and> (\<exists>a \<in> insert t (set activity). logout_at t session activity \<le> a + IDLE_TIMEOUT_MS)"
proof -
  have "\<exists>a \<in> insert t (set as). idle_logout_at t as = a + IDLE_TIMEOUT_MS" for t as
    by (induction t as rule: idle_logout_at.induct) auto
  then obtain a where "a \<in> insert t (set activity)" "idle_logout_at t activity = a + IDLE_TIMEOUT_MS" by blast
  then show ?thesis unfolding logout_at_def by (intro conjI bexI [of _ a]) auto
qed

section \<open>A visit to the console\<close>

text \<open>Login by phone, code and second factor, then the list of users, then an expired session.\<close>

definition sample_operator_session :: operator_session where
  "sample_operator_session = \<lparr>os_userId = ''A'', os_capabilities = [''MODERATION''], os_expiresInSeconds = 300\<rparr>"

definition sample_login_api :: login_api where
  "sample_login_api = \<lparr>la_requestOtp = Inr (), la_verifyOtp = Inr ''token'', la_stepUp = Inr (), la_session = Inr sample_operator_session\<rparr>"

definition sample_loads :: "json list answer \<Rightarrow> load_api" where
  "sample_loads users = \<lparr>lo_tickets = Inr [], lo_disputes = Inr [], lo_users = users, lo_reports = Inr [], lo_items = Inr []\<rparr>"

definition sample_visit :: console_state where
  "sample_visit = load (sample_loads (Inr [JStr ''B''])) Users_page
     (submit sample_login_api (submit sample_login_api (submit sample_login_api (on_start (Inl (Api_error ''no-session'' 401)) console_start))))"

definition sample_expired :: console_state where
  "sample_expired = load (sample_loads (Inl (Api_error ''expired'' 401))) Users_page sample_visit"

lemma sample_visit_ready: "cs_step sample_visit = Ready" "cs_users sample_visit = [JStr ''B'']" "cs_step sample_expired \<noteq> Ready"
  by code_simp+

lemma sample_visit_reached: "console_step\<^sup>*\<^sup>* console_start sample_visit"
proof -
  let ?s1 = "on_start (Inl (Api_error ''no-session'' 401)) console_start"
  let ?s2 = "submit sample_login_api ?s1" let ?s3 = "submit sample_login_api ?s2" let ?s4 = "submit sample_login_api ?s3"
  have steps: "cs_step console_start = Loading" "cs_step ?s1 \<noteq> Ready" "cs_step ?s2 \<noteq> Ready" "cs_step ?s3 \<noteq> Ready"
    "cs_step ?s4 = Ready"
    by code_simp+
  have "console_step console_start ?s1" by (rule console_step.start [OF steps(1)])
  moreover have "console_step ?s1 ?s2" by (rule console_step.login [OF steps(2)])
  moreover have "console_step ?s2 ?s3" by (rule console_step.login [OF steps(3)])
  moreover have "console_step ?s3 ?s4" by (rule console_step.login [OF steps(4)])
  moreover have "console_step ?s4 sample_visit"
    unfolding sample_visit_def by (rule console_step.reload [OF steps(5)])
  ultimately show ?thesis by (meson rtranclp.rtrancl_refl rtranclp.rtrancl_into_rtrancl)
qed

theorem console_forgets_witness:
  "cs_users sample_visit = [JStr ''B''] \<and> blank_console sample_expired"
proof -
  have "console_step\<^sup>*\<^sup>* console_start sample_expired"
    using sample_visit_reached console_step.reload [OF sample_visit_ready(1)]
    unfolding sample_expired_def by (rule rtranclp.rtrancl_into_rtrancl)
  then show ?thesis using console_forgets [of sample_expired] sample_visit_ready by simp
qed

end
