(* ===== verification/Spec2Isabelle.thy ===== *)
theory Spec2Isabelle
  imports Booking_Properties Notification_Properties Communication_Properties Account_Properties Review_Properties Support_Properties Upload_Properties Auth_Properties Moderation_Properties Admin_Properties Data_Export_Properties Operations_Properties Http_Properties Metrics First_Admin Log_Redaction Operator_Properties Console_Properties
begin

text \<open>
  A verification library for a neighbourhood rental marketplace (TypeScript): the server
  (\<open>backend/src\<close>, NestJS on Prisma, PostgreSQL, Redis and an object storage), its operations programs,
  and the operators' console (\<open>operator/src\<close>).

  Foundations.
    \<^item> \<open>Prelude\<close>, \<open>Js_Text\<close>, \<open>Js_Number\<close>, \<open>Js_Regexp\<close>, \<open>Platform\<close>: results of fallible commands, tables as
      lists of rows with the operations of the Prisma client, JavaScript strings, JSON, numbers
      (doubles as the rationals they denote, rounding to nearest even), regular expressions with
      backtracking, environment variables and URLs. \<open>Paging\<close>, \<open>Row_Agreement\<close>: pages by cursor, and
      lists that agree on a projection, shared by the services and by the privacy results.
    \<^item> \<open>Database\<close>, \<open>Redis\<close>, \<open>Storage\<close>: the tables of \<open>prisma/schema.prisma\<close> that the services use, one
      record per row type and one record \<open>db\<close> of all tables; the key-value store with expiry
      (\<open>redis/redis.service.ts\<close>); the buckets (\<open>upload/s3-storage.service.ts\<close>).

  Bookings and deposits.
    \<^item> \<open>Workflow\<close> (\<open>common/domain/workflow-contract.ts\<close>, \<open>payments/deposit-state.ts\<close>), \<open>Money\<close>
      (\<open>payments/money-minor.ts\<close>, \<open>payments/safe-deal-price.ts\<close>), \<open>Booking_Period\<close>
      (\<open>booking/booking-period.ts\<close>), \<open>Booking_Terms\<close> (\<open>booking/booking-terms.ts\<close>), \<open>Payment_Policy\<close>
      (\<open>payments/payment-policy.service.ts\<close>).
    \<^item> \<open>Booking_Service\<close> (\<open>booking/booking.service.ts\<close>), \<open>Booking_Expiry\<close> (\<open>booking-expiry.service.ts\<close>,
      \<open>booking-availability.service.ts\<close>), \<open>Booking_Act\<close> (\<open>booking-act.service.ts\<close>), \<open>Deposit_Service\<close>
      (\<open>payments/deposit.service.ts\<close>), \<open>Deposit_Processor\<close> (\<open>deposit-operation.processor.ts\<close>,
      \<open>deposit-deadline.service.ts\<close>), \<open>Safe_Deal_Provider\<close> (\<open>fake-safe-deal.provider.ts\<close>),
      \<open>Dispute_Service\<close> (\<open>dispute.service.ts\<close>).
    \<^item> \<open>Calendar\<close> and \<open>Deposit_Ledger\<close>: two abstract machines. The calendar holds the bookings, the
      owners' unavailable periods and the history; the ledger holds the deposits and their
      operations. Each has an inductive step relation and an invariant by rule induction.
    \<^item> \<open>Booking_Refinement\<close>, \<open>Deposit_Refinement\<close>, \<open>Dispute_Refinement\<close>: every command of the
      services is simulated by steps of the two machines. \<open>Marketplace\<close>: the commands as a datatype,
      a system step that is a command or a change of unrelated tables, and reachable states.

  People and their content.
    \<^item> \<open>Notifications\<close> (\<open>booking/booking-outbox.processor.ts\<close> and the push services), \<open>Inbox\<close>
      (\<open>booking/inbox.service.ts\<close>), \<open>Booking_Messages\<close> (\<open>booking/booking-message.service.ts\<close>),
      \<open>Users_Service\<close> (\<open>users/users.service.ts\<close>), \<open>Reviews\<close> (\<open>reviews/reviews.service.ts\<close>), \<open>Support\<close>
      (\<open>support/support.service.ts\<close>), \<open>Data_Export\<close> (\<open>users/user-data-export.service.ts\<close>).
    \<^item> \<open>Auth\<close> (\<open>auth/\<close>): one-time codes, tokens, sessions and guards. \<open>Uploads\<close>, \<open>Upload_Processing\<close>
      (\<open>upload/\<close>): intents, confirmation, evidence, the worker and the cleanup.
    \<^item> \<open>Item_Location\<close>, \<open>Items\<close>, \<open>Item_Search\<close> (\<open>items/items.service.ts\<close>): public places, the owners'
      commands, and the search. \<open>Categories\<close> (\<open>categories/categories.service.ts\<close>).

  Operators.
    \<^item> \<open>Moderation\<close> (\<open>admin/admin.service.ts\<close>), \<open>Reports\<close> (\<open>reports/reports.service.ts\<close>), \<open>Admin_Totp\<close>,
      \<open>Admin_Mfa\<close>, \<open>Admin_Session\<close> (\<open>admin/admin-totp.ts\<close>, \<open>admin-mfa.service.ts\<close>,
      \<open>admin-session.service.ts\<close>, \<open>admin-session.guard.ts\<close>), \<open>First_Admin\<close>
      (\<open>admin/first-admin-bootstrap.ts\<close>).
    \<^item> \<open>Operator_Client\<close> (\<open>operator/src/api.ts\<close> and the cookies of \<open>admin-session.controller.ts\<close>),
      \<open>Operator_Console\<close> (\<open>operator/src/App.tsx\<close>): the requests of the console, its login flow, what
      it keeps in memory, its checks, the order of the queue and the amounts of a decision.

  The server itself and its operations.
    \<^item> \<open>Http_Setup\<close> (\<open>app.setup.ts\<close>, \<open>app.service.ts\<close>, \<open>common/filters\<close>): settings, gates, readiness and
      the answers to exceptions. \<open>Log_Redaction\<close> (\<open>common/logging\<close>), \<open>Metrics\<close> (\<open>observability\<close>).
    \<^item> \<open>Backup\<close>, \<open>Restore\<close> (\<open>operations/\<close>): the encrypted backup with its retention, and the two drills.

  Correspondence. A command of a service is one function. A transaction takes the database and
  returns \<open>Inl\<close> the exception, which stands for the rollback, or \<open>Inr\<close> the new database with the
  response; commands that also write to Redis or to the storage, which no rollback undoes, return
  the new state beside the result (what a request that then fails has written to the object storage
  is not kept). Long methods are cut into guards (early throws) and effects (writes), which the
  command composes in the order of the code. \<open>orderBy\<close> is a stable sort.
  Serializable isolation and the row locks of the code are modelled by running transactions one
  after the other; a worker that leaves its transaction to call a provider does so here too. The
  commands of the help desk have no such protection: their checks and their writes are separate
  definitions, and C22 is about every interleaving of them.
  Identifiers come from a supply that never repeats. Texts shown to users are ASCII tags, and the
  characters of strings are those of Latin-1. The console handles one event after the other.

  Assumptions. What lies outside the repository is an argument: clocks, random values, hashes (SHA-256,
  bcrypt, HMAC), AES-GCM, the signing of tokens, the image library, PostGIS distances and
  the \<open>contains\<close> filter of the database client, the URL parser, the PostgreSQL programs and the outcome of requests to a
  storage. What a result uses of them is a named predicate of documented behaviour: \<open>jwt_laws\<close>,
  \<open>codec_laws\<close>, \<open>gcm_laws\<close>, \<open>contains_law\<close>, \<open>slash_free_ids\<close>; each has an instance in a witness. An
  audit row is kept without the metadata of its request; three timestamp columns that only the
  export reads are columns of its argument \<open>export_env\<close>.

  What the lemmas show, by the numbers of the claims.
    \<^item> C1 to C5: invariants of every reachable state of bookings and deposits, whatever the order of
      the commands, with the refinement they rest on.
    \<^item> C6 to C13: single commands of the booking service, its parsers, tables and the terms snapshot.
    \<^item> C14 to C24: delivery exactly once, complete reading of the inbox, guarded messages, blocks and
      closures of accounts, reviews, the help desk, and uploads. \<open>Notification_Properties\<close>,
      \<open>Communication_Properties\<close>, \<open>Account_Properties\<close>, \<open>Review_Properties\<close>, \<open>Support_Properties\<close>,
      \<open>Upload_Properties\<close>.
    \<^item> C25 to C27: lockout, single use of refresh tokens, and the login (\<open>Auth_Properties\<close>).
    \<^item> C28 to C34: what the public answers and a user's export disclose, the search against its
      specification, and that nothing is published without an approval (\<open>Item_Properties\<close>,
      \<open>Moderation_Properties\<close>, \<open>Data_Export_Properties\<close>).
    \<^item> C35 to C40: backups, the operators' second factor and guard, and the console against the server
      (\<open>Operations_Properties\<close>, \<open>Admin_Properties\<close>, \<open>Operator_Properties\<close>, \<open>Console_Properties\<close>).
    \<^item> Named theorems besides: the gates, settings, readiness and opaque errors of the server
      (\<open>Http_Properties\<close>), the histogram (\<open>Metrics\<close>), the first operator (\<open>First_Admin\<close>), the
      confidentiality and termination of the redaction (\<open>Log_Redaction\<close>), the drills
      (\<open>Operations_Properties\<close>), amounts and queue of the console (\<open>Console_Properties\<close>).
    \<^item> \<open>Sample_Data\<close>, \<open>Sample_Run\<close>: a concrete run from the first request to the settled dispute,
      evaluated in the kernel; the witnesses of C1 to C5 rest on it.

  Bounds and fuel. Loops run over lists, stop at a batch size that is a constant of the code, or have
  a measure: the retention loop the number of keys after its token, the replacement of a pattern the
  rest of the text. Fuel occurs twice: the redaction of a graph of objects spends it on objects
  visited for the first time, so the number of objects is enough (\<open>redaction_terminates\<close>), and a
  repetition in a pattern has as many rounds as characters are left, since a round that reads
  nothing ends it.

  Simplifications. An update of a deposit operation does not check that the provider's identifier is
  new. The comparison of texts without case folds ASCII letters. Requests of a backup run have one
  outcome per kind and destination. The constant section on processing is left out of the export,
  and so is a failure of the image queue after a photo is confirmed. Cookie values are kept raw:
  encoding them changes none of the Base64url characters of the identifiers. The strings that
  ECMAScript leaves to the implementation are no dates (see \<open>Booking_Period\<close>).

  Not modelled. Controllers other than the session cookies and the capabilities that the operators'
  handlers demand, the validation decorators of the request types and the modules: declarations
  that the framework interprets. Timers that start the jobs.
  The seeds of test data, the release and deployment scripts (\<open>scripts/\<close>), which drive other
  programs, the public site, which only renders, and the Flutter client, another language.
\<close>

section \<open>Reachable states\<close>

text \<open>
  C1. No double booking: in every state the marketplace reaches, two different confirmed,
  active or returned bookings of one item never share a day, and none of them covers a day
  that the owner has marked as unavailable.
\<close>

theorem reachable_no_double_booking:
  assumes "reachable su w"
  shows "(\<forall>a \<in> set (db_bookings (w_db w)). \<forall>b \<in> set (db_bookings (w_db w)).
      is_reserved a \<and> is_reserved b \<and> bk_itemId a = bk_itemId b \<and> bk_id a \<noteq> bk_id b \<longrightarrow>
        bk_endDate a < bk_startDate b \<or> bk_endDate b < bk_startDate a)
    \<and> (\<forall>a \<in> set (db_bookings (w_db w)). \<forall>u \<in> set (db_unavailable (w_db w)).
      is_reserved a \<and> un_itemId u = bk_itemId a \<longrightarrow>
        bk_endDate a < un_startDate u \<or> un_endDate u < bk_startDate a)"
proof -
  have ok: "no_double_booking (db_bookings (w_db w))" "reserved_available (db_bookings (w_db w)) (db_unavailable (w_db w))"
    using reachable_ok [OF assms] by (simp_all add: db_ok_def calendar_ok_def calendar_of_def)
  show ?thesis
    using no_double_bookingD [OF ok(1)] reserved_availableD [OF ok(2)] by blast
qed

theorem reachable_no_double_booking_witness:
  "\<exists>a \<in> set (db_bookings (w_db sample_end)). bk_status a = Bk_COMPLETED
     \<and> (\<forall>u \<in> set (db_unavailable (w_db sample_end)). is_reserved a \<and> un_itemId u = bk_itemId a \<longrightarrow>
        bk_endDate a < un_startDate u \<or> un_endDate u < bk_startDate a)"
  using reachable_no_double_booking [OF sample_reachable] sample_booking_completed by metis

text \<open>
  C3. The history of every booking is a path of the workflow contract: it starts with the
  creation, each entry continues the one before it by a transition that the contract allows
  to the actor who made it, and the last one leads to the booking's current status. It has
  one to five entries.
\<close>

theorem reachable_history:
  assumes "reachable su w" and "b \<in> set (db_bookings (w_db w))"
  shows "history_chain None (history_of (bk_id b) (db_history (w_db w))) (Some (bk_status b))
    \<and> length (history_of (bk_id b) (db_history (w_db w))) \<in> {1..5}"
proof -
  have ok: "history_ok (calendar_of (w_db w))" using reachable_ok [OF assms(1)] by (simp add: db_ok_def)
  have b: "b \<in> set (cal_bookings (calendar_of (w_db w)))" using assms(2) by (simp add: calendar_of_def)
  obtain n where "length (history_of (bk_id b) (cal_history (calendar_of (w_db w)))) = Suc n" "n \<le> 4"
    by (rule history_ok_path [OF ok b])
  moreover have "history_chain None (history_of (bk_id b) (cal_history (calendar_of (w_db w)))) (Some (bk_status b))"
    using ok b unfolding history_ok_def by blast
  ultimately show ?thesis by (simp add: calendar_of_def)
qed

theorem reachable_history_witness:
  "\<exists>b \<in> set (db_bookings (w_db sample_end)). bk_status b = Bk_COMPLETED
     \<and> history_chain None (history_of (bk_id b) (db_history (w_db sample_end))) (Some Bk_COMPLETED)"
  using reachable_history [OF sample_reachable] sample_booking_completed by metis

text \<open>
  C2. Deposits are conserved: what a deposit has refunded and released is exactly the sum of
  its successful refund and release operations, together never more than the deposit; it is
  the whole deposit once the deposit is resolved, and nothing before the settlement starts.
\<close>

theorem reachable_deposit_conserved:
  assumes "reachable su w" and "d \<in> set (db_deposits (w_db w))"
  shows "dep_refundedAmount d = (\<Sum>x \<leftarrow> filter (\<lambda>x. op_depositId x = dep_id d \<and> op_kind x = Op_REFUND
            \<and> op_status x = Ops_SUCCEEDED) (db_operations (w_db w)). op_amount x)
    \<and> dep_releasedToLenderAmount d = (\<Sum>x \<leftarrow> filter (\<lambda>x. op_depositId x = dep_id d \<and> op_kind x = Op_RELEASE_TO_LENDER
            \<and> op_status x = Ops_SUCCEEDED) (db_operations (w_db w)). op_amount x)
    \<and> dep_refundedAmount d + dep_releasedToLenderAmount d \<le> dep_amount d
    \<and> (dep_status d = Dep_RESOLVED \<longrightarrow> dep_refundedAmount d + dep_releasedToLenderAmount d = dep_amount d)
    \<and> (dep_status d \<notin> {Dep_RESOLVING, Dep_RESOLVED} \<longrightarrow> dep_refundedAmount d = 0 \<and> dep_releasedToLenderAmount d = 0)"
proof -
  have "conserved (db_operations (w_db w)) d"
    using reachable_ok [OF assms(1)] assms(2) by (simp add: db_ok_def ledger_ok_def ledger_of_def)
  then show ?thesis
    unfolding conserved_def deposit_amounts_ok_def settled_filter by blast
qed

theorem reachable_deposit_conserved_witness:
  "\<exists>d \<in> set (db_deposits (w_db sample_end)). dep_status d = Dep_RESOLVED \<and> dep_refundedAmount d = 500
     \<and> dep_releasedToLenderAmount d = 1500 \<and> dep_amount d = 2000"
proof -
  obtain d where d: "d \<in> set (db_deposits (w_db sample_end))" "dep_status d = Dep_RESOLVED"
    "dep_refundedAmount d = 500" "dep_releasedToLenderAmount d = 1500"
    by (rule sample_deposit_split)
  with reachable_deposit_conserved [OF sample_reachable d(1)] show ?thesis by auto
qed

text \<open>
  C4. A deposit only moves forward: whatever commands run in between, a deposit of a reachable
  state is still there later, of the same booking and amount, its status reached along the
  allowed transitions, and neither of its two settled amounts has shrunk.
\<close>

theorem deposit_moves_forward:
  assumes "reachable su v" and "system_steps su v w" and "d \<in> set (db_deposits (w_db v))"
  shows "\<exists>e \<in> set (db_deposits (w_db w)). dep_id e = dep_id d \<and> dep_bookingId e = dep_bookingId d
     \<and> dep_amount e = dep_amount d \<and> deposit_edge\<^sup>*\<^sup>* (dep_status d) (dep_status e)
     \<and> dep_refundedAmount d \<le> dep_refundedAmount e \<and> dep_releasedToLenderAmount d \<le> dep_releasedToLenderAmount e"
proof -
  have ok: "db_ok (w_db v)" by (rule reachable_ok [OF assms(1)])
  then have "ledger_steps (ledger_of (w_db v)) (ledger_of (w_db w))"
    using system_steps_refine [OF assms(2)] by (simp add: refines_def)
  then have "deposit_path (led_deposits (ledger_of (w_db v))) (led_deposits (ledger_of (w_db w)))"
    using ok by (intro ledger_steps_path) (simp_all add: db_ok_def)
  then show ?thesis using assms(3) by (simp add: deposit_path_def ledger_of_def)
qed

theorem deposit_moves_forward_witness:
  "\<exists>d \<in> set (db_deposits (w_db sample_end)).
     \<exists>e \<in> set (db_deposits (w_db (exec sample_server (Run_deadlines 0) sample_end))).
       dep_status d = Dep_RESOLVED \<and> dep_id e = ''ii'' \<and> deposit_edge\<^sup>*\<^sup>* Dep_RESOLVED (dep_status e)"
proof -
  obtain d where d: "d \<in> set (db_deposits (w_db sample_end))" "dep_id d = ''ii''" "dep_status d = Dep_RESOLVED"
    by (rule sample_deposit_split)
  have "system_steps sample_server sample_end (exec sample_server (Run_deadlines 0) sample_end)"
    by (rule r_into_rtranclp) (rule system_step.command)
  from deposit_moves_forward [OF sample_reachable this d(1)] d show ?thesis by metis
qed

text \<open>
  C5. Every command refines the abstract machines: whatever a reachable state and a command,
  the bookings, the owners' calendars and the history move by steps of the calendar, and the
  deposits and their operations by steps of the ledger.
\<close>

theorem commands_refine:
  assumes "reachable su w"
  shows "calendar_steps (calendar_of (w_db w)) (calendar_of (w_db (exec su c w)))
    \<and> ledger_steps (ledger_of (w_db w)) (ledger_of (w_db (exec su c w)))"
  using exec_refines [OF reachable_ok [OF assms]] by (simp add: refines_def db_sim_def)

theorem commands_refine_witness:
  "calendar_steps (calendar_of (w_db sample_end))
     (calendar_of (w_db (exec sample_server (Create_booking ''B'' sample_dto ''r9'' ''2026-09-02'' SAMPLE_NOW) sample_end)))"
  using commands_refine [OF sample_reachable] by blast

end
